(* ===== verification/Prelude.thy ===== *)
theory Prelude
  imports Main "HOL-Library.List_Lexorder" "HOL-Library.Char_ord" "HOL-Library.Sublist"
begin

text \<open>
  What every component shares: errors as values, the result monad in which a Go function
  that returns \<open>(T, error)\<close> is written, Go maps as association lists kept in key order,
  and the collections of facts the component proofs use.

  Strings are byte strings (\<open>char\<close> is one byte), as in Go; \<open>len\<close> is \<open>length\<close>, and the
  order on strings is the bytewise lexicographic one of \<open>sort.Strings\<close>.
\<close>

section \<open>Named collections of facts\<close>

named_theorems result_iff \<open>when a computation in the result monad succeeds\<close>
named_theorems gomap_simps \<open>reading a Go map after an update\<close>

section \<open>Errors and results\<close>

text \<open>
  An error carries the head of the message the code builds: the path of the specification
  field it names, or a short reason where the message names no field.
  \<^theory_text>\<open>in_field\<close> is the code's \<open>fmt.Errorf("%s: %w", field, err)\<close>.
\<close>

datatype error = Err string

type_synonym 'a result = "error + 'a"

definition bindE :: "'a result \<Rightarrow> ('a \<Rightarrow> 'b result) \<Rightarrow> 'b result" where
  "bindE m f = (case m of Inl e \<Rightarrow> Inl e | Inr x \<Rightarrow> f x)"

definition andE :: "unit result \<Rightarrow> 'b result \<Rightarrow> 'b result" where
  "andE m k = bindE m (\<lambda>_. k)"

fun checks :: "(bool \<times> string) list \<Rightarrow> unit result" where
  "checks [] = Inr ()"
| "checks ((bad, msg) # cs) = (if bad then Inl (Err msg) else checks cs)"

fun in_field :: "string \<Rightarrow> 'a result \<Rightarrow> 'a result" where
  "in_field f (Inl (Err m)) = Inl (Err (f @ '': '' @ m))"
| "in_field f (Inr x) = Inr x"

text \<open>\<open>fmt.Errorf("%s.%w", field, err)\<close>\<close>

fun in_path :: "string \<Rightarrow> 'a result \<Rightarrow> 'a result" where
  "in_path f (Inl (Err m)) = Inl (Err (f @ ''.'' @ m))"
| "in_path f (Inr x) = Inr x"

fun forE :: "('a \<Rightarrow> unit result) \<Rightarrow> 'a list \<Rightarrow> unit result" where
  "forE f [] = Inr ()"
| "forE f (x # xs) = andE (f x) (forE f xs)"

fun mapE :: "('a \<Rightarrow> 'b result) \<Rightarrow> 'a list \<Rightarrow> 'b list result" where
  "mapE f [] = Inr []"
| "mapE f (x # xs) = bindE (f x) (\<lambda>y. bindE (mapE f xs) (\<lambda>ys. Inr (y # ys)))"

fun foldE :: "('s \<Rightarrow> 'a \<Rightarrow> 's result) \<Rightarrow> 's \<Rightarrow> 'a list \<Rightarrow> 's result" where
  "foldE f s [] = Inr s"
| "foldE f s (x # xs) = bindE (f s x) (\<lambda>t. foldE f t xs)"

definition is_ok :: "'a result \<Rightarrow> bool" where
  "is_ok r = (case r of Inl _ \<Rightarrow> False | Inr _ \<Rightarrow> True)"

lemma bindE_simps [simp]: "bindE (Inr x) f = f x" "bindE (Inl e) f = Inl e"
  by (simp_all add: bindE_def)

lemma andE_simps [simp]: "andE (Inr u) k = k" "andE (Inl e) k = Inl e"
  by (simp_all add: andE_def)

lemma bindE_cong [fundef_cong]:
  "m = m' \<Longrightarrow> (\<And>x. m' = Inr x \<Longrightarrow> f x = g x) \<Longrightarrow> bindE m f = bindE m' g"
  by (cases m') simp_all

lemma bindE_assoc: "bindE (bindE m f) g = bindE m (\<lambda>x. bindE (f x) g)"
  by (cases m) simp_all

lemma is_ok_iff: "is_ok r \<longleftrightarrow> (\<exists>x. r = Inr x)"
  by (cases r) (simp_all add: is_ok_def)

lemma bindE_Inr [result_iff]: "bindE m f = Inr y \<longleftrightarrow> (\<exists>x. m = Inr x \<and> f x = Inr y)"
  by (cases m) simp_all

lemma andE_Inr [result_iff]: "andE m k = Inr y \<longleftrightarrow> m = Inr () \<and> k = Inr y"
  by (cases m) simp_all

lemma checks_Cons_Inr [result_iff]:
  "checks ((bad, msg) # cs) = Inr u \<longleftrightarrow> \<not> bad \<and> checks cs = Inr u"
  by simp

lemma checks_Nil_Inr [result_iff]: "checks [] = Inr u \<longleftrightarrow> True"
  by simp

lemma checks_append: "checks (xs @ ys) = andE (checks xs) (checks ys)"
  by (induction xs rule: checks.induct) auto

lemma in_field_Inr [result_iff, simp]: "in_field f r = Inr y \<longleftrightarrow> r = Inr y"
  by (cases "(f, r)" rule: in_field.cases) simp_all

lemma in_path_Inr [result_iff, simp]: "in_path f r = Inr y \<longleftrightarrow> r = Inr y"
  by (cases "(f, r)" rule: in_path.cases) simp_all

lemma forE_Inr [result_iff]: "forE f xs = Inr u \<longleftrightarrow> (\<forall>x \<in> set xs. f x = Inr ())"
  by (induction xs) (auto simp: result_iff)

lemma mapE_Inr [result_iff]: "mapE f xs = Inr ys \<longleftrightarrow> list_all2 (\<lambda>x y. f x = Inr y) xs ys"
  by (induction xs arbitrary: ys) (auto simp: result_iff list_all2_Cons1)

lemma mapE_length: "mapE f xs = Inr ys \<Longrightarrow> length ys = length xs"
  by (auto simp: result_iff dest: list_all2_lengthD)

lemma mapE_id: "(\<And>x. x \<in> set xs \<Longrightarrow> f x = Inr x) \<Longrightarrow> mapE f xs = Inr xs"
  by (induction xs) auto

lemma if_Inl_Inr [result_iff]: "(if b then Inl e else r) = Inr y \<longleftrightarrow> \<not> b \<and> r = Inr y"
  by simp

lemma Inl_Inr_result [result_iff]: "Inl e = (Inr y :: 'a result) \<longleftrightarrow> False"
  by simp

lemma foldE_append: "foldE f s (xs @ ys) = bindE (foldE f s xs) (\<lambda>t. foldE f t ys)"
proof (induction xs arbitrary: s)
  case (Cons x xs)
  then show ?case by (cases "f s x") auto
qed simp

text \<open>An invariant that every step of a loop keeps holds of its result.\<close>

lemma foldE_invariant:
  assumes "foldE f s xs = Inr t" and "P s"
    and "\<And>s x t. x \<in> set xs \<Longrightarrow> P s \<Longrightarrow> f s x = Inr t \<Longrightarrow> P t"
  shows "P t"
  using assms
proof (induction xs arbitrary: s)
  case (Cons x xs)
  then obtain u where u: "f s x = Inr u" "foldE f u xs = Inr t"
    by (auto simp: result_iff)
  with Cons.prems have "P u" by (auto intro: Cons.prems(3))
  with Cons.IH [OF u(2)] Cons.prems(3) show ?case by auto
qed auto

lemma list_all2_right: "list_all2 P xs ys \<Longrightarrow> y \<in> set ys \<Longrightarrow> \<exists>x \<in> set xs. P x y"
  by (induction rule: list_all2_induct) auto

section \<open>Defaults\<close>

text \<open>\<open>if v == 0 { v = d }\<close>\<close>

definition or_default :: "int \<Rightarrow> int \<Rightarrow> int" where
  "or_default v d = (if v = 0 then d else v)"

lemma or_default_nonzero [simp]: "v \<noteq> 0 \<Longrightarrow> or_default v d = v"
  by (simp add: or_default_def)

lemma or_default_idem [simp]: "or_default (or_default v d) d = or_default v d"
  by (simp add: or_default_def)

section \<open>Lengths\<close>

text \<open>Go's \<open>len\<close>, an \<open>int\<close>.\<close>

fun len :: "'a list \<Rightarrow> int" where
  "len [] = 0"
| "len (x # xs) = len xs + 1"

lemma len_length: "len xs = int (length xs)"
  by (induction xs) auto

lemma len_nonneg [simp]: "0 \<le> len xs"
  by (simp add: len_length)

lemma len_append [simp]: "len (xs @ ys) = len xs + len ys"
  by (simp add: len_length)

lemma len_map [simp]: "len (map f xs) = len xs"
  by (simp add: len_length)

lemma len_zero [simp]: "len xs = 0 \<longleftrightarrow> xs = []"
  by (simp add: len_length)

lemma len_pos [simp]: "0 < len xs \<longleftrightarrow> xs \<noteq> []"
  by (simp add: len_length)

lemma sort_Nil [simp]: "sort xs = [] \<longleftrightarrow> xs = []"
  by (metis set_empty set_sort)

lemma len_sort [simp]: "len (sort xs) = len xs"
  by (simp add: len_length)

section \<open>Duplicates, as the code detects them with a \<open>seen\<close> map\<close>

fun first_dup :: "'a list \<Rightarrow> 'a list \<Rightarrow> bool" where
  "first_dup seen [] = False"
| "first_dup seen (x # xs) = (x \<in> set seen \<or> first_dup (x # seen) xs)"

lemma first_dup_distinct: "first_dup seen xs \<longleftrightarrow> \<not> (distinct xs \<and> set xs \<inter> set seen = {})"
  by (induction seen xs rule: first_dup.induct) auto

section \<open>Go maps with string keys\<close>

text \<open>
  A Go map is an association list in strictly increasing key order, so that two maps are
  equal exactly when they hold the same entries (\<open>reflect.DeepEqual\<close>). A nil map and an
  empty one are identified. A \<open>range\<close> over a map visits the entries in this order; the
  code's order is unspecified, which affects which of several errors is reported first and
  never whether one is.
\<close>

type_synonym 'v gomap = "(string \<times> 'v) list"

definition gm_wf :: "'v gomap \<Rightarrow> bool" where
  "gm_wf m \<longleftrightarrow> sorted_wrt (<) (map fst m)"

abbreviation gm_get :: "'v gomap \<Rightarrow> string \<Rightarrow> 'v option" where
  "gm_get m k \<equiv> map_of m k"

definition gm_keys :: "'v gomap \<Rightarrow> string list" where
  "gm_keys m = map fst m"

definition gm_has :: "'v gomap \<Rightarrow> string \<Rightarrow> bool" where
  "gm_has m k = (gm_get m k \<noteq> None)"

fun gm_set :: "string \<Rightarrow> 'v \<Rightarrow> 'v gomap \<Rightarrow> 'v gomap" where
  "gm_set k v [] = [(k, v)]"
| "gm_set k v ((k', v') # m) =
     (if k < k' then (k, v) # (k', v') # m
      else if k = k' then (k, v) # m
      else (k', v') # gm_set k v m)"

definition gm_del :: "string \<Rightarrow> 'v gomap \<Rightarrow> 'v gomap" where
  "gm_del k m = filter (\<lambda>p. fst p \<noteq> k) m"

text \<open>\<open>for k, v := range src { dst[k] = v }\<close> and \<open>for k := range src { delete(dst, k) }\<close>.\<close>

definition gm_set_all :: "'v gomap \<Rightarrow> 'v gomap \<Rightarrow> 'v gomap" where
  "gm_set_all src dst = fold (\<lambda>(k, v). gm_set k v) src dst"

definition gm_del_all :: "string list \<Rightarrow> 'v gomap \<Rightarrow> 'v gomap" where
  "gm_del_all ks dst = fold gm_del ks dst"

definition gm_of_list :: "(string \<times> 'v) list \<Rightarrow> 'v gomap" where
  "gm_of_list ps = fold (\<lambda>(k, v). gm_set k v) ps []"

lemma gm_wf_Nil [simp, intro]: "gm_wf []"
  by (simp add: gm_wf_def)

lemma gm_wf_Cons: "gm_wf ((k, v) # m) \<longleftrightarrow> (\<forall>k' \<in> fst ` set m. k < k') \<and> gm_wf m"
  by (auto simp: gm_wf_def)

lemma gm_keys_simps [simp]: "gm_keys [] = []" "gm_keys (p # m) = fst p # gm_keys m"
  by (simp_all add: gm_keys_def)

lemma set_gm_keys: "set (gm_keys m) = dom (gm_get m)"
  by (simp add: gm_keys_def dom_map_of_conv_image_fst)

lemma gm_has_keys: "gm_has m k \<longleftrightarrow> k \<in> set (gm_keys m)"
  by (auto simp: gm_has_def set_gm_keys)

lemma gm_keys_distinct: "gm_wf m \<Longrightarrow> distinct (gm_keys m)"
  by (simp add: gm_wf_def gm_keys_def strict_sorted_iff)

lemma gm_keys_sorted: "gm_wf m \<Longrightarrow> sorted (gm_keys m)"
  by (simp add: gm_wf_def gm_keys_def strict_sorted_iff)

lemma gm_get_in: "gm_wf m \<Longrightarrow> gm_get m k = Some v \<longleftrightarrow> (k, v) \<in> set m"
  using gm_keys_distinct [of m] by (auto simp: gm_keys_def intro: map_of_is_SomeI dest: map_of_SomeD)

lemma keys_gm_set: "fst ` set (gm_set k v m) = insert k (fst ` set m)"
  by (induction k v m rule: gm_set.induct) auto

lemma gm_wf_set [simp, intro]: "gm_wf m \<Longrightarrow> gm_wf (gm_set k v m)"
  by (induction k v m rule: gm_set.induct) (auto simp: gm_wf_Cons keys_gm_set)

lemma gm_get_set [gomap_simps, simp]: "gm_get (gm_set k v m) = (gm_get m)(k \<mapsto> v)"
  by (induction k v m rule: gm_set.induct) auto

lemma gm_wf_del [simp, intro]: "gm_wf m \<Longrightarrow> gm_wf (gm_del k m)"
  unfolding gm_wf_def gm_del_def by (induction m) auto

lemma gm_get_del [gomap_simps, simp]: "gm_get (gm_del k m) = (gm_get m)(k := None)"
  unfolding gm_del_def by (induction m) auto

text \<open>Two Go maps in normal form are equal when every key reads the same.\<close>

lemma gm_ext:
  assumes "gm_wf m" and "gm_wf n" and "\<And>k. gm_get m k = gm_get n k"
  shows "m = n"
proof -
  have "dom (gm_get m) = dom (gm_get n)" using assms(3) by (auto simp: dom_def)
  then have "gm_keys m = gm_keys n"
    using assms(1,2)
    by (metis gm_keys_sorted gm_keys_distinct set_gm_keys sorted_distinct_set_unique)
  then have keys: "map fst m = map fst n" by (simp add: gm_keys_def)
  have "snd (m ! i) = snd (n ! i)" if "i < length m" for i
  proof -
    from keys have len: "length m = length n" by (metis length_map)
    have "gm_get m (fst (m ! i)) = Some (snd (m ! i))"
      using that by (simp add: gm_get_in [OF assms(1)])
    moreover have "gm_get n (fst (n ! i)) = Some (snd (n ! i))"
      using that len by (simp add: gm_get_in [OF assms(2)])
    moreover have "fst (m ! i) = fst (n ! i)"
      using that len keys by (metis nth_map)
    ultimately show ?thesis using assms(3) by simp
  qed
  moreover from keys have "length m = length n" by (metis length_map)
  moreover have "fst (m ! i) = fst (n ! i)" if "i < length m" for i
    using that keys calculation(2) by (metis nth_map)
  ultimately show ?thesis by (simp add: list_eq_iff_nth_eq prod_eq_iff)
qed

lemma gm_wf_set_all [simp, intro]: "gm_wf dst \<Longrightarrow> gm_wf (gm_set_all src dst)"
  unfolding gm_set_all_def by (induction src arbitrary: dst) auto

lemma gm_wf_del_all [simp, intro]: "gm_wf dst \<Longrightarrow> gm_wf (gm_del_all ks dst)"
  unfolding gm_del_all_def by (induction ks arbitrary: dst) auto

lemma gm_wf_of_list [simp, intro]: "gm_wf (gm_of_list ps)"
  using gm_wf_set_all [of "[]" ps] by (simp add: gm_of_list_def gm_set_all_def)

lemma gm_get_del_all [gomap_simps, simp]:
  "gm_get (gm_del_all ks m) k = (if k \<in> set ks then None else gm_get m k)"
  unfolding gm_del_all_def by (induction ks arbitrary: m) auto

lemma gm_get_set_all [gomap_simps, simp]:
  "gm_wf src \<Longrightarrow> gm_get (gm_set_all src dst) k =
     (case gm_get src k of Some v \<Rightarrow> Some v | None \<Rightarrow> gm_get dst k)"
proof (induction src arbitrary: dst)
  case (Cons p src)
  obtain k' v where p: "p = (k', v)" by (cases p)
  have wf: "gm_wf src" and fresh: "k' \<notin> fst ` set src"
    using Cons.prems by (auto simp: p gm_wf_Cons)
  have "gm_get (gm_set_all (p # src) dst) k
      = (case gm_get src k of Some w \<Rightarrow> Some w | None \<Rightarrow> gm_get (gm_set k' v dst) k)"
    using Cons.IH [OF wf] by (simp add: gm_set_all_def p)
  also have "\<dots> = (case gm_get (p # src) k of Some w \<Rightarrow> Some w | None \<Rightarrow> gm_get dst k)"
    using fresh by (auto simp: p split: option.splits dest: map_of_SomeD intro: rev_image_eqI)
  finally show ?case .
qed (simp add: gm_set_all_def)

end
