(* ===== verification/Go_Strings.thy ===== *)
theory Go_Strings
  imports Prelude
begin

text \<open>
  What the code uses of Go's standard library on strings: packages \<open>strings\<close>, \<open>path\<close>,
  \<open>strconv\<close>, \<open>unicode\<close>, and the character classes of its regular expressions, each
  translated to a predicate. Strings hold valid UTF-8, as the TOML and JSON decoders deliver
  them; white space and control characters outside ASCII are recognised by their UTF-8 bytes.
\<close>

section \<open>Characters\<close>

definition code :: "char \<Rightarrow> nat" where
  "code c = of_char c"

definition is_lower :: "char \<Rightarrow> bool" where
  "is_lower c \<longleftrightarrow> 97 \<le> code c \<and> code c \<le> 122"

definition is_upper :: "char \<Rightarrow> bool" where
  "is_upper c \<longleftrightarrow> 65 \<le> code c \<and> code c \<le> 90"

definition is_digit :: "char \<Rightarrow> bool" where
  "is_digit c \<longleftrightarrow> 48 \<le> code c \<and> code c \<le> 57"

definition is_alpha :: "char \<Rightarrow> bool" where
  "is_alpha c \<longleftrightarrow> is_lower c \<or> is_upper c"

definition is_alnum :: "char \<Rightarrow> bool" where
  "is_alnum c \<longleftrightarrow> is_alpha c \<or> is_digit c"

definition is_hex_lower :: "char \<Rightarrow> bool" where
  "is_hex_lower c \<longleftrightarrow> is_digit c \<or> (97 \<le> code c \<and> code c \<le> 102)"

definition is_name_char :: "char \<Rightarrow> bool" where
  "is_name_char c \<longleftrightarrow> is_lower c \<or> is_digit c \<or> c = CHR ''-''"

definition NUL :: char where "NUL = char_of (0::nat)"
definition CR :: char where "CR = char_of (13::nat)"
definition LF :: char where "LF = char_of (10::nat)"
definition TAB :: char where "TAB = char_of (9::nat)"

definition to_upper_char :: "char \<Rightarrow> char" where
  "to_upper_char c = (if is_lower c then char_of (code c - 32) else c)"

definition to_lower_char :: "char \<Rightarrow> char" where
  "to_lower_char c = (if is_upper c then char_of (code c + 32) else c)"

definition ToUpper :: "string \<Rightarrow> string" where
  "ToUpper s = map to_upper_char s"

definition ToLower :: "string \<Rightarrow> string" where
  "ToLower s = map to_lower_char s"

lemma length_ToUpper [simp]: "length (ToUpper s) = length s"
  by (simp add: ToUpper_def)

lemma length_ToLower [simp]: "length (ToLower s) = length s"
  by (simp add: ToLower_def)

lemma code_bound: "code c < 256"
  using range_nat_of_char by (auto simp: code_def)

lemma code_char_of [simp]: "n < 256 \<Longrightarrow> code (char_of n) = n"
  by (simp add: code_def take_bit_eq_mod)

lemma char_of_code [simp]: "char_of (code c) = c"
  by (simp add: code_def)

lemma code_eq_iff [simp]: "code c = code d \<longleftrightarrow> c = d"
  by (simp add: code_def)

lemma to_upper_not_lower: "\<not> is_lower (to_upper_char c)"
  using code_bound [of c] by (auto simp: to_upper_char_def is_lower_def)

lemma to_upper_idem [simp]: "to_upper_char (to_upper_char c) = to_upper_char c"
  using to_upper_not_lower [of c] by (simp add: to_upper_char_def [of "to_upper_char c"])

lemma to_lower_not_upper: "\<not> is_upper (to_lower_char c)"
  by (auto simp: to_lower_char_def is_upper_def)

lemma to_lower_idem [simp]: "to_lower_char (to_lower_char c) = to_lower_char c"
  using to_lower_not_upper [of c] by (simp add: to_lower_char_def [of "to_lower_char c"])

lemma ToUpper_idem [simp]: "ToUpper (ToUpper s) = ToUpper s"
  by (simp add: ToUpper_def)

lemma ToLower_idem [simp]: "ToLower (ToLower s) = ToLower s"
  by (simp add: ToLower_def)

section \<open>Package strings\<close>

abbreviation HasPrefix :: "string \<Rightarrow> string \<Rightarrow> bool" where
  "HasPrefix s p \<equiv> prefix p s"

abbreviation HasSuffix :: "string \<Rightarrow> string \<Rightarrow> bool" where
  "HasSuffix s p \<equiv> suffix p s"

abbreviation Contains :: "string \<Rightarrow> string \<Rightarrow> bool" where
  "Contains s p \<equiv> sublist p s"

definition ContainsAny :: "string \<Rightarrow> string \<Rightarrow> bool" where
  "ContainsAny s cs = list_ex (\<lambda>c. c \<in> set cs) s"

definition IndexByte :: "string \<Rightarrow> char \<Rightarrow> bool" where
  "IndexByte s c = (c \<in> set s)"

definition Cut :: "string \<Rightarrow> char \<Rightarrow> string \<times> string \<times> bool" where
  "Cut s c = (takeWhile (\<lambda>d. d \<noteq> c) s, drop 1 (dropWhile (\<lambda>d. d \<noteq> c) s), c \<in> set s)"

fun Split :: "char \<Rightarrow> string \<Rightarrow> string list" where
  "Split c [] = [[]]"
| "Split c (d # s) =
     (if d = c then [] # Split c s
      else (case Split c s of [] \<Rightarrow> [[d]] | w # ws \<Rightarrow> (d # w) # ws))"

fun Join :: "char \<Rightarrow> string list \<Rightarrow> string" where
  "Join c [] = []"
| "Join c [w] = w"
| "Join c (w # ws) = w @ c # Join c ws"

lemma Split_not_Nil [simp]: "Split c s \<noteq> []"
  by (induction c s rule: Split.induct) (auto split: list.splits)

lemma Join_Split [simp]: "Join c (Split c s) = s"
proof (induction c s rule: Split.induct)
  case (2 c d s)
  show ?case
  proof (cases "Split c s")
    case Nil
    then show ?thesis by simp
  next
    case (Cons w ws)
    with 2 show ?thesis by (cases ws) auto
  qed
qed simp

lemma Split_no_sep: "c \<notin> set w \<Longrightarrow> Split c w = [w]"
  by (induction w) auto

lemma Split_append_sep: "c \<notin> set w \<Longrightarrow> Split c (w @ c # s) = w # Split c s"
  by (induction w) auto

lemma Split_parts: "w \<in> set (Split c s) \<Longrightarrow> c \<notin> set w"
proof (induction c s arbitrary: w rule: Split.induct)
  case (2 c d s)
  then show ?case by (cases "Split c s") (auto split: if_splits)
qed simp

lemma Split_Join:
  "ws \<noteq> [] \<Longrightarrow> \<forall>w \<in> set ws. c \<notin> set w \<Longrightarrow> Split c (Join c ws) = ws"
proof (induction c ws rule: Join.induct)
  case (3 c w v vs)
  then show ?case by (simp add: Split_append_sep)
qed (simp_all add: Split_no_sep)

text \<open>\<open>strings.TrimSpace\<close>: the Unicode white space, as UTF-8 byte sequences.\<close>

definition space_seqs :: "string list" where
  "space_seqs =
     map (\<lambda>n. [char_of (n::nat)]) [9, 10, 11, 12, 13, 32]
     @ map (map (\<lambda>n. char_of (n::nat)))
         ([[194, 133], [194, 160], [225, 154, 128]]
          @ map (\<lambda>n. [226, 128, n]) [128, 129, 130, 131, 132, 133, 134, 135, 136, 137, 138, 168, 169, 175]
          @ [[226, 129, 159], [227, 128, 128]])"

definition leading_space :: "string \<Rightarrow> nat" where
  "leading_space s =
     (case find (\<lambda>w. prefix w s) space_seqs of None \<Rightarrow> 0 | Some w \<Rightarrow> length w)"

function TrimLeftSpace :: "string \<Rightarrow> string" where
  "TrimLeftSpace s =
     (let n = leading_space s in if n = 0 \<or> s = [] then s else TrimLeftSpace (drop n s))"
  by pat_completeness auto
termination
  by (relation "measure length") auto

declare TrimLeftSpace.simps [simp del]

definition trailing_space :: "string \<Rightarrow> nat" where
  "trailing_space s =
     (case find (\<lambda>w. suffix w s) space_seqs of None \<Rightarrow> 0 | Some w \<Rightarrow> length w)"

function TrimRightSpace :: "string \<Rightarrow> string" where
  "TrimRightSpace s =
     (let n = trailing_space s in
      if n = 0 \<or> s = [] then s else TrimRightSpace (take (length s - n) s))"
  by pat_completeness auto
termination
  by (relation "measure length") auto

declare TrimRightSpace.simps [simp del]

definition TrimSpace :: "string \<Rightarrow> string" where
  "TrimSpace s = TrimRightSpace (TrimLeftSpace s)"

text \<open>A text whose ends are printable ASCII characters has nothing to trim.\<close>

definition visible :: "char \<Rightarrow> bool" where
  "visible c \<longleftrightarrow> 32 < code c \<and> code c < 127"

lemma space_seqs_ends: "w \<in> set space_seqs \<Longrightarrow> w \<noteq> [] \<and> \<not> visible (hd w) \<and> \<not> visible (last w)"
proof -
  have "list_all (\<lambda>w. w \<noteq> [] \<and> \<not> visible (hd w) \<and> \<not> visible (last w)) space_seqs"
    by (simp add: space_seqs_def visible_def code_def)
  then show "w \<in> set space_seqs \<Longrightarrow> w \<noteq> [] \<and> \<not> visible (hd w) \<and> \<not> visible (last w)" by (simp add: list_all_iff)
qed

lemma leading_visible: "visible c \<Longrightarrow> leading_space (c # s) = 0"
proof -
  assume c: "visible c"
  have "\<not> prefix w (c # s)" if "w \<in> set space_seqs" for w
    using space_seqs_ends [OF that] c by (cases w) auto
  then have "find (\<lambda>w. prefix w (c # s)) space_seqs = None" by (auto simp: find_None_iff)
  then show ?thesis by (simp add: leading_space_def)
qed

lemma trailing_visible: "visible c \<Longrightarrow> trailing_space (s @ [c]) = 0"
proof -
  assume c: "visible c"
  have "\<not> suffix w (s @ [c])" if "w \<in> set space_seqs" for w
    using space_seqs_ends [OF that] c by (cases w rule: rev_cases) auto
  then have "find (\<lambda>w. suffix w (s @ [c])) space_seqs = None" by (auto simp: find_None_iff)
  then show ?thesis by (simp add: trailing_space_def)
qed

lemma TrimSpace_visible: "s \<noteq> [] \<Longrightarrow> visible (hd s) \<Longrightarrow> visible (last s) \<Longrightarrow> TrimSpace s = s"
  using leading_visible [of "hd s" "tl s"] trailing_visible [of "last s" "butlast s"]
  by (simp add: TrimSpace_def TrimLeftSpace.simps TrimRightSpace.simps)

lemma visible_letter: "is_alnum c \<Longrightarrow> visible c"
  by (auto simp: is_alnum_def is_alpha_def is_lower_def is_upper_def is_digit_def visible_def)

text \<open>\<open>len(strings.Fields(s))\<close>: the runs of characters that are not white space.\<close>

function FieldsCount :: "bool \<Rightarrow> string \<Rightarrow> int" where
  "FieldsCount inside s =
     (if s = [] then 0
      else if leading_space s \<noteq> 0 then FieldsCount False (drop (leading_space s) s)
      else (if inside then 0 else 1) + FieldsCount True (tl s))"
  by pat_completeness auto
termination
  by (relation "measure (\<lambda>(i, s). length s)") auto

declare FieldsCount.simps [simp del]

text \<open>\<open>unicode.IsControl\<close> over the runes of a string, and \<open>utf8.RuneCountInString\<close>.\<close>

fun has_control :: "string \<Rightarrow> bool" where
  "has_control [] = False"
| "has_control (c # s) =
     (code c < 32 \<or> code c = 127
      \<or> code c = 194 \<and> (case s of [] \<Rightarrow> False | d # _ \<Rightarrow> 128 \<le> code d \<and> code d \<le> 159)
      \<or> has_control s)"

definition RuneCount :: "string \<Rightarrow> nat" where
  "RuneCount s = length (filter (\<lambda>c. \<not> (128 \<le> code c \<and> code c \<le> 191)) s)"

section \<open>Numbers in decimal\<close>

function show_digits :: "int \<Rightarrow> string" where
  "show_digits n =
     (if n < 10 then [char_of (nat (48 + n))]
      else show_digits (n div 10) @ [char_of (nat (48 + n mod 10))])"
  by pat_completeness auto
termination
  by (relation "measure nat") auto

declare show_digits.simps [simp del]

definition Itoa :: "int \<Rightarrow> string" where
  "Itoa i = (if i < 0 then CHR ''-'' # show_digits (- i) else show_digits i)"

fun read_digits :: "int \<Rightarrow> string \<Rightarrow> int option" where
  "read_digits n [] = Some n"
| "read_digits n (c # s) =
     (if is_digit c then read_digits (10 * n + (int (code c) - 48)) s else None)"

text \<open>\<open>strconv.Atoi\<close> on a 64-bit machine: a sign, then digits, within 64 bits.\<close>

definition Atoi :: "string \<Rightarrow> int option" where
  "Atoi s =
     (let neg = prefix ''-'' s;
          digits = (if neg \<or> prefix ''+'' s then drop 1 s else s) in
      if digits = [] then None
      else case read_digits 0 digits of
          None \<Rightarrow> None
        | Some n \<Rightarrow>
            (let i = (if neg then - n else n) in
             if - (2 ^ 63) \<le> i \<and> i < 2 ^ 63 then Some i else None))"

lemma digit_char:
  assumes "0 \<le> d" "d < 10"
  shows "is_digit (char_of (nat (48 + d)))" and "int (code (char_of (nat (48 + d)))) - 48 = d"
proof -
  have n: "nat (48 + d) < 256" using assms by simp
  then have "code (char_of (nat (48 + d))) = nat (48 + d)" by (rule code_char_of)
  then show "is_digit (char_of (nat (48 + d)))" "int (code (char_of (nat (48 + d)))) - 48 = d"
    using assms by (auto simp: is_digit_def)
qed

lemma show_digits_not_Nil [simp]: "show_digits n \<noteq> []"
  by (subst show_digits.simps) simp

lemma show_digits_are_digits: "0 \<le> n \<Longrightarrow> \<forall>c \<in> set (show_digits n). is_digit c"
proof (induction n rule: show_digits.induct)
  case (1 n)
  show ?case
  proof (cases "n < 10")
    case True
    with 1 show ?thesis by (subst show_digits.simps) (simp add: digit_char)
  next
    case False
    with 1 show ?thesis
      by (subst show_digits.simps) (auto intro: digit_char(1))
  qed
qed

lemma read_digits_append:
  "read_digits n (xs @ ys) =
     (case read_digits n xs of None \<Rightarrow> None | Some m \<Rightarrow> read_digits m ys)"
  by (induction n xs rule: read_digits.induct) auto

lemma read_show_digits: "0 \<le> n \<Longrightarrow> read_digits 0 (show_digits n) = Some n"
proof (induction n rule: show_digits.induct)
  case (1 n)
  show ?case
  proof (cases "n < 10")
    case True
    with 1 show ?thesis by (subst show_digits.simps) (simp add: digit_char)
  next
    case False
    with 1 have "read_digits 0 (show_digits (n div 10)) = Some (n div 10)" by simp
    with False show ?thesis
      by (subst show_digits.simps) (simp add: read_digits_append digit_char)
  qed
qed

section \<open>Package path\<close>

text \<open>
  \<open>path.Clean\<close>: the segments between slashes, with empty and \<open>.\<close> segments dropped and
  each \<open>..\<close> taking away the segment before it; a rooted path drops a leading \<open>..\<close>.
\<close>

fun clean_segs :: "bool \<Rightarrow> string list \<Rightarrow> string list \<Rightarrow> string list" where
  "clean_segs rooted out [] = rev out"
| "clean_segs rooted out (w # ws) =
     (if w = [] \<or> w = ''.'' then clean_segs rooted out ws
      else if w = ''..'' then
        (case out of
           [] \<Rightarrow> clean_segs rooted (if rooted then [] else [''..'']) ws
         | v # vs \<Rightarrow> if v = ''..'' then clean_segs rooted (''..'' # out) ws
                     else clean_segs rooted vs ws)
      else clean_segs rooted (w # out) ws)"

definition PathIsAbs :: "string \<Rightarrow> bool" where
  "PathIsAbs p = HasPrefix p ''/''"

definition PathClean :: "string \<Rightarrow> string" where
  "PathClean p =
     (if p = [] then ''.''
      else
        (let rooted = PathIsAbs p;
             body = Join (CHR ''/'') (clean_segs rooted [] (Split (CHR ''/'') p)) in
         if rooted then CHR ''/'' # body
         else if body = [] then ''.'' else body))"

text \<open>\<open>path.Join\<close> of two elements: empty elements are ignored, the rest is cleaned.\<close>

definition PathJoin :: "string \<Rightarrow> string \<Rightarrow> string" where
  "PathJoin a b =
     (if a = [] \<and> b = [] then []
      else if a = [] then PathClean b
      else if b = [] then PathClean a
      else PathClean (a @ CHR ''/'' # b))"

text \<open>
  The code's test that two directories overlap: they are equal or one lies below the other.
\<close>

definition paths_overlap :: "string \<Rightarrow> string \<Rightarrow> bool" where
  "paths_overlap a b \<longleftrightarrow> a = b \<or> HasPrefix a (b @ ''/'') \<or> HasPrefix b (a @ ''/'')"

lemma paths_overlap_sym: "paths_overlap a b \<longleftrightarrow> paths_overlap b a"
  by (auto simp: paths_overlap_def)

text \<open>On segments: two paths overlap exactly when one list of segments is a prefix of the other.\<close>

lemma Split_append:
  "Split c (s @ c # t) = Split c s @ Split c t"
proof (induction s)
  case (Cons d s)
  then show ?case by (cases "Split c s") auto
qed simp

lemma below_iff_segments:
  "HasPrefix a (b @ [c]) \<longleftrightarrow> strict_prefix (Split c b) (Split c a)"
proof
  assume "HasPrefix a (b @ [c])"
  then obtain t where "a = b @ c # t" by (auto elim: prefixE)
  then show "strict_prefix (Split c b) (Split c a)"
    by (simp add: Split_append strict_prefix_def)
next
  assume "strict_prefix (Split c b) (Split c a)"
  then obtain v vs where a: "Split c a = Split c b @ v # vs"
    by (auto elim: strict_prefixE')
  have j: "Join c (xs @ v # vs) = Join c xs @ c # Join c (v # vs)" if "xs \<noteq> []" for xs
    using that by (induction c xs rule: Join.induct) auto
  have "a = Join c (Split c a)" by simp
  also have "\<dots> = b @ c # Join c (v # vs)" by (simp only: a j Split_not_Nil Join_Split not_False_eq_True)
  finally show "HasPrefix a (b @ [c])" by simp
qed

lemma paths_overlap_segments:
  "paths_overlap a b \<longleftrightarrow>
     prefix (Split (CHR ''/'') a) (Split (CHR ''/'') b) \<or> prefix (Split (CHR ''/'') b) (Split (CHR ''/'') a)"
proof -
  have "Split (CHR ''/'') a = Split (CHR ''/'') b \<longleftrightarrow> a = b"
    by (metis Join_Split)
  then show ?thesis
    unfolding paths_overlap_def below_iff_segments strict_prefix_def by auto
qed

end
