(* ===== verification/Spec_Types.thy ===== *)
theory Spec_Types
  imports Go_Strings
begin

text \<open>
  The application format of internal/spec: one record per struct of the package, in the
  order of the struct's fields, and the zero value of each (\<open>T{}\<close>), from which the other
  values are built by record update.

  A pointer field is an \<open>option\<close>. A slice field declared \<open>omitempty\<close> is a list, where nil and
  the empty slice are one value, as they are after the JSON copy with which the code starts;
  the slices whose nil differs from empty (\<open>networks\<close>, \<open>network_access.from\<close>) and the
  \<open>services\<close> table are an \<open>option\<close>. Go's integers are HOL's \<open>int\<close>: every field that the
  code adds up is bounded by a check first.
\<close>

section \<open>Leaves\<close>

text \<open>secret_refs.go\<close>

record SecretRef =
  ref_Ref :: string
  ref_Provider :: string
  ref_Path :: string
  ref_Key :: string

definition zero_SecretRef :: SecretRef where
  "zero_SecretRef = \<lparr>ref_Ref = [], ref_Provider = [], ref_Path = [], ref_Key = []\<rparr>"

text \<open>lifecycle.go\<close>

record JobSchedule =
  sch_Cron :: string
  sch_Timezone :: string
  sch_HistoryLimit :: int

record JobInvocation =
  inv_AllowedIdentities :: "string list"
  inv_InputKeys :: "string list"
  inv_MaxInputBytes :: int
  inv_QueueLimit :: int

record Job =
  job_Invocation :: "JobInvocation option"
  job_Schedule :: "JobSchedule option"
  job_TimeoutSeconds :: int
  job_Retries :: int

record File =
  file_MountPath :: string
  file_Content :: "string option"
  file_Secret :: "SecretRef option"
  file_Mode :: int

text \<open>bindings.go\<close>

record Binding =
  bind_ExternalDatabase :: string
  bind_ExternalDatabaseRevision :: int
  bind_ManagedDatabase :: string
  bind_Endpoint :: string
  bind_ClusterAware :: bool
  bind_Service :: string
  bind_Protocol :: string
  bind_Database :: string
  bind_Username :: string
  bind_Password :: "SecretRef option"
  bind_SSLMode :: string

text \<open>http_endpoints.go, workloads.go, mounts.go, certificate_mounts.go, public_tcp.go\<close>

record HTTPEndpoint =
  http_Port :: int
  http_Domain :: string

record Volume =
  vol_MountPath :: string
  vol_SizeGiB :: int
  vol_StorageClass :: string

record GPU =
  gpu_Count :: int

record NamedVolume =
  nvol_SizeGiB :: int
  nvol_StorageClass :: string
  nvol_AccessMode :: string

record Mount =
  mnt_Volume :: string
  mnt_MountPath :: string
  mnt_ReadOnly :: bool
  mnt_SubPath :: string

record TemporaryMount =
  tmp_MountPath :: string
  tmp_SizeMiB :: int
  tmp_Memory :: bool

record CertificateMount =
  cert_Certificate :: string
  cert_Source :: string
  cert_Hostname :: string
  cert_MountPath :: string

record PublicTCPListener =
  tcp_Port :: int
  tcp_TargetPort :: int
  tcp_SourceCIDRs :: "string list"

text \<open>network_controls.go\<close>

record Port =
  port_Name :: string
  port_Port :: int
  port_TargetPort :: int
  port_Protocol :: string

record NetworkAccess =
  na_From :: "string list option"
  na_FromApplications :: "string list"

text \<open>readiness.go, runtime.go, custom_hostnames.go, kubernetes.go, serverless.go, resources.go\<close>

record Readiness =
  rd_Protocol :: string
  rd_Port :: int
  rd_TLSServerName :: string
  rd_TLSCAFile :: string
  rd_PeriodSeconds :: int
  rd_TimeoutSeconds :: int
  rd_FailureThreshold :: int

record TLSConfig =
  tls_Certificate :: string
  tls_Issuer :: string
  tls_IssuerKind :: string

record CustomHostnames =
  ch_Enabled :: bool
  ch_Max :: int
  ch_Target :: string

record KubernetesPatches =
  kp_Deployment :: string
  kp_Service :: string
  kp_Ingress :: string

record Serverless =
  sl_MinReplicas :: int
  sl_IdleSeconds :: int
  sl_StartupTimeoutSeconds :: int
  sl_RequestTimeoutSeconds :: int
  sl_MaxConcurrency :: int

record Resources =
  res_CPURequest :: string
  res_CPULimit :: string
  res_MemoryRequest :: string
  res_MemoryLimit :: string

text \<open>sandbox_sessions.go, sidecars.go\<close>

record SandboxSession =
  ss_AllowedIdentities :: "string list"
  ss_HelperCommand :: "string list"
  ss_ReadyCommand :: "string list"
  ss_IdleSeconds :: int
  ss_LifetimeSeconds :: int
  ss_CallTimeoutSeconds :: int

record SidecarMount =
  sm_Volume :: string
  sm_Temporary :: string
  sm_MountPath :: string
  sm_ReadOnly :: bool

record Sidecar =
  sc_Name :: string
  sc_Image :: string
  sc_Command :: "string list"
  sc_Args :: "string list"
  sc_Env :: "string gomap"
  sc_Secrets :: "SecretRef gomap"
  sc_CPU :: string
  sc_Memory :: string
  sc_Mounts :: "SidecarMount list"

text \<open>actions.go, with the targets of internal/actions/provider.go\<close>

record GitLabTarget =
  gl_URL :: string
  gl_ProjectID :: int
  gl_GroupID :: int
  gl_TrustPolicy :: string

record BitbucketTarget =
  bb_Workspace :: string
  bb_Repository :: string

record ActionsCache =
  cache_Credential :: string

record Actions =
  act_Provider :: string
  act_Repository :: string
  act_Organization :: string
  act_RunnerGroupID :: int
  act_GitLab :: "GitLabTarget option"
  act_Bitbucket :: "BitbucketTarget option"
  act_Credential :: string
  act_JobsCredential :: string
  act_Labels :: "string list"
  act_TimeoutMinutes :: int
  act_WorkspaceSizeGiB :: int
  act_Cache :: "ActionsCache option"
  act_IdleSeconds :: int
  act_MinReplicas :: int

section \<open>Services and applications\<close>

text \<open>spec.go\<close>

record Autoscaling =
  as_MinReplicas :: int
  as_MaxReplicas :: int
  as_TargetCPU :: int

record Network =
  net_Internal :: bool
  net_VirtualNetwork :: string
  net_Segment :: string

record RecoveryPolicy =
  rec_OnFailure :: string

record Service =
  sv_Session :: "SandboxSession option"
  sv_Actions :: "Actions option"
  sv_Serverless :: "Serverless option"
  sv_NodeName :: string
  sv_Resources :: "Resources option"
  sv_Suspended :: bool
  sv_Job :: "Job option"
  sv_Files :: "File gomap"
  sv_Bindings :: "Binding gomap"
  sv_DatabaseClientProfiles :: "string gomap"
  sv_HTTP :: "HTTPEndpoint gomap"
  sv_Architecture :: string
  sv_Volume :: "Volume option"
  sv_GPU :: "GPU option"
  sv_RunAsUser :: int
  sv_RunAsGroup :: int
  sv_FSGroup :: int
  sv_ReadOnlyRootFilesystem :: bool
  sv_WorkingDir :: string
  sv_TerminationGraceSeconds :: int
  sv_CertificateMounts :: "CertificateMount list"
  sv_Mounts :: "Mount list"
  sv_TemporaryMounts :: "TemporaryMount list"
  sv_Image :: string
  sv_Port :: int
  sv_PublicTCP :: "PublicTCPListener list"
  sv_Ports :: "Port list"
  sv_NetworkAccess :: "NetworkAccess option"
  sv_Public :: bool
  sv_Size :: string
  sv_Replicas :: int
  sv_UpdateStrategy :: string
  sv_Readiness :: "Readiness option"
  sv_Healthcheck :: string
  sv_StartupTimeoutSeconds :: int
  sv_Env :: "string gomap"
  sv_Command :: "string list"
  sv_Args :: "string list"
  sv_DependsOn :: "string list"
  sv_Networks :: "string list option"
  sv_PrivateEgress :: "string list"
  sv_Secrets :: "SecretRef gomap"
  sv_Autoscaling :: "Autoscaling option"
  sv_RestartNonce :: string
  sv_RegistryCredential :: string
  sv_AWSIdentity :: string
  sv_ContainerDaemon :: string
  sv_RuntimeProfile :: string
  sv_NodeProfile :: string
  sv_Sidecars :: "Sidecar list"
  sv_TLS :: "TLSConfig option"
  sv_BackendHTTP2 :: bool
  sv_IngressTimeoutSeconds :: int
  sv_CustomHostnames :: "CustomHostnames option"
  sv_Kubernetes :: "KubernetesPatches option"

record Application =
  app_InjectEnv :: bool
  app_Secrets :: "SecretRef gomap"
  app_Env :: "string gomap"
  app_Recovery :: "RecoveryPolicy option"
  app_SchemaVersion :: int
  app_Name :: string
  app_Services :: "Service gomap option"
  app_Networks :: "Network gomap"
  app_Volumes :: "NamedVolume gomap"
  app_Domains :: "string gomap"

definition zero_Service :: Service where
  "zero_Service = \<lparr>
     sv_Session = None, sv_Actions = None, sv_Serverless = None, sv_NodeName = [],
     sv_Resources = None, sv_Suspended = False, sv_Job = None, sv_Files = [], sv_Bindings = [],
     sv_DatabaseClientProfiles = [], sv_HTTP = [], sv_Architecture = [], sv_Volume = None,
     sv_GPU = None, sv_RunAsUser = 0, sv_RunAsGroup = 0, sv_FSGroup = 0,
     sv_ReadOnlyRootFilesystem = False, sv_WorkingDir = [], sv_TerminationGraceSeconds = 0,
     sv_CertificateMounts = [], sv_Mounts = [], sv_TemporaryMounts = [], sv_Image = [],
     sv_Port = 0, sv_PublicTCP = [], sv_Ports = [], sv_NetworkAccess = None, sv_Public = False,
     sv_Size = [], sv_Replicas = 0, sv_UpdateStrategy = [], sv_Readiness = None,
     sv_Healthcheck = [], sv_StartupTimeoutSeconds = 0, sv_Env = [], sv_Command = [],
     sv_Args = [], sv_DependsOn = [], sv_Networks = None, sv_PrivateEgress = [],
     sv_Secrets = [], sv_Autoscaling = None, sv_RestartNonce = [], sv_RegistryCredential = [],
     sv_AWSIdentity = [], sv_ContainerDaemon = [], sv_RuntimeProfile = [], sv_NodeProfile = [],
     sv_Sidecars = [], sv_TLS = None, sv_BackendHTTP2 = False, sv_IngressTimeoutSeconds = 0,
     sv_CustomHostnames = None, sv_Kubernetes = None\<rparr>"

definition zero_Application :: Application where
  "zero_Application = \<lparr>
     app_InjectEnv = False, app_Secrets = [], app_Env = [], app_Recovery = None,
     app_SchemaVersion = 0, app_Name = [], app_Services = None, app_Networks = [],
     app_Volumes = [], app_Domains = []\<rparr>"

text \<open>Reading a table that may be nil, and reading a missing entry as the zero value.\<close>

definition app_services :: "Application \<Rightarrow> Service gomap" where
  "app_services a = (case app_Services a of None \<Rightarrow> [] | Some m \<Rightarrow> m)"

definition sv_networks :: "Service \<Rightarrow> string list" where
  "sv_networks s = (case sv_Networks s of None \<Rightarrow> [] | Some ns \<Rightarrow> ns)"

definition service_at :: "Application \<Rightarrow> string \<Rightarrow> Service" where
  "service_at a n = (case gm_get (app_services a) n of None \<Rightarrow> zero_Service | Some s \<Rightarrow> s)"

definition network_at :: "Application \<Rightarrow> string \<Rightarrow> Network" where
  "network_at a n =
     (case gm_get (app_Networks a) n of
        None \<Rightarrow> \<lparr>net_Internal = False, net_VirtualNetwork = [], net_Segment = []\<rparr> | Some w \<Rightarrow> w)"

definition put_service :: "string \<Rightarrow> Service \<Rightarrow> Application \<Rightarrow> Application" where
  "put_service n s a = a\<lparr>app_Services := Some (gm_set n s (app_services a))\<rparr>"

text \<open>Every table of an application is a Go map in normal form.\<close>

definition wf_service :: "Service \<Rightarrow> bool" where
  "wf_service s \<longleftrightarrow> gm_wf (sv_Files s) \<and> gm_wf (sv_Bindings s) \<and> gm_wf (sv_DatabaseClientProfiles s)
     \<and> gm_wf (sv_HTTP s) \<and> gm_wf (sv_Env s) \<and> gm_wf (sv_Secrets s)
     \<and> (\<forall>sc \<in> set (sv_Sidecars s). gm_wf (sc_Env sc) \<and> gm_wf (sc_Secrets sc))"

definition wf_app :: "Application \<Rightarrow> bool" where
  "wf_app a \<longleftrightarrow> gm_wf (app_Secrets a) \<and> gm_wf (app_Env a) \<and> gm_wf (app_services a)
     \<and> gm_wf (app_Networks a) \<and> gm_wf (app_Volumes a) \<and> gm_wf (app_Domains a)
     \<and> (\<forall>s \<in> snd ` set (app_services a). wf_service s)"

text \<open>\<open>Names\<close>: the services' names in order (spec.go).\<close>

definition Names :: "Application \<Rightarrow> string list" where
  "Names a = sort (gm_keys (app_services a))"

lemma set_Names [simp]: "set (Names a) = dom (gm_get (app_services a))"
  by (simp add: Names_def set_gm_keys)

lemma app_services_put [simp]:
  "app_services (put_service n s a) = gm_set n s (app_services a)"
  by (simp add: put_service_def app_services_def)

lemma service_at_put [simp]:
  "service_at (put_service n s a) m = (if m = n then s else service_at a m)"
  by (simp add: service_at_def)

lemma Names_distinct: "wf_app a \<Longrightarrow> distinct (Names a)"
  by (simp add: Names_def wf_app_def gm_keys_distinct)

lemma Names_sorted: "sorted (Names a)"
  by (simp add: Names_def)

lemma Names_wf: "wf_app a \<Longrightarrow> Names a = gm_keys (app_services a)"
  by (simp add: Names_def wf_app_def gm_keys_sorted sorted_sort_id)

end
