(* ===== verification/Spec_Json.thy ===== *)
theory Spec_Json
  imports Spec_Types
begin

text \<open>
  The JSON form of an application, as \<open>encoding/json\<close> produces it from the structs' tags:
  what \<open>Normalize\<close> measures and copies, what \<open>Diff\<close> shows as the value before and after, and
  what \<open>Rebase\<close> merges. A field tagged \<open>omitempty\<close> is left out when it is false, zero, empty
  or nil.
\<close>

section \<open>Values and their text\<close>

datatype json =
    JNull
  | JBool bool
  | JInt int
  | JStr string
  | JArr "json list"
  | JObj "(string \<times> json) list"

text \<open>A string literal, with HTML escaping on as in \<open>json.Marshal\<close>.\<close>

definition hex_digit :: "nat \<Rightarrow> char" where
  "hex_digit n = (if n < 10 then char_of (48 + n) else char_of (87 + n))"

definition escape_unit :: "char \<Rightarrow> string" where
  "escape_unit c = [CHR 0x5C, CHR ''u'', CHR ''0'', CHR ''0'',
     hex_digit (code c div 16), hex_digit (code c mod 16)]"

definition escape_char :: "char \<Rightarrow> string" where
  "escape_char c =
     (if c = CHR 0x22 \<or> c = CHR 0x5C then [CHR 0x5C, c]
      else if code c = 8 then [CHR 0x5C, CHR ''b'']
      else if code c = 12 then [CHR 0x5C, CHR ''f'']
      else if c = LF then [CHR 0x5C, CHR ''n'']
      else if c = CR then [CHR 0x5C, CHR ''r'']
      else if c = TAB then [CHR 0x5C, CHR ''t'']
      else if code c < 32 \<or> c = CHR ''<'' \<or> c = CHR ''>'' \<or> c = CHR ''&'' then escape_unit c
      else [c])"

fun escape_string :: "string \<Rightarrow> string" where
  "escape_string [] = []"
| "escape_string (a # b # c # s) =
     (if code a = 226 \<and> code b = 128 \<and> (code c = 168 \<or> code c = 169)
      then [CHR 0x5C] @ ''u202'' @ [hex_digit (code c - 160)] @ escape_string s
      else escape_char a @ escape_string (b # c # s))"
| "escape_string (a # s) = escape_char a @ escape_string s"

definition json_string :: "string \<Rightarrow> string" where
  "json_string s = [CHR 0x22] @ escape_string s @ [CHR 0x22]"

fun json_text :: "json \<Rightarrow> string" where
  "json_text JNull = ''null''"
| "json_text (JBool b) = (if b then ''true'' else ''false'')"
| "json_text (JInt i) = Itoa i"
| "json_text (JStr s) = json_string s"
| "json_text (JArr vs) = ''['' @ Join (CHR '','') (map json_text vs) @ '']''"
| "json_text (JObj ms) =
     ''{'' @ Join (CHR '','') (map (\<lambda>(k, v). json_string k @ '':'' @ json_text v) ms) @ ''}''"

section \<open>Struct tags\<close>

text \<open>The members an \<open>omitempty\<close> field contributes.\<close>

definition omit_bool :: "string \<Rightarrow> bool \<Rightarrow> (string \<times> json) list" where
  "omit_bool k b = (if b then [(k, JBool b)] else [])"

definition omit_int :: "string \<Rightarrow> int \<Rightarrow> (string \<times> json) list" where
  "omit_int k i = (if i = 0 then [] else [(k, JInt i)])"

definition omit_str :: "string \<Rightarrow> string \<Rightarrow> (string \<times> json) list" where
  "omit_str k s = (if s = [] then [] else [(k, JStr s)])"

definition omit_ptr :: "string \<Rightarrow> ('a \<Rightarrow> json) \<Rightarrow> 'a option \<Rightarrow> (string \<times> json) list" where
  "omit_ptr k enc v = (case v of None \<Rightarrow> [] | Some x \<Rightarrow> [(k, enc x)])"

definition omit_list :: "string \<Rightarrow> ('a \<Rightarrow> json) \<Rightarrow> 'a list \<Rightarrow> (string \<times> json) list" where
  "omit_list k enc vs = (if vs = [] then [] else [(k, JArr (map enc vs))])"

definition json_map :: "('a \<Rightarrow> json) \<Rightarrow> 'a gomap \<Rightarrow> json" where
  "json_map enc m = JObj (map (\<lambda>(k, v). (k, enc v)) m)"

definition omit_map :: "string \<Rightarrow> ('a \<Rightarrow> json) \<Rightarrow> 'a gomap \<Rightarrow> (string \<times> json) list" where
  "omit_map k enc m = (if m = [] then [] else [(k, json_map enc m)])"

definition json_nil_strs :: "string list option \<Rightarrow> json" where
  "json_nil_strs vs = (case vs of None \<Rightarrow> JNull | Some l \<Rightarrow> JArr (map JStr l))"

definition json_ptr :: "('a \<Rightarrow> json) \<Rightarrow> 'a option \<Rightarrow> json" where
  "json_ptr enc v = (case v of None \<Rightarrow> JNull | Some x \<Rightarrow> enc x)"

text \<open>
  A slice or table without \<open>omitempty\<close>, or given as a value: nil, which an omitted field
  holds, encodes as \<open>null\<close>.
\<close>

definition json_slice :: "('a \<Rightarrow> json) \<Rightarrow> 'a list \<Rightarrow> json" where
  "json_slice enc vs = (if vs = [] then JNull else JArr (map enc vs))"

definition json_strs :: "string list \<Rightarrow> json" where
  "json_strs vs = json_slice JStr vs"

definition json_table :: "('a \<Rightarrow> json) \<Rightarrow> 'a gomap \<Rightarrow> json" where
  "json_table enc m = (if m = [] then JNull else json_map enc m)"

section \<open>The structs\<close>

definition json_SecretRef :: "SecretRef \<Rightarrow> json" where
  "json_SecretRef r = JObj (omit_str ''ref'' (ref_Ref r) @ omit_str ''provider'' (ref_Provider r)
     @ omit_str ''path'' (ref_Path r) @ omit_str ''key'' (ref_Key r))"

definition json_JobSchedule :: "JobSchedule \<Rightarrow> json" where
  "json_JobSchedule s = JObj [(''cron'', JStr (sch_Cron s)), (''timezone'', JStr (sch_Timezone s)),
     (''history_limit'', JInt (sch_HistoryLimit s))]"

definition json_JobInvocation :: "JobInvocation \<Rightarrow> json" where
  "json_JobInvocation i = JObj [(''allowed_identities'', json_strs (inv_AllowedIdentities i)),
     (''input_keys'', json_strs (inv_InputKeys i)), (''max_input_bytes'', JInt (inv_MaxInputBytes i)),
     (''queue_limit'', JInt (inv_QueueLimit i))]"

definition json_Job :: "Job \<Rightarrow> json" where
  "json_Job j = JObj (omit_ptr ''invocation'' json_JobInvocation (job_Invocation j)
     @ omit_ptr ''schedule'' json_JobSchedule (job_Schedule j)
     @ [(''timeout_seconds'', JInt (job_TimeoutSeconds j)), (''retries'', JInt (job_Retries j))])"

definition json_File :: "File \<Rightarrow> json" where
  "json_File f = JObj ([(''mount_path'', JStr (file_MountPath f))]
     @ omit_ptr ''content'' JStr (file_Content f) @ omit_ptr ''secret'' json_SecretRef (file_Secret f)
     @ omit_int ''mode'' (file_Mode f))"

definition json_Binding :: "Binding \<Rightarrow> json" where
  "json_Binding b = JObj (omit_str ''external_database'' (bind_ExternalDatabase b)
     @ omit_int ''external_database_revision'' (bind_ExternalDatabaseRevision b)
     @ omit_str ''managed_database'' (bind_ManagedDatabase b) @ omit_str ''endpoint'' (bind_Endpoint b)
     @ omit_bool ''cluster_aware'' (bind_ClusterAware b) @ omit_str ''service'' (bind_Service b)
     @ [(''protocol'', JStr (bind_Protocol b))] @ omit_str ''database'' (bind_Database b)
     @ omit_str ''username'' (bind_Username b) @ omit_ptr ''password'' json_SecretRef (bind_Password b)
     @ omit_str ''ssl_mode'' (bind_SSLMode b))"

definition json_HTTPEndpoint :: "HTTPEndpoint \<Rightarrow> json" where
  "json_HTTPEndpoint h = JObj ([(''port'', JInt (http_Port h))] @ omit_str ''domain'' (http_Domain h))"

definition json_Volume :: "Volume \<Rightarrow> json" where
  "json_Volume v = JObj ([(''mount_path'', JStr (vol_MountPath v)), (''size_gib'', JInt (vol_SizeGiB v))]
     @ omit_str ''storage_class'' (vol_StorageClass v))"

definition json_GPU :: "GPU \<Rightarrow> json" where
  "json_GPU g = JObj [(''count'', JInt (gpu_Count g))]"

definition json_NamedVolume :: "NamedVolume \<Rightarrow> json" where
  "json_NamedVolume v = JObj ([(''size_gib'', JInt (nvol_SizeGiB v))]
     @ omit_str ''storage_class'' (nvol_StorageClass v) @ [(''access_mode'', JStr (nvol_AccessMode v))])"

definition json_Mount :: "Mount \<Rightarrow> json" where
  "json_Mount m = JObj ([(''volume'', JStr (mnt_Volume m)), (''mount_path'', JStr (mnt_MountPath m))]
     @ omit_bool ''read_only'' (mnt_ReadOnly m) @ omit_str ''sub_path'' (mnt_SubPath m))"

definition json_TemporaryMount :: "TemporaryMount \<Rightarrow> json" where
  "json_TemporaryMount m = JObj ([(''mount_path'', JStr (tmp_MountPath m)), (''size_mib'', JInt (tmp_SizeMiB m))]
     @ omit_bool ''memory'' (tmp_Memory m))"

definition json_CertificateMount :: "CertificateMount \<Rightarrow> json" where
  "json_CertificateMount m = JObj (omit_str ''certificate'' (cert_Certificate m)
     @ omit_str ''source'' (cert_Source m)
     @ [(''hostname'', JStr (cert_Hostname m)), (''mount_path'', JStr (cert_MountPath m))])"

definition json_PublicTCPListener :: "PublicTCPListener \<Rightarrow> json" where
  "json_PublicTCPListener l = JObj [(''port'', JInt (tcp_Port l)), (''target_port'', JInt (tcp_TargetPort l)),
     (''source_cidrs'', json_strs (tcp_SourceCIDRs l))]"

definition json_Port :: "Port \<Rightarrow> json" where
  "json_Port p = JObj [(''name'', JStr (port_Name p)), (''port'', JInt (port_Port p)),
     (''target_port'', JInt (port_TargetPort p)), (''protocol'', JStr (port_Protocol p))]"

definition json_NetworkAccess :: "NetworkAccess \<Rightarrow> json" where
  "json_NetworkAccess n = JObj ([(''from'', json_nil_strs (na_From n))]
     @ omit_list ''from_applications'' JStr (na_FromApplications n))"

definition json_Readiness :: "Readiness \<Rightarrow> json" where
  "json_Readiness r = JObj ([(''protocol'', JStr (rd_Protocol r)), (''port'', JInt (rd_Port r))]
     @ omit_str ''tls_server_name'' (rd_TLSServerName r) @ omit_str ''tls_ca_file'' (rd_TLSCAFile r)
     @ omit_int ''period_seconds'' (rd_PeriodSeconds r) @ omit_int ''timeout_seconds'' (rd_TimeoutSeconds r)
     @ omit_int ''failure_threshold'' (rd_FailureThreshold r))"

definition json_TLSConfig :: "TLSConfig \<Rightarrow> json" where
  "json_TLSConfig t = JObj (omit_str ''certificate'' (tls_Certificate t)
     @ omit_str ''issuer'' (tls_Issuer t) @ omit_str ''issuer_kind'' (tls_IssuerKind t))"

definition json_CustomHostnames :: "CustomHostnames \<Rightarrow> json" where
  "json_CustomHostnames c = JObj ([(''enabled'', JBool (ch_Enabled c))]
     @ omit_int ''max'' (ch_Max c) @ omit_str ''target'' (ch_Target c))"

definition json_KubernetesPatches :: "KubernetesPatches \<Rightarrow> json" where
  "json_KubernetesPatches k = JObj (omit_str ''deployment'' (kp_Deployment k)
     @ omit_str ''service'' (kp_Service k) @ omit_str ''ingress'' (kp_Ingress k))"

definition json_Serverless :: "Serverless \<Rightarrow> json" where
  "json_Serverless s = JObj [(''min_replicas'', JInt (sl_MinReplicas s)),
     (''idle_seconds'', JInt (sl_IdleSeconds s)),
     (''startup_timeout_seconds'', JInt (sl_StartupTimeoutSeconds s)),
     (''request_timeout_seconds'', JInt (sl_RequestTimeoutSeconds s)),
     (''max_concurrency'', JInt (sl_MaxConcurrency s))]"

definition json_Resources :: "Resources \<Rightarrow> json" where
  "json_Resources r = JObj (omit_str ''cpu_request'' (res_CPURequest r)
     @ omit_str ''cpu_limit'' (res_CPULimit r) @ omit_str ''memory_request'' (res_MemoryRequest r)
     @ omit_str ''memory_limit'' (res_MemoryLimit r))"

definition json_SandboxSession :: "SandboxSession \<Rightarrow> json" where
  "json_SandboxSession s = JObj ([(''allowed_identities'', json_strs (ss_AllowedIdentities s)),
     (''helper_command'', json_strs (ss_HelperCommand s)), (''ready_command'', json_strs (ss_ReadyCommand s))]
     @ omit_int ''idle_seconds'' (ss_IdleSeconds s) @ omit_int ''lifetime_seconds'' (ss_LifetimeSeconds s)
     @ omit_int ''call_timeout_seconds'' (ss_CallTimeoutSeconds s))"

definition json_SidecarMount :: "SidecarMount \<Rightarrow> json" where
  "json_SidecarMount m = JObj (omit_str ''volume'' (sm_Volume m) @ omit_str ''temporary'' (sm_Temporary m)
     @ [(''mount_path'', JStr (sm_MountPath m))] @ omit_bool ''read_only'' (sm_ReadOnly m))"

definition json_Sidecar :: "Sidecar \<Rightarrow> json" where
  "json_Sidecar s = JObj ([(''name'', JStr (sc_Name s)), (''image'', JStr (sc_Image s))]
     @ omit_list ''command'' JStr (sc_Command s) @ omit_list ''args'' JStr (sc_Args s)
     @ omit_map ''env'' JStr (sc_Env s) @ omit_map ''secrets'' json_SecretRef (sc_Secrets s)
     @ [(''cpu'', JStr (sc_CPU s)), (''memory'', JStr (sc_Memory s))]
     @ omit_list ''mounts'' json_SidecarMount (sc_Mounts s))"

definition json_GitLabTarget :: "GitLabTarget \<Rightarrow> json" where
  "json_GitLabTarget t = JObj ([(''url'', JStr (gl_URL t))] @ omit_int ''project_id'' (gl_ProjectID t)
     @ omit_int ''group_id'' (gl_GroupID t) @ omit_str ''trust_policy'' (gl_TrustPolicy t))"

definition json_BitbucketTarget :: "BitbucketTarget \<Rightarrow> json" where
  "json_BitbucketTarget t = JObj ([(''workspace'', JStr (bb_Workspace t))]
     @ omit_str ''repository'' (bb_Repository t))"

definition json_ActionsCache :: "ActionsCache \<Rightarrow> json" where
  "json_ActionsCache c = JObj [(''credential'', JStr (cache_Credential c))]"

definition json_Actions :: "Actions \<Rightarrow> json" where
  "json_Actions a = JObj (omit_str ''provider'' (act_Provider a) @ omit_str ''repository'' (act_Repository a)
     @ omit_str ''organization'' (act_Organization a) @ omit_int ''runner_group_id'' (act_RunnerGroupID a)
     @ omit_ptr ''gitlab'' json_GitLabTarget (act_GitLab a)
     @ omit_ptr ''bitbucket'' json_BitbucketTarget (act_Bitbucket a)
     @ [(''credential'', JStr (act_Credential a))] @ omit_str ''jobs_credential'' (act_JobsCredential a)
     @ [(''labels'', json_strs (act_Labels a))] @ omit_int ''timeout_minutes'' (act_TimeoutMinutes a)
     @ omit_int ''workspace_size_gib'' (act_WorkspaceSizeGiB a)
     @ omit_ptr ''cache'' json_ActionsCache (act_Cache a)
     @ omit_int ''idle_seconds'' (act_IdleSeconds a) @ omit_int ''min_replicas'' (act_MinReplicas a))"

definition json_Autoscaling :: "Autoscaling \<Rightarrow> json" where
  "json_Autoscaling a = JObj [(''min_replicas'', JInt (as_MinReplicas a)),
     (''max_replicas'', JInt (as_MaxReplicas a)), (''target_cpu'', JInt (as_TargetCPU a))]"

definition json_Network :: "Network \<Rightarrow> json" where
  "json_Network n = JObj ([(''internal'', JBool (net_Internal n))]
     @ omit_str ''virtual_network'' (net_VirtualNetwork n) @ omit_str ''segment'' (net_Segment n))"

definition json_RecoveryPolicy :: "RecoveryPolicy \<Rightarrow> json" where
  "json_RecoveryPolicy r = JObj [(''on_failure'', JStr (rec_OnFailure r))]"

definition json_Service :: "Service \<Rightarrow> json" where
  "json_Service s = JObj (
     omit_ptr ''session'' json_SandboxSession (sv_Session s)
     @ omit_ptr ''actions'' json_Actions (sv_Actions s)
     @ omit_ptr ''serverless'' json_Serverless (sv_Serverless s)
     @ omit_str ''node_name'' (sv_NodeName s)
     @ omit_ptr ''resources'' json_Resources (sv_Resources s)
     @ omit_bool ''suspended'' (sv_Suspended s)
     @ omit_ptr ''job'' json_Job (sv_Job s)
     @ omit_map ''files'' json_File (sv_Files s)
     @ omit_map ''bindings'' json_Binding (sv_Bindings s)
     @ omit_map ''database_client_profiles'' JStr (sv_DatabaseClientProfiles s)
     @ omit_map ''http'' json_HTTPEndpoint (sv_HTTP s)
     @ omit_str ''architecture'' (sv_Architecture s)
     @ omit_ptr ''volume'' json_Volume (sv_Volume s)
     @ omit_ptr ''gpu'' json_GPU (sv_GPU s)
     @ omit_int ''run_as_user'' (sv_RunAsUser s)
     @ omit_int ''run_as_group'' (sv_RunAsGroup s)
     @ omit_int ''fs_group'' (sv_FSGroup s)
     @ omit_bool ''read_only_root_filesystem'' (sv_ReadOnlyRootFilesystem s)
     @ omit_str ''working_dir'' (sv_WorkingDir s)
     @ omit_int ''termination_grace_seconds'' (sv_TerminationGraceSeconds s)
     @ omit_list ''certificate_mounts'' json_CertificateMount (sv_CertificateMounts s)
     @ omit_list ''mounts'' json_Mount (sv_Mounts s)
     @ omit_list ''temporary_mounts'' json_TemporaryMount (sv_TemporaryMounts s)
     @ [(''image'', JStr (sv_Image s))]
     @ omit_int ''port'' (sv_Port s)
     @ omit_list ''public_tcp'' json_PublicTCPListener (sv_PublicTCP s)
     @ omit_list ''ports'' json_Port (sv_Ports s)
     @ omit_ptr ''network_access'' json_NetworkAccess (sv_NetworkAccess s)
     @ [(''public'', JBool (sv_Public s)), (''size'', JStr (sv_Size s)), (''replicas'', JInt (sv_Replicas s))]
     @ omit_str ''update_strategy'' (sv_UpdateStrategy s)
     @ omit_ptr ''readiness'' json_Readiness (sv_Readiness s)
     @ omit_str ''healthcheck'' (sv_Healthcheck s)
     @ omit_int ''startup_timeout_seconds'' (sv_StartupTimeoutSeconds s)
     @ omit_map ''env'' JStr (sv_Env s)
     @ omit_list ''command'' JStr (sv_Command s)
     @ omit_list ''args'' JStr (sv_Args s)
     @ omit_list ''depends_on'' JStr (sv_DependsOn s)
     @ [(''networks'', json_nil_strs (sv_Networks s))]
     @ omit_list ''private_egress'' JStr (sv_PrivateEgress s)
     @ omit_map ''secrets'' json_SecretRef (sv_Secrets s)
     @ omit_ptr ''autoscaling'' json_Autoscaling (sv_Autoscaling s)
     @ omit_str ''restart_nonce'' (sv_RestartNonce s)
     @ omit_str ''registry_credential'' (sv_RegistryCredential s)
     @ omit_str ''aws_identity'' (sv_AWSIdentity s)
     @ omit_str ''container_daemon'' (sv_ContainerDaemon s)
     @ omit_str ''runtime_profile'' (sv_RuntimeProfile s)
     @ omit_str ''node_profile'' (sv_NodeProfile s)
     @ omit_list ''sidecars'' json_Sidecar (sv_Sidecars s)
     @ omit_ptr ''tls'' json_TLSConfig (sv_TLS s)
     @ omit_bool ''backend_http2'' (sv_BackendHTTP2 s)
     @ omit_int ''ingress_timeout_seconds'' (sv_IngressTimeoutSeconds s)
     @ omit_ptr ''custom_hostnames'' json_CustomHostnames (sv_CustomHostnames s)
     @ omit_ptr ''kubernetes'' json_KubernetesPatches (sv_Kubernetes s))"

definition json_Application :: "Application \<Rightarrow> json" where
  "json_Application a = JObj (
     omit_bool ''inject_env'' (app_InjectEnv a)
     @ omit_map ''secrets'' json_SecretRef (app_Secrets a)
     @ omit_map ''env'' JStr (app_Env a)
     @ omit_ptr ''recovery'' json_RecoveryPolicy (app_Recovery a)
     @ [(''schema_version'', JInt (app_SchemaVersion a)), (''name'', JStr (app_Name a)),
        (''services'', json_ptr (json_map json_Service) (app_Services a))]
     @ omit_map ''networks'' json_Network (app_Networks a)
     @ omit_map ''volumes'' json_NamedVolume (app_Volumes a)
     @ omit_map ''domains'' JStr (app_Domains a))"

definition app_json_size :: "Application \<Rightarrow> int" where
  "app_json_size a = len (json_text (json_Application a))"

section \<open>A bound on the size\<close>

text \<open>Every byte of a string takes at most six in JSON; a bound that reads no character.\<close>

fun json_bound :: "json \<Rightarrow> int" where
  "json_bound JNull = 4"
| "json_bound (JBool b) = 5"
| "json_bound (JInt i) = len (Itoa i)"
| "json_bound (JStr s) = 6 * len s + 2"
| "json_bound (JArr vs) = sum_list (map (\<lambda>v. json_bound v + 1) vs) + 2"
| "json_bound (JObj ms) = sum_list (map (\<lambda>(k, v). 6 * len k + json_bound v + 4) ms) + 2"

lemma escape_char_len: "len (escape_char c) \<le> 6"
  by (simp add: escape_char_def escape_unit_def)

lemma escape_string_len: "len (escape_string s) \<le> 6 * len s"
  apply (induction s rule: escape_string.induct)
  subgoal by simp
  subgoal for a b c s using escape_char_len [of a] by (auto split: if_splits)
  subgoal for a using escape_char_len [of a] by simp
  subgoal for a b using escape_char_len [of a] escape_char_len [of b] by simp
  done

lemma Join_len: "len (Join c ws) \<le> sum_list (map (\<lambda>w. len w + 1) ws)"
  by (induction c ws rule: Join.induct) auto

lemma json_text_bound: "len (json_text j) \<le> json_bound j"
proof (induction j)
  case (JStr s)
  show ?case using escape_string_len [of s] by (simp add: json_string_def)
next
  case (JArr vs)
  have "sum_list (map (\<lambda>w. len w + 1) (map json_text vs)) \<le> sum_list (map (\<lambda>v. json_bound v + 1) vs)"
    using JArr by (auto simp: o_def intro!: sum_list_mono)
  with Join_len [of "CHR '',''" "map json_text vs"] show ?case by simp
next
  case (JObj ms)
  have "sum_list (map (\<lambda>w. len w + 1) (map (\<lambda>(k, v). json_string k @ '':'' @ json_text v) ms))
      \<le> sum_list (map (\<lambda>(k, v). 6 * len k + json_bound v + 4) ms)"
    using JObj
  proof (induction ms)
    case (Cons m ms)
    obtain k v where m: "m = (k, v)" by (cases m)
    have "len (json_text v) \<le> json_bound v" using Cons.prems [of m v] by (simp add: m)
    moreover have "len (json_string k) \<le> 6 * len k + 2"
      using escape_string_len [of k] by (simp add: json_string_def)
    moreover have "sum_list (map (\<lambda>w. len w + 1) (map (\<lambda>(k, v). json_string k @ '':'' @ json_text v) ms))
      \<le> sum_list (map (\<lambda>(k, v). 6 * len k + json_bound v + 4) ms)"
      using Cons.IH Cons.prems by (meson list.set_intros(2))
    ultimately show ?case by (simp add: m)
  qed simp
  with Join_len [of "CHR '',''" "map (\<lambda>(k, v). json_string k @ '':'' @ json_text v) ms"] show ?case by simp
qed auto

lemma app_json_size_bound: "app_json_size a \<le> json_bound (json_Application a)"
  by (simp add: app_json_size_def json_text_bound)

end
