(* ===== verification/Go_Net.thy ===== *)
theory Go_Net
  imports Go_Strings
begin

text \<open>
  What the code uses of packages \<open>net/netip\<close> and \<open>net/url\<close> (Go 1.26): parsing of IP
  addresses and IPv4 prefixes, and parsing of URLs. Only the parts of a parsed URL that the
  code reads are kept.
\<close>

section \<open>IP addresses\<close>

text \<open>An IPv4 address is the number of its 32 bits, an IPv6 address its eight 16-bit groups.\<close>

datatype addr = V4 int | V6 "int list" string

text \<open>Four decimal fields without leading zeros, each at most 255.\<close>

definition ipv4_field :: "string \<Rightarrow> int option" where
  "ipv4_field f =
     (if f = [] \<or> 3 < length f \<or> 1 < length f \<and> hd f = CHR ''0'' then None
      else case read_digits 0 f of None \<Rightarrow> None | Some n \<Rightarrow> if n \<le> 255 then Some n else None)"

definition parse_ipv4 :: "string \<Rightarrow> int option" where
  "parse_ipv4 s =
     (case map ipv4_field (Split (CHR ''.'') s) of
        [Some a, Some b, Some c, Some d] \<Rightarrow> Some (((a * 256 + b) * 256 + c) * 256 + d)
      | _ \<Rightarrow> None)"

definition hex_value :: "char \<Rightarrow> nat option" where
  "hex_value c =
     (if is_digit c then Some (code c - 48)
      else if 97 \<le> code c \<and> code c \<le> 102 then Some (code c - 87)
      else if 65 \<le> code c \<and> code c \<le> 70 then Some (code c - 55)
      else None)"

fun hex_run :: "int \<Rightarrow> string \<Rightarrow> int \<times> nat \<times> string" where
  "hex_run n [] = (n, 0, [])"
| "hex_run n (c # s) =
     (case hex_value c of
        None \<Rightarrow> (n, 0, c # s)
      | Some d \<Rightarrow> (case hex_run (16 * n + int d) s of (m, k, rest) \<Rightarrow> (m, Suc k, rest)))"

text \<open>
  The loop over the groups of an IPv6 address: \<open>out\<close> holds the groups read, \<open>ell\<close> the place
  of the ellipsis; the first argument counts the groups still to come.
\<close>

fun ipv6_groups ::
  "nat \<Rightarrow> int list \<Rightarrow> nat option \<Rightarrow> string \<Rightarrow> (int list \<times> nat option) option" where
  "ipv6_groups 0 out ell s = (if s = [] then Some (out, ell) else None)"
| "ipv6_groups (Suc room) out ell s =
     (case hex_run 0 s of (acc, off, rest) \<Rightarrow>
        if off = 0 \<or> 4 < off then None
        else if HasPrefix rest ''.'' then
          (if ell = None \<and> room \<noteq> 1 \<or> room = 0 then None
           else case parse_ipv4 s of
               None \<Rightarrow> None
             | Some a \<Rightarrow> Some (out @ [a div 65536, a mod 65536], ell))
        else
          (let out' = out @ [acc] in
           case rest of
             [] \<Rightarrow> Some (out', ell)
           | c # more \<Rightarrow>
               if c \<noteq> CHR '':'' \<or> more = [] then None
               else if hd more = CHR '':'' then
                 (if ell \<noteq> None then None
                  else if tl more = [] then Some (out', Some (length out'))
                  else ipv6_groups room out' (Some (length out')) (tl more))
               else ipv6_groups room out' ell more))"

definition parse_ipv6 :: "string \<Rightarrow> addr option" where
  "parse_ipv6 input =
     (case Cut input (CHR ''%'') of (s, zone, zoned) \<Rightarrow>
        if zoned \<and> zone = [] then None
        else
          (let ell0 = HasPrefix s ''::'';
               body = (if ell0 then drop 2 s else s) in
           if ell0 \<and> body = [] then Some (V6 (replicate 8 0) zone)
           else case ipv6_groups 8 [] (if ell0 then Some 0 else None) body of
               None \<Rightarrow> None
             | Some (out, ell) \<Rightarrow>
                 if length out < 8 then
                   (case ell of
                      None \<Rightarrow> None
                    | Some e \<Rightarrow> Some (V6 (take e out @ replicate (8 - length out) 0 @ drop e out) zone))
                 else if ell \<noteq> None then None
                 else Some (V6 out zone)))"

definition ParseAddr :: "string \<Rightarrow> addr option" where
  "ParseAddr s =
     (case find (\<lambda>c. c \<in> {CHR ''.'', CHR '':'', CHR ''%''}) s of
        None \<Rightarrow> None
      | Some c \<Rightarrow>
          if c = CHR ''.'' then map_option V4 (parse_ipv4 s)
          else if c = CHR '':'' then parse_ipv6 s
          else None)"

definition Is4 :: "addr \<Rightarrow> bool" where
  "Is4 a = (case a of V4 _ \<Rightarrow> True | V6 _ _ \<Rightarrow> False)"

text \<open>\<open>net.ParseIP(host) != nil\<close>: an address without a zone.\<close>

definition is_IP :: "string \<Rightarrow> bool" where
  "is_IP s = (case ParseAddr s of Some (V4 _) \<Rightarrow> True | Some (V6 _ z) \<Rightarrow> z = [] | None \<Rightarrow> False)"

section \<open>IPv4 prefixes\<close>

text \<open>
  \<open>netip.ParsePrefix\<close> followed by the test \<open>prefix.Addr().Is4()\<close>, the only way the
  specification uses it: the address and the number of leading bits.
\<close>

definition LastCut :: "string \<Rightarrow> char \<Rightarrow> (string \<times> string) option" where
  "LastCut s c =
     (if c \<in> set s
      then Some (rev (drop 1 (dropWhile (\<lambda>d. d \<noteq> c) (rev s))), rev (takeWhile (\<lambda>d. d \<noteq> c) (rev s)))
      else None)"

definition prefix_bits :: "string \<Rightarrow> nat option" where
  "prefix_bits b =
     (if b = [] \<or> 1 < length b \<and> \<not> (49 \<le> code (hd b) \<and> code (hd b) \<le> 57) then None
      else case read_digits 0 b of None \<Rightarrow> None | Some n \<Rightarrow> if n \<le> 32 then Some (nat n) else None)"

definition ParsePrefix4 :: "string \<Rightarrow> (int \<times> nat) option" where
  "ParsePrefix4 s =
     (case LastCut s (CHR ''/'') of
        None \<Rightarrow> None
      | Some (a, b) \<Rightarrow>
          (case (ParseAddr a, prefix_bits b) of (Some (V4 w), Some n) \<Rightarrow> Some (w, n) | _ \<Rightarrow> None))"

definition Masked :: "int \<times> nat \<Rightarrow> int \<times> nat" where
  "Masked p = (fst p div 2 ^ (32 - snd p) * 2 ^ (32 - snd p), snd p)"

definition addr4_string :: "int \<Rightarrow> string" where
  "addr4_string w =
     Join (CHR ''.'') (map (\<lambda>n. Itoa (w div 2 ^ n mod 256)) [24, 16, 8, 0])"

definition prefix_string :: "int \<times> nat \<Rightarrow> string" where
  "prefix_string p = addr4_string (fst p) @ CHR ''/'' # Itoa (int (snd p))"

lemma Masked_idem [simp]: "Masked (Masked p) = Masked p"
  by (simp add: Masked_def)

lemma parse_ipv4_bound: "parse_ipv4 s = Some w \<Longrightarrow> w < 2 ^ 32"
proof -
  assume "parse_ipv4 s = Some w"
  then obtain a b c d where fs: "map ipv4_field (Split (CHR ''.'') s) = [Some a, Some b, Some c, Some d]"
    and w: "w = ((a * 256 + b) * 256 + c) * 256 + d"
    by (auto simp: parse_ipv4_def split: list.splits option.splits)
  have le: "n \<le> 255" if "ipv4_field f = Some n" for f n
    using that by (auto simp: ipv4_field_def split: if_splits option.splits)
  from fs have "a \<le> 255" "b \<le> 255" "c \<le> 255" "d \<le> 255"
    by (auto simp: map_eq_Cons_conv dest: le)
  with w show ?thesis by simp
qed

section \<open>URLs\<close>

datatype encoding = EncPath | EncHost | EncZone | EncUserPassword | EncFragment

definition shouldEscape :: "char \<Rightarrow> encoding \<Rightarrow> bool" where
  "shouldEscape c mode =
     (if is_alnum c then False
      else if (mode = EncHost \<or> mode = EncZone) \<and> (c \<in> set ''!$&()*+,;=:[]<>'' \<or> c = CHR 0x27 \<or> c = CHR 0x22)
        then False
      else if c \<in> set ''-_.~'' then False
      else if c \<in> set ''$&+,/:;=?@'' \<and> mode = EncPath then c = CHR ''?''
      else if c \<in> set ''$&+,/:;=?@'' \<and> mode = EncUserPassword then c \<in> set ''@/?:''
      else if c \<in> set ''$&+,/:;=?@'' \<and> mode = EncFragment then False
      else if mode = EncFragment \<and> c \<in> set ''!()*'' then False
      else True)"

text \<open>\<open>unescape\<close>: the decoded text, or None for an escape or a host character Go refuses.\<close>

fun unescape :: "encoding \<Rightarrow> string \<Rightarrow> string option" where
  "unescape mode [] = Some []"
| "unescape mode (c # s) =
     (if c = CHR ''%'' then
        (case s of
           h # l # rest \<Rightarrow>
             (case (hex_value h, hex_value l) of
                (Some hi, Some lo) \<Rightarrow>
                  (let v = char_of (16 * hi + lo); is25 = (hi = 2 \<and> lo = 5) in
                   if mode = EncHost \<and> hi < 8 \<and> \<not> is25 then None
                   else if mode = EncZone \<and> \<not> is25 \<and> v \<noteq> CHR '' '' \<and> shouldEscape v EncHost then None
                   else map_option (\<lambda>t. v # t) (unescape mode rest))
              | _ \<Rightarrow> None)
         | _ \<Rightarrow> None)
      else if (mode = EncHost \<or> mode = EncZone) \<and> code c < 128 \<and> shouldEscape c mode then None
      else map_option (\<lambda>t. c # t) (unescape mode s))"

fun scheme_scan :: "string \<Rightarrow> string \<Rightarrow> (string \<times> string) option" where
  "scheme_scan seen [] = Some ([], rev seen)"
| "scheme_scan seen (c # s) =
     (if is_alpha c then scheme_scan (c # seen) s
      else if is_digit c \<or> c \<in> set ''+-.'' then
        (if seen = [] then Some ([], c # s) else scheme_scan (c # seen) s)
      else if c = CHR '':'' then (if seen = [] then None else Some (rev seen, s))
      else Some ([], rev seen @ c # s))"

definition getScheme :: "string \<Rightarrow> (string \<times> string) option" where
  "getScheme raw = scheme_scan [] raw"

definition validOptionalPort :: "string \<Rightarrow> bool" where
  "validOptionalPort p \<longleftrightarrow> p = [] \<or> hd p = CHR '':'' \<and> list_all is_digit (tl p)"

definition validUserinfo :: "string \<Rightarrow> bool" where
  "validUserinfo s = list_all (\<lambda>c. is_alnum c \<or> c \<in> set ''-._:~!$&()*+,;=%@'' \<or> c = CHR 0x27) s"

fun cut_at :: "string \<Rightarrow> string \<Rightarrow> string \<Rightarrow> (string \<times> string) option" where
  "cut_at p seen [] = (if p = [] then Some (rev seen, []) else None)"
| "cut_at p seen (c # s) =
     (if prefix p (c # s) then Some (rev seen, c # s) else cut_at p (c # seen) s)"

definition parseHost :: "string \<Rightarrow> string \<Rightarrow> string option" where
  "parseHost scheme host =
     (case LastCut host (CHR ''['') of
        Some (_, inner) \<Rightarrow>
          (case LastCut host (CHR '']'') of
             None \<Rightarrow> None
           | Some (_, port) \<Rightarrow>
               (let name = take (length inner - length port - 1) inner in
                if CHR '']'' \<notin> set inner \<or> \<not> validOptionalPort port then None
                else
                  (case (unescape EncHost port,
                         (case cut_at ''%25'' [] name of
                            Some (a, z) \<Rightarrow>
                              (case (unescape EncHost a, unescape EncZone z) of
                                 (Some a', Some z') \<Rightarrow> Some (a' @ z') | _ \<Rightarrow> None)
                          | None \<Rightarrow> unescape EncHost name)) of
                     (Some port', Some name') \<Rightarrow>
                       (case ParseAddr name' of
                          Some (V6 _ _) \<Rightarrow> Some (''['' @ name' @ '']'' @ port')
                        | _ \<Rightarrow> None)
                   | _ \<Rightarrow> None)))
      | None \<Rightarrow>
          (let lenient = scheme \<in> {''postgres'', ''postgresql''};
               port = (if lenient then (case LastCut host (CHR '':'') of None \<Rightarrow> [] | Some (_, p) \<Rightarrow> CHR '':'' # p)
                       else dropWhile (\<lambda>c. c \<noteq> CHR '':'') host) in
           if validOptionalPort port then unescape EncHost host else None))"

text \<open>The authority: whether user information is present, and the host.\<close>

definition parseAuthority :: "string \<Rightarrow> string \<Rightarrow> (bool \<times> string) option" where
  "parseAuthority scheme auth =
     (case LastCut auth (CHR ''@'') of
        None \<Rightarrow> map_option (\<lambda>h. (False, h)) (parseHost scheme auth)
      | Some (user, host) \<Rightarrow>
          (case parseHost scheme host of
             None \<Rightarrow> None
           | Some h \<Rightarrow>
               if validUserinfo user \<and> unescape EncUserPassword user \<noteq> None
               then Some (True, h) else None))"

record url =
  url_Scheme :: string
  url_Opaque :: string
  url_HasUser :: bool
  url_Host :: string
  url_Path :: string
  url_RawQuery :: string
  url_ForceQuery :: bool
  url_Fragment :: string

definition url_parse :: "bool \<Rightarrow> string \<Rightarrow> url option" where
  "url_parse viaRequest raw =
     (let blank = \<lparr>url_Scheme = [], url_Opaque = [], url_HasUser = False, url_Host = [], url_Path = [],
                   url_RawQuery = [], url_ForceQuery = False, url_Fragment = []\<rparr> in
      if list_ex (\<lambda>c. code c < 32 \<or> code c = 127) raw \<or> raw = [] \<and> viaRequest then None
      else if raw = ''*'' then Some (blank\<lparr>url_Path := ''*''\<rparr>)
      else case getScheme raw of
          None \<Rightarrow> None
        | Some (sch, rest0) \<Rightarrow>
            (let scheme = ToLower sch;
                 force = (HasSuffix rest0 ''?'' \<and> count_list rest0 (CHR ''?'') = 1);
                 rest = (if force then butlast rest0 else fst (Cut rest0 (CHR ''?'')));
                 query = (if force then [] else fst (snd (Cut rest0 (CHR ''?''))));
                 base = blank\<lparr>url_Scheme := scheme, url_ForceQuery := force, url_RawQuery := query\<rparr> in
             if \<not> HasPrefix rest ''/'' \<and> scheme \<noteq> [] then Some (base\<lparr>url_Opaque := rest\<rparr>)
             else if \<not> HasPrefix rest ''/'' \<and> viaRequest then None
             else if \<not> HasPrefix rest ''/'' \<and> CHR '':'' \<in> set (fst (Cut rest (CHR ''/''))) then None
             else if (scheme \<noteq> [] \<or> \<not> viaRequest \<and> \<not> HasPrefix rest ''///'') \<and> HasPrefix rest ''//'' then
               (let auth = takeWhile (\<lambda>c. c \<noteq> CHR ''/'') (drop 2 rest);
                    path = dropWhile (\<lambda>c. c \<noteq> CHR ''/'') (drop 2 rest) in
                case (parseAuthority scheme auth, unescape EncPath path) of
                  (Some (user, host), Some p) \<Rightarrow>
                    Some (base\<lparr>url_HasUser := user, url_Host := host, url_Path := p\<rparr>)
                | _ \<Rightarrow> None)
             else map_option (\<lambda>p. base\<lparr>url_Path := p\<rparr>) (unescape EncPath rest)))"

definition ParseRequestURI :: "string \<Rightarrow> url option" where
  "ParseRequestURI raw = url_parse True raw"

definition Parse_url :: "string \<Rightarrow> url option" where
  "Parse_url raw =
     (case Cut raw (CHR ''#'') of (u, frag, _) \<Rightarrow>
        (case url_parse False u of
           None \<Rightarrow> None
         | Some v \<Rightarrow>
             if frag = [] then Some v
             else map_option (\<lambda>f. v\<lparr>url_Fragment := f\<rparr>) (unescape EncFragment frag)))"

lemma parse_url_user_example:
  "case Parse_url ''postgres://app:pw@db:5432/app'' of Some u \<Rightarrow> url_HasUser u | None \<Rightarrow> False"
  by code_simp

lemma parse_url_plain_example:
  "case Parse_url ''https://example.com/a?b=c#d'' of Some u \<Rightarrow> \<not> url_HasUser u | None \<Rightarrow> False"
  by code_simp

lemma parse_addr_example: "ParseAddr ''::1'' = Some (V6 [0, 0, 0, 0, 0, 0, 0, 1] [])"
  by code_simp

lemma parse_prefix_example:
  "(case ParsePrefix4 ''10.1.2.3/8'' of Some p \<Rightarrow> prefix_string (Masked p) | None \<Rightarrow> []) = ''10.0.0.0/8''"
  by code_simp

end
