(* ===== verification/Spec_Patterns.thy ===== *)
theory Spec_Patterns
  imports Spec_Types Go_Net
begin

text \<open>
  The package's patterns and its checks on single values: names, images, secret references,
  hostnames, directories, commands, environment variables. Code from other modules that the
  package calls (Kubernetes' name validation and resource quantities, the cron and time zone
  parsers, the YAML decoder, IDNA) is a parameter: a field of \<^theory_text>\<open>externals\<close>.
\<close>

section \<open>Parameters: code outside the repository\<close>

text \<open>
  \<open>ex_parse\<close>, \<open>ex_cmp\<close>, \<open>ex_add\<close> and \<open>ex_show\<close> stand for \<open>resource.ParseQuantity\<close>,
  \<open>Quantity.Cmp\<close>, \<open>Quantity.Add\<close> and \<open>Quantity.String\<close> of k8s.io/apimachinery, over a type of
  quantities \<open>'q\<close>; the three name predicates are \<open>len(validation.IsX(s)) == 0\<close>; \<open>ex_cron\<close> is
  \<open>cron.ParseStandard\<close> succeeding, \<open>ex_location\<close> is \<open>time.LoadLocation\<close> finding the zone in the
  time zone database, \<open>ex_yaml\<close> is \<open>yaml.YAMLToJSON\<close> followed by \<open>json.Unmarshal\<close> into a map,
  of which the code reads only which keys are present at the top and under \<open>metadata\<close>, and
  \<open>ex_idna\<close> is \<open>idna.Lookup.ToASCII\<close>.
\<close>

record 'q externals =
  ex_parse :: "string \<Rightarrow> 'q option"
  ex_cmp :: "'q \<Rightarrow> 'q \<Rightarrow> int"
  ex_add :: "'q \<Rightarrow> 'q \<Rightarrow> 'q"
  ex_show :: "'q \<Rightarrow> string"
  ex_dns_label :: "string \<Rightarrow> bool"
  ex_dns_subdomain :: "string \<Rightarrow> bool"
  ex_port_name :: "string \<Rightarrow> bool"
  ex_cron :: "string \<Rightarrow> bool"
  ex_location :: "string \<Rightarrow> bool"
  ex_yaml :: "string \<Rightarrow> (string list \<times> string list) option"
  ex_idna :: "string \<Rightarrow> string option"

section \<open>Patterns\<close>

text \<open>\<open>^[a-z][a-z0-9-]{0,38}[a-z0-9]$|^[a-z]$\<close>\<close>

definition namePattern :: "string \<Rightarrow> bool" where
  "namePattern s =
     (case s of
        [] \<Rightarrow> False
      | c # cs \<Rightarrow> is_lower c \<and>
          (cs = [] \<or>
           length cs \<le> 39 \<and> list_all is_name_char cs \<and> last cs \<noteq> CHR ''-''))"

text \<open>\<open>^[A-Za-z_][A-Za-z0-9_]*$\<close>\<close>

definition envPattern :: "string \<Rightarrow> bool" where
  "envPattern s =
     (case s of
        [] \<Rightarrow> False
      | c # cs \<Rightarrow> (is_alpha c \<or> c = CHR ''_'') \<and> list_all (\<lambda>d. is_alnum d \<or> d = CHR ''_'') cs)"

text \<open>\<open>^sha256:[a-f0-9]{64}$\<close>\<close>

definition digestPattern :: "string \<Rightarrow> bool" where
  "digestPattern s \<longleftrightarrow> HasPrefix s ''sha256:'' \<and> length s = 71 \<and> list_all is_hex_lower (drop 7 s)"

text \<open>\<open>^[a-z0-9](?:[a-z0-9-]{0,61}[a-z0-9])?$\<close>\<close>

definition runtimeName :: "string \<Rightarrow> bool" where
  "runtimeName s \<longleftrightarrow> s \<noteq> [] \<and> length s \<le> 63 \<and> list_all is_name_char s
     \<and> hd s \<noteq> CHR ''-'' \<and> last s \<noteq> CHR ''-''"

text \<open>\<open>^[a-zA-Z0-9_-]{1,64}$\<close>\<close>

definition noncePattern :: "string \<Rightarrow> bool" where
  "noncePattern s \<longleftrightarrow> s \<noteq> [] \<and> length s \<le> 64
     \<and> list_all (\<lambda>c. is_alnum c \<or> c = CHR ''_'' \<or> c = CHR ''-'') s"

text \<open>\<open>^[a-f0-9]{32}$\<close>\<close>

definition hexID :: "string \<Rightarrow> bool" where
  "hexID s \<longleftrightarrow> length s = 32 \<and> list_all is_hex_lower s"

section \<open>Secret references\<close>

definition secretPathSegment :: "string \<Rightarrow> bool" where
  "secretPathSegment v \<longleftrightarrow> v \<noteq> [] \<and> v \<noteq> ''.'' \<and> v \<noteq> ''..''
     \<and> list_all (\<lambda>c. is_alnum c \<or> c = CHR ''-'' \<or> c = CHR ''_'' \<or> c = CHR ''.'') v"

definition ValidSecretPath :: "string \<Rightarrow> bool" where
  "ValidSecretPath p \<longleftrightarrow> len p \<le> 512 \<and> (p = [] \<or> list_all secretPathSegment (Split (CHR ''/'') p))"

definition SecretRef_Valid :: "SecretRef \<Rightarrow> bool" where
  "SecretRef_Valid r =
     (if ref_Ref r \<noteq> []
      then namePattern (ref_Ref r) \<and> ref_Provider r = [] \<and> ref_Path r = [] \<and> ref_Key r = []
      else namePattern (ref_Provider r) \<and> ValidSecretPath (ref_Path r)
        \<and> ref_Key r \<noteq> [] \<and> len (ref_Key r) \<le> 128 \<and> secretPathSegment (ref_Key r))"

section \<open>Images, hostnames, directories\<close>

definition validateImage :: "string \<Rightarrow> unit result" where
  "validateImage v =
     checks
       [(v = [] \<or> 512 < len v
          \<or> ContainsAny v ([CHR '' '', TAB, LF, CR, CHR 0x5C] @ ''?#'')
          \<or> Contains v ''://'' \<or> HasPrefix v ''/'' \<or> Contains v ''..''
          \<or> 1 < count_list v (CHR ''@''),
         ''use an OCI repository with a tag or sha256 digest''),
        (CHR ''@'' \<in> set v \<and> (fst (Cut v (CHR ''@'')) = [] \<or> \<not> digestPattern (fst (snd (Cut v (CHR ''@''))))),
         ''image digest must be sha256 followed by 64 lowercase hexadecimal characters'')]"

definition ValidHostname :: "'q externals \<Rightarrow> string \<Rightarrow> bool" where
  "ValidHostname ex h \<longleftrightarrow>
     \<not> (244 < len h \<or> h = [] \<or> h \<noteq> ToLower h \<or> \<not> Contains h ''.'' \<or> is_IP h
        \<or> \<not> ex_dns_subdomain ex h)
     \<and> list_all (\<lambda>l. len l \<le> 63) (Split (CHR ''.'') h)"

definition cleanDirectory :: "string \<Rightarrow> bool" where
  "cleanDirectory p \<longleftrightarrow> HasPrefix p ''/'' \<and> p \<noteq> ''/'' \<and> len p \<le> 200 \<and> PathClean p = p
     \<and> \<not> ContainsAny p [NUL, CR, LF]"

definition reserved_mounts :: "string list" where
  "reserved_mounts = [''/proc'', ''/sys'', ''/dev'', ''/etc'', ''/var/run/secrets'']"

definition allowedMount :: "string \<Rightarrow> bool" where
  "allowedMount p \<longleftrightarrow> cleanDirectory p \<and> list_all (\<lambda>r. \<not> paths_overlap p r) reserved_mounts"

section \<open>Commands and lists of references\<close>

definition ValidateCommand :: "string list \<Rightarrow> string list \<Rightarrow> unit result" where
  "ValidateCommand command args =
     checks
       [(64 < len command \<or> 128 < len args, ''command/args exceed the supported element count''),
        (list_ex (\<lambda>w. IndexByte w NUL \<or> 4096 < len w) (command @ args),
         ''command/args must contain no NUL and at most 4096 bytes per element''),
        (command \<noteq> [] \<and> TrimSpace (hd command) = [], ''command executable cannot be empty'')]"

fun validateMembers_from :: "string list \<Rightarrow> string list \<Rightarrow> string \<Rightarrow> (string \<Rightarrow> bool) \<Rightarrow> unit result" where
  "validateMembers_from seen [] field known = Inr ()"
| "validateMembers_from seen (v # vs) field known =
     (if \<not> known v then Inl (Err field)
      else if v \<in> set seen then Inl (Err field)
      else validateMembers_from (v # seen) vs field known)"

definition validateMembers :: "string list \<Rightarrow> string \<Rightarrow> (string \<Rightarrow> bool) \<Rightarrow> unit result" where
  "validateMembers vs field known = validateMembers_from [] vs field known"

lemma validateMembers_from_Inr:
  "validateMembers_from seen vs field known = Inr u \<longleftrightarrow>
     (\<forall>v \<in> set vs. known v) \<and> distinct vs \<and> set vs \<inter> set seen = {}"
  by (induction seen vs field known rule: validateMembers_from.induct) auto

lemma validateMembers_Inr [result_iff]:
  "validateMembers vs field known = Inr u \<longleftrightarrow> (\<forall>v \<in> set vs. known v) \<and> distinct vs"
  by (simp add: validateMembers_def validateMembers_from_Inr)

section \<open>Environment variables\<close>

text \<open>
  \<open>sensitiveEnv\<close>: by the name's last words, by a key word between underscores, by the shape
  of the value, or by credentials in a URL. Names are ASCII here: the others are refused by
  \<open>envPattern\<close> at every caller.
\<close>

definition sensitive_suffixes :: "string list" where
  "sensitive_suffixes =
     [''PASSWORD'', ''PASSWD'', ''PWD'', ''TOKEN'', ''SECRET'', ''API_KEY'', ''PRIVATE_KEY'', ''ACCESS_KEY'',
      ''ACCESS_KEY_ID'', ''SECRET_KEY'', ''CLIENT_SECRET'', ''SIGNING_KEY'', ''ENCRYPTION_KEY'']"

text \<open>\<open>(?i)(^|_)(SECRET_KEY|PRIVATE_KEY|API_KEY|CLIENT_SECRET)(_|$)\<close>, on the upper-case name.\<close>

fun key_word_at :: "bool \<Rightarrow> string \<Rightarrow> bool" where
  "key_word_at start s =
     (start \<and> list_ex (\<lambda>w. prefix w s \<and> (length s = length w \<or> s ! length w = CHR ''_''))
                [''SECRET_KEY'', ''PRIVATE_KEY'', ''API_KEY'', ''CLIENT_SECRET'']
      \<or> (case s of [] \<Rightarrow> False | c # cs \<Rightarrow> key_word_at (c = CHR ''_'') cs))"

declare key_word_at.simps [simp del]

definition sensitiveEnvName :: "string \<Rightarrow> bool" where
  "sensitiveEnvName key = key_word_at True (ToUpper key)"

text \<open>\<open>-----BEGIN (?:[A-Z0-9]+ )*PRIVATE KEY-----\<close>, from the words after \<open>BEGIN\<close> on.\<close>

fun private_key_tail :: "nat \<Rightarrow> string \<Rightarrow> bool" where
  "private_key_tail 0 s = False"
| "private_key_tail (Suc fuel) s =
     (prefix ''PRIVATE KEY-----'' s
      \<or> (let w = takeWhile (\<lambda>c. is_upper c \<or> is_digit c) s in
         w \<noteq> [] \<and> prefix '' '' (drop (length w) s) \<and> private_key_tail fuel (drop (length w + 1) s)))"

fun private_key_block :: "string \<Rightarrow> bool" where
  "private_key_block [] = False"
| "private_key_block (c # s) =
     (prefix ''-----BEGIN '' (c # s) \<and> private_key_tail (length s) (drop 11 (c # s)) \<or> private_key_block s)"

definition token_char :: "char \<Rightarrow> bool" where
  "token_char c \<longleftrightarrow> is_alnum c \<or> c = CHR ''_'' \<or> c = CHR ''-''"

text \<open>\<open>^(?:gh[pousr]_|github_pat_|glpat-|sk-proj-)[A-Za-z0-9_-]{12,}\<close>\<close>

definition provider_token :: "string \<Rightarrow> bool" where
  "provider_token v =
     list_ex (\<lambda>p. prefix p v \<and> 12 \<le> len (takeWhile token_char (drop (length p) v)))
       [''ghp_'', ''gho_'', ''ghu_'', ''ghs_'', ''ghr_'', ''github_pat_'', ''glpat-'', ''sk-proj-'']"

text \<open>\<open>^eyJ[A-Za-z0-9_-]+\.[A-Za-z0-9_-]+\.[A-Za-z0-9_-]+$\<close>\<close>

definition jwt_value :: "string \<Rightarrow> bool" where
  "jwt_value v =
     (case Split (CHR ''.'') v of
        [a, b, c] \<Rightarrow> prefix ''eyJ'' a \<and> 3 < length a \<and> b \<noteq> [] \<and> c \<noteq> []
          \<and> list_all token_char a \<and> list_all token_char b \<and> list_all token_char c
      | _ \<Rightarrow> False)"

definition sensitiveEnvValue :: "string \<Rightarrow> bool" where
  "sensitiveEnvValue v \<longleftrightarrow> private_key_block v \<or> provider_token v \<or> jwt_value v"

definition sensitiveEnv :: "string \<Rightarrow> string \<Rightarrow> bool" where
  "sensitiveEnv key value \<longleftrightarrow>
     list_ex (\<lambda>w. ToUpper key = w \<or> HasSuffix (ToUpper key) (CHR ''_'' # w)) sensitive_suffixes
     \<or> sensitiveEnvName key \<or> sensitiveEnvValue value
     \<or> (case Parse_url value of None \<Rightarrow> False | Some u \<Rightarrow> url_HasUser u)"

definition MaxEnvironmentVariables :: int where "MaxEnvironmentVariables = 256"
definition MaxEnvironmentBytes :: int where "MaxEnvironmentBytes = 524288"

definition env_bytes :: "string gomap \<Rightarrow> int" where
  "env_bytes env = fold (\<lambda>(k, v) t. t + (len k + len v)) env 0"

definition validateEnvironment :: "string \<Rightarrow> string gomap \<Rightarrow> unit result" where
  "validateEnvironment field env =
     andE (checks [(MaxEnvironmentVariables < len env, field),
                   (MaxEnvironmentBytes < env_bytes env, field)])
       (forE (\<lambda>(k, v). checks
          [(sensitiveEnv k v, field @ ''.'' @ k),
           (\<not> envPattern k \<or> 128 < len k \<or> IndexByte v NUL \<or> 4096 < len v, field @ ''.'' @ k)]) env)"

section \<open>Facts about the checks\<close>

lemma namePattern_nonempty: "namePattern s \<Longrightarrow> s \<noteq> []"
  by (auto simp: namePattern_def)

lemma namePattern_length: "namePattern s \<Longrightarrow> length s \<le> 40"
  by (auto simp: namePattern_def split: list.splits)

lemma namePattern_chars: "namePattern s \<Longrightarrow> list_all is_name_char s"
  by (auto simp: namePattern_def is_name_char_def split: list.splits)

lemma is_name_char_not_slash: "is_name_char c \<Longrightarrow> c \<noteq> CHR ''/''"
  by (auto simp: is_name_char_def is_lower_def is_digit_def code_def)

lemma clean_segs_no_dots:
  "\<forall>w \<in> set ws. w \<noteq> [] \<and> w \<noteq> ''.'' \<and> w \<noteq> ''..'' \<Longrightarrow> clean_segs r out ws = rev out @ ws"
  by (induction ws arbitrary: out) auto

text \<open>A valid secret path is its own clean form, relative and without traversal.\<close>

lemma ValidSecretPath_clean:
  assumes "ValidSecretPath p" and "p \<noteq> []"
  shows "PathClean p = p" and "\<not> PathIsAbs p" and "''..'' \<notin> set (Split (CHR ''/'') p)"
proof -
  let ?ws = "Split (CHR ''/'') p"
  have segs: "\<forall>w \<in> set ?ws. secretPathSegment w"
    using assms by (auto simp: ValidSecretPath_def list_all_iff)
  then have ws: "\<forall>w \<in> set ?ws. w \<noteq> [] \<and> w \<noteq> ''.'' \<and> w \<noteq> ''..''"
    by (auto simp: secretPathSegment_def)
  then show "''..'' \<notin> set ?ws" by auto
  show rel: "\<not> PathIsAbs p"
  proof
    assume "PathIsAbs p"
    then obtain q where "p = CHR ''/'' # q" by (auto simp: PathIsAbs_def elim: prefixE)
    then have "[] \<in> set ?ws" by simp
    with ws show False by auto
  qed
  show "PathClean p = p"
    using rel assms(2) clean_segs_no_dots [OF ws, of False "[]"]
    by (simp add: PathClean_def)
qed

text \<open>An allowed mount is not, is not below and is not above a directory the system owns.\<close>

lemma allowedMount_reserved:
  "allowedMount p \<Longrightarrow> r \<in> set reserved_mounts \<Longrightarrow> \<not> paths_overlap p r"
  by (auto simp: allowedMount_def list_all_iff)

lemma validateEnvironment_Inr:
  "validateEnvironment field env = Inr u \<longleftrightarrow>
     len env \<le> 256 \<and> env_bytes env \<le> 524288
     \<and> (\<forall>(k, v) \<in> set env. \<not> sensitiveEnv k v \<and> envPattern k \<and> len k \<le> 128
          \<and> NUL \<notin> set v \<and> len v \<le> 4096)"
  by (auto simp: validateEnvironment_def result_iff MaxEnvironmentVariables_def
        MaxEnvironmentBytes_def IndexByte_def)

end
