(* ===== verification/Spec_Resources.thy ===== *)
theory Spec_Resources
  imports Spec_Patterns
begin

text \<open>
  Resource budgets (resources.go, sidecars.go): the size profiles, the effective budget of a
  service, its normal form, the ceiling a plan allows, and the budget of a whole pod.
  Quantities are read and compared by the Kubernetes library, a parameter; \<open>MustParse\<close> of a
  text that library refuses panics, which is the error \<open>panic\<close> here.
\<close>

section \<open>Profiles\<close>

record Profile =
  pr_CPURequest :: string
  pr_CPULimit :: string
  pr_MemoryRequest :: string
  pr_MemoryLimit :: string

definition mk_profile :: "string \<Rightarrow> string \<Rightarrow> string \<Rightarrow> string \<Rightarrow> Profile" where
  "mk_profile a b c d =
     \<lparr>pr_CPURequest = a, pr_CPULimit = b, pr_MemoryRequest = c, pr_MemoryLimit = d\<rparr>"

definition Profiles :: "(string \<times> Profile) list" where
  "Profiles =
     [(''small'', mk_profile ''120m'' ''600m'' ''154Mi'' ''308Mi''),
      (''medium'', mk_profile ''300m'' ''1200m'' ''308Mi'' ''615Mi''),
      (''large'', mk_profile ''600m'' ''2400m'' ''615Mi'' ''1229Mi''),
      (''compute'', mk_profile ''1200m'' ''4800m'' ''2458Mi'' ''4916Mi''),
      (''gpu'', mk_profile ''2'' ''8'' ''8Gi'' ''16Gi'')]"

definition override :: "string \<Rightarrow> string \<Rightarrow> string" where
  "override v p = (if v \<noteq> [] then v else p)"

definition EffectiveResources :: "Service \<Rightarrow> Profile" where
  "EffectiveResources s =
     (let p = (case map_of Profiles (sv_Size s) of
                 Some p \<Rightarrow> p
               | None \<Rightarrow> the (map_of Profiles ''small'')) in
      case sv_Resources s of
        None \<Rightarrow> p
      | Some r \<Rightarrow>
          \<lparr>pr_CPURequest = override (res_CPURequest r) (pr_CPURequest p),
           pr_CPULimit = override (res_CPULimit r) (pr_CPULimit p),
           pr_MemoryRequest = override (res_MemoryRequest r) (pr_MemoryRequest p),
           pr_MemoryLimit = override (res_MemoryLimit r) (pr_MemoryLimit p)\<rparr>)"

section \<open>Normal form\<close>

text \<open>\<open>^(?:[0-9]+(?:\.[0-9]{1,3})?|[0-9]+m)$\<close> and \<open>^[0-9]+(?:Ki|Mi|Gi|Ti|k|M|G|T)?$\<close>\<close>

definition cpuQuantity :: "string \<Rightarrow> bool" where
  "cpuQuantity v =
     (let d = takeWhile is_digit v; r = dropWhile is_digit v in
      d \<noteq> [] \<and>
      (case r of
         [] \<Rightarrow> True
       | c # f \<Rightarrow> r = ''m'' \<or> (c = CHR ''.'' \<and> f \<noteq> [] \<and> length f \<le> 3 \<and> list_all is_digit f)))"

definition memoryQuantity :: "string \<Rightarrow> bool" where
  "memoryQuantity v \<longleftrightarrow>
     takeWhile is_digit v \<noteq> []
     \<and> dropWhile is_digit v \<in> set [[], ''Ki'', ''Mi'', ''Gi'', ''Ti'', ''k'', ''M'', ''G'', ''T'']"

definition MustParse :: "'q externals \<Rightarrow> string \<Rightarrow> 'q result" where
  "MustParse ex v = (case ex_parse ex v of None \<Rightarrow> Inl (Err ''panic'') | Some q \<Rightarrow> Inr q)"

text \<open>One turn of the loop over the four fields: an empty field is left alone.\<close>

definition normQuantity ::
  "'q externals \<Rightarrow> string \<Rightarrow> (string \<Rightarrow> bool) \<Rightarrow> string \<Rightarrow> string \<Rightarrow> string \<Rightarrow> string result" where
  "normQuantity ex field pattern lower upper v =
     (if v = [] then Inr []
      else if 32 < len v \<or> \<not> pattern v then Inl (Err (''resources.'' @ field))
      else case ex_parse ex v of
          None \<Rightarrow> Inl (Err (''resources.'' @ field))
        | Some q \<Rightarrow>
            bindE (MustParse ex lower) (\<lambda>lo.
              if ex_cmp ex q lo < 0 then Inl (Err (''resources.'' @ field))
              else bindE (MustParse ex upper) (\<lambda>hi.
                if 0 < ex_cmp ex q hi then Inl (Err (''resources.'' @ field))
                else Inr (ex_show ex q))))"

definition normCPU :: "'q externals \<Rightarrow> string \<Rightarrow> string \<Rightarrow> string result" where
  "normCPU ex field = normQuantity ex field cpuQuantity ''1m'' ''64''"

definition normMemory :: "'q externals \<Rightarrow> string \<Rightarrow> string \<Rightarrow> string result" where
  "normMemory ex field = normQuantity ex field memoryQuantity ''1Mi'' ''256Gi''"

text \<open>\<open>q := MustParse(a); if q.Cmp(MustParse(b)) > 0 { error }\<close>\<close>

definition notAbove :: "'q externals \<Rightarrow> string \<Rightarrow> string \<Rightarrow> string \<Rightarrow> unit result" where
  "notAbove ex field a b =
     bindE (MustParse ex a) (\<lambda>q. bindE (MustParse ex b) (\<lambda>m.
       if 0 < ex_cmp ex q m then Inl (Err (''resources.'' @ field)) else Inr ()))"

definition zero_Resources :: Resources where
  "zero_Resources = \<lparr>res_CPURequest = [], res_CPULimit = [], res_MemoryRequest = [], res_MemoryLimit = []\<rparr>"

text \<open>The loop over the four fields, then the comparison of the effective requests and limits.\<close>

definition normFields :: "'q externals \<Rightarrow> Resources \<Rightarrow> Resources result" where
  "normFields ex r =
     bindE (normCPU ex ''cpu_request'' (res_CPURequest r)) (\<lambda>a.
     bindE (normCPU ex ''cpu_limit'' (res_CPULimit r)) (\<lambda>b.
     bindE (normMemory ex ''memory_request'' (res_MemoryRequest r)) (\<lambda>c.
     bindE (normMemory ex ''memory_limit'' (res_MemoryLimit r)) (\<lambda>d.
       Inr \<lparr>res_CPURequest = a, res_CPULimit = b, res_MemoryRequest = c, res_MemoryLimit = d\<rparr>))))"

definition withinLimits :: "'q externals \<Rightarrow> Service \<Rightarrow> unit result" where
  "withinLimits ex s =
     (let p = EffectiveResources s in
      andE (notAbove ex ''cpu_request'' (pr_CPURequest p) (pr_CPULimit p))
        (notAbove ex ''memory_request'' (pr_MemoryRequest p) (pr_MemoryLimit p)))"

definition normalizeResources :: "'q externals \<Rightarrow> Service \<Rightarrow> Service result" where
  "normalizeResources ex s =
     (case sv_Resources s of
        None \<Rightarrow> Inr s
      | Some r \<Rightarrow>
          bindE (normFields ex r) (\<lambda>r'.
            if r' = zero_Resources then Inr (s\<lparr>sv_Resources := None\<rparr>)
            else (let s' = s\<lparr>sv_Resources := Some r'\<rparr> in andE (withinLimits ex s') (Inr s'))))"

definition ValidateResourceCeiling :: "'q externals \<Rightarrow> Service \<Rightarrow> Profile \<Rightarrow> unit result" where
  "ValidateResourceCeiling ex s ceiling =
     bindE (normalizeResources ex s) (\<lambda>s'.
       let p = EffectiveResources s' in
       andE (notAbove ex ''cpu_request'' (pr_CPURequest p) (pr_CPURequest ceiling))
       (andE (notAbove ex ''cpu_limit'' (pr_CPULimit p) (pr_CPULimit ceiling))
       (andE (notAbove ex ''memory_request'' (pr_MemoryRequest p) (pr_MemoryRequest ceiling))
        (notAbove ex ''memory_limit'' (pr_MemoryLimit p) (pr_MemoryLimit ceiling)))))"

section \<open>The budget of a pod\<close>

definition sumQuantities :: "'q externals \<Rightarrow> string \<Rightarrow> string list \<Rightarrow> string result" where
  "sumQuantities ex base parts =
     bindE (MustParse ex base) (\<lambda>q.
     bindE (foldE (\<lambda>q v. bindE (MustParse ex v) (\<lambda>x. Inr (ex_add ex q x))) q parts) (\<lambda>t.
       Inr (ex_show ex t)))"

definition PodResources :: "'q externals \<Rightarrow> Service \<Rightarrow> Profile result" where
  "PodResources ex s =
     (let p = EffectiveResources s; cpu = map sc_CPU (sv_Sidecars s); mem = map sc_Memory (sv_Sidecars s) in
      if sv_Sidecars s = [] then Inr p
      else
        bindE (sumQuantities ex (pr_CPURequest p) cpu) (\<lambda>a.
        bindE (sumQuantities ex (pr_CPULimit p) cpu) (\<lambda>b.
        bindE (sumQuantities ex (pr_MemoryRequest p) mem) (\<lambda>c.
        bindE (sumQuantities ex (pr_MemoryLimit p) mem) (\<lambda>d.
          Inr (mk_profile a b c d))))))"

section \<open>What the library of quantities promises\<close>

text \<open>
  A quantity denotes a whole number of nano-units. Comparison and addition are those of the
  numbers; the text of a quantity parses back to it, and a text so produced is canonical.
\<close>

definition quantity_laws :: "'q externals \<Rightarrow> ('q \<Rightarrow> int) \<Rightarrow> bool" where
  "quantity_laws ex val \<longleftrightarrow>
     (\<forall>a b. (ex_cmp ex a b < 0 \<longleftrightarrow> val a < val b) \<and> (0 < ex_cmp ex a b \<longleftrightarrow> val b < val a))
     \<and> (\<forall>a b. val (ex_add ex a b) = val a + val b)
     \<and> (\<forall>q. \<exists>q'. ex_parse ex (ex_show ex q) = Some q' \<and> val q' = val q \<and> ex_show ex q' = ex_show ex q)"

text \<open>
  The canonical form of a quantity in the accepted range keeps to the accepted syntax: no
  digits beyond the third decimal, and no suffix beyond \<open>Ti\<close> and \<open>T\<close>.
\<close>

definition canonical_syntax :: "'q externals \<Rightarrow> bool" where
  "canonical_syntax ex \<longleftrightarrow>
     (\<forall>v w. normCPU ex [] v = Inr w \<and> w \<noteq> [] \<longrightarrow> len w \<le> 32 \<and> cpuQuantity w)
     \<and> (\<forall>v w. normMemory ex [] v = Inr w \<and> w \<noteq> [] \<longrightarrow> len w \<le> 32 \<and> memoryQuantity w)"

definition quantity_val :: "'q externals \<Rightarrow> ('q \<Rightarrow> int) \<Rightarrow> string \<Rightarrow> int" where
  "quantity_val ex val v = (case ex_parse ex v of None \<Rightarrow> 0 | Some q \<Rightarrow> val q)"

section \<open>Facts\<close>

lemma MustParse_Inr [result_iff]: "MustParse ex v = Inr q \<longleftrightarrow> ex_parse ex v = Some q"
  by (auto simp: MustParse_def split: option.splits)

lemma normQuantity_Inr:
  "normQuantity ex field pattern lower upper v = Inr w \<longleftrightarrow>
     (if v = [] then w = []
      else len v \<le> 32 \<and> pattern v \<and>
        (\<exists>q lo hi. ex_parse ex v = Some q \<and> ex_parse ex lower = Some lo \<and> ex_parse ex upper = Some hi
           \<and> \<not> ex_cmp ex q lo < 0 \<and> \<not> 0 < ex_cmp ex q hi \<and> w = ex_show ex q))"
  by (auto simp: normQuantity_def result_iff split: option.splits if_splits)

lemma notAbove_Inr:
  "notAbove ex field a b = Inr u \<longleftrightarrow>
     (\<exists>q m. ex_parse ex a = Some q \<and> ex_parse ex b = Some m \<and> \<not> 0 < ex_cmp ex q m)"
  by (auto simp: notAbove_def result_iff)

lemma notAbove_val:
  assumes "quantity_laws ex val" and "notAbove ex field a b = Inr u"
  shows "quantity_val ex val a \<le> quantity_val ex val b"
  using assms by (auto simp: notAbove_Inr quantity_laws_def quantity_val_def not_less)

lemma normQuantity_field:
  "normQuantity ex field pattern lower upper v = Inr w \<longleftrightarrow> normQuantity ex [] pattern lower upper v = Inr w"
  by (simp add: normQuantity_Inr)

text \<open>A canonical quantity is left as it is, and its value is that of the text written.\<close>

lemma normQuantity_stable:
  assumes laws: "quantity_laws ex val"
    and norm: "normQuantity ex field pattern lower upper v = Inr w"
    and syn: "w \<noteq> [] \<Longrightarrow> len w \<le> 32 \<and> pattern w"
  shows "normQuantity ex field pattern lower upper w = Inr w"
proof (cases "w = []")
  case True
  then show ?thesis by (simp add: normQuantity_def)
next
  case False
  then have "v \<noteq> []" using norm by (auto simp: normQuantity_def)
  with norm obtain q lo hi where
    q: "ex_parse ex v = Some q" "ex_parse ex lower = Some lo" "ex_parse ex upper = Some hi"
      "\<not> ex_cmp ex q lo < 0" "\<not> 0 < ex_cmp ex q hi" and w: "w = ex_show ex q"
    by (auto simp: normQuantity_Inr)
  obtain q' where "ex_parse ex w = Some q'" "val q' = val q" "ex_show ex q' = w"
    using laws w unfolding quantity_laws_def by metis
  with q laws syn False show ?thesis
    by (auto simp: normQuantity_Inr quantity_laws_def)
qed

lemma normCPU_stable:
  assumes "quantity_laws ex val" and "canonical_syntax ex" and "normCPU ex field v = Inr w"
  shows "normCPU ex field w = Inr w"
proof -
  have "normCPU ex [] v = Inr w" using assms(3) normQuantity_field unfolding normCPU_def by metis
  then show ?thesis
    using assms normQuantity_stable [OF assms(1), of field cpuQuantity _ _ v w]
    by (auto simp: normCPU_def canonical_syntax_def)
qed

lemma normMemory_stable:
  assumes "quantity_laws ex val" and "canonical_syntax ex" and "normMemory ex field v = Inr w"
  shows "normMemory ex field w = Inr w"
proof -
  have "normMemory ex [] v = Inr w" using assms(3) normQuantity_field unfolding normMemory_def by metis
  then show ?thesis
    using assms normQuantity_stable [OF assms(1), of field memoryQuantity _ _ v w]
    by (auto simp: normMemory_def canonical_syntax_def)
qed

text \<open>Only the field \<open>resources\<close> changes, and what is stored is a fixed point.\<close>

lemma normFields_stable:
  assumes laws: "quantity_laws ex val" "canonical_syntax ex" and norm: "normFields ex r = Inr r'"
  shows "normFields ex r' = Inr r'"
  using norm
  by (auto simp: normFields_def result_iff normCPU_stable [OF laws] normMemory_stable [OF laws])

lemma normalizeResources_Some:
  "normalizeResources ex s = Inr s' \<Longrightarrow> sv_Resources s' = Some r' \<Longrightarrow>
     \<exists>r. sv_Resources s = Some r \<and> normFields ex r = Inr r' \<and> r' \<noteq> zero_Resources
       \<and> withinLimits ex s' = Inr () \<and> s' = s\<lparr>sv_Resources := Some r'\<rparr>"
  unfolding normalizeResources_def
  by (cases "sv_Resources s"; simp; cases "normFields ex (the (sv_Resources s))";
      cases "projr (normFields ex (the (sv_Resources s))) = zero_Resources";
      force simp: result_iff Let_def)

lemma normalizeResources_frame:
  "normalizeResources ex s = Inr s' \<Longrightarrow> s' = s\<lparr>sv_Resources := sv_Resources s'\<rparr>"
  by (auto simp: normalizeResources_def result_iff Let_def split: option.splits if_splits)

text \<open>Only the field \<open>resources\<close> changes, and what is stored is a fixed point.\<close>

lemma normalizeResources_stable:
  assumes laws: "quantity_laws ex val" "canonical_syntax ex"
    and norm: "normalizeResources ex s = Inr s'"
  shows "normalizeResources ex s' = Inr s'"
proof (cases "sv_Resources s'")
  case (Some r')
  have self: "s'\<lparr>sv_Resources := Some r'\<rparr> = s'" using Some by simp
  show ?thesis
    using normalizeResources_Some [OF norm Some] normFields_stable [OF laws]
    by (auto simp: normalizeResources_def Some result_iff Let_def)
qed (simp add: normalizeResources_def)

text \<open>The stored request never exceeds the stored limit, for CPU and for memory.\<close>

lemma withinLimits_val:
  assumes "quantity_laws ex val" and "withinLimits ex s = Inr u"
  shows "quantity_val ex val (pr_CPURequest (EffectiveResources s)) \<le> quantity_val ex val (pr_CPULimit (EffectiveResources s))"
    and "quantity_val ex val (pr_MemoryRequest (EffectiveResources s)) \<le> quantity_val ex val (pr_MemoryLimit (EffectiveResources s))"
  using assms(2) notAbove_val [OF assms(1)] by (auto simp: withinLimits_def Let_def result_iff)

section \<open>Sums\<close>

lemma sum_loop:
  assumes "quantity_laws ex val"
    and "foldE (\<lambda>q v. bindE (MustParse ex v) (\<lambda>x. Inr (ex_add ex q x))) q parts = Inr t"
  shows "val t = val q + sum_list (map (quantity_val ex val) parts)"
  using assms(2)
proof (induction parts arbitrary: q)
  case (Cons v parts)
  then obtain x where "ex_parse ex v = Some x"
      "foldE (\<lambda>q v. bindE (MustParse ex v) (\<lambda>x. Inr (ex_add ex q x))) (ex_add ex q x) parts = Inr t"
    by (auto simp: result_iff)
  with Cons.IH [OF this(2)] assms(1) show ?case
    by (simp add: quantity_laws_def quantity_val_def)
qed simp

lemma sumQuantities_val:
  assumes "quantity_laws ex val" and "sumQuantities ex base parts = Inr v"
  shows "quantity_val ex val v = quantity_val ex val base + sum_list (map (quantity_val ex val) parts)"
proof -
  obtain q t where q: "ex_parse ex base = Some q"
      "foldE (\<lambda>q v. bindE (MustParse ex v) (\<lambda>x. Inr (ex_add ex q x))) q parts = Inr t" "v = ex_show ex t"
    using assms(2) by (auto simp: sumQuantities_def result_iff)
  obtain q' where "ex_parse ex v = Some q'" "val q' = val t"
    using assms(1) q(3) unfolding quantity_laws_def by metis
  then show ?thesis
    using sum_loop [OF assms(1) q(2)] q(1) by (simp add: quantity_val_def)
qed

end
