(* ===== verification/Spec_Workload.thy ===== *)
theory Spec_Workload
  imports Spec_Resources
begin

text \<open>
  The checks on one service that change nothing (certificate_mounts.go, aws_identity.go,
  container_daemon.go, runtime_profile.go, node_profile.go, custom_hostnames.go, runtime.go,
  mounts.go, workloads.go), in the code's order, and the derived facts about a service that
  other packages ask for.
\<close>

section \<open>Mount paths\<close>

definition volume_paths :: "Service \<Rightarrow> string list" where
  "volume_paths s = (case sv_Volume s of None \<Rightarrow> [] | Some v \<Rightarrow> [vol_MountPath v])"

text \<open>The order in which \<open>validateMountControls\<close> and the two identity checks collect them.\<close>

definition mount_paths :: "Service \<Rightarrow> string list" where
  "mount_paths s =
     volume_paths s @ map mnt_MountPath (sv_Mounts s)
     @ map cert_MountPath (sv_CertificateMounts s) @ map tmp_MountPath (sv_TemporaryMounts s)"

fun overlapping :: "string list \<Rightarrow> bool" where
  "overlapping [] = False"
| "overlapping (a # ps) = (list_ex (paths_overlap a) ps \<or> overlapping ps)"

text \<open>\<open>p == dir || HasPrefix(p, dir+"/") || HasPrefix(dir, p+"/")\<close>\<close>

definition covers :: "string \<Rightarrow> string list \<Rightarrow> bool" where
  "covers dir ps = list_ex (\<lambda>p. paths_overlap p dir) ps"

section \<open>Certificates\<close>

definition certificate_reference :: "CertificateMount \<Rightarrow> string" where
  "certificate_reference m =
     (if cert_Source m \<noteq> [] then ''ingress:'' @ cert_Hostname m else cert_Certificate m)"

fun certificate_loop :: "'q externals \<Rightarrow> Service \<Rightarrow> string list \<Rightarrow> CertificateMount list \<Rightarrow> unit result" where
  "certificate_loop ex s seen [] = Inr ()"
| "certificate_loop ex s seen (m # ms) =
     (if cert_Source m \<noteq> [] \<and>
         (cert_Source m \<noteq> ''ingress'' \<or> cert_Certificate m \<noteq> [] \<or> (\<not> sv_Public s \<and> sv_PublicTCP s = []))
      then Inl (Err ''certificate_mounts: source must be ingress'')
      else if cert_Source m = [] \<and>
         (\<not> runtimeName (cert_Certificate m) \<or> HasPrefix (cert_Certificate m) ''hp-auto-cert-'')
      then Inl (Err ''certificate_mounts: use a managed uploaded certificate reference'')
      else if certificate_reference m \<in> set seen
      then Inl (Err ''certificate_mounts: each certificate reference may be mounted once'')
      else if (\<not> (cert_Hostname m = [] \<and> cert_Source m = ''ingress'') \<and> \<not> ValidHostname ex (cert_Hostname m))
         \<or> \<not> allowedMount (cert_MountPath m)
      then Inl (Err ''certificate_mounts: hostname and directory'')
      else certificate_loop ex s (certificate_reference m # seen) ms)"

definition validateCertificateMounts :: "'q externals \<Rightarrow> Service \<Rightarrow> unit result" where
  "validateCertificateMounts ex s =
     (if 4 < len (sv_CertificateMounts s) then Inl (Err ''certificate_mounts: at most four'')
      else certificate_loop ex s [] (sv_CertificateMounts s))"

definition HasAutomaticCertificates :: "Application \<Rightarrow> bool" where
  "HasAutomaticCertificates a =
     list_ex (\<lambda>(n, s). list_ex (\<lambda>m. cert_Source m = ''ingress'') (sv_CertificateMounts s)) (app_services a)"

section \<open>Bindings to operator-owned identities\<close>

definition AWSIdentityTokenDirectory :: string where
  "AWSIdentityTokenDirectory = ''/var/run/secrets/hakopod/aws''"

definition awsIdentityReservedEnv :: "string \<Rightarrow> bool" where
  "awsIdentityReservedEnv key \<longleftrightarrow> ToUpper key \<in> set
     [''AWS_ACCESS_KEY'', ''AWS_ACCESS_KEY_ID'', ''AWS_SECRET_KEY'', ''AWS_SECRET_ACCESS_KEY'',
      ''AWS_SESSION_TOKEN'', ''AWS_SECURITY_TOKEN'', ''AWS_CREDENTIAL_EXPIRATION'', ''AWS_ROLE_ARN'',
      ''AWS_ROLE_SESSION_NAME'', ''AWS_WEB_IDENTITY_TOKEN_FILE'', ''AWS_REGION'', ''AWS_DEFAULT_REGION'',
      ''AWS_STS_REGIONAL_ENDPOINTS'', ''AWS_EC2_METADATA_DISABLED'', ''AWS_EC2_METADATA_SERVICE_ENDPOINT'',
      ''AWS_EC2_METADATA_SERVICE_ENDPOINT_MODE'', ''AWS_SHARED_CREDENTIALS_FILE'', ''AWS_CONFIG_FILE'',
      ''AWS_PROFILE'', ''AWS_DEFAULT_PROFILE'', ''AWS_CONTAINER_CREDENTIALS_RELATIVE_URI'',
      ''AWS_CONTAINER_CREDENTIALS_FULL_URI'', ''AWS_CONTAINER_AUTHORIZATION_TOKEN'',
      ''AWS_CONTAINER_AUTHORIZATION_TOKEN_FILE'', ''AWS_ENDPOINT_URL'', ''AWS_ENDPOINT_URL_STS'',
      ''AWS_CA_BUNDLE'']"

definition ContainerDaemonDirectory :: string where
  "ContainerDaemonDirectory = ''/var/run/secrets/hakopod/container-daemon''"

definition containerDaemonReservedEnv :: "string \<Rightarrow> bool" where
  "containerDaemonReservedEnv key \<longleftrightarrow> ToUpper key \<in> set
     [''DOCKER_HOST'', ''DOCKER_TLS_VERIFY'', ''DOCKER_CERT_PATH'', ''DOCKER_CONFIG'', ''DOCKER_API_VERSION'',
      ''BUILDKIT_HOST'']"

text \<open>The two checks share their shape: a name, three tables without reserved names, the mounts.\<close>

definition reserved_names :: "string \<Rightarrow> (string \<Rightarrow> bool) \<Rightarrow> string list \<Rightarrow> unit result" where
  "reserved_names table reserved keys =
     forE (\<lambda>k. checks [(reserved k, table @ ''.'' @ k)]) keys"

definition validateAWSIdentity :: "Service \<Rightarrow> unit result" where
  "validateAWSIdentity s =
     (if sv_AWSIdentity s = [] then Inr ()
      else andE (checks [(\<not> runtimeName (sv_AWSIdentity s), ''aws_identity'')])
        (andE (reserved_names ''env'' awsIdentityReservedEnv (gm_keys (sv_Env s)))
        (andE (reserved_names ''secrets'' awsIdentityReservedEnv (gm_keys (sv_Secrets s)))
        (andE (reserved_names ''bindings'' awsIdentityReservedEnv (gm_keys (sv_Bindings s)))
          (checks [(covers AWSIdentityTokenDirectory (mount_paths s), ''aws_identity'')])))))"

definition validateContainerDaemon :: "Service \<Rightarrow> unit result" where
  "validateContainerDaemon s =
     (if sv_ContainerDaemon s = [] then Inr ()
      else andE (checks [(\<not> runtimeName (sv_ContainerDaemon s), ''container_daemon'')])
        (andE (reserved_names ''env'' containerDaemonReservedEnv (gm_keys (sv_Env s)))
        (andE (reserved_names ''secrets'' containerDaemonReservedEnv (gm_keys (sv_Secrets s)))
        (andE (reserved_names ''bindings'' containerDaemonReservedEnv (gm_keys (sv_Bindings s)))
          (checks [(covers ContainerDaemonDirectory (mount_paths s), ''container_daemon'')])))))"

definition validateRuntimeProfile :: "Service \<Rightarrow> unit result" where
  "validateRuntimeProfile s =
     (if sv_RuntimeProfile s = [] then Inr ()
      else checks
        [(\<not> runtimeName (sv_RuntimeProfile s), ''runtime_profile''),
         (sv_Actions s \<noteq> None \<or> sv_Serverless s \<noteq> None, ''runtime_profile is unavailable'')])"

definition validateNodeProfile :: "Service \<Rightarrow> unit result" where
  "validateNodeProfile s =
     (if sv_NodeProfile s = [] then Inr ()
      else checks
        [(\<not> runtimeName (sv_NodeProfile s), ''node_profile''),
         (sv_Actions s \<noteq> None \<or> sv_Serverless s \<noteq> None, ''node_profile is unavailable''),
         (sv_NodeName s = [], ''node_profile requires node_name''),
         (1 < sv_Replicas s \<or> sv_Autoscaling s \<noteq> None, ''node_profile requires a single replica'')])"

section \<open>Ingress settings\<close>

definition DefaultCustomHostnamesMax :: int where "DefaultCustomHostnamesMax = 1000"
definition CustomHostnamesCeiling :: int where "CustomHostnamesCeiling = 50000"

definition CustomHostnames_Limit :: "CustomHostnames option \<Rightarrow> int" where
  "CustomHostnames_Limit c =
     (case c of
        None \<Rightarrow> DefaultCustomHostnamesMax
      | Some c \<Rightarrow> if ch_Max c = 0 then DefaultCustomHostnamesMax else ch_Max c)"

definition CustomHostnamesEnabled :: "Service \<Rightarrow> bool" where
  "CustomHostnamesEnabled s = (case sv_CustomHostnames s of None \<Rightarrow> False | Some c \<Rightarrow> ch_Enabled c)"

definition validateCustomHostnames :: "'q externals \<Rightarrow> Service \<Rightarrow> unit result" where
  "validateCustomHostnames ex s =
     (case sv_CustomHostnames s of
        None \<Rightarrow> Inr ()
      | Some c \<Rightarrow> checks
          [(ch_Max c < 0 \<or> CustomHostnamesCeiling < ch_Max c, ''custom_hostnames.max''),
           (ch_Target c \<noteq> [] \<and> \<not> ValidHostname ex (ch_Target c), ''custom_hostnames.target''),
           (sv_Job s \<noteq> None \<or> sv_Session s \<noteq> None \<or> sv_Actions s \<noteq> None \<or> sv_Serverless s \<noteq> None,
            ''custom_hostnames: jobs''),
           (\<not> sv_Public s \<or> sv_Port s = 0, ''custom_hostnames: requires a public service with a port'')])"

definition validateTLS :: "Service \<Rightarrow> TLSConfig \<Rightarrow> unit result" where
  "validateTLS s t =
     checks
       [(tls_IssuerKind t \<noteq> [] \<and>
           (tls_Issuer t = [] \<or> (tls_IssuerKind t \<noteq> ''Issuer'' \<and> tls_IssuerKind t \<noteq> ''ClusterIssuer'')),
         ''tls: issuer_kind requires issuer''),
        (\<not> sv_Public s, ''tls: requires a public service''),
        ((tls_Certificate t = []) = (tls_Issuer t = []), ''tls: choose exactly one''),
        (tls_Certificate t \<noteq> [] \<and> \<not> runtimeName (tls_Certificate t)
          \<or> tls_Issuer t \<noteq> [] \<and> \<not> runtimeName (tls_Issuer t), ''tls: resource names'')]"

definition validateRuntimeService :: "'q externals \<Rightarrow> Service \<Rightarrow> unit result" where
  "validateRuntimeService ex s =
     andE (checks
        [(sv_RestartNonce s \<noteq> [] \<and> \<not> noncePattern (sv_RestartNonce s), ''restart_nonce''),
         (sv_RegistryCredential s \<noteq> [] \<and> \<not> runtimeName (sv_RegistryCredential s), ''registry_credential'')])
     (andE (case sv_TLS s of None \<Rightarrow> Inr () | Some t \<Rightarrow> validateTLS s t)
     (andE (if sv_IngressTimeoutSeconds s \<noteq> 0 then
          checks
            [(sv_IngressTimeoutSeconds s < 5 \<or> 3600 < sv_IngressTimeoutSeconds s, ''ingress_timeout_seconds''),
             (\<not> sv_Public s \<or> sv_Port s = 0, ''ingress_timeout_seconds: requires a public service with a port''),
             (sv_Serverless s \<noteq> None, ''ingress_timeout_seconds: serverless'')]
        else Inr ())
     (andE (validateCustomHostnames ex s)
       (if sv_BackendHTTP2 s then
          checks
            [(\<not> sv_Public s \<or> sv_Port s = 0, ''backend_http2: requires a public service with a port''),
             (sv_Serverless s \<noteq> None, ''backend_http2: serverless''),
             (sv_HTTP s \<noteq> [], ''backend_http2: named http endpoints'')]
        else Inr ()))))"

section \<open>Storage and placement of one service\<close>

definition Recreates :: "Service \<Rightarrow> bool" where
  "Recreates s \<longleftrightarrow> sv_UpdateStrategy s = ''recreate'' \<or> sv_Volume s \<noteq> None \<or> sv_Mounts s \<noteq> [] \<or> sv_NodeProfile s \<noteq> []"

text \<open>In seconds; the code returns a \<open>time.Duration\<close>.\<close>

definition TerminationGrace :: "Service \<Rightarrow> int" where
  "TerminationGrace s = (if 0 < sv_TerminationGraceSeconds s then sv_TerminationGraceSeconds s else 30)"

definition clean_sub_path :: "string \<Rightarrow> bool" where
  "clean_sub_path p \<longleftrightarrow>
     \<not> (PathIsAbs p \<or> PathClean p \<noteq> p \<or> p = ''.'' \<or> p = ''..'' \<or> HasPrefix p ''../'' \<or> 200 < len p
        \<or> ContainsAny p [NUL, CR, LF])"

definition validateMountControls :: "Service \<Rightarrow> unit result" where
  "validateMountControls s =
     andE (checks
       [(list_ex (\<lambda>i. i < 0 \<or> 2147483647 < i) [sv_RunAsGroup s, sv_FSGroup s], ''run_as_group and fs_group''),
        (sv_WorkingDir s \<noteq> [] \<and> sv_WorkingDir s \<noteq> ''/'' \<and> \<not> cleanDirectory (sv_WorkingDir s), ''working_dir''),
        (sv_TerminationGraceSeconds s < 0 \<or> 3600 < sv_TerminationGraceSeconds s, ''termination_grace_seconds''),
        (16 < len (sv_Mounts s) + len (sv_TemporaryMounts s) + len (sv_CertificateMounts s), ''at most 16 mounts'')])
     (andE (forE (\<lambda>m. checks
       [(\<not> namePattern (mnt_Volume m) \<or> \<not> allowedMount (mnt_MountPath m), ''mounts''),
        (mnt_SubPath m \<noteq> [] \<and> \<not> clean_sub_path (mnt_SubPath m), ''mounts.sub_path'')]) (sv_Mounts s))
     (andE (forE (\<lambda>m. checks
       [(\<not> allowedMount (tmp_MountPath m) \<or> tmp_SizeMiB m < 1 \<or> 128 < tmp_SizeMiB m, ''temporary_mounts'')])
         (sv_TemporaryMounts s))
       (checks
         [(128 < sum_list (map tmp_SizeMiB (sv_TemporaryMounts s)), ''temporary_mounts: combined capacity''),
          (overlapping (mount_paths s), ''mount paths must not overlap'')])))"

definition validateVolume :: "'q externals \<Rightarrow> Service \<Rightarrow> Volume \<Rightarrow> unit result" where
  "validateVolume ex s v =
     checks
       [(sv_Replicas s \<noteq> 1 \<or> sv_Autoscaling s \<noteq> None, ''persistent services require exactly one replica''),
        (vol_SizeGiB v < 1 \<or> 200 < vol_SizeGiB v, ''volume.size_gib''),
        (\<not> HasPrefix (vol_MountPath v) ''/'' \<or> vol_MountPath v = ''/'' \<or> 200 < len (vol_MountPath v)
          \<or> PathClean (vol_MountPath v) \<noteq> vol_MountPath v \<or> ContainsAny (vol_MountPath v) [NUL, CR, LF],
         ''volume.mount_path''),
        (list_ex (\<lambda>r. vol_MountPath v = r \<or> HasPrefix (vol_MountPath v) (r @ ''/''))
           [''/proc'', ''/sys'', ''/dev'', ''/etc'', ''/run'', ''/var/run''],
         ''volume cannot replace a system directory''),
        (vol_StorageClass v \<noteq> [] \<and> \<not> ex_dns_subdomain ex (vol_StorageClass v), ''invalid storage class'')]"

definition validateWorkload :: "'q externals \<Rightarrow> Service \<Rightarrow> unit result" where
  "validateWorkload ex s =
     andE (checks [(sv_NodeName s \<noteq> [] \<and> \<not> ex_dns_subdomain ex (sv_NodeName s), ''node_name'')])
     (andE (validateMountControls s)
     (andE (checks
        [(sv_Architecture s \<noteq> [] \<and> sv_Architecture s \<noteq> ''amd64'' \<and> sv_Architecture s \<noteq> ''arm64'', ''architecture''),
         (sv_RunAsUser s < 0 \<or> 2147483647 < sv_RunAsUser s, ''run_as_user'')])
     (andE (case sv_Volume s of None \<Rightarrow> Inr () | Some v \<Rightarrow> validateVolume ex s v)
       (case sv_GPU s of
          None \<Rightarrow> Inr ()
        | Some g \<Rightarrow> checks [(gpu_Count g < 1 \<or> 8 < gpu_Count g \<or> sv_Autoscaling s \<noteq> None, ''gpu.count'')]))))"

section \<open>Ports\<close>

definition ServicePorts :: "Service \<Rightarrow> Port list" where
  "ServicePorts s =
     (if sv_Port s \<noteq> 0
      then [\<lparr>port_Name = ''service'', port_Port = sv_Port s, port_TargetPort = sv_Port s, port_Protocol = ''TCP''\<rparr>]
      else []) @ sv_Ports s"

definition NeedsReadinessHelper :: "Service \<Rightarrow> bool" where
  "NeedsReadinessHelper s =
     (case sv_Readiness s of None \<Rightarrow> False | Some r \<Rightarrow> rd_Protocol r \<noteq> ''tcp'' \<or> sv_Healthcheck s \<noteq> [])"

definition HasDeliveryCapabilities :: "Application \<Rightarrow> bool" where
  "HasDeliveryCapabilities a =
     list_ex (\<lambda>(n, s). sv_Actions s \<noteq> None \<or> sv_NodeName s \<noteq> [] \<or> sv_Serverless s \<noteq> None
       \<or> sv_PublicTCP s \<noteq> [] \<or> sv_CertificateMounts s \<noteq> [] \<or> sv_AWSIdentity s \<noteq> []
       \<or> sv_ContainerDaemon s \<noteq> [] \<or> sv_RuntimeProfile s \<noteq> [] \<or> sv_NodeProfile s \<noteq> []
       \<or> NeedsReadinessHelper s) (app_services a)"

section \<open>Facts\<close>

lemma overlapping_iff:
  "overlapping ps \<longleftrightarrow> (\<exists>i j. i < j \<and> j < length ps \<and> paths_overlap (ps ! i) (ps ! j))"
proof (induction ps)
  case (Cons a ps)
  have "(\<exists>i j. i < j \<and> j < length (a # ps) \<and> paths_overlap ((a # ps) ! i) ((a # ps) ! j))
      \<longleftrightarrow> (\<exists>j < length ps. paths_overlap a (ps ! j))
        \<or> (\<exists>i j. i < j \<and> j < length ps \<and> paths_overlap (ps ! i) (ps ! j))"
    (is "?l \<longleftrightarrow> ?a \<or> ?b")
  proof
    assume ?l
    then obtain i j where ij: "i < j" "j < length (a # ps)" "paths_overlap ((a # ps) ! i) ((a # ps) ! j)"
      by blast
    then show "?a \<or> ?b" by (cases i; cases j) auto
  next
    assume "?a \<or> ?b"
    then show ?l
    proof
      assume ?a
      then obtain j where "j < length ps" "paths_overlap a (ps ! j)" by blast
      then show ?l by (intro exI [of _ 0] exI [of _ "Suc j"]) simp
    next
      assume ?b
      then obtain i j where "i < j" "j < length ps" "paths_overlap (ps ! i) (ps ! j)" by blast
      then show ?l by (intro exI [of _ "Suc i"] exI [of _ "Suc j"]) simp
    qed
  qed
  moreover have "list_ex (paths_overlap a) ps \<longleftrightarrow> (\<exists>j < length ps. paths_overlap a (ps ! j))"
    by (simp add: list_ex_length)
  ultimately show ?case using Cons by simp
qed simp

lemma certificate_loop_Inr:
  "certificate_loop ex s seen ms = Inr u \<Longrightarrow>
     distinct (map certificate_reference ms) \<and> set (map certificate_reference ms) \<inter> set seen = {}
     \<and> (\<forall>m \<in> set ms. allowedMount (cert_MountPath m))"
  by (induction ex s seen ms rule: certificate_loop.induct) (auto split: if_splits)

text \<open>The containers a mount may land in: none of the paths a service mounts overlap.\<close>

lemma validateWorkload_paths:
  "validateWorkload ex s = Inr u \<Longrightarrow> \<not> overlapping (mount_paths s)"
  by (auto simp: validateWorkload_def validateMountControls_def result_iff)

lemma validateWorkload_persistent:
  "validateWorkload ex s = Inr u \<Longrightarrow> sv_Volume s \<noteq> None \<Longrightarrow> sv_Replicas s = 1 \<and> sv_Autoscaling s = None"
  by (auto simp: validateWorkload_def validateVolume_def result_iff)

lemma validateWorkload_temporary:
  "validateWorkload ex s = Inr u \<Longrightarrow> sum_list (map tmp_SizeMiB (sv_TemporaryMounts s)) \<le> 128"
  by (auto simp: validateWorkload_def validateMountControls_def result_iff)

end
