(* ===== verification/Actions_Target.thy ===== *)
theory Actions_Target
  imports Spec_Patterns
begin

text \<open>
  The registration scopes of runner pools (internal/actions/provider.go, github.go): which
  provider and which repository, organization, project or workspace a pool registers with,
  and the canonical form in which a revision stores it. URLs are read through the model of
  \<open>net/url\<close>; a URL that holds none of \<open>% ? # \\<close> has no escapes, no query and no fragment, so
  \<open>RawPath\<close> is empty exactly when no character of the path needs escaping.
\<close>

section \<open>Targets\<close>

definition ProviderGitHub :: string where "ProviderGitHub = ''github''"
definition ProviderGitLab :: string where "ProviderGitLab = ''gitlab''"
definition ProviderBitbucket :: string where "ProviderBitbucket = ''bitbucket''"

definition Provider_Effective :: "string \<Rightarrow> string" where
  "Provider_Effective p = (if p = [] then ProviderGitHub else p)"

record Target =
  tg_Repository :: string
  tg_Organization :: string
  tg_RunnerGroupID :: int

record ProviderTarget =
  pt_Provider :: string
  pt_GitHub :: Target
  pt_GitLab :: "GitLabTarget option"
  pt_Bitbucket :: "BitbucketTarget option"

definition zero_Target :: Target where
  "zero_Target = \<lparr>tg_Repository = [], tg_Organization = [], tg_RunnerGroupID = 0\<rparr>"

definition is_repo_char :: "char \<Rightarrow> bool" where
  "is_repo_char c \<longleftrightarrow> is_alnum c \<or> c = CHR ''_'' \<or> c = CHR ''.'' \<or> c = CHR ''-''"

definition repo_part :: "string \<Rightarrow> bool" where
  "repo_part s \<longleftrightarrow> s \<noteq> [] \<and> length s \<le> 100 \<and> is_alnum (hd s) \<and> list_all is_repo_char s"

definition ValidRepository :: "string \<Rightarrow> bool" where
  "ValidRepository r \<longleftrightarrow>
     (case Split (CHR ''/'') r of [a, b] \<Rightarrow> repo_part a \<and> repo_part b | _ \<Rightarrow> False)
     \<and> \<not> Contains r ''..''"

text \<open>\<open>^[A-Za-z0-9](?:[A-Za-z0-9-]{0,37}[A-Za-z0-9])?$\<close>\<close>

definition organizationPattern :: "string \<Rightarrow> bool" where
  "organizationPattern s \<longleftrightarrow> s \<noteq> [] \<and> length s \<le> 39
     \<and> list_all (\<lambda>c. is_alnum c \<or> c = CHR ''-'') s \<and> is_alnum (hd s) \<and> is_alnum (last s)"

definition Target_Valid :: "Target \<Rightarrow> bool" where
  "Target_Valid t =
     (if tg_Organization t \<noteq> []
      then tg_Repository t = [] \<and> organizationPattern (tg_Organization t)
        \<and> \<not> Contains (tg_Organization t) ''--''
        \<and> 0 \<le> tg_RunnerGroupID t \<and> tg_RunnerGroupID t \<le> 9007199254740991
      else ValidRepository (tg_Repository t) \<and> tg_RunnerGroupID t = 0)"

section \<open>GitLab URLs\<close>

text \<open>\<open>^[a-z][a-z0-9-]{0,62}$\<close> and \<open>^[a-z0-9](?:[a-z0-9-]{0,61}[a-z0-9])?$\<close>\<close>

definition providerPolicyName :: "string \<Rightarrow> bool" where
  "providerPolicyName s \<longleftrightarrow> s \<noteq> [] \<and> length s \<le> 63 \<and> is_lower (hd s) \<and> list_all is_name_char s"

definition providerDNSLabel :: "string \<Rightarrow> bool" where
  "providerDNSLabel s = runtimeName s"

definition splitHostPort :: "string \<Rightarrow> string \<times> string" where
  "splitHostPort hp =
     (let (host, port) =
        (case LastCut hp (CHR '':'') of
           Some (h, p) \<Rightarrow> if validOptionalPort (CHR '':'' # p) then (h, p) else (hp, [])
         | None \<Rightarrow> (hp, [])) in
      (if HasPrefix host ''['' \<and> HasSuffix host '']'' then butlast (tl host) else host, port))"

definition Unmap :: "addr \<Rightarrow> addr" where
  "Unmap a =
     (case a of
        V6 [g0, g1, g2, g3, g4, g5, g6, g7] z \<Rightarrow>
          if [g0, g1, g2, g3, g4, g5] = [0, 0, 0, 0, 0, 65535] then V4 (g6 * 65536 + g7) else a
      | _ \<Rightarrow> a)"

text \<open>Loopback, unspecified, multicast or link-local, in either family.\<close>

definition refused_address :: "addr \<Rightarrow> bool" where
  "refused_address a =
     (case a of
        V4 w \<Rightarrow> w div 2 ^ 24 = 127 \<or> w = 0 \<or> w div 2 ^ 28 = 14 \<or> w div 2 ^ 16 = 43518
      | V6 gs _ \<Rightarrow> gs = [0, 0, 0, 0, 0, 0, 0, 1] \<or> list_all (\<lambda>g. g = 0) gs
          \<or> hd gs div 256 = 255 \<or> hd gs div 64 = 1018)"

fun hex_text :: "nat \<Rightarrow> int \<Rightarrow> string" where
  "hex_text 0 n = []"
| "hex_text (Suc k) n =
     (let d = nat (n mod 16); c = (if d < 10 then char_of (48 + d) else char_of (87 + d)) in
      if n < 16 then [c] else hex_text k (n div 16) @ [c])"

fun zero_run :: "int list \<Rightarrow> nat" where
  "zero_run [] = 0"
| "zero_run (g # gs) = (if g = 0 then Suc (zero_run gs) else 0)"

text \<open>The leftmost longest run of at least two zero groups is written as an ellipsis.\<close>

definition zero_runs :: "int list \<Rightarrow> (nat \<times> nat) list" where
  "zero_runs gs = map (\<lambda>i. (i, zero_run (drop i gs))) [0..<length gs]"

definition best_run :: "int list \<Rightarrow> nat \<times> nat" where
  "best_run gs = fold (\<lambda>(i, n) (j, m). if m < n then (i, n) else (j, m)) (zero_runs gs) (0, 0)"

definition groups_text :: "int list \<Rightarrow> string" where
  "groups_text gs = Join (CHR '':'') (map (hex_text 4) gs)"

definition addr_string :: "addr \<Rightarrow> string" where
  "addr_string a =
     (case a of
        V4 w \<Rightarrow> addr4_string w
      | V6 gs z \<Rightarrow>
          (case best_run gs of (i, n) \<Rightarrow>
             (if n < 2 then groups_text gs
              else groups_text (take i gs) @ ''::'' @ groups_text (drop (i + n) gs))
             @ (if z = [] then [] else CHR ''%'' # z)))"

definition bracket_host :: "string \<Rightarrow> string" where
  "bracket_host h = (if CHR '':'' \<in> set h then ''['' @ h @ '']'' else h)"

text \<open>The host of a GitLab URL in canonical form; \<open>Inl True\<close> names an address the code refuses.\<close>

definition gitlab_host :: "'q externals \<Rightarrow> string \<Rightarrow> string result" where
  "gitlab_host ex hostname =
     (let host = ToLower hostname in
      case ParseAddr host of
        Some address \<Rightarrow>
          (if refused_address (Unmap address) then Inl (Err ''GitLab url cannot address this network'')
           else Inr (addr_string (Unmap address)))
      | None \<Rightarrow>
          (case ex_idna ex (if HasSuffix host ''.'' then butlast host else host) of
             None \<Rightarrow> Inl (Err ''GitLab url'')
           | Some h \<Rightarrow>
               if 253 < len h \<or> \<not> Contains h ''.'' \<or> \<not> list_all providerDNSLabel (Split (CHR ''.'') h)
               then Inl (Err ''GitLab url'') else Inr h))"

definition gitlab_port :: "string \<Rightarrow> string \<Rightarrow> string result" where
  "gitlab_port rawhost port =
     (if port \<noteq> [] then
        (case Atoi port of
           None \<Rightarrow> Inl (Err ''GitLab url'')
         | Some n \<Rightarrow>
             if n < 1 \<or> 65535 < n \<or> Itoa n \<noteq> port then Inl (Err ''GitLab url'')
             else Inr (if n = 443 then [] else port))
      else if HasSuffix rawhost '':'' then Inl (Err ''GitLab url'')
      else Inr [])"

definition gitlab_path :: "string \<Rightarrow> string result" where
  "gitlab_path p =
     (if Contains p ''//'' \<or> list_ex (\<lambda>s. s = ''.'' \<or> s = ''..'') (Split (CHR ''/'') p)
      then Inl (Err ''GitLab url'')
      else
        (let q = (if HasSuffix p ''/'' then butlast p else p) in
         if Contains (q @ ''/'') ''/api/v4/'' \<or> HasSuffix q ''/ci'' then Inl (Err ''GitLab url'')
         else Inr q))"

definition CanonicalGitLabURL :: "'q externals \<Rightarrow> string \<Rightarrow> string result" where
  "CanonicalGitLabURL ex raw =
     (if raw = [] then Inr ''https://gitlab.com''
      else if 2048 < len raw \<or> ContainsAny raw (CHR 0x5C # ''%?#'')
           \<or> list_ex (\<lambda>c. code c \<le> 32 \<or> code c = 127) raw then Inl (Err ''GitLab url'')
      else
        (case Parse_url raw of
           None \<Rightarrow> Inl (Err ''GitLab url'')
         | Some u \<Rightarrow>
             (case splitHostPort (url_Host u) of (hostname, port) \<Rightarrow>
                if url_Scheme u \<noteq> ''https'' \<or> hostname = [] \<or> url_HasUser u \<or> url_Opaque u \<noteq> []
                   \<or> url_RawQuery u \<noteq> [] \<or> url_ForceQuery u \<or> url_Fragment u \<noteq> []
                   \<or> list_ex (\<lambda>c. shouldEscape c EncPath) (url_Path u)
                then Inl (Err ''GitLab url'')
                else bindE (gitlab_host ex hostname) (\<lambda>host.
                     bindE (gitlab_port (url_Host u) port) (\<lambda>p.
                     bindE (gitlab_path (url_Path u)) (\<lambda>path.
                       Inr (''https://'' @ bracket_host host @ (if p = [] then [] else CHR '':'' # p) @ path)))))))"

section \<open>Canonical targets\<close>

definition uuid_shape :: "string \<Rightarrow> bool" where
  "uuid_shape s \<longleftrightarrow> length s = 36
     \<and> list_all (\<lambda>i. if i \<in> {8, 13, 18, 23} then s ! i = CHR ''-'' else hex_value (s ! i) \<noteq> None) [0..<36]"

definition canonicalProviderUUID :: "string \<Rightarrow> string option" where
  "canonicalProviderUUID v =
     (let w = (if HasPrefix v ''{'' \<and> HasSuffix v ''}'' then butlast (tl v) else v) in
      if \<not> uuid_shape w \<or> w = ''00000000-0000-0000-0000-000000000000'' then None
      else Some (''{'' @ ToLower w @ ''}''))"

definition canonical_gitlab :: "'q externals \<Rightarrow> GitLabTarget \<Rightarrow> GitLabTarget result" where
  "canonical_gitlab ex g =
     andE (checks
       [((0 < gl_ProjectID g) = (0 < gl_GroupID g) \<or> gl_ProjectID g < 0 \<or> gl_GroupID g < 0
          \<or> 9007199254740991 < gl_ProjectID g \<or> 9007199254740991 < gl_GroupID g,
         ''GitLab requires exactly one positive project_id or group_id''),
        (gl_TrustPolicy g \<noteq> [] \<and> \<not> providerPolicyName (gl_TrustPolicy g), ''GitLab trust_policy'')])
     (bindE (CanonicalGitLabURL ex (gl_URL g)) (\<lambda>url.
       if url \<noteq> ''https://gitlab.com'' \<and> gl_TrustPolicy g = []
       then Inl (Err ''a custom GitLab URL requires an installation-approved trust_policy'')
       else Inr (g\<lparr>gl_URL := url\<rparr>)))"

definition canonical_bitbucket :: "BitbucketTarget \<Rightarrow> BitbucketTarget result" where
  "canonical_bitbucket b =
     (case canonicalProviderUUID (bb_Workspace b) of
        None \<Rightarrow> Inl (Err ''Bitbucket workspace must be its UUID'')
      | Some w \<Rightarrow>
          if bb_Repository b = [] then Inr (b\<lparr>bb_Workspace := w\<rparr>)
          else (case canonicalProviderUUID (bb_Repository b) of
                  None \<Rightarrow> Inl (Err ''Bitbucket repository must be its UUID'')
                | Some r \<Rightarrow> Inr (b\<lparr>bb_Workspace := w, bb_Repository := r\<rparr>)))"

definition Canonical :: "'q externals \<Rightarrow> ProviderTarget \<Rightarrow> ProviderTarget result" where
  "Canonical ex t0 =
     (let t = t0\<lparr>pt_Provider := Provider_Effective (pt_Provider t0)\<rparr> in
      if pt_Provider t = ProviderGitHub then
        (if pt_GitLab t \<noteq> None \<or> pt_Bitbucket t \<noteq> None \<or> \<not> Target_Valid (pt_GitHub t)
         then Inl (Err ''select either a GitHub.com organization or owner/repository'') else Inr t)
      else if pt_Provider t = ProviderGitLab then
        (case pt_GitLab t of
           Some g \<Rightarrow>
             if pt_GitHub t \<noteq> zero_Target \<or> pt_Bitbucket t \<noteq> None
             then Inl (Err ''GitLab requires only a gitlab target'')
             else bindE (canonical_gitlab ex g) (\<lambda>g'. Inr (t\<lparr>pt_GitLab := Some g'\<rparr>))
         | None \<Rightarrow> Inl (Err ''GitLab requires only a gitlab target''))
      else if pt_Provider t = ProviderBitbucket then
        (case pt_Bitbucket t of
           Some b \<Rightarrow>
             if pt_GitHub t \<noteq> zero_Target \<or> pt_GitLab t \<noteq> None
             then Inl (Err ''Bitbucket requires only a bitbucket target'')
             else bindE (canonical_bitbucket b) (\<lambda>b'. Inr (t\<lparr>pt_Bitbucket := Some b'\<rparr>))
         | None \<Rightarrow> Inl (Err ''Bitbucket requires only a bitbucket target''))
      else Inl (Err ''provider must be github, gitlab or bitbucket''))"

section \<open>Facts\<close>

lemma hex_value_lower [simp]: "hex_value (to_lower_char c) = None \<longleftrightarrow> hex_value c = None"
proof -
  have "code (to_lower_char c) = (if is_upper c then code c + 32 else code c)"
    by (simp add: to_lower_char_def is_upper_def)
  then show ?thesis
    by (auto simp: hex_value_def is_digit_def is_upper_def)
qed

lemma to_lower_dash: "c = CHR ''-'' \<Longrightarrow> to_lower_char c = CHR ''-''"
  by (simp add: to_lower_char_def is_upper_def code_def)

lemma uuid_shape_lower: "uuid_shape s \<Longrightarrow> uuid_shape (ToLower s)"
  by (auto simp: uuid_shape_def ToLower_def list_all_iff to_lower_dash)

lemma uuid_lower_nonzero:
  "ToLower s = ''00000000-0000-0000-0000-000000000000'' \<Longrightarrow> s = ''00000000-0000-0000-0000-000000000000''"
proof -
  have low: "to_lower_char c = d \<Longrightarrow> d = CHR ''0'' \<or> d = CHR ''-'' \<Longrightarrow> c = d" for c d
  proof -
    assume eq: "to_lower_char c = d" and d: "d = CHR ''0'' \<or> d = CHR ''-''"
    show "c = d"
    proof (cases "is_upper c")
      case True
      then have "code d = code c + 32"
        using eq by (auto simp: to_lower_char_def is_upper_def code_def)
      with d True show ?thesis by (auto simp: is_upper_def code_def)
    qed (use eq in \<open>simp add: to_lower_char_def\<close>)
  qed
  assume "ToLower s = ''00000000-0000-0000-0000-000000000000''"
  then show ?thesis
    unfolding ToLower_def by (auto simp: map_eq_Cons_conv dest!: low)
qed

lemma canonical_uuid_stable:
  assumes "canonicalProviderUUID v = Some w"
  shows "canonicalProviderUUID w = Some w"
proof -
  obtain u where u: "uuid_shape u" "u \<noteq> ''00000000-0000-0000-0000-000000000000''"
    and w: "w = ''{'' @ ToLower u @ ''}''"
    using assms by (auto simp: canonicalProviderUUID_def Let_def split: if_splits)
  have "ToLower u \<noteq> ''00000000-0000-0000-0000-000000000000''"
    using uuid_lower_nonzero u(2) by blast
  with u(1) show ?thesis
    by (simp add: canonicalProviderUUID_def w uuid_shape_lower suffix_def)
qed

lemma canonical_bitbucket_stable:
  "canonical_bitbucket b = Inr b' \<Longrightarrow> canonical_bitbucket b' = Inr b'"
  by (auto simp: canonical_bitbucket_def canonical_uuid_stable split: option.splits if_splits)

end
