(* ===== verification/Spec_Modes.thy ===== *)
theory Spec_Modes
  imports Spec_Workload Actions_Target
begin

text \<open>
  The workload modes of a service and the steps of \<open>Normalize\<close> that fill in defaults:
  sandbox sessions (sandbox_sessions.go), runner pools (actions.go, actions_bitbucket.go),
  serverless services (serverless.go), jobs and files (lifecycle.go), Kubernetes patches
  (kubernetes.go) and readiness checks (readiness.go). Each step takes a service and returns
  the service as the code leaves it, or the first error.
\<close>

section \<open>Sandbox sessions\<close>

definition session_defaults :: "SandboxSession \<Rightarrow> SandboxSession" where
  "session_defaults c =
     c\<lparr>ss_IdleSeconds := or_default (ss_IdleSeconds c) 900,
       ss_LifetimeSeconds := or_default (ss_LifetimeSeconds c) 3600,
       ss_CallTimeoutSeconds := or_default (ss_CallTimeoutSeconds c) 150\<rparr>"

definition session_config :: "Service \<Rightarrow> SandboxSession \<Rightarrow> unit result" where
  "session_config s c =
     andE (checks
       [(len (ss_AllowedIdentities c) < 1 \<or> 32 < len (ss_AllowedIdentities c), ''session.allowed_identities''),
        (\<not> list_all hexID (ss_AllowedIdentities c) \<or> first_dup [] (ss_AllowedIdentities c),
         ''session.allowed_identities must contain unique identity IDs''),
        (ss_HelperCommand c = [] \<or> ss_ReadyCommand c = [] \<or> sv_Command s = [],
         ''session requires a fixed worker command'')])
     (andE (in_field ''session.helper_command'' (ValidateCommand (ss_HelperCommand c) []))
     (andE (in_field ''session.ready_command'' (ValidateCommand (ss_ReadyCommand c) []))
       (let d = session_defaults c in
        checks
          [(ss_IdleSeconds d < 60 \<or> 900 < ss_IdleSeconds d \<or> ss_LifetimeSeconds d < ss_IdleSeconds d
             \<or> 3600 < ss_LifetimeSeconds d, ''session idle_seconds''),
           (ss_CallTimeoutSeconds d < 10 \<or> ss_IdleSeconds d < ss_CallTimeoutSeconds d,
            ''session call_timeout_seconds'')])))"

definition session_guard_path :: string where
  "session_guard_path = ''/run/hakopod-session''"

definition session_isolation :: "Application \<Rightarrow> Service \<Rightarrow> unit result" where
  "session_isolation a s =
     andE (checks
       [(sv_Job s \<noteq> None \<or> sv_Actions s \<noteq> None \<or> sv_Serverless s \<noteq> None \<or> sv_Autoscaling s \<noteq> None
          \<or> sv_GPU s \<noteq> None \<or> sv_Volume s \<noteq> None \<or> sv_ContainerDaemon s \<noteq> [] \<or> sv_AWSIdentity s \<noteq> []
          \<or> sv_Kubernetes s \<noteq> None, ''session cannot use another workload mode''),
        (sv_Port s \<noteq> 0 \<or> sv_Ports s \<noteq> [] \<or> sv_Public s \<or> sv_PublicTCP s \<noteq> [] \<or> sv_HTTP s \<noteq> []
          \<or> sv_TLS s \<noteq> None \<or> sv_BackendHTTP2 s \<or> sv_IngressTimeoutSeconds s \<noteq> 0
          \<or> sv_NetworkAccess s \<noteq> None \<or> sv_networks s \<noteq> [] \<or> sv_PrivateEgress s \<noteq> [],
         ''session cannot expose ports or join application networks''),
        (sv_Secrets s \<noteq> [] \<or> app_Secrets a \<noteq> [] \<or> sv_Bindings s \<noteq> [] \<or> sv_Files s \<noteq> []
          \<or> sv_Mounts s \<noteq> [] \<or> sv_CertificateMounts s \<noteq> [] \<or> sv_DependsOn s \<noteq> [] \<or> app_InjectEnv a,
         ''session cannot receive secrets''),
        (app_Env a \<noteq> [], ''session applications cannot define shared environment variables''),
        (list_ex (gm_has (sv_Env s)) [''HAKOPOD_POD_UID'', ''HAKOPOD_SESSION_GENERATION''],
         ''session environment must not override'')])
     (andE (forE (\<lambda>m. checks
        [(\<not> tmp_Memory m, ''session temporary mounts require memory=true''),
         (paths_overlap (tmp_MountPath m) session_guard_path,
          ''session temporary mounts must not overlap /run/hakopod-session'')]) (sv_TemporaryMounts s))
      (checks
        [(1 < sv_Replicas s \<or> sv_Healthcheck s \<noteq> [] \<or> sv_Readiness s \<noteq> None \<or> sv_UpdateStrategy s \<noteq> [],
          ''session cannot configure replicas''),
         (sv_RuntimeProfile s = [], ''session requires an administrator-approved sandbox runtime_profile''),
         (sv_RunAsUser s < 1 \<or> sv_RunAsGroup s < 1 \<or> sv_FSGroup s < 1 \<or> \<not> sv_ReadOnlyRootFilesystem s,
          ''session requires explicit nonroot user''),
         (\<not> Contains (sv_Image s) ''@sha256:'', ''session requires a digest-pinned worker image'')]))"

definition normalizeSandboxSession :: "Application \<Rightarrow> Service \<Rightarrow> Service result" where
  "normalizeSandboxSession a s =
     (case sv_Session s of
        None \<Rightarrow> Inr s
      | Some c \<Rightarrow>
          andE (session_config s c)
            (let s' = s\<lparr>sv_Session := Some (session_defaults c)\<rparr> in
             andE (session_isolation a s') (Inr s')))"

section \<open>Runner pools\<close>

definition actionsRunnerRepository :: string where
  "actionsRunnerRepository = ''ghcr.io/hakopod/actions-runner''"
definition actionsRunnerDigest :: string where
  "actionsRunnerDigest = ''sha256:9997dfd0b0b39513e193f7e51c44f1f25f3216713fba5de7a9e5812676222bd6''"
definition ActionsRunnerImage :: string where
  "ActionsRunnerImage =
     actionsRunnerRepository @ '':2.337.0-hakopod-900500b7096ef5647f29f05d76bca5b18a04882d@'' @ actionsRunnerDigest"
definition actionsRunnerResolvedImage :: string where
  "actionsRunnerResolvedImage = actionsRunnerRepository @ ''@'' @ actionsRunnerDigest"
definition previousActionsRunnerDigest :: string where
  "previousActionsRunnerDigest = ''sha256:1e05326c75ff1412c68e7e2aed6541fa2e3dd07a8ce6389c9246fc253d7eb3b2''"
definition previousActionsRunnerImage :: string where
  "previousActionsRunnerImage =
     actionsRunnerRepository @ '':2.337.0-hakopod-6d9a8152b7f5dafa1bfc5bbf1a24207710c746a7@'' @ previousActionsRunnerDigest"
definition legacyActionsRunnerDigest :: string where
  "legacyActionsRunnerDigest = ''sha256:63768a269f453a8e386588ae77b3ff9bdf911244c0276aad28b324d629be1489''"
definition legacyActionsRunnerImage :: string where
  "legacyActionsRunnerImage =
     actionsRunnerRepository @ '':2.337.0-hakopod-37ab7a0390da5202ab3ac7cb12983d6d08f146bf@'' @ legacyActionsRunnerDigest"

definition IsActionsRunnerImage :: "string \<Rightarrow> bool" where
  "IsActionsRunnerImage img \<longleftrightarrow> img \<in> set
     [ActionsRunnerImage, actionsRunnerResolvedImage,
      previousActionsRunnerImage, actionsRunnerRepository @ ''@'' @ previousActionsRunnerDigest,
      legacyActionsRunnerImage, actionsRunnerRepository @ ''@'' @ legacyActionsRunnerDigest,
      ''ghcr.io/actions/actions-runner:2.337.0@sha256:e5496277be5d09bc968b3d64911b74e219ac4a3f2edce956a3ecf9271bea1ef4'',
      ''ghcr.io/actions/actions-runner@sha256:e5496277be5d09bc968b3d64911b74e219ac4a3f2edce956a3ecf9271bea1ef4'']"

definition IsCurrentActionsRunnerImage :: "string \<Rightarrow> bool" where
  "IsCurrentActionsRunnerImage img \<longleftrightarrow> img = ActionsRunnerImage \<or> img = actionsRunnerResolvedImage"

text \<open>\<open>^[A-Za-z0-9][A-Za-z0-9_.-]{0,63}$\<close> and \<open>^[a-z0-9.]{1,64}$\<close>\<close>

definition actionsLabel :: "string \<Rightarrow> bool" where
  "actionsLabel l \<longleftrightarrow> l \<noteq> [] \<and> length l \<le> 64 \<and> is_alnum (hd l) \<and> list_all is_repo_char (tl l)"

definition bitbucketActionsLabel :: "string \<Rightarrow> bool" where
  "bitbucketActionsLabel l \<longleftrightarrow> l \<noteq> [] \<and> length l \<le> 64
     \<and> list_all (\<lambda>c. is_lower c \<or> is_digit c \<or> c = CHR ''.'') l"

definition Actions_Target :: "Actions \<Rightarrow> Target" where
  "Actions_Target a =
     \<lparr>tg_Repository = act_Repository a, tg_Organization = act_Organization a, tg_RunnerGroupID = act_RunnerGroupID a\<rparr>"

definition Actions_ProviderTarget :: "Actions \<Rightarrow> ProviderTarget" where
  "Actions_ProviderTarget a =
     \<lparr>pt_Provider = act_Provider a, pt_GitHub = Actions_Target a, pt_GitLab = act_GitLab a, pt_Bitbucket = act_Bitbucket a\<rparr>"

definition EffectiveJobsCredential :: "Actions \<Rightarrow> string" where
  "EffectiveJobsCredential a = (if act_JobsCredential a \<noteq> [] then act_JobsCredential a else act_Credential a)"

definition ActionsWorkspaceGiB :: "Actions option \<Rightarrow> int" where
  "ActionsWorkspaceGiB a =
     (case a of None \<Rightarrow> 2 | Some a \<Rightarrow> if act_WorkspaceSizeGiB a = 0 then 2 else act_WorkspaceSizeGiB a)"

definition HasActiveActions :: "Application \<Rightarrow> bool" where
  "HasActiveActions a = list_ex (\<lambda>(n, s). sv_Actions s \<noteq> None \<and> \<not> sv_Suspended s) (app_services a)"

definition secret_name :: "string \<Rightarrow> bool" where
  "secret_name v = SecretRef_Valid (zero_SecretRef\<lparr>ref_Ref := v\<rparr>)"

text \<open>The labels of a Bitbucket pool: the platform's own first, then the custom ones.\<close>

fun bitbucket_labels :: "string \<Rightarrow> string list \<Rightarrow> string list \<Rightarrow> string list \<Rightarrow> string list result" where
  "bitbucket_labels platform seen labels [] = Inr labels"
| "bitbucket_labels platform seen labels (l # ls) =
     (if \<not> bitbucketActionsLabel l \<or> l \<in> set seen \<or> HasPrefix l ''hakopod.owner.'' \<or> l = ''windows''
          \<or> l = ''macos'' \<or> l = ''linux.shell''
      then Inl (Err ''actions.labels: Bitbucket labels'')
      else if l = ''self.hosted'' \<or> l = platform then bitbucket_labels platform (l # seen) labels ls
      else if l = ''linux'' \<or> l = ''linux.arm64''
      then Inl (Err ''actions.labels: Bitbucket platform labels'')
      else bitbucket_labels platform (l # seen) (labels @ [l]) ls)"

definition normalizeBitbucketActionsLabels :: "Service \<Rightarrow> Service result" where
  "normalizeBitbucketActionsLabels s =
     (case sv_Actions s of
        None \<Rightarrow> Inr s
      | Some a \<Rightarrow>
          if Provider_Effective (act_Provider a) \<noteq> ProviderBitbucket then Inr s
          else if sv_Architecture s \<noteq> ''arm64'' \<and> sv_Architecture s \<noteq> ''amd64''
          then Inl (Err ''actions.labels: select an explicit architecture'')
          else
            (let platform = (if sv_Architecture s = ''arm64'' then ''linux.arm64'' else ''linux'');
                 input = (if act_Labels a = [] then [''hakopod''] else act_Labels a) in
             bindE (bitbucket_labels platform [] [''self.hosted'', platform] input) (\<lambda>labels.
               if 11 < len labels then Inl (Err ''actions.labels: Bitbucket supports at most nine custom labels'')
               else Inr (s\<lparr>sv_Actions := Some (a\<lparr>act_Labels := labels\<rparr>)\<rparr>))))"

text \<open>Minimum budgets of a pool: \<open>if err != nil || value.Cmp(MustParse(minimum)) < 0\<close>.\<close>

definition atLeast :: "'q externals \<Rightarrow> string \<Rightarrow> string \<Rightarrow> string \<Rightarrow> unit result" where
  "atLeast ex msg v minimum =
     (case ex_parse ex v of
        None \<Rightarrow> Inl (Err msg)
      | Some q \<Rightarrow> bindE (MustParse ex minimum) (\<lambda>m. if ex_cmp ex q m < 0 then Inl (Err msg) else Inr ()))"

definition actions_budget :: "'q externals \<Rightarrow> string \<Rightarrow> Service \<Rightarrow> unit result" where
  "actions_budget ex provider s =
     (let p = EffectiveResources s; bitbucket = (provider = ProviderBitbucket) in
      andE
        (if provider \<noteq> ProviderGitHub then
           andE (checks [(bitbucket \<and> ActionsWorkspaceGiB (sv_Actions s) < 4, ''Bitbucket runners temporary storage'')])
           (andE (atLeast ex provider (pr_CPURequest p) (if bitbucket then ''1'' else ''200m''))
           (andE (atLeast ex provider (pr_CPULimit p) ''1'')
           (andE (atLeast ex provider (pr_MemoryRequest p) (if bitbucket then ''8Gi'' else ''2Gi''))
             (atLeast ex provider (pr_MemoryLimit p) (if bitbucket then ''8Gi'' else ''4Gi'')))))
         else Inr ())
      (andE (atLeast ex ''actions pools requested memory'' (pr_MemoryRequest p) ''768Mi'')
      (andE (atLeast ex ''actions pools requested CPU'' (pr_CPURequest p) ''200m'')
        (atLeast ex ''actions pools memory per job slot'' (pr_MemoryLimit p) ''4Gi''))))"

definition actions_alone :: "Service \<Rightarrow> unit result" where
  "actions_alone s =
     checks
       [(sv_Job s \<noteq> None \<or> sv_Serverless s \<noteq> None \<or> sv_Autoscaling s \<noteq> None \<or> sv_Public s \<or> sv_BackendHTTP2 s
          \<or> sv_IngressTimeoutSeconds s \<noteq> 0 \<or> sv_Port s \<noteq> 0 \<or> sv_Ports s \<noteq> [] \<or> sv_PublicTCP s \<noteq> []
          \<or> sv_HTTP s \<noteq> [] \<or> sv_Volume s \<noteq> None \<or> sv_Mounts s \<noteq> [] \<or> sv_TemporaryMounts s \<noteq> []
          \<or> sv_GPU s \<noteq> None \<or> sv_Env s \<noteq> [] \<or> sv_Secrets s \<noteq> [] \<or> sv_Files s \<noteq> [] \<or> sv_Bindings s \<noteq> []
          \<or> sv_Command s \<noteq> [] \<or> sv_Args s \<noteq> [] \<or> sv_DependsOn s \<noteq> [] \<or> sv_AWSIdentity s \<noteq> []
          \<or> sv_ContainerDaemon s \<noteq> [] \<or> sv_RegistryCredential s \<noteq> [] \<or> sv_CertificateMounts s \<noteq> []
          \<or> sv_TLS s \<noteq> None \<or> sv_RunAsUser s \<noteq> 0 \<or> sv_RunAsGroup s \<noteq> 0 \<or> sv_FSGroup s \<noteq> 0
          \<or> sv_WorkingDir s \<noteq> [] \<or> sv_ReadOnlyRootFilesystem s \<or> sv_PrivateEgress s \<noteq> [] \<or> sv_Kubernetes s \<noteq> None,
         ''actions pools manage their own sandbox''),
        (sv_Readiness s \<noteq> None \<or> sv_Healthcheck s \<noteq> [] \<or> sv_NetworkAccess s \<noteq> None
          \<or> sv_TerminationGraceSeconds s \<noteq> 0,
         ''actions pools manage their own probes and network access'')]"

text \<open>The steps of \<open>normalizeActions\<close>, in order.\<close>

definition actions_target :: "'q externals \<Rightarrow> Actions \<Rightarrow> (ProviderTarget \<times> Actions) result" where
  "actions_target ex a =
     bindE (in_field ''actions'' (Canonical ex (Actions_ProviderTarget a))) (\<lambda>t.
       let a' = a\<lparr>act_Provider := (if pt_Provider t = ProviderGitHub then [] else pt_Provider t),
                  act_GitLab := pt_GitLab t, act_Bitbucket := pt_Bitbucket t\<rparr> in
       andE (checks
         [(case act_Cache a of
             None \<Rightarrow> False
           | Some c \<Rightarrow> pt_Provider t \<noteq> ProviderGitLab \<or> cache_Credential c = [] \<or> \<not> secret_name (cache_Credential c),
           ''actions.cache''),
          (pt_Provider t = ProviderBitbucket \<and>
             (case pt_Bitbucket t of None \<Rightarrow> False | Some b \<Rightarrow> bb_Repository b = []),
           ''actions.bitbucket.repository''),
          (\<not> secret_name (act_Credential a) \<or> act_Credential a = [], ''actions.credential''),
          (act_JobsCredential a \<noteq> [] \<and> \<not> secret_name (act_JobsCredential a), ''actions.jobs_credential'')])
         (Inr (t, a')))"

definition actions_labels :: "string \<Rightarrow> Service \<Rightarrow> Actions \<Rightarrow> Service result" where
  "actions_labels provider s a =
     (if provider = ProviderBitbucket then normalizeBitbucketActionsLabels (s\<lparr>sv_Actions := Some a\<rparr>)
      else
        (let labels = (if act_Labels a = [] then [''hakopod''] else act_Labels a) in
         andE (checks
           [(8 < len labels, ''actions.labels: at most eight labels''),
            (\<not> list_all actionsLabel labels \<or> first_dup [] (map ToLower labels), ''actions.labels: use distinct labels'')])
           (Inr (s\<lparr>sv_Actions := Some (a\<lparr>act_Labels := labels\<rparr>)\<rparr>))))"

definition actions_image :: "string \<Rightarrow> Service \<Rightarrow> Service result" where
  "actions_image provider s =
     (if provider = ProviderGitHub then
        (let s' = (if sv_Image s = [] then s\<lparr>sv_Image := ActionsRunnerImage\<rparr> else s) in
         if \<not> IsActionsRunnerImage (sv_Image s')
         then Inl (Err ''actions runners use the verified runner image'') else Inr s')
      else
        andE (checks
          [(\<not> is_ok (validateImage (sv_Image s)) \<or> \<not> Contains (sv_Image s) ''@sha256:'',
            ''native actions runners require a digest-pinned image''),
           (sv_Architecture s \<noteq> ''amd64'' \<and> sv_Architecture s \<noteq> ''arm64'',
            ''native actions runners require an explicit architecture'')])
          (Inr s))"

definition actions_limits :: "string \<Rightarrow> Service \<Rightarrow> Actions \<Rightarrow> unit result" where
  "actions_limits provider s a =
     checks
       [(10 < sv_Replicas s, ''actions pools support at most ten concurrent job slots''),
        (act_IdleSeconds a \<noteq> 0 \<and> provider \<noteq> ProviderGitHub, ''actions.idle_seconds: GitHub pools only''),
        (act_IdleSeconds a \<noteq> 0 \<and> (act_IdleSeconds a < 60 \<or> 86400 < act_IdleSeconds a), ''actions.idle_seconds''),
        (act_MinReplicas a \<noteq> 0 \<and> act_IdleSeconds a = 0, ''actions.min_replicas: set idle_seconds''),
        (act_MinReplicas a < 0 \<or> sv_Replicas s < act_MinReplicas a, ''actions.min_replicas'')]"

text \<open>From the timeout on: what is checked once the labels are stored.\<close>

definition actions_finish :: "'q externals \<Rightarrow> string \<Rightarrow> Service \<Rightarrow> Actions \<Rightarrow> Service result" where
  "actions_finish ex provider s1 a2 =
     (let a = a2\<lparr>act_TimeoutMinutes := or_default (act_TimeoutMinutes a2) 60\<rparr> in
      andE (checks
        [(act_TimeoutMinutes a < 5 \<or> 360 < act_TimeoutMinutes a, ''actions.timeout_minutes''),
         (act_WorkspaceSizeGiB a < 0 \<or> act_WorkspaceSizeGiB a = 1 \<or> 16 < act_WorkspaceSizeGiB a,
          ''actions.workspace_size_gib'')])
      (bindE (actions_image provider (s1\<lparr>sv_Actions := Some a\<rparr>)) (\<lambda>s3.
       let s4 = (if sv_Size s3 = [] then s3\<lparr>sv_Size := ''compute''\<rparr> else s3) in
       andE (actions_limits provider s4 a)
       (andE (actions_alone s4)
       (andE (actions_budget ex provider s4)
         (Inr s4))))))"

definition normalizeActions :: "'q externals \<Rightarrow> Service \<Rightarrow> Service result" where
  "normalizeActions ex s =
     (case sv_Actions s of
        None \<Rightarrow> Inr s
      | Some a0 \<Rightarrow>
          bindE (actions_target ex a0) (\<lambda>(t, a1).
          bindE (actions_labels (pt_Provider t) s a1) (\<lambda>s1.
          case sv_Actions s1 of
            None \<Rightarrow> Inr s1
          | Some a2 \<Rightarrow> actions_finish ex (pt_Provider t) s1 a2)))"

end
