(* ===== verification/Spec_Lifecycle.thy ===== *)
theory Spec_Lifecycle
  imports Spec_Modes
begin

text \<open>
  Serverless services (serverless.go), jobs and files (lifecycle.go), sidecars (sidecars.go),
  Kubernetes patches (kubernetes.go) and readiness checks (readiness.go), and the secret
  references of a service from all its sources.
\<close>

section \<open>Serverless services\<close>

definition serverless_defaults :: "Serverless \<Rightarrow> Serverless" where
  "serverless_defaults v =
     v\<lparr>sl_IdleSeconds := or_default (sl_IdleSeconds v) 300,
       sl_StartupTimeoutSeconds := or_default (sl_StartupTimeoutSeconds v) 60,
       sl_RequestTimeoutSeconds := or_default (sl_RequestTimeoutSeconds v) 60,
       sl_MaxConcurrency := or_default (sl_MaxConcurrency v) 16\<rparr>"

definition serverless_bounds :: "Serverless \<Rightarrow> bool" where
  "serverless_bounds v \<longleftrightarrow>
     0 \<le> sl_MinReplicas v \<and> sl_MinReplicas v \<le> 1
     \<and> 30 \<le> sl_IdleSeconds v \<and> sl_IdleSeconds v \<le> 86400
     \<and> 5 \<le> sl_StartupTimeoutSeconds v \<and> sl_StartupTimeoutSeconds v \<le> 300
     \<and> 1 \<le> sl_RequestTimeoutSeconds v \<and> sl_RequestTimeoutSeconds v \<le> 300
     \<and> 1 \<le> sl_MaxConcurrency v \<and> sl_MaxConcurrency v \<le> 64"

definition normalizeServerless :: "Service \<Rightarrow> Service result" where
  "normalizeServerless s =
     (case sv_Serverless s of
        None \<Rightarrow> Inr s
      | Some v0 \<Rightarrow>
          (let v = serverless_defaults v0 in
           andE (checks
             [(\<not> serverless_bounds v, ''serverless: bounds''),
              (\<not> sv_Public s \<or> sv_Port s < 1 \<or> sv_Replicas s \<noteq> 1 \<or> sv_Job s \<noteq> None \<or> sv_Autoscaling s \<noteq> None
                \<or> sv_Volume s \<noteq> None \<or> sv_Mounts s \<noteq> [] \<or> sv_GPU s \<noteq> None \<or> sv_PublicTCP s \<noteq> []
                \<or> sv_HTTP s \<noteq> [] \<or> sv_Ports s \<noteq> [] \<or> sv_CertificateMounts s \<noteq> [] \<or> sv_ContainerDaemon s \<noteq> [],
               ''serverless requires one public HTTP port and one saved replica'')])
             (Inr (s\<lparr>sv_Serverless := Some v\<rparr>))))"

section \<open>Secret references of all sources\<close>

definition FileSecretKey :: "string \<Rightarrow> string" where
  "FileSecretKey n = ''__file_'' @ n"

definition BindingSecretKey :: "string \<Rightarrow> string" where
  "BindingSecretKey n = ''__binding_'' @ n"

definition SidecarSecretKey :: "string \<Rightarrow> string \<Rightarrow> string" where
  "SidecarSecretKey sidecar variable = ''__sidecar_'' @ sidecar @ ''__'' @ variable"

definition sidecarSecretReferences :: "Service \<Rightarrow> SecretRef gomap \<Rightarrow> SecretRef gomap" where
  "sidecarSecretReferences s refs =
     fold (\<lambda>sc refs. fold (\<lambda>(k, r). gm_set (SidecarSecretKey (sc_Name sc) k) r) (sc_Secrets sc) refs)
       (sv_Sidecars s) refs"

definition SecretReferences :: "Service \<Rightarrow> SecretRef gomap" where
  "SecretReferences s =
     (let refs = gm_set_all (sv_Secrets s) [];
          refs = fold (\<lambda>(n, f) refs. case file_Secret f of None \<Rightarrow> refs | Some r \<Rightarrow> gm_set (FileSecretKey n) r refs)
                   (sv_Files s) refs;
          refs = fold (\<lambda>(k, b) refs. case bind_Password b of None \<Rightarrow> refs | Some r \<Rightarrow> gm_set (BindingSecretKey k) r refs)
                   (sv_Bindings s) refs
      in sidecarSecretReferences s refs)"

section \<open>Sidecars\<close>

definition MaxSidecars :: int where "MaxSidecars = 4"

definition reservedSidecarNames :: "string list" where
  "reservedSidecarNames = [''app'', ''install-readiness-probe'', ''install-guard'', ''docker'', ''prepare'']"

fun sidecar_mounts :: "string \<Rightarrow> Service \<Rightarrow> string list \<Rightarrow> SidecarMount list \<Rightarrow> unit result" where
  "sidecar_mounts field s paths [] = Inr ()"
| "sidecar_mounts field s paths (m # ms) =
     andE (checks
       [((sm_Volume m = []) = (sm_Temporary m = []), field @ ''.mounts: name exactly one''),
        (sm_Volume m \<noteq> [] \<and> sm_Volume m \<notin> set (map mnt_Volume (sv_Mounts s))
          \<or> sm_Temporary m \<noteq> [] \<and> sm_Temporary m \<notin> set (map tmp_MountPath (sv_TemporaryMounts s)),
         field @ ''.mounts: share only''),
        (\<not> allowedMount (sm_MountPath m), field @ ''.mounts: use a clean absolute data directory''),
        (covers (sm_MountPath m) paths, field @ ''.mounts: mount paths must not overlap'')])
       (sidecar_mounts field s (paths @ [sm_MountPath m]) ms)"

definition validateSidecarMounts :: "string \<Rightarrow> Service \<Rightarrow> SidecarMount list \<Rightarrow> unit result" where
  "validateSidecarMounts field s ms =
     (if 8 < len ms then Inl (Err (field @ ''.mounts: at most 8'')) else sidecar_mounts field s [] ms)"

definition sidecar_check :: "string \<Rightarrow> string \<Rightarrow> Service" where
  "sidecar_check cpu mem = zero_Service\<lparr>sv_Size := ''small'',
     sv_Resources := Some \<lparr>res_CPURequest = cpu, res_CPULimit = cpu, res_MemoryRequest = mem, res_MemoryLimit = mem\<rparr>\<rparr>"

definition normalizeSidecar :: "'q externals \<Rightarrow> string \<Rightarrow> Service \<Rightarrow> string list \<Rightarrow> int \<Rightarrow> Sidecar \<Rightarrow> Sidecar result" where
  "normalizeSidecar ex name s seen i sc =
     (let item = ''sidecars['' @ Itoa i @ '']''; field = ''sidecars.'' @ sc_Name sc in
      andE (checks
        [(\<not> ex_dns_label ex (sc_Name sc), item @ ''.name''),
         (sc_Name sc = name \<or> sc_Name sc \<in> set reservedSidecarNames \<or> HasPrefix (sc_Name sc) ''hakopod-'',
          item @ ''.name: reserved''),
         (sc_Name sc \<in> set seen, item @ ''.name: duplicate sidecar'')])
      (andE (in_field (field @ ''.image'') (validateImage (sc_Image sc)))
      (andE (checks [(\<not> Contains (sc_Image sc) ''@sha256:'', field @ ''.image: pin the image by digest'')])
      (andE (in_field field (ValidateCommand (sc_Command sc) (sc_Args sc)))
      (andE (validateEnvironment (field @ ''.env'') (sc_Env sc))
      (andE (checks [(16 < len (sc_Secrets sc), field @ ''.secrets: at most 16 references'')])
      (andE (forE (\<lambda>(k, r). checks
         [(\<not> envPattern k \<or> 128 < len k \<or> \<not> SecretRef_Valid r, field @ ''.secrets''),
          (gm_has (sc_Env sc) k, field)]) (sc_Secrets sc))
      (andE (checks [(sc_CPU sc = [] \<or> sc_Memory sc = [], field @ '': cpu and memory are required'')])
      (bindE (in_path field (normalizeResources ex (sidecar_check (sc_CPU sc) (sc_Memory sc)))) (\<lambda>c.
       case sv_Resources c of
         None \<Rightarrow> Inl (Err ''panic'')
       | Some r \<Rightarrow>
           andE (validateSidecarMounts field s (sc_Mounts sc))
             (Inr (sc\<lparr>sc_CPU := res_CPURequest r, sc_Memory := res_MemoryRequest r\<rparr>))))))))))))"

fun sidecar_loop ::
  "'q externals \<Rightarrow> string \<Rightarrow> Service \<Rightarrow> string list \<Rightarrow> int \<Rightarrow> Sidecar list \<Rightarrow> Sidecar list result" where
  "sidecar_loop ex name s seen i [] = Inr []"
| "sidecar_loop ex name s seen i (sc # scs) =
     bindE (normalizeSidecar ex name s seen i sc) (\<lambda>sc'.
     bindE (sidecar_loop ex name s (sc_Name sc # seen) (i + 1) scs) (\<lambda>scs'.
       Inr (sc' # scs')))"

definition normalizeSidecars :: "'q externals \<Rightarrow> string \<Rightarrow> Service \<Rightarrow> Service result" where
  "normalizeSidecars ex name s =
     (if sv_Sidecars s = [] then Inr s
      else andE (checks
        [(sv_Actions s \<noteq> None \<or> sv_Serverless s \<noteq> None \<or> sv_Session s \<noteq> None \<or> sv_Job s \<noteq> None,
          ''sidecars are available only for regular services''),
         (MaxSidecars < len (sv_Sidecars s), ''sidecars: at most 4 per service'')])
        (bindE (sidecar_loop ex name s [] 0 (sv_Sidecars s)) (\<lambda>scs. Inr (s\<lparr>sv_Sidecars := scs\<rparr>))))"

definition SidecarNames :: "Service \<Rightarrow> string list" where
  "SidecarNames s = sort (map sc_Name (sv_Sidecars s))"

section \<open>Jobs and files\<close>

definition invocation_defaults :: "JobInvocation \<Rightarrow> JobInvocation" where
  "invocation_defaults c =
     c\<lparr>inv_MaxInputBytes := or_default (inv_MaxInputBytes c) 65536,
       inv_QueueLimit := or_default (inv_QueueLimit c) 16\<rparr>"

definition invocation_path :: string where "invocation_path = ''/run/hakopod/invocation''"

definition normalizeInvocation :: "Service \<Rightarrow> Job \<Rightarrow> JobInvocation \<Rightarrow> JobInvocation result" where
  "normalizeInvocation s j c0 =
     (let c = invocation_defaults c0 in
      andE (checks
        [(job_Schedule j \<noteq> None \<or> job_Retries j \<noteq> 0, ''job.invocation: schedules and automatic retries''),
         (sv_Volume s \<noteq> None \<or> sv_Mounts s \<noteq> [], ''job.invocation: persistent volumes''),
         (len (inv_AllowedIdentities c) < 1 \<or> 16 < len (inv_AllowedIdentities c), ''job.invocation.allowed_identities''),
         (\<not> list_all hexID (inv_AllowedIdentities c) \<or> first_dup [] (inv_AllowedIdentities c),
          ''job.invocation.allowed_identities: require unique IDs''),
         (len (inv_InputKeys c) < 1 \<or> 16 < len (inv_InputKeys c), ''job.invocation.input_keys''),
         (list_ex (\<lambda>k. 64 < len k \<or> \<not> namePattern k) (inv_InputKeys c) \<or> first_dup [] (inv_InputKeys c),
          ''job.invocation.input_keys: require unique valid names''),
         (inv_MaxInputBytes c < 2 \<or> 131072 < inv_MaxInputBytes c, ''job.invocation.max_input_bytes''),
         (inv_QueueLimit c < 1 \<or> 64 < inv_QueueLimit c, ''job.invocation.queue_limit''),
         (16 \<le> len (sv_Files s) + len (sv_TemporaryMounts s) + len (sv_CertificateMounts s),
          ''job.invocation: reserve one file mount''),
         (covers invocation_path (map (file_MountPath \<circ> snd) (sv_Files s) @ map tmp_MountPath (sv_TemporaryMounts s)),
          ''job.invocation: mounts cannot overlap /run/hakopod/invocation'')])
        (Inr c))"

definition schedule_defaults :: "JobSchedule \<Rightarrow> JobSchedule" where
  "schedule_defaults c =
     c\<lparr>sch_Timezone := override (sch_Timezone c) ''UTC'', sch_HistoryLimit := or_default (sch_HistoryLimit c) 1\<rparr>"

definition normalizeSchedule :: "'q externals \<Rightarrow> JobSchedule \<Rightarrow> JobSchedule result" where
  "normalizeSchedule ex c0 =
     (let c = schedule_defaults c0 in
      andE (checks
        [(100 < len (sch_Cron c) \<or> FieldsCount False (sch_Cron c) \<noteq> 5, ''job.schedule.cron: use a five-field cron expression''),
         (\<not> ex_cron ex (sch_Cron c), ''job.schedule.cron: invalid cron expression''),
         (100 < len (sch_Timezone c), ''job.schedule.timezone: invalid timezone''),
         (\<not> ex_location ex (sch_Timezone c), ''job.schedule.timezone: use an IANA timezone''),
         (sch_HistoryLimit c < 1 \<or> 2 < sch_HistoryLimit c, ''job.schedule.history_limit'')])
        (Inr c))"

definition optE :: "('a \<Rightarrow> 'a result) \<Rightarrow> 'a option \<Rightarrow> 'a option result" where
  "optE f x = (case x of None \<Rightarrow> Inr None | Some v \<Rightarrow> bindE (f v) (\<lambda>w. Inr (Some w)))"

definition normalizeJob :: "'q externals \<Rightarrow> Service \<Rightarrow> Job \<Rightarrow> Job result" where
  "normalizeJob ex s j0 =
     bindE (optE (normalizeInvocation s j0) (job_Invocation j0)) (\<lambda>inv.
     bindE (optE (normalizeSchedule ex) (job_Schedule j0)) (\<lambda>sch.
     let j = j0\<lparr>job_Invocation := inv, job_Schedule := sch,
                job_TimeoutSeconds := or_default (job_TimeoutSeconds j0) 300\<rparr> in
     andE (checks
       [(job_TimeoutSeconds j < 10 \<or> 900 < job_TimeoutSeconds j \<or> job_Retries j < 0 \<or> 3 < job_Retries j,
         ''job: timeout_seconds must be 10-900 and retries 0-3''),
        (sv_Replicas s \<noteq> 1 \<or> sv_Autoscaling s \<noteq> None \<or> sv_Port s \<noteq> 0 \<or> sv_Ports s \<noteq> [] \<or> sv_Public s
          \<or> sv_BackendHTTP2 s \<or> sv_IngressTimeoutSeconds s \<noteq> 0 \<or> sv_PublicTCP s \<noteq> [] \<or> sv_TLS s \<noteq> None
          \<or> sv_Readiness s \<noteq> None \<or> sv_Healthcheck s \<noteq> [] \<or> sv_CertificateMounts s \<noteq> []
          \<or> sv_UpdateStrategy s \<noteq> [] \<or> sv_ContainerDaemon s \<noteq> [] \<or> sv_Kubernetes s \<noteq> None,
         ''job: require one replica without listeners'')])
       (Inr j)))"

definition file_reserved :: "string \<Rightarrow> bool" where
  "file_reserved p =
     list_ex (\<lambda>r. p = r \<or> r \<noteq> ''/etc'' \<and> HasPrefix p (r @ ''/'') \<or> HasPrefix r (p @ ''/''))
       [''/proc'', ''/sys'', ''/dev'', ''/var/run/secrets'', ''/run/secrets'', ''/etc'']"

definition content_bytes :: "File \<Rightarrow> int" where
  "content_bytes f = (case file_Content f of None \<Rightarrow> 0 | Some c \<Rightarrow> len c)"

definition normalizeFile :: "Service \<Rightarrow> string list \<Rightarrow> string \<Rightarrow> File \<Rightarrow> File result" where
  "normalizeFile s paths n f0 =
     (let f = f0\<lparr>file_Mode := or_default (file_Mode f0) 292\<rparr> in
      andE (checks
        [(\<not> namePattern n \<or> \<not> cleanDirectory (file_MountPath f) \<or> (file_Content f = None) = (file_Secret f = None),
          ''files: use a valid name''),
         (file_reserved (file_MountPath f), ''files.'' @ n @ '': cannot replace a reserved system path''),
         (case file_Secret f of None \<Rightarrow> False | Some r \<Rightarrow> \<not> SecretRef_Valid r, ''files.'' @ n @ ''.secret''),
         (gm_has (sv_Secrets s) (FileSecretKey n), ''files.'' @ n @ '': reserved secret key collision''),
         (case file_Content f of None \<Rightarrow> False | Some c \<Rightarrow> 65536 < len c \<or> NUL \<in> set c, ''files.'' @ n @ ''.content''),
         (file_Mode f \<noteq> 292 \<and> file_Mode f \<noteq> 288, ''files.'' @ n @ ''.mode''),
         (covers (file_MountPath f) paths, ''file and volume mount paths must not overlap'')])
        (Inr f))"

fun file_loop :: "Service \<Rightarrow> string list \<Rightarrow> File gomap \<Rightarrow> File gomap result" where
  "file_loop s paths [] = Inr []"
| "file_loop s paths ((n, f) # fs) =
     bindE (normalizeFile s paths n f) (\<lambda>f'.
     bindE (file_loop s (paths @ [file_MountPath f]) fs) (\<lambda>fs'. Inr ((n, f') # fs')))"

definition job_mount_paths :: "Service \<Rightarrow> string list" where
  "job_mount_paths s =
     volume_paths s @ map mnt_MountPath (sv_Mounts s) @ map tmp_MountPath (sv_TemporaryMounts s)
     @ map cert_MountPath (sv_CertificateMounts s)"

definition normalizeJobAndFiles :: "'q externals \<Rightarrow> Service \<Rightarrow> Service result" where
  "normalizeJobAndFiles ex s =
     bindE (optE (normalizeJob ex s) (sv_Job s)) (\<lambda>j.
     let s1 = s\<lparr>sv_Job := j\<rparr> in
     andE (checks
       [(16 < len (sv_Files s1) + len (sv_Mounts s1) + len (sv_TemporaryMounts s1) + len (sv_CertificateMounts s1),
         ''at most 16 file, named, temporary and certificate mounts'')])
     (bindE (file_loop s1 (job_mount_paths s1) (sv_Files s1)) (\<lambda>fs.
      andE (checks
        [(131072 < sum_list (map (content_bytes \<circ> snd) (sv_Files s1)), ''files: combined content exceeds 128 KiB'')])
        (Inr (s1\<lparr>sv_Files := fs\<rparr>)))))"

section \<open>Kubernetes patches\<close>

definition MaxKubernetesPatchBytes :: int where "MaxKubernetesPatchBytes = 16384"

definition ParseKubernetesPatch :: "'q externals \<Rightarrow> string \<Rightarrow> (string list \<times> string list) result" where
  "ParseKubernetesPatch ex text =
     (if MaxKubernetesPatchBytes < len text then Inl (Err ''patch exceeds 16384 bytes'')
      else case ex_yaml ex text of
          None \<Rightarrow> Inl (Err ''the patch must be a YAML mapping'')
        | Some (keys, metadata) \<Rightarrow>
            andE (checks
              (map (\<lambda>k. (k \<in> set keys, k @ '' cannot be patched'')) [''apiVersion'', ''kind'']
               @ map (\<lambda>k. (k \<in> set metadata, ''metadata.'' @ k @ '' cannot be patched'')) [''name'', ''namespace'']))
              (Inr (keys, metadata)))"

definition zero_KubernetesPatches :: KubernetesPatches where
  "zero_KubernetesPatches = \<lparr>kp_Deployment = [], kp_Service = [], kp_Ingress = []\<rparr>"

definition normalizeKubernetes :: "'q externals \<Rightarrow> Service \<Rightarrow> Service result" where
  "normalizeKubernetes ex s =
     (case sv_Kubernetes s of
        None \<Rightarrow> Inr s
      | Some k \<Rightarrow>
          if k = zero_KubernetesPatches then Inr (s\<lparr>sv_Kubernetes := None\<rparr>)
          else
            andE (checks
              [(sv_Job s \<noteq> None \<or> sv_Session s \<noteq> None \<or> sv_Actions s \<noteq> None \<or> sv_Serverless s \<noteq> None,
                ''kubernetes: patches apply only to a regular long-running service'')])
            (andE (forE (\<lambda>(n, text). if text = [] then Inr ()
                     else in_field (''kubernetes.'' @ n) (bindE (ParseKubernetesPatch ex text) (\<lambda>_. Inr ())))
                   [(''deployment'', kp_Deployment k), (''service'', kp_Service k), (''ingress'', kp_Ingress k)])
            (andE (checks
              [(kp_Service k \<noteq> [] \<and> ServicePorts s = [], ''kubernetes.service: requires a service with a port''),
               (kp_Ingress k \<noteq> [] \<and> (\<not> sv_Public s \<or> sv_Port s = 0), ''kubernetes.ingress: requires a public service'')])
              (Inr s))))"

definition KubernetesPatchesChanged :: "Application \<Rightarrow> Application \<Rightarrow> bool" where
  "KubernetesPatchesChanged before after =
     list_ex (\<lambda>(n, s).
       case sv_Kubernetes s of
         None \<Rightarrow> False
       | Some k \<Rightarrow>
           (let old = (case sv_Kubernetes (service_at before n) of None \<Rightarrow> zero_KubernetesPatches | Some o' \<Rightarrow> o') in
            kp_Deployment k \<noteq> [] \<and> kp_Deployment k \<noteq> kp_Deployment old
            \<or> kp_Service k \<noteq> [] \<and> kp_Service k \<noteq> kp_Service old
            \<or> kp_Ingress k \<noteq> [] \<and> kp_Ingress k \<noteq> kp_Ingress old)) (app_services after)"

section \<open>Readiness\<close>

definition readiness_defaults :: "Readiness \<Rightarrow> Readiness" where
  "readiness_defaults r =
     r\<lparr>rd_PeriodSeconds := or_default (rd_PeriodSeconds r) 5,
       rd_TimeoutSeconds := or_default (rd_TimeoutSeconds r) 3,
       rd_FailureThreshold := or_default (rd_FailureThreshold r) 3\<rparr>"

definition normalizeReadiness :: "'q externals \<Rightarrow> Service \<Rightarrow> Service result" where
  "normalizeReadiness ex s =
     (case sv_Readiness s of
        None \<Rightarrow> Inr s
      | Some r0 \<Rightarrow>
          (let r = readiness_defaults r0 in
           andE (checks
             [(rd_Protocol r \<notin> set [''tcp'', ''smtp'', ''smtp_starttls''], ''readiness.protocol''),
              (rd_Port r < 1 \<or> \<not> list_ex (\<lambda>p. port_TargetPort p = rd_Port r \<and> port_Protocol p = ''TCP'') (ServicePorts s),
               ''readiness.port'')])
           (andE (if rd_Protocol r = ''smtp_starttls'' then
               checks
                 [(\<not> ValidHostname ex (rd_TLSServerName r), ''readiness.tls_server_name''),
                  (rd_TLSCAFile r \<noteq> [] \<and>
                     (\<not> PathIsAbs (rd_TLSCAFile r) \<or> PathClean (rd_TLSCAFile r) \<noteq> rd_TLSCAFile r
                      \<or> 256 < len (rd_TLSCAFile r) \<or> ContainsAny (rd_TLSCAFile r) [NUL, CR, LF]),
                   ''readiness.tls_ca_file'')]
             else checks [(rd_TLSServerName r \<noteq> [] \<or> rd_TLSCAFile r \<noteq> [], ''readiness: TLS settings require smtp_starttls'')])
           (andE (checks
             [(rd_PeriodSeconds r < 3 \<or> 60 < rd_PeriodSeconds r \<or> rd_TimeoutSeconds r < 1 \<or> 10 < rd_TimeoutSeconds r
                \<or> rd_PeriodSeconds r \<le> rd_TimeoutSeconds r \<or> rd_FailureThreshold r < 1 \<or> 10 < rd_FailureThreshold r,
               ''readiness: bounds'')])
             (Inr (s\<lparr>sv_Readiness := Some r\<rparr>))))))"

end
