(* ===== verification/Spec_Storage.thy ===== *)
theory Spec_Storage
  imports Spec_Lifecycle
begin

text \<open>
  Storage that services share (mounts.go, shared_volumes.go): named volumes and their users,
  the groups of services that must run on one node, and the placement a group agrees on.
\<close>

section \<open>Groups of services on shared ReadWriteOnce volumes\<close>

text \<open>\<open>users\<close>: for each ReadWriteOnce volume, the services that mount it, in name order.\<close>

definition add_user :: "Application \<Rightarrow> string \<Rightarrow> Mount \<Rightarrow> string list gomap \<Rightarrow> string list gomap" where
  "add_user a name m users =
     (case gm_get (app_Volumes a) (mnt_Volume m) of
        None \<Rightarrow> users
      | Some v \<Rightarrow>
          (let old = (case gm_get users (mnt_Volume m) of None \<Rightarrow> [] | Some us \<Rightarrow> us) in
           if nvol_AccessMode v \<noteq> ''ReadWriteMany'' \<and> name \<notin> set old
           then gm_set (mnt_Volume m) (old @ [name]) users else users))"

definition volume_users :: "Application \<Rightarrow> string list gomap" where
  "volume_users a =
     fold (\<lambda>name. fold (add_user a name) (sv_Mounts (service_at a name))) (Names a) []"

definition add_neighbors :: "string list \<Rightarrow> string list gomap \<Rightarrow> string list gomap" where
  "add_neighbors members nb =
     (if length members < 2 then nb
      else fold (\<lambda>n nb. gm_set n ((case gm_get nb n of None \<Rightarrow> [] | Some ns \<Rightarrow> ns) @ members) nb) members nb)"

definition volume_neighbors :: "Application \<Rightarrow> string list gomap" where
  "volume_neighbors a = fold (\<lambda>(v, members). add_neighbors members) (volume_users a) []"

definition neighbors_of :: "string list gomap \<Rightarrow> string \<Rightarrow> string list" where
  "neighbors_of nb n = (case gm_get nb n of None \<Rightarrow> [] | Some ns \<Rightarrow> ns)"

text \<open>The queue of the code's inner loop; it returns what is seen and the group.\<close>

function group_from ::
  "string list gomap \<Rightarrow> string list \<Rightarrow> string list \<Rightarrow> string list \<Rightarrow> string list \<times> string list" where
  "group_from nb seen grp [] = (seen, grp)"
| "group_from nb seen grp (c # queue) =
     (if c \<in> set seen then group_from nb seen grp queue
      else group_from nb (c # seen) (grp @ [c]) (queue @ neighbors_of nb c))"
  by pat_completeness auto

text \<open>Each turn marks a service that has neighbors, or shortens the queue.\<close>

lemma group_from_decreases:
  assumes "c \<notin> set seen"
  shows "card (dom (gm_get nb) - set (c # seen)) < card (dom (gm_get nb) - set seen)
     \<or> (card (dom (gm_get nb) - set (c # seen)) = card (dom (gm_get nb) - set seen)
        \<and> neighbors_of nb c = [])"
proof (cases "gm_get nb c")
  case None
  then have "dom (gm_get nb) - set (c # seen) = dom (gm_get nb) - set seen" by auto
  with None show ?thesis by (simp add: neighbors_of_def)
next
  case (Some ns)
  then have "dom (gm_get nb) - set (c # seen) \<subset> dom (gm_get nb) - set seen"
    using assms by auto
  then show ?thesis by (simp add: psubset_card_mono finite_dom_map_of)
qed

termination group_from
  by (relation "measures [\<lambda>(nb, seen, grp, queue). card (dom (gm_get nb) - set seen),
                          \<lambda>(nb, seen, grp, queue). length queue]")
    (use group_from_decreases in \<open>force+\<close>)

fun groups_loop :: "string list gomap \<Rightarrow> string list \<Rightarrow> string list \<Rightarrow> string list list" where
  "groups_loop nb seen [] = []"
| "groups_loop nb seen (n # ns) =
     (if n \<in> set seen \<or> neighbors_of nb n = [] then groups_loop nb seen ns
      else (case group_from nb seen [] [n] of
              (seen', grp) \<Rightarrow> sort grp # groups_loop nb seen' ns))"

definition SharedReadWriteOnceGroups :: "Application \<Rightarrow> string list list" where
  "SharedReadWriteOnceGroups a = groups_loop (volume_neighbors a) [] (Names a)"

section \<open>The placement of a group\<close>

definition agree :: "string \<Rightarrow> string \<Rightarrow> string \<Rightarrow> string result" where
  "agree msg known new =
     (if new = [] then Inr known
      else if known \<noteq> [] \<and> known \<noteq> new then Inl (Err msg) else Inr new)"

definition group_placement :: "Application \<Rightarrow> string list \<Rightarrow> (string \<times> string) result" where
  "group_placement a grp =
     foldE (\<lambda>(node, arch) name.
       let s = service_at a name; field = ''services.'' @ name in
       if sv_Job s \<noteq> None \<or> sv_Actions s \<noteq> None then Inl (Err field)
       else bindE (agree (field @ ''.node_name'') node (sv_NodeName s)) (\<lambda>node'.
            bindE (agree (field @ ''.architecture'') arch (sv_Architecture s)) (\<lambda>arch'.
              Inr (node', arch')))) ([], []) grp"

definition place_group :: "string \<Rightarrow> string \<Rightarrow> string list \<Rightarrow> Application \<Rightarrow> Application" where
  "place_group node arch grp a =
     fold (\<lambda>n a. put_service n ((service_at a n)\<lparr>sv_NodeName := node, sv_Architecture := arch\<rparr>) a) grp a"

definition normalizeSharedReadWriteOnce :: "Application \<Rightarrow> Application result" where
  "normalizeSharedReadWriteOnce a =
     foldE (\<lambda>a grp. bindE (group_placement a grp) (\<lambda>(node, arch). Inr (place_group node arch grp a)))
       a (SharedReadWriteOnceGroups a)"

section \<open>Named volumes\<close>

definition normalizeNamedVolume :: "'q externals \<Rightarrow> string \<Rightarrow> NamedVolume \<Rightarrow> NamedVolume result" where
  "normalizeNamedVolume ex n v0 =
     (let v = v0\<lparr>nvol_AccessMode := override (nvol_AccessMode v0) ''ReadWriteOnce''\<rparr> in
      andE (checks
        [(\<not> namePattern n \<or> nvol_SizeGiB v < 1 \<or> 200 < nvol_SizeGiB v, ''volumes: use valid names and sizes''),
         (nvol_StorageClass v \<noteq> [] \<and> \<not> ex_dns_subdomain ex (nvol_StorageClass v), ''volumes.'' @ n @ '': invalid storage class''),
         (nvol_AccessMode v \<noteq> ''ReadWriteOnce'' \<and> nvol_AccessMode v \<noteq> ''ReadWriteMany'', ''volumes.'' @ n @ ''.access_mode''),
         (nvol_AccessMode v = ''ReadWriteMany'' \<and> nvol_StorageClass v = [], ''volumes.'' @ n @ '': shared storage'')])
        (Inr v))"

definition storage_group :: "Service \<Rightarrow> int" where
  "storage_group s =
     (if 0 < sv_FSGroup s then sv_FSGroup s else if 0 < sv_RunAsUser s then sv_RunAsUser s else 10001)"

definition join_volume :: "Application \<Rightarrow> string \<Rightarrow> int \<Rightarrow> int gomap \<Rightarrow> Mount \<Rightarrow> int gomap result" where
  "join_volume a name grp groups m =
     (if \<not> gm_has (app_Volumes a) (mnt_Volume m)
      then Inl (Err (''services.'' @ name @ ''.mounts: unknown volume''))
      else if gm_has groups (mnt_Volume m) \<and> gm_get groups (mnt_Volume m) \<noteq> Some grp
      then Inl (Err (''volumes.'' @ mnt_Volume m))
      else Inr (gm_set (mnt_Volume m) grp groups))"

definition storage_service :: "Application \<Rightarrow> int gomap \<Rightarrow> string \<Rightarrow> int gomap result" where
  "storage_service a groups name =
     (let s = service_at a name in
      andE (checks
        [(sv_Volume s \<noteq> None \<and> list_ex (\<lambda>v. ''hakopod-volume-'' @ v = name @ ''-data'') (gm_keys (app_Volumes a)),
          ''services.'' @ name @ ''.volume''),
         (sv_Mounts s \<noteq> [] \<and> (sv_Replicas s \<noteq> 1 \<or> sv_Autoscaling s \<noteq> None),
          ''services.'' @ name @ '': persistent services require one replica'')])
        (foldE (join_volume a name (storage_group s)) groups (sv_Mounts s)))"

definition legacy_sizes :: "Application \<Rightarrow> int list" where
  "legacy_sizes a =
     concat (map (\<lambda>(n, s). case sv_Volume s of None \<Rightarrow> [] | Some v \<Rightarrow> [vol_SizeGiB v]) (app_services a))"

definition validateNamedStorage :: "'q externals \<Rightarrow> Application \<Rightarrow> Application result" where
  "validateNamedStorage ex a0 =
     andE (checks [(16 < len (app_Volumes a0), ''volumes: at most 16 named volumes'')])
     (bindE (mapE (\<lambda>(n, v). bindE (normalizeNamedVolume ex n v) (\<lambda>w. Inr (n, w))) (app_Volumes a0)) (\<lambda>vs.
      let a = a0\<lparr>app_Volumes := vs\<rparr> in
      bindE (foldE (storage_service a) [] (Names a)) (\<lambda>_.
      andE (checks
        [(20 < len vs + len (legacy_sizes a)
           \<or> 200 < sum_list (map (nvol_SizeGiB \<circ> snd) vs) + sum_list (legacy_sizes a),
          ''volumes: application storage is limited'')])
        (normalizeSharedReadWriteOnce a))))"

end
