(* ===== verification/Spec_Network.thy ===== *)
theory Spec_Network
  imports Spec_Storage
begin

text \<open>
  Reachability and exposure (network_controls.go, domains.go, http_endpoints.go,
  public_tcp.go, virtual_network.go): which service may open a connection to which, the
  ports a service declares, and what of it is reachable from outside.
\<close>

section \<open>Peers\<close>

definition AllowsPeer :: "Application \<Rightarrow> string \<Rightarrow> string \<Rightarrow> bool" where
  "AllowsPeer a source destination =
     (case (gm_get (app_services a) source, gm_get (app_services a) destination) of
        (Some src, Some dst) \<Rightarrow>
          list_ex (\<lambda>x. list_ex (\<lambda>y. x = y) (sv_networks dst)) (sv_networks src)
          \<and> (case sv_NetworkAccess dst of
                None \<Rightarrow> True
              | Some na \<Rightarrow> list_ex (\<lambda>n. source = n) (case na_From na of None \<Rightarrow> [] | Some ns \<Rightarrow> ns))
      | _ \<Rightarrow> False)"

section \<open>Additional ports\<close>

definition port_defaults :: "Port \<Rightarrow> Port" where
  "port_defaults p =
     p\<lparr>port_Protocol := override (ToUpper (port_Protocol p)) ''TCP'',
       port_TargetPort := or_default (port_TargetPort p) (port_Port p)\<rparr>"

definition endpoint_of :: "Port \<Rightarrow> string \<times> int" where
  "endpoint_of p = (port_Protocol p, port_Port p)"

fun ports_loop ::
  "'q externals \<Rightarrow> string \<Rightarrow> string list \<Rightarrow> (string \<times> int) list \<Rightarrow> Port list \<Rightarrow> Port list result" where
  "ports_loop ex field names endpoints [] = Inr []"
| "ports_loop ex field names endpoints (p0 # ps) =
     (let p = port_defaults p0 in
      andE (checks
        [(\<not> ex_port_name ex (port_Name p) \<or> port_Name p \<in> set names, field @ '': use unique port names''),
         (port_Port p < 1 \<or> 65535 < port_Port p \<or> port_TargetPort p < 1 \<or> 65535 < port_TargetPort p
           \<or> (port_Protocol p \<noteq> ''TCP'' \<and> port_Protocol p \<noteq> ''UDP''), field @ '': use TCP or UDP''),
         (endpoint_of p \<in> set endpoints, field @ '': duplicate protocol/port'')])
        (bindE (ports_loop ex field (port_Name p # names) (endpoint_of p # endpoints) ps) (\<lambda>qs.
           Inr (p # qs))))"

definition normalizePorts :: "'q externals \<Rightarrow> string \<Rightarrow> Service \<Rightarrow> Service result" where
  "normalizePorts ex name s =
     (let field = ''services.'' @ name @ ''.ports'' in
      andE (checks [(15 < len (sv_Ports s), field @ '': at most 15'')])
        (bindE (ports_loop ex field
                  (if sv_Port s \<noteq> 0 then [''service''] else [])
                  (if sv_Port s \<noteq> 0 then [(''TCP'', sv_Port s)] else []) (sv_Ports s)) (\<lambda>ps.
           Inr (s\<lparr>sv_Ports := sort_key port_Name ps\<rparr>))))"

section \<open>Who may connect\<close>

fun from_loop :: "Application \<Rightarrow> string \<Rightarrow> string list \<Rightarrow> string list \<Rightarrow> unit result" where
  "from_loop a name seen [] = Inr ()"
| "from_loop a name seen (peer # ps) =
     andE (checks
       [(\<not> gm_has (app_services a) peer \<or> peer \<in> set seen, ''services.'' @ name @ ''.network_access.from''),
        (\<not> AllowsPeer a peer name, ''services.'' @ name @ ''.network_access.from: must share a network'')])
       (from_loop a name (peer # seen) ps)"

definition application_peer :: "Application \<Rightarrow> string \<Rightarrow> bool" where
  "application_peer a peer =
     (case Split (CHR ''/'') peer of
        [app, svc] \<Rightarrow> namePattern app \<and> namePattern svc \<and> app \<noteq> app_Name a
      | _ \<Rightarrow> False)"

definition normalizeAccess :: "Application \<Rightarrow> string \<Rightarrow> Service \<Rightarrow> Service result" where
  "normalizeAccess a name s =
     (case sv_NetworkAccess s of
        None \<Rightarrow> Inr s
      | Some na \<Rightarrow>
          (let from = (case na_From na of None \<Rightarrow> [] | Some ns \<Rightarrow> ns); field = ''services.'' @ name @ ''.network_access'';
               shared = list_ex (\<lambda>n. net_VirtualNetwork (network_at a n) \<noteq> []) (sv_networks s) in
           andE (checks [(20 < len from, field @ ''.from: at most 20 services'')])
           (andE (from_loop a name [] from)
           (andE (checks
              [(32 < len (na_FromApplications na), field @ ''.from_applications: at most 32''),
               (na_FromApplications na \<noteq> [] \<and> (\<not> shared \<or> list_ex (\<lambda>p. \<not> application_peer a p) (na_FromApplications na)
                  \<or> first_dup [] (na_FromApplications na)), field @ ''.from_applications'')])
             (Inr (s\<lparr>sv_NetworkAccess := Some
                (na\<lparr>na_From := Some (sort from), na_FromApplications := sort (na_FromApplications na)\<rparr>)\<rparr>))))))"

definition network_access_service :: "'q externals \<Rightarrow> Application \<Rightarrow> string \<Rightarrow> Application result" where
  "network_access_service ex a name =
     bindE (normalizePorts ex name (service_at a name)) (\<lambda>s.
     bindE (normalizeAccess a name s) (\<lambda>s'. Inr (put_service name s' a)))"

definition validateNetworkAccess :: "'q externals \<Rightarrow> Application \<Rightarrow> Application result" where
  "validateNetworkAccess ex a = foldE (network_access_service ex) a (Names a)"

section \<open>Custom domains and HTTP endpoints\<close>

definition ValidateDomains :: "'q externals \<Rightarrow> Application \<Rightarrow> unit result" where
  "ValidateDomains ex a =
     andE (checks [(20 < len (app_Domains a), ''domains: at most 20 custom hostnames'')])
       (forE (\<lambda>(host, name). checks
          [(\<not> ValidHostname ex host, ''domains''),
           (case gm_get (app_services a) name of None \<Rightarrow> True | Some s \<Rightarrow> \<not> sv_Public s \<or> sv_Port s = 0,
            ''domains.'' @ host)]) (app_Domains a))"

fun endpoint_loop ::
  "'q externals \<Rightarrow> Application \<Rightarrow> string \<Rightarrow> Service \<Rightarrow> string list \<Rightarrow> string list \<Rightarrow> HTTPEndpoint gomap \<Rightarrow> string list result" where
  "endpoint_loop ex a name s generated seen [] = Inr generated"
| "endpoint_loop ex a name s generated seen ((key, e) # es) =
     (let host = name @ ''-'' @ key; field = ''services.'' @ name @ ''.http'' in
      andE (checks
        [(\<not> sv_Public s \<or> sv_Job s \<noteq> None \<or> \<not> namePattern key \<or> 8 < len key, field),
         (host \<in> set generated, ''HTTP endpoint hostname conflicts''),
         (\<not> list_ex (\<lambda>p. port_Port p = http_Port e \<and> port_Protocol p = ''TCP'') (ServicePorts s), field @ ''.'' @ key @ ''.port''),
         (http_Domain e \<noteq> [] \<and>
            (\<not> ValidHostname ex (http_Domain e) \<or> gm_get (app_Domains a) (http_Domain e) \<noteq> Some name
             \<or> http_Domain e \<in> set seen), field @ ''.'' @ key @ ''.domain'')])
        (endpoint_loop ex a name s (host # generated)
           (if http_Domain e \<noteq> [] then http_Domain e # seen else seen) es))"

definition validateHTTPEndpoints :: "'q externals \<Rightarrow> Application \<Rightarrow> unit result" where
  "validateHTTPEndpoints ex a =
     bindE (foldE (\<lambda>generated (name, s).
       andE (checks [(4 < len (sv_HTTP s), ''services.'' @ name @ ''.http: at most four'')])
         (endpoint_loop ex a name s generated [] (sv_HTTP s)))
       (gm_keys (app_services a)) (app_services a)) (\<lambda>_. Inr ())"

section \<open>Public TCP listeners\<close>

definition reserved_tcp_ports :: "int list" where
  "reserved_tcp_ports = [22, 53, 80, 443, 1024, 1042, 2379, 2380, 6060, 6443, 8080, 8443, 10250]"

definition ValidPublicTCPPort :: "int \<Rightarrow> bool" where
  "ValidPublicTCPPort p \<longleftrightarrow> 1 \<le> p \<and> p \<le> 65535 \<and> p \<notin> set reserved_tcp_ports"

fun cidr_loop :: "string \<Rightarrow> string list \<Rightarrow> string list \<Rightarrow> string list result" where
  "cidr_loop field seen [] = Inr []"
| "cidr_loop field seen (c # cs) =
     (case ParsePrefix4 c of
        None \<Rightarrow> Inl (Err (field @ '': use IPv4 CIDR notation''))
      | Some p \<Rightarrow>
          (let v = prefix_string (Masked p) in
           if v \<in> set seen then Inl (Err (field @ '': duplicate network''))
           else bindE (cidr_loop field (v # seen) cs) (\<lambda>vs. Inr (v # vs))))"

definition backend_matches :: "Service \<Rightarrow> int \<Rightarrow> Port list" where
  "backend_matches s target = filter (\<lambda>p. port_Protocol p = ''TCP'' \<and> port_TargetPort p = target) (ServicePorts s)"

fun listener_loop :: "string \<Rightarrow> Service \<Rightarrow> int list \<Rightarrow> PublicTCPListener list \<Rightarrow> (int list \<times> PublicTCPListener list) result" where
  "listener_loop field s ports [] = Inr (ports, [])"
| "listener_loop field s ports (l # ls) =
     andE (checks
       [(tcp_Port l < 1 \<or> 65535 < tcp_Port l \<or> tcp_Port l \<in> set ports, field @ '': external ports must be unique''),
        (\<not> ValidPublicTCPPort (tcp_Port l), field @ '': reserved for platform traffic''),
        (sv_Public s \<and> tcp_TargetPort l = sv_Port s, field @ '': an HTTP ingress port''),
        (len (backend_matches s (tcp_TargetPort l)) \<noteq> 1, field @ ''.target_port''),
        (len (tcp_SourceCIDRs l) < 1 \<or> 16 < len (tcp_SourceCIDRs l), field @ ''.source_cidrs'')])
       (bindE (cidr_loop (field @ ''.source_cidrs'') [] (tcp_SourceCIDRs l)) (\<lambda>cidrs.
        bindE (listener_loop field s (tcp_Port l # ports) ls) (\<lambda>(ports', ls').
          Inr (ports', l\<lparr>tcp_SourceCIDRs := sort cidrs\<rparr> # ls'))))"

definition public_tcp_service :: "int list \<times> Application \<Rightarrow> string \<Rightarrow> (int list \<times> Application) result" where
  "public_tcp_service = (\<lambda>(ports, a) name.
     let s = service_at a name; field = ''services.'' @ name @ ''.public_tcp'' in
     andE (checks
       [(sv_PublicTCP s \<noteq> [] \<and> sv_Port s = 0, field @ '': declare a primary port''),
        (16 < len (sv_PublicTCP s), field @ '': at most 16 listeners'')])
       (bindE (listener_loop field s ports (sv_PublicTCP s)) (\<lambda>(ports', ls).
          Inr (ports', put_service name (s\<lparr>sv_PublicTCP := sort_key tcp_Port ls\<rparr>) a))))"

definition validatePublicTCP :: "Application \<Rightarrow> Application result" where
  "validatePublicTCP a =
     bindE (foldE public_tcp_service ([], a) (Names a)) (\<lambda>(ports, b).
       if 64 < len ports then Inl (Err ''public_tcp: at most 64 listeners per application'') else Inr b)"

definition PublicTCPServicePort :: "Service \<Rightarrow> PublicTCPListener \<Rightarrow> int" where
  "PublicTCPServicePort s l =
     (case backend_matches s (tcp_TargetPort l) of [] \<Rightarrow> 0 | p # _ \<Rightarrow> port_Port p)"

definition HasPublicTCP :: "Application \<Rightarrow> bool" where
  "HasPublicTCP a = list_ex (\<lambda>(n, s). sv_PublicTCP s \<noteq> []) (app_services a)"

end
