(* ===== verification/Spec_Environment.thy ===== *)
theory Spec_Environment
  imports Spec_Patterns
begin

text \<open>
  Inheritance of environment variables and secret references (spec.go): what a service's
  container receives, given its own settings and the application's shared ones.
\<close>

section \<open>Definitions\<close>

definition EffectiveEnvironment :: "string gomap \<Rightarrow> Service \<Rightarrow> string gomap" where
  "EffectiveEnvironment defaults s =
     (let env = gm_set_all defaults [];
          env = gm_set_all (sv_Env s) env;
          env = gm_del_all (gm_keys (sv_Secrets s)) env
      in gm_del_all (gm_keys (sv_Bindings s)) env)"

definition EffectiveService :: "Application \<Rightarrow> Service \<Rightarrow> Service" where
  "EffectiveService a s =
     (if sv_Actions s \<noteq> None then s
      else
        (let refs = gm_set_all (app_Secrets a) [];
             refs = gm_del_all (gm_keys (sv_Env s)) refs;
             refs = gm_set_all (sv_Secrets s) refs;
             refs = gm_del_all (gm_keys (sv_Bindings s)) refs;
             s = s\<lparr>sv_Secrets := refs\<rparr>;
             defaults = (if app_InjectEnv a then app_Env a else [])
         in s\<lparr>sv_Env := EffectiveEnvironment defaults s\<rparr>))"

definition RuntimeEnvironment :: "Application \<Rightarrow> Application" where
  "RuntimeEnvironment a =
     a\<lparr>app_Services := Some (map (\<lambda>(n, s). (n, EffectiveService a s)) (app_services a)),
       app_Env := [], app_Secrets := [], app_InjectEnv := False\<rparr>"

section \<open>What each name resolves to\<close>

text \<open>The rules in the order of precedence: binding, own secret, own value, shared secret, default.\<close>

definition inherited_secret :: "Application \<Rightarrow> Service \<Rightarrow> string \<Rightarrow> SecretRef option" where
  "inherited_secret a s k =
     (if gm_has (sv_Bindings s) k then None
      else if gm_has (sv_Secrets s) k then gm_get (sv_Secrets s) k
      else if gm_has (sv_Env s) k then None
      else gm_get (app_Secrets a) k)"

definition inherited_value :: "Application \<Rightarrow> Service \<Rightarrow> string \<Rightarrow> string option" where
  "inherited_value a s k =
     (if gm_has (sv_Bindings s) k \<or> inherited_secret a s k \<noteq> None then None
      else if gm_has (sv_Env s) k then gm_get (sv_Env s) k
      else if app_InjectEnv a then gm_get (app_Env a) k
      else None)"

lemma set_keys_has: "k \<in> set (gm_keys m) \<longleftrightarrow> gm_has m k"
  by (simp add: gm_has_keys)

lemma effective_secrets:
  assumes "wf_app a" and "wf_service s" and "sv_Actions s = None"
  shows "gm_get (sv_Secrets (EffectiveService a s)) k = inherited_secret a s k"
  using assms
  by (auto simp: EffectiveService_def Let_def inherited_secret_def wf_app_def wf_service_def
        set_keys_has gm_has_def split: option.splits)

lemma effective_env:
  assumes "wf_app a" and "wf_service s" and "sv_Actions s = None"
  shows "gm_get (sv_Env (EffectiveService a s)) k = inherited_value a s k"
proof -
  have sec: "k \<in> set (gm_keys (sv_Secrets (EffectiveService a s))) \<longleftrightarrow> inherited_secret a s k \<noteq> None"
    by (simp add: set_keys_has gm_has_def effective_secrets [OF assms])
  have "gm_get (sv_Env (EffectiveService a s)) k
      = gm_get (EffectiveEnvironment (if app_InjectEnv a then app_Env a else [])
          (s\<lparr>sv_Secrets := sv_Secrets (EffectiveService a s)\<rparr>)) k"
    using assms(3) by (simp add: EffectiveService_def Let_def)
  also have "\<dots> = inherited_value a s k"
    using assms sec
    by (auto simp: EffectiveEnvironment_def Let_def inherited_value_def wf_app_def wf_service_def
          set_keys_has gm_has_def split: option.splits)
  finally show ?thesis .
qed

lemma effective_bindings [simp]: "sv_Bindings (EffectiveService a s) = sv_Bindings s"
  by (simp add: EffectiveService_def Let_def)

lemma effective_actions [simp]: "sv_Actions (EffectiveService a s) = sv_Actions s"
  by (simp add: EffectiveService_def Let_def)

lemma effective_frame:
  "EffectiveService a s =
     s\<lparr>sv_Env := sv_Env (EffectiveService a s), sv_Secrets := sv_Secrets (EffectiveService a s)\<rparr>"
  by (simp add: EffectiveService_def Let_def)

lemma effective_wf:
  assumes "wf_service s"
  shows "wf_service (EffectiveService a s)"
  using assms
  by (auto simp: EffectiveService_def EffectiveEnvironment_def Let_def wf_service_def)

lemma runtime_services:
  "app_services (RuntimeEnvironment a) = map (\<lambda>(n, s). (n, EffectiveService a s)) (app_services a)"
  by (simp add: RuntimeEnvironment_def app_services_def)

lemma runtime_service_at:
  "gm_get (app_services (RuntimeEnvironment a)) n =
     map_option (EffectiveService a) (gm_get (app_services a) n)"
  by (simp add: runtime_services map_of_map)

lemma gm_wf_map [simp]: "gm_wf (map (\<lambda>(k, v). (k, f k v)) m) = gm_wf m"
  by (simp add: gm_wf_def comp_def case_prod_beta)

lemma runtime_wf:
  assumes "wf_app a"
  shows "wf_app (RuntimeEnvironment a)"
proof -
  have "gm_wf (app_services (RuntimeEnvironment a))"
    using assms by (simp add: runtime_services wf_app_def)
  moreover have "wf_service s" if "s \<in> snd ` set (app_services (RuntimeEnvironment a))" for s
    using that assms by (auto simp: runtime_services wf_app_def intro!: effective_wf)
  ultimately show ?thesis
    using assms by (auto simp: wf_app_def RuntimeEnvironment_def)
qed

text \<open>A service that has its effective settings keeps them where nothing is shared.\<close>

lemma effective_stable:
  assumes "wf_app a" and "wf_app b" and "wf_service s"
    and "app_Secrets b = []" and "app_InjectEnv b = False"
  shows "EffectiveService b (EffectiveService a s) = EffectiveService a s"
proof (cases "sv_Actions s")
  case (Some x)
  then show ?thesis by (simp add: EffectiveService_def)
next
  case None
  let ?t = "EffectiveService a s"
  have wf: "wf_service ?t" by (rule effective_wf [OF assms(3)])
  have act: "sv_Actions ?t = None" using None by simp
  have wf': "wf_service (EffectiveService b ?t)" by (rule effective_wf [OF wf])
  have sec: "sv_Secrets (EffectiveService b ?t) = sv_Secrets ?t"
  proof (rule gm_ext)
    show "gm_wf (sv_Secrets (EffectiveService b ?t))" "gm_wf (sv_Secrets ?t)"
      using wf wf' by (auto simp: wf_service_def)
    show "gm_get (sv_Secrets (EffectiveService b ?t)) k = gm_get (sv_Secrets ?t) k" for k
      using assms(4)
      by (simp add: effective_secrets [OF assms(2) wf act] effective_secrets [OF assms(1,3) None]
            inherited_secret_def gm_has_def)
  qed
  have env: "sv_Env (EffectiveService b ?t) = sv_Env ?t"
  proof (rule gm_ext)
    show "gm_wf (sv_Env (EffectiveService b ?t))" "gm_wf (sv_Env ?t)"
      using wf wf' by (auto simp: wf_service_def)
    have s: "inherited_secret b ?t k = inherited_secret a s k" for k
      using sec effective_secrets [OF assms(2) wf act] effective_secrets [OF assms(1,3) None] by metis
    show "gm_get (sv_Env (EffectiveService b ?t)) k = gm_get (sv_Env ?t) k" for k
      using assms(5)
      by (auto simp: effective_env [OF assms(2) wf act] effective_env [OF assms(1,3) None]
            inherited_value_def s gm_has_def)
  qed
  show ?thesis
    using effective_frame [of b ?t] by (simp add: sec env)
qed

lemma runtime_stable:
  assumes "wf_app a"
  shows "RuntimeEnvironment (RuntimeEnvironment a) = RuntimeEnvironment a"
proof -
  let ?r = "RuntimeEnvironment a"
  have fields: "app_Secrets ?r = []" "app_InjectEnv ?r = False" "app_Env ?r = []"
    by (simp_all add: RuntimeEnvironment_def)
  have same: "EffectiveService ?r (EffectiveService a s) = EffectiveService a s" if "(n, s) \<in> set (app_services a)" for n s
  proof (rule effective_stable [OF assms runtime_wf [OF assms] _ fields(1,2)])
    show "wf_service s" using that assms by (force simp: wf_app_def)
  qed
  have "app_services (RuntimeEnvironment ?r) = app_services ?r"
    using same by (auto simp: runtime_services intro!: map_cong)
  then show ?thesis by (simp add: RuntimeEnvironment_def app_services_def)
qed

end
