(* ===== verification/Spec_Bindings.thy ===== *)
theory Spec_Bindings
  imports Spec_Network Spec_Environment
begin

text \<open>
  Bindings: connection settings a service receives for another service or a managed or
  external database (bindings.go, managed_database_options.go,
  external_database_bindings.go, database_client_profiles.go).
\<close>

section \<open>Client profiles\<close>

definition databaseClientGeneratedEnvironment :: "string \<Rightarrow> string list" where
  "databaseClientGeneratedEnvironment profile =
     (if profile = ''infisical-postgres-v1'' then [''DB_ROOT_CERT'']
      else if profile = ''node-extra-ca-v1'' then [''NODE_EXTRA_CA_CERTS'']
      else if profile = ''glitchtip-valkey-v2.1-v1'' then [''SSL_CERT_FILE'', ''SSL_CERT_DIR'']
      else [])"

definition database_profiles :: "string list" where
  "database_profiles =
     [''infisical-postgres-v1'', ''node-extra-ca-v1'', ''glitchtip-valkey-v2.1-v1'', ''libpq-postgres-url-v1'']"

definition database_profile :: "Service \<Rightarrow> Service \<Rightarrow> string \<Rightarrow> string \<Rightarrow> string \<Rightarrow> unit result" where
  "database_profile effective s field variable profile =
     (let here = field @ ''.'' @ variable; bound = gm_get (sv_Bindings s) variable;
          managed = (case bound of None \<Rightarrow> False | Some b \<Rightarrow> bind_ManagedDatabase b \<noteq> []);
          protocol = (case bound of None \<Rightarrow> [] | Some b \<Rightarrow> bind_Protocol b) in
      andE (checks
        [(\<not> envPattern variable \<or> 128 < len variable, field @ '': use valid environment names''),
         (\<not> gm_has (sv_Env effective) variable \<and> \<not> gm_has (sv_Secrets effective) variable \<and> bound = None,
          here @ '': the connection variable is not defined''),
         (profile = ''infisical-postgres-v1'' \<and> variable \<noteq> ''DB_CONNECTION_URI'', here),
         (profile \<notin> set database_profiles, here @ '': unsupported profile'')])
        (if \<not> managed then Inr ()
         else checks
           [(list_ex (\<lambda>g. gm_has (sv_Env effective) g \<or> gm_has (sv_Secrets effective) g \<or> gm_has (sv_Bindings s) g)
               (databaseClientGeneratedEnvironment profile), here @ '': already defined''),
            ((profile = ''infisical-postgres-v1'' \<or> profile = ''libpq-postgres-url-v1'') \<and> protocol \<noteq> ''postgres'',
             here @ '': this profile requires PostgreSQL''),
            ((profile = ''node-extra-ca-v1'' \<or> profile = ''glitchtip-valkey-v2.1-v1'') \<and> protocol \<noteq> ''redis'',
             here @ '': this profile requires Redis'')]))"

definition validateDatabaseClientProfiles :: "Application \<Rightarrow> string \<Rightarrow> Service \<Rightarrow> unit result" where
  "validateDatabaseClientProfiles a name s =
     (let field = ''services.'' @ name @ ''.database_client_profiles''; effective = EffectiveService a s in
      andE (checks [(16 < len (sv_DatabaseClientProfiles s), field @ '': at most 16 profiles'')])
      (andE (forE (\<lambda>(variable, profile). database_profile effective s field variable profile)
               (sv_DatabaseClientProfiles s))
        (checks [(1 < len (filter (\<lambda>(v, p). p = ''infisical-postgres-v1'') (sv_DatabaseClientProfiles s)),
                  field @ '': only one Infisical PostgreSQL profile'')])))"

section \<open>Managed and external databases\<close>

definition valid_login :: "string \<Rightarrow> bool" where
  "valid_login v \<longleftrightarrow> len v \<le> 64 \<and> \<not> ContainsAny v [NUL, CR, LF]"

definition valid_database :: "string \<Rightarrow> bool" where
  "valid_database v \<longleftrightarrow> len v \<le> 64 \<and> \<not> ContainsAny v (''/?#'' @ [CHR 0x5C, NUL, CR, LF])"

definition managed_default_user :: "Binding \<Rightarrow> string" where
  "managed_default_user b =
     (if bind_Endpoint b = ''postgresql'' then ''postgres''
      else if bind_Endpoint b = ''mysql'' then ''root''
      else if bind_Protocol b = ''oracle'' then ''APP''
      else if bind_Protocol b = ''redis'' then ''default''
      else ''app'')"

definition redis_index :: "Binding \<Rightarrow> bool" where
  "redis_index b =
     (case Atoi (bind_Database b) of
        None \<Rightarrow> False
      | Some i \<Rightarrow> 0 \<le> i \<and> i \<le> 15 \<and> Itoa i = bind_Database b)"

definition sslmode_supported :: "Binding \<Rightarrow> bool" where
  "sslmode_supported b =
     (if bind_SSLMode b = [] then True
      else if bind_SSLMode b = ''disable'' then bind_Protocol b = ''postgres'' \<or> bind_Protocol b = ''redis''
      else if bind_SSLMode b = ''require'' \<or> bind_SSLMode b = ''verify-ca'' then bind_Protocol b = ''postgres''
      else if bind_SSLMode b = ''verify-full'' then bind_Protocol b \<noteq> ''mysql''
      else False)"

definition ValidateManagedOptions :: "Binding \<Rightarrow> unit result" where
  "ValidateManagedOptions b =
     checks
       [(\<not> valid_login (bind_Username b) \<or> \<not> valid_database (bind_Database b), ''invalid database or username''),
        (case bind_Password b of None \<Rightarrow> False | Some r \<Rightarrow> \<not> SecretRef_Valid r, ''password must be a scoped secret reference''),
        (bind_Username b \<noteq> [] \<and> bind_Username b \<noteq> managed_default_user b \<and> bind_Password b = None,
         ''a custom username requires a scoped password reference''),
        (bind_Protocol b = ''postgres'' \<and> (bind_Endpoint b = ''pooled_read_write'' \<or> bind_Endpoint b = ''pooled_read_only'')
           \<and> (bind_Username b \<noteq> [] \<and> bind_Username b \<noteq> ''app'' \<or> bind_Database b \<noteq> [] \<and> bind_Database b \<noteq> ''app''),
         ''pooled endpoints support only the app login and database''),
        (bind_Protocol b = ''redis'' \<and> bind_Database b \<noteq> [] \<and> \<not> redis_index b,
         ''Redis database must be an index from 0 to 15''),
        (bind_Protocol b = ''redis'' \<and> bind_Database b \<noteq> [] \<and> bind_Endpoint b = ''cluster'' \<and> Atoi (bind_Database b) \<noteq> Some 0,
         ''Redis cluster supports only database 0''),
        (\<not> sslmode_supported b \<and> bind_Protocol b = ''mysql'', ''MySQL TLS must be configured in the client driver''),
        (\<not> sslmode_supported b, ''ssl_mode is not supported for this database protocol'')]"

definition validateExternalDatabaseBinding :: "Application \<Rightarrow> Service \<Rightarrow> Binding \<Rightarrow> unit result" where
  "validateExternalDatabaseBinding a s b =
     checks
       [(\<not> hexID (bind_ExternalDatabase b) \<or> bind_ExternalDatabaseRevision b < 1 \<or> bind_ManagedDatabase b \<noteq> []
          \<or> bind_Service b \<noteq> [] \<or> bind_Username b \<noteq> [] \<or> bind_Password b \<noteq> None \<or> bind_Database b \<noteq> []
          \<or> bind_Endpoint b \<noteq> [] \<or> bind_SSLMode b \<noteq> [] \<or> bind_ClusterAware b
          \<or> bind_Protocol b \<noteq> ''mysql'' \<and> bind_Protocol b \<noteq> ''postgres'',
         ''external database bindings''),
        (\<not> list_ex (\<lambda>n. gm_has (app_Networks a) n \<and> \<not> net_Internal (network_at a n)) (sv_networks s),
         ''external database bindings require a network with public egress'')]"

definition managed_binding :: "string \<Rightarrow> Binding \<Rightarrow> unit result" where
  "managed_binding field b =
     andE (checks
       [(\<not> hexID (bind_ManagedDatabase b) \<or> bind_Service b \<noteq> [], ''managed database bindings require a database ID''),
        (bind_Protocol b \<notin> set [''postgres'', ''redis'', ''mysql'', ''mongodb'', ''clickhouse'', ''oracle''],
         ''managed database protocol''),
        (bind_Endpoint b \<notin> set [''read_write'', ''read_only'', ''cluster'', ''pooled_read_write'', ''pooled_read_only'',
                                ''mysql'', ''postgresql''], ''choose a managed database endpoint''),
        (bind_Protocol b = ''postgres'' \<and> (bind_Endpoint b = ''cluster'' \<or> bind_Endpoint b = ''mysql'' \<or> bind_ClusterAware b)
         \<or> bind_Protocol b = ''redis'' \<and> (bind_Endpoint b \<noteq> ''read_write'' \<and> bind_Endpoint b \<noteq> ''cluster''
              \<or> (bind_Endpoint b = ''cluster'') \<noteq> bind_ClusterAware b), ''database endpoint does not match the protocol''),
        (bind_Protocol b = ''mysql'' \<and> (bind_ClusterAware b \<or> bind_Endpoint b \<noteq> ''read_write''
              \<and> bind_Endpoint b \<noteq> ''read_only'' \<and> bind_Endpoint b \<noteq> ''mysql''), ''MySQL bindings''),
        (bind_Protocol b = ''mongodb'' \<and> (bind_Endpoint b \<noteq> ''cluster'' \<or> \<not> bind_ClusterAware b), ''MongoDB bindings''),
        (bind_Protocol b = ''clickhouse'' \<and> (bind_Endpoint b \<noteq> ''read_write'' \<and> bind_Endpoint b \<noteq> ''cluster''
              \<or> (bind_Endpoint b = ''cluster'') \<noteq> bind_ClusterAware b), ''ClickHouse bindings''),
        (bind_Protocol b = ''oracle'' \<and> (bind_Endpoint b \<noteq> ''read_write'' \<or> bind_ClusterAware b), ''Oracle Free bindings'')])
       (in_field field (ValidateManagedOptions b))"

section \<open>Bindings to services of the application\<close>

definition service_binding :: "Application \<Rightarrow> string \<Rightarrow> string \<Rightarrow> Binding \<Rightarrow> unit result" where
  "service_binding a name field b =
     andE (checks
       [(bind_SSLMode b \<noteq> [], ''ssl_mode requires a managed database''),
        (bind_Endpoint b \<noteq> [] \<or> bind_ClusterAware b, ''endpoint and cluster_aware require a managed database''),
        (case gm_get (app_services a) (bind_Service b) of
           None \<Rightarrow> True
         | Some t \<Rightarrow> sv_Job t \<noteq> None \<or> sv_Port t = 0 \<or> \<not> AllowsPeer a name (bind_Service b),
         field @ '': target must be a reachable private service''),
        (\<not> valid_database (bind_Database b) \<or> \<not> valid_login (bind_Username b), field @ '': invalid database or username'')])
       (if bind_Protocol b = ''http'' then
          checks [(bind_Password b \<noteq> None \<or> bind_Username b \<noteq> [] \<or> bind_Database b \<noteq> [],
                   ''http bindings cannot contain database credentials'')]
        else if bind_Protocol b \<in> set [''postgres'', ''mysql'', ''redis'', ''amqp''] then
          checks
            [(case bind_Password b of None \<Rightarrow> True | Some r \<Rightarrow> \<not> SecretRef_Valid r,
              field @ '': a scoped password reference is required''),
             (bind_Protocol b \<noteq> ''redis'' \<and> (bind_Database b = [] \<or> bind_Username b = []),
              ''database bindings require database and username''),
             (bind_Protocol b = ''redis'' \<and> bind_Database b \<noteq> []
                \<and> (case Atoi (bind_Database b) of None \<Rightarrow> True | Some n \<Rightarrow> n < 0 \<or> 15 < n),
              ''redis binding database must be 0-15'')]
        else Inl (Err (field @ ''.protocol'')))"

definition validateBinding :: "Application \<Rightarrow> string \<Rightarrow> Service \<Rightarrow> string \<Rightarrow> Binding \<Rightarrow> unit result" where
  "validateBinding a name s key b =
     (let table = ''services.'' @ name @ ''.bindings''; field = table @ ''.'' @ key in
      andE (checks
        [(\<not> envPattern key \<or> 128 < len key, table @ '': use valid environment names''),
         (gm_has (sv_Env s) key, field @ '': environment name is already defined''),
         (gm_has (sv_Secrets s) key, field @ '': secret environment name is already defined''),
         (gm_has (sv_Secrets s) (BindingSecretKey key), table @ '': reserved secret key collision'')])
        (if bind_ExternalDatabase b \<noteq> [] then validateExternalDatabaseBinding a s b
         else if bind_ExternalDatabaseRevision b \<noteq> 0
         then Inl (Err ''external_database_revision requires an external database'')
         else if bind_ManagedDatabase b \<noteq> [] then managed_binding field b
         else service_binding a name field b))"

definition validateServiceBindings :: "Application \<Rightarrow> string \<Rightarrow> Service \<Rightarrow> unit result" where
  "validateServiceBindings a name s =
     andE (validateDatabaseClientProfiles a name s)
     (andE (checks [(16 < len (sv_Bindings s), ''services.'' @ name @ ''.bindings: at most 16 bindings'')])
       (forE (\<lambda>(key, b). validateBinding a name s key b) (sv_Bindings s)))"

definition validateBindings :: "Application \<Rightarrow> unit result" where
  "validateBindings a = forE (\<lambda>(name, s). validateServiceBindings a name s) (app_services a)"

section \<open>Facts\<close>

text \<open>A binding to a service reaches it: the target is in the application and allows the source.\<close>

lemma validateBinding_reachable:
  assumes "validateBinding a name s key b = Inr u" and "bind_Service b \<noteq> []"
    and "bind_ExternalDatabase b = []" and "bind_ManagedDatabase b = []"
  shows "AllowsPeer a name (bind_Service b) \<and> sv_Port (service_at a (bind_Service b)) \<noteq> 0"
  using assms
  by (auto simp: validateBinding_def Let_def service_binding_def service_at_def result_iff
        split: option.splits if_splits)

lemma validateBinding_names:
  assumes "validateBinding a name s key b = Inr u"
  shows "\<not> gm_has (sv_Env s) key \<and> \<not> gm_has (sv_Secrets s) key \<and> \<not> gm_has (sv_Secrets s) (BindingSecretKey key)"
  using assms by (auto simp: validateBinding_def Let_def result_iff)

end
