(* ===== verification/Spec_Order.thy ===== *)
theory Spec_Order
  imports Spec_Types
begin

text \<open>
  \<open>Order\<close> (spec.go): the dependency-first order of an application's services, by a
  depth-first visit that marks a name 1 while its dependencies are being visited and 2 once
  it has been placed. The recursion spends fuel; \<^theory_text>\<open>Order\<close> gives it one unit more than the
  graph has names, which the section on fuel proves to be enough.
\<close>

section \<open>Definitions\<close>

definition deps_of :: "Application \<Rightarrow> string \<Rightarrow> string list" where
  "deps_of a n = sv_DependsOn (service_at a n)"

definition mark :: "nat gomap \<Rightarrow> string \<Rightarrow> nat" where
  "mark state n = (case gm_get state n of None \<Rightarrow> 0 | Some k \<Rightarrow> k)"

type_synonym visit_state = "nat gomap \<times> string list"

fun visit :: "(string \<Rightarrow> string list) \<Rightarrow> nat \<Rightarrow> visit_state \<Rightarrow> string \<Rightarrow> visit_state result option"
  and visit_all :: "(string \<Rightarrow> string list) \<Rightarrow> nat \<Rightarrow> visit_state \<Rightarrow> string list \<Rightarrow> visit_state result option"
where
  "visit deps 0 s name = None"
| "visit deps (Suc fuel) (state, order) name =
     (if mark state name = 1 then Some (Inl (Err (''services.'' @ name @ ''.depends_on'')))
      else if mark state name = 2 then Some (Inr (state, order))
      else
        (case visit_all deps fuel (gm_set name 1 state, order) (deps name) of
           None \<Rightarrow> None
         | Some (Inl e) \<Rightarrow> Some (Inl e)
         | Some (Inr (state', order')) \<Rightarrow> Some (Inr (gm_set name 2 state', order' @ [name]))))"
| "visit_all deps fuel s [] = Some (Inr s)"
| "visit_all deps fuel s (name # names) =
     (case visit deps fuel s name of
        None \<Rightarrow> None
      | Some (Inl e) \<Rightarrow> Some (Inl e)
      | Some (Inr t) \<Rightarrow> visit_all deps fuel t names)"

definition graph_names :: "Application \<Rightarrow> string list" where
  "graph_names a = remdups (Names a @ concat (map (\<lambda>(n, s). sv_DependsOn s) (app_services a)))"

definition order_fuel :: "Application \<Rightarrow> nat" where
  "order_fuel a = Suc (length (graph_names a))"

definition order_run :: "Application \<Rightarrow> visit_state result option" where
  "order_run a = visit_all (deps_of a) (order_fuel a) ([], []) (Names a)"

definition Order :: "Application \<Rightarrow> string list result" where
  "Order a =
     (case order_run a of
        Some (Inr (state, order)) \<Rightarrow> Inr order
      | Some (Inl e) \<Rightarrow> Inl e
      | None \<Rightarrow> Inl (Err ''out of fuel''))"

text \<open>Only nodes are ever placed.\<close>

lemma visit_nodes:
  "visit deps fuel s name = Some (Inr t) \<Longrightarrow> \<forall>n \<in> nodes. set (deps n) \<subseteq> nodes \<Longrightarrow> name \<in> nodes \<Longrightarrow> set (snd s) \<subseteq> nodes
     \<Longrightarrow> set (snd t) \<subseteq> nodes"
  "visit_all deps fuel s names = Some (Inr t) \<Longrightarrow> \<forall>n \<in> nodes. set (deps n) \<subseteq> nodes \<Longrightarrow> set names \<subseteq> nodes \<Longrightarrow> set (snd s) \<subseteq> nodes
     \<Longrightarrow> set (snd t) \<subseteq> nodes"
proof (induction deps fuel s name and deps fuel s names arbitrary: t and t rule: visit_visit_all.induct)
  case (2 deps fuel state order name)
  show ?case
  proof (cases "mark state name = 2")
    case False
    with "2.prems"(1) have w: "mark state name \<noteq> 1" by (auto split: if_splits)
    with False "2.prems"(1) obtain state' order' where
      run: "visit_all deps fuel (gm_set name 1 state, order) (deps name) = Some (Inr (state', order'))"
      and t: "t = (gm_set name 2 state', order' @ [name])"
      by (auto split: if_splits option.splits sum.splits)
    have "set order' \<subseteq> nodes"
      using "2.IH" [OF w False run] "2.prems"(2-4) by simp
    then show ?thesis using "2.prems"(3) by (simp add: t)
  qed (use "2.prems" in simp)
next
  case (4 deps fuel s name names)
  then show ?case by (auto split: option.splits sum.splits)
qed auto

section \<open>The search over any finite graph\<close>

text \<open>
  What the search relies on of the graph it walks: it has finitely many nodes and an edge
  never leaves them.
\<close>

locale dependency_graph =
  fixes deps :: "string \<Rightarrow> string list" and nodes :: "string set"
  assumes finite_nodes: "finite nodes"
    and closed: "n \<in> nodes \<Longrightarrow> set (deps n) \<subseteq> nodes"
begin

definition edges :: "(string \<times> string) set" where
  "edges = {(n, m). m \<in> set (deps n)}"

definition topo :: "string list \<Rightarrow> bool" where
  "topo order \<longleftrightarrow> (\<forall>xs n ys. order = xs @ n # ys \<longrightarrow> set (deps n) \<subseteq> set xs)"

definition inv :: "visit_state \<Rightarrow> bool" where
  "inv s \<longleftrightarrow> (\<forall>n. mark (fst s) n = 2 \<longleftrightarrow> n \<in> set (snd s)) \<and> distinct (snd s) \<and> topo (snd s)"

definition grey :: "visit_state \<Rightarrow> string set" where
  "grey s = {n. mark (fst s) n = 1}"

definition white :: "visit_state \<Rightarrow> string set" where
  "white s = {n \<in> nodes. mark (fst s) n \<noteq> 1 \<and> mark (fst s) n \<noteq> 2}"

definition extends :: "visit_state \<Rightarrow> visit_state \<Rightarrow> bool" where
  "extends s t \<longleftrightarrow> inv t \<and> grey t = grey s \<and> prefix (snd s) (snd t) \<and> white t \<subseteq> white s"

lemma mark_set [simp]: "mark (gm_set n k st) m = (if m = n then k else mark st m)"
  by (simp add: mark_def)

lemma topo_snoc: "topo order \<Longrightarrow> set (deps n) \<subseteq> set order \<Longrightarrow> topo (order @ [n])"
  unfolding topo_def by (auto simp: append_eq_append_conv2 append_eq_Cons_conv Cons_eq_append_conv)

lemma extends_refl: "inv s \<Longrightarrow> extends s s"
  by (simp add: extends_def)

lemma extends_trans: "extends s t \<Longrightarrow> extends t u \<Longrightarrow> extends s u"
  by (auto simp: extends_def dest: prefix_order.trans)

text \<open>Placing a name after its dependencies have been visited.\<close>

lemma place_extends:
  assumes "inv (state, order)" and "mark state name \<noteq> 1" and "mark state name \<noteq> 2"
    and ext: "extends (gm_set name 1 state, order) (state', order')"
    and deps: "set (deps name) \<subseteq> set order'"
  shows "extends (state, order) (gm_set name 2 state', order' @ [name])"
proof -
  from ext have inv': "inv (state', order')" and grey': "grey (state', order') = grey (gm_set name 1 state, order)"
    and pre: "prefix order order'" and wh: "white (state', order') \<subseteq> white (gm_set name 1 state, order)"
    by (auto simp: extends_def)
  from grey' have g: "mark state' n = 1 \<longleftrightarrow> (n = name \<or> mark state n = 1)" for n
    by (auto simp: grey_def set_eq_iff split: if_splits)
  then have "mark state' name \<noteq> 2" by (metis numeral_eq_one_iff semiring_norm(85))
  with inv' have "name \<notin> set order'" by (auto simp: inv_def)
  with inv' deps have "inv (gm_set name 2 state', order' @ [name])"
    by (auto simp: inv_def intro: topo_snoc split: if_splits)
  moreover have "grey (gm_set name 2 state', order' @ [name]) = grey (state, order)"
    using g assms(2) by (auto simp: grey_def)
  moreover have "white (gm_set name 2 state', order' @ [name]) \<subseteq> white (state, order)"
    using wh by (auto simp: white_def split: if_splits)
  ultimately show ?thesis using pre by (auto simp: extends_def intro: prefix_prefix)
qed

text \<open>A visit that succeeds extends the order by the names it reaches, dependencies first.\<close>

lemma inv_grey [simp]: "mark state n \<noteq> 2 \<Longrightarrow> inv (gm_set n 1 state, order) \<longleftrightarrow> inv (state, order)"
  by (auto simp: inv_def split: if_splits)

lemma visit_all_extends:
  assumes "\<And>s name t. visit deps fuel s name = Some (Inr t) \<Longrightarrow> inv s \<Longrightarrow> extends s t \<and> name \<in> set (snd t)"
    and "visit_all deps fuel s names = Some (Inr t)" and "inv s"
  shows "extends s t \<and> set names \<subseteq> set (snd t)"
  using assms(2,3)
proof (induction names arbitrary: s)
  case Nil
  then show ?case by (auto intro: extends_refl)
next
  case (Cons name names)
  then obtain u where u: "visit deps fuel s name = Some (Inr u)" "visit_all deps fuel u names = Some (Inr t)"
    by (auto split: option.splits sum.splits)
  have su: "extends s u" and name: "name \<in> set (snd u)"
    using assms(1) [OF u(1) Cons.prems(2)] by auto
  then have "inv u" by (simp add: extends_def)
  from Cons.IH [OF u(2) this] have ut: "extends u t" and "set names \<subseteq> set (snd t)" by auto
  moreover have "name \<in> set (snd t)"
    using ut name by (auto simp: extends_def dest: set_mono_prefix)
  ultimately show ?case using extends_trans [OF su ut] by auto
qed

lemma visit_extends:
  "visit deps fuel s name = Some (Inr t) \<Longrightarrow> inv s \<Longrightarrow> extends s t \<and> name \<in> set (snd t)"
proof (induction fuel arbitrary: s name t)
  case (Suc fuel)
  obtain state order where s: "s = (state, order)" by (cases s)
  show ?case
  proof (cases "mark state name = 2")
    case True
    then have "t = s" using Suc.prems(1) by (simp add: s)
    moreover have "name \<in> set (snd s)" using True Suc.prems(2) by (simp add: s inv_def)
    ultimately show ?thesis using extends_refl [OF Suc.prems(2)] by simp
  next
    case False
    with Suc.prems have w: "mark state name \<noteq> 1" by (auto simp: s split: if_splits)
    with False Suc.prems(1) obtain state' order' where
      run: "visit_all deps fuel (gm_set name 1 state, order) (deps name) = Some (Inr (state', order'))"
      and t: "t = (gm_set name 2 state', order' @ [name])"
      by (auto simp: s split: if_splits option.splits sum.splits)
    have "inv (gm_set name 1 state, order)" using iffD2 [OF inv_grey [OF False]] Suc.prems(2) s by blast
    from visit_all_extends [OF Suc.IH run this]
    have ext: "extends (gm_set name 1 state, order) (state', order')" and d: "set (deps name) \<subseteq> set order'"
      by auto
    from place_extends [OF _ w False ext d] Suc.prems(2) show ?thesis by (simp add: s t)
  qed
qed simp

text \<open>A visit that fails has followed a dependency back to a name it is still visiting.\<close>

lemma visit_all_cycle:
  assumes IH: "\<And>s name e. visit deps fuel s name = Some (Inl e) \<Longrightarrow> inv s \<Longrightarrow>
      (\<And>g. g \<in> grey s \<Longrightarrow> (g, name) \<in> edges\<^sup>+) \<Longrightarrow> \<exists>n. (n, n) \<in> edges\<^sup>+"
    and "visit_all deps fuel s names = Some (Inl e)" and "inv s"
    and "\<And>g name. g \<in> grey s \<Longrightarrow> name \<in> set names \<Longrightarrow> (g, name) \<in> edges\<^sup>+"
  shows "\<exists>n. (n, n) \<in> edges\<^sup>+"
  using assms(2-)
proof (induction names arbitrary: s)
  case (Cons name names)
  show ?case
  proof (cases "visit deps fuel s name")
    case None
    with Cons.prems show ?thesis by simp
  next
    case (Some r)
    show ?thesis
    proof (cases r)
      case (Inl e')
      with Some Cons.prems show ?thesis by (intro IH [of s name e']) auto
    next
      case (Inr u)
      with Some Cons.prems have "visit_all deps fuel u names = Some (Inl e)" by simp
      moreover have "extends s u" using visit_extends Some Inr Cons.prems(2) by auto
      ultimately show ?thesis
        using Cons.prems(3) by (intro Cons.IH [of u]) (auto simp: extends_def)
    qed
  qed
qed simp

lemma visit_cycle:
  "visit deps fuel s name = Some (Inl e) \<Longrightarrow> inv s \<Longrightarrow>
     (\<And>g. g \<in> grey s \<Longrightarrow> (g, name) \<in> edges\<^sup>+) \<Longrightarrow> \<exists>n. (n, n) \<in> edges\<^sup>+"
proof (induction fuel arbitrary: s name e)
  case (Suc fuel)
  obtain state order where s: "s = (state, order)" by (cases s)
  show ?case
  proof (cases "mark state name = 1")
    case True
    with Suc.prems(3) [of name] show ?thesis by (auto simp: s grey_def)
  next
    case False
    with Suc.prems(1) have w: "mark state name \<noteq> 2"
      and run: "visit_all deps fuel (gm_set name 1 state, order) (deps name) = Some (Inl e)"
      by (auto simp: s split: if_splits option.splits sum.splits)
    have inv: "inv (gm_set name 1 state, order)" using iffD2 [OF inv_grey [OF w]] Suc.prems(2) s by blast
    have step: "(name, m) \<in> edges" if "m \<in> set (deps name)" for m
      using that by (simp add: edges_def)
    have path: "(g, m) \<in> edges\<^sup>+" if "g \<in> grey (gm_set name 1 state, order)" and "m \<in> set (deps name)" for g m
    proof (cases "g = name")
      case True
      with step [OF that(2)] show ?thesis by auto
    next
      case False
      with that(1) have "g \<in> grey s" by (simp add: grey_def s)
      from Suc.prems(3) [OF this] step [OF that(2)] show ?thesis by (rule trancl_into_trancl)
    qed
    show ?thesis
    proof (rule visit_all_cycle [OF _ run inv])
      show "\<exists>n. (n, n) \<in> edges\<^sup>+"
        if "visit deps fuel s' m = Some (Inl e')" "inv s'" "\<And>g. g \<in> grey s' \<Longrightarrow> (g, m) \<in> edges\<^sup>+"
        for s' m e'
        using that by (rule Suc.IH)
    qed (rule path)
  qed
qed simp

text \<open>An order whose every name comes after its dependencies holds no cycle.\<close>

lemma topo_acyclic:
  assumes "topo order" and "distinct order" and "\<And>n m. (n, m) \<in> edges \<Longrightarrow> n \<in> set order"
  shows "acyclic edges"
proof -
  define pos where "pos n = length (takeWhile (\<lambda>m. m \<noteq> n) order)" for n
  have "pos m < pos n" if "(n, m) \<in> edges" for n m
  proof -
    from assms(3) [OF that] obtain xs ys where split: "order = xs @ n # ys"
      by (auto dest: split_list)
    with assms(1) that have "m \<in> set xs" by (auto simp: topo_def edges_def)
    then obtain us vs where xs: "xs = us @ m # vs" "m \<notin> set us" by (auto dest: split_list_first)
    have "n \<notin> set xs" using assms(2) split by auto
    then have n: "takeWhile (\<lambda>k. k \<noteq> n) order = xs" unfolding split by (subst takeWhile_append2) auto
    have "takeWhile (\<lambda>k. k \<noteq> m) order = us"
      using xs(2) unfolding split xs(1) append.assoc by (subst takeWhile_append2) auto
    with n xs show ?thesis by (simp add: pos_def)
  qed
  then have "edges\<inverse> \<subseteq> measure pos" by auto
  then have "wf (edges\<inverse>)" by (rule wf_subset [OF wf_measure])
  then show ?thesis by (metis acyclic_converse wf_acyclic)
qed

subsection \<open>Enough fuel\<close>

lemma finite_white: "finite (white s)"
  using finite_nodes by (simp add: white_def)

lemma visit_all_fuel:
  assumes IH: "\<And>s name. card (white s) < fuel \<Longrightarrow> inv s \<Longrightarrow> name \<in> nodes \<Longrightarrow> visit deps fuel s name \<noteq> None"
    and "card (white s) < fuel" and "inv s" and "set names \<subseteq> nodes"
  shows "visit_all deps fuel s names \<noteq> None"
  using assms(2-)
proof (induction names arbitrary: s)
  case (Cons name names)
  then obtain r where r: "visit deps fuel s name = Some r" using IH by (metis insert_subset list.set(2) not_None_eq)
  show ?case
  proof (cases r)
    case (Inr u)
    with r have ext: "extends s u" using visit_extends Cons.prems(2) by blast
    then have "card (white u) \<le> card (white s)"
      by (auto simp: extends_def intro: card_mono finite_white)
    with Cons.prems ext Cons.IH [of u] show ?thesis by (simp add: r Inr extends_def)
  qed (simp add: r)
qed simp

lemma visit_fuel:
  "card (white s) < fuel \<Longrightarrow> inv s \<Longrightarrow> name \<in> nodes \<Longrightarrow> visit deps fuel s name \<noteq> None"
proof (induction fuel arbitrary: s name)
  case (Suc fuel)
  obtain state order where s: "s = (state, order)" by (cases s)
  show ?case
  proof (cases "mark state name = 1 \<or> mark state name = 2")
    case True
    then show ?thesis by (auto simp: s)
  next
    case False
    let ?t = "(gm_set name 1 state, order)"
    have "white ?t = white s - {name}" by (auto simp: white_def s)
    moreover have "name \<in> white s" using False Suc.prems(3) by (simp add: white_def s)
    ultimately have "white ?t \<subset> white s" by auto
    then have "card (white ?t) < card (white s)" by (rule psubset_card_mono [OF finite_white])
    then have "card (white ?t) < fuel" using Suc.prems(1) by simp
    moreover have "inv ?t" using iffD2 [OF inv_grey] False Suc.prems(2) s by blast
    ultimately have "visit_all deps fuel ?t (deps name) \<noteq> None"
      using visit_all_fuel [OF Suc.IH] closed [OF Suc.prems(3)] by blast
    then show ?thesis by (auto simp: s split: option.splits sum.splits)
  qed
qed simp

lemma inv_start: "inv ([], [])"
  by (simp add: inv_def topo_def mark_def)

lemma run_fuel:
  assumes "card nodes < fuel" and "set names \<subseteq> nodes"
  shows "visit_all deps fuel ([], []) names \<noteq> None"
proof -
  have "white ([], []) = nodes" by (auto simp: white_def mark_def)
  with assms show ?thesis by (intro visit_all_fuel visit_fuel inv_start) simp_all
qed

lemma run_success:
  assumes "visit_all deps fuel ([], []) names = Some (Inr (state, order))"
  shows "distinct order" and "topo order" and "set names \<subseteq> set order"
  using visit_all_extends [OF visit_extends assms inv_start] by (auto simp: extends_def inv_def)

lemma run_failure:
  assumes "visit_all deps fuel ([], []) names = Some (Inl e)"
  shows "\<not> acyclic edges"
proof -
  have "grey ([], []) = {}" by (simp add: grey_def mark_def)
  with visit_all_cycle [OF visit_cycle assms inv_start] show ?thesis by (auto simp: acyclic_def)
qed

end

section \<open>The graph of an application\<close>

definition dep_edges :: "Application \<Rightarrow> (string \<times> string) set" where
  "dep_edges a = {(n, m). m \<in> set (deps_of a n)}"

lemma deps_of_undeclared: "n \<notin> set (Names a) \<Longrightarrow> deps_of a n = []"
  by (simp add: deps_of_def service_at_def dom_def zero_Service_def)

lemma deps_of_graph_names: "set (deps_of a n) \<subseteq> set (graph_names a)"
proof (cases "gm_get (app_services a) n")
  case (Some s)
  then have "(n, s) \<in> set (app_services a)" by (rule map_of_SomeD)
  then show ?thesis using Some by (force simp: deps_of_def service_at_def graph_names_def)
qed (simp add: deps_of_def service_at_def zero_Service_def)

interpretation app_graph: dependency_graph "deps_of a" "set (graph_names a)" for a
  by unfold_locales (auto dest: subsetD [OF deps_of_graph_names])

lemma app_graph_edges: "app_graph.edges a = dep_edges a"
  by (simp add: app_graph.edges_def dep_edges_def)

lemma order_run_Some: "order_run a \<noteq> None"
proof -
  have "card (set (graph_names a)) < order_fuel a"
    using card_length [of "graph_names a"] by (simp only: order_fuel_def less_Suc_eq_le)
  then show ?thesis
    unfolding order_run_def by (rule app_graph.run_fuel) (auto simp: graph_names_def)
qed

lemma Order_Inr:
  "Order a = Inr order \<longleftrightarrow> (\<exists>state. order_run a = Some (Inr (state, order)))"
  using order_run_Some [of a] by (auto simp: Order_def split: option.splits sum.splits)

lemma Order_Inl: "Order a = Inl e \<longleftrightarrow> order_run a = Some (Inl e)"
  using order_run_Some [of a] by (auto simp: Order_def split: option.splits sum.splits)

lemma Order_success:
  assumes "Order a = Inr order"
  shows "distinct order" and "set (Names a) \<subseteq> set order"
    and "order = xs @ n # ys \<Longrightarrow> set (deps_of a n) \<subseteq> set xs"
proof -
  obtain state where "visit_all (deps_of a) (order_fuel a) ([], []) (Names a) = Some (Inr (state, order))"
    using assms unfolding Order_Inr order_run_def by blast
  note run = app_graph.run_success [OF this]
  show "distinct order" "set (Names a) \<subseteq> set order" by (rule run(1), rule run(3))
  show "order = xs @ n # ys \<Longrightarrow> set (deps_of a n) \<subseteq> set xs"
    using run(2) by (simp only: app_graph.topo_def)
qed

lemma Order_acyclic: "is_ok (Order a) \<longleftrightarrow> acyclic (dep_edges a)"
proof (cases "Order a")
  case (Inl e)
  then have "\<not> acyclic (dep_edges a)"
    using app_graph.run_failure unfolding Order_Inl order_run_def app_graph_edges by blast
  with Inl show ?thesis by (simp add: is_ok_def)
next
  case (Inr order)
  then obtain state where run: "visit_all (deps_of a) (order_fuel a) ([], []) (Names a) = Some (Inr (state, order))"
    unfolding Order_Inr order_run_def by blast
  have "n \<in> set order" if "(n, m) \<in> app_graph.edges a" for n m
  proof -
    from that have "deps_of a n \<noteq> []" by (auto simp: app_graph.edges_def)
    then have "n \<in> set (Names a)" using deps_of_undeclared by blast
    then show ?thesis using app_graph.run_success(3) [OF run] by (rule subsetD [rotated])
  qed
  with app_graph.topo_acyclic [OF app_graph.run_success(2,1) [OF run]]
  have "acyclic (dep_edges a)" by (simp add: app_graph_edges)
  with Inr show ?thesis by (simp add: is_ok_def)
qed

lemma graph_names_declared:
  assumes "gm_wf (app_services a)" and "\<And>n. gm_has (app_services a) n \<Longrightarrow> set (deps_of a n) \<subseteq> set (Names a)"
  shows "set (graph_names a) \<subseteq> set (Names a)"
proof -
  have "set (sv_DependsOn s) \<subseteq> set (Names a)" if "(n, s) \<in> set (app_services a)" for n s
    using assms(2) [of n] that by (simp add: gm_get_in [OF assms(1), symmetric] gm_has_def deps_of_def service_at_def del: set_Names)
  then show ?thesis by (fastforce simp: graph_names_def simp del: set_Names)
qed

lemma Order_declared:
  assumes "Order a = Inr order" and "gm_wf (app_services a)"
    and "\<And>n. gm_has (app_services a) n \<Longrightarrow> set (deps_of a n) \<subseteq> set (Names a)"
  shows "set order = set (Names a)"
proof -
  obtain state where "visit_all (deps_of a) (order_fuel a) ([], []) (Names a) = Some (Inr (state, order))"
    using assms(1) unfolding Order_Inr order_run_def by blast
  from visit_nodes(2) [OF this, of "set (graph_names a)"] have "set order \<subseteq> set (graph_names a)"
    using deps_of_graph_names by (simp add: graph_names_def)
  with graph_names_declared [OF assms(2,3)] Order_success(2) [OF assms(1)] show ?thesis by blast
qed

end
