(* ===== verification/Spec_Normalize.thy ===== *)
theory Spec_Normalize
  imports Spec_Json Spec_Bindings Spec_Order
begin

text \<open>
  \<open>Normalize\<close> (spec.go), the one gate through which every stored revision passes: the checks
  on the application's own tables, then each service in name order, then storage, bindings,
  network access, HTTP endpoints, readiness, public TCP listeners and the dependency order.
  The marshalling copy with which the code starts is the identity on these values (a nil and
  an empty table are one value); what remains of it is the bound on the encoded size.
\<close>

section \<open>The application's own tables\<close>

definition MaxBytes :: int where "MaxBytes = 262144"

definition with_default_network :: "Network gomap \<Rightarrow> Network gomap" where
  "with_default_network ns =
     (if gm_has ns ''default'' then ns
      else gm_set ''default'' \<lparr>net_Internal = False, net_VirtualNetwork = [], net_Segment = []\<rparr> ns)"

definition valid_network :: "string \<Rightarrow> Network \<Rightarrow> unit result" where
  "valid_network n w =
     checks
       [(\<not> namePattern n, ''networks.'' @ n @ '': invalid network name''),
        ((net_VirtualNetwork w = []) \<noteq> (net_Segment w = [])
          \<or> net_VirtualNetwork w \<noteq> [] \<and> (\<not> namePattern (net_VirtualNetwork w) \<or> \<not> namePattern (net_Segment w)),
         ''networks.'' @ n @ '': virtual_network and segment'')]"

definition mixes_actions :: "Application \<Rightarrow> bool" where
  "mixes_actions a \<longleftrightarrow>
     list_ex (\<lambda>(n, s). sv_Actions s \<noteq> None) (app_services a)
     \<and> list_ex (\<lambda>(n, s). sv_Actions s = None) (app_services a)"

definition normalize_header :: "'q externals \<Rightarrow> Application \<Rightarrow> Application result" where
  "normalize_header ex a0 =
     (let a = a0\<lparr>app_SchemaVersion := or_default (app_SchemaVersion a0) 1\<rparr> in
      andE (checks
        [(case app_Recovery a of None \<Rightarrow> False
          | Some r \<Rightarrow> rec_OnFailure r \<noteq> ''safe'' \<and> rec_OnFailure r \<noteq> ''disabled'', ''recovery.on_failure''),
         (app_SchemaVersion a \<noteq> 1, ''schema_version''),
         (\<not> namePattern (app_Name a), ''name''),
         (app_Services a = None \<or> 20 < len (app_services a), ''services''),
         (mixes_actions a, ''Managed Actions pools need a dedicated application'')])
      (andE (ValidateDomains ex a)
      (andE (checks [(16 < len (app_Networks a), ''networks: at most 16 networks'')])
        (let a' = a\<lparr>app_Networks := with_default_network (app_Networks a)\<rparr> in
         andE (checks [(16 < len (app_Networks a'), ''networks: at most 16 networks including default'')])
         (andE (forE (\<lambda>(n, w). valid_network n w) (app_Networks a'))
         (andE (checks [(32 < len (app_Secrets a'), ''secrets: at most 32 application secret references'')])
         (andE (forE (\<lambda>(k, r). checks
            [(\<not> envPattern k \<or> 128 < len k \<or> \<not> SecretRef_Valid r, ''secrets''),
             (gm_has (app_Env a') k, ''env.'' @ k)]) (app_Secrets a'))
         (andE (validateEnvironment ''env'' (app_Env a'))
           (Inr a')))))))))"

section \<open>One service\<close>

text \<open>The workload mode and the bindings to operator-owned resources, on the inherited settings.\<close>

definition service_mode :: "'q externals \<Rightarrow> Application \<Rightarrow> Service \<Rightarrow> (Service \<times> Service) result" where
  "service_mode ex a s0 =
     bindE (normalizeSandboxSession a s0) (\<lambda>s1.
     bindE (normalizeActions ex s1) (\<lambda>s.
     andE (validateCertificateMounts ex s)
       (let runtime = EffectiveService a s in
        andE (validateAWSIdentity runtime)
        (andE (validateContainerDaemon runtime)
        (andE (validateRuntimeProfile runtime)
        (andE (validateNodeProfile runtime)
        (andE (validateRuntimeService ex s)
          (Inr (s, runtime)))))))))"

definition valid_healthcheck :: "Service \<Rightarrow> bool" where
  "valid_healthcheck s \<longleftrightarrow>
     sv_Port s \<noteq> 0 \<and> len (sv_Healthcheck s) \<le> 2048 \<and> HasPrefix (sv_Healthcheck s) ''/''
     \<and> \<not> HasPrefix (sv_Healthcheck s) ''//''
     \<and> (case ParseRequestURI (sv_Healthcheck s) of
           None \<Rightarrow> False | Some u \<Rightarrow> url_Host u = [] \<and> url_Fragment u = [])"

definition regular_service :: "Service \<Rightarrow> bool" where
  "regular_service s \<longleftrightarrow> sv_Job s = None \<and> sv_Session s = None \<and> sv_Actions s = None \<and> sv_Serverless s = None"

text \<open>Name, image, ports, size, resources, replicas, health check, timeouts.\<close>

definition service_basics :: "'q externals \<Rightarrow> string \<Rightarrow> Service \<Rightarrow> Service result" where
  "service_basics ex name s0 =
     andE (checks [(\<not> namePattern name, ''invalid service name'')])
     (andE (in_path ''image'' (validateImage (sv_Image s0)))
      (let s1 = (if sv_Size s0 = [] then s0\<lparr>sv_Size := ''small''\<rparr> else s0) in
       andE (checks
         [(sv_Port s1 < 0 \<or> 65535 < sv_Port s1, ''port''),
          (sv_Public s1 \<and> sv_Port s1 = 0, ''public''),
          (map_of Profiles (sv_Size s1) = None, ''size'')])
       (bindE (normalizeResources ex s1) (\<lambda>s2.
        let s = (if sv_Replicas s2 = 0 then s2\<lparr>sv_Replicas := 1\<rparr> else s2) in
        andE (checks
          [(sv_Suspended s \<and> (case sv_Job s of None \<Rightarrow> False
              | Some j \<Rightarrow> job_Schedule j = None \<and> job_Invocation j = None), ''deployment jobs cannot be stopped or resumed''),
           (sv_Replicas s < 1 \<or> 20 < sv_Replicas s, ''replicas''),
           (sv_Healthcheck s \<noteq> [] \<and> \<not> valid_healthcheck s, ''healthcheck''),
           (sv_StartupTimeoutSeconds s \<noteq> 0 \<and> (sv_StartupTimeoutSeconds s < 10 \<or> 900 < sv_StartupTimeoutSeconds s),
            ''startup_timeout_seconds''),
           (sv_StartupTimeoutSeconds s \<noteq> 0 \<and> \<not> regular_service s, ''startup_timeout_seconds: use only for a regular service''),
           (sv_UpdateStrategy s \<noteq> [] \<and> sv_UpdateStrategy s \<noteq> ''rolling'' \<and> sv_UpdateStrategy s \<noteq> ''recreate'',
            ''update_strategy'')])
          (Inr s)))))"

text \<open>Environment, secrets and command.\<close>

definition service_settings :: "Service \<Rightarrow> Service \<Rightarrow> unit result" where
  "service_settings runtime s =
     andE (validateEnvironment ''env'' (sv_Env runtime))
     (andE (checks [(32 < len (sv_Secrets runtime), ''secrets: at most 32 references'')])
     (andE (forE (\<lambda>(k, r). checks
        [(\<not> envPattern k \<or> 128 < len k \<or> \<not> SecretRef_Valid r, ''secrets''),
         (gm_has (sv_Env s) k, ''an environment variable cannot also be a secret reference'')]) (sv_Secrets s))
       (ValidateCommand (sv_Command s) (sv_Args s))))"

definition dependency_target :: "Application \<Rightarrow> string \<Rightarrow> string \<Rightarrow> bool" where
  "dependency_target a name n =
     (case gm_get (app_services a) n of
        None \<Rightarrow> False
      | Some d \<Rightarrow> n \<noteq> name \<and> sv_Session d = None
          \<and> (case sv_Job d of None \<Rightarrow> True | Some j \<Rightarrow> job_Schedule j = None \<and> job_Invocation j = None))"

text \<open>Networks, dependencies and approved private destinations, each sorted.\<close>

definition member_networks :: "Service \<Rightarrow> string list option result" where
  "member_networks s =
     (if sv_Session s \<noteq> None then Inr None
      else case sv_Networks s of
          None \<Rightarrow> Inr (Some [''default''])
        | Some ns \<Rightarrow> if ns = [] then Inl (Err ''networks: an explicit empty list is unsupported'') else Inr (Some ns))"

definition service_members :: "Application \<Rightarrow> string \<Rightarrow> Service \<Rightarrow> Service result" where
  "service_members a name s =
     bindE (member_networks s) (\<lambda>networks.
     andE (validateMembers (case networks of None \<Rightarrow> [] | Some ns \<Rightarrow> ns) ''networks'' (gm_has (app_Networks a)))
     (andE (validateMembers (sv_DependsOn s) ''depends_on'' (dependency_target a name))
     (andE (checks [(16 < len (sv_PrivateEgress s), ''private_egress'')])
     (andE (validateMembers (sv_PrivateEgress s) ''private_egress'' namePattern)
       (Inr (s\<lparr>sv_Networks := map_option sort networks, sv_PrivateEgress := sort (sv_PrivateEgress s),
               sv_DependsOn := sort (sv_DependsOn s)\<rparr>))))))"

definition autoscaling_defaults :: "Autoscaling \<Rightarrow> Autoscaling" where
  "autoscaling_defaults c =
     c\<lparr>as_MinReplicas := or_default (as_MinReplicas c) 1, as_TargetCPU := or_default (as_TargetCPU c) 70\<rparr>"

definition normalizeAutoscaling :: "Service \<Rightarrow> Service result" where
  "normalizeAutoscaling s =
     (case sv_Autoscaling s of
        None \<Rightarrow> Inr s
      | Some c0 \<Rightarrow>
          (let c = autoscaling_defaults c0 in
           andE (checks
             [(as_MinReplicas c < 1 \<or> as_MaxReplicas c < as_MinReplicas c \<or> 20 < as_MaxReplicas c
                \<or> as_TargetCPU c < 10 \<or> 95 < as_TargetCPU c, ''autoscaling'')])
             (Inr (s\<lparr>sv_Autoscaling := Some c, sv_Replicas := as_MinReplicas c\<rparr>))))"

text \<open>One turn of the loop over the services.\<close>

definition normalizeService :: "'q externals \<Rightarrow> Application \<Rightarrow> string \<Rightarrow> Service \<Rightarrow> Service result" where
  "normalizeService ex a name s0 =
     bindE (service_mode ex a s0) (\<lambda>(s1, runtime).
     bindE (service_basics ex name s1) (\<lambda>s2.
     andE (service_settings runtime s2)
     (bindE (service_members a name s2) (\<lambda>s3.
      bindE (normalizeAutoscaling s3) (\<lambda>s4.
      bindE (normalizeServerless s4) (\<lambda>s5.
      andE (validateWorkload ex s5)
      (bindE (normalizeSidecars ex name s5) (\<lambda>s6.
       bindE (normalizeJobAndFiles ex s6) (\<lambda>s7.
         normalizeKubernetes ex s7)))))))))"

definition normalize_named :: "'q externals \<Rightarrow> Application \<Rightarrow> string \<Rightarrow> Application result" where
  "normalize_named ex a name =
     bindE (in_field (''services.'' @ name) (normalizeService ex a name (service_at a name))) (\<lambda>s.
       Inr (put_service name s a))"

definition ready_named :: "'q externals \<Rightarrow> Application \<Rightarrow> string \<Rightarrow> Application result" where
  "ready_named ex a name =
     bindE (in_field (''services.'' @ name) (normalizeReadiness ex (service_at a name))) (\<lambda>s.
       Inr (put_service name s a))"

section \<open>The application\<close>

text \<open>The steps on the copy, then the bound on the input's encoding in front of them.\<close>

definition normalize_copy :: "'q externals \<Rightarrow> Application \<Rightarrow> Application result" where
  "normalize_copy ex a0 =
     bindE (normalize_header ex a0) (\<lambda>a1.
     bindE (foldE (normalize_named ex) a1 (Names a1)) (\<lambda>a2.
     bindE (validateNamedStorage ex a2) (\<lambda>a3.
     andE (validateBindings a3)
     (bindE (validateNetworkAccess ex a3) (\<lambda>a4.
      andE (validateHTTPEndpoints ex a4)
      (bindE (foldE (ready_named ex) a4 (Names a4)) (\<lambda>a5.
       bindE (validatePublicTCP a5) (\<lambda>a6.
       bindE (Order a6) (\<lambda>_. Inr a6)))))))))"

definition Normalize :: "'q externals \<Rightarrow> Application \<Rightarrow> Application result" where
  "Normalize ex a0 =
     andE (checks [(MaxBytes < app_json_size a0, ''application specification exceeds 262144 bytes'')])
       (normalize_copy ex a0)"

lemma Normalize_small:
  assumes "json_bound (json_Application a) \<le> 262144"
  shows "Normalize ex a = normalize_copy ex a"
  using app_json_size_bound [of a] assms by (simp add: Normalize_def MaxBytes_def)

end
