(* ===== verification/Spec_Frames.thy ===== *)
theory Spec_Frames
  imports Spec_Normalize
begin

text \<open>
  What each step of \<open>Normalize\<close> may change of a service and of an application, and the loops
  over the services: a service is rewritten once, from its value in the input.
\<close>

section \<open>Frames of the steps on one service\<close>

named_theorems frames \<open>the fields a step of \<open>Normalize\<close> may change\<close>

lemma session_frame [frames]:
  "normalizeSandboxSession a s = Inr s' \<Longrightarrow> \<exists>x. s' = s\<lparr>sv_Session := x\<rparr> \<and> (x = None \<longleftrightarrow> sv_Session s = None)"
  unfolding normalizeSandboxSession_def
  by (auto simp: result_iff Let_def split: option.splits intro: exI [of _ "sv_Session s"])

lemma bitbucket_labels_frame:
  "normalizeBitbucketActionsLabels s = Inr s' \<Longrightarrow>
     \<exists>x. s' = s\<lparr>sv_Actions := x\<rparr> \<and> (x = None \<longleftrightarrow> sv_Actions s = None)"
  unfolding normalizeBitbucketActionsLabels_def
  by (cases s; cases "sv_Actions s"; cases "Provider_Effective (act_Provider (the (sv_Actions s))) = ProviderBitbucket")
     (auto simp: result_iff Let_def)

lemma labels_frame:
  "actions_labels p s a = Inr s' \<Longrightarrow> \<exists>x. s' = s\<lparr>sv_Actions := Some x\<rparr>"
  unfolding actions_labels_def
  by (auto simp: result_iff Let_def split: if_splits dest!: bitbucket_labels_frame)

lemma image_frame:
  "actions_image p s = Inr s' \<Longrightarrow> \<exists>x. s' = s\<lparr>sv_Image := x\<rparr>"
  unfolding actions_image_def
  by (cases "p = ProviderGitHub"; cases "sv_Image s = []")
     (auto simp: result_iff Let_def intro: exI [of _ "sv_Image s"])

lemma finish_frame:
  assumes "actions_finish ex p s a = Inr s'"
  shows "\<exists>x i z. s' = s\<lparr>sv_Actions := Some x, sv_Image := i, sv_Size := z\<rparr>"
proof -
  obtain x s3 where s3: "actions_image p (s\<lparr>sv_Actions := Some x\<rparr>) = Inr s3"
    and s': "s' = (if sv_Size s3 = [] then s3\<lparr>sv_Size := ''compute''\<rparr> else s3)"
    using assms by (auto simp: actions_finish_def Let_def result_iff)
  obtain i where "s3 = s\<lparr>sv_Actions := Some x, sv_Image := i\<rparr>" using image_frame [OF s3] by auto
  then show ?thesis
    using s' by (intro exI [of _ x] exI [of _ i] exI [of _ "sv_Size s'"]) simp
qed

lemma actions_frame [frames]:
  assumes "normalizeActions ex s = Inr s'"
  shows "\<exists>x i z. s' = s\<lparr>sv_Actions := x, sv_Image := i, sv_Size := z\<rparr> \<and> (x = None \<longleftrightarrow> sv_Actions s = None)"
proof (cases "sv_Actions s")
  case None
  then show ?thesis
    using assms by (intro exI [of _ None] exI [of _ "sv_Image s"] exI [of _ "sv_Size s"])
      (simp add: normalizeActions_def)
next
  case (Some a0)
  obtain t a1 where t: "actions_target ex a0 = Inr (t, a1)"
    using assms by (auto simp: normalizeActions_def Some result_iff)
  obtain s1 where s1: "actions_labels (pt_Provider t) s a1 = Inr s1"
    using assms by (auto simp: normalizeActions_def Some result_iff t)
  obtain a2 where s1': "s1 = s\<lparr>sv_Actions := Some a2\<rparr>" using labels_frame [OF s1] by auto
  have "actions_finish ex (pt_Provider t) s1 a2 = Inr s'"
    using assms by (simp add: normalizeActions_def Some result_iff t s1 s1')
  from finish_frame [OF this] show ?thesis using Some by (auto simp: s1')
qed

lemma resources_frame [frames]:
  "normalizeResources ex s = Inr s' \<Longrightarrow> \<exists>x. s' = s\<lparr>sv_Resources := x\<rparr>"
  using normalizeResources_frame by blast

lemma autoscaling_frame [frames]:
  "normalizeAutoscaling s = Inr s' \<Longrightarrow> \<exists>x r. s' = s\<lparr>sv_Autoscaling := x, sv_Replicas := r\<rparr> \<and> (x = None \<longleftrightarrow> sv_Autoscaling s = None)"
  unfolding normalizeAutoscaling_def
  by (cases "sv_Autoscaling s") (auto simp: result_iff Let_def intro: exI [of _ "sv_Replicas s"])

lemma serverless_frame [frames]:
  "normalizeServerless s = Inr s' \<Longrightarrow> \<exists>x. s' = s\<lparr>sv_Serverless := x\<rparr> \<and> (x = None \<longleftrightarrow> sv_Serverless s = None)"
  unfolding normalizeServerless_def
  by (auto simp: result_iff Let_def split: option.splits intro: exI [of _ "sv_Serverless s"])

lemma sidecars_frame [frames]:
  "normalizeSidecars ex name s = Inr s' \<Longrightarrow> \<exists>x. s' = s\<lparr>sv_Sidecars := x\<rparr>"
  unfolding normalizeSidecars_def
  by (cases "sv_Sidecars s = []") (auto simp: result_iff intro: exI [of _ "sv_Sidecars s"])

lemma optE_Inr [result_iff]:
  "optE f x = Inr y \<longleftrightarrow> (case x of None \<Rightarrow> y = None | Some v \<Rightarrow> \<exists>w. f v = Inr w \<and> y = Some w)"
  by (cases x) (auto simp: optE_def result_iff)

lemma optE_None: "optE f x = Inr y \<Longrightarrow> y = None \<longleftrightarrow> x = None"
  by (auto simp: result_iff split: option.splits)

lemma normalizeJob_modes:
  "normalizeJob ex s j = Inr j' \<Longrightarrow>
     (job_Invocation j' = None \<longleftrightarrow> job_Invocation j = None) \<and> (job_Schedule j' = None \<longleftrightarrow> job_Schedule j = None)"
  by (auto simp: normalizeJob_def Let_def result_iff split: option.splits)

definition deployment_job :: "Job option \<Rightarrow> bool" where
  "deployment_job j = (case j of None \<Rightarrow> True | Some j \<Rightarrow> job_Schedule j = None \<and> job_Invocation j = None)"

lemma job_files_frame [frames]:
  assumes "normalizeJobAndFiles ex s = Inr s'"
  shows "\<exists>j fs. s' = s\<lparr>sv_Job := j, sv_Files := fs\<rparr> \<and> (j = None \<longleftrightarrow> sv_Job s = None)
     \<and> (deployment_job j \<longleftrightarrow> deployment_job (sv_Job s))"
proof -
  obtain j fs where j: "optE (normalizeJob ex s) (sv_Job s) = Inr j" and s': "s' = s\<lparr>sv_Job := j, sv_Files := fs\<rparr>"
    using assms by (auto simp: normalizeJobAndFiles_def Let_def result_iff)
  have "deployment_job j \<longleftrightarrow> deployment_job (sv_Job s)"
    using j by (auto simp: deployment_job_def result_iff split: option.splits dest: normalizeJob_modes)
  with s' optE_None [OF j] show ?thesis by (intro exI [of _ j] exI [of _ fs]) simp
qed

lemma kubernetes_frame [frames]:
  assumes "normalizeKubernetes ex s = Inr s'"
  shows "\<exists>x. s' = s\<lparr>sv_Kubernetes := x\<rparr>"
proof -
  have "s' = s \<or> s' = s\<lparr>sv_Kubernetes := None\<rparr>"
    using assms by (auto simp: normalizeKubernetes_def result_iff simp del: forE.simps split: option.splits if_splits)
  then show ?thesis
    by (elim disjE) (intro exI [of _ "sv_Kubernetes s"], simp, intro exI [of _ None], simp)
qed

lemma readiness_frame [frames]:
  "normalizeReadiness ex s = Inr s' \<Longrightarrow> \<exists>x. s' = s\<lparr>sv_Readiness := x\<rparr>"
  unfolding normalizeReadiness_def
  by (auto simp: result_iff Let_def split: option.splits intro: exI [of _ "sv_Readiness s"])

lemma members_frame [frames]:
  "service_members a name s = Inr s' \<Longrightarrow>
     \<exists>ns pe d. s' = s\<lparr>sv_Networks := ns, sv_PrivateEgress := pe, sv_DependsOn := d\<rparr>"
  unfolding service_members_def by (auto simp: result_iff)

lemma basics_frame [frames]:
  assumes "service_basics ex name s = Inr s'"
  shows "\<exists>z r n. s' = s\<lparr>sv_Size := z, sv_Resources := r, sv_Replicas := n\<rparr>"
proof -
  obtain s2 where s2: "normalizeResources ex (if sv_Size s = [] then s\<lparr>sv_Size := ''small''\<rparr> else s) = Inr s2"
    and s': "s' = (if sv_Replicas s2 = 0 then s2\<lparr>sv_Replicas := 1\<rparr> else s2)"
    using assms by (auto simp: service_basics_def Let_def result_iff)
  obtain r where "s2 = (if sv_Size s = [] then s\<lparr>sv_Size := ''small''\<rparr> else s)\<lparr>sv_Resources := r\<rparr>"
    using resources_frame [OF s2] by auto
  then show ?thesis
    using s' by (intro exI [of _ "sv_Size s'"] exI [of _ r] exI [of _ "sv_Replicas s'"]) simp
qed

lemma mode_frame [frames]:
  assumes "service_mode ex a s = Inr (s', runtime)"
  shows "\<exists>x y i z. s' = s\<lparr>sv_Session := x, sv_Actions := y, sv_Image := i, sv_Size := z\<rparr>
     \<and> (x = None \<longleftrightarrow> sv_Session s = None) \<and> (y = None \<longleftrightarrow> sv_Actions s = None)"
    and "runtime = EffectiveService a s'"
proof -
  obtain s1 where s1: "normalizeSandboxSession a s = Inr s1" "normalizeActions ex s1 = Inr s'"
    and rt: "runtime = EffectiveService a s'"
    using assms by (auto simp: service_mode_def Let_def result_iff)
  show "runtime = EffectiveService a s'" by (rule rt)
  show "\<exists>x y i z. s' = s\<lparr>sv_Session := x, sv_Actions := y, sv_Image := i, sv_Size := z\<rparr>
     \<and> (x = None \<longleftrightarrow> sv_Session s = None) \<and> (y = None \<longleftrightarrow> sv_Actions s = None)"
    using session_frame [OF s1(1)] actions_frame [OF s1(2)] by fastforce
qed

section \<open>Loops over the services\<close>

text \<open>Two applications with the same tables but for the values of the services.\<close>

definition same_tables :: "Application \<Rightarrow> Application \<Rightarrow> bool" where
  "same_tables a b \<longleftrightarrow> b = a\<lparr>app_Services := app_Services b\<rparr>
     \<and> gm_keys (app_services b) = gm_keys (app_services a)"

lemma gm_keys_set_same:
  "gm_wf m \<Longrightarrow> gm_has m k \<Longrightarrow> gm_keys (gm_set k v m) = gm_keys m"
  by (induction k v m rule: gm_set.induct) (auto simp: gm_wf_Cons gm_has_keys gm_keys_def)

lemma same_tables_trans: "same_tables a b \<Longrightarrow> same_tables b c \<Longrightarrow> same_tables a c"
  by (cases a, cases b, cases c) (simp add: same_tables_def)

lemma same_tables_fields:
  assumes "same_tables a b"
  shows "app_InjectEnv b = app_InjectEnv a" "app_Secrets b = app_Secrets a" "app_Env b = app_Env a"
    "app_Recovery b = app_Recovery a" "app_SchemaVersion b = app_SchemaVersion a" "app_Name b = app_Name a"
    "app_Networks b = app_Networks a" "app_Domains b = app_Domains a" "app_Volumes b = app_Volumes a"
    "gm_keys (app_services b) = gm_keys (app_services a)"
  using assms by (cases a; cases b; simp add: same_tables_def)+

lemma same_tables_refl [simp]: "same_tables a a"
  by (simp add: same_tables_def)

lemma gm_set_not_Nil [simp]: "gm_set k v m \<noteq> []"
  by (induction k v m rule: gm_set.induct) auto

lemma same_tables_put:
  assumes "same_tables a b" and "gm_wf (app_services b)" and "gm_has (app_services b) n"
  shows "same_tables a (put_service n s b)" "gm_wf (app_services (put_service n s b))"
  using assms same_tables_trans [OF assms(1), of "put_service n s b"]
  by (auto simp: same_tables_def [of b] put_service_def app_services_def [of "app_Services_update _ _"] gm_keys_set_same)

lemma service_fold:
  assumes "foldE (\<lambda>a n. bindE (f a n) (\<lambda>s. Inr (put_service n s a))) a ns = Inr b"
    and "distinct ns" and "set ns \<subseteq> set (gm_keys (app_services a))" and "gm_wf (app_services a)"
  shows "same_tables a b \<and> gm_wf (app_services b)
    \<and> (\<forall>m. m \<notin> set ns \<longrightarrow> gm_get (app_services b) m = gm_get (app_services a) m)
    \<and> (\<forall>n \<in> set ns. \<exists>c. same_tables a c \<and> f c n = Inr (service_at b n) \<and> service_at c n = service_at a n
         \<and> (\<forall>m. service_at c m \<in> {service_at a m, service_at b m}))"
  using assms
proof (induction ns arbitrary: a)
  case (Cons n ns)
  obtain s where s: "f a n = Inr s"
    and rest: "foldE (\<lambda>a n. bindE (f a n) (\<lambda>s. Inr (put_service n s a))) (put_service n s a) ns = Inr b"
    using Cons.prems(1) by (auto simp: result_iff)
  let ?c = "put_service n s a"
  have has: "gm_has (app_services a) n" using Cons.prems(3) by (simp add: gm_has_keys)
  note put = same_tables_put [OF same_tables_refl Cons.prems(4) has, of s]
  have keys: "gm_keys (app_services ?c) = gm_keys (app_services a)"
    using put(1) by (simp add: same_tables_def)
  have IH: "same_tables ?c b \<and> gm_wf (app_services b)
    \<and> (\<forall>m. m \<notin> set ns \<longrightarrow> gm_get (app_services b) m = gm_get (app_services ?c) m)
    \<and> (\<forall>n \<in> set ns. \<exists>d. same_tables ?c d \<and> f d n = Inr (service_at b n) \<and> service_at d n = service_at ?c n
         \<and> (\<forall>m. service_at d m \<in> {service_at ?c m, service_at b m}))"
    using Cons.IH [OF rest] Cons.prems(2,3) keys put(2) by auto
  have trans: "same_tables a d" if "same_tables ?c d" for d
    using that put(1) same_tables_trans by blast
  have bn: "service_at b n = s"
    using IH Cons.prems(2) by (auto simp: service_at_def)
  then have head: "\<exists>c. same_tables a c \<and> f c n = Inr (service_at b n) \<and> service_at c n = service_at a n
      \<and> (\<forall>m. service_at c m \<in> {service_at a m, service_at b m})"
    using s by (intro exI [of _ a]) simp
  have tail: "\<exists>c. same_tables a c \<and> f c m = Inr (service_at b m) \<and> service_at c m = service_at a m
      \<and> (\<forall>k. service_at c k \<in> {service_at a k, service_at b k})"
    if "m \<in> set ns" for m
  proof -
    from that IH obtain d where d: "same_tables ?c d" "f d m = Inr (service_at b m)" "service_at d m = service_at ?c m"
      "\<forall>k. service_at d k \<in> {service_at ?c k, service_at b k}"
      by blast
    have "service_at d k \<in> {service_at a k, service_at b k}" for k
      using d(4) [rule_format, of k] bn by (cases "k = n") auto
    moreover have "m \<noteq> n" using that Cons.prems(2) by auto
    ultimately show ?thesis using trans d by (intro exI [of _ d]) simp
  qed
  show ?case using IH trans head tail by auto
qed auto

end
