(* ===== verification/Spec_Facts.thy ===== *)
theory Spec_Facts
  imports Spec_Frames
begin

text \<open>
  What a service satisfies once \<open>Normalize\<close> has gone over it. The invariant
  \<^theory_text>\<open>service_ok\<close> is stated on the stored value and on the application it is stored in, not on
  the intermediate values of the code.
\<close>

section \<open>The invariant of a stored service\<close>

definition file_paths :: "Service \<Rightarrow> string list" where
  "file_paths s = map (\<lambda>(n, f). file_MountPath f) (sv_Files s)"

definition identity_ok :: "string \<Rightarrow> Service \<Rightarrow> bool" where
  "identity_ok name s \<longleftrightarrow>
     namePattern name \<and> validateImage (sv_Image s) = Inr ()
     \<and> 0 \<le> sv_Port s \<and> sv_Port s \<le> 65535 \<and> (sv_Public s \<longrightarrow> sv_Port s \<noteq> 0)
     \<and> sv_Size s \<in> fst ` set Profiles"

definition scale_ok :: "Service \<Rightarrow> bool" where
  "scale_ok s \<longleftrightarrow>
     1 \<le> sv_Replicas s \<and> sv_Replicas s \<le> 20
     \<and> (sv_Volume s \<noteq> None \<longrightarrow> sv_Replicas s = 1 \<and> sv_Autoscaling s = None)
     \<and> (case sv_Autoscaling s of None \<Rightarrow> True
        | Some c \<Rightarrow> sv_Replicas s = as_MinReplicas c \<and> as_MinReplicas c \<le> as_MaxReplicas c \<and> as_MaxReplicas c \<le> 20)
     \<and> (case sv_Serverless s of None \<Rightarrow> True
        | Some v \<Rightarrow> serverless_bounds v \<and> sv_Replicas s = 1 \<and> sv_Public s)
     \<and> (sv_Job s \<noteq> None \<longrightarrow> sv_Replicas s = 1 \<and> \<not> sv_Public s \<and> sv_Port s = 0)"

definition storage_ok :: "Service \<Rightarrow> bool" where
  "storage_ok s \<longleftrightarrow>
     \<not> overlapping (mount_paths s)
     \<and> distinct (file_paths s)
     \<and> (\<forall>p \<in> set (file_paths s). \<forall>q \<in> set (mount_paths s). \<not> paths_overlap p q)
     \<and> sum_list (map tmp_SizeMiB (sv_TemporaryMounts s)) \<le> 128
     \<and> len (sv_Files s) + len (sv_Mounts s) + len (sv_TemporaryMounts s) + len (sv_CertificateMounts s) \<le> 16"

definition settings_ok :: "Application \<Rightarrow> Service \<Rightarrow> bool" where
  "settings_ok a s \<longleftrightarrow>
     (\<forall>k. gm_has (sv_Secrets s) k \<longrightarrow> \<not> gm_has (sv_Env s) k)
     \<and> (let r = EffectiveService a s in
        len (sv_Env r) \<le> 256 \<and> env_bytes (sv_Env r) \<le> 524288 \<and> len (sv_Secrets r) \<le> 32
        \<and> (\<forall>(k, v) \<in> set (sv_Env r). envPattern k \<and> \<not> sensitiveEnv k v \<and> NUL \<notin> set v \<and> len v \<le> 4096))"

definition membership_ok :: "Application \<Rightarrow> string \<Rightarrow> Service \<Rightarrow> bool" where
  "membership_ok a name s \<longleftrightarrow>
     (if sv_Session s \<noteq> None then sv_Networks s = None
      else \<exists>ns. sv_Networks s = Some ns \<and> ns \<noteq> [])
     \<and> distinct (sv_networks s) \<and> sorted (sv_networks s) \<and> (\<forall>n \<in> set (sv_networks s). gm_has (app_Networks a) n)
     \<and> distinct (sv_DependsOn s) \<and> sorted (sv_DependsOn s)
     \<and> (\<forall>d \<in> set (sv_DependsOn s). dependency_target a name d)"

definition service_ok :: "Application \<Rightarrow> string \<Rightarrow> Service \<Rightarrow> bool" where
  "service_ok a name s \<longleftrightarrow>
     identity_ok name s \<and> scale_ok s \<and> storage_ok s \<and> settings_ok a s \<and> membership_ok a name s"

section \<open>The steps, one after the other\<close>

lemma normalizeService_steps:
  assumes "normalizeService ex a name s0 = Inr s8"
  obtains s1 rt s2 s3 s4 s5 s6 s7 where
    "service_mode ex a s0 = Inr (s1, rt)" "service_basics ex name s1 = Inr s2"
    "service_settings rt s2 = Inr ()" "service_members a name s2 = Inr s3"
    "normalizeAutoscaling s3 = Inr s4" "normalizeServerless s4 = Inr s5"
    "validateWorkload ex s5 = Inr ()" "normalizeSidecars ex name s5 = Inr s6"
    "normalizeJobAndFiles ex s6 = Inr s7" "normalizeKubernetes ex s7 = Inr s8"
  using assms unfolding normalizeService_def
  by (auto simp: result_iff)

text \<open>The fields no step touches.\<close>

definition same_core :: "Service \<Rightarrow> Service \<Rightarrow> bool" where
  "same_core s t \<longleftrightarrow>
     sv_NodeName t = sv_NodeName s \<and> sv_Suspended t = sv_Suspended s \<and> sv_Bindings t = sv_Bindings s
     \<and> sv_DatabaseClientProfiles t = sv_DatabaseClientProfiles s \<and> sv_HTTP t = sv_HTTP s
     \<and> sv_Architecture t = sv_Architecture s \<and> sv_Volume t = sv_Volume s \<and> sv_GPU t = sv_GPU s
     \<and> sv_RunAsUser t = sv_RunAsUser s \<and> sv_RunAsGroup t = sv_RunAsGroup s \<and> sv_FSGroup t = sv_FSGroup s
     \<and> sv_ReadOnlyRootFilesystem t = sv_ReadOnlyRootFilesystem s \<and> sv_WorkingDir t = sv_WorkingDir s
     \<and> sv_TerminationGraceSeconds t = sv_TerminationGraceSeconds s
     \<and> sv_CertificateMounts t = sv_CertificateMounts s \<and> sv_Mounts t = sv_Mounts s
     \<and> sv_TemporaryMounts t = sv_TemporaryMounts s \<and> sv_Port t = sv_Port s \<and> sv_PublicTCP t = sv_PublicTCP s
     \<and> sv_Ports t = sv_Ports s \<and> sv_NetworkAccess t = sv_NetworkAccess s \<and> sv_Public t = sv_Public s
     \<and> sv_UpdateStrategy t = sv_UpdateStrategy s \<and> sv_Readiness t = sv_Readiness s
     \<and> sv_Healthcheck t = sv_Healthcheck s \<and> sv_StartupTimeoutSeconds t = sv_StartupTimeoutSeconds s
     \<and> sv_Env t = sv_Env s \<and> sv_Command t = sv_Command s \<and> sv_Args t = sv_Args s \<and> sv_Secrets t = sv_Secrets s
     \<and> sv_RestartNonce t = sv_RestartNonce s \<and> sv_RegistryCredential t = sv_RegistryCredential s
     \<and> sv_AWSIdentity t = sv_AWSIdentity s \<and> sv_ContainerDaemon t = sv_ContainerDaemon s
     \<and> sv_RuntimeProfile t = sv_RuntimeProfile s \<and> sv_NodeProfile t = sv_NodeProfile s \<and> sv_TLS t = sv_TLS s
     \<and> sv_BackendHTTP2 t = sv_BackendHTTP2 s \<and> sv_IngressTimeoutSeconds t = sv_IngressTimeoutSeconds s
     \<and> sv_CustomHostnames t = sv_CustomHostnames s"

text \<open>Whether a service is a session, a pool, serverless, a job, and which kind of job.\<close>

definition same_modes :: "Service \<Rightarrow> Service \<Rightarrow> bool" where
  "same_modes s t \<longleftrightarrow>
     (sv_Session t = None \<longleftrightarrow> sv_Session s = None) \<and> (sv_Actions t = None \<longleftrightarrow> sv_Actions s = None)
     \<and> (sv_Serverless t = None \<longleftrightarrow> sv_Serverless s = None) \<and> (sv_Job t = None \<longleftrightarrow> sv_Job s = None)
     \<and> (deployment_job (sv_Job t) \<longleftrightarrow> deployment_job (sv_Job s))
     \<and> (sv_Autoscaling t = None \<longleftrightarrow> sv_Autoscaling s = None)"

lemma normalizeService_frame:
  assumes "normalizeService ex a name s0 = Inr s8"
  shows "same_core s0 s8" and "same_modes s0 s8"
proof -
  obtain s1 rt s2 s3 s4 s5 s6 s7 where steps:
    "service_mode ex a s0 = Inr (s1, rt)" "service_basics ex name s1 = Inr s2"
    "service_members a name s2 = Inr s3"
    "normalizeAutoscaling s3 = Inr s4" "normalizeServerless s4 = Inr s5"
    "normalizeSidecars ex name s5 = Inr s6"
    "normalizeJobAndFiles ex s6 = Inr s7" "normalizeKubernetes ex s7 = Inr s8"
    using normalizeService_steps [OF assms] by metis
  note fr = mode_frame(1) [OF steps(1)] basics_frame [OF steps(2)] members_frame [OF steps(3)]
    autoscaling_frame [OF steps(4)] serverless_frame [OF steps(5)] sidecars_frame [OF steps(6)]
    job_files_frame [OF steps(7)] kubernetes_frame [OF steps(8)]
  show "same_core s0 s8" using fr by (elim exE conjE) (simp add: same_core_def)
  show "same_modes s0 s8" using fr by (elim exE conjE) (simp add: same_modes_def)
qed

section \<open>Files\<close>

lemma covers_iff: "covers d ps \<longleftrightarrow> (\<exists>p \<in> set ps. paths_overlap p d)"
  by (simp add: covers_def list_ex_iff)

lemma file_loop_paths:
  assumes "file_loop s paths fs = Inr fs'"
  shows "map (\<lambda>(n, f). file_MountPath f) fs' = map (\<lambda>(n, f). file_MountPath f) fs
    \<and> distinct (map (\<lambda>(n, f). file_MountPath f) fs)
    \<and> (\<forall>(n, f) \<in> set fs. \<forall>p \<in> set paths. \<not> paths_overlap p (file_MountPath f))
    \<and> map fst fs' = map fst fs"
  using assms
proof (induction s paths fs arbitrary: fs' rule: file_loop.induct)
  case (2 s paths n f fs)
  obtain f' fs'' where f': "normalizeFile s paths n f = Inr f'"
    and rest: "file_loop s (paths @ [file_MountPath f]) fs = Inr fs''" and fs': "fs' = (n, f') # fs''"
    using 2(2) by (auto simp: result_iff)
  have path: "file_MountPath f' = file_MountPath f" "\<not> covers (file_MountPath f) paths"
    using f' by (auto simp: normalizeFile_def Let_def result_iff)
  have self: "paths_overlap (file_MountPath f) (file_MountPath f)" by (simp add: paths_overlap_def)
  show ?case
    using 2(1) [OF f' rest] path self by (fastforce simp: fs' covers_iff)
qed simp

section \<open>Each part of the invariant\<close>

lemma sv_networks_Some [simp]: "sv_networks (s\<lparr>sv_Networks := Some ns\<rparr>) = ns"
  by (simp add: sv_networks_def)

lemma basics_obtain:
  assumes "service_basics ex name s = Inr s'"
  obtains s1 s2 where "s1 = (if sv_Size s = [] then s\<lparr>sv_Size := ''small''\<rparr> else s)"
    "normalizeResources ex s1 = Inr s2" "s' = (if sv_Replicas s2 = 0 then s2\<lparr>sv_Replicas := 1\<rparr> else s2)"
    "namePattern name" "validateImage (sv_Image s) = Inr ()"
    "0 \<le> sv_Port s1" "sv_Port s1 \<le> 65535" "sv_Public s1 \<longrightarrow> sv_Port s1 \<noteq> 0" "map_of Profiles (sv_Size s1) \<noteq> None"
    "1 \<le> sv_Replicas s'" "sv_Replicas s' \<le> 20"
    "sv_Healthcheck s' \<noteq> [] \<longrightarrow> valid_healthcheck s'"
  using assms unfolding service_basics_def Let_def
  by (auto simp only: result_iff not_less simp_thms in_path_Inr in_field_Inr de_Morgan_conj de_Morgan_disj not_not not_le)

lemma basics_facts:
  assumes "service_basics ex name s = Inr s'"
  shows "identity_ok name s'" and "1 \<le> sv_Replicas s'" and "sv_Replicas s' \<le> 20"
proof -
  obtain s1 s2 where b: "s1 = (if sv_Size s = [] then s\<lparr>sv_Size := ''small''\<rparr> else s)"
    "normalizeResources ex s1 = Inr s2" "s' = (if sv_Replicas s2 = 0 then s2\<lparr>sv_Replicas := 1\<rparr> else s2)"
    "namePattern name" "validateImage (sv_Image s) = Inr ()"
    "0 \<le> sv_Port s1" "sv_Port s1 \<le> 65535" "sv_Public s1 \<longrightarrow> sv_Port s1 \<noteq> 0" "map_of Profiles (sv_Size s1) \<noteq> None"
    and r: "1 \<le> sv_Replicas s'" "sv_Replicas s' \<le> 20"
    using basics_obtain [OF assms] by metis
  show "1 \<le> sv_Replicas s'" "sv_Replicas s' \<le> 20" by (fact r)+
  obtain x where "s2 = s1\<lparr>sv_Resources := x\<rparr>" using resources_frame [OF b(2)] by auto
  with b show "identity_ok name s'" by (simp add: identity_ok_def map_of_eq_None_iff)
qed

lemma service_identity:
  assumes "normalizeService ex a name s0 = Inr s8"
  shows "identity_ok name s8"
proof -
  obtain s1 rt s2 s3 s4 s5 s6 s7 where steps:
    "service_basics ex name s1 = Inr s2" "service_members a name s2 = Inr s3"
    "normalizeAutoscaling s3 = Inr s4" "normalizeServerless s4 = Inr s5"
    "normalizeSidecars ex name s5 = Inr s6"
    "normalizeJobAndFiles ex s6 = Inr s7" "normalizeKubernetes ex s7 = Inr s8"
    using normalizeService_steps [OF assms] by metis
  have "identity_ok name s2" by (rule basics_facts [OF steps(1)])
  then show ?thesis
    using members_frame [OF steps(2)] autoscaling_frame [OF steps(3)] serverless_frame [OF steps(4)]
      sidecars_frame [OF steps(5)] job_files_frame [OF steps(6)] kubernetes_frame [OF steps(7)]
    by (elim exE conjE) (simp add: identity_ok_def)
qed

lemma autoscaling_facts:
  assumes "normalizeAutoscaling s = Inr s'" and "1 \<le> sv_Replicas s" "sv_Replicas s \<le> 20"
  shows "1 \<le> sv_Replicas s'" "sv_Replicas s' \<le> 20"
    and "sv_Autoscaling s' = Some c \<Longrightarrow>
      sv_Replicas s' = as_MinReplicas c \<and> as_MinReplicas c \<le> as_MaxReplicas c \<and> as_MaxReplicas c \<le> 20"
  using assms by (auto simp: normalizeAutoscaling_def result_iff Let_def split: option.splits)

lemma serverless_facts:
  assumes "normalizeServerless s = Inr s'" and "sv_Serverless s' = Some v"
  shows "serverless_bounds v \<and> sv_Replicas s' = 1 \<and> sv_Public s'"
  using assms by (auto simp: normalizeServerless_def result_iff Let_def split: option.splits)

lemma normalizeJob_facts:
  "normalizeJob ex s j = Inr j' \<Longrightarrow> sv_Replicas s = 1 \<and> \<not> sv_Public s \<and> sv_Port s = 0"
  by (auto simp: normalizeJob_def Let_def result_iff)

lemma job_files_facts:
  assumes "normalizeJobAndFiles ex s = Inr s'"
  shows "sv_Job s' \<noteq> None \<longrightarrow> sv_Replicas s' = 1 \<and> \<not> sv_Public s' \<and> sv_Port s' = 0"
    and "distinct (file_paths s')"
    and "\<forall>p \<in> set (file_paths s'). \<forall>q \<in> set (job_mount_paths s'). \<not> paths_overlap p q"
    and "len (sv_Files s') + len (sv_Mounts s') + len (sv_TemporaryMounts s') + len (sv_CertificateMounts s') \<le> 16"
proof -
  obtain j fs where j: "optE (normalizeJob ex s) (sv_Job s) = Inr j"
    and fs: "file_loop (s\<lparr>sv_Job := j\<rparr>) (job_mount_paths s) (sv_Files s) = Inr fs"
    and n: "len (sv_Files s) + len (sv_Mounts s) + len (sv_TemporaryMounts s) + len (sv_CertificateMounts s) \<le> 16"
    and s': "s' = s\<lparr>sv_Job := j, sv_Files := fs\<rparr>"
    using assms by (auto simp: normalizeJobAndFiles_def Let_def result_iff job_mount_paths_def volume_paths_def)
  note paths = file_loop_paths [OF fs]
  have len: "len fs = len (sv_Files s)" using paths by (metis len_map)
  show "sv_Job s' \<noteq> None \<longrightarrow> sv_Replicas s' = 1 \<and> \<not> sv_Public s' \<and> sv_Port s' = 0"
    using j by (auto simp: s' result_iff split: option.splits dest: normalizeJob_facts)
  show "distinct (file_paths s')" using paths by (simp add: file_paths_def s')
  show "\<forall>p \<in> set (file_paths s'). \<forall>q \<in> set (job_mount_paths s'). \<not> paths_overlap p q"
  proof (intro ballI)
    fix p q
    assume p: "p \<in> set (file_paths s')" and q: "q \<in> set (job_mount_paths s')"
    have "p \<in> set (map (\<lambda>(n, f). file_MountPath f) (sv_Files s))"
      using p paths by (simp add: file_paths_def s')
    then obtain n f where "(n, f) \<in> set (sv_Files s)" "p = file_MountPath f" by auto
    moreover have "q \<in> set (job_mount_paths s)"
      using q by (simp add: s' job_mount_paths_def volume_paths_def)
    ultimately show "\<not> paths_overlap p q"
      using paths paths_overlap_sym by blast
  qed
  show "len (sv_Files s') + len (sv_Mounts s') + len (sv_TemporaryMounts s') + len (sv_CertificateMounts s') \<le> 16"
    using n by (simp add: s' len)
qed

lemma member_networks_Inr:
  assumes "member_networks s = Inr ns"
  shows "if sv_Session s \<noteq> None then ns = None else \<exists>ms. ns = Some ms \<and> ms \<noteq> []"
proof (cases "sv_Session s")
  case None
  show ?thesis
  proof (cases "sv_Networks s")
    case (Some ms)
    then have "ms \<noteq> [] \<and> ns = Some ms"
      using assms None by (simp add: member_networks_def split: if_splits)
    with None show ?thesis by simp
  qed (use assms None in \<open>auto simp: member_networks_def\<close>)
qed (use assms in \<open>simp add: member_networks_def\<close>)

lemma members_facts:
  assumes "service_members a name s = Inr s'"
  shows "membership_ok a name s'"
proof -
  obtain ns where ns: "sv_Networks s' = map_option sort ns" "sv_Session s' = sv_Session s"
      "sv_DependsOn s' = sort (sv_DependsOn s)"
    and n: "if sv_Session s \<noteq> None then ns = None else \<exists>ms. ns = Some ms \<and> ms \<noteq> []"
    and m: "validateMembers (case ns of None \<Rightarrow> [] | Some ns \<Rightarrow> ns) ''networks'' (gm_has (app_Networks a)) = Inr ()"
      "validateMembers (sv_DependsOn s) ''depends_on'' (dependency_target a name) = Inr ()"
    using assms by (auto simp: service_members_def result_iff simp del: validateMembers_Inr dest!: member_networks_Inr)
  show ?thesis
  proof (cases "sv_Session s")
    case None
    then obtain ms where ms: "ns = Some ms" "ms \<noteq> []" using n by auto
    with m have "\<forall>k \<in> set ms. gm_has (app_Networks a) k" "distinct ms"
      "\<forall>d \<in> set (sv_DependsOn s). dependency_target a name d" "distinct (sv_DependsOn s)"
      by (simp_all add: result_iff)
    with ns ms None show ?thesis by (simp add: membership_ok_def sv_networks_def)
  next
    case (Some c)
    then have "ns = None" using n by simp
    moreover have "\<forall>d \<in> set (sv_DependsOn s). dependency_target a name d" "distinct (sv_DependsOn s)"
      using m by (simp_all add: result_iff)
    ultimately show ?thesis using ns Some by (simp add: membership_ok_def sv_networks_def)
  qed
qed

lemma EffectiveService_cong:
  assumes "app_Secrets b = app_Secrets a" "app_Env b = app_Env a" "app_InjectEnv b = app_InjectEnv a"
    and "sv_Actions t = None \<longleftrightarrow> sv_Actions s = None"
    and "sv_Env t = sv_Env s" "sv_Secrets t = sv_Secrets s" "sv_Bindings t = sv_Bindings s"
  shows "sv_Env (EffectiveService b t) = sv_Env (EffectiveService a s)"
    and "sv_Secrets (EffectiveService b t) = sv_Secrets (EffectiveService a s)"
  using assms by (auto simp: EffectiveService_def EffectiveEnvironment_def Let_def)

lemma settings_facts:
  assumes "service_settings (EffectiveService a s) s = Inr ()"
  shows "settings_ok a s"
proof -
  have env: "validateEnvironment ''env'' (sv_Env (EffectiveService a s)) = Inr ()"
    and sec: "len (sv_Secrets (EffectiveService a s)) \<le> 32"
    and own: "\<forall>(k, r) \<in> set (sv_Secrets s). \<not> gm_has (sv_Env s) k"
    using assms by (auto simp: service_settings_def result_iff)
  have "\<not> gm_has (sv_Env s) k" if "gm_has (sv_Secrets s) k" for k
    using that own by (auto simp: gm_has_def dest: map_of_SomeD)
  moreover have "\<forall>(k, v) \<in> set (sv_Env (EffectiveService a s)).
      envPattern k \<and> \<not> sensitiveEnv k v \<and> NUL \<notin> set v \<and> len v \<le> 4096"
    using env unfolding validateEnvironment_Inr by fast
  ultimately show ?thesis
    using env sec unfolding validateEnvironment_Inr settings_ok_def Let_def by blast
qed

lemma settings_cong:
  assumes "same_core s t" and "sv_Actions t = None \<longleftrightarrow> sv_Actions s = None"
    and "app_Secrets b = app_Secrets a" "app_Env b = app_Env a" "app_InjectEnv b = app_InjectEnv a"
  shows "settings_ok b t \<longleftrightarrow> settings_ok a s"
  using EffectiveService_cong [OF assms(3,4,5,2)] assms(1)
  by (simp add: settings_ok_def same_core_def Let_def)

lemma service_settings_ok:
  assumes "normalizeService ex a name s0 = Inr s8"
  shows "settings_ok a s8"
proof -
  obtain s1 rt s2 s3 s4 s5 s6 s7 where steps:
    "service_mode ex a s0 = Inr (s1, rt)" "service_basics ex name s1 = Inr s2"
    "service_settings rt s2 = Inr ()" "service_members a name s2 = Inr s3"
    "normalizeAutoscaling s3 = Inr s4" "normalizeServerless s4 = Inr s5"
    "normalizeSidecars ex name s5 = Inr s6"
    "normalizeJobAndFiles ex s6 = Inr s7" "normalizeKubernetes ex s7 = Inr s8"
    using normalizeService_steps [OF assms] by metis
  have rt: "rt = EffectiveService a s1" by (rule mode_frame(2) [OF steps(1)])
  obtain z r n where s2: "s2 = s1\<lparr>sv_Size := z, sv_Resources := r, sv_Replicas := n\<rparr>"
    using basics_frame [OF steps(2)] by blast
  have eff: "sv_Env (EffectiveService a s2) = sv_Env rt" "sv_Secrets (EffectiveService a s2) = sv_Secrets rt"
    unfolding rt s2 by (rule EffectiveService_cong; simp)+
  have "service_settings (EffectiveService a s2) s2 = Inr ()"
    using steps(3) by (simp add: service_settings_def eff)
  then have "settings_ok a s2" by (rule settings_facts)
  moreover have "same_core s2 s8 \<and> (sv_Actions s8 = None \<longleftrightarrow> sv_Actions s2 = None)"
    using members_frame [OF steps(4)] autoscaling_frame [OF steps(5)] serverless_frame [OF steps(6)]
      sidecars_frame [OF steps(7)] job_files_frame [OF steps(8)] kubernetes_frame [OF steps(9)]
    by (elim exE conjE) (simp add: same_core_def)
  ultimately show ?thesis using settings_cong [of s2 s8 a a] by simp
qed

lemma job_mounts_set: "set (job_mount_paths s) = set (mount_paths s)"
  by (auto simp: job_mount_paths_def mount_paths_def)

lemma service_rest_ok:
  assumes "normalizeService ex a name s0 = Inr s8"
  shows "scale_ok s8" and "storage_ok s8" and "membership_ok a name s8"
proof -
  obtain s1 rt s2 s3 s4 s5 s6 s7 where steps:
    "service_basics ex name s1 = Inr s2" "service_members a name s2 = Inr s3"
    "normalizeAutoscaling s3 = Inr s4" "normalizeServerless s4 = Inr s5"
    "validateWorkload ex s5 = Inr ()" "normalizeSidecars ex name s5 = Inr s6"
    "normalizeJobAndFiles ex s6 = Inr s7" "normalizeKubernetes ex s7 = Inr s8"
    using normalizeService_steps [OF assms] by metis
  obtain ns pe d where s3: "s3 = s2\<lparr>sv_Networks := ns, sv_PrivateEgress := pe, sv_DependsOn := d\<rparr>"
    using members_frame [OF steps(2)] by blast
  obtain x r where s4: "s4 = s3\<lparr>sv_Autoscaling := x, sv_Replicas := r\<rparr>"
    using autoscaling_frame [OF steps(3)] by blast
  obtain v where s5: "s5 = s4\<lparr>sv_Serverless := v\<rparr>" using serverless_frame [OF steps(4)] by blast
  obtain sc where s6: "s6 = s5\<lparr>sv_Sidecars := sc\<rparr>" using sidecars_frame [OF steps(6)] by blast
  obtain j fs where s7: "s7 = s6\<lparr>sv_Job := j, sv_Files := fs\<rparr>" using job_files_frame [OF steps(7)] by blast
  obtain k where s8: "s8 = s7\<lparr>sv_Kubernetes := k\<rparr>" using kubernetes_frame [OF steps(8)] by blast
  have rep3: "1 \<le> sv_Replicas s3" "sv_Replicas s3 \<le> 20"
    using basics_facts [OF steps(1)] by (simp_all add: s3)
  note auto4 = autoscaling_facts [OF steps(3) rep3]
  note job7 = job_files_facts [OF steps(7)]
  have vol: "sv_Volume s5 \<noteq> None \<Longrightarrow> sv_Replicas s5 = 1 \<and> sv_Autoscaling s5 = None"
    using validateWorkload_persistent [OF steps(5)] by blast
  show "scale_ok s8"
    using auto4 vol serverless_facts [OF steps(4)] job7(1)
    by (auto simp: scale_ok_def s8 s7 s6 s5 s4 split: option.splits)
  have mp: "mount_paths s8 = mount_paths s5" "set (mount_paths s8) = set (job_mount_paths s7)"
    by (simp_all add: s8 s7 s6 mount_paths_def volume_paths_def job_mounts_set)
  have fp: "file_paths s8 = file_paths s7" by (simp add: s8 file_paths_def)
  show "storage_ok s8"
    using job7 validateWorkload_paths [OF steps(5)] validateWorkload_temporary [OF steps(5)] mp fp
    by (simp add: storage_ok_def) (simp add: s8 s7 s6)
  have "membership_ok a name s3" by (rule members_facts [OF steps(2)])
  then show "membership_ok a name s8"
    by (simp add: membership_ok_def sv_networks_def s8 s7 s6 s5 s4)
qed

lemma normalizeService_ok:
  assumes "normalizeService ex a name s0 = Inr s"
  shows "service_ok a name s"
  using service_identity [OF assms] service_settings_ok [OF assms] service_rest_ok [OF assms]
  by (simp add: service_ok_def)

end
