(* ===== verification/Spec_Groups.thy ===== *)
theory Spec_Groups
  imports Spec_Storage
begin

text \<open>
  \<open>SharedReadWriteOnceGroups\<close> against its specification: the groups are the classes of the
  services connected by shared ReadWriteOnce volumes, directly or through other services.
  The traversal is proved once for any symmetric table of neighbors.
\<close>

section \<open>The traversal of a symmetric table of neighbors\<close>

lemma reach_from_closed:
  assumes "\<forall>x \<in> S. R `` {x} \<subseteq> S \<union> Q"
  shows "R\<^sup>* `` S \<subseteq> S \<union> R\<^sup>* `` Q"
proof
  fix y assume "y \<in> R\<^sup>* `` S"
  then obtain x where "(x, y) \<in> R\<^sup>*" "x \<in> S" by blast
  then show "y \<in> S \<union> R\<^sup>* `` Q"
  proof (induction rule: rtrancl_induct)
    case (step y z)
    then show ?case using assms by (auto intro: rtrancl_into_rtrancl)
  qed simp
qed

lemma reach_insert: "R\<^sup>* `` {c} = insert c (R\<^sup>* `` (R `` {c}))"
  by (auto elim: converse_rtranclE intro: converse_rtrancl_into_rtrancl)

definition peer_edges :: "string list gomap \<Rightarrow> (string \<times> string) set" where
  "peer_edges nb = {(n, m). m \<in> set (neighbors_of nb n)}"

lemma peer_edges_Image [simp]: "peer_edges nb `` {c} = set (neighbors_of nb c)"
  by (auto simp: peer_edges_def)

lemma group_from_reach:
  assumes "group_from nb seen grp queue = (seen', grp')"
    and "\<forall>x \<in> set seen. set (neighbors_of nb x) \<subseteq> set seen \<union> set queue"
    and "distinct grp" "set grp \<subseteq> set seen"
  shows "set seen' = set seen \<union> (peer_edges nb)\<^sup>* `` set queue
    \<and> set grp' = set grp \<union> (set seen' - set seen) \<and> distinct grp'"
  using assms
proof (induction nb seen grp queue rule: group_from.induct)
  case (1 nb seen grp)
  then show ?case by auto
next
  case (2 nb seen grp c queue)
  let ?R = "peer_edges nb"
  show ?case
  proof (cases "c \<in> set seen")
    case True
    have inv: "\<forall>x \<in> set seen. set (neighbors_of nb x) \<subseteq> set seen \<union> set queue"
      using 2(4) True by auto
    have "?R\<^sup>* `` {c} \<subseteq> ?R\<^sup>* `` set seen" using True by auto
    also have "\<dots> \<subseteq> set seen \<union> ?R\<^sup>* `` set queue"
      using reach_from_closed [of "set seen" ?R "set queue"] inv by simp
    finally have "set seen \<union> ?R\<^sup>* `` set (c # queue) = set seen \<union> ?R\<^sup>* `` set queue"
      by auto
    then show ?thesis using 2(1) [OF True _ inv 2(5,6)] 2(3) True by simp
  next
    case False
    have inv: "\<forall>x \<in> set (c # seen). set (neighbors_of nb x) \<subseteq> set (c # seen) \<union> set (queue @ neighbors_of nb c)"
      using 2(4) by auto
    have "?R\<^sup>* `` {c} = insert c (?R\<^sup>* `` set (neighbors_of nb c))"
      using reach_insert [of ?R c] by simp
    then have reach: "?R\<^sup>* `` set (c # queue) = insert c (?R\<^sup>* `` set (queue @ neighbors_of nb c))"
      by auto
    have "group_from nb (c # seen) (grp @ [c]) (queue @ neighbors_of nb c) = (seen', grp')"
      using 2(3) False by simp
    from 2(2) [OF False this inv] 2(5,6) False
    have "set seen' = set (c # seen) \<union> ?R\<^sup>* `` set (queue @ neighbors_of nb c)
      \<and> set grp' = set (grp @ [c]) \<union> (set seen' - set (c # seen)) \<and> distinct grp'"
      by auto
    then show ?thesis unfolding reach using False by auto
  qed
qed

locale peer_graph =
  fixes nb :: "string list gomap"
  assumes symmetric: "m \<in> set (neighbors_of nb n) \<Longrightarrow> n \<in> set (neighbors_of nb m)"
begin

lemma sym_reach: "(x, y) \<in> (peer_edges nb)\<^sup>* \<Longrightarrow> (y, x) \<in> (peer_edges nb)\<^sup>*"
proof -
  have "sym (peer_edges nb)" using symmetric by (auto simp: sym_def peer_edges_def)
  then show "(x, y) \<in> (peer_edges nb)\<^sup>* \<Longrightarrow> (y, x) \<in> (peer_edges nb)\<^sup>*" by (metis sym_rtrancl symD)
qed

lemma groups_loop_classes:
  assumes "\<forall>x \<in> set seen. (peer_edges nb)\<^sup>* `` {x} \<subseteq> set seen"
  shows "(\<forall>g \<in> set (groups_loop nb seen ns). sorted g \<and> distinct g
            \<and> (\<exists>x \<in> set ns. neighbors_of nb x \<noteq> [] \<and> set g = (peer_edges nb)\<^sup>* `` {x}))
    \<and> distinct (concat (groups_loop nb seen ns))
    \<and> set (concat (groups_loop nb seen ns)) \<inter> set seen = {}
    \<and> (\<forall>x \<in> set ns. neighbors_of nb x \<noteq> [] \<longrightarrow> x \<in> set seen \<union> set (concat (groups_loop nb seen ns)))"
  using assms
proof (induction ns arbitrary: seen)
  case (Cons n ns)
  let ?R = "(peer_edges nb)\<^sup>*"
  show ?case
  proof (cases "n \<in> set seen \<or> neighbors_of nb n = []")
    case True
    then show ?thesis using Cons.IH [OF Cons.prems] by auto
  next
    case False
    obtain seen' grp where run: "group_from nb seen [] [n] = (seen', grp)" by force
    have closed: "\<forall>x \<in> set seen. set (neighbors_of nb x) \<subseteq> set seen \<union> set [n]"
      using Cons.prems by (auto simp: peer_edges_def)
    from group_from_reach [OF run closed]
    have r: "set seen' = set seen \<union> ?R `` {n}" "set grp = set seen' - set seen" "distinct grp"
      by auto
    have "?R `` {n} \<inter> set seen = {}"
    proof (rule ccontr)
      assume "?R `` {n} \<inter> set seen \<noteq> {}"
      then obtain y where "(n, y) \<in> ?R" "y \<in> set seen" by blast
      then have "n \<in> set seen" using sym_reach Cons.prems by blast
      with False show False by simp
    qed
    with r have grp: "set grp = ?R `` {n}" "set grp \<inter> set seen = {}" by auto
    have "\<forall>x \<in> set seen'. ?R `` {x} \<subseteq> set seen'"
      using Cons.prems r(1) by (auto intro: rtrancl_trans)
    note IH = Cons.IH [OF this]
    have loop: "groups_loop nb seen (n # ns) = sort grp # groups_loop nb seen' ns"
      using False run by simp
    have "n \<in> set grp" using grp(1) by auto
    then show ?thesis
      unfolding loop using IH grp r False by (auto simp del: groups_loop.simps)
  qed
qed simp

lemma groups_classes:
  assumes "x \<in> set ns" and "neighbors_of nb x \<noteq> []"
  shows "\<exists>g \<in> set (groups_loop nb [] ns). x \<in> set g \<and> set g = (peer_edges nb)\<^sup>* `` {x}"
proof -
  from groups_loop_classes [of "[]" ns] assms
  obtain g where g: "g \<in> set (groups_loop nb [] ns)" "x \<in> set g" by auto
  from groups_loop_classes [of "[]" ns] g(1)
  obtain y where "set g = (peer_edges nb)\<^sup>* `` {y}" by auto
  with g(2) have "set g = (peer_edges nb)\<^sup>* `` {x}"
    by (auto intro: rtrancl_trans sym_reach)
  with g show ?thesis by blast
qed

end

section \<open>The services that use a volume\<close>

definition confines :: "Application \<Rightarrow> string \<Rightarrow> bool" where
  "confines a v = (case gm_get (app_Volumes a) v of None \<Rightarrow> False | Some w \<Rightarrow> nvol_AccessMode w \<noteq> ''ReadWriteMany'')"

definition uses_volume :: "Application \<Rightarrow> string \<Rightarrow> string \<Rightarrow> bool" where
  "uses_volume a n v \<longleftrightarrow> confines a v \<and> v \<in> mnt_Volume ` set (sv_Mounts (service_at a n))"

text \<open>Two services share a volume that only one node can attach.\<close>

definition shares_volume :: "Application \<Rightarrow> (string \<times> string) set" where
  "shares_volume a = {(n, m). n \<in> set (Names a) \<and> m \<in> set (Names a) \<and> (\<exists>v. uses_volume a n v \<and> uses_volume a m v)}"

lemma neighbors_of_set:
  "neighbors_of (gm_set k ns nb) n = (if n = k then ns else neighbors_of nb n)"
  by (simp add: neighbors_of_def)

lemma add_user_members:
  "set (neighbors_of (add_user a n m users) v) =
     set (neighbors_of users v) \<union> (if mnt_Volume m = v \<and> confines a v then {n} else {})"
  "distinct (neighbors_of users v) \<Longrightarrow> distinct (neighbors_of (add_user a n m users) v)"
  "gm_wf users \<Longrightarrow> gm_wf (add_user a n m users)"
  by (auto simp: add_user_def confines_def neighbors_of_def Let_def split: option.splits)

lemma add_users_members:
  "set (neighbors_of (fold (add_user a n) ms users) v) =
     set (neighbors_of users v) \<union> (if confines a v \<and> v \<in> mnt_Volume ` set ms then {n} else {})"
  "distinct (neighbors_of users v) \<Longrightarrow> distinct (neighbors_of (fold (add_user a n) ms users) v)"
  "gm_wf users \<Longrightarrow> gm_wf (fold (add_user a n) ms users)"
  by (induction ms arbitrary: users) (auto simp: add_user_members)

lemma users_fold:
  "set (neighbors_of (fold (\<lambda>n. fold (add_user a n) (sv_Mounts (service_at a n))) ns users) v) =
     set (neighbors_of users v) \<union> {n \<in> set ns. uses_volume a n v}"
  "distinct (neighbors_of users v) \<Longrightarrow>
     distinct (neighbors_of (fold (\<lambda>n. fold (add_user a n) (sv_Mounts (service_at a n))) ns users) v)"
  "gm_wf users \<Longrightarrow> gm_wf (fold (\<lambda>n. fold (add_user a n) (sv_Mounts (service_at a n))) ns users)"
  by (induction ns arbitrary: users) (auto simp: add_users_members uses_volume_def)

lemma volume_users_members:
  "set (neighbors_of (volume_users a) v) = {n \<in> set (Names a). uses_volume a n v}"
  "distinct (neighbors_of (volume_users a) v)"
  "gm_wf (volume_users a)"
  by (simp_all add: volume_users_def users_fold neighbors_of_def [of "[]"])

lemma add_neighbors_members:
  "set (neighbors_of (add_neighbors ms nb) n) =
     set (neighbors_of nb n) \<union> (if 2 \<le> length ms \<and> n \<in> set ms then set ms else {})"
proof -
  have "set (neighbors_of (fold (\<lambda>n nb. gm_set n ((case gm_get nb n of None \<Rightarrow> [] | Some ns \<Rightarrow> ns) @ ms) nb) ks nb) n)
      = set (neighbors_of nb n) \<union> (if n \<in> set ks then set ms else {})" for ks
    by (induction ks arbitrary: nb) (auto simp: neighbors_of_def split: option.splits)
  then show ?thesis by (auto simp: add_neighbors_def)
qed

lemma neighbors_fold:
  "m \<in> set (neighbors_of (fold (\<lambda>(v, ms). add_neighbors ms) us nb) n) \<longleftrightarrow>
     m \<in> set (neighbors_of nb n) \<or> (\<exists>v ms. (v, ms) \<in> set us \<and> 2 \<le> length ms \<and> n \<in> set ms \<and> m \<in> set ms)"
proof (induction us arbitrary: nb)
  case (Cons u us)
  obtain v ms where u: "u = (v, ms)" by (cases u)
  show ?case by (simp add: u Cons add_neighbors_members) blast
qed simp

lemma volume_neighbors_iff:
  "m \<in> set (neighbors_of (volume_neighbors a) n) \<longleftrightarrow>
     (\<exists>v. 2 \<le> length (neighbors_of (volume_users a) v)
        \<and> n \<in> set (neighbors_of (volume_users a) v) \<and> m \<in> set (neighbors_of (volume_users a) v))"
    (is "?l \<longleftrightarrow> ?r")
proof -
  have get: "(v, ms) \<in> set (volume_users a) \<longleftrightarrow> gm_get (volume_users a) v = Some ms" for v ms
    by (simp add: gm_get_in [OF volume_users_members(3)])
  have "?l \<longleftrightarrow> (\<exists>v ms. gm_get (volume_users a) v = Some ms \<and> 2 \<le> length ms \<and> n \<in> set ms \<and> m \<in> set ms)"
    by (simp add: volume_neighbors_def neighbors_fold get neighbors_of_def [of "[]"])
  also have "\<dots> \<longleftrightarrow> ?r"
  proof
    assume ?r
    then obtain v where v: "2 \<le> length (neighbors_of (volume_users a) v)"
      "n \<in> set (neighbors_of (volume_users a) v)" "m \<in> set (neighbors_of (volume_users a) v)" by blast
    then obtain ms where "gm_get (volume_users a) v = Some ms"
      by (cases "gm_get (volume_users a) v") (auto simp: neighbors_of_def)
    with v show "\<exists>v ms. gm_get (volume_users a) v = Some ms \<and> 2 \<le> length ms \<and> n \<in> set ms \<and> m \<in> set ms"
      by (auto simp: neighbors_of_def)
  next
    assume "\<exists>v ms. gm_get (volume_users a) v = Some ms \<and> 2 \<le> length ms \<and> n \<in> set ms \<and> m \<in> set ms"
    then obtain v ms where v: "gm_get (volume_users a) v = Some ms" "2 \<le> length ms" "n \<in> set ms" "m \<in> set ms"
      by blast
    then have "neighbors_of (volume_users a) v = ms" by (simp add: neighbors_of_def)
    with v show ?r by blast
  qed
  finally show ?thesis .
qed

lemma two_members:
  assumes "distinct xs" "n \<in> set xs" "m \<in> set xs" "n \<noteq> m"
  shows "2 \<le> length xs"
proof -
  have "card {n, m} \<le> card (set xs)" using assms by (intro card_mono) auto
  then show ?thesis using assms(1,4) by (simp add: distinct_card)
qed

text \<open>Apart from the service itself, the neighbors are those it shares a volume with.\<close>

lemma volume_neighbors_shares:
  assumes "n \<noteq> m"
  shows "m \<in> set (neighbors_of (volume_neighbors a) n) \<longleftrightarrow> (n, m) \<in> shares_volume a"
proof -
  have "2 \<le> length (neighbors_of (volume_users a) v)"
    if "n \<in> set (neighbors_of (volume_users a) v)" "m \<in> set (neighbors_of (volume_users a) v)" for v
    using two_members [OF volume_users_members(2) that assms] .
  then show ?thesis
    unfolding volume_neighbors_iff shares_volume_def by (auto simp: volume_users_members(1))
qed

interpretation app_peers: peer_graph "volume_neighbors a" for a
  by unfold_locales (auto simp: volume_neighbors_iff)

lemma peer_reach: "(peer_edges (volume_neighbors a))\<^sup>* = (shares_volume a)\<^sup>*"
proof -
  have "(n, m) \<in> peer_edges (volume_neighbors a) \<Longrightarrow> (n, m) \<in> (shares_volume a)\<^sup>*" for n m
    using volume_neighbors_shares [of n m a] by (cases "n = m") (auto simp: peer_edges_def)
  moreover have "(n, m) \<in> shares_volume a \<Longrightarrow> (n, m) \<in> (peer_edges (volume_neighbors a))\<^sup>*" for n m
    using volume_neighbors_shares [of n m a] by (cases "n = m") (auto simp: peer_edges_def)
  ultimately show ?thesis by (meson rtrancl_subset_rtrancl subrelI subset_antisym)
qed

lemma neighbors_some:
  assumes "(n, m) \<in> (shares_volume a)\<^sup>*" "n \<noteq> m"
  shows "neighbors_of (volume_neighbors a) n \<noteq> []"
proof -
  have "(n, m) \<in> (peer_edges (volume_neighbors a))\<^sup>*" using assms(1) by (simp add: peer_reach)
  then obtain k where "(n, k) \<in> peer_edges (volume_neighbors a)"
    using assms(2) by (auto elim: converse_rtranclE)
  then show ?thesis by (auto simp: peer_edges_def)
qed

lemma group_members:
  assumes "g \<in> set (SharedReadWriteOnceGroups a)"
  shows "sorted g" and "distinct g" and "2 \<le> length g" and "set g \<subseteq> set (Names a)"
    and "n \<in> set g \<Longrightarrow> set g = (shares_volume a)\<^sup>* `` {n}"
proof -
  obtain x where x: "x \<in> set (Names a)" "neighbors_of (volume_neighbors a) x \<noteq> []"
      "set g = (peer_edges (volume_neighbors a))\<^sup>* `` {x}" "sorted g" "distinct g"
    using assms app_peers.groups_loop_classes [of "[]" a "Names a"]
    unfolding SharedReadWriteOnceGroups_def by (simp del: set_Names) blast
  show "sorted g" "distinct g" by (fact x(4) x(5))+
  show "set g = (shares_volume a)\<^sup>* `` {n}" if "n \<in> set g"
  proof -
    have "(x, n) \<in> (peer_edges (volume_neighbors a))\<^sup>*" using that x(3) by simp
    then have "(peer_edges (volume_neighbors a))\<^sup>* `` {n} = (peer_edges (volume_neighbors a))\<^sup>* `` {x}"
      using app_peers.sym_reach by (blast intro: rtrancl_trans)
    then show ?thesis using x(3) by (simp add: peer_reach)
  qed
  have "y \<in> set (Names a)" if "(x, y) \<in> (shares_volume a)\<^sup>*" for y
    using that x(1) by (induction rule: rtrancl_induct) (auto simp: shares_volume_def)
  then have edge: "(shares_volume a)\<^sup>* `` {x} \<subseteq> set (Names a)" by auto
  show "set g \<subseteq> set (Names a)" using edge x(3) by (simp add: peer_reach)
  obtain v where v: "2 \<le> length (neighbors_of (volume_users a) v)" "x \<in> set (neighbors_of (volume_users a) v)"
    using list.set_sel(1) [OF x(2)] unfolding volume_neighbors_iff by blast
  have "\<exists>y \<in> set (neighbors_of (volume_users a) v). y \<noteq> x"
  proof (rule ccontr)
    assume "\<not> ?thesis"
    then have "set (neighbors_of (volume_users a) v) \<subseteq> {x}" by auto
    then have "card (set (neighbors_of (volume_users a) v)) \<le> card {x}" by (intro card_mono) auto
    with v(1) show False by (simp add: distinct_card [OF volume_users_members(2)])
  qed
  then obtain y where "y \<in> set (neighbors_of (volume_neighbors a) x)" "y \<noteq> x"
    using v by (auto simp: volume_neighbors_iff)
  then have "(x, y) \<in> (peer_edges (volume_neighbors a))\<^sup>*" "y \<noteq> x"
    by (simp_all add: peer_edges_def r_into_rtrancl)
  then have "x \<in> set g" "y \<in> set g" "y \<noteq> x" unfolding x(3) by simp_all
  then show "2 \<le> length g" using two_members [OF x(5), of x y] by simp
qed

lemma groups_iff_shares:
  assumes "n \<noteq> m"
  shows "(\<exists>g \<in> set (SharedReadWriteOnceGroups a). n \<in> set g \<and> m \<in> set g) \<longleftrightarrow> (n, m) \<in> (shares_volume a)\<^sup>*"
proof
  assume "\<exists>g \<in> set (SharedReadWriteOnceGroups a). n \<in> set g \<and> m \<in> set g"
  then show "(n, m) \<in> (shares_volume a)\<^sup>*" using group_members(5) by blast
next
  assume r: "(n, m) \<in> (shares_volume a)\<^sup>*"
  then have n: "n \<in> set (Names a)"
    using assms by (auto elim!: converse_rtranclE simp: shares_volume_def)
  show "\<exists>g \<in> set (SharedReadWriteOnceGroups a). n \<in> set g \<and> m \<in> set g"
    using app_peers.groups_classes [OF n neighbors_some [OF r assms]] r
    by (auto simp: SharedReadWriteOnceGroups_def peer_reach)
qed

lemma groups_disjoint: "distinct (concat (SharedReadWriteOnceGroups a))"
  using app_peers.groups_loop_classes [of "[]" a "Names a"] by (simp add: SharedReadWriteOnceGroups_def)

end
