(* ===== verification/Spec_Later.thy ===== *)
theory Spec_Later
  imports Spec_Facts Spec_Groups
begin

text \<open>
  The steps of \<open>Normalize\<close> after the loop over the services: shared storage, network access,
  readiness and public TCP listeners. Each rewrites a few fields of the services it visits and
  keeps the invariant of the others.
\<close>

section \<open>What the later steps keep\<close>

definition moved :: "Service \<Rightarrow> Service \<Rightarrow> bool" where
  "moved s t \<longleftrightarrow> (\<exists>nn ar po na rd tc. t = s\<lparr>sv_NodeName := nn, sv_Architecture := ar, sv_Ports := po,
     sv_NetworkAccess := na, sv_Readiness := rd, sv_PublicTCP := tc\<rparr>)"

definition later :: "Application \<Rightarrow> Application \<Rightarrow> bool" where
  "later a b \<longleftrightarrow>
     app_InjectEnv b = app_InjectEnv a \<and> app_Secrets b = app_Secrets a \<and> app_Env b = app_Env a
     \<and> app_Recovery b = app_Recovery a \<and> app_SchemaVersion b = app_SchemaVersion a \<and> app_Name b = app_Name a
     \<and> app_Networks b = app_Networks a \<and> app_Domains b = app_Domains a
     \<and> gm_keys (app_services b) = gm_keys (app_services a)
     \<and> (gm_wf (app_services a) \<longrightarrow> gm_wf (app_services b))
     \<and> (\<forall>n. moved (service_at a n) (service_at b n))"

lemma moved_refl [simp]: "moved s s"
  unfolding moved_def
  by (intro exI [of _ "sv_NodeName s"] exI [of _ "sv_Architecture s"] exI [of _ "sv_Ports s"]
      exI [of _ "sv_NetworkAccess s"] exI [of _ "sv_Readiness s"] exI [of _ "sv_PublicTCP s"]) simp

lemma moved_trans: "moved s t \<Longrightarrow> moved t u \<Longrightarrow> moved s u"
  unfolding moved_def by (elim exE) (simp, blast)

lemma later_refl [simp]: "later a a"
  by (simp add: later_def)

lemma later_trans: "later a b \<Longrightarrow> later b c \<Longrightarrow> later a c"
  unfolding later_def using moved_trans by simp blast

lemma service_at_get: "gm_has (app_services a) n \<Longrightarrow> gm_get (app_services a) n = Some (service_at a n)"
  by (auto simp: service_at_def gm_has_def)

lemma service_at_nokey: "\<not> gm_has (app_services a) n \<Longrightarrow> service_at a n = zero_Service"
  by (simp add: service_at_def gm_has_def)

text \<open>A loop over all services whose step only moves each service.\<close>

lemma later_fold:
  assumes run: "foldE (\<lambda>a n. bindE (f a n) (\<lambda>s. Inr (put_service n s a))) a (Names a) = Inr b"
    and wf: "gm_wf (app_services a)"
    and step: "\<And>c n s. f c n = Inr s \<Longrightarrow> moved (service_at c n) s"
  shows "later a b"
    and "n \<in> set (Names a) \<Longrightarrow> \<exists>c. same_tables a c \<and> f c n = Inr (service_at b n) \<and> service_at c n = service_at a n"
    and "same_tables a b"
proof -
  have d: "distinct (Names a)" "set (Names a) \<subseteq> set (gm_keys (app_services a))"
    by (simp_all add: Names_def gm_keys_distinct [OF wf])
  note fold = service_fold [OF run d wf]
  show "n \<in> set (Names a) \<Longrightarrow> \<exists>c. same_tables a c \<and> f c n = Inr (service_at b n) \<and> service_at c n = service_at a n"
    using fold by blast
  have "moved (service_at a n) (service_at b n)" for n
  proof (cases "n \<in> set (Names a)")
    case True
    with fold obtain c where "f c n = Inr (service_at b n)" "service_at c n = service_at a n" by blast
    with step show ?thesis by metis
  next
    case False
    with fold show ?thesis by (simp add: service_at_def del: set_Names)
  qed
  moreover from fold have st: "same_tables a b" and "gm_wf (app_services b)" by blast+
  ultimately show "later a b" "same_tables a b"
    by (simp_all add: later_def same_tables_fields [OF st] st)
qed

section \<open>The invariant survives\<close>

lemma moved_core:
  assumes "moved s t"
  shows "identity_ok n t \<longleftrightarrow> identity_ok n s" "scale_ok t \<longleftrightarrow> scale_ok s" "storage_ok t \<longleftrightarrow> storage_ok s"
    "sv_Session t = sv_Session s" "sv_Job t = sv_Job s" "sv_DependsOn t = sv_DependsOn s"
    "sv_networks t = sv_networks s" "sv_Networks t = sv_Networks s" "sv_Actions t = sv_Actions s"
    "sv_Env t = sv_Env s" "sv_Secrets t = sv_Secrets s" "sv_Bindings t = sv_Bindings s" "sv_Port t = sv_Port s"
    "sv_Mounts t = sv_Mounts s" "sv_Public t = sv_Public s"
proof -
  obtain nn ar po na rd tc where t: "t = s\<lparr>sv_NodeName := nn, sv_Architecture := ar, sv_Ports := po,
     sv_NetworkAccess := na, sv_Readiness := rd, sv_PublicTCP := tc\<rparr>"
    using assms unfolding moved_def by blast
  show "identity_ok n t \<longleftrightarrow> identity_ok n s" "scale_ok t \<longleftrightarrow> scale_ok s"
    by (simp_all add: t identity_ok_def scale_ok_def cong: option.case_cong)
  show "storage_ok t \<longleftrightarrow> storage_ok s"
    by (simp add: t storage_ok_def mount_paths_def volume_paths_def file_paths_def)
  show "sv_Session t = sv_Session s" "sv_Job t = sv_Job s" "sv_DependsOn t = sv_DependsOn s"
    "sv_networks t = sv_networks s" "sv_Networks t = sv_Networks s" "sv_Actions t = sv_Actions s"
    "sv_Env t = sv_Env s" "sv_Secrets t = sv_Secrets s" "sv_Bindings t = sv_Bindings s" "sv_Port t = sv_Port s"
    "sv_Mounts t = sv_Mounts s" "sv_Public t = sv_Public s"
    by (simp_all add: t sv_networks_def)
qed

lemma later_has: "later a b \<Longrightarrow> gm_has (app_services b) n \<longleftrightarrow> gm_has (app_services a) n"
  by (simp add: later_def gm_has_keys)

lemma dependency_target_iff:
  "dependency_target a name n \<longleftrightarrow>
     gm_has (app_services a) n \<and> n \<noteq> name \<and> sv_Session (service_at a n) = None \<and> deployment_job (sv_Job (service_at a n))"
  by (auto simp: dependency_target_def gm_has_def service_at_def deployment_job_def split: option.splits)

lemma later_dependency:
  assumes "later a b"
  shows "dependency_target b name n \<longleftrightarrow> dependency_target a name n"
proof -
  have "moved (service_at a n) (service_at b n)" using assms by (simp add: later_def)
  then show ?thesis by (simp add: dependency_target_iff later_has [OF assms] moved_core)
qed

lemma later_ok:
  assumes "later a b" and "service_ok a n (service_at a n)"
  shows "service_ok b n (service_at b n)"
proof -
  have m: "moved (service_at a n) (service_at b n)" using assms(1) by (simp add: later_def)
  have eff: "sv_Env (EffectiveService b (service_at b n)) = sv_Env (EffectiveService a (service_at a n))"
    "sv_Secrets (EffectiveService b (service_at b n)) = sv_Secrets (EffectiveService a (service_at a n))"
    using assms(1) moved_core [OF m] by (auto simp: later_def intro!: EffectiveService_cong)
  have "settings_ok b (service_at b n)"
    using assms(2) eff moved_core [OF m] by (simp add: settings_ok_def service_ok_def Let_def)
  moreover have "membership_ok b n (service_at b n)"
    using assms moved_core [OF m] later_dependency [OF assms(1)]
    by (simp add: membership_ok_def service_ok_def later_def)
  ultimately show ?thesis
    using assms(2) moved_core [OF m] by (simp add: service_ok_def)
qed

section \<open>Placement of shared storage\<close>

lemma place_group_at:
  assumes "distinct grp" "set grp \<subseteq> set (gm_keys (app_services a))" "gm_wf (app_services a)"
  shows "same_tables a (place_group node arch grp a) \<and> gm_wf (app_services (place_group node arch grp a))
    \<and> (\<forall>n. service_at (place_group node arch grp a) n =
         (if n \<in> set grp then (service_at a n)\<lparr>sv_NodeName := node, sv_Architecture := arch\<rparr> else service_at a n))"
  using assms
proof (induction grp arbitrary: a)
  case (Cons n grp)
  let ?s = "(service_at a n)\<lparr>sv_NodeName := node, sv_Architecture := arch\<rparr>"
  let ?c = "put_service n ?s a"
  have has: "gm_has (app_services a) n" using Cons.prems(2) by (simp add: gm_has_keys)
  note put = same_tables_put [OF same_tables_refl Cons.prems(3) has, of ?s]
  have keys: "gm_keys (app_services ?c) = gm_keys (app_services a)"
    using put(1) by (simp add: same_tables_def)
  have eq: "place_group node arch (n # grp) a = place_group node arch grp ?c"
    by (simp add: place_group_def)
  have IH: "same_tables ?c (place_group node arch grp ?c) \<and> gm_wf (app_services (place_group node arch grp ?c))
    \<and> (\<forall>m. service_at (place_group node arch grp ?c) m =
         (if m \<in> set grp then (service_at ?c m)\<lparr>sv_NodeName := node, sv_Architecture := arch\<rparr> else service_at ?c m))"
    using Cons.IH [of ?c] Cons.prems(1,2) keys put(2) by simp
  have "same_tables a d" if "same_tables ?c d" for d
    using that put(1) same_tables_trans by blast
  then show ?case unfolding eq using IH Cons.prems(1) by simp
qed (simp add: place_group_def)

definition placed :: "Application \<Rightarrow> Application \<Rightarrow> string list \<Rightarrow> bool" where
  "placed a b grp \<longleftrightarrow> (\<exists>node arch. \<forall>n \<in> set grp.
     service_at b n = (service_at a n)\<lparr>sv_NodeName := node, sv_Architecture := arch\<rparr>
     \<and> (sv_NodeName (service_at a n) \<noteq> [] \<longrightarrow> sv_NodeName (service_at a n) = node)
     \<and> (sv_Architecture (service_at a n) \<noteq> [] \<longrightarrow> sv_Architecture (service_at a n) = arch)
     \<and> sv_Job (service_at a n) = None \<and> sv_Actions (service_at a n) = None)"

lemma agree_Inr:
  "agree msg known new = Inr r \<longleftrightarrow> (new = [] \<or> known = [] \<or> known = new) \<and> r = (if new = [] then known else new)"
  by (auto simp: agree_def)

lemma placement_fold:
  assumes "foldE (\<lambda>(node, arch) name.
       let s = service_at a name; field = ''services.'' @ name in
       if sv_Job s \<noteq> None \<or> sv_Actions s \<noteq> None then Inl (Err field)
       else bindE (agree (field @ ''.node_name'') node (sv_NodeName s)) (\<lambda>node'.
            bindE (agree (field @ ''.architecture'') arch (sv_Architecture s)) (\<lambda>arch'.
              Inr (node', arch')))) (k, l) grp = Inr (node, arch)"
  shows "(k \<noteq> [] \<longrightarrow> node = k) \<and> (l \<noteq> [] \<longrightarrow> arch = l)
    \<and> (\<forall>n \<in> set grp. sv_Job (service_at a n) = None \<and> sv_Actions (service_at a n) = None
        \<and> (sv_NodeName (service_at a n) \<noteq> [] \<longrightarrow> sv_NodeName (service_at a n) = node)
        \<and> (sv_Architecture (service_at a n) \<noteq> [] \<longrightarrow> sv_Architecture (service_at a n) = arch))"
  using assms
proof (induction grp arbitrary: k l)
  case (Cons n grp)
  let ?s = "service_at a n"
  have none: "sv_Job ?s = None" "sv_Actions ?s = None"
    using Cons.prems by (auto simp: Let_def split: if_splits)
  obtain k' l' where k': "agree (''services.'' @ n @ ''.node_name'') k (sv_NodeName ?s) = Inr k'"
    and l': "agree (''services.'' @ n @ ''.architecture'') l (sv_Architecture ?s) = Inr l'"
    and rest: "foldE (\<lambda>(node, arch) name.
       let s = service_at a name; field = ''services.'' @ name in
       if sv_Job s \<noteq> None \<or> sv_Actions s \<noteq> None then Inl (Err field)
       else bindE (agree (field @ ''.node_name'') node (sv_NodeName s)) (\<lambda>node'.
            bindE (agree (field @ ''.architecture'') arch (sv_Architecture s)) (\<lambda>arch'.
              Inr (node', arch')))) (k', l') grp = Inr (node, arch)"
    using Cons.prems none by (auto simp: Let_def result_iff)
  show ?case
    using Cons.IH [OF rest] none k' l' unfolding agree_Inr by (auto split: if_splits)
qed simp

lemma normalizeShared_placed:
  assumes "normalizeSharedReadWriteOnce a = Inr b" and wf: "gm_wf (app_services a)"
  shows "same_tables a b" and "gm_wf (app_services b)"
    and "g \<in> set (SharedReadWriteOnceGroups a) \<Longrightarrow> placed a b g"
    and "(\<forall>g \<in> set (SharedReadWriteOnceGroups a). n \<notin> set g) \<Longrightarrow> service_at b n = service_at a n"
proof -
  have main: "same_tables c b \<and> gm_wf (app_services b) \<and> (\<forall>g \<in> set gs. placed c b g)
      \<and> (\<forall>n. n \<notin> set (concat gs) \<longrightarrow> service_at b n = service_at c n)"
    if "foldE (\<lambda>a grp. bindE (group_placement a grp) (\<lambda>(node, arch). Inr (place_group node arch grp a))) c gs = Inr b"
      "distinct (concat gs)" "set (concat gs) \<subseteq> set (gm_keys (app_services c))" "gm_wf (app_services c)"
    for gs c
    using that
  proof (induction gs arbitrary: c)
    case (Cons g gs)
    obtain node arch where p: "group_placement c g = Inr (node, arch)"
      and rest: "foldE (\<lambda>a grp. bindE (group_placement a grp) (\<lambda>(node, arch). Inr (place_group node arch grp a)))
        (place_group node arch g c) gs = Inr b"
      using Cons.prems(1) by (auto simp: result_iff)
    let ?d = "place_group node arch g c"
    have at: "same_tables c ?d" "gm_wf (app_services ?d)"
      "service_at ?d n = (if n \<in> set g then (service_at c n)\<lparr>sv_NodeName := node, sv_Architecture := arch\<rparr> else service_at c n)" for n
      using place_group_at [of g c node arch] Cons.prems(2,3,4) by auto
    have keys: "gm_keys (app_services ?d) = gm_keys (app_services c)" using at(1) by (simp add: same_tables_def)
    have IH: "same_tables ?d b \<and> gm_wf (app_services b) \<and> (\<forall>g \<in> set gs. placed ?d b g)
      \<and> (\<forall>n. n \<notin> set (concat gs) \<longrightarrow> service_at b n = service_at ?d n)"
      using Cons.IH [OF rest] Cons.prems(2,3) at(2) keys by auto
    have tables: "same_tables c b"
      using IH at(1) same_tables_trans by blast
    have "placed c b g"
      unfolding placed_def
    proof (rule exI [of _ node], rule exI [of _ arch], rule ballI)
      fix n assume n: "n \<in> set g"
      then have "n \<notin> set (concat gs)" using Cons.prems(2) by auto
      with IH at(3) n have "service_at b n = (service_at c n)\<lparr>sv_NodeName := node, sv_Architecture := arch\<rparr>" by simp
      with placement_fold [OF p [unfolded group_placement_def]] n
      show "service_at b n = (service_at c n)\<lparr>sv_NodeName := node, sv_Architecture := arch\<rparr>
        \<and> (sv_NodeName (service_at c n) \<noteq> [] \<longrightarrow> sv_NodeName (service_at c n) = node)
        \<and> (sv_Architecture (service_at c n) \<noteq> [] \<longrightarrow> sv_Architecture (service_at c n) = arch)
        \<and> sv_Job (service_at c n) = None \<and> sv_Actions (service_at c n) = None" by blast
    qed
    moreover have "placed c b h" if "h \<in> set gs" for h
    proof -
      have same: "service_at ?d n = service_at c n" if "n \<in> set h" for n
        using that \<open>h \<in> set gs\<close> Cons.prems(2) at(3) by auto
      have "placed ?d b h" using IH that by blast
      then show ?thesis unfolding placed_def using same by (simp cong: ball_cong)
    qed
    moreover have "service_at b n = service_at c n" if "n \<notin> set (concat (g # gs))" for n
      using that IH at(3) by simp
    ultimately show ?case using tables IH by simp
  qed simp
  have "set (concat (SharedReadWriteOnceGroups a)) \<subseteq> set (gm_keys (app_services a))"
    using group_members(4) by (fastforce simp: Names_def)
  from main [OF assms(1) [unfolded normalizeSharedReadWriteOnce_def] groups_disjoint this wf]
  show "same_tables a b" "gm_wf (app_services b)"
    "g \<in> set (SharedReadWriteOnceGroups a) \<Longrightarrow> placed a b g"
    "(\<forall>g \<in> set (SharedReadWriteOnceGroups a). n \<notin> set g) \<Longrightarrow> service_at b n = service_at a n"
    by auto
qed

end
