(* ===== verification/Spec_Sound.thy ===== *)
theory Spec_Sound
  imports Spec_Later "HOL-Library.Multiset"
begin

text \<open>
  \<open>Normalize\<close> as a whole: what an accepted application satisfies, service by service and
  across services, and what it shares with the input.
\<close>

section \<open>The steps\<close>

lemma Normalize_steps:
  assumes "Normalize ex a0 = Inr b"
  obtains a1 a2 a3 a4 a5 order where
    "normalize_header ex a0 = Inr a1" "foldE (normalize_named ex) a1 (Names a1) = Inr a2"
    "validateNamedStorage ex a2 = Inr a3" "validateBindings a3 = Inr ()"
    "validateNetworkAccess ex a3 = Inr a4" "validateHTTPEndpoints ex a4 = Inr ()"
    "foldE (ready_named ex) a4 (Names a4) = Inr a5" "validatePublicTCP a5 = Inr b" "Order b = Inr order"
  using assms unfolding Normalize_def normalize_copy_def by (auto simp: result_iff)

lemma header_facts:
  assumes "normalize_header ex a0 = Inr a1"
  shows "a1 = a0\<lparr>app_SchemaVersion := 1, app_Networks := with_default_network (app_Networks a0)\<rparr>"
    and "namePattern (app_Name a1)" and "len (app_services a1) \<le> 20" and "app_Services a1 \<noteq> None"
    and "len (app_Networks a1) \<le> 16" and "\<not> mixes_actions a1"
    and "\<forall>(k, r) \<in> set (app_Secrets a1). envPattern k \<and> SecretRef_Valid r \<and> \<not> gm_has (app_Env a1) k"
proof -
  let ?a = "a0\<lparr>app_SchemaVersion := or_default (app_SchemaVersion a0) 1\<rparr>"
  have v: "or_default (app_SchemaVersion a0) 1 = 1" and n: "namePattern (app_Name a0)"
    and s: "app_Services a0 \<noteq> None" "len (app_services ?a) \<le> 20" and m: "\<not> mixes_actions ?a"
    and w: "len (with_default_network (app_Networks a0)) \<le> 16"
    and k: "\<forall>(k, r) \<in> set (app_Secrets a0). envPattern k \<and> SecretRef_Valid r \<and> \<not> gm_has (app_Env a0) k"
    and a1: "a1 = ?a\<lparr>app_Networks := with_default_network (app_Networks a0)\<rparr>"
    using assms by (auto simp: normalize_header_def Let_def result_iff)
  show "a1 = a0\<lparr>app_SchemaVersion := 1, app_Networks := with_default_network (app_Networks a0)\<rparr>"
    by (simp add: a1 v)
  then show "namePattern (app_Name a1)" "len (app_services a1) \<le> 20" "app_Services a1 \<noteq> None"
    "len (app_Networks a1) \<le> 16" "\<not> mixes_actions a1"
    "\<forall>(k, r) \<in> set (app_Secrets a1). envPattern k \<and> SecretRef_Valid r \<and> \<not> gm_has (app_Env a1) k"
    using n s m w k v by (simp_all add: app_services_def mixes_actions_def)
qed

lemma header_services [simp]:
  "app_services (a0\<lparr>app_SchemaVersion := v, app_Networks := ns\<rparr>) = app_services a0"
  by (simp add: app_services_def)

section \<open>The loop over the services\<close>

lemma same_modes_target:
  assumes "same_modes s t"
  shows "sv_Session t = None \<longleftrightarrow> sv_Session s = None" "deployment_job (sv_Job t) \<longleftrightarrow> deployment_job (sv_Job s)"
  using assms by (simp_all add: same_modes_def)

lemma same_tables_has: "same_tables a b \<Longrightarrow> gm_has (app_services b) n \<longleftrightarrow> gm_has (app_services a) n"
  by (simp add: same_tables_def gm_has_keys)

lemma services_loop:
  assumes run: "foldE (normalize_named ex) a (Names a) = Inr b" and wf: "gm_wf (app_services a)"
  shows "same_tables a b" and "gm_wf (app_services b)"
    and "n \<in> set (Names a) \<Longrightarrow> same_core (service_at a n) (service_at b n) \<and> same_modes (service_at a n) (service_at b n)"
    and "n \<in> set (Names a) \<Longrightarrow> service_ok b n (service_at b n)"
proof -
  have d: "distinct (Names a)" "set (Names a) \<subseteq> set (gm_keys (app_services a))"
    by (simp_all add: Names_def gm_keys_distinct [OF wf])
  note fold = service_fold [OF run [unfolded normalize_named_def] d wf]
  show st: "same_tables a b" and "gm_wf (app_services b)" using fold by blast+
  have step: "\<exists>c. same_tables a c \<and> normalizeService ex c n (service_at a n) = Inr (service_at b n)
      \<and> (\<forall>m. service_at c m \<in> {service_at a m, service_at b m})" if "n \<in> set (Names a)" for n
  proof -
    from fold that obtain c where "same_tables a c" "service_at c n = service_at a n"
      "in_field (''services.'' @ n) (normalizeService ex c n (service_at c n)) = Inr (service_at b n)"
      "\<forall>m. service_at c m \<in> {service_at a m, service_at b m}" by blast
    then show ?thesis by (intro exI [of _ c]) simp
  qed
  have keep: "same_core (service_at a n) (service_at b n)" "same_modes (service_at a n) (service_at b n)"
    if "n \<in> set (Names a)" for n
    using step [OF that] normalizeService_frame by blast+
  then show "n \<in> set (Names a) \<Longrightarrow> same_core (service_at a n) (service_at b n) \<and> same_modes (service_at a n) (service_at b n)"
    by blast
  assume n: "n \<in> set (Names a)"
  obtain c where c: "same_tables a c" "normalizeService ex c n (service_at a n) = Inr (service_at b n)"
    "\<forall>m. service_at c m \<in> {service_at a m, service_at b m}"
    using step [OF n] by blast
  have ok: "service_ok c n (service_at b n)" by (rule normalizeService_ok [OF c(2)])
  have target: "dependency_target b n d \<longleftrightarrow> dependency_target c n d" for d
  proof -
    have has: "gm_has (app_services b) d \<longleftrightarrow> gm_has (app_services a) d" "gm_has (app_services c) d \<longleftrightarrow> gm_has (app_services a) d"
      using st c(1) by (simp_all add: same_tables_has)
    have "d \<in> set (Names a)" if "gm_has (app_services a) d"
      using that by (auto simp: gm_has_def)
    moreover have "service_at c d = service_at a d \<or> service_at c d = service_at b d" using c(3) by blast
    ultimately show ?thesis
      using keep(2) [of d] by (auto simp: dependency_target_iff has same_modes_def)
  qed
  note fb = same_tables_fields [OF st] and fc = same_tables_fields [OF c(1)]
  have "settings_ok b (service_at b n)"
    using ok settings_cong [of "service_at b n" "service_at b n" b c]
    by (simp add: service_ok_def fb fc same_core_def)
  moreover have "membership_ok b n (service_at b n)"
    using ok by (simp add: service_ok_def membership_ok_def target fb fc)
  ultimately show "service_ok b n (service_at b n)" using ok by (simp add: service_ok_def)
qed

section \<open>Storage, access and readiness\<close>

lemma placed_moved: "t = s\<lparr>sv_NodeName := nn, sv_Architecture := ar\<rparr> \<Longrightarrow> moved s t"
  unfolding moved_def
  by (rule exI [of _ nn], rule exI [of _ ar], rule exI [of _ "sv_Ports s"], rule exI [of _ "sv_NetworkAccess s"],
      rule exI [of _ "sv_Readiness s"], rule exI [of _ "sv_PublicTCP s"]) simp

lemma storage_step:
  assumes run: "validateNamedStorage ex a = Inr b" and wf: "gm_wf (app_services a)"
  obtains vs gs where "later a b" "normalizeSharedReadWriteOnce (a\<lparr>app_Volumes := vs\<rparr>) = Inr b"
    "gm_wf (app_services b)" "len vs \<le> 16"
    "len vs + len (legacy_sizes a) \<le> 20"
    "sum_list (map (nvol_SizeGiB \<circ> snd) vs) + sum_list (legacy_sizes a) \<le> 200"
    "foldE (storage_service (a\<lparr>app_Volumes := vs\<rparr>)) [] (Names a) = Inr gs"
    "mapE (\<lambda>(n, v). bindE (normalizeNamedVolume ex n v) (\<lambda>w. Inr (n, w))) (app_Volumes a) = Inr vs"
    "app_Volumes b = vs"
proof -
  have [simp]: "app_services (a\<lparr>app_Volumes := vs\<rparr>) = app_services a" "Names (a\<lparr>app_Volumes := vs\<rparr>) = Names a" for vs
    by (simp_all add: app_services_def Names_def)
  obtain vs gs where v: "mapE (\<lambda>(n, v). bindE (normalizeNamedVolume ex n v) (\<lambda>w. Inr (n, w))) (app_Volumes a) = Inr vs"
    and l: "len (app_Volumes a) \<le> 16"
    and g: "foldE (storage_service (a\<lparr>app_Volumes := vs\<rparr>)) [] (Names a) = Inr gs"
    and sz: "len vs + len (legacy_sizes (a\<lparr>app_Volumes := vs\<rparr>)) \<le> 20"
      "sum_list (map (nvol_SizeGiB \<circ> snd) vs) + sum_list (legacy_sizes (a\<lparr>app_Volumes := vs\<rparr>)) \<le> 200"
    and n: "normalizeSharedReadWriteOnce (a\<lparr>app_Volumes := vs\<rparr>) = Inr b"
    using run by (auto simp: validateNamedStorage_def Let_def bindE_Inr andE_Inr checks_Cons_Inr checks_Nil_Inr simp del: checks.simps)
  let ?a = "a\<lparr>app_Volumes := vs\<rparr>"
  have w: "gm_wf (app_services ?a)" using wf by simp
  note placed = normalizeShared_placed [OF n w]
  have at: "service_at ?a m = service_at a m" for m by (simp add: service_at_def)
  have mv: "moved (service_at a m) (service_at b m)" for m
  proof (cases "\<exists>g \<in> set (SharedReadWriteOnceGroups ?a). m \<in> set g")
    case True
    then obtain grp where "grp \<in> set (SharedReadWriteOnceGroups ?a)" "m \<in> set grp" by blast
    with placed(3) [of grp] obtain node arch where
      "service_at b m = (service_at ?a m)\<lparr>sv_NodeName := node, sv_Architecture := arch\<rparr>"
      unfolding placed_def by blast
    then show ?thesis unfolding at by (rule placed_moved)
  next
    case False
    then have "service_at b m = service_at ?a m" using placed(4) by blast
    then show ?thesis by (simp add: at)
  qed
  have "later a b"
    using same_tables_fields [OF placed(1)] placed(2) mv by (simp add: later_def)
  moreover have "len vs \<le> 16" using l mapE_length [OF v] by (simp add: len_length)
  moreover have "legacy_sizes ?a = legacy_sizes a" by (simp add: legacy_sizes_def)
  moreover have "app_Volumes b = vs" using same_tables_fields(9) [OF placed(1)] by simp
  ultimately show thesis using that [of vs gs] n placed(2) sz g v by simp
qed

definition access_from :: "NetworkAccess \<Rightarrow> string list" where
  "access_from na = (case na_From na of None \<Rightarrow> [] | Some ns \<Rightarrow> ns)"

lemma allows_peer_iff:
  "gm_get (app_services a) m = Some src \<Longrightarrow> gm_get (app_services a) n = Some dst \<Longrightarrow>
     AllowsPeer a m n \<longleftrightarrow> set (sv_networks src) \<inter> set (sv_networks dst) \<noteq> {}
       \<and> (\<forall>na. sv_NetworkAccess dst = Some na \<longrightarrow> m \<in> set (access_from na))"
  by (auto simp: AllowsPeer_def list_ex_iff access_from_def split: option.splits)

lemma allows_peer_none:
  "gm_get (app_services a) m = None \<or> gm_get (app_services a) n = None \<Longrightarrow> \<not> AllowsPeer a m n"
  by (auto simp: AllowsPeer_def split: option.splits)

lemma access_frame:
  assumes "bindE (normalizePorts ex n (service_at c n)) (normalizeAccess c n) = Inr s"
  shows "\<exists>po na. s = (service_at c n)\<lparr>sv_Ports := po, sv_NetworkAccess := na\<rparr>
     \<and> (na = None \<longleftrightarrow> sv_NetworkAccess (service_at c n) = None)
     \<and> (\<forall>x. na = Some x \<longrightarrow> set (case na_From x of None \<Rightarrow> [] | Some f \<Rightarrow> f)
          = set (case na_From (the (sv_NetworkAccess (service_at c n))) of None \<Rightarrow> [] | Some f \<Rightarrow> f))"
proof -
  obtain t where t: "normalizePorts ex n (service_at c n) = Inr t" and s: "normalizeAccess c n t = Inr s"
    using assms by (auto simp: result_iff)
  obtain po where po: "t = (service_at c n)\<lparr>sv_Ports := po\<rparr>"
    using t by (auto simp: normalizePorts_def Let_def result_iff)
  show ?thesis
  proof (cases "sv_NetworkAccess t")
    case None
    then have "s = t" using s by (simp add: normalizeAccess_def)
    with None show ?thesis by (intro exI [of _ po] exI [of _ None]) (simp add: po)
  next
    case (Some na)
    let ?from = "case na_From na of None \<Rightarrow> [] | Some ns \<Rightarrow> ns"
    have "s = t\<lparr>sv_NetworkAccess := Some
        (na\<lparr>na_From := Some (sort ?from), na_FromApplications := sort (na_FromApplications na)\<rparr>)\<rparr>"
      using s by (auto simp: normalizeAccess_def Some Let_def andE_Inr)
    then show ?thesis using Some
      by (intro exI [of _ po] exI [of _ "sv_NetworkAccess s"]) (simp add: po)
  qed
qed

lemma access_step:
  assumes run: "validateNetworkAccess ex a = Inr b" and wf: "gm_wf (app_services a)"
  shows "later a b" and "AllowsPeer b m n \<longleftrightarrow> AllowsPeer a m n" and "app_Volumes b = app_Volumes a"
    and "sv_NodeName (service_at b m) = sv_NodeName (service_at a m)"
    and "sv_Architecture (service_at b m) = sv_Architecture (service_at a m)"
    and "n \<in> set (Names a) \<Longrightarrow> \<exists>c. bindE (normalizePorts ex n (service_at a n)) (normalizeAccess c n) = Inr (service_at b n)"
proof -
  have run': "foldE (\<lambda>a n. bindE (bindE (normalizePorts ex n (service_at a n)) (normalizeAccess a n)) (\<lambda>s. Inr (put_service n s a)))
      a (Names a) = Inr b"
    using run by (simp add: validateNetworkAccess_def network_access_service_def [abs_def] Prelude.bindE_assoc)
  have mv: "moved (service_at c n) s"
    if "bindE (normalizePorts ex n (service_at c n)) (normalizeAccess c n) = Inr s" for c n s
    using access_frame [OF that] unfolding moved_def
    by (elim exE conjE) (rule exI [of _ "sv_NodeName s"], rule exI [of _ "sv_Architecture s"],
      rule exI [of _ "sv_Ports s"], rule exI [of _ "sv_NetworkAccess s"],
      rule exI [of _ "sv_Readiness s"], rule exI [of _ "sv_PublicTCP s"], simp)
  show later: "later a b" by (rule later_fold(1) [OF run' wf]) (rule mv)
  have lf: "\<exists>c. same_tables a c \<and> bindE (normalizePorts ex k (service_at c k)) (normalizeAccess c k) = Inr (service_at b k)
      \<and> service_at c k = service_at a k" if "k \<in> set (Names a)" for k
    by (rule later_fold(2) [OF run' wf _ that]) (rule mv)
  show "n \<in> set (Names a) \<Longrightarrow> \<exists>c. bindE (normalizePorts ex n (service_at a n)) (normalizeAccess c n) = Inr (service_at b n)"
    using lf [of n] by auto
  have "same_tables a b" by (rule later_fold(3) [OF run' wf]) (rule mv)
  then show "app_Volumes b = app_Volumes a" by (rule same_tables_fields)
  show "sv_NodeName (service_at b m) = sv_NodeName (service_at a m)"
    "sv_Architecture (service_at b m) = sv_Architecture (service_at a m)"
  proof (atomize (full), cases "m \<in> set (Names a)")
    case True
    from lf [OF True] obtain c where c: "service_at c m = service_at a m"
      "bindE (normalizePorts ex m (service_at c m)) (normalizeAccess c m) = Inr (service_at b m)" by blast
    from access_frame [OF c(2)] obtain po na where "service_at b m = (service_at a m)\<lparr>sv_Ports := po, sv_NetworkAccess := na\<rparr>"
      unfolding c(1) by blast
    then show "sv_NodeName (service_at b m) = sv_NodeName (service_at a m)
      \<and> sv_Architecture (service_at b m) = sv_Architecture (service_at a m)" by simp
  next
    case False
    then have "\<not> gm_has (app_services a) m" by (auto simp: gm_has_def)
    then show "sv_NodeName (service_at b m) = sv_NodeName (service_at a m)
      \<and> sv_Architecture (service_at b m) = sv_Architecture (service_at a m)"
      using later by (simp add: service_at_nokey later_has)
  qed
  have nets: "sv_networks (service_at b k) = sv_networks (service_at a k)" for k
    using later by (simp add: later_def moved_core)
  have peers: "(sv_NetworkAccess (service_at b k) = None \<longleftrightarrow> sv_NetworkAccess (service_at a k) = None)
      \<and> (\<forall>x. sv_NetworkAccess (service_at b k) = Some x \<longrightarrow>
          set (case na_From x of None \<Rightarrow> [] | Some f \<Rightarrow> f)
          = set (case na_From (the (sv_NetworkAccess (service_at a k))) of None \<Rightarrow> [] | Some f \<Rightarrow> f))"
    if k: "k \<in> set (Names a)" for k
  proof -
    from lf [OF k] obtain c where c: "service_at c k = service_at a k"
      "bindE (normalizePorts ex k (service_at c k)) (normalizeAccess c k) = Inr (service_at b k)" by blast
    from access_frame [OF c(2)] show ?thesis unfolding c(1) by (elim exE conjE) simp
  qed
  have get: "gm_get (app_services b) k = None \<longleftrightarrow> gm_get (app_services a) k = None" for k
    using later_has [OF later, of k]
    by (cases "gm_get (app_services a) k"; cases "gm_get (app_services b) k") (simp_all add: gm_has_def)
  show "AllowsPeer b m n \<longleftrightarrow> AllowsPeer a m n"
  proof (cases "gm_has (app_services a) m \<and> gm_has (app_services a) n")
    case True
    then have n: "n \<in> set (Names a)" by (auto simp: gm_has_def)
    have g: "gm_get (app_services a) m = Some (service_at a m)" "gm_get (app_services a) n = Some (service_at a n)"
      "gm_get (app_services b) m = Some (service_at b m)" "gm_get (app_services b) n = Some (service_at b n)"
      using True by (simp_all add: service_at_get later_has [OF later])
    show ?thesis
    proof (cases "sv_NetworkAccess (service_at b n)")
      case None
      then show ?thesis using peers [OF n] by (simp add: allows_peer_iff [OF g(1,2)] allows_peer_iff [OF g(3,4)] nets)
    next
      case (Some x)
      then obtain y where y: "sv_NetworkAccess (service_at a n) = Some y"
        using peers [OF n] by (cases "sv_NetworkAccess (service_at a n)") auto
      have "set (access_from x) = set (access_from y)"
        using peers [OF n] Some y by (simp add: access_from_def)
      then show ?thesis by (simp add: allows_peer_iff [OF g(1,2)] allows_peer_iff [OF g(3,4)] nets Some y)
    qed
  next
    case False
    then have "gm_get (app_services a) m = None \<or> gm_get (app_services a) n = None"
      by (simp add: gm_has_def)
    then show ?thesis using get allows_peer_none by blast
  qed
qed

lemma ready_step:
  assumes run: "foldE (ready_named ex) a (Names a) = Inr b" and wf: "gm_wf (app_services a)"
  shows "later a b" and "n \<in> set (Names a) \<Longrightarrow> normalizeReadiness ex (service_at a n) = Inr (service_at b n)"
    and "app_Volumes b = app_Volumes a"
proof -
  have mv: "moved (service_at c n) s"
    if "in_field (''services.'' @ n) (normalizeReadiness ex (service_at c n)) = Inr s" for c n s
    using readiness_frame [of ex "service_at c n" s] that unfolding moved_def
    by simp (elim exE, rule exI [of _ "sv_NodeName s"], rule exI [of _ "sv_Architecture s"],
      rule exI [of _ "sv_Ports s"], rule exI [of _ "sv_NetworkAccess s"],
      rule exI [of _ "sv_Readiness s"], rule exI [of _ "sv_PublicTCP s"], simp)
  note run' = run [unfolded ready_named_def]
  show "later a b" by (rule later_fold(1) [OF run' wf]) (rule mv)
  have "same_tables a b" by (rule later_fold(3) [OF run' wf]) (rule mv)
  then show "app_Volumes b = app_Volumes a" by (rule same_tables_fields)
  assume n: "n \<in> set (Names a)"
  have "\<exists>c. same_tables a c \<and> in_field (''services.'' @ n) (normalizeReadiness ex (service_at c n)) = Inr (service_at b n)
      \<and> service_at c n = service_at a n"
    by (rule later_fold(2) [OF run' wf _ n]) (rule mv)
  then obtain c where "service_at c n = service_at a n"
    "in_field (''services.'' @ n) (normalizeReadiness ex (service_at c n)) = Inr (service_at b n)" by blast
  then show "normalizeReadiness ex (service_at a n) = Inr (service_at b n)" by simp
qed

section \<open>Public TCP listeners\<close>

definition listener_ok :: "Service \<Rightarrow> PublicTCPListener \<Rightarrow> bool" where
  "listener_ok s l \<longleftrightarrow>
     ValidPublicTCPPort (tcp_Port l) \<and> \<not> (sv_Public s \<and> tcp_TargetPort l = sv_Port s)
     \<and> (\<exists>p. backend_matches s (tcp_TargetPort l) = [p])
     \<and> 1 \<le> len (tcp_SourceCIDRs l) \<and> len (tcp_SourceCIDRs l) \<le> 16
     \<and> distinct (tcp_SourceCIDRs l) \<and> sorted (tcp_SourceCIDRs l)"

lemma cidr_loop_facts:
  "cidr_loop field seen cs = Inr vs \<Longrightarrow> length vs = length cs \<and> distinct vs \<and> set vs \<inter> set seen = {}"
proof (induction field seen cs arbitrary: vs rule: cidr_loop.induct)
  case (2 field seen c cs)
  then show ?case by (fastforce simp: Let_def bindE_Inr split: option.splits if_splits)
qed simp

lemma len_one: "len xs = 1 \<Longrightarrow> \<exists>x. xs = [x]"
  by (cases xs; cases "tl xs") (auto simp: len_length)

lemma listener_loop_facts:
  assumes "listener_loop field s ports ls = Inr (ports', ls')" and "distinct ports"
  shows "mset ports' = mset ports + mset (map tcp_Port ls') \<and> distinct ports'
    \<and> (\<forall>l \<in> set ls'. listener_ok s l)"
  using assms
proof (induction field s ports ls arbitrary: ports' ls' rule: listener_loop.induct)
  case (2 field s ports l ls)
  obtain cidrs ls'' where
    c: "tcp_Port l \<notin> set ports" "ValidPublicTCPPort (tcp_Port l)"
      "\<not> (sv_Public s \<and> tcp_TargetPort l = sv_Port s)" "len (backend_matches s (tcp_TargetPort l)) = 1"
      "1 \<le> len (tcp_SourceCIDRs l)" "len (tcp_SourceCIDRs l) \<le> 16"
      "cidr_loop (field @ ''.source_cidrs'') [] (tcp_SourceCIDRs l) = Inr cidrs"
    and rest: "listener_loop field s (tcp_Port l # ports) ls = Inr (ports', ls'')"
    and ls': "ls' = l\<lparr>tcp_SourceCIDRs := sort cidrs\<rparr> # ls''"
    using 2(2) by (auto simp: result_iff)
  have ok: "listener_ok s (l\<lparr>tcp_SourceCIDRs := sort cidrs\<rparr>)"
    using c cidr_loop_facts [OF c(7)] len_one [OF c(4)] by (simp add: listener_ok_def len_length)
  have "distinct (tcp_Port l # ports)" using c(1) 2(3) by simp
  from 2(1) [OF c(7) rest this] ok show ?case by (simp add: ls')
qed simp

lemma ServicePorts_tcp [simp]: "ServicePorts (s\<lparr>sv_PublicTCP := ls\<rparr>) = ServicePorts s"
  by (simp add: ServicePorts_def)

lemma listener_ok_tcp [simp]: "listener_ok (s\<lparr>sv_PublicTCP := ls\<rparr>) l = listener_ok s l"
  by (simp add: listener_ok_def backend_matches_def)

lemma tcp_fold:
  assumes "foldE public_tcp_service (ports, a) ns = Inr (ports', b)"
    and "distinct ns" "set ns \<subseteq> set (gm_keys (app_services a))" "gm_wf (app_services a)" "distinct ports"
  shows "same_tables a b \<and> gm_wf (app_services b) \<and> distinct ports'
    \<and> (\<forall>m. m \<notin> set ns \<longrightarrow> service_at b m = service_at a m)
    \<and> mset ports' = mset ports + mset (concat (map (\<lambda>n. map tcp_Port (sv_PublicTCP (service_at b n))) ns))
    \<and> (\<forall>n \<in> set ns. service_at b n = (service_at a n)\<lparr>sv_PublicTCP := sv_PublicTCP (service_at b n)\<rparr>
         \<and> (\<forall>l \<in> set (sv_PublicTCP (service_at b n)). listener_ok (service_at b n) l)
         \<and> sorted (map tcp_Port (sv_PublicTCP (service_at b n))))"
  using assms
proof (induction ns arbitrary: ports a)
  case (Cons n ns)
  let ?s = "service_at a n"
  obtain ports1 ls where l: "listener_loop (''services.'' @ n @ ''.public_tcp'') ?s ports (sv_PublicTCP ?s) = Inr (ports1, ls)"
    and rest: "foldE public_tcp_service (ports1, put_service n (?s\<lparr>sv_PublicTCP := sort_key tcp_Port ls\<rparr>) a) ns = Inr (ports', b)"
    using Cons.prems(1) by (auto simp: public_tcp_service_def Let_def result_iff)
  let ?t = "?s\<lparr>sv_PublicTCP := sort_key tcp_Port ls\<rparr>"
  let ?c = "put_service n ?t a"
  have has: "gm_has (app_services a) n" using Cons.prems(3) by (simp add: gm_has_keys)
  note put = same_tables_put [OF same_tables_refl Cons.prems(4) has, of ?t]
  have keys: "gm_keys (app_services ?c) = gm_keys (app_services a)" using put(1) by (simp add: same_tables_def)
  note lf = listener_loop_facts [OF l Cons.prems(5)]
  have IH: "same_tables ?c b \<and> gm_wf (app_services b) \<and> distinct ports'
    \<and> (\<forall>m. m \<notin> set ns \<longrightarrow> service_at b m = service_at ?c m)
    \<and> mset ports' = mset ports1 + mset (concat (map (\<lambda>n. map tcp_Port (sv_PublicTCP (service_at b n))) ns))
    \<and> (\<forall>n \<in> set ns. service_at b n = (service_at ?c n)\<lparr>sv_PublicTCP := sv_PublicTCP (service_at b n)\<rparr>
         \<and> (\<forall>l \<in> set (sv_PublicTCP (service_at b n)). listener_ok (service_at b n) l)
         \<and> sorted (map tcp_Port (sv_PublicTCP (service_at b n))))"
    using Cons.IH [OF rest] Cons.prems(2,3) keys put(2) lf by auto
  have bn: "service_at b n = ?t" using IH Cons.prems(2) by simp
  have ms: "mset (map tcp_Port (sort_key tcp_Port ls)) = mset (map tcp_Port ls)"
    by (simp add: mset_map)
  have others: "service_at ?c m = service_at a m" if "m \<in> set ns" for m
    using that Cons.prems(2) by auto
  have st: "same_tables a b" using IH put(1) same_tables_trans by blast
  have all: "service_at b m = (service_at a m)\<lparr>sv_PublicTCP := sv_PublicTCP (service_at b m)\<rparr>
         \<and> (\<forall>l \<in> set (sv_PublicTCP (service_at b m)). listener_ok (service_at b m) l)
         \<and> sorted (map tcp_Port (sv_PublicTCP (service_at b m)))" if "m \<in> set (n # ns)" for m
  proof (cases "m = n")
    case True
    then show ?thesis using bn lf by simp
  next
    case False
    then show ?thesis using that IH others [of m] by auto
  qed
  show ?case using IH st all lf ms bn by (simp add: ac_simps)
qed simp

section \<open>From the input to the stored application\<close>

lemma later_Names: "later a b \<Longrightarrow> Names b = Names a"
  by (simp add: later_def Names_def)

lemma same_tables_Names: "same_tables a b \<Longrightarrow> Names b = Names a"
  by (simp add: same_tables_def Names_def)

lemma tcp_moved: "t = s\<lparr>sv_PublicTCP := ls\<rparr> \<Longrightarrow> moved s t"
  unfolding moved_def
  by (rule exI [of _ "sv_NodeName s"], rule exI [of _ "sv_Architecture s"], rule exI [of _ "sv_Ports s"],
      rule exI [of _ "sv_NetworkAccess s"], rule exI [of _ "sv_Readiness s"], rule exI [of _ ls]) simp

lemma tcp_step:
  assumes run: "validatePublicTCP a = Inr b" and wf: "gm_wf (app_services a)"
  shows "later a b" and "app_Volumes b = app_Volumes a"
    and "distinct (concat (map (\<lambda>n. map tcp_Port (sv_PublicTCP (service_at b n))) (Names b)))"
    and "len (concat (map (\<lambda>n. map tcp_Port (sv_PublicTCP (service_at b n))) (Names b))) \<le> 64"
    and "n \<in> set (Names b) \<Longrightarrow> l \<in> set (sv_PublicTCP (service_at b n)) \<Longrightarrow> listener_ok (service_at b n) l"
    and tcp_keeps_access: "sv_NetworkAccess (service_at b k) = sv_NetworkAccess (service_at a k)"
    and tcp_keeps_place: "sv_NodeName (service_at b k) = sv_NodeName (service_at a k)"
      "sv_Architecture (service_at b k) = sv_Architecture (service_at a k)"
proof -
  have d: "distinct (Names a)" "set (Names a) \<subseteq> set (gm_keys (app_services a))"
    by (simp_all add: Names_def gm_keys_distinct [OF wf])
  obtain ports where f: "foldE public_tcp_service ([], a) (Names a) = Inr (ports, b)" and l: "len ports \<le> 64"
    using run by (auto simp: validatePublicTCP_def bindE_Inr split: if_splits)
  note tf = tcp_fold [OF f d wf, simplified]
  have st: "same_tables a b" using tf by blast
  have n: "Names b = Names a" by (rule same_tables_Names [OF st])
  let ?all = "concat (map (\<lambda>n. map tcp_Port (sv_PublicTCP (service_at b n))) (Names b))"
  have ms: "mset ports = mset ?all" and dp: "distinct ports"
    using tcp_fold [OF f d wf] by (simp_all add: n)
  show "distinct ?all" using ms dp mset_eq_imp_distinct_iff by blast
  have "length ?all = length ports" using ms by (metis size_mset)
  then show "len ?all \<le> 64" using l by (simp add: len_length)
  have at: "service_at b m = (service_at a m)\<lparr>sv_PublicTCP := sv_PublicTCP (service_at b m)\<rparr>
      \<and> (\<forall>l \<in> set (sv_PublicTCP (service_at b m)). listener_ok (service_at b m) l)" if "m \<in> set (Names a)" for m
    using tcp_fold [OF f d wf] that by (simp del: set_Names)
  show "n \<in> set (Names b) \<Longrightarrow> l \<in> set (sv_PublicTCP (service_at b n)) \<Longrightarrow> listener_ok (service_at b n) l"
    using at [of n] n by simp
  have same: "\<exists>ls. service_at b k = (service_at a k)\<lparr>sv_PublicTCP := ls\<rparr>"
  proof (cases "k \<in> set (Names a)")
    case True
    then show ?thesis using at [OF True] by blast
  next
    case False
    then have "service_at b k = service_at a k" using tcp_fold [OF f d wf] by (simp del: set_Names)
    then show ?thesis by (intro exI [of _ "sv_PublicTCP (service_at a k)"]) simp
  qed
  then show "sv_NetworkAccess (service_at b k) = sv_NetworkAccess (service_at a k)"
    "sv_NodeName (service_at b k) = sv_NodeName (service_at a k)"
    "sv_Architecture (service_at b k) = sv_Architecture (service_at a k)"
    by (elim exE, simp)+
  have "moved (service_at a m) (service_at b m)" for m
  proof (cases "m \<in> set (Names a)")
    case True
    show ?thesis by (rule tcp_moved) (use at [OF True] in blast)
  next
    case False
    have "service_at b m = service_at a m" using tcp_fold [OF f d wf] False by (simp del: set_Names)
    then show ?thesis by simp
  qed
  then show "later a b" using same_tables_fields [OF st] tf by (simp add: later_def)
  show "app_Volumes b = app_Volumes a" by (rule same_tables_fields(9) [OF st])
qed

text \<open>The whole run: the header, the loop over the services, then steps that only move fields.\<close>

lemma Normalize_run:
  assumes "Normalize ex a0 = Inr b" and "wf_app a0"
  obtains a1 a2 a3 a4 a5 where
    "normalize_header ex a0 = Inr a1" "foldE (normalize_named ex) a1 (Names a1) = Inr a2"
    "validateNamedStorage ex a2 = Inr a3" "validateBindings a3 = Inr ()"
    "validateNetworkAccess ex a3 = Inr a4" "validateHTTPEndpoints ex a4 = Inr ()"
    "foldE (ready_named ex) a4 (Names a4) = Inr a5" "validatePublicTCP a5 = Inr b"
    "is_ok (Order b)"
    "app_services a1 = app_services a0" "same_tables a1 a2"
    "later a2 a3" "later a3 a4" "later a4 a5" "later a5 b"
    "gm_wf (app_services a2)" "gm_wf (app_services a3)" "gm_wf (app_services a4)" "gm_wf (app_services a5)"
proof -
  obtain a1 a2 a3 a4 a5 order where s: "normalize_header ex a0 = Inr a1" "foldE (normalize_named ex) a1 (Names a1) = Inr a2"
    "validateNamedStorage ex a2 = Inr a3" "validateBindings a3 = Inr ()"
    "validateNetworkAccess ex a3 = Inr a4" "validateHTTPEndpoints ex a4 = Inr ()"
    "foldE (ready_named ex) a4 (Names a4) = Inr a5" "validatePublicTCP a5 = Inr b" "Order b = Inr order"
    using Normalize_steps [OF assms(1)] by metis
  have sv: "app_services a1 = app_services a0" using header_facts(1) [OF s(1)] by simp
  then have w1: "gm_wf (app_services a1)" using assms(2) by (simp add: wf_app_def)
  note l2 = services_loop [OF s(2) w1]
  obtain vs gs where l3: "later a2 a3" "gm_wf (app_services a3)" using storage_step [OF s(3) l2(2)] by metis
  have l4: "later a3 a4" by (rule access_step(1) [OF s(5) l3(2)])
  then have w4: "gm_wf (app_services a4)" using l3(2) by (simp add: later_def)
  have l5: "later a4 a5" by (rule ready_step(1) [OF s(7) w4])
  then have w5: "gm_wf (app_services a5)" using w4 by (simp add: later_def)
  have "is_ok (Order b)" using s(9) by (simp add: is_ok_def)
  with that [OF s(1-8)] sv l2(1,2) l3 l4 l5 tcp_step(1) [OF s(8) w5] w4 w5 show thesis by blast
qed

lemma Normalize_later:
  assumes "Normalize ex a0 = Inr b" and "wf_app a0"
  shows "\<exists>a1 a2. normalize_header ex a0 = Inr a1 \<and> foldE (normalize_named ex) a1 (Names a1) = Inr a2
    \<and> app_services a1 = app_services a0 \<and> same_tables a1 a2 \<and> later a2 b \<and> Names b = Names a0
    \<and> gm_wf (app_services a1)"
proof -
  obtain a1 a2 a3 a4 a5 where r: "normalize_header ex a0 = Inr a1" "foldE (normalize_named ex) a1 (Names a1) = Inr a2"
    "app_services a1 = app_services a0" "same_tables a1 a2" "later a2 a3" "later a3 a4" "later a4 a5" "later a5 b"
    using Normalize_run [OF assms] by metis
  then have l: "later a2 b" using later_trans by blast
  have "Names b = Names a0"
    using later_Names [OF l] same_tables_Names [OF r(4)] r(3) by (simp add: Names_def)
  moreover have "gm_wf (app_services a1)" using assms(2) r(3) by (simp add: wf_app_def)
  ultimately show ?thesis using r(1-4) l by blast
qed

lemma Normalize_service_ok:
  assumes "Normalize ex a0 = Inr b" and "wf_app a0" and "n \<in> set (Names b)"
  shows "service_ok b n (service_at b n)"
proof -
  obtain a1 a2 where r: "foldE (normalize_named ex) a1 (Names a1) = Inr a2" "app_services a1 = app_services a0"
    "later a2 b" "Names b = Names a0" "gm_wf (app_services a1)"
    using Normalize_later [OF assms(1,2)] by blast
  have "Names a1 = Names b" using r(2,4) by (simp add: Names_def)
  then have "n \<in> set (Names a1)" using assms(3) by (simp del: set_Names)
  with services_loop(4) [OF r(1,5)] have "service_ok a2 n (service_at a2 n)" by blast
  then show ?thesis by (rule later_ok [OF r(3)])
qed

text \<open>What an author wrote and \<open>Normalize\<close> stores as it is.\<close>

definition stored_core :: "Service \<Rightarrow> Service \<Rightarrow> bool" where
  "stored_core s t \<longleftrightarrow>
     sv_Env t = sv_Env s \<and> sv_Secrets t = sv_Secrets s \<and> sv_Bindings t = sv_Bindings s
     \<and> sv_Command t = sv_Command s \<and> sv_Args t = sv_Args s \<and> sv_Port t = sv_Port s \<and> sv_Public t = sv_Public s
     \<and> sv_Volume t = sv_Volume s \<and> sv_Mounts t = sv_Mounts s \<and> sv_TemporaryMounts t = sv_TemporaryMounts s
     \<and> sv_CertificateMounts t = sv_CertificateMounts s \<and> sv_HTTP t = sv_HTTP s \<and> sv_TLS t = sv_TLS s
     \<and> sv_RunAsUser t = sv_RunAsUser s \<and> sv_RunAsGroup t = sv_RunAsGroup s \<and> sv_FSGroup t = sv_FSGroup s
     \<and> sv_ReadOnlyRootFilesystem t = sv_ReadOnlyRootFilesystem s \<and> sv_Suspended t = sv_Suspended s
     \<and> sv_AWSIdentity t = sv_AWSIdentity s \<and> sv_ContainerDaemon t = sv_ContainerDaemon s
     \<and> sv_RuntimeProfile t = sv_RuntimeProfile s \<and> sv_NodeProfile t = sv_NodeProfile s
     \<and> sv_RegistryCredential t = sv_RegistryCredential s \<and> sv_CustomHostnames t = sv_CustomHostnames s
     \<and> sv_UpdateStrategy t = sv_UpdateStrategy s \<and> sv_Healthcheck t = sv_Healthcheck s
     \<and> sv_DatabaseClientProfiles t = sv_DatabaseClientProfiles s \<and> sv_GPU t = sv_GPU s
     \<and> sv_WorkingDir t = sv_WorkingDir s \<and> sv_TerminationGraceSeconds t = sv_TerminationGraceSeconds s
     \<and> sv_StartupTimeoutSeconds t = sv_StartupTimeoutSeconds s \<and> sv_RestartNonce t = sv_RestartNonce s
     \<and> sv_BackendHTTP2 t = sv_BackendHTTP2 s \<and> sv_IngressTimeoutSeconds t = sv_IngressTimeoutSeconds s
     \<and> (sv_Session t = None \<longleftrightarrow> sv_Session s = None) \<and> (sv_Actions t = None \<longleftrightarrow> sv_Actions s = None)
     \<and> (sv_Serverless t = None \<longleftrightarrow> sv_Serverless s = None) \<and> (sv_Job t = None \<longleftrightarrow> sv_Job s = None)"

lemma stored_core_moved:
  assumes "same_core s t" "same_modes s t" "moved t u"
  shows "stored_core s u"
proof -
  obtain nn ar po na rd tc where u: "u = t\<lparr>sv_NodeName := nn, sv_Architecture := ar, sv_Ports := po,
     sv_NetworkAccess := na, sv_Readiness := rd, sv_PublicTCP := tc\<rparr>"
    using assms(3) unfolding moved_def by blast
  show ?thesis using assms(1,2) by (simp add: u stored_core_def same_core_def same_modes_def)
qed

lemma Normalize_frame:
  assumes "Normalize ex a = Inr b" and "wf_app a"
  shows "app_Name b = app_Name a \<and> app_Env b = app_Env a \<and> app_Secrets b = app_Secrets a
    \<and> app_InjectEnv b = app_InjectEnv a \<and> app_Domains b = app_Domains a \<and> app_Recovery b = app_Recovery a
    \<and> app_Networks b = with_default_network (app_Networks a) \<and> Names b = Names a
    \<and> (\<forall>n \<in> set (Names a). stored_core (service_at a n) (service_at b n))"
proof -
  obtain a1 a2 where r: "normalize_header ex a = Inr a1" "foldE (normalize_named ex) a1 (Names a1) = Inr a2"
    "app_services a1 = app_services a" "same_tables a1 a2" "later a2 b" "Names b = Names a" "gm_wf (app_services a1)"
    using Normalize_later [OF assms] by blast
  have n: "Names a1 = Names a" using r(3) by (simp add: Names_def)
  have at: "service_at a1 m = service_at a m" for m using r(3) by (simp add: service_at_def)
  have "stored_core (service_at a m) (service_at b m)" if "m \<in> set (Names a)" for m
    using services_loop(3) [OF r(2,7)] that r(5) stored_core_moved
    unfolding n at later_def by blast
  then show ?thesis
    using r(5) same_tables_fields [OF r(4)] header_facts(1) [OF r(1)] r(6) by (simp add: later_def)
qed

lemma Normalize_ordered:
  assumes "Normalize ex a = Inr b" and "wf_app a"
  shows "\<exists>order. Order b = Inr order \<and> distinct order \<and> set order = set (Names b)
    \<and> (\<forall>xs n ys. order = xs @ n # ys \<longrightarrow> set (sv_DependsOn (service_at b n)) \<subseteq> set xs)"
proof -
  obtain order where o: "Order b = Inr order" using Normalize_steps [OF assms(1)] by metis
  obtain a2 where l: "later a2 b" "gm_wf (app_services a2)" using Normalize_run [OF assms] later_trans by metis
  have wf: "gm_wf (app_services b)" using l by (simp add: later_def)
  have dec: "set (deps_of b n) \<subseteq> set (Names b)" if "gm_has (app_services b) n" for n
    using Normalize_service_ok [OF assms, of n] that
    by (auto simp: service_ok_def membership_ok_def deps_of_def dependency_target_iff gm_has_def)
  from Order_success [OF o] Order_declared [OF o wf dec] o show ?thesis
    by (auto simp: deps_of_def simp del: set_Names)
qed

end
