(* ===== verification/Spec_Demo.thy ===== *)
theory Spec_Demo
  imports Spec_Sound
begin

text \<open>
  One concrete application and one concrete instance of the parameters, at which the
  properties of \<open>Normalize\<close> are applied: a database and a backup service on one shared
  volume, and a public web service with a binding, a TCP listener and a health check.
  Quantities are whole numbers of milli-units, read and shown in decimal.
\<close>

section \<open>An instance of the parameters\<close>

definition demo_parse :: "string \<Rightarrow> int option" where
  "demo_parse v =
     (let d = takeWhile is_digit v; r = dropWhile is_digit v in
      if d = [] then None
      else case read_digits 0 d of
          None \<Rightarrow> None
        | Some n \<Rightarrow>
            if r = ''m'' then Some n
            else if r = [] then Some (n * 1000)
            else if r = ''Mi'' then Some (n * 1048576000)
            else if r = ''Gi'' then Some (n * 1073741824000)
            else None)"

definition demo_show :: "int \<Rightarrow> string" where
  "demo_show q = Itoa q @ ''m''"

definition demo_ex :: "int externals" where
  "demo_ex = \<lparr>ex_parse = demo_parse, ex_cmp = (\<lambda>a b. a - b), ex_add = (+), ex_show = demo_show,
     ex_dns_label = runtimeName,
     ex_dns_subdomain = (\<lambda>s. list_all runtimeName (Split (CHR ''.'') s)),
     ex_port_name = (\<lambda>s. runtimeName s \<and> length s \<le> 15),
     ex_cron = (\<lambda>s. s \<noteq> []), ex_location = (\<lambda>s. s = ''UTC''),
     ex_yaml = (\<lambda>s. None), ex_idna = Some\<rparr>"

section \<open>An application\<close>

definition demo_db :: Service where
  "demo_db = zero_Service\<lparr>sv_Image := ''postgres:16'', sv_Port := 5432, sv_NodeName := ''node-1'',
     sv_Mounts := [\<lparr>mnt_Volume = ''data'', mnt_MountPath = ''/data'', mnt_ReadOnly = False, mnt_SubPath = []\<rparr>]\<rparr>"

definition demo_backup :: Service where
  "demo_backup = zero_Service\<lparr>sv_Image := ''backup:2'', sv_DependsOn := [''db''],
     sv_Mounts := [\<lparr>mnt_Volume = ''data'', mnt_MountPath = ''/source'', mnt_ReadOnly = True, mnt_SubPath = []\<rparr>],
     sv_TemporaryMounts := [\<lparr>tmp_MountPath = ''/scratch'', tmp_SizeMiB = 64, tmp_Memory = False\<rparr>]\<rparr>"

definition demo_binding :: Binding where
  "demo_binding = \<lparr>bind_ExternalDatabase = [], bind_ExternalDatabaseRevision = 0, bind_ManagedDatabase = [],
     bind_Endpoint = [], bind_ClusterAware = False, bind_Service = ''db'', bind_Protocol = ''postgres'',
     bind_Database = ''app'', bind_Username = ''app'',
     bind_Password = Some (zero_SecretRef\<lparr>ref_Ref := ''pg''\<rparr>), bind_SSLMode = []\<rparr>"

definition demo_web :: Service where
  "demo_web = zero_Service\<lparr>sv_Image := ''web:1'', sv_Port := 8081, sv_Public := True, sv_DependsOn := [''db''],
     sv_Healthcheck := ''/readyz'', sv_Env := [(''MODE'', ''prod'')],
     sv_Secrets := [(''SESSION_SIGNING'', zero_SecretRef\<lparr>ref_Ref := ''session''\<rparr>)],
     sv_Ports := [\<lparr>port_Name = ''smtp'', port_Port = 25, port_TargetPort = 2525, port_Protocol = ''tcp''\<rparr>],
     sv_PublicTCP := [\<lparr>tcp_Port = 2525, tcp_TargetPort = 2525, tcp_SourceCIDRs = [''10.1.2.3/8'']\<rparr>],
     sv_Bindings := [(''DATABASE_URL'', demo_binding)]\<rparr>"

definition demo_app :: Application where
  "demo_app = zero_Application\<lparr>app_Name := ''shop'',
     app_Services := Some [(''backup'', demo_backup), (''db'', demo_db), (''web'', demo_web)],
     app_Volumes := [(''data'', \<lparr>nvol_SizeGiB = 10, nvol_StorageClass = [], nvol_AccessMode = []\<rparr>)],
     app_Env := [(''REGION'', ''eu'')], app_InjectEnv := True\<rparr>"

lemma demo_wf: "wf_app demo_app"
  by code_simp

definition demo_shared :: "Application \<Rightarrow> bool" where
  "demo_shared b \<longleftrightarrow> Names b = [''backup'', ''db'', ''web''] \<and> confines b ''data''
     \<and> list_all (\<lambda>n. ''data'' \<in> set (map mnt_Volume (sv_Mounts (service_at b n)))) [''backup'', ''db'']
     \<and> sv_Bindings (service_at b ''web'') = [(''DATABASE_URL'', demo_binding)]"

lemma demo_small: "json_bound (json_Application demo_app) \<le> 262144"
  by code_simp

lemma demo_copy: "case normalize_copy demo_ex demo_app of Inl e \<Rightarrow> False | Inr b \<Rightarrow> demo_shared b"
  by code_simp

lemma demo_result: "case Normalize demo_ex demo_app of Inl e \<Rightarrow> False | Inr b \<Rightarrow> demo_shared b"
  using demo_copy by (simp add: Normalize_small [OF demo_small])

lemma demo_run: "\<exists>b. Normalize demo_ex demo_app = Inr b \<and> demo_shared b"
  using demo_result by (cases "Normalize demo_ex demo_app") auto

lemma demo_names: "Names demo_app = [''backup'', ''db'', ''web'']"
  by code_simp

end
