(* ===== verification/Spec_Cross.thy ===== *)
theory Spec_Cross
  imports Spec_Sound
begin

text \<open>
  Facts of an accepted application that span several services: bindings whose target network
  access lets their owner reach, and one placement for the services of a storage group. Each
  step of \<open>Normalize\<close> after the one that establishes the fact keeps it.
\<close>

section \<open>Bindings\<close>

lemma later_peers:
  assumes "later c d" and "\<And>k. sv_NetworkAccess (service_at d k) = sv_NetworkAccess (service_at c k)"
  shows "AllowsPeer d x y \<longleftrightarrow> AllowsPeer c x y"
proof (cases "gm_has (app_services c) x \<and> gm_has (app_services c) y")
  case True
  then have "gm_has (app_services d) x \<and> gm_has (app_services d) y" by (simp add: later_has [OF assms(1)])
  with True have g: "gm_get (app_services c) x = Some (service_at c x)" "gm_get (app_services c) y = Some (service_at c y)"
    "gm_get (app_services d) x = Some (service_at d x)" "gm_get (app_services d) y = Some (service_at d y)"
    by (simp_all add: service_at_get)
  have nets: "sv_networks (service_at d z) = sv_networks (service_at c z)" for z
    using assms(1) by (simp add: later_def moved_core)
  show ?thesis by (simp add: allows_peer_iff [OF g(1,2)] allows_peer_iff [OF g(3,4)] nets assms(2))
next
  case False
  then have "\<not> (gm_has (app_services d) x \<and> gm_has (app_services d) y)" by (simp add: later_has [OF assms(1)])
  with False show ?thesis
    by (metis allows_peer_none gm_has_def)
qed

lemma validateBindings_at:
  assumes "validateBindings a = Inr ()" "n \<in> set (Names a)" "gm_wf (app_services a)"
    and "(k, d) \<in> set (sv_Bindings (service_at a n))"
  shows "validateBinding a n (service_at a n) k d = Inr ()"
proof -
  have "gm_get (app_services a) n = Some (service_at a n)"
    using assms(2) by (intro service_at_get) (auto simp: gm_has_def)
  then have "(n, service_at a n) \<in> set (app_services a)" using assms(3) by (simp add: gm_get_in)
  with assms(1) have "validateServiceBindings a n (service_at a n) = Inr ()"
    unfolding validateBindings_def forE_Inr by fastforce
  with assms(4) show ?thesis
    unfolding validateServiceBindings_def andE_Inr forE_Inr by fastforce
qed

lemma Normalize_binding_at:
  assumes "Normalize ex a = Inr b" and "wf_app a"
    and "n \<in> set (Names b)" and "(k, d) \<in> set (sv_Bindings (service_at b n))"
  shows "\<not> gm_has (sv_Env (service_at b n)) k \<and> \<not> gm_has (sv_Secrets (service_at b n)) k
    \<and> (bind_ExternalDatabase d = [] \<and> bind_ManagedDatabase d = [] \<and> bind_Service d \<noteq> [] \<longrightarrow>
        AllowsPeer b n (bind_Service d) \<and> sv_Port (service_at b (bind_Service d)) \<noteq> 0)"
proof -
  obtain a3 a4 a5 where r: "validateBindings a3 = Inr ()" "validateNetworkAccess ex a3 = Inr a4"
    "later a3 a4" "later a4 a5" "later a5 b" "gm_wf (app_services a3)"
    "foldE (ready_named ex) a4 (Names a4) = Inr a5" "validatePublicTCP a5 = Inr b"
    "gm_wf (app_services a4)" "gm_wf (app_services a5)"
    using Normalize_run [OF assms(1,2)] by metis
  have l: "later a3 b" using r(3-5) later_trans by blast
  have mv: "moved (service_at a3 m) (service_at b m)" for m using l by (simp add: later_def)
  note core = moved_core [OF mv]
  have n: "n \<in> set (Names a3)" using assms(3) later_Names [OF l] by simp
  have v: "validateBinding a3 n (service_at a3 n) k d = Inr ()"
    using validateBindings_at [OF r(1) n r(6)] assms(4) by (simp add: core)
  have peers: "AllowsPeer b n m \<longleftrightarrow> AllowsPeer a3 n m" for m
  proof -
    have k5: "sv_NetworkAccess (service_at a5 k) = sv_NetworkAccess (service_at a4 k)" for k
    proof (cases "k \<in> set (Names a4)")
      case True
      from readiness_frame [OF ready_step(2) [OF r(7,9) True]] show ?thesis by auto
    next
      case False
      then have "\<not> gm_has (app_services a4) k" by (auto simp: gm_has_def)
      then show ?thesis using r(4) by (simp add: service_at_nokey later_has)
    qed
    have kb: "sv_NetworkAccess (service_at b k) = sv_NetworkAccess (service_at a5 k)" for k
      using tcp_keeps_access [OF r(8,10)] .
    show ?thesis
      using later_peers [OF r(5) kb] later_peers [OF r(4) k5] access_step(2) [OF r(2,6)] by simp
  qed
  show ?thesis
    using validateBinding_names [OF v] validateBinding_reachable [OF v] by (simp add: core peers)
qed

section \<open>Placement\<close>

lemma mv_place:
  assumes "foldE (ready_named ex) a (Names a) = Inr b" "gm_wf (app_services a)"
  shows "sv_NodeName (service_at b k) = sv_NodeName (service_at a k)"
    and "sv_Architecture (service_at b k) = sv_Architecture (service_at a k)"
proof (atomize (full), cases "k \<in> set (Names a)")
  case True
  from readiness_frame [OF ready_step(2) [OF assms True]]
  show "sv_NodeName (service_at b k) = sv_NodeName (service_at a k)
    \<and> sv_Architecture (service_at b k) = sv_Architecture (service_at a k)" by auto
next
  case False
  then have "\<not> gm_has (app_services a) k" by (auto simp: gm_has_def)
  then show "sv_NodeName (service_at b k) = sv_NodeName (service_at a k)
    \<and> sv_Architecture (service_at b k) = sv_Architecture (service_at a k)"
    using ready_step(1) [OF assms] by (simp add: service_at_nokey later_has)
qed

lemma shares_cong:
  assumes "Names b = Names a" "app_Volumes b = app_Volumes a"
    and "\<And>n. sv_Mounts (service_at b n) = sv_Mounts (service_at a n)"
  shows "shares_volume b = shares_volume a"
  using assms by (simp add: shares_volume_def uses_volume_def confines_def)

lemma Normalize_placed:
  assumes "Normalize ex a = Inr b" and "wf_app a"
    and "n \<noteq> m" and "(n, m) \<in> (shares_volume b)\<^sup>*"
  shows "sv_NodeName (service_at b n) = sv_NodeName (service_at b m)
    \<and> sv_Architecture (service_at b n) = sv_Architecture (service_at b m)
    \<and> (sv_NodeName (service_at a n) \<noteq> [] \<longrightarrow> sv_NodeName (service_at b n) = sv_NodeName (service_at a n))
    \<and> (sv_Architecture (service_at a n) \<noteq> [] \<longrightarrow> sv_Architecture (service_at b n) = sv_Architecture (service_at a n))"
proof -
  obtain a1 a2 a3 a4 a5 where r: "foldE (normalize_named ex) a1 (Names a1) = Inr a2"
    "validateNamedStorage ex a2 = Inr a3" "validateNetworkAccess ex a3 = Inr a4"
    "foldE (ready_named ex) a4 (Names a4) = Inr a5" "validatePublicTCP a5 = Inr b"
    "app_services a1 = app_services a" "same_tables a1 a2"
    "later a2 a3" "later a3 a4" "later a4 a5" "later a5 b"
    "gm_wf (app_services a2)" "gm_wf (app_services a3)" "gm_wf (app_services a4)" "gm_wf (app_services a5)"
    by (rule Normalize_run [OF assms(1,2)], rule that) assumption+
  obtain vs where st: "normalizeSharedReadWriteOnce (a2\<lparr>app_Volumes := vs\<rparr>) = Inr a3"
    using storage_step [OF r(2,12)] by metis
  let ?a = "a2\<lparr>app_Volumes := vs\<rparr>"
  have w: "gm_wf (app_services ?a)" using r(12) by (simp add: app_services_def)
  note pl = normalizeShared_placed [OF st w]
  have at: "service_at ?a k = service_at a2 k" for k by (simp add: service_at_def app_services_def)
  have place: "sv_NodeName (service_at b k) = sv_NodeName (service_at a3 k)"
    "sv_Architecture (service_at b k) = sv_Architecture (service_at a3 k)" for k
    using access_step(4,5) [OF r(3,13)] mv_place [OF r(4,14)] tcp_keeps_place [OF r(5,15)] by simp_all
  have lb: "later a2 b" using r(8-11) later_trans by blast
  have "shares_volume b = shares_volume ?a"
  proof (rule shares_cong)
    show "Names b = Names ?a" using later_Names [OF lb] by (simp add: Names_def app_services_def)
    show "app_Volumes b = app_Volumes ?a"
      using tcp_step(2) [OF r(5,15)] ready_step(3) [OF r(4,14)] access_step(3) [OF r(3,13)]
        same_tables_fields(9) [OF pl(1)] by simp
    show "sv_Mounts (service_at b k) = sv_Mounts (service_at ?a k)" for k
      using lb moved_core(14) [of "service_at a2 k" "service_at b k"] by (simp add: later_def at)
  qed
  then obtain g where g: "g \<in> set (SharedReadWriteOnceGroups ?a)" "n \<in> set g" "m \<in> set g"
    using groups_iff_shares [OF assms(3), of ?a] assms(4) by auto
  obtain node arch where p: "\<forall>k \<in> set g. service_at a3 k = (service_at a2 k)\<lparr>sv_NodeName := node, sv_Architecture := arch\<rparr>
      \<and> (sv_NodeName (service_at a2 k) \<noteq> [] \<longrightarrow> sv_NodeName (service_at a2 k) = node)
      \<and> (sv_Architecture (service_at a2 k) \<noteq> [] \<longrightarrow> sv_Architecture (service_at a2 k) = arch)"
    using pl(3) [OF g(1)] unfolding placed_def at by blast
  have nm: "Names ?a = Names a2" by (simp add: Names_def app_services_def)
  have "n \<in> set (Names ?a)" using group_members(4) [OF g(1)] g(2) by blast
  then have n: "n \<in> set (Names a1)" by (simp only: nm same_tables_Names [OF r(7)])
  have w1: "gm_wf (app_services a1)" using assms(2) r(6) by (simp add: wf_app_def)
  have "same_core (service_at a n) (service_at a2 n)"
    using services_loop(3) [OF r(1) w1 n] r(6) by (simp add: service_at_def)
  with p g(2,3) show ?thesis by (simp add: place same_core_def)
qed

end
