(* ===== verification/Spec_Properties.thy ===== *)
theory Spec_Properties
  imports Spec_Demo Spec_Cross
begin

text \<open>
  The properties of \<open>Normalize\<close> (internal/spec), each applied to the concrete application of
  \<^theory_text>\<open>Spec_Demo\<close>. \<open>Normalize\<close> is the gate of every stored revision, so these are the facts
  the rest of the system may rely on when it reads one.
\<close>

section \<open>Each service\<close>

text \<open>
  C1. Every service of a specification that \<open>Normalize\<close> accepts satisfies the whole service
  invariant, in the stored specification: a valid name and image, ports and size in range,
  1 to 20 replicas consistent with autoscaling, serverless mode, jobs and storage, at most
  16 mounts none of which overlap, no name that is both a variable and a secret, an inherited
  environment within the limits and free of secret values, and networks and dependencies
  that exist in the stored specification, sorted and without repetition.
\<close>

theorem Normalize_services:
  assumes "Normalize ex a = Inr b" and "wf_app a"
  shows "\<forall>n \<in> set (Names b). service_ok b n (service_at b n)"
  using Normalize_service_ok [OF assms] by blast

theorem Normalize_services_witness:
  "\<exists>b. Normalize demo_ex demo_app = Inr b \<and> (\<forall>n \<in> set (Names b). service_ok b n (service_at b n))"
  using demo_run Normalize_services [OF _ demo_wf] by blast



section \<open>Exposure\<close>

text \<open>
  C3. In a stored specification no two public TCP listeners, of one service or of different
  ones, claim the same external port, none claims a port reserved for the platform, each
  forwards to exactly one declared TCP port of its service that is not the HTTP port, and
  each carries 1 to 16 distinct source networks.
\<close>

theorem Normalize_tcp_ports:
  assumes "Normalize ex a = Inr b" and "wf_app a"
  shows "distinct (concat (map (\<lambda>n. map tcp_Port (sv_PublicTCP (service_at b n))) (Names b)))
    \<and> len (concat (map (\<lambda>n. map tcp_Port (sv_PublicTCP (service_at b n))) (Names b))) \<le> 64
    \<and> (\<forall>n \<in> set (Names b). \<forall>l \<in> set (sv_PublicTCP (service_at b n)). listener_ok (service_at b n) l)"
proof -
  obtain a5 where r: "validatePublicTCP a5 = Inr b" "gm_wf (app_services a5)"
    using Normalize_run [OF assms] by metis
  from tcp_step(3,4,5) [OF r] show ?thesis by blast
qed

theorem Normalize_tcp_ports_witness:
  "\<exists>b. Normalize demo_ex demo_app = Inr b
     \<and> distinct (concat (map (\<lambda>n. map tcp_Port (sv_PublicTCP (service_at b n))) (Names b)))"
  using demo_run Normalize_tcp_ports [OF _ demo_wf] by blast

text \<open>
  C4. Every binding of a stored specification that names another service can be served: the
  target is in the application, has a primary port, and network access lets the binding's
  owner reach it; and the variable the binding generates is not also a variable or a secret
  of the service.
\<close>

theorem Normalize_bindings:
  assumes "Normalize ex a = Inr b" and "wf_app a"
    and "n \<in> set (Names b)" and "(k, d) \<in> set (sv_Bindings (service_at b n))"
  shows "\<not> gm_has (sv_Env (service_at b n)) k \<and> \<not> gm_has (sv_Secrets (service_at b n)) k
    \<and> (bind_ExternalDatabase d = [] \<and> bind_ManagedDatabase d = [] \<and> bind_Service d \<noteq> [] \<longrightarrow>
        AllowsPeer b n (bind_Service d) \<and> sv_Port (service_at b (bind_Service d)) \<noteq> 0)"
  by (rule Normalize_binding_at [OF assms])

theorem Normalize_bindings_witness:
  "\<exists>b. Normalize demo_ex demo_app = Inr b \<and> AllowsPeer b ''web'' ''db'' \<and> sv_Port (service_at b ''db'') \<noteq> 0"
proof -
  obtain b where b: "Normalize demo_ex demo_app = Inr b" and sh: "demo_shared b" using demo_run by blast
  have "''web'' \<in> set (Names b)" "(''DATABASE_URL'', demo_binding) \<in> set (sv_Bindings (service_at b ''web''))"
    using sh by (simp_all add: demo_shared_def del: set_Names)
  from Normalize_bindings [OF b demo_wf this] b show ?thesis by (auto simp: demo_binding_def)
qed

section \<open>Storage\<close>

text \<open>
  C5. Services that share ReadWriteOnce storage, directly or through other services, are
  stored with one node and one architecture, and a node or architecture that the author chose
  for one of them is the one stored for all.
\<close>

theorem Normalize_placement:
  assumes "Normalize ex a = Inr b" and "wf_app a"
    and "n \<noteq> m" and "(n, m) \<in> (shares_volume b)\<^sup>*"
  shows "sv_NodeName (service_at b n) = sv_NodeName (service_at b m)
    \<and> sv_Architecture (service_at b n) = sv_Architecture (service_at b m)
    \<and> (sv_NodeName (service_at a n) \<noteq> [] \<longrightarrow> sv_NodeName (service_at b n) = sv_NodeName (service_at a n))
    \<and> (sv_Architecture (service_at a n) \<noteq> [] \<longrightarrow> sv_Architecture (service_at b n) = sv_Architecture (service_at a n))"
  by (rule Normalize_placed [OF assms])

theorem Normalize_placement_witness:
  "\<exists>b. Normalize demo_ex demo_app = Inr b \<and> sv_NodeName (service_at b ''db'') = ''node-1''
     \<and> sv_NodeName (service_at b ''backup'') = ''node-1''"
proof -
  obtain b where b: "Normalize demo_ex demo_app = Inr b" and sh: "demo_shared b" using demo_run by blast
  have "(''db'', ''backup'') \<in> (shares_volume b)\<^sup>*"
    using sh by (auto simp: demo_shared_def shares_volume_def uses_volume_def simp del: set_Names intro!: r_into_rtrancl)
  moreover have "sv_NodeName (service_at demo_app ''db'') = ''node-1''" by code_simp
  ultimately show ?thesis using Normalize_placement [OF b demo_wf, of "''db''" "''backup''"] b by auto
qed

section \<open>The environment a container receives\<close>

text \<open>
  The environment a container receives follows one order of precedence: a generated
  binding hides everything, then the service's secret references, then its own variables,
  then the application's shared secrets, then (only when injection is on) the application's
  variables. Every other field of the service is unchanged.
\<close>

theorem effective_service_precedence:
  assumes "wf_app a" and "wf_service s" and "sv_Actions s = None"
  shows "gm_get (sv_Secrets (EffectiveService a s)) k = inherited_secret a s k
    \<and> gm_get (sv_Env (EffectiveService a s)) k = inherited_value a s k
    \<and> EffectiveService a s = s\<lparr>sv_Env := sv_Env (EffectiveService a s),
           sv_Secrets := sv_Secrets (EffectiveService a s)\<rparr>"
  using effective_secrets [OF assms] effective_env [OF assms] effective_frame by simp

theorem effective_service_precedence_witness:
  "gm_get (sv_Env (EffectiveService demo_app demo_web)) ''REGION'' = Some ''eu''
     \<and> gm_get (sv_Env (EffectiveService demo_app demo_web)) ''MODE'' = Some ''prod''
     \<and> gm_get (sv_Env (EffectiveService demo_app demo_web)) ''DATABASE_URL'' = None"
proof -
  have "wf_service demo_web" "sv_Actions demo_web = None" by code_simp+
  note p = effective_service_precedence [OF demo_wf this]
  have "inherited_value demo_app demo_web ''REGION'' = Some ''eu''"
    "inherited_value demo_app demo_web ''MODE'' = Some ''prod''"
    "inherited_value demo_app demo_web ''DATABASE_URL'' = None" by code_simp+
  then show ?thesis using p by simp
qed

text \<open>
  Expanding the defaults is final: an application whose services already carry their
  effective settings is left as it is, so running the expansion at every stage of a deployment
  gives what running it once gives.
\<close>

theorem runtime_environment_idempotent:
  assumes "wf_app a"
  shows "RuntimeEnvironment (RuntimeEnvironment a) = RuntimeEnvironment a"
  by (rule runtime_stable [OF assms])

theorem runtime_environment_idempotent_witness:
  "RuntimeEnvironment (RuntimeEnvironment demo_app) = RuntimeEnvironment demo_app"
  by (rule runtime_environment_idempotent [OF demo_wf])

section \<open>The dependency order\<close>

text \<open>
  C6. \<open>Order\<close> fails exactly when the readiness dependencies have a cycle.
\<close>

theorem order_exists_iff_acyclic: "is_ok (Order a) \<longleftrightarrow> acyclic (dep_edges a)"
  by (rule Order_acyclic)

text \<open>
  C7. Every stored specification has a dependency-first order: it lists each service once and
  each service after everything it depends on.
\<close>

theorem Normalize_order:
  assumes "Normalize ex a = Inr b" and "wf_app a"
  shows "\<exists>order. Order b = Inr order \<and> distinct order \<and> set order = set (Names b)
    \<and> (\<forall>xs n ys. order = xs @ n # ys \<longrightarrow> set (sv_DependsOn (service_at b n)) \<subseteq> set xs)"
  by (rule Normalize_ordered [OF assms])

theorem Normalize_order_witness:
  "\<exists>b order. Normalize demo_ex demo_app = Inr b \<and> Order b = Inr order \<and> set order = set (Names b)"
  using demo_run Normalize_order [OF _ demo_wf] by blast

end
