(* ===== verification/Spec_Diff.thy ===== *)
theory Spec_Diff
  imports Spec_Environment Spec_Lifecycle
begin

text \<open>
  What a reviewer is shown of a change: \<open>Diff\<close>, \<open>changedKeys\<close>, \<open>redact\<close> and \<open>Warnings\<close>
  (spec.go) and \<open>redactSidecars\<close> (sidecars.go). The code passes field values as \<open>any\<close>; here
  \<^theory_text>\<open>diff_value\<close> has one constructor per dynamic type, so that \<open>reflect.DeepEqual\<close> is equality
  and the type switch of \<open>redact\<close> is a case distinction. A nil and an empty slice or map are
  one value, as everywhere in the model.
\<close>

section \<open>Values and changes\<close>

datatype diff_value =
    VNil
  | VBool bool
  | VInt int
  | VStr string
  | VStrs "string list"
  | VStrsOpt "string list option"
  | VStrMap "string gomap"
  | VSecrets "SecretRef gomap"
  | VRecovery "RecoveryPolicy option"
  | VNetworks "Network gomap"
  | VVolumes "NamedVolume gomap"
  | VJob "Job option"
  | VBindings "Binding gomap"
  | VHTTP "HTTPEndpoint gomap"
  | VPorts "Port list"
  | VListeners "PublicTCPListener list"
  | VAccess "NetworkAccess option"
  | VResources "Resources option"
  | VReadiness "Readiness option"
  | VHostnames "CustomHostnames option"
  | VPatches "KubernetesPatches option"
  | VAutoscaling "Autoscaling option"
  | VTLS "TLSConfig option"
  | VCertificates "CertificateMount list"
  | VVolume "Volume option"
  | VMounts "Mount list"
  | VTemporary "TemporaryMount list"
  | VGPU "GPU option"
  | VServerless "Serverless option"
  | VSidecars "Sidecar list"

record Change =
  ch_Service :: string
  ch_Field :: string
  ch_Before :: diff_value
  ch_After :: diff_value
  ch_Sensitive :: bool

section \<open>Redaction\<close>

text \<open>\<open>if next, ok := after[key]; !ok || next != value { removed[key] = value }\<close>, both ways round.\<close>

definition changed_side :: "string gomap \<Rightarrow> string gomap \<Rightarrow> string gomap" where
  "changed_side kept other = filter (\<lambda>(k, v). gm_get other k \<noteq> Some v) kept"

definition changedKeys :: "string gomap \<Rightarrow> string gomap \<Rightarrow> string gomap \<times> string gomap" where
  "changedKeys before after = (changed_side before after, changed_side after before)"

definition redacted :: string where "redacted = ''[redacted]''"

definition redact_map :: "string gomap \<Rightarrow> string gomap" where
  "redact_map m = map (\<lambda>(k, v). (k, redacted)) m"

fun redact :: "diff_value \<Rightarrow> diff_value" where
  "redact (VStrMap m) = VStrMap (redact_map m)"
| "redact v = v"

definition redactSidecars :: "Sidecar list \<Rightarrow> Sidecar list" where
  "redactSidecars scs = map (\<lambda>sc. sc\<lparr>sc_Env := redact_map (sc_Env sc)\<rparr>) scs"

section \<open>Diff\<close>

fun narrow :: "diff_value \<Rightarrow> diff_value \<Rightarrow> diff_value \<times> diff_value" where
  "narrow (VStrMap before) (VStrMap after) =
     (let (removed, added) = changedKeys before after in (VStrMap removed, VStrMap added))"
| "narrow a b = (a, b)"

definition add :: "string \<Rightarrow> string \<Rightarrow> diff_value \<Rightarrow> diff_value \<Rightarrow> bool \<Rightarrow> Change list" where
  "add service field a b sensitive =
     (if a = b then []
      else if sensitive then
        (let (a', b') = narrow a b in
         [\<lparr>ch_Service = service, ch_Field = field, ch_Before = redact a', ch_After = redact b', ch_Sensitive = True\<rparr>])
      else [\<lparr>ch_Service = service, ch_Field = field, ch_Before = a, ch_After = b, ch_Sensitive = False\<rparr>])"

definition app_changes :: "Application \<Rightarrow> Application \<Rightarrow> Change list" where
  "app_changes a b =
     add [] ''inject_env'' (VBool (app_InjectEnv a)) (VBool (app_InjectEnv b)) False
     @ add [] ''env'' (VStrMap (app_Env a)) (VStrMap (app_Env b)) True
     @ add [] ''secrets'' (VSecrets (app_Secrets a)) (VSecrets (app_Secrets b)) True
     @ add [] ''recovery'' (VRecovery (app_Recovery a)) (VRecovery (app_Recovery b)) False
     @ add [] ''name'' (VStr (app_Name a)) (VStr (app_Name b)) False
     @ add [] ''networks'' (VNetworks (app_Networks a)) (VNetworks (app_Networks b)) False
     @ add [] ''volumes'' (VVolumes (app_Volumes a)) (VVolumes (app_Volumes b)) False
     @ add [] ''domains'' (VStrMap (app_Domains a)) (VStrMap (app_Domains b)) False"

definition file_changes :: "string \<Rightarrow> Service \<Rightarrow> Service \<Rightarrow> Change list" where
  "file_changes name a b =
     (if sv_Files a = sv_Files b then []
      else [\<lparr>ch_Service = name, ch_Field = ''files'', ch_Before = VStr redacted, ch_After = VStr redacted, ch_Sensitive = True\<rparr>])"

definition sidecar_changes :: "string \<Rightarrow> Service \<Rightarrow> Service \<Rightarrow> Change list" where
  "sidecar_changes name a b =
     (if sv_Sidecars a = sv_Sidecars b then []
      else [\<lparr>ch_Service = name, ch_Field = ''sidecars'', ch_Before = VSidecars (redactSidecars (sv_Sidecars a)),
             ch_After = VSidecars (redactSidecars (sv_Sidecars b)), ch_Sensitive = True\<rparr>])"

definition field_changes :: "string \<Rightarrow> Service \<Rightarrow> Service \<Rightarrow> Change list" where
  "field_changes name a b =
     add name ''image'' (VStr (sv_Image a)) (VStr (sv_Image b)) False
     @ add name ''job'' (VJob (sv_Job a)) (VJob (sv_Job b)) False
     @ add name ''bindings'' (VBindings (sv_Bindings a)) (VBindings (sv_Bindings b)) False
     @ add name ''database_client_profiles'' (VStrMap (sv_DatabaseClientProfiles a)) (VStrMap (sv_DatabaseClientProfiles b)) False
     @ add name ''http'' (VHTTP (sv_HTTP a)) (VHTTP (sv_HTTP b)) False
     @ file_changes name a b
     @ add name ''port'' (VInt (sv_Port a)) (VInt (sv_Port b)) False
     @ add name ''ports'' (VPorts (sv_Ports a)) (VPorts (sv_Ports b)) False
     @ add name ''public_tcp'' (VListeners (sv_PublicTCP a)) (VListeners (sv_PublicTCP b)) False
     @ add name ''network_access'' (VAccess (sv_NetworkAccess a)) (VAccess (sv_NetworkAccess b)) False
     @ add name ''public'' (VBool (sv_Public a)) (VBool (sv_Public b)) False
     @ add name ''size'' (VStr (sv_Size a)) (VStr (sv_Size b)) False
     @ add name ''resources'' (VResources (sv_Resources a)) (VResources (sv_Resources b)) False
     @ add name ''replicas'' (VInt (sv_Replicas a)) (VInt (sv_Replicas b)) False
     @ add name ''suspended'' (VBool (sv_Suspended a)) (VBool (sv_Suspended b)) False
     @ add name ''healthcheck'' (VStr (sv_Healthcheck a)) (VStr (sv_Healthcheck b)) False
     @ add name ''startup_timeout_seconds'' (VInt (sv_StartupTimeoutSeconds a)) (VInt (sv_StartupTimeoutSeconds b)) False
     @ add name ''readiness'' (VReadiness (sv_Readiness a)) (VReadiness (sv_Readiness b)) False
     @ add name ''backend_http2'' (VBool (sv_BackendHTTP2 a)) (VBool (sv_BackendHTTP2 b)) False
     @ add name ''ingress_timeout_seconds'' (VInt (sv_IngressTimeoutSeconds a)) (VInt (sv_IngressTimeoutSeconds b)) False
     @ add name ''custom_hostnames'' (VHostnames (sv_CustomHostnames a)) (VHostnames (sv_CustomHostnames b)) False
     @ add name ''kubernetes'' (VPatches (sv_Kubernetes a)) (VPatches (sv_Kubernetes b)) False
     @ add name ''update_strategy'' (VStr (sv_UpdateStrategy a)) (VStr (sv_UpdateStrategy b)) False
     @ add name ''env'' (VStrMap (sv_Env a)) (VStrMap (sv_Env b)) True
     @ add name ''command'' (VStrs (sv_Command a)) (VStrs (sv_Command b)) False
     @ add name ''args'' (VStrs (sv_Args a)) (VStrs (sv_Args b)) False
     @ add name ''depends_on'' (VStrs (sv_DependsOn a)) (VStrs (sv_DependsOn b)) False
     @ add name ''networks'' (VStrsOpt (sv_Networks a)) (VStrsOpt (sv_Networks b)) False
     @ add name ''private_egress'' (VStrs (sv_PrivateEgress a)) (VStrs (sv_PrivateEgress b)) False
     @ add name ''secrets'' (VSecrets (sv_Secrets a)) (VSecrets (sv_Secrets b)) True
     @ add name ''autoscaling'' (VAutoscaling (sv_Autoscaling a)) (VAutoscaling (sv_Autoscaling b)) False
     @ add name ''restart_nonce'' (VStr (sv_RestartNonce a)) (VStr (sv_RestartNonce b)) False
     @ add name ''registry_credential'' (VStr (sv_RegistryCredential a)) (VStr (sv_RegistryCredential b)) False
     @ add name ''tls'' (VTLS (sv_TLS a)) (VTLS (sv_TLS b)) False
     @ add name ''aws_identity'' (VStr (sv_AWSIdentity a)) (VStr (sv_AWSIdentity b)) False
     @ add name ''container_daemon'' (VStr (sv_ContainerDaemon a)) (VStr (sv_ContainerDaemon b)) False
     @ add name ''runtime_profile'' (VStr (sv_RuntimeProfile a)) (VStr (sv_RuntimeProfile b)) False
     @ add name ''node_profile'' (VStr (sv_NodeProfile a)) (VStr (sv_NodeProfile b)) False
     @ add name ''certificate_mounts'' (VCertificates (sv_CertificateMounts a)) (VCertificates (sv_CertificateMounts b)) False
     @ add name ''volume'' (VVolume (sv_Volume a)) (VVolume (sv_Volume b)) False
     @ add name ''mounts'' (VMounts (sv_Mounts a)) (VMounts (sv_Mounts b)) False
     @ add name ''temporary_mounts'' (VTemporary (sv_TemporaryMounts a)) (VTemporary (sv_TemporaryMounts b)) False
     @ add name ''gpu'' (VGPU (sv_GPU a)) (VGPU (sv_GPU b)) False
     @ add name ''run_as_user'' (VInt (sv_RunAsUser a)) (VInt (sv_RunAsUser b)) False
     @ add name ''run_as_group'' (VInt (sv_RunAsGroup a)) (VInt (sv_RunAsGroup b)) False
     @ add name ''fs_group'' (VInt (sv_FSGroup a)) (VInt (sv_FSGroup b)) False
     @ add name ''read_only_root_filesystem'' (VBool (sv_ReadOnlyRootFilesystem a)) (VBool (sv_ReadOnlyRootFilesystem b)) False
     @ add name ''working_dir'' (VStr (sv_WorkingDir a)) (VStr (sv_WorkingDir b)) False
     @ add name ''termination_grace_seconds'' (VInt (sv_TerminationGraceSeconds a)) (VInt (sv_TerminationGraceSeconds b)) False
     @ add name ''architecture'' (VStr (sv_Architecture a)) (VStr (sv_Architecture b)) False
     @ add name ''node_name'' (VStr (sv_NodeName a)) (VStr (sv_NodeName b)) False
     @ add name ''serverless'' (VServerless (sv_Serverless a)) (VServerless (sv_Serverless b)) False
     @ sidecar_changes name a b"

definition service_changes :: "Application \<Rightarrow> Application \<Rightarrow> string \<Rightarrow> Change list" where
  "service_changes old after name =
     (case gm_get (app_services after) name of
        None \<Rightarrow> add name ''service'' (VStr ''present'') VNil False
      | Some b \<Rightarrow>
          (if gm_has (app_services old) name then [] else add name ''service'' VNil (VStr ''added'') False)
          @ field_changes name (service_at old name) b)"

definition Diff :: "Application option \<Rightarrow> Application \<Rightarrow> Change list" where
  "Diff before after =
     (let old = (case before of None \<Rightarrow> zero_Application | Some a \<Rightarrow> a) in
      app_changes old after
      @ concat (map (service_changes old after) (sort (remdups (gm_keys (app_services old) @ gm_keys (app_services after))))))"

section \<open>Warnings\<close>

definition service_warnings :: "Application \<Rightarrow> string \<Rightarrow> string list" where
  "service_warnings a name =
     (let s = service_at a name;
          internal = list_ex (\<lambda>n. net_Internal (network_at a n)) (sv_networks s);
          external = list_ex (\<lambda>n. \<not> net_Internal (network_at a n)) (sv_networks s) in
      (case sv_Job s of
         None \<Rightarrow> []
       | Some j \<Rightarrow>
           (case job_Schedule j of
              Some sch \<Rightarrow> [name @ '': scheduled job uses '' @ sch_Timezone sch @ '' and skips overlapping runs. Pause stops future scheduling; an active run finishes independently.'']
            | None \<Rightarrow> [name @ '': deployment job must finish before dependent services start. Retries and new revisions can repeat side effects; make migrations idempotent. Rollback does not undo database changes.'']))
      @ (if sv_Files s \<noteq> [] then [name @ '': file content is stored in configuration history; use secret references for sensitive files. File updates take effect through a deployment.''] else [])
      @ (if sv_Volume s \<noteq> None \<or> sv_Mounts s \<noteq> [] then [name @ '': persistent service uses one replica and Recreate updates, with brief downtime; rollback restores configuration, not database contents. Back up data separately.''] else [])
      @ (if sv_GPU s \<noteq> None then [name @ '': requires an installed NVIDIA device plugin and matching GPU capacity; model downloads and inference have their own memory and storage costs.''] else [])
      @ (if internal \<and> external then [name @ '': membership in an egress-enabled network permits external egress even with an internal network''] else [])
      @ (if sv_BackendHTTP2 s \<and> sv_Healthcheck s \<noteq> [] then [name @ '': HTTP/2 backend keeps an HTTP/1.1 healthcheck probe; a server that only speaks HTTP/2 rejects the probe, the pod never becomes ready and the deployment fails before routing changes. Remove the healthcheck path or serve it over HTTP/1.1.''] else [])
      @ (if sv_Public s then [name @ '': public HTTP exposure; TLS requires an operator-configured certificate issuer''] else []))"

definition Warnings :: "Application \<Rightarrow> string list" where
  "Warnings a =
     (if app_Domains a \<noteq> [] then [''Custom domains are saved with this application. New domains remain inactive until you verify DNS ownership and activate them from Networking > Domains.''] else [])
     @ concat (map (service_warnings a) (Names a))"

section \<open>Facts\<close>

lemma add_Nil [simp]: "add s f a b w = [] \<longleftrightarrow> a = b"
  by (simp add: add_def split: prod.splits)

lemma in_add: "c \<in> set (add s f a b w) \<Longrightarrow> ch_Service c = s \<and> ch_Field c = f"
  by (auto simp: add_def split: if_splits prod.splits)

text \<open>What the review of a change sees of an application: all of it but the schema version and the
  runner pool and sandbox session settings.\<close>

definition reviewed_service :: "Service \<Rightarrow> Service" where
  "reviewed_service s = s\<lparr>sv_Actions := None, sv_Session := None\<rparr>"

definition reviewed :: "Application \<Rightarrow> Application" where
  "reviewed a = a\<lparr>app_SchemaVersion := 0, app_Services := Some (map (\<lambda>(n, s). (n, reviewed_service s)) (app_services a))\<rparr>"

lemma field_changes_Nil: "field_changes n a b = [] \<longleftrightarrow> reviewed_service a = reviewed_service b"
  by (cases a; cases b)
    (simp add: field_changes_def file_changes_def sidecar_changes_def reviewed_service_def, blast)

lemma app_changes_Nil:
  "app_changes a b = [] \<longleftrightarrow> a\<lparr>app_SchemaVersion := 0, app_Services := None\<rparr> = b\<lparr>app_SchemaVersion := 0, app_Services := None\<rparr>"
  by (cases a; cases b) (auto simp: app_changes_def)

lemma service_changes_Nil:
  "service_changes a b n = [] \<longleftrightarrow>
     gm_has (app_services b) n \<and> gm_has (app_services a) n \<and> reviewed_service (service_at a n) = reviewed_service (service_at b n)"
  by (auto simp: service_changes_def gm_has_def field_changes_Nil service_at_def split: option.splits)

lemma reviewed_get: "gm_get (map (\<lambda>(n, s). (n, reviewed_service s)) m) k = map_option reviewed_service (gm_get m k)"
  by (simp add: map_of_map)

lemma Diff_Nil:
  assumes "gm_wf (app_services a)" "gm_wf (app_services b)"
  shows "Diff (Some a) b = [] \<longleftrightarrow> reviewed a = reviewed b"
proof -
  let ?r = "\<lambda>a. map (\<lambda>(n, s). (n, reviewed_service s)) (app_services a)"
  have wf: "gm_wf (?r a)" "gm_wf (?r b)" using assms by simp_all
  have svc: "(\<forall>n. gm_has (app_services a) n \<or> gm_has (app_services b) n \<longrightarrow> service_changes a b n = []) \<longleftrightarrow> ?r a = ?r b"
    (is "?l \<longleftrightarrow> _")
  proof
    assume l: ?l
    have "gm_get (?r a) k = gm_get (?r b) k" for k
      using l [rule_format, of k] unfolding service_changes_Nil reviewed_get
      by (cases "gm_get (app_services a) k"; cases "gm_get (app_services b) k")
        (auto simp: gm_has_def service_at_def)
    then show "?r a = ?r b" by (rule gm_ext [OF wf])
  next
    assume eq: "?r a = ?r b"
    have k: "map_option reviewed_service (gm_get (app_services a) k) = map_option reviewed_service (gm_get (app_services b) k)" for k
      using arg_cong [OF eq, of "\<lambda>m. gm_get m k"] by (simp only: reviewed_get)
    show ?l
    proof (intro allI)
      fix k
      show "gm_has (app_services a) k \<or> gm_has (app_services b) k \<longrightarrow> service_changes a b k = []"
        using k [of k] unfolding service_changes_Nil gm_has_def service_at_def
        by (cases "gm_get (app_services a) k"; cases "gm_get (app_services b) k") auto
    qed
  qed
  have "Diff (Some a) b = [] \<longleftrightarrow> app_changes a b = []
      \<and> (\<forall>n. gm_has (app_services a) n \<or> gm_has (app_services b) n \<longrightarrow> service_changes a b n = [])"
    by (auto simp: Diff_def gm_has_keys)
  also have "\<dots> \<longleftrightarrow> reviewed a = reviewed b"
    unfolding svc app_changes_Nil by (cases a; cases b) (auto simp: reviewed_def)
  finally show ?thesis .
qed

text \<open>No change shows the value of a variable or the body of a file.\<close>

definition masked :: "diff_value \<Rightarrow> bool" where
  "masked v \<longleftrightarrow> (case v of
       VStrMap m \<Rightarrow> \<forall>(k, x) \<in> set m. x = redacted
     | VSidecars scs \<Rightarrow> \<forall>sc \<in> set scs. \<forall>(k, x) \<in> set (sc_Env sc). x = redacted
     | VStr x \<Rightarrow> x = redacted
     | _ \<Rightarrow> False)"

lemma masked_redact [simp]: "masked (VStrMap (redact_map m))" "masked (VSidecars (redactSidecars scs))" "masked (VStr redacted)"
  by (auto simp: masked_def redact_map_def redactSidecars_def)

lemma add_select:
  "filter (\<lambda>c. ch_Field c = g) (add s f a b w) = (if f = g then add s f a b w else [])"
  by (auto simp: filter_id_conv filter_empty_conv dest: in_add)

lemma field_select:
  "filter (\<lambda>c. ch_Field c = ''env'') (field_changes n a b) = add n ''env'' (VStrMap (sv_Env a)) (VStrMap (sv_Env b)) True"
  "filter (\<lambda>c. ch_Field c = ''files'') (field_changes n a b) = file_changes n a b"
  "filter (\<lambda>c. ch_Field c = ''sidecars'') (field_changes n a b) = sidecar_changes n a b"
  by (simp_all add: field_changes_def file_changes_def sidecar_changes_def add_select)

lemma app_select:
  "filter (\<lambda>c. ch_Field c = ''env'') (app_changes a b) = add [] ''env'' (VStrMap (app_Env a)) (VStrMap (app_Env b)) True"
  "filter (\<lambda>c. ch_Field c = ''files'') (app_changes a b) = []"
  "filter (\<lambda>c. ch_Field c = ''sidecars'') (app_changes a b) = []"
  by (simp_all add: app_changes_def add_select)

lemma field_service: "c \<in> set (field_changes n a b) \<Longrightarrow> ch_Service c = n"
  unfolding field_changes_def file_changes_def sidecar_changes_def
  by (auto dest: in_add split: if_splits)

lemma concat_single:
  "distinct ns \<Longrightarrow> n \<in> set ns \<Longrightarrow> (\<And>m. m \<in> set ns \<Longrightarrow> m \<noteq> n \<Longrightarrow> f m = []) \<Longrightarrow> concat (map f ns) = f n"
proof (induction ns)
  case (Cons m ns)
  show ?case
  proof (cases "m = n")
    case True
    have "concat (map f ns) = []" using Cons.prems True by (auto simp: concat_eq_Nil_conv)
    with True show ?thesis by simp
  next
    case False
    with Cons show ?thesis by auto
  qed
qed simp

lemma service_changes_service: "c \<in> set (service_changes a b n) \<Longrightarrow> ch_Service c = n"
  by (auto simp: service_changes_def dest: in_add field_service split: option.splits if_splits)

lemma app_changes_service: "c \<in> set (app_changes a b) \<Longrightarrow> ch_Service c = []"
  by (auto simp: app_changes_def dest: in_add)

lemma Diff_service:
  assumes "n \<noteq> []" and "gm_has (app_services a) n \<or> gm_has (app_services b) n"
  shows "filter (\<lambda>c. ch_Service c = n) (Diff (Some a) b) = service_changes a b n"
proof -
  let ?ns = "sort (remdups (gm_keys (app_services a) @ gm_keys (app_services b)))"
  have "filter (\<lambda>c. ch_Service c = n) (app_changes a b) = []"
    using assms(1) by (auto simp: filter_empty_conv dest: app_changes_service)
  moreover have "filter (\<lambda>c. ch_Service c = n) (concat (map (service_changes a b) ?ns))
      = concat (map (\<lambda>m. filter (\<lambda>c. ch_Service c = n) (service_changes a b m)) ?ns)"
    by (simp add: filter_concat o_def)
  moreover have "\<dots> = filter (\<lambda>c. ch_Service c = n) (service_changes a b n)"
    by (rule concat_single) (use assms(2) in \<open>auto simp: gm_has_keys filter_empty_conv dest: service_changes_service\<close>)
  moreover have "\<dots> = service_changes a b n"
    by (auto simp: filter_id_conv dest: service_changes_service)
  ultimately show ?thesis by (simp add: Diff_def)
qed

lemma changed_keys_redacted:
  assumes "gm_wf m"
  shows "redact_map (changed_side m other) = map (\<lambda>k. (k, redacted)) (filter (\<lambda>k. gm_get other k \<noteq> gm_get m k) (gm_keys m))"
proof -
  have "gm_get m k = Some v" if "(k, v) \<in> set m" for k v using that gm_get_in [OF assms] by blast
  then have "filter (\<lambda>p. gm_get other (fst p) \<noteq> Some (snd p)) m = filter (\<lambda>p. gm_get other (fst p) \<noteq> gm_get m (fst p)) m"
    by (intro filter_cong) auto
  then show ?thesis
    by (simp add: redact_map_def changed_side_def gm_keys_def filter_map o_def case_prod_beta')
qed

definition env_change :: "string \<Rightarrow> string gomap \<Rightarrow> string gomap \<Rightarrow> Change" where
  "env_change n before after =
     \<lparr>ch_Service = n, ch_Field = ''env'',
      ch_Before = VStrMap (map (\<lambda>k. (k, ''[redacted]'')) (filter (\<lambda>k. gm_get after k \<noteq> gm_get before k) (gm_keys before))),
      ch_After = VStrMap (map (\<lambda>k. (k, ''[redacted]'')) (filter (\<lambda>k. gm_get before k \<noteq> gm_get after k) (gm_keys after))),
      ch_Sensitive = True\<rparr>"

lemma add_env:
  "gm_wf a \<Longrightarrow> gm_wf b \<Longrightarrow> add n ''env'' (VStrMap a) (VStrMap b) True = (if a = b then [] else [env_change n a b])"
  by (simp add: add_def changedKeys_def env_change_def changed_keys_redacted redacted_def [symmetric])

lemma Diff_env:
  assumes "n \<noteq> []" and "gm_has (app_services a) n" and "gm_has (app_services b) n"
    and "gm_wf (sv_Env (service_at a n))" and "gm_wf (sv_Env (service_at b n))"
  shows "filter (\<lambda>c. ch_Service c = n \<and> ch_Field c = ''env'') (Diff (Some a) b) =
     (if sv_Env (service_at a n) = sv_Env (service_at b n) then []
      else [env_change n (sv_Env (service_at a n)) (sv_Env (service_at b n))])"
proof -
  have "filter (\<lambda>c. ch_Service c = n \<and> ch_Field c = ''env'') (Diff (Some a) b)
      = filter (\<lambda>c. ch_Field c = ''env'') (service_changes a b n)"
    using Diff_service [OF assms(1), of a b] assms(2) by (simp add: conj_commute flip: filter_filter)
  also have "service_changes a b n = field_changes n (service_at a n) (service_at b n)"
    using assms(2,3) by (auto simp: service_changes_def gm_has_def service_at_def split: option.splits)
  finally show ?thesis by (simp add: field_select add_env [OF assms(4,5)])
qed

lemma in_select: "c \<in> set xs \<Longrightarrow> filter (\<lambda>d. ch_Field d = f) xs = ys \<Longrightarrow> ch_Field c = f \<Longrightarrow> c \<in> set ys"
  by auto

lemma add_masked: "c \<in> set (add n f (VStrMap a) (VStrMap b) True) \<Longrightarrow> masked (ch_Before c) \<and> masked (ch_After c)"
  by (auto simp: add_def changedKeys_def split: if_splits)

lemma field_masked:
  assumes "c \<in> set (field_changes n a b)" and "ch_Field c \<in> {''env'', ''files'', ''sidecars''}"
  shows "masked (ch_Before c) \<and> masked (ch_After c)"
proof -
  note sel = field_select [THEN in_select [OF assms(1)]]
  consider "ch_Field c = ''env''" | "ch_Field c = ''files''" | "ch_Field c = ''sidecars''" using assms(2) by blast
  then show ?thesis
  proof cases
    case 1
    from add_masked [OF sel(1) [OF 1]] show ?thesis .
  next
    case 2
    from sel(2) [OF 2] show ?thesis by (auto simp: file_changes_def split: if_splits)
  next
    case 3
    from sel(3) [OF 3] show ?thesis by (auto simp: sidecar_changes_def split: if_splits)
  qed
qed

lemma Diff_masked:
  assumes "c \<in> set (Diff before after)" and "ch_Field c \<in> {''env'', ''files'', ''sidecars''}"
  shows "masked (ch_Before c) \<and> masked (ch_After c)"
proof -
  obtain a where "c \<in> set (app_changes a after) \<or> (\<exists>n. c \<in> set (service_changes a after n))"
    using assms(1) by (auto simp: Diff_def Let_def)
  then consider "c \<in> set (app_changes a after)" | n where "c \<in> set (service_changes a after n)" by blast
  then show ?thesis
  proof cases
    case 1
    note sel = app_select [THEN in_select [OF 1]]
    have "ch_Field c = ''env''" using assms(2) sel(2,3) by auto
    from add_masked [OF sel(1) [OF this]] show ?thesis .
  next
    case 2
    then obtain s t where "c \<in> set (field_changes n s t)"
      using assms(2) by (auto simp: service_changes_def dest: in_add split: option.splits if_splits)
    then show ?thesis by (rule field_masked [OF _ assms(2)])
  qed
qed

end
