(* ===== verification/Spec_Resize.thy ===== *)
theory Spec_Resize
  imports Spec_Normalize Go_Sha256
begin

text \<open>
  The plan of a volume resize (volume_resize.go): one physical claim is replaced by a fresh
  private volume of the new size, and every service that mounts it is pointed at the new one.
\<close>

record VolumeResize =
  vr_Claim :: string
  vr_TargetClaim :: string
  vr_TargetName :: string
  vr_OldGiB :: int
  vr_SizeGiB :: int
  vr_Services :: "string list"
  vr_User :: int
  vr_Group :: int
  vr_FSGroup :: int

definition HasVolumeClaim :: "Application \<Rightarrow> string \<Rightarrow> bool" where
  "HasVolumeClaim a claim \<longleftrightarrow>
     list_ex (\<lambda>(n, v). claim = ''hakopod-volume-'' @ n) (app_Volumes a)
     \<or> list_ex (\<lambda>(n, s). sv_Volume s \<noteq> None \<and> claim = n @ ''-data'') (app_services a)"

definition resize_name :: "string \<Rightarrow> string \<Rightarrow> string" where
  "resize_name operation claim = ''resize-'' @ hex_bytes (take 10 (Sum256 (operation @ '':'' @ claim)))"

text \<open>The named volume behind the claim; the code reads the zero value and the empty name when there is none.\<close>

definition claimed_volume :: "Application \<Rightarrow> string \<Rightarrow> (string \<times> NamedVolume) option" where
  "claimed_volume a claim = List.find (\<lambda>(n, v). claim = ''hakopod-volume-'' @ n) (app_Volumes a)"

definition retarget_mount :: "string option \<Rightarrow> string \<Rightarrow> Mount \<Rightarrow> Mount" where
  "retarget_mount named target m =
     (if named \<noteq> None \<and> named = Some (mnt_Volume m)
      then m\<lparr>mnt_Volume := target, mnt_SubPath := PathJoin ''data'' (mnt_SubPath m)\<rparr> else m)"

text \<open>
  One service: its own data volume becomes a mount of the target, then its mounts of the named
  volume do. The result is the service, whether it is affected, and the volume it owned.
\<close>

definition resize_service ::
  "string option \<Rightarrow> string \<Rightarrow> string \<Rightarrow> string \<Rightarrow> Service \<Rightarrow> Service \<times> bool \<times> NamedVolume option" where
  "resize_service named target claim name s0 =
     (let (s1, own) =
        (case sv_Volume s0 of
           Some v \<Rightarrow>
             if claim = name @ ''-data''
             then (s0\<lparr>sv_Mounts := sv_Mounts s0 @ [\<lparr>mnt_Volume = target, mnt_MountPath = vol_MountPath v, mnt_ReadOnly = False,
                      mnt_SubPath = ''data''\<rparr>], sv_Volume := None\<rparr>,
                   Some \<lparr>nvol_SizeGiB = vol_SizeGiB v, nvol_StorageClass = vol_StorageClass v, nvol_AccessMode = ''ReadWriteOnce''\<rparr>)
             else (s0, None)
         | None \<Rightarrow> (s0, None));
          hit = list_ex (\<lambda>m. named \<noteq> None \<and> named = Some (mnt_Volume m)) (sv_Mounts s1) in
      (s1\<lparr>sv_Mounts := map (retarget_mount named target) (sv_Mounts s1)\<rparr>, own \<noteq> None \<or> hit, own))"

record resize_state =
  rz_app :: Application
  rz_plan :: VolumeResize
  rz_volume :: "NamedVolume option"

definition resize_step ::
  "string option \<Rightarrow> string \<Rightarrow> string \<Rightarrow> resize_state \<Rightarrow> string \<Rightarrow> resize_state result" where
  "resize_step named target claim st name =
     (let s0 = service_at (rz_app st) name in
      if sv_Job s0 \<noteq> None then Inl (Err ''applications with deployment or scheduled jobs require an operator-managed volume migration'')
      else
        (let (s, affected, own) = resize_service named target claim name s0;
             volume = (case own of None \<Rightarrow> rz_volume st | Some v \<Rightarrow> Some v) in
         if \<not> affected then Inr (st\<lparr>rz_volume := volume\<rparr>)
         else
           (let r = rz_plan st;
                user = or_default (sv_RunAsUser s) 10001;
                grp = or_default (sv_RunAsGroup s) user;
                fs = or_default (sv_FSGroup s) user in
            andE (checks
              [(sv_Job s \<noteq> None \<or> sv_Autoscaling s \<noteq> None \<or> sv_Replicas s \<noteq> 1 \<or> sv_Serverless s \<noteq> None,
                ''resize requires single-replica services without autoscaling or jobs''),
               (vr_Services r \<noteq> [] \<and> (vr_User r \<noteq> user \<or> vr_Group r \<noteq> grp \<or> vr_FSGroup r \<noteq> fs),
                ''shared-volume services must use the same filesystem identity for migration'')])
              (Inr \<lparr>rz_app = put_service name s (rz_app st),
                    rz_plan = r\<lparr>vr_User := user, vr_Group := grp, vr_FSGroup := fs, vr_Services := vr_Services r @ [name]\<rparr>,
                    rz_volume = volume\<rparr>))))"

definition ResizeVolume ::
  "'q externals \<Rightarrow> Application \<Rightarrow> string \<Rightarrow> int \<Rightarrow> string \<Rightarrow> (Application \<times> VolumeResize) result" where
  "ResizeVolume ex original claim size_gib operation =
     bindE (Normalize ex original) (\<lambda>a.
     andE (checks [(size_gib < 1 \<or> 200 < size_gib, ''choose a volume size between 1 and 200 GiB'')])
     (let target = resize_name operation claim;
          found = claimed_volume a claim;
          plan = \<lparr>vr_Claim = claim, vr_TargetClaim = ''hakopod-volume-'' @ target, vr_TargetName = target, vr_OldGiB = 0,
                  vr_SizeGiB = size_gib, vr_Services = [], vr_User = 0, vr_Group = 0, vr_FSGroup = 0\<rparr> in
      bindE (foldE (resize_step (map_option fst found) target claim)
          \<lparr>rz_app = a, rz_plan = plan, rz_volume = map_option snd found\<rparr> (Names a)) (\<lambda>st.
        (case rz_volume st of
           None \<Rightarrow> Inl (Err ''choose an attached persistent volume'')
         | Some v \<Rightarrow>
             andE (checks
               [(nvol_SizeGiB v = 0 \<or> vr_Services (rz_plan st) = [], ''choose an attached persistent volume''),
                (size_gib = nvol_SizeGiB v, ''choose a different volume size'')])
             (let b = rz_app st;
                  kept = (case found of None \<Rightarrow> app_Volumes b | Some (n, _) \<Rightarrow> gm_del n (app_Volumes b));
                  b' = b\<lparr>app_Volumes := gm_set target (v\<lparr>nvol_SizeGiB := size_gib\<rparr>) kept\<rparr>;
                  r = (rz_plan st)\<lparr>vr_OldGiB := nvol_SizeGiB v, vr_Services := sort (vr_Services (rz_plan st))\<rparr> in
              bindE (Normalize ex b') (\<lambda>c. Inr (c, r)))))))"

end
