(* ===== verification/Spec_Rebase.thy ===== *)
theory Spec_Rebase
  imports Spec_Json
begin

text \<open>
  Carrying a staged draft onto a newer revision (rebase.go): a three-way merge of every
  top-level setting and of every service. The code compares the decoded JSON of each part;
  a value that is taken is taken whole and decoded again, which gives back the part it was
  encoded from (every number of a specification is far below the 53 bits a decoded number
  keeps), so the model takes the part itself and compares the encodings.
\<close>

section \<open>The merge of one part\<close>

datatype side = Current | Draft

fun side_of :: "side \<Rightarrow> 'a \<Rightarrow> 'a \<Rightarrow> 'a" where
  "side_of Current c d = c"
| "side_of Draft c d = d"

text \<open>\<open>nil\<close>, a missing member and a JSON null are one value.\<close>

definition merge3 :: "json option \<Rightarrow> json option \<Rightarrow> json option \<Rightarrow> side \<times> bool" where
  "merge3 base current draft =
     (if current = draft \<or> base = draft then (Current, False)
      else if base = current then (Draft, False)
      else (Current, True))"

fun obj_members :: "json \<Rightarrow> (string \<times> json) list" where
  "obj_members (JObj ms) = ms"
| "obj_members _ = []"

definition top_value :: "Application \<Rightarrow> string \<Rightarrow> json option" where
  "top_value a key =
     (case map_of (obj_members (json_Application a)) key of
        Some JNull \<Rightarrow> None | v \<Rightarrow> v)"

definition service_value :: "Application \<Rightarrow> string \<Rightarrow> json option" where
  "service_value a n = map_option json_Service (gm_get (app_services a) n)"

section \<open>Rebase\<close>

definition top_keys :: "string list" where
  "top_keys = [''domains'', ''env'', ''inject_env'', ''name'', ''networks'', ''recovery'', ''schema_version'', ''secrets'', ''volumes'']"

definition rebase_services :: "Application \<Rightarrow> Application \<Rightarrow> Application \<Rightarrow> Service gomap \<times> string list" where
  "rebase_services b c d =
     (let ns = sort (remdups (gm_keys (app_services b) @ gm_keys (app_services c) @ gm_keys (app_services d)));
          m = (\<lambda>n. merge3 (service_value b n) (service_value c n) (service_value d n)) in
      (gm_of_list (concat (map (\<lambda>n.
         case side_of (fst (m n)) (gm_get (app_services c) n) (gm_get (app_services d) n) of
           None \<Rightarrow> [] | Some s \<Rightarrow> [(n, s)]) ns)),
       map (\<lambda>n. ''services.'' @ n) (filter (\<lambda>n. snd (m n)) ns)))"

definition Rebase :: "Application \<Rightarrow> Application \<Rightarrow> Application \<Rightarrow> Application \<times> string list" where
  "Rebase b c d =
     (let m = (\<lambda>key. merge3 (top_value b key) (top_value c key) (top_value d key));
          pick = (\<lambda>key. fst (m key));
          (services, conflicts) = rebase_services b c d in
      (\<lparr>app_InjectEnv = side_of (pick ''inject_env'') (app_InjectEnv c) (app_InjectEnv d),
        app_Secrets = side_of (pick ''secrets'') (app_Secrets c) (app_Secrets d),
        app_Env = side_of (pick ''env'') (app_Env c) (app_Env d),
        app_Recovery = side_of (pick ''recovery'') (app_Recovery c) (app_Recovery d),
        app_SchemaVersion = side_of (pick ''schema_version'') (app_SchemaVersion c) (app_SchemaVersion d),
        app_Name = side_of (pick ''name'') (app_Name c) (app_Name d),
        app_Services = Some services,
        app_Networks = side_of (pick ''networks'') (app_Networks c) (app_Networks d),
        app_Volumes = side_of (pick ''volumes'') (app_Volumes c) (app_Volumes d),
        app_Domains = side_of (pick ''domains'') (app_Domains c) (app_Domains d)\<rparr>,
       filter (\<lambda>key. snd (m key)) top_keys @ conflicts))"

section \<open>Facts\<close>

text \<open>The parts of one application: a setting by its key, or a service by its name.\<close>

datatype part = Setting string | Named string

fun part_value :: "Application \<Rightarrow> part \<Rightarrow> json option" where
  "part_value a (Setting k) = (if k \<in> set top_keys then top_value a k else None)"
| "part_value a (Named n) = service_value a n"

fun part_path :: "part \<Rightarrow> string" where
  "part_path (Setting k) = k"
| "part_path (Named n) = ''services.'' @ n"

lemma side_of_if: "side_of x (f c) (f d) = f (side_of x c d)"
  by (cases x) simp_all

lemma top_values:
  "top_value a ''inject_env'' = (if app_InjectEnv a then Some (JBool True) else None)"
  "top_value a ''secrets'' = (if app_Secrets a = [] then None else Some (json_map json_SecretRef (app_Secrets a)))"
  "top_value a ''env'' = (if app_Env a = [] then None else Some (json_map JStr (app_Env a)))"
  "top_value a ''recovery'' = map_option json_RecoveryPolicy (app_Recovery a)"
  "top_value a ''schema_version'' = Some (JInt (app_SchemaVersion a))"
  "top_value a ''name'' = Some (JStr (app_Name a))"
  "top_value a ''networks'' = (if app_Networks a = [] then None else Some (json_map json_Network (app_Networks a)))"
  "top_value a ''volumes'' = (if app_Volumes a = [] then None else Some (json_map json_NamedVolume (app_Volumes a)))"
  "top_value a ''domains'' = (if app_Domains a = [] then None else Some (json_map JStr (app_Domains a)))"
  by (auto simp: top_value_def json_Application_def omit_bool_def omit_map_def omit_ptr_def json_map_def
      json_RecoveryPolicy_def split: option.splits json.splits)

definition picked :: "Application \<Rightarrow> Application \<Rightarrow> Application \<Rightarrow> string \<Rightarrow> side" where
  "picked b c d k = fst (merge3 (top_value b k) (top_value c k) (top_value d k))"

lemma Rebase_fields:
  "app_InjectEnv (fst (Rebase b c d)) = side_of (picked b c d ''inject_env'') (app_InjectEnv c) (app_InjectEnv d)"
  "app_Secrets (fst (Rebase b c d)) = side_of (picked b c d ''secrets'') (app_Secrets c) (app_Secrets d)"
  "app_Env (fst (Rebase b c d)) = side_of (picked b c d ''env'') (app_Env c) (app_Env d)"
  "app_Recovery (fst (Rebase b c d)) = side_of (picked b c d ''recovery'') (app_Recovery c) (app_Recovery d)"
  "app_SchemaVersion (fst (Rebase b c d)) = side_of (picked b c d ''schema_version'') (app_SchemaVersion c) (app_SchemaVersion d)"
  "app_Name (fst (Rebase b c d)) = side_of (picked b c d ''name'') (app_Name c) (app_Name d)"
  "app_Networks (fst (Rebase b c d)) = side_of (picked b c d ''networks'') (app_Networks c) (app_Networks d)"
  "app_Volumes (fst (Rebase b c d)) = side_of (picked b c d ''volumes'') (app_Volumes c) (app_Volumes d)"
  "app_Domains (fst (Rebase b c d)) = side_of (picked b c d ''domains'') (app_Domains c) (app_Domains d)"
  by (simp_all only: Rebase_def Let_def picked_def split_beta fst_conv Application.simps)

lemma top_picked:
  "\<forall>k \<in> set top_keys. \<forall>x. picked b c d k = x \<longrightarrow> top_value (fst (Rebase b c d)) k = side_of x (top_value c k) (top_value d k)"
  unfolding top_keys_def list.set ball_simps top_values Rebase_fields
  by (intro conjI allI impI TrueI; case_tac x; simp_all only: side_of.simps)

lemma top_side:
  assumes "k \<in> set top_keys"
  shows "top_value (fst (Rebase b c d)) k = side_of (fst (merge3 (top_value b k) (top_value c k) (top_value d k))) (top_value c k) (top_value d k)"
  using top_picked [THEN bspec, OF assms] unfolding picked_def by blast

lemma gm_get_of_options:
  assumes "distinct ns"
  shows "gm_get (gm_of_list (concat (map (\<lambda>n. case f n of None \<Rightarrow> [] | Some s \<Rightarrow> [(n, s)]) ns))) k = (if k \<in> set ns then f k else None)"
proof -
  have gen: "gm_get (fold (\<lambda>(k, v). gm_set k v) (concat (map (\<lambda>n. case f n of None \<Rightarrow> [] | Some s \<Rightarrow> [(n, s)]) ns)) m) k
      = (if k \<in> set ns \<and> f k \<noteq> None then f k else gm_get m k)" for m
    using assms
  proof (induction ns arbitrary: m)
    case (Cons n ns)
    then show ?case by (cases "f n") auto
  qed simp
  show ?thesis by (simp add: gm_of_list_def gen)
qed

lemma service_side:
  "gm_get (app_services (fst (Rebase b c d))) n =
     side_of (fst (merge3 (service_value b n) (service_value c n) (service_value d n))) (gm_get (app_services c) n) (gm_get (app_services d) n)"
proof -
  let ?ns = "sort (remdups (gm_keys (app_services b) @ gm_keys (app_services c) @ gm_keys (app_services d)))"
  let ?f = "\<lambda>n. side_of (fst (merge3 (service_value b n) (service_value c n) (service_value d n))) (gm_get (app_services c) n) (gm_get (app_services d) n)"
  have "gm_get (app_services (fst (Rebase b c d))) n = (if n \<in> set ?ns then ?f n else None)"
    unfolding Rebase_def rebase_services_def Let_def
    by (simp only: fst_conv snd_conv prod.case app_services_def Application.simps option.case)
      (rule gm_get_of_options, simp)
  also have "\<dots> = ?f n"
    by (cases "fst (merge3 (service_value b n) (service_value c n) (service_value d n))") (auto simp: set_gm_keys dom_def)
  finally show ?thesis .
qed

lemma part_side:
  "part_value (fst (Rebase b c d)) p = side_of (fst (merge3 (part_value b p) (part_value c p) (part_value d p))) (part_value c p) (part_value d p)"
proof (cases p)
  case (Setting k)
  then show ?thesis by (simp add: top_side merge3_def)
next
  case (Named n)
  have "map_option json_Service (side_of x u v) = side_of x (map_option json_Service u) (map_option json_Service v)" for x u v
    by (cases x) simp_all
  then show ?thesis by (simp add: Named service_value_def service_side)
qed

lemma conflict_iff:
  assumes "\<And>k. p = Setting k \<Longrightarrow> k \<in> set top_keys"
  shows "part_path p \<in> set (snd (Rebase b c d)) \<longleftrightarrow> snd (merge3 (part_value b p) (part_value c p) (part_value d p))"
proof -
  have ks: "k \<in> set top_keys \<Longrightarrow> \<not> prefix ''services.'' k" for k by (auto simp: top_keys_def)
  have nm: "snd (merge3 (service_value b n) (service_value c n) (service_value d n)) \<Longrightarrow>
      n \<in> set (gm_keys (app_services b)) \<union> set (gm_keys (app_services c)) \<union> set (gm_keys (app_services d))" for n
    by (auto simp: merge3_def service_value_def set_gm_keys split: if_splits)
  let ?ns = "set (gm_keys (app_services b)) \<union> set (gm_keys (app_services c)) \<union> set (gm_keys (app_services d))"
  have conflicts: "set (snd (Rebase b c d)) =
      {k \<in> set top_keys. snd (merge3 (top_value b k) (top_value c k) (top_value d k))}
      \<union> (@) ''services.'' ` {n \<in> ?ns. snd (merge3 (service_value b n) (service_value c n) (service_value d n))}"
    by (simp only: Rebase_def rebase_services_def Let_def split_beta snd_conv set_append set_filter set_map set_sort
        set_remdups Un_assoc)
  show ?thesis
  proof (cases p)
    case (Setting k)
    then have k: "k \<in> set top_keys" using assms by simp
    then have "k \<noteq> ''services.'' @ n" for n using ks [of k] by auto
    then have "k \<in> set (snd (Rebase b c d)) \<longleftrightarrow> snd (merge3 (top_value b k) (top_value c k) (top_value d k))"
      using k unfolding conflicts by blast
    then show ?thesis using k Setting by simp
  next
    case (Named n)
    have "''services.'' @ n \<notin> set top_keys" using ks by fastforce
    then have "''services.'' @ n \<in> set (snd (Rebase b c d)) \<longleftrightarrow> snd (merge3 (service_value b n) (service_value c n) (service_value d n))"
      using nm [of n] unfolding conflicts by blast
    then show ?thesis using Named by simp
  qed
qed

lemma merge3_sides:
  assumes "r = side_of (fst (merge3 x y z)) y z"
  shows "(z = x \<longrightarrow> r = y) \<and> (y = x \<longrightarrow> r = z) \<and> (y = z \<longrightarrow> r = y)
    \<and> (snd (merge3 x y z) \<longleftrightarrow> y \<noteq> x \<and> z \<noteq> x \<and> y \<noteq> z) \<and> (snd (merge3 x y z) \<longrightarrow> r = y)"
  using assms by (auto simp: merge3_def split: if_splits)

end
