(* ===== verification/Spec_Transfer.thy ===== *)
theory Spec_Transfer
  imports Spec_Normalize
begin

text \<open>
  Changes planned from one or two whole specifications: adding a template's services, moving a
  service to another application, naming a template's only service (service_transfer.go), and
  the gates for automatic recovery (recovery.go), previews (preview.go), local secrets
  (secret_requirements.go) and build arguments (build_arguments.go). Every plan ends in
  \<open>Normalize\<close>, so what it returns is a specification that could be stored.
\<close>

section \<open>Adding and renaming services\<close>

definition rename_targets :: "string \<Rightarrow> string \<Rightarrow> string gomap \<Rightarrow> string gomap" where
  "rename_targets old new domains = map (\<lambda>(host, target). (host, if target = old then new else target)) domains"

definition NameTemplateService :: "'q externals \<Rightarrow> Application \<Rightarrow> string \<Rightarrow> Application result" where
  "NameTemplateService ex a name =
     (if name = [] then Inr a
      else andE (checks
        [(\<not> namePattern name, ''service_name: use 1-40 lowercase letters, digits or hyphens''),
         (len (app_services a) \<noteq> 1, ''service_name: multi-service templates keep their original names'')])
       (bindE (Normalize ex a) (\<lambda>next.
         let old = hd (Names next) in
         Normalize ex
           (next\<lparr>app_Services := Some (gm_set name (service_at next old) (gm_del old (app_services next))),
             app_Domains := rename_targets old name (app_Domains next)\<rparr>))))"

definition add_services :: "Application \<Rightarrow> Application \<Rightarrow> Application result" where
  "add_services base addition =
     foldE (\<lambda>next name.
       if gm_has (app_services next) name then Inl (Err (''service '' @ name @ '' already exists''))
       else Inr (put_service name (EffectiveService addition (service_at addition name)) next)) base (Names addition)"

definition add_networks :: "Network gomap \<Rightarrow> Network gomap \<Rightarrow> Network gomap result" where
  "add_networks known new =
     foldE (\<lambda>ns (n, w).
       case gm_get ns n of
         Some old \<Rightarrow> if old \<noteq> w then Inl (Err (''network '' @ n @ '' has different settings'')) else Inr (gm_set n w ns)
       | None \<Rightarrow> Inr (gm_set n w ns)) known new"

text \<open>Volumes and domains: a name that is already taken is an error.\<close>

definition add_fresh :: "string \<Rightarrow> 'v gomap \<Rightarrow> 'v gomap \<Rightarrow> 'v gomap result" where
  "add_fresh kind known new =
     foldE (\<lambda>m (k, v). if gm_has m k then Inl (Err (kind @ k @ '' already exists'')) else Inr (gm_set k v m)) known new"

definition AddServices :: "'q externals \<Rightarrow> Application \<Rightarrow> Application \<Rightarrow> Application result" where
  "AddServices ex base addition0 =
     bindE (Normalize ex base) (\<lambda>next.
     bindE (Normalize ex addition0) (\<lambda>addition.
     bindE (add_services next addition) (\<lambda>next.
     bindE (add_networks (app_Networks next) (app_Networks addition)) (\<lambda>networks.
     bindE (add_fresh ''volume '' (app_Volumes next) (app_Volumes addition)) (\<lambda>volumes.
     bindE (add_fresh ''domain '' (app_Domains next) (app_Domains addition)) (\<lambda>domains.
       Normalize ex (next\<lparr>app_Networks := networks, app_Volumes := volumes, app_Domains := domains\<rparr>)))))))"

section \<open>Moving a service\<close>

text \<open>What keeps a service where it is: data, jobs, grants, certificates and names that others use.\<close>

definition move_blocked :: "Application \<Rightarrow> string \<Rightarrow> Service \<Rightarrow> unit result" where
  "move_blocked source name s =
     checks
       [(sv_Volume s \<noteq> None \<or> sv_Mounts s \<noteq> [], ''this service has persistent data''),
        (sv_Job s \<noteq> None, ''jobs need an explicit schedule or execution handover''),
        (sv_NodeProfile s \<noteq> [], ''the node profile belongs to the source application''),
        (sv_RuntimeProfile s \<noteq> [], ''the runtime profile belongs to the source application''),
        (sv_TLS s \<noteq> None \<or> sv_CertificateMounts s \<noteq> [] \<or> sv_AWSIdentity s \<noteq> [] \<or> sv_ContainerDaemon s \<noteq> []
          \<or> sv_PublicTCP s \<noteq> [], ''this service has application-bound certificates''),
        (list_ex (\<lambda>(host, target). target = name) (app_Domains source), ''this service has custom domains''),
        (sv_DependsOn s \<noteq> [] \<or> sv_Bindings s \<noteq> [] \<or> sv_NetworkAccess s \<noteq> None,
         ''this service has dependencies, bindings or network rules'')]"

definition names_peer :: "string \<Rightarrow> Service \<Rightarrow> unit result" where
  "names_peer name peer =
     checks
       [(name \<in> set (sv_DependsOn peer), ''another service depends on '' @ name),
        (list_ex (\<lambda>(k, b). bind_Service b = name) (sv_Bindings peer), ''another service has a binding to '' @ name),
        (case sv_NetworkAccess peer of
           None \<Rightarrow> False
         | Some acc \<Rightarrow> (case na_From acc of None \<Rightarrow> False | Some ns \<Rightarrow> name \<in> set ns),
         ''another service has a network rule for '' @ name)]"

definition move_networks :: "Application \<Rightarrow> Network gomap \<Rightarrow> string list \<Rightarrow> Network gomap result" where
  "move_networks source networks names =
     foldE (\<lambda>ns n.
       let w = network_at source n in
       if net_VirtualNetwork w \<noteq> [] then Inl (Err ''shared virtual-network membership needs an explicit migration'')
       else if (case gm_get ns n of None \<Rightarrow> False | Some old \<Rightarrow> old \<noteq> w) then Inl (Err (''network '' @ n @ '' differs in the destination''))
       else Inr (gm_set n w ns)) networks names"

definition MoveService ::
  "'q externals \<Rightarrow> Application \<Rightarrow> Application \<Rightarrow> string \<Rightarrow> string \<Rightarrow> (Application \<times> Application) result" where
  "MoveService ex source0 destination0 name target =
     bindE (Normalize ex source0) (\<lambda>source.
     bindE (Normalize ex destination0) (\<lambda>destination.
     let s0 = service_at source name in
     andE (checks
       [(\<not> gm_has (app_services source) name, ''service '' @ name @ '' is absent from this application''),
        (\<not> namePattern target, ''destination service name''),
        (gm_has (app_services destination) target, ''service '' @ target @ '' already exists in the destination'')])
     (andE (move_blocked source name s0)
     (andE (forE (\<lambda>(n, peer). names_peer name peer) (app_services source))
     (let s = EffectiveService source s0 in
      andE (forE (\<lambda>(k, r). checks [(ref_Provider r \<noteq> [], ''external secret providers are application-scoped'')])
        (SecretReferences s))
      (bindE (move_networks source (app_Networks destination) (sv_networks s)) (\<lambda>networks.
       let destination' = put_service target s (destination\<lparr>app_Networks := networks\<rparr>);
           source' = source\<lparr>app_Services := Some (gm_del name (app_services source))\<rparr> in
       bindE (Normalize ex source') (\<lambda>source''.
       bindE (Normalize ex destination') (\<lambda>destination''.
         Inr (source'', destination''))))))))))"

section \<open>Automatic recovery\<close>

definition recovery_message :: "Service \<Rightarrow> string" where
  "recovery_message s =
     (if sv_Job s \<noteq> None
      then ''Deployment and scheduled jobs require a reviewed recovery; Hakopod will not rerun migrations or scheduled work automatically''
      else if sv_Volume s \<noteq> None \<or> sv_Mounts s \<noteq> []
      then ''Persistent volumes require a reviewed recovery; restoring configuration cannot restore stored data''
      else [])"

definition no_recovery :: "Application \<Rightarrow> string option" where
  "no_recovery a =
     (if app_Volumes a \<noteq> [] then Some ''Persistent volumes require a reviewed recovery; restoring configuration cannot restore stored data''
      else List.find (\<lambda>m. m \<noteq> []) (map (\<lambda>n. recovery_message (service_at a n)) (Names a)))"

text \<open>The reason a failed release is not rolled back by itself; the empty string when it is.\<close>

definition RecoveryBlocked :: "Application \<Rightarrow> Application option \<Rightarrow> string" where
  "RecoveryBlocked next previous =
     (if (case app_Recovery next of None \<Rightarrow> False | Some r \<Rightarrow> rec_OnFailure r = ''disabled'')
      then ''Automatic release recovery is disabled in this revision''
      else
        (case previous of
           None \<Rightarrow> ''No previous successful release is available''
         | Some p \<Rightarrow>
             if len (app_services next) \<noteq> len (app_services p)
                \<or> list_ex (\<lambda>(n, s). \<not> gm_has (app_services p) n) (app_services next)
             then ''Service additions or removals require a reviewed recovery''
             else
               (case no_recovery next of
                  Some m \<Rightarrow> m
                | None \<Rightarrow> (case no_recovery p of Some m \<Rightarrow> m | None \<Rightarrow> []))))"

section \<open>Previews\<close>

definition preview_service :: "Service \<Rightarrow> unit result" where
  "preview_service s =
     andE (checks
       [(sv_Actions s \<noteq> None, ''Managed Actions pools cannot be copied into previews''),
        (sv_Size s \<noteq> ''small'' \<or> 1 < sv_Replicas s \<or> sv_Autoscaling s \<noteq> None \<or> sv_GPU s \<noteq> None,
         ''previews require the small profile, one replica and no autoscaling or GPU''),
        (sv_NodeProfile s \<noteq> [], ''previews cannot inherit a node profile grant''),
        (sv_RuntimeProfile s \<noteq> [], ''previews cannot inherit a runtime profile grant''),
        (sv_PublicTCP s \<noteq> [] \<or> sv_CertificateMounts s \<noteq> [] \<or> sv_AWSIdentity s \<noteq> [] \<or> sv_ContainerDaemon s \<noteq> []
          \<or> sv_TLS s \<noteq> None, ''previews do not expose public TCP or inherit certificates''),
        ((case sv_Job s of None \<Rightarrow> False | Some j \<Rightarrow> job_Schedule j \<noteq> None \<or> job_Invocation j \<noteq> None) \<and> \<not> sv_Suspended s,
         ''scheduled and invoked jobs must stay paused in previews'')])
     (forE (\<lambda>(k, r). checks [(ref_Provider r \<noteq> [], ''previews require their own native secrets'')]) (SecretReferences s))"

definition preview_disk :: "Application \<Rightarrow> int" where
  "preview_disk a =
     sum_list (map (\<lambda>(n, v). nvol_SizeGiB v) (app_Volumes a))
     + sum_list (map (\<lambda>(n, s). case sv_Volume s of None \<Rightarrow> 0 | Some v \<Rightarrow> vol_SizeGiB v) (app_services a))"

definition ValidatePreview :: "Application \<Rightarrow> unit result" where
  "ValidatePreview a0 =
     (let a = RuntimeEnvironment a0 in
      andE (checks
        [(4 < len (app_services a), ''previews support at most four small services''),
         (app_Domains a \<noteq> [], ''previews use their generated hostname; remove custom domains''),
         (list_ex (\<lambda>(n, w). net_VirtualNetwork w \<noteq> [] \<or> net_Segment w \<noteq> []) (app_Networks a),
          ''previews cannot join shared virtual networks'')])
      (andE (forE (\<lambda>(n, s). preview_service s) (app_services a))
        (checks [(5 < preview_disk a, ''preview storage is limited to 5 GiB'')])))"

section \<open>Secrets a deployment needs\<close>

definition local_secrets :: "Service \<Rightarrow> string list" where
  "local_secrets s =
     (case sv_Actions s of
        None \<Rightarrow> []
      | Some c \<Rightarrow> act_Credential c # filter (\<lambda>n. n \<noteq> []) [act_JobsCredential c]
          @ (case act_Cache c of None \<Rightarrow> [] | Some k \<Rightarrow> filter (\<lambda>n. n \<noteq> []) [cache_Credential k]))
     @ filter (\<lambda>n. n \<noteq> []) (map (\<lambda>(k, r). ref_Ref r) (SecretReferences s))"

definition LocalSecretNames :: "Application \<Rightarrow> string list" where
  "LocalSecretNames a =
     sort (remdups (concat (map (\<lambda>(n, s). local_secrets s) (app_services (RuntimeEnvironment a)))))"

section \<open>Build arguments\<close>

definition ValidateBuildArguments :: "string gomap \<Rightarrow> unit result" where
  "ValidateBuildArguments values =
     andE (checks [(32 < len values, ''build_args: at most 32 public build arguments'')])
     (forE (\<lambda>(key, v). checks
       [(\<not> envPattern key \<or> 128 < len key \<or> 2048 < len v \<or> ContainsAny v [NUL, CR, LF]
          \<or> Contains v ''${{'' \<or> Contains v ''{{'' \<or> sensitiveEnv key v, ''build_args.'' @ key)]) values)"

end
