(* ===== verification/Spec_Parts.thy ===== *)
theory Spec_Parts
  imports Spec_Sound
begin

text \<open>
  What \<open>Normalize\<close> does to the files and sidecars of a service, and that it returns an
  application in normal form: its result can be planned with and normalised again.
\<close>

section \<open>Files and sidecars\<close>

definition same_sidecar :: "Sidecar \<Rightarrow> Sidecar \<Rightarrow> bool" where
  "same_sidecar x y \<longleftrightarrow> y = x\<lparr>sc_CPU := sc_CPU y, sc_Memory := sc_Memory y\<rparr>"

definition same_parts :: "Service \<Rightarrow> Service \<Rightarrow> bool" where
  "same_parts s t \<longleftrightarrow>
     gm_keys (sv_Files t) = gm_keys (sv_Files s) \<and> list_all2 same_sidecar (sv_Sidecars s) (sv_Sidecars t)"

text \<open>A sidecar shares only what its service mounts.\<close>

definition sidecar_volumes :: "Service \<Rightarrow> bool" where
  "sidecar_volumes s \<longleftrightarrow> (\<forall>sc \<in> set (sv_Sidecars s). \<forall>m \<in> set (sc_Mounts sc).
     (sm_Volume m = [] \<or> sm_Volume m \<in> mnt_Volume ` set (sv_Mounts s))
     \<and> (sm_Temporary m = [] \<or> sm_Temporary m \<in> tmp_MountPath ` set (sv_TemporaryMounts s)))"

lemma same_sidecar_refl [simp]: "same_sidecar x x"
  by (simp add: same_sidecar_def)

lemma same_parts_refl [simp]: "same_parts s s"
  by (simp add: same_parts_def list_all2_refl)

lemma sidecar_mounts_facts:
  "sidecar_mounts field s ps ms = Inr () \<Longrightarrow> m \<in> set ms \<Longrightarrow>
     (sm_Volume m = [] \<or> sm_Volume m \<in> mnt_Volume ` set (sv_Mounts s))
     \<and> (sm_Temporary m = [] \<or> sm_Temporary m \<in> tmp_MountPath ` set (sv_TemporaryMounts s))"
  by (induction field s ps ms rule: sidecar_mounts.induct) (auto simp: result_iff)

lemma normalizeSidecar_facts:
  assumes "normalizeSidecar ex name s seen i sc = Inr sc'"
  shows "same_sidecar sc sc'" and "validateSidecarMounts (''sidecars.'' @ sc_Name sc) s (sc_Mounts sc) = Inr ()"
  using assms unfolding normalizeSidecar_def Let_def
  by (auto simp: bindE_Inr andE_Inr same_sidecar_def split: option.splits)

lemma sidecar_loop_facts:
  "sidecar_loop ex name s seen i scs = Inr scs' \<Longrightarrow> list_all2 same_sidecar scs scs'
     \<and> (\<forall>sc \<in> set scs. validateSidecarMounts (''sidecars.'' @ sc_Name sc) s (sc_Mounts sc) = Inr ())"
  by (induction ex name s seen i scs arbitrary: scs' rule: sidecar_loop.induct)
    (auto simp: bindE_Inr dest: normalizeSidecar_facts)

lemma normalizeSidecars_facts:
  assumes "normalizeSidecars ex name s = Inr t"
  shows "list_all2 same_sidecar (sv_Sidecars s) (sv_Sidecars t)" and "sidecar_volumes t"
proof -
  have "list_all2 same_sidecar (sv_Sidecars s) (sv_Sidecars t) \<and> sidecar_volumes t"
  proof (cases "sv_Sidecars s = []")
    case True
    with assms show ?thesis by (simp add: normalizeSidecars_def sidecar_volumes_def)
  next
    case False
    then obtain scs where l: "sidecar_loop ex name s [] 0 (sv_Sidecars s) = Inr scs" and t: "t = s\<lparr>sv_Sidecars := scs\<rparr>"
      using assms by (auto simp: normalizeSidecars_def bindE_Inr andE_Inr)
    note f = sidecar_loop_facts [OF l]
    have "\<exists>x \<in> set (sv_Sidecars s). same_sidecar x sc" if "sc \<in> set scs" for sc
      by (rule list_all2_right [OF conjunct1 [OF f] that])
    moreover have "sc_Mounts y = sc_Mounts x" if "same_sidecar x y" for x y
      using that by (cases x; cases y) (simp add: same_sidecar_def)
    ultimately have "sidecar_volumes t"
      using f sidecar_mounts_facts
      by (fastforce simp: sidecar_volumes_def t validateSidecarMounts_def split: if_splits)
    with f show ?thesis by (simp add: t)
  qed
  then show "list_all2 same_sidecar (sv_Sidecars s) (sv_Sidecars t)" "sidecar_volumes t" by blast+
qed

lemma file_loop_keys: "file_loop s ps fs = Inr fs' \<Longrightarrow> gm_keys fs' = gm_keys fs"
  by (induction s ps fs arbitrary: fs' rule: file_loop.induct) (auto simp: bindE_Inr)

lemma job_files_keys:
  "normalizeJobAndFiles ex s = Inr t \<Longrightarrow> gm_keys (sv_Files t) = gm_keys (sv_Files s) \<and> sv_Sidecars t = sv_Sidecars s"
  unfolding normalizeJobAndFiles_def Let_def by (auto simp: bindE_Inr andE_Inr dest: file_loop_keys)

lemma normalizeService_parts:
  assumes "normalizeService ex a name s0 = Inr s8"
  shows "same_parts s0 s8" and "sidecar_volumes s8"
proof -
  obtain s1 rt s2 s3 s4 s5 s6 s7 where steps:
    "service_mode ex a s0 = Inr (s1, rt)" "service_basics ex name s1 = Inr s2"
    "service_members a name s2 = Inr s3"
    "normalizeAutoscaling s3 = Inr s4" "normalizeServerless s4 = Inr s5"
    "normalizeSidecars ex name s5 = Inr s6"
    "normalizeJobAndFiles ex s6 = Inr s7" "normalizeKubernetes ex s7 = Inr s8"
    using normalizeService_steps [OF assms] by metis
  have "sv_Sidecars s5 = sv_Sidecars s0 \<and> sv_Files s5 = sv_Files s0"
    using mode_frame(1) [OF steps(1)] basics_frame [OF steps(2)] members_frame [OF steps(3)]
      autoscaling_frame [OF steps(4)] serverless_frame [OF steps(5)] by (elim exE conjE) simp
  moreover have "sv_Files s6 = sv_Files s5" using sidecars_frame [OF steps(6)] by auto
  moreover have "sv_Files s8 = sv_Files s7 \<and> sv_Sidecars s8 = sv_Sidecars s7"
    using kubernetes_frame [OF steps(8)] by auto
  moreover note normalizeSidecars_facts [OF steps(6)] job_files_keys [OF steps(7)]
  ultimately show "same_parts s0 s8" by (simp add: same_parts_def)
  have "sv_Mounts s8 = sv_Mounts s6 \<and> sv_TemporaryMounts s8 = sv_TemporaryMounts s6 \<and> sv_Sidecars s8 = sv_Sidecars s6"
    using job_files_frame [OF steps(7)] kubernetes_frame [OF steps(8)] by (elim exE conjE) simp
  with normalizeSidecars_facts(2) [OF steps(6)] show "sidecar_volumes s8" by (simp add: sidecar_volumes_def)
qed

section \<open>The whole of \<open>Normalize\<close>\<close>

lemma services_parts:
  assumes run: "foldE (normalize_named ex) a (Names a) = Inr b" and wf: "gm_wf (app_services a)" and n: "n \<in> set (Names a)"
  shows "same_parts (service_at a n) (service_at b n)" and "sidecar_volumes (service_at b n)"
proof -
  have d: "distinct (Names a)" "set (Names a) \<subseteq> set (gm_keys (app_services a))"
    by (simp_all add: Names_def gm_keys_distinct [OF wf])
  from service_fold [OF run [unfolded normalize_named_def] d wf] n
  obtain c where "service_at c n = service_at a n"
    "in_field (''services.'' @ n) (normalizeService ex c n (service_at c n)) = Inr (service_at b n)" by blast
  then have "normalizeService ex c n (service_at a n) = Inr (service_at b n)" by simp
  then show "same_parts (service_at a n) (service_at b n)" "sidecar_volumes (service_at b n)"
    by (rule normalizeService_parts)+
qed

lemma moved_parts:
  assumes "moved s t"
  shows "same_parts s t" "sidecar_volumes s \<Longrightarrow> sidecar_volumes t"
  using assms unfolding moved_def same_parts_def sidecar_volumes_def by (elim exE, simp add: list_all2_refl)+

lemma Normalize_parts:
  assumes "Normalize ex a = Inr b" and "wf_app a" and "n \<in> set (Names a)"
  shows "same_parts (service_at a n) (service_at b n)" and "sidecar_volumes (service_at b n)"
proof -
  obtain a1 a2 where r: "foldE (normalize_named ex) a1 (Names a1) = Inr a2" "app_services a1 = app_services a"
    "later a2 b" "gm_wf (app_services a1)"
    using Normalize_later [OF assms(1,2)] by blast
  have n: "n \<in> set (Names a1)" and at: "service_at a1 n = service_at a n"
    using r(2) assms(3) by (simp_all add: service_at_def)
  have mv: "moved (service_at a2 n) (service_at b n)" using r(3) by (simp add: later_def)
  show "same_parts (service_at a n) (service_at b n)"
    using services_parts(1) [OF r(1,4) n] moved_parts(1) [OF mv] mv
    by (auto simp: at same_parts_def moved_def)
  show "sidecar_volumes (service_at b n)"
    by (rule moved_parts(2) [OF mv services_parts(2) [OF r(1,4) n]])
qed

lemma gm_wf_keys: "gm_keys m = gm_keys n \<Longrightarrow> gm_wf m \<longleftrightarrow> gm_wf n"
  by (simp add: gm_wf_def gm_keys_def)

lemma stored_parts_wf:
  assumes "stored_core s t" and "same_parts s t" and "wf_service s"
  shows "wf_service t"
proof -
  have sc: "gm_wf (sc_Env y) \<and> gm_wf (sc_Secrets y)" if "y \<in> set (sv_Sidecars t)" for y
  proof -
    have "list_all2 same_sidecar (sv_Sidecars s) (sv_Sidecars t)" using assms(2) by (simp add: same_parts_def)
    from list_all2_right [OF this that] obtain x where "x \<in> set (sv_Sidecars s)" "same_sidecar x y" by blast
    moreover have "sc_Env y = sc_Env x \<and> sc_Secrets y = sc_Secrets x"
      using calculation(2) by (cases x; cases y) (simp add: same_sidecar_def)
    ultimately show ?thesis using assms(3) by (simp add: wf_service_def)
  qed
  have "gm_wf (sv_Files t)" using assms gm_wf_keys [of "sv_Files t" "sv_Files s"] by (simp add: same_parts_def wf_service_def)
  then show ?thesis
    using assms sc by (simp add: wf_service_def stored_core_def)
qed

lemma volumes_keys:
  "mapE (\<lambda>(n, v). bindE (f n v) (\<lambda>w. Inr (n, w))) m = Inr vs \<Longrightarrow> gm_keys vs = gm_keys m"
  by (induction m arbitrary: vs) (auto simp: bindE_Inr)

lemma with_default_wf: "gm_wf ns \<Longrightarrow> gm_wf (with_default_network ns)"
  by (simp add: with_default_network_def)

lemma Normalize_volumes:
  assumes "Normalize ex a = Inr b" and "wf_app a"
  shows "mapE (\<lambda>(n, v). bindE (normalizeNamedVolume ex n v) (\<lambda>w. Inr (n, w))) (app_Volumes a) = Inr (app_Volumes b)"
    and "gm_wf (app_services b)" and "gm_keys (app_Volumes b) = gm_keys (app_Volumes a)"
proof -
  obtain a1 a2 a3 a4 a5 where r: "normalize_header ex a = Inr a1" "validateNamedStorage ex a2 = Inr a3"
    "validateNetworkAccess ex a3 = Inr a4" "foldE (ready_named ex) a4 (Names a4) = Inr a5" "validatePublicTCP a5 = Inr b"
    "same_tables a1 a2" "later a5 b"
    "gm_wf (app_services a2)" "gm_wf (app_services a3)" "gm_wf (app_services a4)" "gm_wf (app_services a5)"
    by (rule Normalize_run [OF assms], rule that) assumption+
  obtain vs where vs: "mapE (\<lambda>(n, v). bindE (normalizeNamedVolume ex n v) (\<lambda>w. Inr (n, w))) (app_Volumes a2) = Inr vs"
    "app_Volumes a3 = vs"
    by (rule storage_step [OF r(2,8)], rule that) assumption+
  have "app_Volumes b = vs"
    using tcp_step(2) [OF r(5,11)] ready_step(3) [OF r(4,10)] access_step(3) [OF r(3,9)] vs(2) by simp
  moreover have "app_Volumes a2 = app_Volumes a"
    using same_tables_fields(9) [OF r(6)] header_facts(1) [OF r(1)] by simp
  ultimately show m: "mapE (\<lambda>(n, v). bindE (normalizeNamedVolume ex n v) (\<lambda>w. Inr (n, w))) (app_Volumes a) = Inr (app_Volumes b)"
    using vs(1) by simp
  from volumes_keys [OF m] show "gm_keys (app_Volumes b) = gm_keys (app_Volumes a)" .
  show "gm_wf (app_services b)" using r(7,11) by (simp add: later_def)
qed

lemma volumes_get:
  "mapE (\<lambda>(n, v). bindE (f n v) (\<lambda>w. Inr (n, w))) m = Inr vs \<Longrightarrow> gm_get m k = Some v \<Longrightarrow>
     \<exists>w. gm_get vs k = Some w \<and> f k v = Inr w"
  by (induction m arbitrary: vs) (auto simp: bindE_Inr split: if_splits)

lemma Normalize_volume_at:
  assumes "Normalize ex a = Inr b" and "wf_app a" and "gm_get (app_Volumes a) k = Some v"
  shows "\<exists>w. gm_get (app_Volumes b) k = Some w \<and> nvol_SizeGiB w = nvol_SizeGiB v \<and> nvol_StorageClass w = nvol_StorageClass v"
  using volumes_get [OF Normalize_volumes(1) [OF assms(1,2)] assms(3)]
  by (auto simp: normalizeNamedVolume_def Let_def andE_Inr)

lemma Normalize_wf:
  assumes "Normalize ex a = Inr b" and "wf_app a"
  shows "wf_app b"
proof -
  note f = Normalize_frame [OF assms] and svc = Normalize_volumes(2) [OF assms]
  have vol: "gm_wf (app_Volumes b)"
    using gm_wf_keys [OF Normalize_volumes(3) [OF assms]] assms(2) by (simp add: wf_app_def)
  have "wf_service s" if "s \<in> snd ` set (app_services b)" for s
  proof -
    from that obtain p where "p \<in> set (app_services b)" "s = snd p" by (elim imageE)
    then have "(fst p, s) \<in> set (app_services b)" by simp
    then obtain n where n: "(n, s) \<in> set (app_services b)" ..
    then have g: "gm_get (app_services b) n = Some s" using gm_get_in [OF svc] by blast
    then have nb: "n \<in> set (Names b)" and sb: "service_at b n = s" by (auto simp: service_at_def)
    have na: "n \<in> set (Names a)" using nb f by (simp del: set_Names)
    then have "service_at a n \<in> snd ` set (app_services a)"
      by (auto simp: service_at_def dest: map_of_SomeD intro: rev_image_eqI)
    then have "wf_service (service_at a n)" using assms(2) by (auto simp: wf_app_def)
    moreover have "stored_core (service_at a n) s" using f na sb by (auto simp del: set_Names)
    moreover have "same_parts (service_at a n) s" using Normalize_parts(1) [OF assms na] sb by simp
    ultimately show ?thesis by (rule stored_parts_wf [rotated 2])
  qed
  with vol svc f assms(2) show ?thesis by (simp add: wf_app_def with_default_wf)
qed

end
