(* ===== verification/Spec_Plans.thy ===== *)
theory Spec_Plans
  imports Spec_Parts Spec_Transfer
begin

text \<open>
  What a plan over two specifications keeps of each: the services of both survive with their
  own settings, the shared settings of the destination are untouched, and no data is reused.
\<close>

section \<open>Carrying a service over\<close>

lemma stored_core_trans: "stored_core s t \<Longrightarrow> stored_core t u \<Longrightarrow> stored_core s u"
  by (simp add: stored_core_def)

lemma service_at_in: "n \<in> set (Names a) \<Longrightarrow> (n, service_at a n) \<in> set (app_services a)"
  by (auto simp: service_at_def dest: map_of_SomeD)

lemma service_at_wf: "wf_app a \<Longrightarrow> n \<in> set (Names a) \<Longrightarrow> wf_service (service_at a n)"
  using service_at_in [of n a] by (auto simp: wf_app_def)

lemma Normalize_frame_at:
  assumes "Normalize ex a = Inr b" and "wf_app a"
  shows "Names b = Names a" and "n \<in> set (Names a) \<Longrightarrow> stored_core (service_at a n) (service_at b n)"
    and "app_Env b = app_Env a" and "app_Secrets b = app_Secrets a" and "app_InjectEnv b = app_InjectEnv a"
    and "app_Name b = app_Name a" and "app_Domains b = app_Domains a" and "app_Recovery b = app_Recovery a"
    and "app_Networks b = with_default_network (app_Networks a)"
  using Normalize_frame [OF assms] by blast+

lemma put_service_wf:
  assumes "wf_app a" and "wf_service s"
  shows "wf_app (put_service n s a)"
proof -
  have "wf_service t" if "t \<in> snd ` set (gm_set n s (app_services a))" for t
  proof -
    have "snd ` set (gm_set n s m) \<subseteq> insert s (snd ` set m)" for m
      by (induction n s m rule: gm_set.induct) auto
    then have "t = s \<or> t \<in> snd ` set (app_services a)" using that by blast
    then show ?thesis using assms unfolding wf_app_def by blast
  qed
  moreover have "app_services (put_service n s a) = gm_set n s (app_services a)" by simp
  ultimately show ?thesis using assms(1) by (auto simp: wf_app_def put_service_def app_services_def)
qed

section \<open>Adding services\<close>

lemma add_services_run:
  assumes "foldE (\<lambda>next name.
       if gm_has (app_services next) name then Inl (Err (''service '' @ name @ '' already exists''))
       else Inr (put_service name (g name) next)) base ns = Inr r"
    and "wf_app base" and "\<And>n. n \<in> set ns \<Longrightarrow> wf_service (g n)"
  shows "wf_app r \<and> distinct ns \<and> set ns \<inter> set (Names base) = {}
    \<and> r = base\<lparr>app_Services := app_Services r\<rparr>
    \<and> (\<forall>k. gm_get (app_services r) k = (if k \<in> set ns then Some (g k) else gm_get (app_services base) k))"
  using assms
proof (induction ns arbitrary: base)
  case (Cons n ns)
  let ?b = "put_service n (g n) base"
  have fresh: "\<not> gm_has (app_services base) n" using Cons.prems(1) by (simp split: if_splits)
  then have "foldE (\<lambda>next name.
       if gm_has (app_services next) name then Inl (Err (''service '' @ name @ '' already exists''))
       else Inr (put_service name (g name) next)) ?b ns = Inr r"
    using Cons.prems(1) by simp
  from Cons.IH [OF this put_service_wf [OF Cons.prems(2)]] Cons.prems(3)
  have IH: "wf_app r" "distinct ns" "set ns \<inter> set (Names ?b) = {}" "r = ?b\<lparr>app_Services := app_Services r\<rparr>"
    "\<forall>k. gm_get (app_services r) k = (if k \<in> set ns then Some (g k) else gm_get (app_services ?b) k)" by auto
  have "r = base\<lparr>app_Services := app_Services r\<rparr>" using IH(4) by (cases base) (simp add: put_service_def)
  with IH fresh show ?case by (auto simp: gm_has_def)
qed simp

lemma add_fresh_run:
  assumes "add_fresh kind known new = Inr r" and "gm_wf known"
  shows "gm_wf r" and "\<forall>x. gm_has known x \<longrightarrow> \<not> gm_has new x" and "\<forall>x. gm_has known x \<longrightarrow> gm_get r x = gm_get known x"
proof -
  have "foldE (\<lambda>m (k, v). if gm_has m k then Inl (Err (kind @ k @ '' already exists'')) else Inr (gm_set k v m)) known new = Inr r
      \<Longrightarrow> gm_wf known \<Longrightarrow> gm_wf r \<and> (\<forall>x. gm_has known x \<longrightarrow> \<not> gm_has new x \<and> gm_get r x = gm_get known x)"
  proof (induction new arbitrary: known)
    case (Cons p new)
    obtain k v where p: "p = (k, v)" by (cases p)
    have fresh: "\<not> gm_has known k" using Cons.prems(1) by (simp add: p split: if_splits)
    have "gm_wf r \<and> (\<forall>x. gm_has (gm_set k v known) x \<longrightarrow> \<not> gm_has new x \<and> gm_get r x = gm_get (gm_set k v known) x)"
    proof (rule Cons.IH)
      show "foldE (\<lambda>m (k, v). if gm_has m k then Inl (Err (kind @ k @ '' already exists'')) else Inr (gm_set k v m))
          (gm_set k v known) new = Inr r"
        using Cons.prems(1) fresh by (simp add: p)
      show "gm_wf (gm_set k v known)" using Cons.prems(2) by simp
    qed
    then have r: "gm_wf r" and keep: "\<And>x. x = k \<or> gm_has known x \<Longrightarrow> \<not> gm_has new x \<and> gm_get r x = gm_get (gm_set k v known) x"
      by (auto simp: gm_has_def)
    have "\<not> gm_has (p # new) x \<and> gm_get r x = gm_get known x" if "gm_has known x" for x
    proof -
      have "x \<noteq> k" using that fresh by blast
      with keep [of x] that show ?thesis by (simp add: p gm_has_def)
    qed
    with r show ?case by blast
  qed (simp add: gm_has_def)
  with assms show "gm_wf r" "\<forall>x. gm_has known x \<longrightarrow> \<not> gm_has new x" "\<forall>x. gm_has known x \<longrightarrow> gm_get r x = gm_get known x"
    by (simp_all add: add_fresh_def)
qed

lemma add_networks_wf: "add_networks known new = Inr r \<Longrightarrow> gm_wf known \<Longrightarrow> gm_wf r"
  unfolding add_networks_def
  by (erule foldE_invariant [where P = gm_wf]) (auto split: option.splits if_splits)

lemma AddServices_steps:
  assumes "AddServices ex base add0 = Inr r" and "wf_app base" and "wf_app add0"
  obtains b d c f where "Normalize ex base = Inr b" "Normalize ex add0 = Inr d" "Normalize ex f = Inr r" "wf_app f"
    "set (Names base) \<inter> set (Names add0) = {}" "set (gm_keys (app_Volumes b)) \<inter> set (gm_keys (app_Volumes d)) = {}"
    "app_services f = app_services c" "app_Env f = app_Env b" "app_Secrets f = app_Secrets b" "app_InjectEnv f = app_InjectEnv b"
    "app_Name f = app_Name b"
    "\<forall>k. gm_get (app_services c) k = (if k \<in> set (Names d) then Some (EffectiveService d (service_at d k)) else gm_get (app_services b) k)"
proof -
  obtain b d c ns vs ds where s: "Normalize ex base = Inr b" "Normalize ex add0 = Inr d" "add_services b d = Inr c"
    "add_networks (app_Networks c) (app_Networks d) = Inr ns" "add_fresh ''volume '' (app_Volumes c) (app_Volumes d) = Inr vs"
    "add_fresh ''domain '' (app_Domains c) (app_Domains d) = Inr ds"
    "Normalize ex (c\<lparr>app_Networks := ns, app_Volumes := vs, app_Domains := ds\<rparr>) = Inr r"
    using assms(1) by (auto simp: AddServices_def bindE_Inr)
  let ?f = "c\<lparr>app_Networks := ns, app_Volumes := vs, app_Domains := ds\<rparr>"
  have wb: "wf_app b" and wd: "wf_app d" using Normalize_wf s(1,2) assms(2,3) by blast+
  have "wf_service (EffectiveService d (service_at d n))" if "n \<in> set (Names d)" for n
    using service_at_wf [OF wd that] by (rule effective_wf)
  from add_services_run [OF s(3) [unfolded add_services_def] wb this]
  have c: "wf_app c" "set (Names d) \<inter> set (Names b) = {}" "c = b\<lparr>app_Services := app_Services c\<rparr>"
    "\<forall>k. gm_get (app_services c) k = (if k \<in> set (Names d) then Some (EffectiveService d (service_at d k)) else gm_get (app_services b) k)"
    by blast+
  have cf: "app_Env c = app_Env b" "app_Secrets c = app_Secrets b" "app_InjectEnv c = app_InjectEnv b"
    "app_Name c = app_Name b" "app_Volumes c = app_Volumes b"
    by (subst c(3), simp)+
  have w: "gm_wf ns" "gm_wf vs" "gm_wf ds"
    using c(1) add_networks_wf [OF s(4)] add_fresh_run(1) [OF s(5)] add_fresh_run(1) [OF s(6)] by (simp_all add: wf_app_def)
  have "wf_app ?f" using c(1) w by (simp add: wf_app_def app_services_def)
  moreover have "set (gm_keys (app_Volumes b)) \<inter> set (gm_keys (app_Volumes d)) = {}"
    using add_fresh_run(2) [OF s(5)] c(1) cf(5) by (auto simp: wf_app_def gm_has_keys)
  moreover have "set (Names base) \<inter> set (Names add0) = {}"
    using c(2) Normalize_frame_at(1) [OF s(1) assms(2)] Normalize_frame_at(1) [OF s(2) assms(3)] by (simp only:) blast
  moreover have "app_services ?f = app_services c" by (simp add: app_services_def)
  ultimately show thesis
    using that [of b d ?f c] s(1,2,7) cf c(4) by simp
qed

lemma AddServices_keeps:
  assumes "AddServices ex base add0 = Inr r" and "wf_app base" and "wf_app add0"
  shows "\<exists>d. Normalize ex add0 = Inr d
    \<and> set (Names base) \<inter> set (Names add0) = {} \<and> set (Names r) = set (Names base) \<union> set (Names add0)
    \<and> (\<forall>n \<in> set (Names base). stored_core (service_at base n) (service_at r n))
    \<and> (\<forall>n \<in> set (Names add0). stored_core (EffectiveService d (service_at d n)) (service_at r n))
    \<and> app_Env r = app_Env base \<and> app_Secrets r = app_Secrets base \<and> app_InjectEnv r = app_InjectEnv base"
proof -
  obtain b d c f where s: "Normalize ex base = Inr b" "Normalize ex add0 = Inr d" "Normalize ex f = Inr r" "wf_app f"
    "set (Names base) \<inter> set (Names add0) = {}"
    "app_services f = app_services c" "app_Env f = app_Env b" "app_Secrets f = app_Secrets b" "app_InjectEnv f = app_InjectEnv b"
    "\<forall>k. gm_get (app_services c) k = (if k \<in> set (Names d) then Some (EffectiveService d (service_at d k)) else gm_get (app_services b) k)"
    by (rule AddServices_steps [OF assms], rule that) assumption+
  note nb = Normalize_frame_at [OF s(1) assms(2)] and nd = Normalize_frame_at(1) [OF s(2) assms(3)]
    and nr = Normalize_frame_at [OF s(3,4)]
  have names: "set (Names f) = set (Names base) \<union> set (Names add0)"
  proof -
    have "set (Names f) = set (Names b) \<union> set (Names d)"
      using s(6,10) by (auto simp: split: if_splits)
    then show ?thesis by (simp only: nb(1) nd)
  qed
  have at_b: "service_at f n = service_at b n" if "n \<in> set (Names base)" for n
  proof -
    have "n \<notin> set (Names d)" using that s(5) unfolding nd by blast
    then show ?thesis using s(6,10) by (simp add: service_at_def del: set_Names)
  qed
  have at_d: "service_at f n = EffectiveService d (service_at d n)" if "n \<in> set (Names add0)" for n
    using that s(6,10) unfolding nd [symmetric] by (simp add: service_at_def [of f] del: set_Names)
  have "stored_core (service_at base n) (service_at r n)" if "n \<in> set (Names base)" for n
  proof (rule stored_core_trans)
    show "stored_core (service_at base n) (service_at b n)" by (rule nb(2) [OF that])
    show "stored_core (service_at b n) (service_at r n)"
      using nr(2) [of n] names that at_b [OF that] by (simp del: set_Names)
  qed
  moreover have "stored_core (EffectiveService d (service_at d n)) (service_at r n)" if "n \<in> set (Names add0)" for n
    using nr(2) [of n] names that at_d [OF that] by (simp del: set_Names)
  moreover have "set (Names r) = set (Names base) \<union> set (Names add0)" using nr(1) names by (simp del: set_Names)
  ultimately show ?thesis
    using s(2,5,7-9) nr(3-5) nb(3-5) by (intro exI [of _ d]) (simp del: set_Names)
qed

section \<open>Moving a service\<close>

lemma gm_del_wf_app:
  assumes "wf_app a"
  shows "wf_app (a\<lparr>app_Services := Some (gm_del n (app_services a))\<rparr>)"
proof -
  have "app_services (a\<lparr>app_Services := Some (gm_del n (app_services a))\<rparr>) = gm_del n (app_services a)"
    by (simp add: app_services_def)
  moreover have "set (gm_del n (app_services a)) \<subseteq> set (app_services a)" by (auto simp: gm_del_def)
  ultimately show ?thesis using assms by (auto simp: wf_app_def)
qed

lemma effective_storage:
  "sv_Volume (EffectiveService a s) = sv_Volume s" "sv_Mounts (EffectiveService a s) = sv_Mounts s"
  "sv_Job (EffectiveService a s) = sv_Job s"
  by (simp_all add: EffectiveService_def Let_def)

lemma move_networks_wf: "move_networks src known ns = Inr r \<Longrightarrow> gm_wf known \<Longrightarrow> gm_wf r"
  unfolding move_networks_def
  by (erule foldE_invariant [where P = gm_wf]) (auto simp: Let_def split: if_splits)

lemma MoveService_steps:
  assumes "MoveService ex src0 dst0 n t = Inr (src', dst')" and "wf_app src0" and "wf_app dst0"
  obtains src dst ns where "Normalize ex src0 = Inr src" "Normalize ex dst0 = Inr dst" "n \<in> set (Names src)" "t \<notin> set (Names dst)"
    "move_blocked src n (service_at src n) = Inr ()"
    "\<forall>k \<in> set (Names src). names_peer n (service_at src k) = Inr ()"
    "\<forall>(k, r) \<in> set (SecretReferences (EffectiveService src (service_at src n))). ref_Provider r = []"
    "Normalize ex (src\<lparr>app_Services := Some (gm_del n (app_services src))\<rparr>) = Inr src'"
    "Normalize ex (put_service t (EffectiveService src (service_at src n)) (dst\<lparr>app_Networks := ns\<rparr>)) = Inr dst'"
    "wf_app src" "wf_app (dst\<lparr>app_Networks := ns\<rparr>)"
proof -
  obtain src dst ns where s: "Normalize ex src0 = Inr src" "Normalize ex dst0 = Inr dst"
    "gm_has (app_services src) n" "\<not> gm_has (app_services dst) t" "move_blocked src n (service_at src n) = Inr ()"
    "\<forall>(k, peer) \<in> set (app_services src). names_peer n peer = Inr ()"
    "\<forall>(k, r) \<in> set (SecretReferences (EffectiveService src (service_at src n))). ref_Provider r = []"
    "move_networks src (app_Networks dst) (sv_networks (EffectiveService src (service_at src n))) = Inr ns"
    "Normalize ex (src\<lparr>app_Services := Some (gm_del n (app_services src))\<rparr>) = Inr src'"
    "Normalize ex (put_service t (EffectiveService src (service_at src n)) (dst\<lparr>app_Networks := ns\<rparr>)) = Inr dst'"
    using assms(1) unfolding MoveService_def Let_def
    by (simp only: bindE_Inr andE_Inr forE_Inr checks_Cons_Inr checks_Nil_Inr) (fastforce simp: checks_Cons_Inr)
  have w: "wf_app src" "wf_app dst" using Normalize_wf s(1,2) assms(2,3) by blast+
  have "names_peer n (service_at src k) = Inr ()" if "k \<in> set (Names src)" for k
    using s(6) service_at_in [OF that] by blast
  moreover have "wf_app (dst\<lparr>app_Networks := ns\<rparr>)"
    using w(2) move_networks_wf [OF s(8)] by (simp add: wf_app_def app_services_def)
  ultimately show thesis using that [of src dst ns] s w by (auto simp: gm_has_def)
qed

lemma MoveService_keeps:
  assumes "MoveService ex src0 dst0 n t = Inr (src', dst')" and "wf_app src0" and "wf_app dst0"
  shows "\<exists>src. Normalize ex src0 = Inr src \<and> n \<in> set (Names src0) \<and> t \<notin> set (Names dst0)
    \<and> set (Names src') = set (Names src0) - {n} \<and> set (Names dst') = insert t (set (Names dst0))
    \<and> (\<forall>k \<in> set (Names src0) - {n}. stored_core (service_at src0 k) (service_at src' k)
          \<and> n \<notin> set (sv_DependsOn (service_at src k)))
    \<and> (\<forall>k \<in> set (Names dst0). stored_core (service_at dst0 k) (service_at dst' k))
    \<and> stored_core (EffectiveService src (service_at src n)) (service_at dst' t)
    \<and> sv_Volume (service_at dst' t) = None \<and> sv_Mounts (service_at dst' t) = [] \<and> sv_Job (service_at dst' t) = None"
proof -
  obtain src dst ns where s: "Normalize ex src0 = Inr src" "Normalize ex dst0 = Inr dst" "n \<in> set (Names src)" "t \<notin> set (Names dst)"
    "move_blocked src n (service_at src n) = Inr ()"
    "\<forall>k \<in> set (Names src). names_peer n (service_at src k) = Inr ()"
    "Normalize ex (src\<lparr>app_Services := Some (gm_del n (app_services src))\<rparr>) = Inr src'"
    "Normalize ex (put_service t (EffectiveService src (service_at src n)) (dst\<lparr>app_Networks := ns\<rparr>)) = Inr dst'"
    "wf_app src" "wf_app (dst\<lparr>app_Networks := ns\<rparr>)"
    by (rule MoveService_steps [OF assms], rule that) assumption+
  let ?s = "src\<lparr>app_Services := Some (gm_del n (app_services src))\<rparr>"
  let ?e = "EffectiveService src (service_at src n)"
  let ?d = "put_service t ?e (dst\<lparr>app_Networks := ns\<rparr>)"
  have wd: "wf_app ?d" by (rule put_service_wf [OF s(10) effective_wf [OF service_at_wf [OF s(9,3)]]])
  note fs = Normalize_frame_at [OF s(1) assms(2)] and fd = Normalize_frame_at [OF s(2) assms(3)]
    and fs' = Normalize_frame_at [OF s(7) gm_del_wf_app [OF s(9)]] and fd' = Normalize_frame_at [OF s(8) wd]
  have svc: "app_services ?s = gm_del n (app_services src)" "app_services (dst\<lparr>app_Networks := ns\<rparr>) = app_services dst"
    "app_services ?d = gm_set t ?e (app_services dst)"
    by (simp_all add: app_services_def put_service_def)
  have ns: "set (Names ?s) = set (Names src) - {n}" "set (Names ?d) = insert t (set (Names dst))"
    by (auto simp: svc split: if_splits)
  have at_s: "service_at ?s k = service_at src k" if "k \<noteq> n" for k using that by (simp add: service_at_def svc)
  have dn: "service_at (dst\<lparr>app_Networks := ns\<rparr>) k = service_at dst k" for k by (simp add: service_at_def svc)
  have at_d: "service_at ?d k = (if k = t then ?e else service_at dst k)" for k by (simp add: service_at_def svc)
  have "stored_core (service_at src0 k) (service_at src' k) \<and> n \<notin> set (sv_DependsOn (service_at src k))"
    if k: "k \<in> set (Names src0) - {n}" for k
  proof
    have ks: "k \<in> set (Names src)" using k fs(1) by (simp del: set_Names)
    then have "k \<in> set (Names ?s)" using k ns(1) by blast
    from fs'(2) [OF this] have "stored_core (service_at src k) (service_at src' k)" using at_s k by simp
    with fs(2) k show "stored_core (service_at src0 k) (service_at src' k)" using stored_core_trans by blast
    show "n \<notin> set (sv_DependsOn (service_at src k))"
      using s(6) ks by (auto simp: names_peer_def checks_Cons_Inr simp del: set_Names checks.simps)
  qed
  moreover have "stored_core (service_at dst0 k) (service_at dst' k)" if k: "k \<in> set (Names dst0)" for k
  proof (rule stored_core_trans)
    show "stored_core (service_at dst0 k) (service_at dst k)" by (rule fd(2) [OF k])
    have "k \<in> set (Names dst)" using k fd(1) by (simp del: set_Names)
    then have "k \<in> set (Names ?d)" "k \<noteq> t" using ns(2) s(4) by blast+
    with fd'(2) [of k] show "stored_core (service_at dst k) (service_at dst' k)" by (simp add: dn del: set_Names)
  qed
  moreover have core: "stored_core ?e (service_at dst' t)"
    using fd'(2) [of t] ns(2) at_d by (simp del: set_Names)
  moreover have "sv_Volume ?e = None \<and> sv_Mounts ?e = [] \<and> sv_Job ?e = None"
    using s(5) by (simp add: effective_storage move_blocked_def checks_Cons_Inr del: checks.simps)
  moreover have "sv_Volume (service_at dst' t) = sv_Volume ?e" "sv_Mounts (service_at dst' t) = sv_Mounts ?e"
    "sv_Job (service_at dst' t) = None \<longleftrightarrow> sv_Job ?e = None"
    using core by (simp_all add: stored_core_def)
  moreover have "set (Names src') = set (Names src0) - {n}" "set (Names dst') = insert t (set (Names dst0))"
    using fs'(1) fd'(1) ns fs(1) fd(1) by (simp_all del: set_Names)
  ultimately show ?thesis
    using s(1,3,4) fs(1) fd(1) by (intro exI [of _ src]) (simp del: set_Names)
qed

section \<open>Automatic recovery\<close>

definition stateless :: "Application \<Rightarrow> bool" where
  "stateless a \<longleftrightarrow> app_Volumes a = []
     \<and> (\<forall>n \<in> set (Names a). sv_Job (service_at a n) = None \<and> sv_Volume (service_at a n) = None \<and> sv_Mounts (service_at a n) = [])"

lemma recovery_message_Nil:
  "recovery_message s = [] \<longleftrightarrow> sv_Job s = None \<and> sv_Volume s = None \<and> sv_Mounts s = []"
  by (simp add: recovery_message_def)

lemma no_recovery_None: "no_recovery a = None \<longleftrightarrow> stateless a"
  by (auto simp: no_recovery_def stateless_def find_None_iff recovery_message_Nil simp del: set_Names)

lemma no_recovery_Some: "no_recovery a = Some m \<Longrightarrow> m \<noteq> []"
  by (auto simp: no_recovery_def find_Some_iff split: if_splits)

lemma gm_has_entry: "gm_has m n \<longleftrightarrow> (\<exists>s. (n, s) \<in> set m)"
  by (force simp: gm_has_keys gm_keys_def)

lemma same_service_names:
  assumes "gm_wf m" and "gm_wf p"
  shows "len m = len p \<and> (\<forall>n. gm_has m n \<longrightarrow> gm_has p n) \<longleftrightarrow> gm_keys m = gm_keys p"
proof
  assume a: "len m = len p \<and> (\<forall>n. gm_has m n \<longrightarrow> gm_has p n)"
  have "card (set (gm_keys m)) = card (set (gm_keys p))"
    using a gm_keys_distinct [OF assms(1)] gm_keys_distinct [OF assms(2)]
    by (simp add: distinct_card) (simp add: gm_keys_def len_length)
  moreover have "set (gm_keys m) \<subseteq> set (gm_keys p)" using a by (auto simp: gm_has_keys)
  ultimately have "set (gm_keys m) = set (gm_keys p)" by (simp add: card_subset_eq)
  then show "gm_keys m = gm_keys p"
    using assms by (simp add: gm_keys_sorted gm_keys_distinct sorted_distinct_set_unique)
next
  assume e: "gm_keys m = gm_keys p"
  then have "length m = length p" by (metis gm_keys_def length_map)
  with e show "len m = len p \<and> (\<forall>n. gm_has m n \<longrightarrow> gm_has p n)" by (simp add: len_length gm_has_keys)
qed

lemma RecoveryBlocked_none:
  assumes "wf_app nx" and "\<And>p. previous = Some p \<Longrightarrow> wf_app p"
  shows "RecoveryBlocked nx previous = [] \<longleftrightarrow>
    (case app_Recovery nx of None \<Rightarrow> True | Some r \<Rightarrow> rec_OnFailure r \<noteq> ''disabled'')
    \<and> (\<exists>p. previous = Some p \<and> Names p = Names nx \<and> stateless nx \<and> stateless p)"
proof (cases previous)
  case (Some p)
  have "len (app_services nx) \<noteq> len (app_services p) \<or> list_ex (\<lambda>(n, s). \<not> gm_has (app_services p) n) (app_services nx)
      \<longleftrightarrow> \<not> (len (app_services nx) = len (app_services p) \<and> (\<forall>n. gm_has (app_services nx) n \<longrightarrow> gm_has (app_services p) n))"
    by (auto simp: list_ex_iff gm_has_entry)
  also have "\<dots> \<longleftrightarrow> Names p \<noteq> Names nx"
    using same_service_names [of "app_services nx" "app_services p"] assms(1) assms(2) [OF Some]
    by (auto simp: Names_wf) (auto simp: wf_app_def)
  finally show ?thesis
    using no_recovery_None [of nx] no_recovery_None [of p] no_recovery_Some [of nx] no_recovery_Some [of p]
    by (auto simp: RecoveryBlocked_def Some split: option.splits)
qed (simp add: RecoveryBlocked_def split: option.splits)

end
