(* ===== verification/Spec_Resize_Facts.thy ===== *)
theory Spec_Resize_Facts
  imports Spec_Resize Spec_Plans
begin

text \<open>What a resize does to the services: where they mount, and what they mount.\<close>

section \<open>One service\<close>

lemma resize_service_unaffected:
  "resize_service named target claim n s = (t, affected, own) \<Longrightarrow> \<not> affected \<Longrightarrow> t = s \<and> own = None"
proof -
  assume r: "resize_service named target claim n s = (t, affected, own)" and a: "\<not> affected"
  have id: "map (retarget_mount named target) ms = ms"
    if "\<not> list_ex (\<lambda>m. named \<noteq> None \<and> named = Some (mnt_Volume m)) ms" for ms
    using that by (induction ms) (auto simp: retarget_mount_def)
  from r a show ?thesis
    by (auto simp: resize_service_def Let_def id split: option.splits if_splits)
qed

lemma retarget_mount_fields [simp]:
  "mnt_MountPath (retarget_mount named target m) = mnt_MountPath m"
  "mnt_ReadOnly (retarget_mount named target m) = mnt_ReadOnly m"
  by (simp_all add: retarget_mount_def)

definition data_paths :: "Service \<Rightarrow> string set" where
  "data_paths s = set (volume_paths s) \<union> mnt_MountPath ` set (sv_Mounts s)"

lemma resize_service_paths:
  "data_paths (fst (resize_service named target claim n s)) = data_paths s"
  by (auto simp: resize_service_def Let_def data_paths_def volume_paths_def image_image split: option.splits)

lemma resize_service_volumes:
  "m \<in> set (sv_Mounts (fst (resize_service (Some v) target claim n s))) \<Longrightarrow> mnt_Volume m = v \<Longrightarrow> v = target"
  by (auto simp: resize_service_def Let_def retarget_mount_def split: option.splits if_splits)

lemma resize_service_frame:
  "\<exists>ms v. fst (resize_service named target claim n s) = s\<lparr>sv_Mounts := ms, sv_Volume := v\<rparr>"
proof -
  have "fst (resize_service named target claim n s)
      = s\<lparr>sv_Mounts := sv_Mounts (fst (resize_service named target claim n s)),
          sv_Volume := sv_Volume (fst (resize_service named target claim n s))\<rparr>"
    by (simp add: resize_service_def Let_def split: option.splits)
  then show ?thesis by blast
qed

lemma same_sidecar_mounts: "same_sidecar x y \<Longrightarrow> sc_Mounts y = sc_Mounts x"
  by (cases x; cases y) (simp add: same_sidecar_def)

lemma list_all2_left: "list_all2 P xs ys \<Longrightarrow> x \<in> set xs \<Longrightarrow> \<exists>y \<in> set ys. P x y"
  by (induction rule: list_all2_induct) auto

section \<open>All services\<close>

lemma resize_step_run:
  assumes "resize_step named target claim st n = Inr st'" and "gm_wf (app_services (rz_app st))" and "gm_has (app_services (rz_app st)) n"
  shows "same_tables (rz_app st) (rz_app st')" and "gm_wf (app_services (rz_app st'))"
    and "service_at (rz_app st') k = (if k = n then fst (resize_service named target claim n (service_at (rz_app st) n)) else service_at (rz_app st) k)"
    and "vr_TargetName (rz_plan st') = vr_TargetName (rz_plan st)"
    and "vr_Services (rz_plan st') = vr_Services (rz_plan st)
      @ (if fst (snd (resize_service named target claim n (service_at (rz_app st) n))) then [n] else [])"
    and "sv_Job (service_at (rz_app st) n) = None"
proof -
  obtain s affected own where r: "resize_service named target claim n (service_at (rz_app st) n) = (s, affected, own)"
    by (metis prod_cases3)
  note step = assms(1)[unfolded resize_step_def Let_def r]
  show "sv_Job (service_at (rz_app st) n) = None" using step by (simp split: if_splits)
  have app: "rz_app st' = (if affected then put_service n s (rz_app st) else rz_app st)
    \<and> vr_TargetName (rz_plan st') = vr_TargetName (rz_plan st)
    \<and> vr_Services (rz_plan st') = vr_Services (rz_plan st) @ (if affected then [n] else [])"
    using step by (auto simp: andE_Inr split: if_splits)
  have un: "\<not> affected \<Longrightarrow> s = service_at (rz_app st) n" using resize_service_unaffected [OF r] by blast
  show "same_tables (rz_app st) (rz_app st')" "gm_wf (app_services (rz_app st'))"
    using app same_tables_put [OF same_tables_refl assms(2,3)] assms(2) by auto
  show "service_at (rz_app st') k = (if k = n then fst (resize_service named target claim n (service_at (rz_app st) n)) else service_at (rz_app st) k)"
    using app un by (auto simp: r)
  show "vr_TargetName (rz_plan st') = vr_TargetName (rz_plan st)"
    "vr_Services (rz_plan st') = vr_Services (rz_plan st)
      @ (if fst (snd (resize_service named target claim n (service_at (rz_app st) n))) then [n] else [])"
    using app by (simp_all add: r)
qed

lemma resize_fold:
  assumes "foldE (resize_step named target claim) st ns = Inr st'" and "distinct ns"
    and "set ns \<subseteq> set (gm_keys (app_services (rz_app st)))" and "gm_wf (app_services (rz_app st))"
  shows "same_tables (rz_app st) (rz_app st') \<and> gm_wf (app_services (rz_app st'))
    \<and> (\<forall>k. service_at (rz_app st') k =
         (if k \<in> set ns then fst (resize_service named target claim k (service_at (rz_app st) k)) else service_at (rz_app st) k))
    \<and> vr_TargetName (rz_plan st') = vr_TargetName (rz_plan st)
    \<and> vr_Services (rz_plan st') = vr_Services (rz_plan st)
        @ filter (\<lambda>k. fst (snd (resize_service named target claim k (service_at (rz_app st) k)))) ns"
  using assms
proof (induction ns arbitrary: st)
  case (Cons n ns)
  obtain u where u: "resize_step named target claim st n = Inr u" "foldE (resize_step named target claim) u ns = Inr st'"
    using Cons.prems(1) by (auto simp: bindE_Inr)
  have has: "gm_has (app_services (rz_app st)) n" using Cons.prems(3) by (simp add: gm_has_keys)
  note step = resize_step_run [OF u(1) Cons.prems(4) has]
  have "set ns \<subseteq> set (gm_keys (app_services (rz_app u)))"
    using Cons.prems(3) same_tables_fields(10) [OF step(1)] by simp
  from Cons.IH [OF u(2) _ this step(2)] Cons.prems(2)
  have IH: "same_tables (rz_app u) (rz_app st')" "gm_wf (app_services (rz_app st'))"
    "\<And>k. service_at (rz_app st') k =
         (if k \<in> set ns then fst (resize_service named target claim k (service_at (rz_app u) k)) else service_at (rz_app u) k)"
    "vr_TargetName (rz_plan st') = vr_TargetName (rz_plan u)"
    "vr_Services (rz_plan st') = vr_Services (rz_plan u)
        @ filter (\<lambda>k. fst (snd (resize_service named target claim k (service_at (rz_app u) k)))) ns" by auto
  have n: "n \<notin> set ns" using Cons.prems(2) by simp
  then have other: "service_at (rz_app u) k = service_at (rz_app st) k" if "k \<in> set ns" for k
    using that step(3) [of k] by auto
  have "filter (\<lambda>k. fst (snd (resize_service named target claim k (service_at (rz_app u) k)))) ns
      = filter (\<lambda>k. fst (snd (resize_service named target claim k (service_at (rz_app st) k)))) ns"
    by (rule filter_cong) (simp_all add: other)
  moreover have "service_at (rz_app st') k =
      (if k \<in> set (n # ns) then fst (resize_service named target claim k (service_at (rz_app st) k)) else service_at (rz_app st) k)" for k
    using IH(3) [of k] step(3) [of k] n other [of k] by auto
  ultimately show ?case
    using same_tables_trans [OF step(1) IH(1)] IH(2,4,5) step(4,5) by simp
qed simp

section \<open>The plan\<close>

lemma ResizeVolume_steps:
  assumes "ResizeVolume ex a0 claim n op = Inr (c, r)" and "wf_app a0"
  obtains a b v where "Normalize ex a0 = Inr a" "wf_app a" "1 \<le> n" "n \<le> 200"
    "same_tables a b" "gm_wf (app_services b)"
    "\<And>k. service_at b k = (if k \<in> set (Names a)
        then fst (resize_service (map_option fst (claimed_volume a claim)) (resize_name op claim) claim k (service_at a k))
        else service_at a k)"
    "vr_TargetName r = resize_name op claim"
    "vr_Services r = sort (filter (\<lambda>k. fst (snd (resize_service (map_option fst (claimed_volume a claim)) (resize_name op claim) claim k (service_at a k)))) (Names a))"
    "Normalize ex (b\<lparr>app_Volumes := gm_set (resize_name op claim) (v\<lparr>nvol_SizeGiB := n\<rparr>)
       (case claimed_volume a claim of None \<Rightarrow> app_Volumes b | Some (x, _) \<Rightarrow> gm_del x (app_Volumes b))\<rparr>) = Inr c"
    "n \<noteq> nvol_SizeGiB v" "vr_OldGiB r = nvol_SizeGiB v" "vr_Services r \<noteq> []"
proof -
  let ?t = "resize_name op claim"
  obtain a where a: "Normalize ex a0 = Inr a" using assms(1) by (auto simp: ResizeVolume_def bindE_Inr)
  have wf: "wf_app a" by (rule Normalize_wf [OF a assms(2)])
  let ?f = "claimed_volume a claim"
  let ?st = "\<lparr>rz_app = a, rz_plan = \<lparr>vr_Claim = claim, vr_TargetClaim = ''hakopod-volume-'' @ ?t, vr_TargetName = ?t, vr_OldGiB = 0,
                  vr_SizeGiB = n, vr_Services = [], vr_User = 0, vr_Group = 0, vr_FSGroup = 0\<rparr>, rz_volume = map_option snd ?f\<rparr>"
  obtain st where st: "foldE (resize_step (map_option fst ?f) ?t claim) ?st (Names a) = Inr st"
    and n: "1 \<le> n" "n \<le> 200"
    using assms(1) by (auto simp: ResizeVolume_def Let_def bindE_Inr andE_Inr checks_Cons_Inr a simp del: checks.simps)
  obtain v where v: "rz_volume st = Some v"
    using assms(1) st by (auto simp: ResizeVolume_def Let_def bindE_Inr andE_Inr a split: option.splits)
  have fin: "vr_Services (rz_plan st) \<noteq> []" "n \<noteq> nvol_SizeGiB v"
    "Normalize ex ((rz_app st)\<lparr>app_Volumes := gm_set ?t (v\<lparr>nvol_SizeGiB := n\<rparr>)
       (case ?f of None \<Rightarrow> app_Volumes (rz_app st) | Some (x, _) \<Rightarrow> gm_del x (app_Volumes (rz_app st)))\<rparr>) = Inr c"
    "r = (rz_plan st)\<lparr>vr_OldGiB := nvol_SizeGiB v, vr_Services := sort (vr_Services (rz_plan st))\<rparr>"
    using assms(1) st v by (auto simp: ResizeVolume_def Let_def bindE_Inr andE_Inr checks_Cons_Inr a simp del: checks.simps)
  have d: "distinct (Names a)" "set (Names a) \<subseteq> set (gm_keys (app_services (rz_app ?st)))"
    using Names_distinct [OF wf] by (simp_all add: Names_def)
  have w: "gm_wf (app_services (rz_app ?st))" using wf by (simp add: wf_app_def)
  from resize_fold [OF st d w] fin a wf n show thesis
    by (intro that [of a "rz_app st" v]) (simp_all del: set_Names)
qed

lemma find_satisfies: "List.find P xs = Some x \<Longrightarrow> P x"
  by (induction xs) (auto split: if_splits)

lemma claimed_volume_named:
  assumes "gm_has (app_Volumes a) v"
  shows "\<exists>w. claimed_volume a (''hakopod-volume-'' @ v) = Some (v, w)"
proof -
  have "claimed_volume a (''hakopod-volume-'' @ v) \<noteq> None"
    using assms by (auto simp: claimed_volume_def find_None_iff gm_has_entry)
  then obtain p where p: "claimed_volume a (''hakopod-volume-'' @ v) = Some p" by blast
  then have "fst p = v" using find_satisfies [of _ "app_Volumes a" p] by (force simp: claimed_volume_def)
  with p show ?thesis by (cases p) auto
qed

lemma resize_result:
  assumes "ResizeVolume ex a0 claim n op = Inr (c, r)" and "wf_app a0"
  obtains a b where "Normalize ex a0 = Inr a" "wf_app a" "Names c = Names a0" "Names a = Names a0"
    "vr_TargetName r = resize_name op claim" "vr_Services r \<noteq> []"
    "\<exists>w. gm_get (app_Volumes c) (resize_name op claim) = Some w \<and> nvol_SizeGiB w = n"
    "1 \<le> n" "n \<le> 200" "vr_OldGiB r \<noteq> n" "Normalize ex b = Inr c" "wf_app b" "Names b = Names a0"
    "\<And>k. k \<in> set (Names a0) \<Longrightarrow> service_at b k =
       fst (resize_service (map_option fst (claimed_volume a claim)) (resize_name op claim) claim k (service_at a k))"
proof -
  obtain a b v where s: "Normalize ex a0 = Inr a" "wf_app a" "1 \<le> n" "n \<le> 200"
    "same_tables a b" "gm_wf (app_services b)"
    "\<And>k. service_at b k = (if k \<in> set (Names a)
        then fst (resize_service (map_option fst (claimed_volume a claim)) (resize_name op claim) claim k (service_at a k))
        else service_at a k)"
    "vr_TargetName r = resize_name op claim"
    "Normalize ex (b\<lparr>app_Volumes := gm_set (resize_name op claim) (v\<lparr>nvol_SizeGiB := n\<rparr>)
       (case claimed_volume a claim of None \<Rightarrow> app_Volumes b | Some (x, _) \<Rightarrow> gm_del x (app_Volumes b))\<rparr>) = Inr c"
    "n \<noteq> nvol_SizeGiB v" "vr_OldGiB r = nvol_SizeGiB v" "vr_Services r \<noteq> []"
    by (rule ResizeVolume_steps [OF assms], rule that) assumption+
  let ?b = "b\<lparr>app_Volumes := gm_set (resize_name op claim) (v\<lparr>nvol_SizeGiB := n\<rparr>)
       (case claimed_volume a claim of None \<Rightarrow> app_Volumes b | Some (x, _) \<Rightarrow> gm_del x (app_Volumes b))\<rparr>"
  note st = same_tables_fields [OF s(5)]
  have svc: "app_services ?b = app_services b" by (simp add: app_services_def)
  have nb: "Names ?b = Names a" using st(10) by (simp add: Names_def svc)
  have na: "Names a = Names a0" by (rule Normalize_frame_at(1) [OF s(1) assms(2)])
  have at: "service_at ?b k = service_at b k" for k by (simp add: service_at_def svc)
  have wfs: "wf_service t" if "t \<in> snd ` set (app_services b)" for t
  proof -
    from that obtain p where p: "p \<in> set (app_services b)" "t = snd p" by (elim imageE)
    then have "gm_get (app_services b) (fst p) = Some t" by (simp add: gm_get_in [OF s(6)])
    then have "fst p \<in> set (gm_keys (app_services b))" "service_at b (fst p) = t"
      by (auto simp: service_at_def set_gm_keys)
    then have k: "fst p \<in> set (Names a)" "service_at b (fst p) = t" using st(10) by (simp_all add: Names_def)
    obtain ms w where "t = (service_at a (fst p))\<lparr>sv_Mounts := ms, sv_Volume := w\<rparr>"
      using resize_service_frame s(7) [of "fst p"] k by metis
    with service_at_wf [OF s(2) k(1)] show ?thesis by (simp add: wf_service_def)
  qed
  have wb: "wf_app ?b"
    using s(2,6) wfs st by (auto simp: wf_app_def svc split: option.splits)
  have "gm_get (app_Volumes ?b) (resize_name op claim) = Some (v\<lparr>nvol_SizeGiB := n\<rparr>)" by simp
  from Normalize_volume_at [OF s(9) wb this]
  have "\<exists>w. gm_get (app_Volumes c) (resize_name op claim) = Some w \<and> nvol_SizeGiB w = n" by auto
  moreover have "Names c = Names a0" using Normalize_frame_at(1) [OF s(9) wb] nb na by simp
  moreover have "service_at ?b k =
       fst (resize_service (map_option fst (claimed_volume a claim)) (resize_name op claim) claim k (service_at a k))"
    if "k \<in> set (Names a0)" for k using s(7) [of k] that na at [of k] by (simp del: set_Names)
  ultimately show thesis
    using that [of a ?b] s(1-4,8,9,10,11,12) wb nb na by (simp del: set_Names)
qed

lemma Resize_moves:
  assumes "ResizeVolume ex a0 claim n op = Inr (c, r)" and "wf_app a0"
  shows "\<exists>a. Normalize ex a0 = Inr a \<and> Names c = Names a0 \<and> 1 \<le> n \<and> n \<le> 200 \<and> vr_OldGiB r \<noteq> n
    \<and> (\<exists>w. gm_get (app_Volumes c) (resize_name op claim) = Some w \<and> nvol_SizeGiB w = n)
    \<and> (\<forall>k \<in> set (Names a0). data_paths (service_at c k) = data_paths (service_at a k)
         \<and> sv_Env (service_at c k) = sv_Env (service_at a0 k) \<and> sv_Secrets (service_at c k) = sv_Secrets (service_at a0 k)
         \<and> (\<forall>v. claim = ''hakopod-volume-'' @ v \<and> gm_has (app_Volumes a0) v \<and> v \<noteq> resize_name op claim
              \<longrightarrow> v \<notin> mnt_Volume ` set (sv_Mounts (service_at c k))))"
proof -
  obtain a b where s: "Normalize ex a0 = Inr a" "wf_app a" "Names c = Names a0" "Names a = Names a0"
    "\<exists>w. gm_get (app_Volumes c) (resize_name op claim) = Some w \<and> nvol_SizeGiB w = n"
    "1 \<le> n" "n \<le> 200" "vr_OldGiB r \<noteq> n" "Normalize ex b = Inr c" "wf_app b" "Names b = Names a0"
    "\<And>k. k \<in> set (Names a0) \<Longrightarrow> service_at b k =
       fst (resize_service (map_option fst (claimed_volume a claim)) (resize_name op claim) claim k (service_at a k))"
    by (rule resize_result [OF assms], rule that) assumption+
  have "data_paths (service_at c k) = data_paths (service_at a k)
      \<and> sv_Env (service_at c k) = sv_Env (service_at a0 k) \<and> sv_Secrets (service_at c k) = sv_Secrets (service_at a0 k)
      \<and> (\<forall>v. claim = ''hakopod-volume-'' @ v \<and> gm_has (app_Volumes a0) v \<and> v \<noteq> resize_name op claim
           \<longrightarrow> v \<notin> mnt_Volume ` set (sv_Mounts (service_at c k)))" if k: "k \<in> set (Names a0)" for k
  proof -
    have kb: "k \<in> set (Names b)" using k s(11) by (simp del: set_Names)
    have c: "stored_core (service_at b k) (service_at c k)" by (rule Normalize_frame_at(2) [OF s(9,10) kb])
    have a: "stored_core (service_at a0 k) (service_at a k)" by (rule Normalize_frame_at(2) [OF s(1) assms(2) k])
    note b = s(12) [OF k]
    have "data_paths (service_at c k) = data_paths (service_at b k)"
      using c by (simp add: data_paths_def volume_paths_def stored_core_def)
    moreover obtain ms w where "service_at b k = (service_at a k)\<lparr>sv_Mounts := ms, sv_Volume := w\<rparr>"
      using resize_service_frame b by metis
    moreover have "v \<notin> mnt_Volume ` set (sv_Mounts (service_at c k))"
      if v: "claim = ''hakopod-volume-'' @ v" "gm_has (app_Volumes a0) v" "v \<noteq> resize_name op claim" for v
    proof -
      have "gm_has (app_Volumes a) v" using v(2) Normalize_volumes(3) [OF s(1) assms(2)] by (simp add: gm_has_keys)
      then have "map_option fst (claimed_volume a claim) = Some v" using claimed_volume_named v(1) by fastforce
      then have "service_at b k = fst (resize_service (Some v) (resize_name op claim) claim k (service_at a k))" using b by (simp only:)
      then have "v \<notin> mnt_Volume ` set (sv_Mounts (service_at b k))"
        using resize_service_volumes v(3) by (metis imageE)
      then show ?thesis using c by (simp add: stored_core_def)
    qed
    ultimately show ?thesis using a c resize_service_paths b by (simp add: stored_core_def) metis
  qed
  with s(1,3,5-8) show ?thesis by blast
qed

text \<open>
  The sidecars of a service keep naming the volume they shared, which after the resize no
  service mounts: such an application cannot be resized.
\<close>

lemma Resize_sidecar:
  assumes "wf_app a0" and "k \<in> set (Names a0)" and "sc \<in> set (sv_Sidecars (service_at a0 k))" and "m \<in> set (sc_Mounts sc)"
    and "gm_has (app_Volumes a0) (sm_Volume m)" and "sm_Volume m \<noteq> []" and "sm_Volume m \<noteq> resize_name op (''hakopod-volume-'' @ sm_Volume m)"
  shows "\<not> is_ok (ResizeVolume ex a0 (''hakopod-volume-'' @ sm_Volume m) n op)"
proof
  let ?claim = "''hakopod-volume-'' @ sm_Volume m"
  assume "is_ok (ResizeVolume ex a0 ?claim n op)"
  then obtain c r where run: "ResizeVolume ex a0 ?claim n op = Inr (c, r)" by (auto simp: is_ok_iff)
  have gone: "sm_Volume m \<notin> mnt_Volume ` set (sv_Mounts (service_at c k))"
    using Resize_moves [OF run assms(1)] assms(2,5,7) by blast
  obtain a b where s: "Normalize ex a0 = Inr a" "Normalize ex b = Inr c" "wf_app b" "Names b = Names a0"
    "\<And>k. k \<in> set (Names a0) \<Longrightarrow> service_at b k =
       fst (resize_service (map_option fst (claimed_volume a ?claim)) (resize_name op ?claim) ?claim k (service_at a k))"
    by (rule resize_result [OF run assms(1)], rule that) assumption+
  obtain ms w where "service_at b k = (service_at a k)\<lparr>sv_Mounts := ms, sv_Volume := w\<rparr>"
    using resize_service_frame s(5) [OF assms(2)] by metis
  then have "sv_Sidecars (service_at b k) = sv_Sidecars (service_at a k)" by simp
  moreover have kb: "k \<in> set (Names b)" using assms(2) s(4) by (simp del: set_Names)
  moreover note Normalize_parts(1) [OF s(1) assms(1,2)] Normalize_parts [OF s(2,3) kb]
  ultimately have "list_all2 same_sidecar (sv_Sidecars (service_at a0 k)) (sv_Sidecars (service_at a k))"
    "list_all2 same_sidecar (sv_Sidecars (service_at a k)) (sv_Sidecars (service_at c k))"
    and vol: "sidecar_volumes (service_at c k)" by (simp_all add: same_parts_def)
  then obtain x y where "y \<in> set (sv_Sidecars (service_at c k))" "same_sidecar sc x" "same_sidecar x y"
    using assms(3) list_all2_left by metis
  then have "y \<in> set (sv_Sidecars (service_at c k))" "m \<in> set (sc_Mounts y)"
    using assms(4) by (auto simp: same_sidecar_mounts)
  with vol assms(6) gone show False unfolding sidecar_volumes_def by blast
qed

end
