(* ===== verification/Spec_Plan_Properties.thy ===== *)
theory Spec_Plan_Properties
  imports Spec_Demo Spec_Diff Spec_Resize Spec_Rebase Spec_Transfer Spec_Resize_Facts
begin

text \<open>
  The properties of the operations that plan or review a change of a stored specification:
  \<open>Diff\<close>, \<open>Rebase\<close>, \<open>AddServices\<close>, \<open>MoveService\<close>, \<open>RecoveryBlocked\<close> and \<open>ResizeVolume\<close>,
  after the small applications at which each is applied and the runs of the operations on them.
\<close>

definition plain :: Service where
  "plain = zero_Service\<lparr>sv_Image := ''app:1'', sv_Env := [(''MODE'', ''prod'')]\<rparr>"

definition one_app :: Application where
  "one_app = zero_Application\<lparr>app_Name := ''one'', app_Services := Some [(''api'', plain)],
     app_Env := [(''REGION'', ''eu'')], app_InjectEnv := True\<rparr>"

definition two_app :: Application where
  "two_app = zero_Application\<lparr>app_Name := ''two'', app_Services := Some [(''web'', plain)]\<rparr>"

definition data_mount :: Mount where
  "data_mount = \<lparr>mnt_Volume = ''data'', mnt_MountPath = ''/data'', mnt_ReadOnly = False, mnt_SubPath = []\<rparr>"

definition stored_app :: Application where
  "stored_app = zero_Application\<lparr>app_Name := ''kept'',
     app_Services := Some [(''db'', plain\<lparr>sv_Mounts := [data_mount]\<rparr>)],
     app_Volumes := [(''data'', \<lparr>nvol_SizeGiB = 10, nvol_StorageClass = [], nvol_AccessMode = []\<rparr>)]\<rparr>"

text \<open>The same with a sidecar that reads the volume.\<close>

definition shared_mount :: SidecarMount where
  "shared_mount = \<lparr>sm_Volume = ''data'', sm_Temporary = [], sm_MountPath = ''/shared'', sm_ReadOnly = True\<rparr>"

definition helper :: Sidecar where
  "helper = \<lparr>sc_Name = ''helper'', sc_Image = ''helper@sha256:'' @ replicate 64 (CHR ''a''), sc_Command = [], sc_Args = [], sc_Env = [], sc_Secrets = [],
     sc_CPU = ''100m'', sc_Memory = ''64Mi'', sc_Mounts = [shared_mount]\<rparr>"

definition side_app :: Application where
  "side_app = stored_app\<lparr>app_Services := Some [(''db'', plain\<lparr>sv_Mounts := [data_mount], sv_Sidecars := [helper]\<rparr>)]\<rparr>"

text \<open>One application with the sandbox session settings of its service changed, and nothing else.\<close>

definition a_session :: SandboxSession where
  "a_session = \<lparr>ss_AllowedIdentities = [], ss_HelperCommand = [''/helper''], ss_ReadyCommand = [''/ready''],
     ss_IdleSeconds = 60, ss_LifetimeSeconds = 600, ss_CallTimeoutSeconds = 30\<rparr>"

definition session_app :: Application where
  "session_app = one_app\<lparr>app_Services := Some [(''api'', plain\<lparr>sv_Session := Some a_session\<rparr>)]\<rparr>"

lemma plan_wf: "wf_app one_app" "wf_app two_app" "wf_app stored_app" "wf_app side_app"
  by code_simp+

lemma move_runs: "is_ok (MoveService demo_ex one_app two_app ''api'' ''api'')"
  by code_simp

lemma add_runs: "is_ok (AddServices demo_ex two_app one_app)"
  by code_simp

lemma resize_runs: "is_ok (ResizeVolume demo_ex stored_app ''hakopod-volume-data'' 20 ''op'')"
  by code_simp

lemma side_runs: "is_ok (Normalize demo_ex side_app)"
  by code_simp

lemma run_result: "is_ok r \<Longrightarrow> \<exists>x. r = Inr x"
  by (simp add: is_ok_iff)

section \<open>Review of a change\<close>

text \<open>
  C8. The review of a change is empty exactly when the two specifications agree on everything
  but the schema version and the runner pool and sandbox session settings of each service.
  So \<open>Diff\<close> misses no other change; and, as the witness shows, a change of only those settings
  is reviewed as no change at all.
\<close>

theorem Diff_empty_iff:
  assumes "gm_wf (app_services a)" and "gm_wf (app_services b)"
  shows "Diff (Some a) b = [] \<longleftrightarrow>
    a\<lparr>app_SchemaVersion := 0, app_Services := Some (map (\<lambda>(n, s). (n, s\<lparr>sv_Actions := None, sv_Session := None\<rparr>)) (app_services a))\<rparr>
    = b\<lparr>app_SchemaVersion := 0, app_Services := Some (map (\<lambda>(n, s). (n, s\<lparr>sv_Actions := None, sv_Session := None\<rparr>)) (app_services b))\<rparr>"
  using Diff_Nil [OF assms] by (simp only: reviewed_def reviewed_service_def)

theorem Diff_empty_iff_witness:
  "Diff (Some one_app) session_app = [] \<and> sv_Session (service_at one_app ''api'') \<noteq> sv_Session (service_at session_app ''api'')"
proof -
  have "gm_wf (app_services one_app)" "gm_wf (app_services session_app)" by code_simp+
  note Diff_empty_iff [OF this]
  moreover have "sv_Session (service_at one_app ''api'') \<noteq> sv_Session (service_at session_app ''api'')" by code_simp
  ultimately show ?thesis by (simp add: session_app_def one_app_def plain_def zero_Service_def app_services_def)
qed

text \<open>
  For a service that both specifications have, the change of its variables lists exactly
  the variables whose value differs or that only one side has, never their values.
\<close>

theorem Diff_environment:
  assumes "n \<noteq> []" and "gm_has (app_services a) n" and "gm_has (app_services b) n"
    and "gm_wf (sv_Env (service_at a n))" and "gm_wf (sv_Env (service_at b n))"
  shows "filter (\<lambda>c. ch_Service c = n \<and> ch_Field c = ''env'') (Diff (Some a) b) =
     (if sv_Env (service_at a n) = sv_Env (service_at b n) then []
      else [env_change n (sv_Env (service_at a n)) (sv_Env (service_at b n))])"
  by (rule Diff_env [OF assms])

theorem Diff_environment_witness:
  "filter (\<lambda>c. ch_Service c = ''api'' \<and> ch_Field c = ''env'')
     (Diff (Some one_app) (put_service ''api'' (plain\<lparr>sv_Env := [(''MODE'', ''test''), (''NEW'', ''x'')]\<rparr>) one_app))
   = [\<lparr>ch_Service = ''api'', ch_Field = ''env'', ch_Before = VStrMap [(''MODE'', ''[redacted]'')],
       ch_After = VStrMap [(''MODE'', ''[redacted]''), (''NEW'', ''[redacted]'')], ch_Sensitive = True\<rparr>]"
proof -
  let ?b = "put_service ''api'' (plain\<lparr>sv_Env := [(''MODE'', ''test''), (''NEW'', ''x'')]\<rparr>) one_app"
  have h: "''api'' \<noteq> []" "gm_has (app_services one_app) ''api''" "gm_has (app_services ?b) ''api''"
    "gm_wf (sv_Env (service_at one_app ''api''))" "gm_wf (sv_Env (service_at ?b ''api''))" by code_simp+
  have "sv_Env (service_at one_app ''api'') = [(''MODE'', ''prod'')]"
    "sv_Env (service_at ?b ''api'') = [(''MODE'', ''test''), (''NEW'', ''x'')]" by code_simp+
  with Diff_environment [OF h] show ?thesis by (simp add: env_change_def gm_keys_def)
qed

text \<open>
  No review shows the value of a variable or the body of a file: in every change of
  variables, files or sidecars each value shown is the fixed word for a hidden one.
\<close>

theorem Diff_hides_values:
  assumes "c \<in> set (Diff before after)" and "ch_Field c \<in> {''env'', ''files'', ''sidecars''}"
  shows "masked (ch_Before c) \<and> masked (ch_After c)"
  by (rule Diff_masked [OF assms])

theorem Diff_hides_values_witness:
  "\<exists>c \<in> set (Diff None one_app). ch_Field c = ''env'' \<and> masked (ch_Before c) \<and> masked (ch_After c)"
proof -
  have "list_ex (\<lambda>c. ch_Field c = ''env'') (Diff None one_app)" by code_simp
  then obtain c where c: "c \<in> set (Diff None one_app)" "ch_Field c = ''env''" by (auto simp: list_ex_iff)
  then show ?thesis using Diff_hides_values [OF c(1)] by auto
qed

section \<open>Carrying a draft forward\<close>



section \<open>Plans over two specifications\<close>

text \<open>
  Adding one specification's services to another never overwrites: the names are disjoint,
  the result has exactly both sets of services, those of the base are stored as they were,
  each added one carries the environment it had at home, and the shared variables, secrets
  and injection setting of the base are unchanged.
\<close>

theorem AddServices_adds:
  assumes "AddServices ex base add0 = Inr r" and "wf_app base" and "wf_app add0"
  shows "\<exists>d. Normalize ex add0 = Inr d
    \<and> set (Names base) \<inter> set (Names add0) = {} \<and> set (Names r) = set (Names base) \<union> set (Names add0)
    \<and> (\<forall>n \<in> set (Names base). stored_core (service_at base n) (service_at r n))
    \<and> (\<forall>n \<in> set (Names add0). stored_core (EffectiveService d (service_at d n)) (service_at r n))
    \<and> app_Env r = app_Env base \<and> app_Secrets r = app_Secrets base \<and> app_InjectEnv r = app_InjectEnv base"
  by (rule AddServices_keeps [OF assms])

theorem AddServices_adds_witness:
  "\<exists>r. AddServices demo_ex two_app one_app = Inr r \<and> set (Names r) = {''api'', ''web''} \<and> app_Env r = []"
proof -
  obtain r where r: "AddServices demo_ex two_app one_app = Inr r" using run_result [OF add_runs] by blast
  have "Names two_app = [''web'']" "Names one_app = [''api'']" "app_Env two_app = []" by code_simp+
  with AddServices_adds [OF r plan_wf(2,1)] r show ?thesis by auto
qed

text \<open>
  Moving a service takes exactly that service from one specification to the other, under
  a name that was free, with the environment it had at home and without data or jobs; nothing
  that stays behind depended on it, and every other service of both is stored as it was.
\<close>

theorem MoveService_moves:
  assumes "MoveService ex src0 dst0 n t = Inr (src', dst')" and "wf_app src0" and "wf_app dst0"
  shows "\<exists>src. Normalize ex src0 = Inr src \<and> n \<in> set (Names src0) \<and> t \<notin> set (Names dst0)
    \<and> set (Names src') = set (Names src0) - {n} \<and> set (Names dst') = insert t (set (Names dst0))
    \<and> (\<forall>k \<in> set (Names src0) - {n}. stored_core (service_at src0 k) (service_at src' k)
          \<and> n \<notin> set (sv_DependsOn (service_at src k)))
    \<and> (\<forall>k \<in> set (Names dst0). stored_core (service_at dst0 k) (service_at dst' k))
    \<and> stored_core (EffectiveService src (service_at src n)) (service_at dst' t)
    \<and> sv_Volume (service_at dst' t) = None \<and> sv_Mounts (service_at dst' t) = [] \<and> sv_Job (service_at dst' t) = None"
  by (rule MoveService_keeps [OF assms])

theorem MoveService_moves_witness:
  "\<exists>s d. MoveService demo_ex one_app two_app ''api'' ''api'' = Inr (s, d) \<and> set (Names s) = {}
     \<and> set (Names d) = {''api'', ''web''}"
proof -
  obtain s d where r: "MoveService demo_ex one_app two_app ''api'' ''api'' = Inr (s, d)"
    using run_result [OF move_runs] by force
  have "Names two_app = [''web'']" "Names one_app = [''api'']" by code_simp+
  with MoveService_moves [OF r plan_wf(1,2)] r show ?thesis by auto
qed

text \<open>
  A failed release is rolled back by itself exactly when recovery is not disabled, an
  earlier release with the same services exists, and neither has volumes, mounts or jobs;
  in every other case the code gives a reason.
\<close>

theorem RecoveryBlocked_exact:
  assumes "wf_app nx" and "\<And>p. previous = Some p \<Longrightarrow> wf_app p"
  shows "RecoveryBlocked nx previous = [] \<longleftrightarrow>
    (case app_Recovery nx of None \<Rightarrow> True | Some r \<Rightarrow> rec_OnFailure r \<noteq> ''disabled'')
    \<and> (\<exists>p. previous = Some p \<and> Names p = Names nx \<and> stateless nx \<and> stateless p)"
  by (rule RecoveryBlocked_none [OF assms])

theorem RecoveryBlocked_exact_witness:
  "RecoveryBlocked one_app (Some one_app) = [] \<and> RecoveryBlocked stored_app (Some stored_app) \<noteq> []"
proof -
  have "stateless one_app" "\<not> stateless stored_app" "app_Recovery one_app = None" by code_simp+
  then show ?thesis
    using RecoveryBlocked_exact [OF plan_wf(1), of "Some one_app"] RecoveryBlocked_exact [OF plan_wf(3), of "Some stored_app"] plan_wf
    by auto
qed

section \<open>Resizing a volume\<close>



text \<open>
  C11. A volume that a sidecar shares cannot be resized: the plan points the service's own
  mounts at the new volume but not those of its sidecars, so the specification it builds is
  refused. The application in the witness is valid and its volume resizes once the sidecar
  is left out.
\<close>

theorem ResizeVolume_refuses_sidecars:
  assumes "wf_app a0" and "k \<in> set (Names a0)" and "sc \<in> set (sv_Sidecars (service_at a0 k))" and "m \<in> set (sc_Mounts sc)"
    and "gm_has (app_Volumes a0) (sm_Volume m)" and "sm_Volume m \<noteq> []"
    and "sm_Volume m \<noteq> resize_name op (''hakopod-volume-'' @ sm_Volume m)"
  shows "\<not> is_ok (ResizeVolume ex a0 (''hakopod-volume-'' @ sm_Volume m) n op)"
  by (rule Resize_sidecar [OF assms])

theorem ResizeVolume_refuses_sidecars_witness:
  "is_ok (Normalize demo_ex side_app) \<and> \<not> is_ok (ResizeVolume demo_ex side_app ''hakopod-volume-data'' 20 ''op'')
     \<and> is_ok (ResizeVolume demo_ex stored_app ''hakopod-volume-data'' 20 ''op'')"
proof -
  have "''db'' \<in> set (Names side_app)" "helper \<in> set (sv_Sidecars (service_at side_app ''db''))"
    "shared_mount \<in> set (sc_Mounts helper)" "gm_has (app_Volumes side_app) (sm_Volume shared_mount)"
    "sm_Volume shared_mount \<noteq> []" by code_simp+
  moreover have "sm_Volume shared_mount \<noteq> resize_name ''op'' (''hakopod-volume-'' @ sm_Volume shared_mount)"
    by (simp add: resize_name_def shared_mount_def)
  ultimately show ?thesis
    using ResizeVolume_refuses_sidecars [OF plan_wf(4), of "''db''" helper shared_mount "''op''" demo_ex 20] side_runs resize_runs
    by (simp add: shared_mount_def)
qed

end
