(* ===== verification/Agent_Policy.thy ===== *)
theory Agent_Policy
  imports Prelude Go_Strings
begin

text \<open>
  Agent policies (internal/agentaccess): documents and their validation, the wildcard match,
  the conditions, and the evaluation of a machine key's request against the published
  policies. A document says when a request is blocked or held for approval.
\<close>

section \<open>Documents (document.go)\<close>

record Condition =
  cond_Field :: string
  cond_Operator :: string
  cond_Values :: "string list"

record Approver =
  apr_Kind :: string
  apr_ID :: string

record Then =
  th_Effect :: string
  th_Approvers :: "Approver list"
  th_ApprovalTTLSeconds :: int
  th_MaxCredentialTTLSeconds :: int

record Except =
  exc_ActiveIncident :: bool

record Document =
  doc_SchemaVersion :: int
  doc_Description :: string
  doc_When :: "Condition list"
  doc_Then :: Then
  doc_Except :: "Except option"

record Published =
  pub_ID :: string
  pub_Name :: string
  pub_Version :: int
  pub_Status :: string
  pub_Document :: Document

text \<open>The request's time is carried for the record only and decides nothing.\<close>

record Request =
  rq_KeyID :: string
  rq_IdentityID :: string
  rq_TeamIDs :: "string list"
  rq_Operation :: string
  rq_Category :: string
  rq_Project :: string
  rq_Environment :: string
  rq_ActiveIncident :: bool

record Match =
  m_PolicyID :: string
  m_Name :: string
  m_Version :: int
  m_Status :: string
  m_Effect :: string
  m_Exception :: bool

record Decision =
  d_Decision :: string
  d_Policy :: "Match option"
  d_Matches :: "Match list"
  d_Reason :: string

section \<open>Validation (engine.go)\<close>

definition fields :: "string list" where
  "fields = [''team'', ''key'', ''category'', ''operation'', ''project'', ''environment'']"

definition checkValue :: "string \<Rightarrow> string \<Rightarrow> unit result" where
  "checkValue opr v =
     checks
       [(TrimSpace v = [], ''must not be empty''),
        (128 < len v, ''must be at most 128 bytes''),
        (has_control v, ''must not contain control characters''),
        (opr = ''matches'' \<and> ContainsAny v (''?[]'' @ [CHR 0x5C]), ''may use only '' @ [CHR 0x27] @ ''*'' @ [CHR 0x27] @ '' as a wildcard''),
        (opr \<noteq> ''matches'' \<and> CHR ''*'' \<in> set v, ''contains '' @ [CHR 0x27] @ ''*'' @ [CHR 0x27] @ ''; use the matches operator for wildcards'')]"

text \<open>\<open>seen[v]\<close>: a value that occurred before in the same condition.\<close>

fun check_values :: "string \<Rightarrow> string list \<Rightarrow> string list \<Rightarrow> unit result" where
  "check_values opr seen [] = Inr ()"
| "check_values opr seen (v # vs) =
     andE (in_field ''when.values'' (checkValue opr v))
     (andE (checks [(v \<in> set seen, ''when.values: duplicate'')]) (check_values opr (v # seen) vs))"

fun check_conditions :: "string list \<Rightarrow> Condition list \<Rightarrow> unit result" where
  "check_conditions seen [] = Inr ()"
| "check_conditions seen (c # cs) =
     andE (checks
       [(cond_Field c \<notin> set fields, ''when.field: not a known field''),
        (cond_Field c \<in> set seen, ''when.field: appears more than once''),
        (cond_Operator c \<notin> {''is_any_of'', ''is_none_of'', ''matches''}, ''when.operator: not a known operator''),
        (cond_Values c = [] \<or> 16 < len (cond_Values c), ''when.values: between 1 and 16 values'')])
     (andE (check_values (cond_Operator c) [] (cond_Values c)) (check_conditions (cond_Field c # seen) cs))"

fun check_approvers :: "Approver list \<Rightarrow> Approver list \<Rightarrow> unit result" where
  "check_approvers seen [] = Inr ()"
| "check_approvers seen (a # rest) =
     andE (checks
       [(apr_Kind a = ''project_admins'' \<and> apr_ID a \<noteq> [], ''then.approvers.id: must be empty for project_admins''),
        (apr_Kind a \<in> {''team'', ''identity''} \<and> (apr_ID a = [] \<or> 128 < len (apr_ID a)), ''then.approvers.id: between 1 and 128 characters''),
        (apr_Kind a \<notin> {''project_admins'', ''team'', ''identity''}, ''then.approvers.kind: not a known approver kind''),
        (a \<in> set seen, ''then.approvers: duplicate'')])
     (check_approvers (a # seen) rest)"

definition check_then :: "Then \<Rightarrow> unit result" where
  "check_then t =
     andE
       (if th_Effect t = ''block'' then checks
          [(th_Approvers t \<noteq> [], ''then.approvers: must be empty when the effect is block''),
           (th_ApprovalTTLSeconds t \<noteq> 0, ''then.approval_ttl_seconds: must be unset when the effect is block'')]
        else if th_Effect t = ''require_approval'' then
          andE (checks
            [(8 < len (th_Approvers t), ''then.approvers: at most 8 entries''),
             (th_ApprovalTTLSeconds t < 300 \<or> 86400 < th_ApprovalTTLSeconds t, ''then.approval_ttl_seconds: between 300 and 86400'')])
          (check_approvers [] (th_Approvers t))
        else checks [(True, ''then.effect: must be block or require_approval'')])
     (let c = th_MaxCredentialTTLSeconds t in
      checks [(c \<noteq> 0 \<and> (c < 300 \<or> 2592000 < c), ''then.max_credential_ttl_seconds: between 300 and 2592000'')])"

definition Validate :: "Document \<Rightarrow> unit result" where
  "Validate d =
     andE (checks
       [(doc_SchemaVersion d \<noteq> 1, ''schema_version must be 1''),
        (200 < int (RuneCount (doc_Description d)), ''description must be at most 200 characters''),
        (doc_When d = [] \<or> 8 < len (doc_When d), ''when must have between 1 and 8 conditions'')])
     (andE (check_conditions [] (doc_When d)) (check_then (doc_Then d)))"

section \<open>The wildcard match\<close>

text \<open>
  The loop of \<open>MatchPattern\<close>. The variables \<open>p\<close> and \<open>v\<close> are positions in the pattern and the
  value; \<open>star\<close> is \<open>None\<close> for the code's \<open>star = -1\<close> and otherwise the pair of \<open>star\<close> and
  \<open>mark\<close>. The result is \<open>None\<close> if the loop does not end.
\<close>

partial_function (option) match_walk :: "string \<Rightarrow> string \<Rightarrow> nat \<Rightarrow> nat \<Rightarrow> (nat \<times> nat) option \<Rightarrow> bool option" where
  "match_walk pattern val p v star =
     (if v < length val then
        if p < length pattern \<and> pattern ! p = CHR ''*'' then match_walk pattern val (p + 1) v (Some (p, v))
        else if p < length pattern \<and> pattern ! p = val ! v then match_walk pattern val (p + 1) (v + 1) star
        else (case star of
                Some (s, mark) \<Rightarrow> match_walk pattern val (s + 1) (mark + 1) (Some (s, mark + 1))
              | None \<Rightarrow> Some False)
      else Some (list_all (\<lambda>c. c = CHR ''*'') (drop p pattern)))"

declare match_walk.simps [code]

definition MatchPattern :: "string \<Rightarrow> string \<Rightarrow> bool option" where
  "MatchPattern pattern val = match_walk pattern val 0 0 None"

section \<open>Conditions\<close>

definition subjects :: "Condition \<Rightarrow> Request \<Rightarrow> string list option" where
  "subjects c r =
     (if cond_Field c = ''team'' then Some (rq_TeamIDs r)
      else if cond_Field c = ''key'' then Some [rq_KeyID r]
      else if cond_Field c = ''category'' then Some [rq_Category r]
      else if cond_Field c = ''operation'' then Some [rq_Operation r]
      else if cond_Field c = ''project'' then Some [rq_Project r]
      else if cond_Field c = ''environment'' then Some [rq_Environment r]
      else None)"

definition value_hits :: "Condition \<Rightarrow> string \<Rightarrow> string \<Rightarrow> bool" where
  "value_hits c v s =
     (cond_Operator c = ''matches'' \<and> MatchPattern v s = Some True \<or> cond_Operator c \<noteq> ''matches'' \<and> v = s)"

definition condition_matches :: "Condition \<Rightarrow> Request \<Rightarrow> bool" where
  "condition_matches c r =
     (case subjects c r of
        None \<Rightarrow> False
      | Some ss \<Rightarrow>
          if \<not> list_ex (\<lambda>s. s \<noteq> []) ss then cond_Operator c = ''is_none_of''
          else
            let hit = list_ex (\<lambda>s. list_ex (\<lambda>v. value_hits c v s) (cond_Values c)) ss in
            if cond_Operator c = ''is_none_of'' then \<not> hit else hit)"

definition Matches :: "Document \<Rightarrow> Request \<Rightarrow> bool" where
  "Matches d r = list_all (\<lambda>c. condition_matches c r) (doc_When d)"

section \<open>Evaluation\<close>

definition policy_match :: "Request \<Rightarrow> Published \<Rightarrow> Match" where
  "policy_match r p =
     \<lparr>m_PolicyID = pub_ID p, m_Name = pub_Name p, m_Version = pub_Version p, m_Status = pub_Status p,
      m_Effect = th_Effect (doc_Then (pub_Document p)),
      m_Exception = (case doc_Except (pub_Document p) of None \<Rightarrow> False | Some e \<Rightarrow> exc_ActiveIncident e) \<and> rq_ActiveIncident r\<rparr>"

definition policy_matches :: "Request \<Rightarrow> Published list \<Rightarrow> Match list" where
  "policy_matches r ps =
     map (policy_match r)
       (filter (\<lambda>p. (pub_Status p = ''enforced'' \<or> pub_Status p = ''monitor'') \<and> Matches (pub_Document p) r) ps)"

definition find_match :: "Match list \<Rightarrow> string \<Rightarrow> string \<Rightarrow> bool \<Rightarrow> Match option" where
  "find_match ms status effect exception =
     find (\<lambda>m. m_Status m = status \<and> m_Exception m = exception \<and> (effect = [] \<or> m_Effect m = effect)) ms"

text \<open>The \<open>%q\<close> of a name without quotes, backslashes or unprintable characters.\<close>

definition quoted :: "string \<Rightarrow> string" where
  "quoted s = [CHR 0x22] @ s @ [CHR 0x22]"

definition label :: "Match \<Rightarrow> string" where
  "label m = quoted (m_Name m) @ '' v'' @ Itoa (m_Version m)"

text \<open>The \<open>else if\<close> chain: what is looked for, the decision, and the reason around the label.\<close>

definition decision_rules :: "(string \<times> string \<times> bool \<times> string \<times> string \<times> string) list" where
  "decision_rules =
     [(''enforced'', ''block'', False, ''block'', ''Blocked by '', ''.''),
      (''enforced'', ''require_approval'', False, ''require_approval'', ''Held for approval by '', ''.''),
      (''enforced'', [], True, ''exception'', ''Allowed because an alarm is active; '', '' has an incident exception.''),
      (''monitor'', ''block'', False, ''monitor_block'', [], '' would block this request (monitor).''),
      (''monitor'', ''require_approval'', False, ''monitor_approval'', [], '' would hold this request for approval (monitor).'')]"

fun decide :: "Match list \<Rightarrow> (string \<times> string \<times> bool \<times> string \<times> string \<times> string) list \<Rightarrow> Decision" where
  "decide ms [] = \<lparr>d_Decision = ''allow'', d_Policy = None, d_Matches = ms, d_Reason = ''No policy matches.''\<rparr>"
| "decide ms ((status, effect, exception, decision, before, after) # rules) =
     (case find_match ms status effect exception of
        Some m \<Rightarrow> \<lparr>d_Decision = decision, d_Policy = Some m, d_Matches = ms, d_Reason = before @ label m @ after\<rparr>
      | None \<Rightarrow> decide ms rules)"

definition Evaluate :: "Request \<Rightarrow> Published list \<Rightarrow> Decision" where
  "Evaluate r policies = decide (policy_matches r policies) decision_rules"

definition Restrictiveness :: "string \<Rightarrow> int" where
  "Restrictiveness decision =
     (if decision = ''block'' then 5
      else if decision = ''require_approval'' then 4
      else if decision = ''monitor_block'' then 3
      else if decision = ''monitor_approval'' then 2
      else if decision = ''exception'' then 1
      else 0)"

text \<open>The credential cap in seconds, and whether one is set.\<close>

definition CapsCredential :: "Document \<Rightarrow> int \<times> bool" where
  "CapsCredential d = (let s = th_MaxCredentialTTLSeconds (doc_Then d) in (s, 0 < s))"

end
