(* ===== verification/Store_Access.thy ===== *)
theory Store_Access
  imports Prelude Go_Strings
begin

text \<open>
  Who may do what (internal/store): the principal behind a credential and the predicates the
  handlers ask before they act, and the rules a machine key's fields must satisfy. The fields
  of a principal that only describe a profile are left out; no predicate reads them.
\<close>

section \<open>Principals\<close>

record ProjectRole =
  pr_Permissions :: "string list"
  pr_Project :: string
  pr_Role :: string

record HostPermission =
  hp_Node :: string
  hp_Permission :: string

record Principal =
  p_MFARequired :: bool
  p_ID :: string
  p_Admin :: bool
  p_Owner :: bool
  p_Email :: string
  p_CredentialType :: string
  p_ProjectRoles :: "ProjectRole list"
  p_HostPermissions :: "HostPermission list"
  p_KeyID :: string
  p_Project :: string
  p_Environment :: string
  p_Application :: string
  p_Permissions :: "string list"
  p_IdentityProject :: string
  p_IdentityEnvironment :: string
  p_IdentityPermissions :: "string list"

definition rolePermissions :: "string \<Rightarrow> string list" where
  "rolePermissions role =
     (if role = ''admin'' then
        [''deployments:read'', ''deployments:write'', ''logs:read'', ''pods:exec'', ''kubernetes:patch'', ''hostnames:manage'',
         ''databases:query'', ''databases:write-query'', ''agent:credentials'', ''networks:write'', ''git:manage'', ''applications:manage'']
      else if role = ''developer'' then [''deployments:read'', ''deployments:write'', ''logs:read'']
      else if role = ''viewer'' then [''deployments:read'', ''logs:read'']
      else [])"

definition role_permissions :: "ProjectRole \<Rightarrow> string list" where
  "role_permissions r = (if HasPrefix (pr_Role r) ''custom:'' then pr_Permissions r else rolePermissions (pr_Role r))"

text \<open>One scope value of a key or an identity: the empty string restricts nothing.\<close>

definition outside :: "string \<Rightarrow> string \<Rightarrow> bool" where
  "outside scope wanted = (scope \<noteq> [] \<and> scope \<noteq> wanted)"

definition management_permissions :: "string list" where
  "management_permissions = [''networks:write'', ''git:manage'', ''applications:manage'']"

definition role_allows :: "Principal \<Rightarrow> string \<Rightarrow> string \<Rightarrow> ProjectRole \<Rightarrow> bool" where
  "role_allows p permission project role =
     (let management = p_CredentialType p = ''machine'' \<and> pr_Role role = ''admin''
            \<and> permission \<in> set management_permissions in
      pr_Project role = project \<and> (permission \<in> set (role_permissions role) \<or> management))"

definition Allows :: "Principal \<Rightarrow> string \<Rightarrow> string \<Rightarrow> string \<Rightarrow> string \<Rightarrow> bool" where
  "Allows p permission project environment application =
     (if p_MFARequired p then False
      else if outside (p_Project p) project then False
      else if outside (p_Environment p) environment then False
      else if outside (p_Application p) application then False
      else if outside (p_IdentityProject p) project then False
      else if outside (p_IdentityEnvironment p) environment then False
      else
        (let keyOK = permission \<in> set (p_Permissions p) \<or> ''admin'' \<in> set (p_Permissions p);
             identityOK =
               (if p_Email p \<noteq> [] \<and> \<not> p_Admin p then list_ex (role_allows p permission project) (p_ProjectRoles p)
                else p_Admin p \<or> permission \<in> set (p_IdentityPermissions p)) in
         keyOK \<and> identityOK))"

definition IsAdmin :: "Principal \<Rightarrow> bool" where
  "IsAdmin p = (\<not> p_MFARequired p \<and> p_Admin p \<and> ''admin'' \<in> set (p_Permissions p) \<and> p_Project p = [] \<and> p_Environment p = []
     \<and> p_Application p = [] \<and> p_IdentityProject p = [] \<and> p_IdentityEnvironment p = [])"

definition IsHuman :: "Principal \<Rightarrow> bool" where
  "IsHuman p = (p_Email p \<noteq> [] \<and> (p_CredentialType p = ''browser'' \<or> p_CredentialType p = ''cli''))"

definition is_machine_or_cli :: "Principal \<Rightarrow> bool" where
  "is_machine_or_cli p = (p_CredentialType p = ''machine'' \<or> p_CredentialType p = ''cli'')"

definition CanUseInstallationAgentAdministration :: "Principal \<Rightarrow> bool" where
  "CanUseInstallationAgentAdministration p = (IsAdmin p \<and> ''agent:admin'' \<in> set (p_Permissions p) \<and> is_machine_or_cli p)"

definition admin_of :: "Principal \<Rightarrow> string \<Rightarrow> bool" where
  "admin_of p project = list_ex (\<lambda>r. pr_Project r = project \<and> pr_Role r = ''admin'') (p_ProjectRoles p)"

definition CanManageProject :: "Principal \<Rightarrow> string \<Rightarrow> bool" where
  "CanManageProject p project =
     (if p_MFARequired p then False
      else if IsAdmin p then True
      else if p_CredentialType p \<noteq> ''browser'' then False
      else admin_of p project)"

section \<open>Scoped management (scoped_management.go, virtual_networks.go, backup_scope.go)\<close>

definition canManageCLIWorkload :: "Principal \<Rightarrow> string \<Rightarrow> bool" where
  "canManageCLIWorkload p project =
     (if p_CredentialType p \<noteq> ''cli'' \<or> p_Project p \<noteq> project \<or> project = [] \<or> p_Environment p = [] \<or> p_Application p \<noteq> []
         \<or> \<not> Allows p ''deployments:write'' project (p_Environment p) []
      then False
      else if p_Admin p then True
      else admin_of p project)"

definition CanManageGit :: "Principal \<Rightarrow> bool" where
  "CanManageGit p =
     (if IsAdmin p then True
      else if p_Project p = [] \<or> p_Environment p = [] \<or> p_Application p \<noteq> [] then False
      else if p_CredentialType p = ''machine'' then Allows p ''git:manage'' (p_Project p) (p_Environment p) []
      else (CanManageProject p (p_Project p) \<or> canManageCLIWorkload p (p_Project p))
        \<and> Allows p ''deployments:write'' (p_Project p) (p_Environment p) [])"

definition CanManageDNSProviders :: "Principal \<Rightarrow> bool" where
  "CanManageDNSProviders p =
     (if IsAdmin p then True
      else if p_Project p = [] \<or> p_Environment p = [] \<or> p_Application p \<noteq> [] \<or> p_CredentialType p = ''machine'' then False
      else (CanManageProject p (p_Project p) \<or> canManageCLIWorkload p (p_Project p))
        \<and> Allows p ''deployments:write'' (p_Project p) (p_Environment p) [])"

text \<open>A machine key issued for exactly this project and environment.\<close>

definition scoped_machine :: "Principal \<Rightarrow> string \<Rightarrow> string \<Rightarrow> bool" where
  "scoped_machine p project environment =
     (p_CredentialType p = ''machine'' \<and> p_Project p = project \<and> p_Environment p = environment \<and> project \<noteq> [] \<and> environment \<noteq> []
      \<and> p_Application p = [])"

definition CanManageApplication :: "Principal \<Rightarrow> string \<Rightarrow> string \<Rightarrow> string \<Rightarrow> bool" where
  "CanManageApplication p project environment name =
     (Allows p ''deployments:write'' project environment name
      \<and> (CanManageProject p project \<or> canManageCLIWorkload p project
         \<or> scoped_machine p project environment \<and> Allows p ''applications:manage'' project environment name))"

definition CanBindGit :: "Principal \<Rightarrow> string \<Rightarrow> string \<Rightarrow> bool" where
  "CanBindGit p project environment = (CanManageGit p \<and> Allows p ''deployments:write'' project environment [])"

definition CanManageVirtualNetworks :: "Principal \<Rightarrow> string \<Rightarrow> string \<Rightarrow> bool" where
  "CanManageVirtualNetworks p project environment =
     (if \<not> Allows p ''deployments:write'' project environment [] then False
      else CanManageProject p project
        \<or> scoped_machine p project environment \<and> Allows p ''networks:write'' project environment [])"

definition CanManageBackups :: "Principal \<Rightarrow> bool" where
  "CanManageBackups p =
     (IsAdmin p \<or> p_Project p \<noteq> [] \<and> p_Environment p \<noteq> [] \<and> p_Application p = []
        \<and> Allows p ''deployments:write'' (p_Project p) (p_Environment p) [])"

definition AllowsDatabase :: "Principal \<Rightarrow> string \<Rightarrow> string \<Rightarrow> bool \<Rightarrow> bool" where
  "AllowsDatabase p project environment write =
     (p_Application p = [] \<and> Allows p (if write then ''deployments:write'' else ''deployments:read'') project environment [])"

definition AllowsManagedPlatform :: "Principal \<Rightarrow> string \<Rightarrow> string \<Rightarrow> bool \<Rightarrow> bool" where
  "AllowsManagedPlatform p project environment write =
     (p_Application p = [] \<and> Allows p (if write then ''deployments:write'' else ''deployments:read'') project environment [])"

section \<open>The host (host_access.go)\<close>

definition IsSuperAdmin :: "Principal \<Rightarrow> bool" where
  "IsSuperAdmin p = (p_Owner p \<and> IsAdmin p \<and> IsHuman p \<and> p_CredentialType p = ''browser'')"

definition CanManageHostAccess :: "Principal \<Rightarrow> bool" where
  "CanManageHostAccess p = (IsSuperAdmin p \<or> p_Owner p \<and> CanUseInstallationAgentAdministration p)"

definition unscoped :: "Principal \<Rightarrow> bool" where
  "unscoped p = (p_Project p = [] \<and> p_Environment p = [] \<and> p_Application p = [] \<and> p_IdentityProject p = [] \<and> p_IdentityEnvironment p = [])"

definition CanUseHostCredential :: "Principal \<Rightarrow> bool" where
  "CanUseHostCredential p =
     (\<not> p_MFARequired p \<and> p_Email p \<noteq> [] \<and> is_machine_or_cli p \<and> ''nodes:terminal'' \<in> set (p_Permissions p) \<and> unscoped p)"

definition host_grant :: "Principal \<Rightarrow> string \<Rightarrow> bool" where
  "host_grant p node =
     list_ex (\<lambda>g. hp_Permission g = ''nodes:terminal'' \<and> (hp_Node g = node \<or> hp_Node g = ''*'')) (p_HostPermissions p)"

definition CanHostTerminal :: "Principal \<Rightarrow> string \<Rightarrow> bool" where
  "CanHostTerminal p node =
     (if p_MFARequired p \<or> \<not> unscoped p then False
      else if is_machine_or_cli p then
        (if ''nodes:terminal'' \<notin> set (p_Permissions p) then False
         else if p_Owner p \<and> CanUseInstallationAgentAdministration p then True
         else host_grant p node)
      else if \<not> IsHuman p \<or> p_CredentialType p \<noteq> ''browser'' then False
      else if IsSuperAdmin p then True
      else host_grant p node)"

section \<open>The fields of a machine key\<close>

definition key_permissions :: "string list" where
  "key_permissions =
     [''admin'', ''deployments:read'', ''deployments:write'', ''logs:read'', ''jobs:invoke'', ''jobs:read'', ''jobs:cancel'', ''jobs:logs'',
      ''sessions:create'', ''sessions:read'', ''sessions:call'', ''sessions:delete'', ''networks:write'', ''git:manage'',
      ''applications:manage'', ''slack:relay'', ''pods:exec'', ''kubernetes:patch'', ''hostnames:manage'', ''databases:query'',
      ''databases:write-query'', ''agent:admin'', ''agent:credentials'', ''nodes:terminal'']"

definition validKeyFields :: "string \<Rightarrow> string \<Rightarrow> string \<Rightarrow> string \<Rightarrow> string list \<Rightarrow> unit result" where
  "validKeyFields name project environment application permissions =
     (let has = (\<lambda>v. v \<in> set permissions);
          hostOnly = len permissions = 1 \<and> has ''nodes:terminal'' in
      checks
        [(len name < 1 \<or> 100 < len name, ''name must contain 1-100 characters''),
         (permissions = [], ''at least one permission is required''),
         (list_ex (\<lambda>v. v \<notin> set key_permissions) permissions, ''unsupported permission''),
         (has ''nodes:terminal'' \<and> (project \<noteq> [] \<or> environment \<noteq> [] \<or> application \<noteq> []), ''nodes:terminal requires installation scope''),
         (has ''agent:admin'' \<and> (\<not> has ''admin'' \<or> project \<noteq> [] \<or> environment \<noteq> [] \<or> application \<noteq> []),
          ''agent:admin requires admin and an installation scope without project, environment or application restrictions''),
         (\<not> has ''admin'' \<and> \<not> hostOnly \<and> (project = [] \<or> environment = []), ''machine keys require explicit project and environment''),
         ((has ''pods:exec'' \<or> has ''databases:query'' \<or> has ''databases:write-query'') \<and> (project = [] \<or> environment = []),
          ''command and query keys require an explicit project and environment''),
         ((has ''databases:query'' \<or> has ''databases:write-query'') \<and> application \<noteq> [],
          ''database query keys cannot have an application restriction''),
         (has ''databases:write-query'' \<and> \<not> has ''databases:query'', ''databases:write-query requires databases:query''),
         ((has ''networks:write'' \<or> has ''git:manage'' \<or> has ''applications:manage'' \<or> has ''slack:relay'')
           \<and> (project = [] \<or> environment = [] \<or> application \<noteq> []),
          ''scoped management keys require a project and environment without an application restriction'')])"

text \<open>The lifetime of a key, in seconds from now; \<open>None\<close> is a key without an expiry.\<close>

definition validKeyInput :: "string \<Rightarrow> string \<Rightarrow> string \<Rightarrow> string \<Rightarrow> string list \<Rightarrow> bool \<Rightarrow> int option \<Rightarrow> bool \<Rightarrow> unit result" where
  "validKeyInput name project environment application permissions neverExpires expiresIn allowNeverExpires =
     andE
       (if neverExpires then checks
          [(\<not> allowNeverExpires, ''never_expires needs a self-hosted administrator in a browser session''),
           (expiresIn \<noteq> None, ''expires_at must be omitted when never_expires is true'')]
        else checks
          [((case expiresIn of None \<Rightarrow> True | Some s \<Rightarrow> s < 60 \<or> 7776000 < s), ''expires_at must be between one minute and 90 days from now'')])
       (validKeyFields name project environment application permissions)"

text \<open>The shape of a presented credential, before its digest is looked up: the key's id.\<close>

definition credential_id :: "string \<Rightarrow> string option" where
  "credential_id raw =
     (let parts = Split (CHR ''_'') raw in
      if length parts \<noteq> 3 \<or> (parts ! 0 \<noteq> ''hp'' \<and> parts ! 0 \<noteq> ''hs'') \<or> length (parts ! 1) \<noteq> 32 \<or> length (parts ! 2) \<noteq> 64
      then None else Some (parts ! 1))"

section \<open>Facts\<close>

definition identity_allows :: "Principal \<Rightarrow> string \<Rightarrow> string \<Rightarrow> bool" where
  "identity_allows p permission project \<longleftrightarrow>
     (if p_Email p \<noteq> [] \<and> \<not> p_Admin p then \<exists>r \<in> set (p_ProjectRoles p). role_allows p permission project r
      else p_Admin p \<or> permission \<in> set (p_IdentityPermissions p))"

lemma Allows_iff:
  "Allows p perm project env app \<longleftrightarrow>
     \<not> p_MFARequired p \<and> \<not> outside (p_Project p) project \<and> \<not> outside (p_Environment p) env \<and> \<not> outside (p_Application p) app
     \<and> \<not> outside (p_IdentityProject p) project \<and> \<not> outside (p_IdentityEnvironment p) env
     \<and> (perm \<in> set (p_Permissions p) \<or> ''admin'' \<in> set (p_Permissions p)) \<and> identity_allows p perm project"
  unfolding Allows_def Let_def identity_allows_def list_ex_iff by (simp only: if_bool_eq_conj) blast

lemma Allows_scope:
  assumes "Allows p perm project env app"
  shows "\<not> p_MFARequired p"
    and "p_Project p \<noteq> [] \<Longrightarrow> p_Project p = project" and "p_Environment p \<noteq> [] \<Longrightarrow> p_Environment p = env"
    and "p_Application p \<noteq> [] \<Longrightarrow> p_Application p = app"
    and "p_IdentityProject p \<noteq> [] \<Longrightarrow> p_IdentityProject p = project" and "p_IdentityEnvironment p \<noteq> [] \<Longrightarrow> p_IdentityEnvironment p = env"
    and "perm \<in> set (p_Permissions p) \<or> ''admin'' \<in> set (p_Permissions p)"
  using assms unfolding Allows_iff outside_def by blast+

text \<open>The identity's own browser session: no key restrictions, every permission of the key.\<close>

definition session_of :: "Principal \<Rightarrow> Principal" where
  "session_of p = p\<lparr>p_CredentialType := ''browser'', p_Project := [], p_Environment := [], p_Application := [], p_Permissions := [''admin'']\<rparr>"

lemma management_in_role: "perm \<in> set management_permissions \<Longrightarrow> perm \<in> set (rolePermissions ''admin'')"
proof -
  have "list_all (\<lambda>q. q \<in> set (rolePermissions ''admin'')) management_permissions" by code_simp
  then show "perm \<in> set management_permissions \<Longrightarrow> perm \<in> set (rolePermissions ''admin'')" by (simp add: list_all_iff)
qed

lemma admin_role [simp]: "role_permissions \<lparr>pr_Permissions = ps, pr_Project = x, pr_Role = ''admin''\<rparr> = rolePermissions ''admin''"
  by (simp add: role_permissions_def)

lemma session_fields [simp]:
  "p_Email (session_of p) = p_Email p" "p_Admin (session_of p) = p_Admin p" "p_ProjectRoles (session_of p) = p_ProjectRoles p"
  "p_MFARequired (session_of p) = p_MFARequired p" "p_IdentityPermissions (session_of p) = p_IdentityPermissions p"
  "p_IdentityProject (session_of p) = p_IdentityProject p" "p_IdentityEnvironment (session_of p) = p_IdentityEnvironment p"
  "p_Permissions (session_of p) = [''admin'']" "p_Project (session_of p) = []" "p_Environment (session_of p) = []"
  "p_Application (session_of p) = []" "p_CredentialType (session_of p) = ''browser''"
  by (simp_all add: session_of_def)

lemma role_allows_session:
  assumes "role_allows p perm project r"
  shows "role_allows (session_of p) perm project r"
proof (cases "perm \<in> set (role_permissions r)")
  case True
  then show ?thesis using assms by (simp add: role_allows_def Let_def)
next
  case False
  then have m: "pr_Project r = project" "pr_Role r = ''admin''" "perm \<in> set management_permissions"
    using assms False unfolding role_allows_def Let_def by blast+
  have "perm \<in> set (role_permissions r)" using management_in_role [OF m(3)] m(2) by (simp add: role_permissions_def)
  then show ?thesis using m(1) by (simp add: role_allows_def Let_def)
qed

lemma Allows_session:
  assumes "Allows p perm project env app"
  shows "Allows (session_of p) perm project env app"
proof -
  have "identity_allows (session_of p) perm project"
    using assms role_allows_session [of p perm project] unfolding Allows_iff identity_allows_def session_fields by metis
  then show ?thesis using assms by (simp add: Allows_iff outside_def)
qed

lemma not_admin_scoped: "p_Project p \<noteq> [] \<Longrightarrow> \<not> IsAdmin p"
  by (simp add: IsAdmin_def)

lemma machine_no_project: "p_CredentialType p = ''machine'' \<Longrightarrow> \<not> IsAdmin p \<Longrightarrow> \<not> CanManageProject p project"
  by (simp add: CanManageProject_def)

text \<open>A credential limited to a project has no authority over the installation or another project.\<close>

lemma scoped_confined:
  assumes "p_Project p \<noteq> []"
  shows "\<not> IsAdmin p \<and> \<not> CanManageHostAccess p \<and> \<not> CanUseHostCredential p \<and> \<not> CanHostTerminal p node"
    and "CanManageApplication p q e n \<or> CanManageVirtualNetworks p q e \<or> CanBindGit p q e
      \<or> AllowsDatabase p q e w \<or> AllowsManagedPlatform p q e w \<Longrightarrow> q = p_Project p"
proof -
  show "\<not> IsAdmin p \<and> \<not> CanManageHostAccess p \<and> \<not> CanUseHostCredential p \<and> \<not> CanHostTerminal p node"
    using assms by (simp add: IsAdmin_def CanManageHostAccess_def IsSuperAdmin_def CanUseInstallationAgentAdministration_def
        CanUseHostCredential_def CanHostTerminal_def unscoped_def)
  show "CanManageApplication p q e n \<or> CanManageVirtualNetworks p q e \<or> CanBindGit p q e
      \<or> AllowsDatabase p q e w \<or> AllowsManagedPlatform p q e w \<Longrightarrow> q = p_Project p"
    unfolding CanManageApplication_def CanManageVirtualNetworks_def CanBindGit_def AllowsDatabase_def AllowsManagedPlatform_def
    using Allows_scope(2) [OF _ assms] by metis
qed

lemma key_confined:
  assumes "validKeyFields name (p_Project p) (p_Environment p) (p_Application p) (p_Permissions p) = Inr u"
    and "''admin'' \<notin> set (p_Permissions p)" and "Allows p perm q e a"
  shows "perm \<in> set (p_Permissions p) \<and> (perm \<noteq> ''nodes:terminal'' \<longrightarrow>
    q = p_Project p \<and> e = p_Environment p \<and> (p_Application p \<noteq> [] \<longrightarrow> a = p_Application p))"
proof -
  have perm: "perm \<in> set (p_Permissions p)" using Allows_scope(7) [OF assms(3)] assms(2) by blast
  have hostOnly: "len (p_Permissions p) = 1 \<and> ''nodes:terminal'' \<in> set (p_Permissions p) \<or> p_Project p \<noteq> [] \<and> p_Environment p \<noteq> []"
    using assms(1,2) unfolding validKeyFields_def Let_def by (simp only: checks_Cons_Inr) blast
  have "p_Project p \<noteq> [] \<and> p_Environment p \<noteq> []" if "perm \<noteq> ''nodes:terminal''"
  proof (rule ccontr)
    assume "\<not> (p_Project p \<noteq> [] \<and> p_Environment p \<noteq> [])"
    then have "len (p_Permissions p) = 1" "''nodes:terminal'' \<in> set (p_Permissions p)" using hostOnly by blast+
    moreover then have "length (p_Permissions p) = Suc 0" by (simp add: len_length)
    ultimately show False using perm that by (auto simp: length_Suc_conv)
  qed
  then show ?thesis using perm Allows_scope(2-4) [OF assms(3)] by blast
qed

end
