(* ===== verification/Agent_Approvals.thy ===== *)
theory Agent_Approvals
  imports Agent_Policy Store_Access
begin

text \<open>
  Approvals of held requests (internal/store/agent_access.go and migration 109): the table of
  approvals with its statements, one definition per statement or function, and the life of the
  table as a step relation over events. Times are microseconds, as PostgreSQL keeps them;
  every statement of one call reads the same \<open>now()\<close>.
\<close>

section \<open>Rows\<close>

record Approval =
  ap_ID :: string
  ap_PolicyID :: string
  ap_PolicyVersion :: int
  ap_KeyID :: string
  ap_IdentityID :: string
  ap_Operation :: string
  ap_Category :: string
  ap_Method :: string
  ap_Path :: string
  ap_Project :: string
  ap_Environment :: string
  ap_Digest :: "int list"
  ap_Approvers :: "Approver list"
  ap_State :: string
  ap_DecidedBy :: "string option"
  ap_DecidedAt :: "int option"
  ap_Reason :: string
  ap_ExpiresAt :: int
  ap_ConsumedAt :: "int option"
  ap_CreatedAt :: int

record ApprovalRequest =
  ar_PolicyID :: string
  ar_PolicyVersion :: int
  ar_KeyID :: string
  ar_IdentityID :: string
  ar_Operation :: string
  ar_Category :: string
  ar_Method :: string
  ar_Path :: string
  ar_Project :: string
  ar_Environment :: string
  ar_Digest :: "int list"
  ar_Approvers :: "Approver list"
  ar_TTL :: int

text \<open>The errors the callers distinguish.\<close>

definition ErrMFARequired :: error where "ErrMFARequired = Err ''mfa required''"
definition ErrForbidden :: error where "ErrForbidden = Err ''forbidden''"
definition ErrInput :: error where "ErrInput = Err ''invalid input''"
definition ErrConflict :: error where "ErrConflict = Err ''conflict''"
definition ErrNoRows :: error where "ErrNoRows = Err ''no rows''"
definition ErrApprovalLimit :: error where "ErrApprovalLimit = Err ''too many pending approvals for this key''"

definition second :: int where "second = 1000000"

section \<open>Reading a row\<close>

definition find_row :: "string \<Rightarrow> Approval list \<Rightarrow> Approval option" where
  "find_row ident rows = find (\<lambda>a. ap_ID a = ident) rows"

text \<open>\<open>scanAgentApproval\<close>: a pending row past its expiry is shown as expired.\<close>

definition scanAgentApproval :: "int \<Rightarrow> Approval \<Rightarrow> Approval" where
  "scanAgentApproval now a =
     (if ap_State a = ''pending'' \<and> ap_ExpiresAt a \<le> now then a\<lparr>ap_State := ''expired''\<rparr> else a)"

definition agentDecider :: "Principal \<Rightarrow> bool" where
  "agentDecider p = (IsHuman p \<and> p_CredentialType p = ''browser'' \<and> \<not> p_MFARequired p)"

definition approver_decides :: "Principal \<Rightarrow> string list \<Rightarrow> string \<Rightarrow> Approver \<Rightarrow> bool" where
  "approver_decides p teams project ap =
     (if apr_Kind ap = ''project_admins'' then IsAdmin p \<or> CanManageProject p project
      else if apr_Kind ap = ''team'' then apr_ID ap \<in> set teams
      else if apr_Kind ap = ''identity'' then p_ID p = apr_ID ap
      else False)"

definition canDecideAgentApproval :: "Principal \<Rightarrow> string list \<Rightarrow> Approval \<Rightarrow> bool" where
  "canDecideAgentApproval p teams a =
     (if \<not> agentDecider p \<or> p_ID p = ap_IdentityID a then False
      else if ap_Approvers a = [] then IsAdmin p
      else list_ex (approver_decides p teams (ap_Project a)) (ap_Approvers a))"

text \<open>The approver teams of these approvals among the identity's memberships.\<close>

definition agentApproverTeams :: "string list \<Rightarrow> Approval list \<Rightarrow> string list" where
  "agentApproverTeams memberships approvals =
     (let wanted = concat (map (\<lambda>a. map apr_ID (filter (\<lambda>ap. apr_Kind ap = ''team'') (ap_Approvers a))) approvals) in
      filter (\<lambda>t. t \<in> set wanted) memberships)"

text \<open>\<open>agentApprovalFor\<close>; \<open>CanDecide\<close> of the answer is the second component.\<close>

definition agentApprovalFor :: "int \<Rightarrow> string list \<Rightarrow> Principal \<Rightarrow> string \<Rightarrow> Approval list \<Rightarrow> (Approval \<times> bool) result" where
  "agentApprovalFor now memberships p ident rows =
     (case find_row ident rows of
        None \<Rightarrow> Inl ErrNoRows
      | Some row \<Rightarrow>
          let a = scanAgentApproval now row in
          if p_CredentialType p = ''machine'' \<and> p_KeyID p \<noteq> [] \<and> p_KeyID p = ap_KeyID a then Inr (a, False)
          else if \<not> agentDecider p then Inl ErrNoRows
          else
            let can = canDecideAgentApproval p (agentApproverTeams memberships [a]) a in
            if \<not> IsAdmin p \<and> \<not> can \<and> p_ID p \<noteq> ap_IdentityID a then Inl ErrNoRows
            else Inr (a, can \<and> ap_State a = ''pending'' \<and> now < ap_ExpiresAt a))"

text \<open>The visibility clause of the approval lists, as its SQL reads.\<close>

definition managedProjects :: "Principal \<Rightarrow> string list" where
  "managedProjects p = map pr_Project (filter (\<lambda>r. CanManageProject p (pr_Project r)) (p_ProjectRoles p))"

definition agentApprovalVisibility :: "Principal \<Rightarrow> string list \<Rightarrow> Approval \<Rightarrow> bool" where
  "agentApprovalVisibility p memberships a =
     (IsAdmin p \<or> (ap_IdentityID a \<noteq> p_ID p
       \<and> list_ex (\<lambda>x. apr_Kind x = ''project_admins'' \<and> ap_Project a \<in> set (managedProjects p)
           \<or> apr_Kind x = ''team'' \<and> apr_ID x \<in> set memberships
           \<or> apr_Kind x = ''identity'' \<and> apr_ID x = p_ID p) (ap_Approvers a)))"

section \<open>Asking for an approval\<close>

definition agentApprovalTTL :: "int \<Rightarrow> int" where
  "agentApprovalTTL d = min (max d (300 * second)) (86400 * second)"

definition same_pending :: "string \<Rightarrow> int list \<Rightarrow> Approval \<Rightarrow> bool" where
  "same_pending key digest a = (ap_KeyID a = key \<and> ap_Digest a = digest \<and> ap_State a = ''pending'')"

definition expire_pending :: "int \<Rightarrow> string \<Rightarrow> int list \<Rightarrow> Approval list \<Rightarrow> Approval list" where
  "expire_pending now key digest rows =
     map (\<lambda>a. if same_pending key digest a \<and> ap_ExpiresAt a \<le> now then a\<lparr>ap_State := ''expired''\<rparr> else a) rows"

definition open_count :: "int \<Rightarrow> string \<Rightarrow> Approval list \<Rightarrow> nat" where
  "open_count now key rows = length (filter (\<lambda>a. ap_KeyID a = key \<and> ap_State a = ''pending'' \<and> now < ap_ExpiresAt a) rows)"

definition new_row :: "int \<Rightarrow> string \<Rightarrow> ApprovalRequest \<Rightarrow> Approval" where
  "new_row now ident r =
     \<lparr>ap_ID = ident, ap_PolicyID = ar_PolicyID r, ap_PolicyVersion = ar_PolicyVersion r, ap_KeyID = ar_KeyID r,
      ap_IdentityID = ar_IdentityID r, ap_Operation = ar_Operation r, ap_Category = ar_Category r, ap_Method = ar_Method r,
      ap_Path = ar_Path r, ap_Project = ar_Project r, ap_Environment = ar_Environment r, ap_Digest = ar_Digest r,
      ap_Approvers = ar_Approvers r, ap_State = ''pending'', ap_DecidedBy = None, ap_DecidedAt = None, ap_Reason = [],
      ap_ExpiresAt = now + agentApprovalTTL (ar_TTL r), ap_ConsumedAt = None, ap_CreatedAt = now\<rparr>"

text \<open>
  \<open>RequestAgentApproval\<close>: the pending approval of the same key and digest is reused; an error
  rolls the transaction back. \<open>policy_exists\<close> is the foreign key on the policy, whose absence
  the insert reports. The result is the approval, whether it is new, and the table.
\<close>

definition RequestAgentApproval ::
  "int \<Rightarrow> string \<Rightarrow> bool \<Rightarrow> ApprovalRequest \<Rightarrow> Approval list \<Rightarrow> (Approval \<times> bool \<times> Approval list) result" where
  "RequestAgentApproval now ident policy_exists r rows0 =
     (let rows = expire_pending now (ar_KeyID r) (ar_Digest r) rows0 in
      case find (same_pending (ar_KeyID r) (ar_Digest r)) rows of
        Some a \<Rightarrow> Inr (scanAgentApproval now a, False, rows)
      | None \<Rightarrow>
          if 20 \<le> open_count now (ar_KeyID r) rows then Inl ErrApprovalLimit
          else if \<not> policy_exists then Inl ErrConflict
          else Inr (scanAgentApproval now (new_row now ident r), True, rows @ [new_row now ident r]))"

section \<open>Deciding and spending an approval\<close>

definition replace_row :: "string \<Rightarrow> (Approval \<Rightarrow> Approval) \<Rightarrow> Approval list \<Rightarrow> Approval list" where
  "replace_row ident f rows = map (\<lambda>a. if ap_ID a = ident then f a else a) rows"

definition DecideAgentApproval ::
  "int \<Rightarrow> string list \<Rightarrow> Principal \<Rightarrow> string \<Rightarrow> bool \<Rightarrow> string \<Rightarrow> Approval list \<Rightarrow> Approval list result" where
  "DecideAgentApproval now memberships p ident approve reason rows =
     (if p_MFARequired p then Inl ErrMFARequired
      else if \<not> agentDecider p then Inl ErrForbidden
      else if 500 < int (RuneCount reason) \<or> 500 < len reason then Inl ErrInput
      else bindE (agentApprovalFor now memberships p ident rows) (\<lambda>(a, _).
        if p_ID p = ap_IdentityID a then Inl ErrForbidden
        else if \<not> canDecideAgentApproval p (agentApproverTeams memberships [a]) a then Inl ErrForbidden
        else if \<not> list_ex (\<lambda>r. ap_ID r = ident \<and> ap_State r = ''pending'' \<and> now < ap_ExpiresAt r) rows then Inl ErrConflict
        else Inr (replace_row ident
          (\<lambda>r. r\<lparr>ap_State := (if approve then ''approved'' else ''denied''), ap_DecidedBy := Some (p_ID p),
               ap_DecidedAt := Some now, ap_Reason := reason\<rparr>) rows)))"

definition spendable :: "int \<Rightarrow> string \<Rightarrow> string \<Rightarrow> int list \<Rightarrow> Approval \<Rightarrow> bool" where
  "spendable now ident key digest a =
     (ap_ID a = ident \<and> ap_KeyID a = key \<and> ap_Digest a = digest \<and> ap_State a = ''approved'' \<and> now < ap_ExpiresAt a)"

definition ConsumeAgentApproval ::
  "int \<Rightarrow> string \<Rightarrow> string \<Rightarrow> int list \<Rightarrow> Approval list \<Rightarrow> (Approval \<times> Approval list) result" where
  "ConsumeAgentApproval now ident key digest rows =
     (case find (spendable now ident key digest) rows of
        None \<Rightarrow> Inl ErrForbidden
      | Some a \<Rightarrow>
          let f = (\<lambda>r. r\<lparr>ap_State := ''consumed'', ap_ConsumedAt := Some now\<rparr>) in
          Inr (f a, map (\<lambda>r. if spendable now ident key digest r then f r else r) rows))"

section \<open>Pruning, and the deletions that cascade\<close>

definition retention :: int where "retention = 30 * 24 * 3600 * second"

definition PruneAgentAccess :: "int \<Rightarrow> Approval list \<Rightarrow> Approval list" where
  "PruneAgentAccess now rows =
     filter (\<lambda>a. \<not> (ap_State a \<noteq> ''pending'' \<and> ap_CreatedAt a < now - retention))
       (map (\<lambda>a. if ap_State a = ''pending'' \<and> ap_ExpiresAt a \<le> now then a\<lparr>ap_State := ''expired''\<rparr> else a) rows)"

text \<open>Deleting a policy or a key deletes its approvals (\<open>ON DELETE CASCADE\<close>).\<close>

definition delete_policy_rows :: "string \<Rightarrow> Approval list \<Rightarrow> Approval list" where
  "delete_policy_rows policy rows = filter (\<lambda>a. ap_PolicyID a \<noteq> policy) rows"

definition delete_key_rows :: "string \<Rightarrow> Approval list \<Rightarrow> Approval list" where
  "delete_key_rows key rows = filter (\<lambda>a. ap_KeyID a \<noteq> key) rows"

section \<open>The life of the table\<close>

text \<open>What one committed call did; the events of a history, latest first.\<close>

datatype approval_event =
    Requested string string "int list" string
  | Decided string string bool
  | Consumed string string "int list"
  | Maintained

record approval_store =
  as_rows :: "Approval list"
  as_now :: int
  as_log :: "approval_event list"

definition empty_store :: approval_store where
  "empty_store = \<lparr>as_rows = [], as_now = 0, as_log = []\<rparr>"

text \<open>
  One committed call, at a time not before the last one. An id that \<open>NewID\<close> returns was never
  returned before: the ids of the log are the ids ever used. Memberships and roles of the
  deciding principal are those of the moment.
\<close>

inductive approval_step :: "approval_store \<Rightarrow> approval_store \<Rightarrow> bool" where
  request: "\<lbrakk>as_now s \<le> now; \<forall>k d i. Requested ident k d i \<notin> set (as_log s);
      RequestAgentApproval now ident policy_exists r (as_rows s) = Inr (a, created, rows)\<rbrakk> \<Longrightarrow>
    approval_step s \<lparr>as_rows = rows, as_now = now,
      as_log = (if created then Requested ident (ar_KeyID r) (ar_Digest r) (ar_IdentityID r) else Maintained) # as_log s\<rparr>"
| decide: "\<lbrakk>as_now s \<le> now; DecideAgentApproval now memberships p ident approve reason (as_rows s) = Inr rows\<rbrakk> \<Longrightarrow>
    approval_step s \<lparr>as_rows = rows, as_now = now, as_log = Decided ident (p_ID p) approve # as_log s\<rparr>"
| consume: "\<lbrakk>as_now s \<le> now; ConsumeAgentApproval now ident key digest (as_rows s) = Inr (a, rows)\<rbrakk> \<Longrightarrow>
    approval_step s \<lparr>as_rows = rows, as_now = now, as_log = Consumed ident key digest # as_log s\<rparr>"
| prune: "as_now s \<le> now \<Longrightarrow>
    approval_step s \<lparr>as_rows = PruneAgentAccess now (as_rows s), as_now = now, as_log = Maintained # as_log s\<rparr>"
| delete_policy: "as_now s \<le> now \<Longrightarrow>
    approval_step s \<lparr>as_rows = delete_policy_rows policy (as_rows s), as_now = now, as_log = Maintained # as_log s\<rparr>"
| delete_key: "as_now s \<le> now \<Longrightarrow>
    approval_step s \<lparr>as_rows = delete_key_rows key (as_rows s), as_now = now, as_log = Maintained # as_log s\<rparr>"

inductive approval_reachable :: "approval_store \<Rightarrow> bool" where
  start: "approval_reachable empty_store"
| step: "approval_reachable s \<Longrightarrow> approval_step s t \<Longrightarrow> approval_reachable t"

end
