(* ===== verification/Go_Text.thy ===== *)
theory Go_Text
  imports Go_Strings
begin

text \<open>
  More of package \<open>strings\<close>: prefixes and suffixes taken off, characters trimmed from both
  ends, positions of bytes, and splitting at a separator of several bytes.
\<close>

definition TrimPrefix :: "string \<Rightarrow> string \<Rightarrow> string" where
  "TrimPrefix s p = (if HasPrefix s p then drop (length p) s else s)"

definition TrimSuffix :: "string \<Rightarrow> string \<Rightarrow> string" where
  "TrimSuffix s p = (if HasSuffix s p then take (length s - length p) s else s)"

text \<open>\<open>strings.Trim\<close> with a cutset of ASCII characters.\<close>

definition TrimChars :: "string \<Rightarrow> string \<Rightarrow> string" where
  "TrimChars cutset s =
     rev (dropWhile (\<lambda>c. c \<in> set cutset) (rev (dropWhile (\<lambda>c. c \<in> set cutset) s)))"

text \<open>\<open>strings.LastIndexByte\<close>: the position of the last occurrence, or -1.\<close>

definition LastIndexByte :: "string \<Rightarrow> char \<Rightarrow> int" where
  "LastIndexByte s c = int (length (dropWhile (\<lambda>d. d \<noteq> c) (rev s))) - 1"

text \<open>\<open>strings.Split\<close> at a separator that is not empty, left to right.\<close>

fun split_at :: "string \<Rightarrow> string \<Rightarrow> nat \<Rightarrow> string \<Rightarrow> string list" where
  "split_at sep w 0 [] = [rev w]"
| "split_at sep w (Suc n) [] = [rev w]"
| "split_at sep w (Suc n) (c # s) = split_at sep w n s"
| "split_at sep w 0 (c # s) =
     (if prefix sep (c # s) then rev w # split_at sep [] (length sep - 1) s
      else split_at sep (c # w) 0 s)"

definition SplitOn :: "string \<Rightarrow> string \<Rightarrow> string list" where
  "SplitOn sep s = split_at sep [] 0 s"

text \<open>Facts about them.\<close>

lemma TrimChars_Nil_iff: "TrimChars cutset s = [] \<longleftrightarrow> set s \<subseteq> set cutset"
proof -
  have "TrimChars cutset s = [] \<longleftrightarrow> (\<forall>c \<in> set (dropWhile (\<lambda>c. c \<in> set cutset) s). c \<in> set cutset)"
    by (simp add: TrimChars_def)
  also have "\<dots> \<longleftrightarrow> (\<forall>c \<in> set s. c \<in> set cutset)"
    by (induction s) auto
  finally show ?thesis by auto
qed

lemma TrimPrefix_append [simp]: "TrimPrefix (p @ s) p = s"
  by (simp add: TrimPrefix_def)

lemma set_TrimPrefix: "set (TrimPrefix s p) \<subseteq> set s"
  by (auto simp: TrimPrefix_def dest: in_set_dropD)

lemma LastIndexByte_less: "LastIndexByte s c < int (length s)"
  using length_dropWhile_le [of "\<lambda>d. d \<noteq> c" "rev s"] by (simp add: LastIndexByte_def)

lemma split_at_not_Nil [simp]: "split_at sep w n s \<noteq> []"
  by (induction sep w n s rule: split_at.induct) auto

end
