(* ===== verification/Operation_Routes.thy ===== *)
theory Operation_Routes
  imports Prelude Go_Text
begin

text \<open>
  Which operation of the API contract a concrete request is (internal/operations). The catalog
  is built at start from the embedded OpenAPI document, so it is an argument; the fields of an
  operation that routing reads are its record.
\<close>

record Operation =
  op_ID :: string
  op_Method :: string
  op_Path :: string
  op_Category :: string
  op_CredentialRequired :: bool

text \<open>\<open>segment\<close>: a letter or digit, then at most 255 more of those or \<open>_.@-\<close>.\<close>

definition segment :: "string \<Rightarrow> bool" where
  "segment s =
     (case s of [] \<Rightarrow> False
      | c # cs \<Rightarrow> is_alnum c \<and> length cs \<le> 255 \<and> list_all (\<lambda>d. is_alnum d \<or> d \<in> set ''_.@-'') cs)"

definition is_parameter :: "string \<Rightarrow> bool" where
  "is_parameter part = (HasPrefix part ''{'' \<and> HasSuffix part ''}'')"

definition valid_parameter :: "string \<Rightarrow> bool" where
  "valid_parameter s = (segment s \<and> s \<noteq> ''.'' \<and> s \<noteq> ''..'')"

definition path_parts :: "string \<Rightarrow> string list" where
  "path_parts path = Split (CHR ''/'') (TrimPrefix path ''/'')"

text \<open>The inner loop: the number of literal segments, or \<open>None\<close> for the code's -1.\<close>

fun literals :: "string list \<Rightarrow> string list \<Rightarrow> nat option" where
  "literals [] _ = Some 0"
| "literals (part # expected) [] = None"
| "literals (part # expected) (s # actual) =
     (if is_parameter part then (if valid_parameter s then literals expected actual else None)
      else if part = s then map_option Suc (literals expected actual)
      else None)"

definition candidate_literals :: "string \<Rightarrow> string list \<Rightarrow> Operation \<Rightarrow> nat option" where
  "candidate_literals method actual op =
     (if op_Method op \<noteq> method then None
      else let expected = path_parts (op_Path op) in
        if length expected \<noteq> length actual then None else literals expected actual)"

definition better :: "string \<Rightarrow> string list \<Rightarrow> (nat \<times> Operation) option \<Rightarrow> Operation \<Rightarrow> (nat \<times> Operation) option" where
  "better method actual best op =
     (case candidate_literals method actual op of
        None \<Rightarrow> best
      | Some n \<Rightarrow> (case best of None \<Rightarrow> Some (n, op) | Some (m, _) \<Rightarrow> if m < n then Some (n, op) else best))"

definition route_category :: "Operation \<Rightarrow> string" where
  "route_category op = (if op_Category op = ''unclassified'' then [] else op_Category op)"

definition ResolveSegments :: "Operation list \<Rightarrow> string \<Rightarrow> string list \<Rightarrow> Operation option" where
  "ResolveSegments catalog method actual =
     (if 4096 < sum_list (map (\<lambda>part. length part + 1) actual) \<or> 64 < length actual then None
      else map_option snd (foldl (better method actual) None catalog))"

definition ResolveRoute :: "Operation list \<Rightarrow> string \<Rightarrow> string \<Rightarrow> Operation option" where
  "ResolveRoute catalog method path =
     (if \<not> HasPrefix path ''/'' \<or> ContainsAny path ([CHR 0x5C] @ ''?#'' @ [NUL]) then None
      else ResolveSegments catalog method (path_parts path))"

definition OperationByID :: "Operation list \<Rightarrow> string \<Rightarrow> Operation option" where
  "OperationByID catalog ident = find (\<lambda>op. op_ID op = ident) catalog"

definition ConcreteRouteRequiresCredentials :: "Operation list \<Rightarrow> string \<Rightarrow> string \<Rightarrow> bool" where
  "ConcreteRouteRequiresCredentials catalog method path =
     (if 4096 < length path \<or> \<not> HasPrefix path ''/'' \<or> ContainsAny path ([CHR ''%'', CHR 0x5C] @ ''?#'' @ [NUL]) then False
      else list_ex (\<lambda>op. op_CredentialRequired op \<and> candidate_literals method (path_parts path) op \<noteq> None) catalog)"

section \<open>Facts\<close>

text \<open>A pattern fits a path when every segment does, and the literals are those that are equal.\<close>

definition fits :: "string \<Rightarrow> string list \<Rightarrow> Operation \<Rightarrow> bool" where
  "fits method actual op \<longleftrightarrow> op_Method op = method
     \<and> list_all2 (\<lambda>part s. if is_parameter part then valid_parameter s else part = s) (path_parts (op_Path op)) actual"

definition literal_count :: "Operation \<Rightarrow> nat" where
  "literal_count op = length (filter (\<lambda>part. \<not> is_parameter part) (path_parts (op_Path op)))"

lemma literals_iff:
  "length expected = length actual \<Longrightarrow>
     literals expected actual =
       (if list_all2 (\<lambda>part s. if is_parameter part then valid_parameter s else part = s) expected actual
        then Some (length (filter (\<lambda>part. \<not> is_parameter part) expected)) else None)"
  by (induction expected actual rule: literals.induct) auto

lemma candidate_iff: "candidate_literals method actual op = (if fits method actual op then Some (literal_count op) else None)"
  using literals_iff [of "path_parts (op_Path op)" actual]
  by (auto simp: candidate_literals_def fits_def literal_count_def Let_def dest: list_all2_lengthD)

definition is_best :: "string \<Rightarrow> string list \<Rightarrow> Operation list \<Rightarrow> (nat \<times> Operation) option \<Rightarrow> bool" where
  "is_best method actual ops best \<longleftrightarrow>
     (case best of
        None \<Rightarrow> \<forall>op \<in> set ops. \<not> fits method actual op
      | Some (n, op) \<Rightarrow> op \<in> set ops \<and> fits method actual op \<and> n = literal_count op
          \<and> (\<forall>o' \<in> set ops. fits method actual o' \<longrightarrow> literal_count o' \<le> n))"

lemma better_best:
  "is_best method actual ops best \<Longrightarrow> is_best method actual (ops @ [op]) (better method actual best op)"
  by (auto simp: is_best_def better_def candidate_iff split: option.splits prod.splits)

lemma foldl_best:
  "is_best method actual seen best \<Longrightarrow> is_best method actual (seen @ ops) (foldl (better method actual) best ops)"
proof (induction ops arbitrary: seen best)
  case (Cons op ops)
  from Cons.IH [OF better_best [OF Cons.prems]] show ?case by simp
qed simp

lemma resolved:
  assumes "sum_list (map (\<lambda>part. length part + 1) actual) \<le> 4096" and "length actual \<le> 64"
  shows "case ResolveSegments catalog method actual of
      None \<Rightarrow> \<forall>op \<in> set catalog. \<not> fits method actual op
    | Some op \<Rightarrow> op \<in> set catalog \<and> fits method actual op
        \<and> (\<forall>o' \<in> set catalog. fits method actual o' \<longrightarrow> literal_count o' \<le> literal_count op)"
proof -
  have "is_best method actual ([] @ catalog) (foldl (better method actual) None catalog)"
    by (rule foldl_best) (simp add: is_best_def)
  then show ?thesis
    using assms by (auto simp: ResolveSegments_def is_best_def split: option.splits)
qed

end
