(* ===== verification/Agent_Gate.thy ===== *)
theory Agent_Gate
  imports Agent_Approvals Go_Sha256 Operation_Routes Go_Net
begin

text \<open>
  The gate every machine key's request passes (internal/api/agent_access_gate.go): it resolves
  the operation and the scopes the request names, evaluates the published policies in each
  scope, keeps the most restrictive decision, and lets the request through, stops it, asks for
  an approval or spends one.

  What the gate reads of its surroundings is a record of arguments: the contract's catalog, the
  outcome of loading the policies, the scope lookup, the teams and incidents of a scope, the
  time, the id of a new approval and whether a policy still exists when it is inserted. The
  decoded query and body fields of the request are fields of the request. Answers are the
  status and the problem code of the response.

  First comes the digest that binds an approval to one request (\<open>RequestDigest\<close>, internal/agentaccess):
  SHA-256 over the key, method, path, query and body, each after its length in eight bytes.
\<close>

definition length_prefix :: "string \<Rightarrow> string" where
  "length_prefix part = map (\<lambda>b. char_of (nat b)) (be_bytes 8 (len part)) @ part"

definition request_bytes :: "string \<Rightarrow> string \<Rightarrow> string \<Rightarrow> string \<Rightarrow> string \<Rightarrow> string" where
  "request_bytes keyID method path rawQuery body =
     concat (map length_prefix [keyID, ToUpper method, path, rawQuery, body])"

definition RequestDigest :: "string \<Rightarrow> string \<Rightarrow> string \<Rightarrow> string \<Rightarrow> string \<Rightarrow> int list" where
  "RequestDigest keyID method path rawQuery body = Sum256 (request_bytes keyID method path rawQuery body)"

section \<open>No two requests give the same bytes\<close>

lemma be_bytes_inj:
  "be_bytes n v = be_bytes n w \<Longrightarrow> 0 \<le> v \<Longrightarrow> v < 256 ^ n \<Longrightarrow> 0 \<le> w \<Longrightarrow> w < 256 ^ n \<Longrightarrow> v = w"
proof (induction n arbitrary: v w)
  case (Suc n)
  have small: "u div 256 < 256 ^ n" if "u < 256 ^ Suc n" for u :: int
  proof -
    have "u = 256 * (u div 256) + u mod 256" "0 \<le> u mod 256" by simp_all
    then have "256 * (u div 256) < 256 * 256 ^ n" using that by simp
    then show ?thesis by simp
  qed
  note bounds = small [OF Suc.prems(3)] small [OF Suc.prems(5)]
  have "v div 256 = w div 256"
    by (rule Suc.IH) (use Suc.prems bounds in \<open>simp_all add: pos_imp_zdiv_nonneg_iff\<close>)
  moreover have "v mod 256 = w mod 256" using Suc.prems(1) by simp
  ultimately show ?case by (metis div_mult_mod_eq)
qed simp

lemma bytes_inj:
  assumes "map (\<lambda>b. char_of (nat b)) xs = map (\<lambda>b. char_of (nat b)) ys"
    and "\<forall>b \<in> set xs. 0 \<le> b \<and> b < 256" and "\<forall>b \<in> set ys. 0 \<le> b \<and> b < 256"
  shows "xs = ys"
proof -
  have dec: "map (\<lambda>c. int (code c)) (map (\<lambda>b. char_of (nat b)) zs) = zs" if "\<forall>b \<in> set zs. 0 \<le> b \<and> b < 256" for zs :: "int list"
    using that by (induction zs) (auto simp: nat_less_iff)
  show ?thesis using dec [OF assms(2)] dec [OF assms(3)] assms(1) by simp
qed

lemma length_prefix_inj:
  assumes "length_prefix a @ x = length_prefix b @ y" and "len a < 256 ^ 8" and "len b < 256 ^ 8"
  shows "a = b \<and> x = y"
proof -
  have "map (\<lambda>b. char_of (nat b)) (be_bytes 8 (len a)) = (map (\<lambda>b. char_of (nat b)) (be_bytes 8 (len b)) :: string)"
    and rest: "a @ x = b @ y"
    using assms(1) by (simp_all add: length_prefix_def append_eq_append_conv)
  then have "be_bytes 8 (len a) = be_bytes 8 (len b)" using be_bytes_range by (intro bytes_inj) auto
  then have "len a = len b" by (rule be_bytes_inj) (use assms in auto)
  then have "length a = length b" by (simp add: len_length)
  then show ?thesis using rest by simp
qed

lemma request_bytes_inj:
  assumes "request_bytes k m p q b = request_bytes k' m' p' q' b'"
    and "\<forall>s \<in> {k, m, p, q, b, k', m', p', q', b'}. len s < 256 ^ 8"
  shows "k = k' \<and> ToUpper m = ToUpper m' \<and> p = p' \<and> q = q' \<and> b = b'"
proof -
  have l: "len k < 256 ^ 8" "len (ToUpper m) < 256 ^ 8" "len p < 256 ^ 8" "len q < 256 ^ 8" "len b < 256 ^ 8"
    "len k' < 256 ^ 8" "len (ToUpper m') < 256 ^ 8" "len p' < 256 ^ 8" "len q' < 256 ^ 8" "len b' < 256 ^ 8"
    using assms(2) by (simp_all add: ToUpper_def)
  have e: "length_prefix k @ length_prefix (ToUpper m) @ length_prefix p @ length_prefix q @ length_prefix b @ []
      = length_prefix k' @ length_prefix (ToUpper m') @ length_prefix p' @ length_prefix q' @ length_prefix b' @ []"
    using assms(1) by (simp add: request_bytes_def)
  note a = length_prefix_inj [OF e l(1,6)]
  note b = length_prefix_inj [OF a [THEN conjunct2] l(2,7)]
  note c = length_prefix_inj [OF b [THEN conjunct2] l(3,8)]
  note d = length_prefix_inj [OF c [THEN conjunct2] l(4,9)]
  note e = length_prefix_inj [OF d [THEN conjunct2] l(5,10)]
  show ?thesis using a b c d e by blast
qed

section \<open>Requests and surroundings\<close>

record gateFields =
  gf_Project :: string
  gf_Environment :: string
  gf_ApplicationID :: string
  gf_ExpiresAt :: string
  gf_NeverExpires :: bool

definition no_fields :: gateFields where
  "no_fields = \<lparr>gf_Project = [], gf_Environment = [], gf_ApplicationID = [], gf_ExpiresAt = [], gf_NeverExpires = False\<rparr>"

text \<open>\<open>gr_Body\<close> is \<open>None\<close> when reading the body fails; \<open>gr_Fields\<close> is its JSON, decoded leniently.\<close>

record gate_request =
  gr_Method :: string
  gr_EscapedPath :: string
  gr_RawQuery :: string
  gr_QueryProject :: string
  gr_QueryEnvironment :: string
  gr_Workspace :: string
  gr_Approval :: string
  gr_Body :: "string option"
  gr_Fields :: gateFields

record gate_env =
  ge_catalog :: "Operation list"
  ge_load :: "(Published list \<times> bool) result"
  ge_scope :: "string \<Rightarrow> string \<Rightarrow> (string \<times> string) option result"
  ge_context :: "string \<Rightarrow> string \<Rightarrow> string \<Rightarrow> (string list \<times> bool) result"
  ge_expiry :: "string \<Rightarrow> int option"
  ge_now :: int
  ge_new_id :: string
  ge_policy_exists :: "string \<Rightarrow> bool"

record Evaluation =
  ev_KeyID :: string
  ev_IdentityID :: string
  ev_TeamIDs :: "string list"
  ev_Operation :: string
  ev_Category :: string
  ev_Project :: string
  ev_Environment :: string
  ev_ActiveIncident :: bool
  ev_Decision :: string
  ev_PolicyID :: string
  ev_PolicyVersion :: int

datatype gate_answer = Pass | Stop int string

datatype gate_effect =
    Record Evaluation
  | NotifyException Evaluation string
  | ApprovalAsked Approval

section \<open>The body and the path\<close>

definition agentGateBodyLimit :: int where "agentGateBodyLimit = 1048576"

text \<open>The body that may be parsed and approved, and whether it went past the limit.\<close>

definition gateBody :: "string option \<Rightarrow> (string \<times> bool) result" where
  "gateBody raw =
     (case raw of
        None \<Rightarrow> Inl (Err ''invalid_body'')
      | Some body \<Rightarrow> if agentGateBodyLimit < len body then Inr ([], True) else Inr (body, False))"

text \<open>\<open>url.PathUnescape\<close> differs from the path mode of \<open>unescape\<close> only in what it would escape.\<close>

definition gateSegments :: "string \<Rightarrow> string list option" where
  "gateSegments escaped =
     (let parts = map (unescape EncPath) (Split (CHR ''/'') (TrimPrefix (TrimPrefix escaped ''/api/v1'') ''/'')) in
      if list_all (\<lambda>u. u \<noteq> None) parts then Some (map the parts) else None)"

definition gateScopeFamilies :: "string list" where
  "gateScopeFamilies =
     [''applications'', ''deployments'', ''databases'', ''builds'', ''backups'', ''backup-artifacts'', ''external-databases'',
      ''keys'', ''previews'', ''projects'']"

definition gateScopeResource :: "string list \<Rightarrow> gateFields \<Rightarrow> string \<times> string" where
  "gateScopeResource segments f =
     (if 2 \<le> length segments \<and> segments ! 1 \<noteq> [] \<and> segments ! 0 \<in> set gateScopeFamilies then (segments ! 0, segments ! 1)
      else if gf_ApplicationID f \<noteq> [] then (''applications'', gf_ApplicationID f)
      else ([], []))"

section \<open>The scopes to evaluate\<close>

type_synonym gateCandidate = "string \<times> string"

fun add_candidates :: "Principal \<Rightarrow> gateCandidate list \<Rightarrow> gateCandidate list \<Rightarrow> gateCandidate list" where
  "add_candidates p out [] = out"
| "add_candidates p out ((project, environment) # cs) =
     (let c = (if project = [] then p_Project p else project, if environment = [] then p_Environment p else environment) in
      add_candidates p (if c \<in> set out then out else out @ [c]) cs)"

definition named_scopes :: "gate_request \<Rightarrow> gateFields \<Rightarrow> Principal \<Rightarrow> gateCandidate list" where
  "named_scopes r f p =
     add_candidates p [] [(gr_QueryProject r, gr_QueryEnvironment r), (gf_Project f, gf_Environment f), ([], [])]"

definition gateScope ::
  "gate_env \<Rightarrow> gate_request \<Rightarrow> string list \<Rightarrow> gateFields \<Rightarrow> Principal \<Rightarrow> gateCandidate list result" where
  "gateScope e r segments f p =
     (let (table, ident) = gateScopeResource segments f in
      if table = [] then Inr (named_scopes r f p)
      else
        (case ge_scope e table ident of
           Inl err \<Rightarrow> Inl err
         | Inr (Some (project, environment)) \<Rightarrow>
             Inr [(project,
               if table = ''projects'' \<and> 4 \<le> length segments \<and> segments ! 2 = ''environments'' then segments ! 3 else environment)]
         | Inr None \<Rightarrow> Inr (named_scopes r f p)))"

section \<open>Key lifetimes\<close>

definition cap_breaks :: "(string \<Rightarrow> int option) \<Rightarrow> gateFields \<Rightarrow> int \<Rightarrow> Published \<Rightarrow> bool" where
  "cap_breaks expiry f now p =
     (let (limit, caps) = CapsCredential (pub_Document p) in
      caps \<and> (gf_NeverExpires f \<or> (case expiry (gf_ExpiresAt f) of None \<Rightarrow> True | Some t \<Rightarrow> now + limit * second < t)))"

definition credentialTTLViolation ::
  "(string \<Rightarrow> int option) \<Rightarrow> string \<Rightarrow> Decision \<Rightarrow> Published list \<Rightarrow> gateFields \<Rightarrow> int \<Rightarrow> Published option" where
  "credentialTTLViolation expiry operation d policies f now =
     (if operation \<noteq> ''createKey'' \<and> operation \<noteq> ''rotateKey'' then None
      else
        find (cap_breaks expiry f now)
          (concat (map (\<lambda>m. filter (\<lambda>p. pub_ID p = m_PolicyID m) policies)
            (filter (\<lambda>m. m_Status m = ''enforced'' \<and> \<not> m_Exception m) (d_Matches d)))))"

section \<open>The gate\<close>

definition gateDigest :: "gate_request \<Rightarrow> Principal \<Rightarrow> string \<Rightarrow> int list" where
  "gateDigest r p body =
     RequestDigest (p_KeyID p @ [NUL] @ gr_Workspace r) (gr_Method r) (gr_EscapedPath r) (gr_RawQuery r) body"

definition candidate_request :: "Principal \<Rightarrow> string \<Rightarrow> string \<Rightarrow> string list \<times> bool \<Rightarrow> gateCandidate \<Rightarrow> Request" where
  "candidate_request p operation category ctx cand =
     \<lparr>rq_KeyID = p_KeyID p, rq_IdentityID = p_ID p, rq_TeamIDs = fst ctx, rq_Operation = operation, rq_Category = category,
      rq_Project = fst cand, rq_Environment = snd cand, rq_ActiveIncident = snd ctx\<rparr>"

text \<open>The loop over the candidates: the best rank so far, its decision and its row.\<close>

fun most_restrictive ::
  "gate_env \<Rightarrow> Principal \<Rightarrow> Published list \<Rightarrow> int \<times> Decision \<times> Evaluation \<Rightarrow> gateCandidate list \<Rightarrow> (int \<times> Decision \<times> Evaluation) result" where
  "most_restrictive e p policies best [] = Inr best"
| "most_restrictive e p policies (rank, d, row) (cand # cs) =
     bindE (ge_context e (p_ID p) (fst cand) (snd cand)) (\<lambda>ctx.
       let cd = Evaluate (candidate_request p (ev_Operation row) (ev_Category row) ctx cand) policies;
           k = Restrictiveness (d_Decision cd) in
       most_restrictive e p policies
         (if rank < k
          then (k, cd, row\<lparr>ev_Project := fst cand, ev_Environment := snd cand, ev_TeamIDs := fst ctx, ev_ActiveIncident := snd ctx\<rparr>)
          else (rank, d, row)) cs)"

definition allow_all :: Decision where
  "allow_all = \<lparr>d_Decision = ''allow'', d_Policy = None, d_Matches = [], d_Reason = []\<rparr>"

definition gate_decision ::
  "gate_env \<Rightarrow> Principal \<Rightarrow> Published list \<Rightarrow> gateCandidate list \<Rightarrow> Evaluation \<Rightarrow> (Decision \<times> Evaluation) result" where
  "gate_decision e p policies candidates row =
     (if policies = [] then Inr (allow_all, row)
      else bindE (most_restrictive e p policies (-1, allow_all, row) candidates) (\<lambda>(rank, d, row). Inr (d, row)))"

definition gate_operation :: "gate_env \<Rightarrow> gate_request \<Rightarrow> (string list \<times> string \<times> string)" where
  "gate_operation e r =
     (let method = (if gr_Method r = ''HEAD'' then ''GET'' else gr_Method r) in
      case gateSegments (gr_EscapedPath r) of
        None \<Rightarrow> ([], [], [])
      | Some segments \<Rightarrow>
          (case ResolveSegments (ge_catalog e) method segments of
             None \<Rightarrow> (segments, [], [])
           | Some op \<Rightarrow> (segments, op_ID op, route_category op)))"

definition policy_document :: "string \<Rightarrow> Published list \<Rightarrow> Then option" where
  "policy_document ident policies =
     (case rev (filter (\<lambda>p. pub_ID p = ident) policies) of [] \<Rightarrow> None | p # _ \<Rightarrow> Some (doc_Then (pub_Document p)))"

text \<open>A request held for approval: the body and path must be small enough, then one is asked for.\<close>

definition hold_request ::
  "gate_env \<Rightarrow> gate_request \<Rightarrow> Principal \<Rightarrow> Published list \<Rightarrow> Match \<Rightarrow> string \<Rightarrow> bool \<Rightarrow> Evaluation \<Rightarrow> Approval list
   \<Rightarrow> gate_answer \<times> gate_effect list \<times> Approval list" where
  "hold_request e r p policies m body tooLarge row rows =
     (if tooLarge then (Stop 413 ''approval_body_too_large'', [Record row], rows)
      else if 4096 < len (gr_EscapedPath r) then (Stop 414 ''uri_too_long'', [Record row], rows)
      else
        (let t = policy_document (m_PolicyID m) policies;
             asked = \<lparr>ar_PolicyID = m_PolicyID m, ar_PolicyVersion = m_Version m, ar_KeyID = p_KeyID p, ar_IdentityID = p_ID p,
               ar_Operation = ev_Operation row, ar_Category = ev_Category row, ar_Method = gr_Method r, ar_Path = gr_EscapedPath r,
               ar_Project = ev_Project row, ar_Environment = ev_Environment row, ar_Digest = gateDigest r p body,
               ar_Approvers = (case t of None \<Rightarrow> [] | Some t \<Rightarrow> th_Approvers t),
               ar_TTL = (case t of None \<Rightarrow> 0 | Some t \<Rightarrow> th_ApprovalTTLSeconds t * second)\<rparr> in
         (case RequestAgentApproval (ge_now e) (ge_new_id e) (ge_policy_exists e (m_PolicyID m)) asked rows of
            Inl err \<Rightarrow> (if err = ErrApprovalLimit then Stop 429 ''approval_limit'' else Stop 503 ''agent_policy_unavailable'', [Record row], rows)
          | Inr (a, created, rows') \<Rightarrow> (Stop 403 ''approval_required'', [Record row, ApprovalAsked a], rows'))))"

text \<open>What happens once the decision is made.\<close>

definition gate_act ::
  "gate_env \<Rightarrow> gate_request \<Rightarrow> Principal \<Rightarrow> Published list \<Rightarrow> Decision \<Rightarrow> string \<Rightarrow> bool \<Rightarrow> gateFields \<Rightarrow> Evaluation \<Rightarrow> Approval list
   \<Rightarrow> gate_answer \<times> gate_effect list \<times> Approval list" where
  "gate_act e r p policies d body tooLarge f row rows =
     (if gr_Approval r \<noteq> [] then
        (if d_Decision d = ''block'' then (Stop 403 ''policy_blocked'', [Record row], rows)
         else if tooLarge then (Stop 413 ''approval_body_too_large'', [], rows)
         else
           (case ConsumeAgentApproval (ge_now e) (gr_Approval r) (p_KeyID p) (gateDigest r p body) rows of
              Inl err \<Rightarrow> (Stop 403 ''approval_invalid'', [], rows)
            | Inr (a, rows') \<Rightarrow>
                (Pass, [Record (row\<lparr>ev_Decision := ''approved'', ev_PolicyID := ap_PolicyID a, ev_PolicyVersion := ap_PolicyVersion a\<rparr>)], rows')))
      else
        (case credentialTTLViolation (ge_expiry e) (ev_Operation row) d policies f (ge_now e) of
           Some v \<Rightarrow> (Stop 403 ''policy_credential_ttl'', [Record (row\<lparr>ev_Decision := ''block''\<rparr>)], rows)
         | None \<Rightarrow>
             (case d_Policy d of
                None \<Rightarrow> (Pass, [Record row], rows)
              | Some m \<Rightarrow>
                  if d_Decision d = ''block'' then (Stop 403 ''policy_blocked'', [Record row], rows)
                  else if d_Decision d = ''require_approval'' then hold_request e r p policies m body tooLarge row rows
                  else if d_Decision d = ''exception'' then (Pass, [Record row, NotifyException row (m_Name m)], rows)
                  else (Pass, [Record row], rows))))"

text \<open>The row of the decision: \<open>row.Decision\<close>, and the policy when one decided.\<close>

definition decided_row :: "Decision \<Rightarrow> Evaluation \<Rightarrow> Evaluation" where
  "decided_row d row =
     (case d_Policy d of
        None \<Rightarrow> row\<lparr>ev_Decision := d_Decision d\<rparr>
      | Some m \<Rightarrow> row\<lparr>ev_Decision := d_Decision d, ev_PolicyID := m_PolicyID m, ev_PolicyVersion := m_Version m\<rparr>)"

text \<open>A licensed installation: the body is read, the scopes resolved, and each scope evaluated.\<close>

definition gate_scopes ::
  "gate_env \<Rightarrow> gate_request \<Rightarrow> Principal \<Rightarrow> Published list \<Rightarrow> string list \<Rightarrow> Evaluation \<Rightarrow> string \<Rightarrow> bool \<Rightarrow> gateFields
   \<Rightarrow> Approval list \<Rightarrow> gate_answer \<times> gate_effect list \<times> Approval list" where
  "gate_scopes e r p policies segments row body tooLarge f rows =
     (case gateScope e r segments f p of
        Inl err \<Rightarrow> (Stop 503 ''agent_policy_unavailable'', [], rows)
      | Inr candidates \<Rightarrow>
          (case gate_decision e p policies candidates
              (row\<lparr>ev_Project := fst (hd candidates), ev_Environment := snd (hd candidates)\<rparr>) of
             Inl err \<Rightarrow> (Stop 503 ''agent_policy_unavailable'', [], rows)
           | Inr (d, row') \<Rightarrow> gate_act e r p policies d body tooLarge f (decided_row d row') rows))"

definition gate_licensed ::
  "gate_env \<Rightarrow> gate_request \<Rightarrow> Principal \<Rightarrow> Published list \<Rightarrow> string list \<Rightarrow> Evaluation \<Rightarrow> Approval list
   \<Rightarrow> gate_answer \<times> gate_effect list \<times> Approval list" where
  "gate_licensed e r p policies segments row rows =
     (case gateBody (gr_Body r) of
        Inl err \<Rightarrow> (Stop 400 ''invalid_body'', [], rows)
      | Inr (body, tooLarge) \<Rightarrow>
          gate_scopes e r p policies segments row body tooLarge (if tooLarge then no_fields else gr_Fields r) rows)"

definition observed_row :: "Principal \<Rightarrow> string \<Rightarrow> string \<Rightarrow> Evaluation" where
  "observed_row p operation category =
     \<lparr>ev_KeyID = p_KeyID p, ev_IdentityID = p_ID p, ev_TeamIDs = [], ev_Operation = operation, ev_Category = category,
      ev_Project = [], ev_Environment = [], ev_ActiveIncident = False, ev_Decision = ''allow'', ev_PolicyID = [], ev_PolicyVersion = 0\<rparr>"

definition gateAgentAccess ::
  "gate_env \<Rightarrow> gate_request \<Rightarrow> Principal \<Rightarrow> Approval list \<Rightarrow> gate_answer \<times> gate_effect list \<times> Approval list" where
  "gateAgentAccess e r p rows =
     (if p_CredentialType p \<noteq> ''machine'' then (Pass, [], rows)
      else
        (let (segments, operation, category) = gate_operation e r; row = observed_row p operation category in
         if operation = ''getAgentApproval'' then (Pass, [Record row], rows)
         else
           (case ge_load e of
              Inl err \<Rightarrow> (Stop 503 ''agent_policy_unavailable'', [], rows)
            | Inr (policies, licensed) \<Rightarrow>
                if \<not> licensed then (Pass, [], rows) else gate_licensed e r p policies segments row rows)))"

end
