(* ===== verification/Agent_Policy_Facts.thy ===== *)
theory Agent_Policy_Facts
  imports Agent_Policy
begin

text \<open>
  What the policy engine guarantees: the wildcard walk always ends and decides the declarative
  match; a request is blocked exactly when an enforced policy without a live exception says
  so; and the decision does not depend on the order of the policies.
\<close>

section \<open>The wildcard match\<close>

text \<open>A star stands for any run of bytes; every other byte for itself.\<close>

fun glob :: "string \<Rightarrow> string \<Rightarrow> bool" where
  "glob [] s \<longleftrightarrow> s = []"
| "glob (c # p) s \<longleftrightarrow>
     (if c = CHR ''*'' then \<exists>k \<le> length s. glob p (drop k s)
      else s \<noteq> [] \<and> hd s = c \<and> glob p (tl s))"

definition literal :: "string \<Rightarrow> bool" where
  "literal w \<longleftrightarrow> CHR ''*'' \<notin> set w"

lemma glob_Nil: "glob p [] \<longleftrightarrow> list_all (\<lambda>c. c = CHR ''*'') p"
  by (induction p) auto

lemma glob_literal: "literal w \<Longrightarrow> glob (w @ p) s \<longleftrightarrow> (\<exists>t. s = w @ t \<and> glob p t)"
proof (induction w arbitrary: s)
  case (Cons c w)
  then have c: "c \<noteq> CHR ''*''" "literal w" by (auto simp: literal_def)
  show ?case by (cases s) (auto simp: c Cons.IH [OF c(2)])
qed simp

lemma glob_star: "glob (CHR ''*'' # p) s \<longleftrightarrow> (\<exists>k. glob p (drop k s))"
proof -
  have "\<exists>k \<le> length s. glob p (drop k s)" if "glob p (drop k s)" for k
    using that by (cases "k \<le> length s") (auto intro: exI [of _ k] exI [of _ "length s"])
  then show ?thesis by auto
qed

text \<open>
  What the walk has still to find from a state: without a star, a match of the rest; with a
  star at \<open>s\<close> whose run ends at \<open>mark\<close> or later, a match of what follows the star.
\<close>

fun walk_goal :: "string \<Rightarrow> string \<Rightarrow> nat \<Rightarrow> nat \<Rightarrow> (nat \<times> nat) option \<Rightarrow> bool" where
  "walk_goal pat val p v None = glob (drop p pat) (drop v val)"
| "walk_goal pat val p v (Some (s, mark)) = (\<exists>k \<ge> mark. k \<le> length val \<and> glob (drop (s + 1) pat) (drop k val))"

fun walk_inv :: "string \<Rightarrow> string \<Rightarrow> nat \<Rightarrow> nat \<Rightarrow> (nat \<times> nat) option \<Rightarrow> bool" where
  "walk_inv pat val p v None \<longleftrightarrow> p \<le> length pat \<and> v \<le> length val"
| "walk_inv pat val p v (Some (s, mark)) \<longleftrightarrow>
     (\<exists>w. literal w \<and> drop (s + 1) pat = w @ drop p pat \<and> drop mark val = w @ drop v val)
     \<and> s < p \<and> p \<le> length pat \<and> mark \<le> v \<and> v \<le> length val"

lemma drop_nth: "p < length xs \<Longrightarrow> drop p xs = xs ! p # drop (Suc p) xs"
  by (simp add: Cons_nth_drop_Suc)

lemma inv_star:
  assumes "walk_inv pat val p v star" and "p < length pat" and "pat ! p = CHR ''*''"
  shows "walk_inv pat val (Suc p) v (Some (p, v))"
    and "walk_goal pat val p v star \<longleftrightarrow> walk_goal pat val (Suc p) v (Some (p, v))"
proof -
  have v: "v \<le> length val" using assms(1) by (cases star) auto
  show "walk_inv pat val (Suc p) v (Some (p, v))"
    using assms(2) v by (auto simp: literal_def intro!: exI [of _ "[]"])
  have pat: "drop p pat = CHR ''*'' # drop (Suc p) pat" using assms(2,3) by (simp add: drop_nth)
  have rest: "glob (drop p pat) (drop v val) \<longleftrightarrow> (\<exists>k \<ge> v. k \<le> length val \<and> glob (drop (Suc p) pat) (drop k val))"
  proof -
    have "glob (drop p pat) (drop v val) \<longleftrightarrow> (\<exists>k \<le> length val - v. glob (drop (Suc p) pat) (drop (v + k) val))"
      by (simp add: pat add.commute)
    also have "\<dots> \<longleftrightarrow> (\<exists>k \<ge> v. k \<le> length val \<and> glob (drop (Suc p) pat) (drop k val))"
    proof safe
      fix k assume "k \<le> length val - v" "glob (drop (Suc p) pat) (drop (v + k) val)"
      then show "\<exists>k \<ge> v. k \<le> length val \<and> glob (drop (Suc p) pat) (drop k val)"
        using v by (intro exI [of _ "v + k"]) auto
    next
      fix k assume "v \<le> k" "k \<le> length val" "glob (drop (Suc p) pat) (drop k val)"
      then show "\<exists>k \<le> length val - v. glob (drop (Suc p) pat) (drop (v + k) val)"
        by (intro exI [of _ "k - v"]) auto
    qed
    finally show ?thesis .
  qed
  show "walk_goal pat val p v star \<longleftrightarrow> walk_goal pat val (Suc p) v (Some (p, v))"
  proof (cases star)
    case (Some sm)
    obtain s mark where sm: "sm = (s, mark)" by force
    obtain w where w: "literal w" "drop (Suc s) pat = w @ drop p pat" "drop mark val = w @ drop v val"
      and o: "mark \<le> v" using assms(1) by (auto simp: Some sm)
    have "(\<exists>k \<ge> mark. k \<le> length val \<and> glob (drop (Suc s) pat) (drop k val)) \<longleftrightarrow> glob (drop p pat) (drop v val)"
    proof safe
      fix k assume k: "mark \<le> k" "k \<le> length val" "glob (drop (Suc s) pat) (drop k val)"
      then obtain t where t: "drop k val = w @ t" "glob (drop p pat) t" using w by (auto simp: glob_literal)
      have "length (drop mark val) = length w + (length val - v)" using w(3) by simp
      then have lw: "length w = v - mark" using o v by simp
      have "t = drop (k + length w) val"
        using arg_cong [OF t(1), of "drop (length w)"] by (simp add: add.commute)
      then have "t = drop (k - mark) (drop v val)" using lw k(1) o by (simp add: add.commute)
      then show "glob (drop p pat) (drop v val)"
        using t(2) unfolding pat glob_star by (metis drop_drop)
    next
      assume g: "glob (drop p pat) (drop v val)"
      show "\<exists>k \<ge> mark. k \<le> length val \<and> glob (drop (Suc s) pat) (drop k val)"
        using g w o v by (intro exI [of _ mark]) (auto simp: glob_literal)
    qed
    then show ?thesis using rest by (simp add: Some sm)
  qed (simp add: rest)
qed

lemma inv_char:
  assumes "walk_inv pat val p v star" and "p < length pat" and "v < length val" and "pat ! p = val ! v" and "pat ! p \<noteq> CHR ''*''"
  shows "walk_inv pat val (Suc p) (Suc v) star"
    and "walk_goal pat val p v star \<longleftrightarrow> walk_goal pat val (Suc p) (Suc v) star"
proof -
  have d: "drop p pat = pat ! p # drop (Suc p) pat" "drop v val = pat ! p # drop (Suc v) val"
    using assms(2-4) by (simp_all add: drop_nth)
  show "walk_inv pat val (Suc p) (Suc v) star"
  proof (cases star)
    case (Some sm)
    obtain s mark where sm: "sm = (s, mark)" by force
    obtain w where w: "literal w" "drop (Suc s) pat = w @ drop p pat" "drop mark val = w @ drop v val"
      using assms(1) by (auto simp: Some sm)
    have "literal (w @ [pat ! p])" using w(1) assms(5) by (auto simp: literal_def)
    moreover have "drop (Suc s) pat = (w @ [pat ! p]) @ drop (Suc p) pat" "drop mark val = (w @ [pat ! p]) @ drop (Suc v) val"
      using w(2,3) d by simp_all
    ultimately have "\<exists>w. literal w \<and> drop (Suc s) pat = w @ drop (Suc p) pat \<and> drop mark val = w @ drop (Suc v) val" by blast
    then show ?thesis using assms by (auto simp: Some sm)
  qed (use assms in auto)
  show "walk_goal pat val p v star \<longleftrightarrow> walk_goal pat val (Suc p) (Suc v) star"
    using d assms(5) by (cases star) auto
qed

text \<open>When neither case applies there is no match with the current end of the star's run.\<close>

lemma inv_back:
  assumes "walk_inv pat val p v star" and "v < length val" and "p < length pat \<Longrightarrow> pat ! p \<noteq> CHR ''*'' \<and> pat ! p \<noteq> val ! v"
  shows "star = None \<Longrightarrow> \<not> walk_goal pat val p v star"
    and "star = Some (s, mark) \<Longrightarrow> walk_inv pat val (Suc s) (Suc mark) (Some (s, Suc mark))"
    and "star = Some (s, mark) \<Longrightarrow> walk_goal pat val p v star \<longleftrightarrow> walk_goal pat val (Suc s) (Suc mark) (Some (s, Suc mark))"
proof -
  have no: "\<not> glob (drop p pat) (drop v val)"
    using assms by (cases "p < length pat") (auto simp: drop_nth)
  then show "star = None \<Longrightarrow> \<not> walk_goal pat val p v star" by simp
  assume star: "star = Some (s, mark)"
  obtain w where w: "literal w" "drop (Suc s) pat = w @ drop p pat" "drop mark val = w @ drop v val"
    and o: "mark \<le> v" "s < p" "p \<le> length pat" using assms(1) by (auto simp: star)
  show "walk_inv pat val (Suc s) (Suc mark) (Some (s, Suc mark))"
    using o assms(2) by (auto simp: literal_def intro!: exI [of _ "[]"])
  have "\<not> glob (drop (Suc s) pat) (drop mark val)" using no w by (auto simp: glob_literal)
  then have "(\<exists>k \<ge> mark. k \<le> length val \<and> glob (drop (Suc s) pat) (drop k val))
      \<longleftrightarrow> (\<exists>k \<ge> Suc mark. k \<le> length val \<and> glob (drop (Suc s) pat) (drop k val))"
    by (metis Suc_leD le_antisym not_less_eq_eq)
  then show "walk_goal pat val p v star \<longleftrightarrow> walk_goal pat val (Suc s) (Suc mark) (Some (s, Suc mark))"
    by (simp add: star)
qed

lemma inv_end:
  assumes "walk_inv pat val p v star" and "\<not> v < length val"
  shows "walk_goal pat val p v star \<longleftrightarrow> list_all (\<lambda>c. c = CHR ''*'') (drop p pat)"
proof (cases star)
  case (Some sm)
  obtain s mark where sm: "sm = (s, mark)" by force
  obtain w where w: "literal w" "drop (Suc s) pat = w @ drop p pat" "drop mark val = w"
    and o: "mark \<le> v" "v = length val" using assms by (auto simp: Some sm)
  have "(\<exists>k \<ge> mark. k \<le> length val \<and> glob (drop (Suc s) pat) (drop k val)) \<longleftrightarrow> glob (drop p pat) []"
  proof safe
    fix k assume k: "mark \<le> k" "k \<le> length val" "glob (drop (Suc s) pat) (drop k val)"
    then obtain t where t: "drop k val = w @ t" "glob (drop p pat) t" using w by (auto simp: glob_literal)
    have "length (drop k val) \<le> length w" using w(3) k(1) by auto
    then have "t = []" using t(1) by simp
    then show "glob (drop p pat) []" using t(2) by simp
  next
    assume "glob (drop p pat) []"
    then show "\<exists>k \<ge> mark. k \<le> length val \<and> glob (drop (Suc s) pat) (drop k val)"
      using w o by (intro exI [of _ mark]) (auto simp: glob_literal)
  qed
  then show ?thesis by (simp add: Some sm glob_Nil)
qed (use assms in \<open>simp add: glob_Nil\<close>)

fun walk_measure :: "string \<Rightarrow> string \<Rightarrow> nat \<Rightarrow> (nat \<times> nat) option \<Rightarrow> nat \<times> nat \<times> nat" where
  "walk_measure pat val v None = (length pat + 1, 0, length val - v)"
| "walk_measure pat val v (Some (s, mark)) = (length pat - s, length val - mark, length val - v)"

lemma walk_decides:
  "walk_inv pat val p v star \<Longrightarrow> match_walk pat val p v star = Some (walk_goal pat val p v star)"
proof (induction "walk_measure pat val v star" arbitrary: p v star
    rule: wf_induct_rule [OF wf_lex_prod [OF wf_less wf_lex_prod [OF wf_less wf_less]]])
  case (1 v star p)
  note IH = 1(1) and inv = 1(2)
  show ?case
  proof (cases "v < length val")
    case v: True
    consider (star) "p < length pat" "pat ! p = CHR ''*''" | (char) "p < length pat" "pat ! p = val ! v" "pat ! p \<noteq> CHR ''*''"
      | (stuck) "p < length pat \<Longrightarrow> pat ! p \<noteq> CHR ''*'' \<and> pat ! p \<noteq> val ! v" by blast
    then show ?thesis
    proof cases
      case star
      have "(walk_measure pat val v (Some (p, v)), walk_measure pat val v star)
          \<in> {(x, y). x < y} <*lex*> {(x, y). x < y} <*lex*> {(x, y). x < y}"
        using inv star(1) by (cases star) auto
      from IH [OF this inv_star(1) [OF inv star]] show ?thesis
        using inv_star(2) [OF inv star] v star by (subst match_walk.simps) simp
    next
      case char
      have "(walk_measure pat val (Suc v) star, walk_measure pat val v star)
          \<in> {(x, y). x < y} <*lex*> {(x, y). x < y} <*lex*> {(x, y). x < y}"
        using v by (cases star) auto
      from IH [OF this inv_char(1) [OF inv char(1) v char(2,3)]] show ?thesis
        using inv_char(2) [OF inv char(1) v char(2,3)] v char by (subst match_walk.simps) simp
    next
      case stuck
      show ?thesis
      proof (cases star)
        case None
        then show ?thesis using inv_back(1) [OF inv v stuck] v stuck by (subst match_walk.simps) auto
      next
        case (Some sm)
        obtain s mark where sm: "star = Some (s, mark)" using Some by force
        have "mark < length val" using inv v by (auto simp: sm)
        then have "(walk_measure pat val (Suc mark) (Some (s, Suc mark)), walk_measure pat val v star)
            \<in> {(x, y). x < y} <*lex*> {(x, y). x < y} <*lex*> {(x, y). x < y}"
          by (auto simp: sm)
        from IH [OF this inv_back(2) [OF inv v stuck sm]] show ?thesis
          using inv_back(3) [OF inv v stuck sm] v stuck by (subst match_walk.simps) (auto simp: sm)
      qed
    qed
  next
    case False
    then show ?thesis using inv_end [OF inv False] by (subst match_walk.simps) simp
  qed
qed

lemma MatchPattern_glob: "MatchPattern pat val = Some (glob pat val)"
  unfolding MatchPattern_def by (subst walk_decides) simp_all

section \<open>Conditions of a valid document\<close>

lemma check_values_Inr:
  "check_values opr seen vs = Inr u \<Longrightarrow> v \<in> set vs \<Longrightarrow> checkValue opr v = Inr ()"
  by (induction opr seen vs rule: check_values.induct) (auto simp: andE_Inr)

lemma check_conditions_Inr:
  "check_conditions seen cs = Inr u \<Longrightarrow> c \<in> set cs \<Longrightarrow>
     cond_Field c \<in> set fields \<and> cond_Operator c \<in> {''is_any_of'', ''is_none_of'', ''matches''}
     \<and> cond_Values c \<noteq> [] \<and> (\<forall>v \<in> set (cond_Values c). checkValue (cond_Operator c) v = Inr ())"
  by (induction seen cs rule: check_conditions.induct)
    (auto simp: andE_Inr checks_Cons_Inr dest: check_values_Inr simp del: checks.simps)

text \<open>The declarative reading of one condition: what the operators promise.\<close>

definition condition_holds :: "Condition \<Rightarrow> Request \<Rightarrow> bool" where
  "condition_holds c r \<longleftrightarrow>
     (let ss = set (the (subjects c r)); vs = set (cond_Values c) in
      if cond_Operator c = ''is_none_of'' then ss \<inter> vs = {}
      else if cond_Operator c = ''is_any_of'' then ss \<inter> vs \<noteq> {}
      else (\<exists>s \<in> ss. s \<noteq> []) \<and> (\<exists>s \<in> ss. \<exists>v \<in> vs. glob v s))"

lemma checkValue_nonempty: "checkValue opr v = Inr u \<Longrightarrow> v \<noteq> []"
  by (auto simp: checkValue_def TrimSpace_def TrimLeftSpace.simps TrimRightSpace.simps leading_space_def trailing_space_def)

lemma condition_matches_holds:
  assumes "cond_Field c \<in> set fields" and "cond_Operator c \<in> {''is_any_of'', ''is_none_of'', ''matches''}"
    and "\<forall>v \<in> set (cond_Values c). v \<noteq> []"
  shows "condition_matches c r \<longleftrightarrow> condition_holds c r"
proof -
  obtain ss where ss: "subjects c r = Some ss" using assms(1) by (auto simp: subjects_def fields_def)
  show ?thesis
    using assms(2,3)
    by (auto simp: condition_matches_def condition_holds_def ss list_ex_iff value_hits_def MatchPattern_glob Let_def)
qed

lemma valid_Matches:
  assumes "Validate d = Inr u"
  shows "Matches d r \<longleftrightarrow> (\<forall>c \<in> set (doc_When d). condition_holds c r)"
proof -
  have "check_conditions [] (doc_When d) = Inr ()" using assms by (simp add: Validate_def andE_Inr del: checks.simps)
  then have "condition_matches c r \<longleftrightarrow> condition_holds c r" if "c \<in> set (doc_When d)" for c
    using check_conditions_Inr [OF _ that] checkValue_nonempty by (intro condition_matches_holds) blast+
  then show ?thesis by (auto simp: Matches_def list_all_iff)
qed

lemma valid_effect:
  "Validate d = Inr u \<Longrightarrow> th_Effect (doc_Then d) \<in> {''block'', ''require_approval''}"
  by (auto simp: Validate_def check_then_def andE_Inr split: if_splits)

section \<open>The decision\<close>

text \<open>A published policy that takes part with this status and effect, its exception live or not.\<close>

definition acts :: "Request \<Rightarrow> Published list \<Rightarrow> string \<Rightarrow> string \<Rightarrow> bool \<Rightarrow> bool" where
  "acts r ps status effect exception \<longleftrightarrow>
     (\<exists>p \<in> set ps. pub_Status p = status \<and> Matches (pub_Document p) r
        \<and> m_Exception (policy_match r p) = exception \<and> (effect = [] \<or> th_Effect (doc_Then (pub_Document p)) = effect))"

definition verdict :: "Request \<Rightarrow> Published list \<Rightarrow> string" where
  "verdict r ps =
     (if acts r ps ''enforced'' ''block'' False then ''block''
      else if acts r ps ''enforced'' ''require_approval'' False then ''require_approval''
      else if acts r ps ''enforced'' [] True then ''exception''
      else if acts r ps ''monitor'' ''block'' False then ''monitor_block''
      else if acts r ps ''monitor'' ''require_approval'' False then ''monitor_approval''
      else ''allow'')"

lemma find_match_None:
  "status \<in> {''enforced'', ''monitor''} \<Longrightarrow>
     find_match (policy_matches r ps) status effect exception = None \<longleftrightarrow> \<not> acts r ps status effect exception"
  by (auto simp: find_match_def find_None_iff policy_matches_def acts_def policy_match_def)

lemma Evaluate_verdict: "d_Decision (Evaluate r ps) = verdict r ps"
proof -
  note f = find_match_None [of _ r ps]
  show ?thesis
    unfolding Evaluate_def decision_rules_def verdict_def
    by (simp add: f [symmetric] split: option.splits)
qed

lemma verdict_set:
  assumes "set ps = set qs"
  shows "verdict r ps = verdict r qs"
proof -
  have "acts r ps = acts r qs" by (intro ext) (simp add: acts_def assms)
  then show ?thesis by (simp only: verdict_def)
qed

lemma find_match_Some:
  assumes "find_match ms status effect exception = Some m"
  shows "m \<in> set ms" and "m_Status m = status" and "m_Exception m = exception" and "effect \<noteq> [] \<Longrightarrow> m_Effect m = effect"
proof -
  have "m \<in> set ms \<and> m_Status m = status \<and> m_Exception m = exception \<and> (effect = [] \<or> m_Effect m = effect)"
    using assms unfolding find_match_def by (induction ms) (auto split: if_splits)
  then show "m \<in> set ms" and "m_Status m = status" and "m_Exception m = exception" and "effect \<noteq> [] \<Longrightarrow> m_Effect m = effect" by blast+
qed

text \<open>The policy a blocking or holding decision names is enforced, matches, and has that effect.\<close>

lemma Evaluate_policy:
  assumes "d_Decision (Evaluate r ps) \<in> {''block'', ''require_approval''}"
  shows "\<exists>p \<in> set ps. d_Policy (Evaluate r ps) = Some (policy_match r p) \<and> pub_Status p = ''enforced''
    \<and> Matches (pub_Document p) r \<and> th_Effect (doc_Then (pub_Document p)) = d_Decision (Evaluate r ps)"
proof -
  obtain m where m: "d_Policy (Evaluate r ps) = Some m"
    "find_match (policy_matches r ps) ''enforced'' (d_Decision (Evaluate r ps)) False = Some m"
    using assms by (auto simp: Evaluate_def decision_rules_def split: option.splits)
  from find_match_Some [OF m(2)] assms m(1) show ?thesis
    by (auto simp: policy_matches_def policy_match_def)
qed

end
