(* ===== verification/Agent_Approval_Facts.thy ===== *)
theory Agent_Approval_Facts
  imports Agent_Approvals
begin

text \<open>
  The life of an approval: it is spent at most once, by the key and for the digest it was
  requested with, after somebody other than the requester who may decide it approved it and
  nobody denied it; one pending approval per request, and twenty open ones per key.
\<close>

section \<open>What holds of a row and of the log\<close>

definition undecided :: "approval_event list \<Rightarrow> string \<Rightarrow> bool" where
  "undecided log i \<longleftrightarrow> (\<forall>by ok. Decided i by ok \<notin> set log)"

definition unspent :: "approval_event list \<Rightarrow> string \<Rightarrow> bool" where
  "unspent log i \<longleftrightarrow> (\<forall>k d. Consumed i k d \<notin> set log)"

definition row_ok :: "approval_event list \<Rightarrow> Approval \<Rightarrow> bool" where
  "row_ok log a \<longleftrightarrow>
     Requested (ap_ID a) (ap_KeyID a) (ap_Digest a) (ap_IdentityID a) \<in> set log
     \<and> (ap_State a = ''pending'' \<longrightarrow> undecided log (ap_ID a) \<and> unspent log (ap_ID a))
     \<and> (ap_State a = ''approved'' \<longrightarrow> unspent log (ap_ID a)
          \<and> (\<exists>by. by \<noteq> ap_IdentityID a \<and> Decided (ap_ID a) by True \<in> set log)
          \<and> (\<forall>by. Decided (ap_ID a) by False \<notin> set log))"

fun log_ok :: "approval_event list \<Rightarrow> bool" where
  "log_ok [] \<longleftrightarrow> True"
| "log_ok (Requested i k d by # log) \<longleftrightarrow> (\<forall>k d by. Requested i k d by \<notin> set log) \<and> log_ok log"
| "log_ok (Decided i by ok # log) \<longleftrightarrow> (\<exists>k d req. Requested i k d req \<in> set log \<and> by \<noteq> req) \<and> undecided log i \<and> log_ok log"
| "log_ok (Consumed i k d # log) \<longleftrightarrow>
     (\<exists>req by. Requested i k d req \<in> set log \<and> Decided i by True \<in> set log \<and> by \<noteq> req)
     \<and> (\<forall>by. Decided i by False \<notin> set log) \<and> unspent log i \<and> log_ok log"
| "log_ok (Maintained # log) \<longleftrightarrow> log_ok log"

definition one_pending :: "Approval list \<Rightarrow> bool" where
  "one_pending rows \<longleftrightarrow>
     (\<forall>a \<in> set rows. \<forall>b \<in> set rows. ap_State a = ''pending'' \<and> ap_State b = ''pending''
        \<and> ap_KeyID a = ap_KeyID b \<and> ap_Digest a = ap_Digest b \<longrightarrow> a = b)"

definition store_ok :: "approval_store \<Rightarrow> bool" where
  "store_ok s \<longleftrightarrow> distinct (map ap_ID (as_rows s)) \<and> one_pending (as_rows s)
     \<and> (\<forall>key. open_count (as_now s) key (as_rows s) \<le> 20)
     \<and> (\<forall>a \<in> set (as_rows s). row_ok (as_log s) a) \<and> log_ok (as_log s)"

section \<open>Rows that only change their state\<close>

text \<open>Every statement but the insert keeps the identifying columns of a row or deletes it.\<close>

definition same_request :: "Approval \<Rightarrow> Approval \<Rightarrow> bool" where
  "same_request a b \<longleftrightarrow> ap_ID a = ap_ID b \<and> ap_KeyID a = ap_KeyID b \<and> ap_Digest a = ap_Digest b
     \<and> ap_IdentityID a = ap_IdentityID b \<and> ap_ExpiresAt a = ap_ExpiresAt b
     \<and> (ap_State b = ''pending'' \<longrightarrow> b = a)"

lemma filter_map_rows:
  assumes "distinct (map ap_ID rows)" and "one_pending rows" and "\<And>a. same_request a (f a)"
  shows "distinct (map ap_ID (filter P (map f rows)))" and "one_pending (filter P (map f rows))"
    and "open_count now key (filter P (map f rows)) \<le> open_count now key rows"
proof -
  have ids: "map ap_ID (map f rows) = map ap_ID rows" using assms(3) by (simp add: same_request_def)
  show "distinct (map ap_ID (filter P (map f rows)))"
    using assms(1) by (subst (asm) ids [symmetric]) (rule distinct_map_filter)
  have pend: "ap_State (f a) = ''pending'' \<Longrightarrow> f a = a" for a using assms(3) [of a] by (simp add: same_request_def)
  show "one_pending (filter P (map f rows))"
    unfolding one_pending_def
  proof (intro ballI impI)
    fix x y
    assume x: "x \<in> set (filter P (map f rows))" and y: "y \<in> set (filter P (map f rows))"
      and e: "ap_State x = ''pending'' \<and> ap_State y = ''pending'' \<and> ap_KeyID x = ap_KeyID y \<and> ap_Digest x = ap_Digest y"
    obtain a where a: "a \<in> set rows" "x = f a" using x by auto
    obtain b where b: "b \<in> set rows" "y = f b" using y by auto
    have "x = a" "y = b" using pend a b e by auto
    then show "x = y" using assms(2) a(1) b(1) e unfolding one_pending_def by blast
  qed
  have "filter (\<lambda>a. ap_KeyID a = key \<and> ap_State a = ''pending'' \<and> now < ap_ExpiresAt a) (map f rows)
      = map f (filter (\<lambda>a. ap_KeyID (f a) = key \<and> ap_State (f a) = ''pending'' \<and> now < ap_ExpiresAt (f a)) rows)"
    by (simp add: filter_map o_def)
  then have "open_count now key (map f rows)
      = length (filter (\<lambda>a. ap_KeyID (f a) = key \<and> ap_State (f a) = ''pending'' \<and> now < ap_ExpiresAt (f a)) rows)"
    by (simp add: open_count_def)
  also have "\<dots> \<le> open_count now key rows"
    unfolding open_count_def
  proof (induction rows)
    case (Cons a rows)
    then show ?case using pend [of a] by auto
  qed simp
  finally have "open_count now key (map f rows) \<le> open_count now key rows" .
  moreover have "open_count now key (filter P xs) \<le> open_count now key xs" for xs
    unfolding open_count_def by (induction xs) auto
  ultimately show "open_count now key (filter P (map f rows)) \<le> open_count now key rows"
    using le_trans by blast
qed

lemma open_count_later: "t \<le> u \<Longrightarrow> open_count u key rows \<le> open_count t key rows"
  unfolding open_count_def by (induction rows) auto

lemma open_count_append: "open_count now key (xs @ ys) = open_count now key xs + open_count now key ys"
  by (simp add: open_count_def)

lemma same_rows [simp]: "same_request a a"
  by (simp add: same_request_def)

lemma same_state: "x \<noteq> ''pending'' \<Longrightarrow> same_request a (a\<lparr>ap_State := x\<rparr>)"
  by (simp add: same_request_def)

section \<open>The log\<close>

fun event_id :: "approval_event \<Rightarrow> string option" where
  "event_id (Requested i k d by) = None"
| "event_id (Decided i by ok) = Some i"
| "event_id (Consumed i k d) = Some i"
| "event_id Maintained = None"

lemma row_ok_later: "row_ok log a \<Longrightarrow> event_id e \<noteq> Some (ap_ID a) \<Longrightarrow> row_ok (e # log) a"
  by (cases e) (auto simp: row_ok_def undecided_def unspent_def)

lemma row_ok_closed:
  "row_ok log a \<Longrightarrow> same_request a b \<Longrightarrow> ap_State b \<notin> {''pending'', ''approved''} \<Longrightarrow> row_ok (e # log) b"
  by (auto simp: row_ok_def same_request_def)

lemma row_ok_state: "row_ok log a \<Longrightarrow> x \<notin> {''pending'', ''approved''} \<Longrightarrow> row_ok log (a\<lparr>ap_State := x\<rparr>)"
  by (auto simp: row_ok_def)

lemma fresh_event:
  assumes "log_ok log" and "\<forall>k d by. Requested i k d by \<notin> set log"
  shows "undecided log i" and "unspent log i"
proof -
  have "Decided i who ok \<in> set log \<Longrightarrow> \<exists>k d req. Requested i k d req \<in> set log" for who ok
    using assms(1) by (induction log rule: log_ok.induct) auto
  moreover have "Consumed i k d \<in> set log \<Longrightarrow> \<exists>k d req. Requested i k d req \<in> set log" for k d
    using assms(1) by (induction log rule: log_ok.induct) auto
  ultimately show "undecided log i" and "unspent log i"
    using assms(2) by (auto simp: undecided_def unspent_def)
qed

section \<open>Each call keeps the invariant\<close>

lemma maintained_ok:
  assumes "store_ok s" and "as_now s \<le> now" and "\<And>a. same_request a (f a)"
    and "\<And>a. f a = a \<or> ap_State (f a) \<notin> {''pending'', ''approved''}" and "rows = filter P (map f (as_rows s))"
  shows "store_ok \<lparr>as_rows = rows, as_now = now, as_log = Maintained # as_log s\<rparr>"
proof -
  note m = filter_map_rows [where rows = "as_rows s" and f = f and P = P, OF _ _ assms(3)]
  have "open_count now key rows \<le> 20" for key
    using m(3) [of now key] open_count_later [OF assms(2), of key "as_rows s"] assms(1)
    by (fastforce simp: store_ok_def assms(5) intro: le_trans)
  moreover have "row_ok (Maintained # as_log s) b" if b: "b \<in> set rows" for b
  proof -
    obtain a where a: "a \<in> set (as_rows s)" "b = f a" using b by (auto simp: assms(5))
    have ra: "row_ok (as_log s) a" using a(1) assms(1) by (simp add: store_ok_def)
    show ?thesis
      using assms(4) [of a] row_ok_later [OF ra, of Maintained] row_ok_closed [OF ra assms(3)] a(2) by auto
  qed
  ultimately show ?thesis using m(1,2) assms(1) by (simp add: store_ok_def assms(5))
qed

lemma find_Some_prop: "find P xs = Some x \<Longrightarrow> x \<in> set xs \<and> P x"
  by (induction xs) (auto split: if_splits)

lemma request_ok:
  assumes "store_ok s" and "as_now s \<le> now" and "\<forall>k d by. Requested i k d by \<notin> set (as_log s)"
    and "RequestAgentApproval now i policy_exists r (as_rows s) = Inr (a, created, rows)"
  shows "store_ok \<lparr>as_rows = rows, as_now = now,
      as_log = (if created then Requested i (ar_KeyID r) (ar_Digest r) (ar_IdentityID r) else Maintained) # as_log s\<rparr>"
proof -
  let ?key = "ar_KeyID r" and ?digest = "ar_Digest r"
  let ?f = "\<lambda>a. if same_pending ?key ?digest a \<and> ap_ExpiresAt a \<le> now then a\<lparr>ap_State := ''expired''\<rparr> else a"
  let ?rows = "expire_pending now ?key ?digest (as_rows s)"
  have f: "same_request a (?f a)" "?f a = a \<or> ap_State (?f a) \<notin> {''pending'', ''approved''}" for a
    by (simp_all add: same_state)
  have kept: "store_ok \<lparr>as_rows = ?rows, as_now = now, as_log = Maintained # as_log s\<rparr>"
    by (rule maintained_ok [OF assms(1,2) f, where P = "\<lambda>_. True"]) (simp add: expire_pending_def)
  show ?thesis
  proof (cases "find (same_pending ?key ?digest) ?rows")
    case (Some b)
    then have "\<not> created" "rows = ?rows" using assms(4) by (simp_all add: RequestAgentApproval_def Let_def)
    then show ?thesis using kept by simp
  next
    case None
    let ?n = "new_row now i r"
    have none: "\<forall>b \<in> set ?rows. \<not> same_pending ?key ?digest b" using None by (simp add: find_None_iff)
    have r: "created" "rows = ?rows @ [?n]" "open_count now ?key ?rows < 20"
      using assms(4) None by (auto simp: RequestAgentApproval_def Let_def split: if_splits)
    have n: "ap_ID ?n = i" "ap_KeyID ?n = ?key" "ap_Digest ?n = ?digest" "ap_State ?n = ''pending''" "ap_IdentityID ?n = ar_IdentityID r"
      by (simp_all add: new_row_def)
    have ids: "i \<notin> ap_ID ` set ?rows"
    proof
      assume "i \<in> ap_ID ` set ?rows"
      then obtain b where "b \<in> set ?rows" "ap_ID b = i" by blast
      then have "Requested i (ap_KeyID b) (ap_Digest b) (ap_IdentityID b) \<in> set (as_log s)"
        using kept by (auto simp: store_ok_def row_ok_def)
      then show False using assms(3) by blast
    qed
    have "open_count now key rows \<le> 20" for key
      using kept r(3) by (auto simp: store_ok_def r(2) open_count_append open_count_def n)
    moreover have "one_pending rows"
      using kept none by (auto simp: store_ok_def one_pending_def r(2) n same_pending_def)
    moreover have "row_ok (Requested i ?key ?digest (ar_IdentityID r) # as_log s) b" if "b \<in> set rows" for b
    proof (cases "b = ?n")
      case True
      have "log_ok (as_log s)" using assms(1) by (simp add: store_ok_def)
      note fr = fresh_event [OF this assms(3)]
      then show ?thesis by (auto simp: True row_ok_def n undecided_def unspent_def)
    next
      case False
      then have "row_ok (Maintained # as_log s) b" using that kept by (auto simp: r(2) store_ok_def)
      then show ?thesis by (auto simp: row_ok_def undecided_def unspent_def)
    qed
    ultimately show ?thesis
      using kept ids assms(3) by (auto simp: store_ok_def r(1,2) n)
  qed
qed

lemma decide_run:
  assumes "DecideAgentApproval now memberships p i ok reason rows = Inr rows'"
  shows "rows' = replace_row i (\<lambda>r. r\<lparr>ap_State := (if ok then ''approved'' else ''denied''), ap_DecidedBy := Some (p_ID p),
               ap_DecidedAt := Some now, ap_Reason := reason\<rparr>) rows"
    and "\<exists>a. find_row i rows = Some a \<and> p_ID p \<noteq> ap_IdentityID a \<and> agentDecider p
      \<and> canDecideAgentApproval p (agentApproverTeams memberships [a]) a"
    and "\<exists>a \<in> set rows. ap_ID a = i \<and> ap_State a = ''pending'' \<and> now < ap_ExpiresAt a"
proof -
  obtain b c where b: "agentApprovalFor now memberships p i rows = Inr (b, c)" "p_ID p \<noteq> ap_IdentityID b"
    "canDecideAgentApproval p (agentApproverTeams memberships [b]) b" "agentDecider p"
    "\<exists>a \<in> set rows. ap_ID a = i \<and> ap_State a = ''pending'' \<and> now < ap_ExpiresAt a"
    and r: "rows' = replace_row i (\<lambda>r. r\<lparr>ap_State := (if ok then ''approved'' else ''denied''), ap_DecidedBy := Some (p_ID p),
               ap_DecidedAt := Some now, ap_Reason := reason\<rparr>) rows"
    using assms by (auto simp: DecideAgentApproval_def bindE_Inr list_ex_iff split: if_splits prod.splits)
  obtain a where a: "find_row i rows = Some a" "b = scanAgentApproval now a"
    using b(1) by (auto simp: agentApprovalFor_def Let_def split: option.splits if_splits)
  have same: "ap_IdentityID b = ap_IdentityID a" "ap_Approvers b = ap_Approvers a" "ap_Project b = ap_Project a"
    by (simp_all add: a(2) scanAgentApproval_def)
  have "canDecideAgentApproval p (agentApproverTeams memberships [b]) b = canDecideAgentApproval p (agentApproverTeams memberships [a]) a"
    by (simp only: canDecideAgentApproval_def agentApproverTeams_def same list.map)
  with b(3) have "canDecideAgentApproval p (agentApproverTeams memberships [a]) a" by simp
  then show "\<exists>a. find_row i rows = Some a \<and> p_ID p \<noteq> ap_IdentityID a \<and> agentDecider p
      \<and> canDecideAgentApproval p (agentApproverTeams memberships [a]) a"
    using a(1) b(2,4) same by auto
  show "rows' = replace_row i (\<lambda>r. r\<lparr>ap_State := (if ok then ''approved'' else ''denied''), ap_DecidedBy := Some (p_ID p),
               ap_DecidedAt := Some now, ap_Reason := reason\<rparr>) rows" by (rule r)
  show "\<exists>a \<in> set rows. ap_ID a = i \<and> ap_State a = ''pending'' \<and> now < ap_ExpiresAt a" by (rule b(5))
qed

lemma same_id: "distinct (map ap_ID rows) \<Longrightarrow> a \<in> set rows \<Longrightarrow> b \<in> set rows \<Longrightarrow> ap_ID a = ap_ID b \<Longrightarrow> a = b"
  by (auto simp: distinct_map inj_on_def)

text \<open>A call that moves one row to a final or an approved state and logs it.\<close>

lemma moved_ok:
  assumes s: "store_ok s" and t: "as_now s \<le> now" and a: "a \<in> set (as_rows s)" and e: "event_id e = Some (ap_ID a)"
    and f: "same_request a b" "ap_State b \<noteq> ''pending''" and ok: "row_ok (e # as_log s) b" and log: "log_ok (e # as_log s)"
    and rows: "rows = map (\<lambda>r. if r = a then b else r) (as_rows s)"
  shows "store_ok \<lparr>as_rows = rows, as_now = now, as_log = e # as_log s\<rparr>"
proof -
  have f': "same_request r (if r = a then b else r)" for r using f by simp
  note m = filter_map_rows [where rows = "as_rows s" and f = "\<lambda>r. if r = a then b else r" and P = "\<lambda>_. True", OF _ _ f']
  have "open_count now key rows \<le> 20" for key
    using m(3) [of now key] open_count_later [OF t, of key "as_rows s"] s
    by (fastforce simp: store_ok_def rows intro: le_trans)
  moreover have "row_ok (e # as_log s) r" if "r \<in> set rows" for r
  proof (cases "r = b")
    case False
    then have r: "r \<in> set (as_rows s)" "r \<noteq> a" using that by (auto simp: rows split: if_splits)
    then have "ap_ID r \<noteq> ap_ID a" using same_id [of "as_rows s" r a] a s by (auto simp: store_ok_def)
    then show ?thesis using row_ok_later [of "as_log s" r e] r(1) s e by (auto simp: store_ok_def)
  qed (use ok in simp)
  ultimately show ?thesis using m(1,2) s log by (simp add: store_ok_def rows)
qed

lemma replace_one:
  assumes "distinct (map ap_ID rows)" and "a \<in> set rows"
  shows "replace_row (ap_ID a) f rows = map (\<lambda>r. if r = a then f a else r) rows"
proof -
  have "ap_ID r = ap_ID a \<longleftrightarrow> r = a" if "r \<in> set rows" for r using same_id [OF assms(1) that assms(2)] by blast
  then show ?thesis unfolding replace_row_def by (intro map_cong) auto
qed

lemma decide_ok:
  assumes s: "store_ok s" and t: "as_now s \<le> now"
    and run: "DecideAgentApproval now memberships p i ok reason (as_rows s) = Inr rows"
  shows "store_ok \<lparr>as_rows = rows, as_now = now, as_log = Decided i (p_ID p) ok # as_log s\<rparr>"
proof -
  have d: "distinct (map ap_ID (as_rows s))" using s by (simp add: store_ok_def)
  obtain a where a: "a \<in> set (as_rows s)" "ap_ID a = i" "ap_State a = ''pending''"
    using decide_run(3) [OF run] by blast
  obtain c where "find_row i (as_rows s) = Some c" "p_ID p \<noteq> ap_IdentityID c"
    using decide_run(2) [OF run] by blast
  moreover from this(1) have "c \<in> set (as_rows s)" "ap_ID c = i" using find_Some_prop unfolding find_row_def by force+
  then have "c = a" using same_id [OF d] a by blast
  ultimately have other: "p_ID p \<noteq> ap_IdentityID a" by blast
  have ra: "row_ok (as_log s) a" and lg: "log_ok (as_log s)" using a s by (simp_all add: store_ok_def)
  then have free: "undecided (as_log s) i" "unspent (as_log s) i"
    "Requested i (ap_KeyID a) (ap_Digest a) (ap_IdentityID a) \<in> set (as_log s)"
    using a by (auto simp: row_ok_def)
  let ?b = "a\<lparr>ap_State := (if ok then ''approved'' else ''denied''), ap_DecidedBy := Some (p_ID p), ap_DecidedAt := Some now, ap_Reason := reason\<rparr>"
  show ?thesis
  proof (rule moved_ok [OF s t a(1), where b = ?b])
    show "event_id (Decided i (p_ID p) ok) = Some (ap_ID a)" by (simp add: a(2))
    show "same_request a ?b" "ap_State ?b \<noteq> ''pending''" by (simp_all add: same_request_def)
    show "row_ok (Decided i (p_ID p) ok # as_log s) ?b"
      using free other by (auto simp: row_ok_def a(2) undecided_def unspent_def)
    show "log_ok (Decided i (p_ID p) ok # as_log s)" using free other lg by auto
    show "rows = map (\<lambda>r. if r = a then ?b else r) (as_rows s)"
      using decide_run(1) [OF run] replace_one [OF d a(1)] a(2) by simp
  qed
qed

lemma consume_run:
  assumes "ConsumeAgentApproval now i key digest rows = Inr (b, rows')" and "distinct (map ap_ID rows)"
  shows "\<exists>a \<in> set rows. spendable now i key digest a
    \<and> rows' = map (\<lambda>r. if r = a then a\<lparr>ap_State := ''consumed'', ap_ConsumedAt := Some now\<rparr> else r) rows"
proof -
  obtain a where a: "find (spendable now i key digest) rows = Some a"
    and r: "rows' = map (\<lambda>r. if spendable now i key digest r then r\<lparr>ap_State := ''consumed'', ap_ConsumedAt := Some now\<rparr> else r) rows"
    using assms(1) by (auto simp: ConsumeAgentApproval_def Let_def split: option.splits)
  have m: "a \<in> set rows" "spendable now i key digest a" using find_Some_prop [OF a] by auto
  have "spendable now i key digest r \<longleftrightarrow> r = a" if "r \<in> set rows" for r
    using same_id [OF assms(2) that m(1)] m(2) by (auto simp: spendable_def)
  then have "rows' = map (\<lambda>r. if r = a then a\<lparr>ap_State := ''consumed'', ap_ConsumedAt := Some now\<rparr> else r) rows"
    unfolding r by (intro map_cong) auto
  with m show ?thesis by blast
qed

lemma consume_ok:
  assumes s: "store_ok s" and t: "as_now s \<le> now" and run: "ConsumeAgentApproval now i key digest (as_rows s) = Inr (b, rows)"
  shows "store_ok \<lparr>as_rows = rows, as_now = now, as_log = Consumed i key digest # as_log s\<rparr>"
proof -
  have d: "distinct (map ap_ID (as_rows s))" using s by (simp add: store_ok_def)
  obtain a where a: "a \<in> set (as_rows s)" "spendable now i key digest a"
    and r: "rows = map (\<lambda>r. if r = a then a\<lparr>ap_State := ''consumed'', ap_ConsumedAt := Some now\<rparr> else r) (as_rows s)"
    using consume_run [OF run d] by blast
  have ra: "row_ok (as_log s) a" and lg: "log_ok (as_log s)" using a s by (simp_all add: store_ok_def)
  have sp: "ap_ID a = i" "ap_KeyID a = key" "ap_Digest a = digest" "ap_State a = ''approved''" using a(2) by (simp_all add: spendable_def)
  show ?thesis
  proof (rule moved_ok [OF s t a(1) _ _ _ _ _ r])
    show "event_id (Consumed i key digest) = Some (ap_ID a)" by (simp add: sp)
    show "same_request a (a\<lparr>ap_State := ''consumed'', ap_ConsumedAt := Some now\<rparr>)" by (simp add: same_request_def)
    show "ap_State (a\<lparr>ap_State := ''consumed'', ap_ConsumedAt := Some now\<rparr>) \<noteq> ''pending''" by simp
    show "row_ok (Consumed i key digest # as_log s) (a\<lparr>ap_State := ''consumed'', ap_ConsumedAt := Some now\<rparr>)"
      using ra by (simp add: row_ok_def)
    show "log_ok (Consumed i key digest # as_log s)" using ra lg sp by (auto simp: row_ok_def)
  qed
qed

lemma step_ok: "approval_step s t \<Longrightarrow> store_ok s \<Longrightarrow> store_ok t"
proof (induction rule: approval_step.induct)
  case (prune s now)
  let ?f = "\<lambda>a. if ap_State a = ''pending'' \<and> ap_ExpiresAt a \<le> now then a\<lparr>ap_State := ''expired''\<rparr> else a"
  show ?case
    by (rule maintained_ok [OF prune(2,1), where f = ?f]) (auto simp: same_state PruneAgentAccess_def)
next
  case (delete_policy s now policy)
  show ?case
    by (rule maintained_ok [OF delete_policy(2,1), where f = "\<lambda>a. a"]) (auto simp: delete_policy_rows_def)
next
  case (delete_key s now key)
  show ?case
    by (rule maintained_ok [OF delete_key(2,1), where f = "\<lambda>a. a"]) (auto simp: delete_key_rows_def)
next
  case (request s now i policy_exists r a created rows)
  show ?case by (rule request_ok [OF request(4,1,2,3)])
next
  case (decide s now memberships p i ok reason rows)
  show ?case by (rule decide_ok [OF decide(3,1,2)])
next
  case (consume s now i key digest a rows)
  show ?case by (rule consume_ok [OF consume(3,1,2)])
qed

lemma reachable_ok: "approval_reachable s \<Longrightarrow> store_ok s"
proof (induction rule: approval_reachable.induct)
  case start
  show ?case by (simp add: store_ok_def empty_store_def one_pending_def open_count_def)
qed (rule step_ok)

text \<open>The log read at one spending.\<close>

lemma log_consumed:
  "log_ok (xs @ Consumed i k d # ys) \<Longrightarrow>
     (\<exists>req by. Requested i k d req \<in> set ys \<and> Decided i by True \<in> set ys \<and> by \<noteq> req)
     \<and> (\<forall>by. Decided i by False \<notin> set ys) \<and> (\<forall>k d. Consumed i k d \<notin> set ys)"
proof (induction xs)
  case (Cons e xs)
  then show ?case by (cases e) auto
qed (auto simp: unspent_def)

section \<open>What the lists show\<close>

lemma managed_iff: "\<not> IsAdmin p \<Longrightarrow> CanManageProject p q \<longleftrightarrow> q \<in> set (managedProjects p)"
  by (auto simp: CanManageProject_def managedProjects_def admin_of_def list_ex_iff)

lemma visible_iff_decides:
  assumes "agentDecider p" and "\<not> IsAdmin p"
  shows "agentApprovalVisibility p memberships a \<longleftrightarrow> canDecideAgentApproval p (agentApproverTeams memberships [a]) a"
proof -
  have one: "approver_decides p (agentApproverTeams memberships [a]) (ap_Project a) x
      \<longleftrightarrow> apr_Kind x = ''project_admins'' \<and> ap_Project a \<in> set (managedProjects p)
         \<or> apr_Kind x = ''team'' \<and> apr_ID x \<in> set memberships \<or> apr_Kind x = ''identity'' \<and> apr_ID x = p_ID p"
    if "x \<in> set (ap_Approvers a)" for x
    using that managed_iff [OF assms(2), of "ap_Project a"] assms(2)
    by (auto simp: approver_decides_def agentApproverTeams_def)
  then show ?thesis
    using assms by (auto simp: agentApprovalVisibility_def canDecideAgentApproval_def list_ex_iff)
qed

end
