(* ===== verification/Agent_Gate_Facts.thy ===== *)
theory Agent_Gate_Facts
  imports Agent_Gate Agent_Policy_Facts Agent_Approval_Facts
begin

text \<open>
  What the gate guarantees of a request it lets through, in every scope the request names,
  and where its choice among equally restrictive scopes falls.
\<close>

section \<open>The most restrictive decision\<close>

lemma Restrictiveness_cases:
  "Restrictiveness d = 5 \<longleftrightarrow> d = ''block''" "Restrictiveness d = 4 \<longleftrightarrow> d = ''require_approval''"
  "Restrictiveness d \<le> 5" "0 \<le> Restrictiveness d"
  by (simp_all add: Restrictiveness_def)

lemma Restrictiveness_dominates:
  assumes "Restrictiveness v \<le> Restrictiveness w"
  shows "v = ''block'' \<Longrightarrow> w = ''block''" and "v = ''require_approval'' \<Longrightarrow> w = ''block'' \<or> w = ''require_approval''"
proof -
  assume "v = ''block''"
  then have "5 \<le> Restrictiveness w" using assms Restrictiveness_cases(1) [of v] by linarith
  then have "Restrictiveness w = 5" using Restrictiveness_cases(3) [of w] by linarith
  then show "w = ''block''" by (simp only: Restrictiveness_cases)
next
  assume "v = ''require_approval''"
  then have "4 \<le> Restrictiveness w" using assms Restrictiveness_cases(2) [of v] by linarith
  then have "Restrictiveness w = 5 \<or> Restrictiveness w = 4" using Restrictiveness_cases(3) [of w] by linarith
  then show "w = ''block'' \<or> w = ''require_approval''" by (simp only: Restrictiveness_cases)
qed

lemma most_restrictive_mono:
  "most_restrictive e p policies (rank, d, row) cs = Inr (k, d', row') \<Longrightarrow> rank \<le> k"
proof (induction cs arbitrary: rank d row)
  case (Cons c cs)
  then show ?case by (fastforce simp: bindE_Inr Let_def split: if_splits)
qed simp

lemma most_restrictive_bound:
  assumes "most_restrictive e p policies (rank, d, row) cs = Inr (k, d', row')" and "c \<in> set cs"
  shows "\<exists>ctx. ge_context e (p_ID p) (fst c) (snd c) = Inr ctx
    \<and> Restrictiveness (d_Decision (Evaluate (candidate_request p (ev_Operation row) (ev_Category row) ctx c) policies)) \<le> k"
  using assms
proof (induction cs arbitrary: rank d row)
  case (Cons a cs)
  obtain ctx where ctx: "ge_context e (p_ID p) (fst a) (snd a) = Inr ctx"
    using Cons.prems(1) by (auto simp: bindE_Inr)
  define cd where "cd = Evaluate (candidate_request p (ev_Operation row) (ev_Category row) ctx a) policies"
  obtain rank2 d2 row2 where run: "most_restrictive e p policies (rank2, d2, row2) cs = Inr (k, d', row')"
    and r2: "Restrictiveness (d_Decision cd) \<le> rank2" "ev_Operation row2 = ev_Operation row" "ev_Category row2 = ev_Category row"
  proof (cases "rank < Restrictiveness (d_Decision cd)")
    case True
    then show thesis
      using Cons.prems(1) ctx
      by (intro that [of "Restrictiveness (d_Decision cd)" cd
            "row\<lparr>ev_Project := fst a, ev_Environment := snd a, ev_TeamIDs := fst ctx, ev_ActiveIncident := snd ctx\<rparr>"])
        (simp_all add: cd_def Let_def)
  next
    case False
    then show thesis
      using Cons.prems(1) ctx by (intro that [of rank d row]) (simp_all add: cd_def Let_def)
  qed
  show ?case
  proof (cases "c = a")
    case True
    then show ?thesis using ctx most_restrictive_mono [OF run] r2 by (auto simp: cd_def)
  next
    case False
    then show ?thesis using Cons.IH [OF run] Cons.prems(2) r2 by simp
  qed
qed simp

lemma most_restrictive_from:
  assumes "most_restrictive e p policies (rank, d, row) cs = Inr (k, d', row')"
  shows "(k = rank \<and> d' = d) \<or> (\<exists>q. d' = Evaluate q policies \<and> k = Restrictiveness (d_Decision d'))"
  using assms
proof (induction cs arbitrary: rank d row)
  case (Cons a cs)
  obtain ctx where ctx: "ge_context e (p_ID p) (fst a) (snd a) = Inr ctx"
    using Cons.prems by (auto simp: bindE_Inr)
  show ?case using Cons.prems ctx by (simp add: Let_def split: if_splits) (drule Cons.IH; blast)+
qed simp

lemma gate_decision_run:
  assumes "gate_decision e p policies cs row = Inr (d, row')" and "policies \<noteq> []"
  obtains k where "most_restrictive e p policies (-1, allow_all, row) cs = Inr (k, d, row')"
  using assms by (auto simp: gate_decision_def bindE_Inr split: prod.splits)

lemma gate_decision_spec:
  assumes "gate_decision e p policies cs row = Inr (d, row')" and "c \<in> set cs" and "ge_context e (p_ID p) (fst c) (snd c) = Inr ctx"
  shows "let v = verdict (candidate_request p (ev_Operation row) (ev_Category row) ctx c) policies in
    (v = ''block'' \<longrightarrow> d_Decision d = ''block'') \<and> (v = ''require_approval'' \<longrightarrow> d_Decision d \<in> {''block'', ''require_approval''})"
proof (cases "policies = []")
  case True
  then show ?thesis by (simp add: verdict_def acts_def Let_def)
next
  case False
  obtain k where run: "most_restrictive e p policies (-1, allow_all, row) cs = Inr (k, d, row')"
    by (rule gate_decision_run [OF assms(1) False])
  have le: "Restrictiveness (verdict (candidate_request p (ev_Operation row) (ev_Category row) ctx c) policies) \<le> k"
    using most_restrictive_bound [OF run assms(2)] unfolding assms(3) Evaluate_verdict by blast
  then have "k \<noteq> -1" using Restrictiveness_cases(4) [of "verdict (candidate_request p (ev_Operation row) (ev_Category row) ctx c) policies"]
    by linarith
  then have k: "k = Restrictiveness (d_Decision d)" using most_restrictive_from [OF run] by metis
  show ?thesis unfolding Let_def using Restrictiveness_dominates [OF le [unfolded k]] by blast
qed

lemma gate_decision_context:
  assumes "gate_decision e p policies cs row = Inr (d, row')" and "c \<in> set cs" and "policies \<noteq> []"
  shows "\<exists>ctx. ge_context e (p_ID p) (fst c) (snd c) = Inr ctx"
proof -
  obtain k where "most_restrictive e p policies (-1, allow_all, row) cs = Inr (k, d, row')"
    by (rule gate_decision_run [OF assms(1,3)])
  from most_restrictive_bound [OF this assms(2)] show ?thesis by blast
qed

lemma gate_decision_policy:
  assumes "gate_decision e p policies cs row = Inr (d, row')" and "d_Decision d \<in> {''block'', ''require_approval''}"
  shows "d_Policy d \<noteq> None"
proof -
  have other: "d \<noteq> allow_all" using assms(2) by (auto simp: allow_all_def)
  have some: "policies \<noteq> []" using assms(1) other by (auto simp: gate_decision_def)
  obtain k where "most_restrictive e p policies (-1, allow_all, row) cs = Inr (k, d, row')"
    by (rule gate_decision_run [OF assms(1) some])
  from most_restrictive_from [OF this] other obtain q where q: "d = Evaluate q policies" by blast
  from Evaluate_policy [of q policies] assms(2) q show ?thesis by (metis option.distinct(1))
qed

text \<open>The scope whose decision the gate acts on: the first of the most restrictive ones.\<close>

definition scope_decision :: "gate_env \<Rightarrow> Principal \<Rightarrow> Published list \<Rightarrow> string \<Rightarrow> string \<Rightarrow> gateCandidate \<Rightarrow> Decision" where
  "scope_decision e p policies operation category c =
     Evaluate (candidate_request p operation category (case ge_context e (p_ID p) (fst c) (snd c) of Inr ctx \<Rightarrow> ctx) c) policies"

lemma most_restrictive_first:
  assumes "most_restrictive e p policies (rank, d, row) cs = Inr (k, d', row')"
    and "R = (\<lambda>c. Restrictiveness (d_Decision (scope_decision e p policies (ev_Operation row) (ev_Category row) c)))"
  shows "(k = rank \<and> d' = d \<and> row' = row \<and> (\<forall>c \<in> set cs. R c \<le> rank))
    \<or> (\<exists>i < length cs. d' = scope_decision e p policies (ev_Operation row) (ev_Category row) (cs ! i) \<and> k = R (cs ! i) \<and> rank < k
         \<and> ev_Project row' = fst (cs ! i) \<and> ev_Environment row' = snd (cs ! i)
         \<and> (\<forall>j < i. R (cs ! j) < k) \<and> (\<forall>j < length cs. R (cs ! j) \<le> k))"
  using assms
proof (induction cs arbitrary: rank d row)
  case (Cons a cs)
  obtain ctx where ctx: "ge_context e (p_ID p) (fst a) (snd a) = Inr ctx"
    using Cons.prems by (auto simp: bindE_Inr)
  have sd: "scope_decision e p policies (ev_Operation row) (ev_Category row) a
      = Evaluate (candidate_request p (ev_Operation row) (ev_Category row) ctx a) policies"
    by (simp add: scope_decision_def ctx)
  have Ra: "R a = Restrictiveness (d_Decision (Evaluate (candidate_request p (ev_Operation row) (ev_Category row) ctx a) policies))"
    by (simp only: Cons.prems(2) sd)
  show ?case
  proof (cases "rank < R a")
    case True
    define row2 where "row2 = row\<lparr>ev_Project := fst a, ev_Environment := snd a, ev_TeamIDs := fst ctx, ev_ActiveIncident := snd ctx\<rparr>"
    have "most_restrictive e p policies (R a, scope_decision e p policies (ev_Operation row) (ev_Category row) a, row2) cs = Inr (k, d', row')"
      using Cons.prems(1) ctx True by (simp add: Let_def sd row2_def Ra)
    note ih = Cons.IH [OF this]
    have ids: "ev_Operation row2 = ev_Operation row" "ev_Category row2 = ev_Category row" by (simp_all add: row2_def)
    from ih [unfolded ids, OF Cons.prems(2)] consider
      "k = R a" "d' = scope_decision e p policies (ev_Operation row) (ev_Category row) a" "row' = row2" "\<forall>c \<in> set cs. R c \<le> R a"
      | i where "i < length cs" "d' = scope_decision e p policies (ev_Operation row) (ev_Category row) (cs ! i)" "k = R (cs ! i)" "R a < k"
          "ev_Project row' = fst (cs ! i)" "ev_Environment row' = snd (cs ! i)" "\<forall>j < i. R (cs ! j) < k" "\<forall>j < length cs. R (cs ! j) \<le> k"
      by blast
    then show ?thesis
    proof cases
      case 1
      then show ?thesis using True by (intro disjI2 exI [of _ 0]) (auto simp: row2_def All_less_Suc2 nth_Cons split: nat.splits)
    next
      case (2 i)
      then show ?thesis using True by (intro disjI2 exI [of _ "Suc i"]) (auto simp: All_less_Suc2)
    qed
  next
    case False
    have "most_restrictive e p policies (rank, d, row) cs = Inr (k, d', row')"
      using Cons.prems(1) ctx False by (simp add: Let_def Ra)
    from Cons.IH [OF this Cons.prems(2)] consider "k = rank" "d' = d" "row' = row" "\<forall>c \<in> set cs. R c \<le> rank"
      | i where "i < length cs" "d' = scope_decision e p policies (ev_Operation row) (ev_Category row) (cs ! i)" "k = R (cs ! i)" "rank < k"
          "ev_Project row' = fst (cs ! i)" "ev_Environment row' = snd (cs ! i)" "\<forall>j < i. R (cs ! j) < k" "\<forall>j < length cs. R (cs ! j) \<le> k"
      by blast
    then show ?thesis
    proof cases
      case 1
      then show ?thesis using False by (intro disjI1) simp
    next
      case (2 i)
      then show ?thesis using False by (intro disjI2 exI [of _ "Suc i"]) (simp add: All_less_Suc2)
    qed
  qed
qed simp

section \<open>A request that passes\<close>

text \<open>The approval the request presents was spent on it, in this table.\<close>

definition spent_on :: "gate_env \<Rightarrow> gate_request \<Rightarrow> Principal \<Rightarrow> string \<Rightarrow> Approval list \<Rightarrow> Approval list \<Rightarrow> bool" where
  "spent_on e r p body rows rows' \<longleftrightarrow>
     (\<exists>a \<in> set rows. spendable (ge_now e) (gr_Approval r) (p_KeyID p) (gateDigest r p body) a)
     \<and> (\<exists>a. ConsumeAgentApproval (ge_now e) (gr_Approval r) (p_KeyID p) (gateDigest r p body) rows = Inr (a, rows'))"

text \<open>In a reachable table such an approval was asked for with this digest and granted by another human.\<close>

lemma spent_on_log:
  assumes "approval_reachable s" and "spent_on e r p body (as_rows s) rows'"
  shows "\<exists>req decider. Requested (gr_Approval r) (p_KeyID p) (gateDigest r p body) req \<in> set (as_log s)
    \<and> Decided (gr_Approval r) decider True \<in> set (as_log s) \<and> decider \<noteq> req
    \<and> (\<forall>d. Decided (gr_Approval r) d False \<notin> set (as_log s)) \<and> (\<forall>k d. Consumed (gr_Approval r) k d \<notin> set (as_log s))"
proof -
  obtain a where a: "a \<in> set (as_rows s)" "ap_ID a = gr_Approval r" "ap_KeyID a = p_KeyID p" "ap_Digest a = gateDigest r p body"
    "ap_State a = ''approved''"
    using assms(2) by (auto simp: spent_on_def spendable_def)
  have "row_ok (as_log s) a" using reachable_ok [OF assms(1)] a(1) by (simp add: store_ok_def)
  then show ?thesis using a(2-5) unfolding row_ok_def unspent_def by metis
qed

lemma hold_request_stops: "fst (hold_request e r p policies m body tooLarge row rows) \<noteq> Pass"
  by (auto simp: hold_request_def Let_def split: sum.splits)

lemma gate_act_Pass:
  assumes "gate_act e r p policies d body tooLarge f row rows = (Pass, effs, rows')"
    and "d_Decision d \<in> {''block'', ''require_approval''} \<Longrightarrow> d_Policy d \<noteq> None"
  shows "d_Decision d \<noteq> ''block''" and "d_Decision d = ''require_approval'' \<Longrightarrow> \<not> tooLarge \<and> spent_on e r p body rows rows'"
proof -
  show block: "d_Decision d \<noteq> ''block''"
    using assms by (auto simp: gate_act_def split: if_splits sum.splits option.splits)
  assume hold: "d_Decision d = ''require_approval''"
  have "gr_Approval r \<noteq> []"
  proof
    assume a: "gr_Approval r = []"
    obtain m where "d_Policy d = Some m" using assms(2) hold by auto
    then show False
      using assms(1) hold a hold_request_stops [of e r p policies m body tooLarge row rows]
      by (simp add: gate_act_def split: option.splits)
  qed
  then obtain a where c: "\<not> tooLarge" "ConsumeAgentApproval (ge_now e) (gr_Approval r) (p_KeyID p) (gateDigest r p body) rows = Inr (a, rows')"
    using assms(1) block by (auto simp: gate_act_def split: if_splits sum.splits prod.splits)
  then obtain b where "find (spendable (ge_now e) (gr_Approval r) (p_KeyID p) (gateDigest r p body)) rows = Some b"
    by (auto simp: ConsumeAgentApproval_def split: option.splits)
  from find_Some_prop [OF this] c show "\<not> tooLarge \<and> spent_on e r p body rows rows'"
    by (auto simp: spent_on_def)
qed

lemma gateBody_small: "gateBody raw = Inr (body, False) \<Longrightarrow> raw = Some body"
  by (auto simp: gateBody_def split: option.splits if_splits)

text \<open>The fields the gate reads: none of a body over the limit.\<close>

definition gate_fields :: "gate_request \<Rightarrow> gateFields" where
  "gate_fields r =
     (case gr_Body r of None \<Rightarrow> no_fields | Some body \<Rightarrow> if agentGateBodyLimit < len body then no_fields else gr_Fields r)"

lemma gateBody_fields: "gateBody (gr_Body r) = Inr (body, tooLarge) \<Longrightarrow> (if tooLarge then no_fields else gr_Fields r) = gate_fields r"
  by (auto simp: gateBody_def gate_fields_def split: option.splits if_splits)

lemma gate_Pass:
  assumes run: "gateAgentAccess e r p rows = (Pass, effs, rows')" and m: "p_CredentialType p = ''machine''"
    and o: "gate_operation e r = (segments, operation, category)" "operation \<noteq> ''getAgentApproval''"
  obtains policies licensed where "ge_load e = Inr (policies, licensed)"
    "licensed \<Longrightarrow> \<exists>candidates. gateScope e r segments (gate_fields r) p = Inr candidates
       \<and> (\<forall>c \<in> set candidates. (policies \<noteq> [] \<longrightarrow> (\<exists>ctx. ge_context e (p_ID p) (fst c) (snd c) = Inr ctx))
         \<and> (\<forall>ctx. ge_context e (p_ID p) (fst c) (snd c) = Inr ctx \<longrightarrow>
             verdict (candidate_request p operation category ctx c) policies \<noteq> ''block''
             \<and> (verdict (candidate_request p operation category ctx c) policies = ''require_approval'' \<longrightarrow>
                  (\<exists>body. gr_Body r = Some body \<and> spent_on e r p body rows rows'))))"
proof -
  obtain policies licensed where l: "ge_load e = Inr (policies, licensed)"
    using run m o by (simp add: gateAgentAccess_def Let_def split: sum.splits prod.splits)
  show thesis
  proof (rule that [OF l])
    assume lic: licensed
    have run1: "gate_licensed e r p policies segments (observed_row p operation category) rows = (Pass, effs, rows')"
      using run m o l lic by (simp add: gateAgentAccess_def Let_def)
    then obtain body tooLarge where b: "gateBody (gr_Body r) = Inr (body, tooLarge)"
      and run2: "gate_scopes e r p policies segments (observed_row p operation category) body tooLarge (gate_fields r) rows = (Pass, effs, rows')"
      using gateBody_fields by (simp add: gate_licensed_def split: sum.splits prod.splits)
    obtain cs where cs: "gateScope e r segments (gate_fields r) p = Inr cs"
      using run2 by (simp add: gate_scopes_def split: sum.splits)
    let ?row = "(observed_row p operation category)\<lparr>ev_Project := fst (hd cs), ev_Environment := snd (hd cs)\<rparr>"
    obtain d row where d: "gate_decision e p policies cs ?row = Inr (d, row)"
      and act: "gate_act e r p policies d body tooLarge (gate_fields r) (decided_row d row) rows = (Pass, effs, rows')"
      using run2 cs by (simp add: gate_scopes_def split: sum.splits prod.splits)
    have ids: "ev_Operation ?row = operation" "ev_Category ?row = category" by (simp_all add: observed_row_def)
    have nb: "d_Decision d \<noteq> ''block''" using gate_act_Pass(1) [OF act] gate_decision_policy [OF d] by blast
    have held: "\<not> tooLarge \<and> spent_on e r p body rows rows'" if "d_Decision d = ''require_approval''"
      using gate_act_Pass(2) [OF act _ that] gate_decision_policy [OF d] by blast
    have "(policies \<noteq> [] \<longrightarrow> (\<exists>ctx. ge_context e (p_ID p) (fst c) (snd c) = Inr ctx))
         \<and> (\<forall>ctx. ge_context e (p_ID p) (fst c) (snd c) = Inr ctx \<longrightarrow>
             verdict (candidate_request p operation category ctx c) policies \<noteq> ''block''
             \<and> (verdict (candidate_request p operation category ctx c) policies = ''require_approval'' \<longrightarrow>
                  (\<exists>body. gr_Body r = Some body \<and> spent_on e r p body rows rows')))" if c: "c \<in> set cs" for c
    proof (intro conjI impI allI)
      assume "policies \<noteq> []"
      from gate_decision_context [OF d c this] show "\<exists>ctx. ge_context e (p_ID p) (fst c) (snd c) = Inr ctx" .
    next
      fix ctx assume "ge_context e (p_ID p) (fst c) (snd c) = Inr ctx"
      note s = gate_decision_spec [OF d c this, unfolded Let_def ids]
      show "verdict (candidate_request p operation category ctx c) policies \<noteq> ''block''" using s nb by blast
      assume "verdict (candidate_request p operation category ctx c) policies = ''require_approval''"
      then have "d_Decision d = ''require_approval''" using s nb by blast
      from held [OF this] b show "\<exists>body. gr_Body r = Some body \<and> spent_on e r p body rows rows'"
        by (auto dest: gateBody_small)
    qed
    with cs show "\<exists>candidates. gateScope e r segments (gate_fields r) p = Inr candidates
       \<and> (\<forall>c \<in> set candidates. (policies \<noteq> [] \<longrightarrow> (\<exists>ctx. ge_context e (p_ID p) (fst c) (snd c) = Inr ctx))
         \<and> (\<forall>ctx. ge_context e (p_ID p) (fst c) (snd c) = Inr ctx \<longrightarrow>
             verdict (candidate_request p operation category ctx c) policies \<noteq> ''block''
             \<and> (verdict (candidate_request p operation category ctx c) policies = ''require_approval'' \<longrightarrow>
                  (\<exists>body. gr_Body r = Some body \<and> spent_on e r p body rows rows'))))" by blast
  qed
qed

end
