(* ===== verification/Agent_Life.thy ===== *)
theory Agent_Life
  imports Agent_Approval_Facts
begin

text \<open>
  What the approval table promises of one approval, as a machine of its own: an unused id is
  asked for, waits, is granted or refused by somebody else or lapses, and a granted one is
  spent; it may be forgotten at any point and its id is never used again. The statements on
  the table refine this machine: each of them moves the life of each id by at most one step.
\<close>

section \<open>The abstract machine\<close>

datatype stage = Waiting | Granted "string option" | Refused "string option" | Lapsed | Spent

text \<open>The key, the digest and the requester of a request stay with it for its life.\<close>

type_synonym requester = "string \<times> int list \<times> string"

datatype life = Unused | Live requester stage | Forgotten

inductive life_step :: "life \<Rightarrow> life \<Rightarrow> bool" where
  ask: "life_step Unused (Live r Waiting)"
| grant: "who \<noteq> snd (snd r) \<Longrightarrow> life_step (Live r Waiting) (Live r (Granted (Some who)))"
| refuse: "who \<noteq> snd (snd r) \<Longrightarrow> life_step (Live r Waiting) (Live r (Refused (Some who)))"
| lapse: "life_step (Live r Waiting) (Live r Lapsed)"
| spend: "life_step (Live r (Granted who)) (Live r Spent)"
| forget: "life_step (Live r st) Forgotten"

inductive_simps life_step_simps:
  "life_step Forgotten l" "life_step (Live r Spent) l" "life_step (Live r (Refused who)) l" "life_step (Live r Lapsed) l"

section \<open>The life of an id in a table\<close>

definition stage_of :: "Approval \<Rightarrow> stage" where
  "stage_of a =
     (if ap_State a = ''pending'' then Waiting
      else if ap_State a = ''approved'' then Granted (ap_DecidedBy a)
      else if ap_State a = ''denied'' then Refused (ap_DecidedBy a)
      else if ap_State a = ''expired'' then Lapsed
      else Spent)"

definition was_asked :: "string \<Rightarrow> approval_event list \<Rightarrow> bool" where
  "was_asked ident log = list_ex (\<lambda>e. case e of Requested i _ _ _ \<Rightarrow> i = ident | _ \<Rightarrow> False) log"

definition row_life :: "bool \<Rightarrow> Approval option \<Rightarrow> life" where
  "row_life used row =
     (case row of
        Some a \<Rightarrow> Live (ap_KeyID a, ap_Digest a, ap_IdentityID a) (stage_of a)
      | None \<Rightarrow> if used then Forgotten else Unused)"

definition life :: "approval_store \<Rightarrow> string \<Rightarrow> life" where
  "life s ident = row_life (was_asked ident (as_log s)) (find_row ident (as_rows s))"

abbreviation lives :: "life \<Rightarrow> life \<Rightarrow> bool" where
  "lives l l' \<equiv> l' = l \<or> life_step l l'"

lemma stages [simp]:
  "stage_of (a\<lparr>ap_State := ''expired''\<rparr>) = Lapsed"
  "stage_of (a\<lparr>ap_State := ''consumed'', ap_ConsumedAt := t\<rparr>) = Spent"
  "ap_State a = ''pending'' \<Longrightarrow> stage_of a = Waiting"
  "ap_State a = ''approved'' \<Longrightarrow> stage_of a = Granted (ap_DecidedBy a)"
  by (simp_all add: stage_of_def)

lemma was_asked_iff: "was_asked i log \<longleftrightarrow> (\<exists>k d by. Requested i k d by \<in> set log)"
  by (induction log) (auto simp: was_asked_def split: approval_event.splits)

lemma was_asked_Cons [simp]:
  "was_asked i (Requested j k d by # log) \<longleftrightarrow> j = i \<or> was_asked i log" "was_asked i (Maintained # log) = was_asked i log"
  "was_asked i (Decided j who ok # log) = was_asked i log" "was_asked i (Consumed j k d # log) = was_asked i log"
  by (simp_all add: was_asked_def)

section \<open>Statements\<close>

lemma find_row_append: "find_row i (xs @ [a]) = (case find_row i xs of Some b \<Rightarrow> Some b | None \<Rightarrow> if ap_ID a = i then Some a else None)"
  by (induction xs) (auto simp: find_row_def)

lemma find_row_mapped:
  assumes "distinct (map ap_ID rows)" and "\<And>a. ap_ID (f a) = ap_ID a"
  shows "find_row i (filter P (map f rows)) = (case find_row i rows of Some a \<Rightarrow> if P (f a) then Some (f a) else None | None \<Rightarrow> None)"
  using assms(1)
proof (induction rows)
  case (Cons a rows)
  have "find_row i rows = None" if "ap_ID a = i"
    using that Cons.prems unfolding find_row_def find_None_iff by (auto simp: image_iff)
  then show ?case using Cons assms(2) by (auto simp: find_row_def)
qed (simp add: find_row_def)

text \<open>A statement that changes rows one by one moves every life as it moves the row of that life.\<close>

lemma rows_live:
  assumes "store_ok s" and "\<And>a. ap_ID (f a) = ap_ID a" and "rows = filter P (map f (as_rows s))"
    and "was_asked i log' = was_asked i (as_log s)"
    and "\<And>a. a \<in> set (as_rows s) \<Longrightarrow> ap_ID a = i \<Longrightarrow> f a = a \<or> \<not> P (f a)
           \<or> lives (row_life True (Some a)) (row_life True (Some (f a)))"
  shows "lives (life s i) (life \<lparr>as_rows = rows, as_now = now, as_log = log'\<rparr> i)"
proof -
  have d: "distinct (map ap_ID (as_rows s))" using assms(1) by (simp add: store_ok_def)
  note find = find_row_mapped [OF d assms(2), of i P, folded assms(3)]
  show ?thesis
  proof (cases "find_row i (as_rows s)")
    case None
    then show ?thesis using find assms(4) by (simp add: life_def row_life_def)
  next
    case (Some a)
    then have a: "a \<in> set (as_rows s)" "ap_ID a = i" using find_Some_prop unfolding find_row_def by force+
    have "Requested (ap_ID a) (ap_KeyID a) (ap_Digest a) (ap_IdentityID a) \<in> set (as_log s)"
      using assms(1) a(1) by (simp add: store_ok_def row_ok_def)
    then have "was_asked i (as_log s)" unfolding was_asked_iff a(2) by blast
    then show ?thesis using find assms(4) assms(5) [OF a] Some by (auto simp: life_def row_life_def intro: life_step.intros)
  qed
qed

lemma lapsed_lives:
  "ap_State a = ''pending'' \<Longrightarrow> life_step (row_life True (Some a)) (row_life True (Some (a\<lparr>ap_State := ''expired''\<rparr>)))"
  by (simp add: row_life_def life_step.lapse)

lemma request_lives:
  assumes "store_ok s" and "\<forall>k d by. Requested ident k d by \<notin> set (as_log s)"
    and "RequestAgentApproval now ident policy_exists r (as_rows s) = Inr (a, created, rows)"
  shows "lives (life s i) (life \<lparr>as_rows = rows, as_now = now,
      as_log = (if created then Requested ident (ar_KeyID r) (ar_Digest r) (ar_IdentityID r) else Maintained) # as_log s\<rparr> i)"
proof -
  let ?f = "\<lambda>a. if (same_pending (ar_KeyID r) (ar_Digest r) a \<and> ap_ExpiresAt a \<le> now) \<and> ap_State a = ''pending'' then a\<lparr>ap_State := ''expired''\<rparr> else a"
  let ?rows = "expire_pending now (ar_KeyID r) (ar_Digest r) (as_rows s)"
  have f: "?rows = filter (\<lambda>_. True) (map ?f (as_rows s))"
    by (auto simp: expire_pending_def same_pending_def)
  have kept: "lives (life s i) (life \<lparr>as_rows = ?rows, as_now = now, as_log = Maintained # as_log s\<rparr> i)"
    by (rule rows_live [OF assms(1) _ f]) (simp_all add: lapsed_lives)
  show ?thesis
  proof (cases created)
    case False
    then show ?thesis using assms(3) kept by (auto simp: RequestAgentApproval_def Let_def split: option.splits if_splits)
  next
    case True
    then have rows: "rows = ?rows @ [new_row now ident r]"
      using assms(3) by (auto simp: RequestAgentApproval_def Let_def split: option.splits if_splits)
    have new: "ap_ID (new_row now ident r) = ident" "ap_State (new_row now ident r) = ''pending''" by (simp_all add: new_row_def)
    have find: "find_row i rows = (case find_row i ?rows of Some b \<Rightarrow> Some b | None \<Rightarrow> if i = ident then Some (new_row now ident r) else None)"
      by (auto simp: rows find_row_append new split: option.splits)
    have unused: "\<not> was_asked ident (as_log s)" using assms(2) by (simp add: was_asked_iff)
    have "find_row ident (as_rows s) = None"
    proof (rule ccontr)
      assume "find_row ident (as_rows s) \<noteq> None"
      then obtain b where "b \<in> set (as_rows s)" "ap_ID b = ident" using find_Some_prop unfolding find_row_def by fastforce
      then have "Requested ident (ap_KeyID b) (ap_Digest b) (ap_IdentityID b) \<in> set (as_log s)"
        using assms(1) by (auto simp: store_ok_def row_ok_def)
      then show False using assms(2) by blast
    qed
    then show ?thesis
    proof (cases "i = ident")
      case True
      have none: "find_row ident ?rows = None"
        using \<open>find_row ident (as_rows s) = None\<close> assms(1) unfolding f by (subst find_row_mapped) (simp_all add: store_ok_def)
      have "life s i = Unused" using unused True \<open>find_row ident (as_rows s) = None\<close> by (simp add: life_def row_life_def)
      moreover have "find_row i rows = Some (new_row now ident r)" using find none True by simp
      ultimately show ?thesis using new(2) by (simp add: life_def row_life_def life_step.ask)
    next
      case False
      then have "find_row i rows = find_row i ?rows" using find by (simp split: option.splits)
      then show ?thesis using kept \<open>created\<close> False by (simp add: life_def)
    qed
  qed
qed

lemma decide_lives:
  assumes "store_ok s" and "DecideAgentApproval now memberships p ident approve reason (as_rows s) = Inr rows"
  shows "lives (life s i) (life \<lparr>as_rows = rows, as_now = now, as_log = Decided ident (p_ID p) approve # as_log s\<rparr> i)"
proof -
  let ?d = "\<lambda>r. r\<lparr>ap_State := (if approve then ''approved'' else ''denied''), ap_DecidedBy := Some (p_ID p),
               ap_DecidedAt := Some now, ap_Reason := reason\<rparr>"
  have d: "distinct (map ap_ID (as_rows s))" using assms(1) by (simp add: store_ok_def)
  obtain b where b: "b \<in> set (as_rows s)" "ap_ID b = ident" "ap_State b = ''pending''"
    using decide_run(3) [OF assms(2)] by blast
  obtain c where c: "find_row ident (as_rows s) = Some c" "p_ID p \<noteq> ap_IdentityID c"
    using decide_run(2) [OF assms(2)] by blast
  then have "c \<in> set (as_rows s)" "ap_ID c = ident" using find_Some_prop unfolding find_row_def by force+
  then have only: "x = b \<and> p_ID p \<noteq> ap_IdentityID b" if "x \<in> set (as_rows s)" "ap_ID x = ident" for x
    using same_id [OF d] b c(2) that by metis
  have rows: "rows = filter (\<lambda>_. True) (map (\<lambda>r. if ap_ID r = ident then ?d r else r) (as_rows s))"
    using decide_run(1) [OF assms(2)] by (simp add: replace_row_def)
  show ?thesis
  proof (rule rows_live [OF assms(1) _ rows])
    fix x assume x: "x \<in> set (as_rows s)" "ap_ID x = i"
    show "(if ap_ID x = ident then ?d x else x) = x \<or> \<not> True
      \<or> lives (row_life True (Some x)) (row_life True (Some (if ap_ID x = ident then ?d x else x)))"
    proof (cases "ap_ID x = ident")
      case True
      then have "x = b" "p_ID p \<noteq> ap_IdentityID b" using only x(1) by blast+
      moreover have "stage_of (?d b) = (if approve then Granted (Some (p_ID p)) else Refused (Some (p_ID p)))" by (simp add: stage_of_def)
      ultimately have "life_step (row_life True (Some b)) (row_life True (Some (?d b)))"
        using b(3) by (simp add: row_life_def life_step.grant life_step.refuse)
      then show ?thesis using \<open>x = b\<close> True by simp
    qed simp
  qed simp_all
qed

lemma consume_lives:
  assumes "store_ok s" and "ConsumeAgentApproval now ident key digest (as_rows s) = Inr (a, rows)"
  shows "lives (life s i) (life \<lparr>as_rows = rows, as_now = now, as_log = Consumed ident key digest # as_log s\<rparr> i)"
proof -
  let ?c = "\<lambda>r. r\<lparr>ap_State := ''consumed'', ap_ConsumedAt := Some now\<rparr>"
  have rows: "rows = filter (\<lambda>_. True) (map (\<lambda>r. if spendable now ident key digest r then ?c r else r) (as_rows s))"
    using assms(2) by (auto simp: ConsumeAgentApproval_def Let_def split: option.splits)
  show ?thesis
    by (rule rows_live [OF assms(1) _ rows]) (auto simp: spendable_def row_life_def intro: life_step.spend)
qed

lemma prune_lives:
  assumes "store_ok s"
  shows "lives (life s i) (life \<lparr>as_rows = PruneAgentAccess now (as_rows s), as_now = now, as_log = Maintained # as_log s\<rparr> i)"
proof -
  let ?f = "\<lambda>a. if ap_ExpiresAt a \<le> now \<and> ap_State a = ''pending'' then a\<lparr>ap_State := ''expired''\<rparr> else a"
  have rows: "PruneAgentAccess now (as_rows s)
      = filter (\<lambda>a. \<not> (ap_State a \<noteq> ''pending'' \<and> ap_CreatedAt a < now - retention)) (map ?f (as_rows s))"
    unfolding PruneAgentAccess_def by (rule arg_cong [where f = "filter _"], rule map_cong) auto
  show ?thesis by (rule rows_live [OF assms _ rows]) (simp_all add: lapsed_lives)
qed

lemma delete_lives:
  assumes "store_ok s" and "rows = filter P (as_rows s)"
  shows "lives (life s i) (life \<lparr>as_rows = rows, as_now = now, as_log = Maintained # as_log s\<rparr> i)"
  by (rule rows_live [OF assms(1), where f = "\<lambda>a. a" and P = P]) (simp_all add: assms(2))

lemma step_lives: "approval_step s t \<Longrightarrow> store_ok s \<Longrightarrow> lives (life s i) (life t i)"
proof (induction rule: approval_step.induct)
  case (request s now ident policy_exists r a created rows)
  then show ?case by (intro request_lives)
next
  case (decide s now memberships p ident approve reason rows)
  then show ?case by (intro decide_lives)
next
  case (consume s now ident key digest a rows)
  then show ?case by (intro consume_lives)
next
  case (prune s now)
  then show ?case by (intro prune_lives)
next
  case (delete_policy s now policy)
  then show ?case by (intro delete_lives) (simp_all add: delete_policy_rows_def)
next
  case (delete_key s now key)
  then show ?case by (intro delete_lives) (simp_all add: delete_key_rows_def)
qed

end
