(* ===== verification/Agent_Properties.thy ===== *)
theory Agent_Properties
  imports Agent_Gate_Facts Agent_Life
begin

text \<open>
  The properties of agent access: policies, principals, approvals, operations and the gate that
  composes them. They are applied to a small installation: one policy that holds every
  production request, a machine key, the human who decides, and an approval that was asked for
  and granted.
\<close>

section \<open>A policy, a key and a human\<close>

definition prod_only :: Condition where
  "prod_only = \<lparr>cond_Field = ''environment'', cond_Operator = ''is_any_of'', cond_Values = [''prod'']\<rparr>"

definition holds_prod :: Document where
  "holds_prod = \<lparr>doc_SchemaVersion = 1, doc_Description = [], doc_When = [prod_only],
     doc_Then = \<lparr>th_Effect = ''require_approval'', th_Approvers = [\<lparr>apr_Kind = ''identity'', apr_ID = ''boss''\<rparr>],
       th_ApprovalTTLSeconds = 300, th_MaxCredentialTTLSeconds = 0\<rparr>,
     doc_Except = None\<rparr>"

definition hold_policy :: Published where
  "hold_policy = \<lparr>pub_ID = ''p1'', pub_Name = ''hold'', pub_Version = 1, pub_Status = ''enforced'', pub_Document = holds_prod\<rparr>"

lemma both_singletons: "{a} \<inter> {b} \<noteq> {} \<longleftrightarrow> a = b"
  by auto

lemma prod_conditions: "doc_When holds_prod = [prod_only]" "condition_holds prod_only r \<longleftrightarrow> rq_Environment r = ''prod''"
proof -
  have s: "subjects prod_only r = Some [rq_Environment r]"
    by (simp add: subjects_def prod_only_def)
  show "doc_When holds_prod = [prod_only]" by (simp add: holds_prod_def)
  have o: "(cond_Operator prod_only = ''is_none_of'') = False" "(cond_Operator prod_only = ''is_any_of'') = True"
    and v: "cond_Values prod_only = [''prod'']" by (simp_all add: prod_only_def)
  show "condition_holds prod_only r \<longleftrightarrow> rq_Environment r = ''prod''"
    unfolding condition_holds_def Let_def o v s option.sel list.set if_True if_False by (rule both_singletons)
qed

lemma prod_value: "checkValue ''is_any_of'' ''prod'' = Inr ()"
proof -
  have "\<not> has_control ''prod''" "visible (hd ''prod'')" "visible (last ''prod'')" by code_simp+
  then show ?thesis using TrimSpace_visible [of "''prod''"] by (simp add: checkValue_def)
qed

lemma holds_prod_valid: "Validate holds_prod = Inr ()"
proof -
  have "''environment'' \<in> set Agent_Policy.fields" by (simp add: Agent_Policy.fields_def)
  then have "check_conditions [] [prod_only] = Inr ()" by (simp add: prod_only_def prod_value)
  then show ?thesis unfolding Validate_def prod_conditions by (simp add: holds_prod_def RuneCount_def check_then_def)
qed

definition someone :: Principal where
  "someone = \<lparr>p_MFARequired = False, p_ID = ''dev'', p_Admin = False, p_Owner = False, p_Email = ''dev@example.org'',
     p_CredentialType = ''browser'', p_ProjectRoles = [\<lparr>pr_Permissions = [], pr_Project = ''shop'', pr_Role = ''developer''\<rparr>],
     p_HostPermissions = [], p_KeyID = [], p_Project = [], p_Environment = [], p_Application = [], p_Permissions = [''admin''],
     p_IdentityProject = [], p_IdentityEnvironment = [], p_IdentityPermissions = []\<rparr>"

definition boss :: Principal where
  "boss = someone\<lparr>p_ID := ''boss''\<rparr>"

definition agent_key :: Principal where
  "agent_key = someone\<lparr>p_CredentialType := ''machine'', p_KeyID := ''k1'', p_Project := ''shop'', p_Environment := ''prod'',
     p_Permissions := [''deployments:write'']\<rparr>"

section \<open>The gate's surroundings and a request\<close>

definition deploy_operation :: Operation where
  "deploy_operation = \<lparr>op_ID = ''deploy'', op_Method = ''POST'', op_Path = ''/applications/{id}/deploy'', op_Category = ''write'',
     op_CredentialRequired = True\<rparr>"

definition demo_gate :: gate_env where
  "demo_gate = \<lparr>ge_catalog = [deploy_operation], ge_load = Inr ([hold_policy], True), ge_scope = (\<lambda>_ _. Inr (Some (''shop'', ''prod''))),
     ge_context = (\<lambda>_ _ _. Inr ([], False)), ge_expiry = (\<lambda>_. None), ge_now = 20, ge_new_id = ''ap2'', ge_policy_exists = (\<lambda>_. True)\<rparr>"

definition deploy_request :: gate_request where
  "deploy_request = \<lparr>gr_Method = ''POST'', gr_EscapedPath = ''/api/v1/applications/a1/deploy'', gr_RawQuery = [],
     gr_QueryProject = [], gr_QueryEnvironment = [], gr_Workspace = [], gr_Approval = ''ap1'', gr_Body = Some ''go'', gr_Fields = no_fields\<rparr>"

section \<open>An approval that was granted\<close>

definition ask :: ApprovalRequest where
  "ask = \<lparr>ar_PolicyID = ''p1'', ar_PolicyVersion = 1, ar_KeyID = ''k1'', ar_IdentityID = ''dev'', ar_Operation = ''deploy'',
     ar_Category = ''write'', ar_Method = ''POST'', ar_Path = ''/api/v1/applications/a1/deploy'', ar_Project = ''shop'',
     ar_Environment = ''prod'', ar_Digest = gateDigest deploy_request agent_key ''go'',
     ar_Approvers = [\<lparr>apr_Kind = ''identity'', apr_ID = ''boss''\<rparr>], ar_TTL = 300 * second\<rparr>"

definition asked :: Approval where "asked = new_row 0 ''ap1'' ask"

definition granted :: Approval where
  "granted = asked\<lparr>ap_State := ''approved'', ap_DecidedBy := Some ''boss'', ap_DecidedAt := Some 10\<rparr>"

definition asked_store :: approval_store where
  "asked_store = \<lparr>as_rows = [asked], as_now = 0, as_log = [Requested ''ap1'' ''k1'' (ar_Digest ask) ''dev'']\<rparr>"

definition granted_store :: approval_store where
  "granted_store = \<lparr>as_rows = [granted], as_now = 10, as_log = [Decided ''ap1'' ''boss'' True, Requested ''ap1'' ''k1'' (ar_Digest ask) ''dev'']\<rparr>"

definition spent_store :: approval_store where
  "spent_store = \<lparr>as_rows = [granted\<lparr>ap_State := ''consumed'', ap_ConsumedAt := Some 20\<rparr>], as_now = 20,
     as_log = Consumed ''ap1'' ''k1'' (ar_Digest ask) # as_log granted_store\<rparr>"

lemma ask_fields [simp]: "ar_KeyID ask = ''k1''" "ar_IdentityID ask = ''dev''"
  "ar_Digest ask = gateDigest deploy_request agent_key ''go''" "ar_Approvers ask = [\<lparr>apr_Kind = ''identity'', apr_ID = ''boss''\<rparr>]"
  by (simp_all add: ask_def)

lemma asked_row [simp]: "ap_ID asked = ''ap1''" "ap_KeyID asked = ''k1''" "ap_IdentityID asked = ''dev''" "ap_State asked = ''pending''"
  "ap_Digest asked = gateDigest deploy_request agent_key ''go''" "ap_Approvers asked = [\<lparr>apr_Kind = ''identity'', apr_ID = ''boss''\<rparr>]"
  "ap_ExpiresAt asked = 300000000" "ap_Project asked = ''shop''" "ap_Reason asked = []"
  by (simp_all add: asked_def new_row_def agentApprovalTTL_def second_def ask_def)

lemma asked_reachable: "approval_reachable asked_store"
proof -
  have "approval_step empty_store asked_store"
    using approval_step.request [of empty_store 0 "''ap1''" True ask "scanAgentApproval 0 asked" True "[asked]"]
    by (simp add: empty_store_def RequestAgentApproval_def expire_pending_def open_count_def asked_def [symmetric] asked_store_def)
  from approval_reachable.step [OF approval_reachable.start this] show ?thesis .
qed

lemma granted_step: "approval_step asked_store granted_store"
  using approval_step.decide [of asked_store 10 "[]" boss "''ap1''" True "[]" "[granted]"]
  by (simp add: asked_store_def granted_store_def DecideAgentApproval_def boss_def someone_def agentDecider_def IsHuman_def
      agentApprovalFor_def find_row_def scanAgentApproval_def canDecideAgentApproval_def approver_decides_def replace_row_def granted_def
      RuneCount_def)

lemma granted_reachable: "approval_reachable granted_store"
  by (rule approval_reachable.step [OF asked_reachable granted_step])

lemma spent_reachable: "approval_reachable spent_store"
proof -
  have "approval_step granted_store spent_store"
    using approval_step.consume [of granted_store 20 "''ap1''" "''k1''" "ar_Digest ask" "granted\<lparr>ap_State := ''consumed'', ap_ConsumedAt := Some 20\<rparr>"
        "[granted\<lparr>ap_State := ''consumed'', ap_ConsumedAt := Some 20\<rparr>]"]
    by (simp add: granted_store_def spent_store_def ConsumeAgentApproval_def spendable_def granted_def)
  from approval_reachable.step [OF granted_reachable this] show ?thesis .
qed

section \<open>The request passes the gate once\<close>

lemma deploy_operation_resolved: "gate_operation demo_gate deploy_request = ([''applications'', ''a1'', ''deploy''], ''deploy'', ''write'')"
  by code_simp

lemma deploy_scope: "gateScope demo_gate deploy_request [''applications'', ''a1'', ''deploy''] (gate_fields deploy_request) agent_key
    = Inr [(''shop'', ''prod'')]"
  by code_simp

definition deploy_row :: Evaluation where
  "deploy_row = (observed_row agent_key ''deploy'' ''write'')\<lparr>ev_Project := ''shop'', ev_Environment := ''prod''\<rparr>"

definition deploy_decision :: "Decision \<times> Evaluation" where
  "deploy_decision = (case gate_decision demo_gate agent_key [hold_policy] [(''shop'', ''prod'')] deploy_row of Inr x \<Rightarrow> x)"

lemma deploy_decided:
  "gate_decision demo_gate agent_key [hold_policy] [(''shop'', ''prod'')] deploy_row = Inr deploy_decision"
  "d_Decision (fst deploy_decision) = ''require_approval''"
  by code_simp+

lemma granted_fields: "ap_ID granted = ''ap1''" "ap_KeyID granted = ''k1''" "ap_State granted = ''approved''"
  "ap_Digest granted = gateDigest deploy_request agent_key ''go''" "ap_ExpiresAt granted = 300000000"
  by (simp_all add: granted_def)

lemma deploy_passes:
  "\<exists>effs. gateAgentAccess demo_gate deploy_request agent_key [granted] = (Pass, effs, as_rows spent_store)"
proof -
  have env: "ge_load demo_gate = Inr ([hold_policy], True)" "ge_now demo_gate = 20" by (simp_all add: demo_gate_def)
  have req: "gr_Body deploy_request = Some ''go''" "gr_Approval deploy_request = ''ap1''" by (simp_all add: deploy_request_def)
  have key: "p_CredentialType agent_key = ''machine''" "p_KeyID agent_key = ''k1''" by (simp_all add: agent_key_def)
  have body: "gateBody (Some ''go'') = Inr (''go'', False)" by (simp add: gateBody_def agentGateBodyLimit_def)
  have f: "gate_fields deploy_request = gr_Fields deploy_request" by (simp add: gate_fields_def req agentGateBodyLimit_def)
  have act: "\<exists>effs. gate_act demo_gate deploy_request agent_key [hold_policy] (fst deploy_decision) ''go'' False (gr_Fields deploy_request) row
      [granted] = (Pass, effs, as_rows spent_store)" for row
    by (simp add: gate_act_def deploy_decided(2) env req key ConsumeAgentApproval_def spendable_def granted_fields spent_store_def)
  show ?thesis
    using act [of "decided_row (fst deploy_decision) (snd deploy_decision)"] deploy_decided(1)
    by (simp add: gateAgentAccess_def Let_def deploy_operation_resolved env req key gate_licensed_def body gate_scopes_def
        deploy_scope [unfolded f] deploy_row_def case_prod_beta)
qed

section \<open>Two scopes of one restrictiveness\<close>

text \<open>
  A second policy holds the development environment for another approver. A request that names
  \<open>prod\<close> in its body may also carry a query that names \<open>dev\<close>.
\<close>

definition hold_dev :: Published where
  "hold_dev = \<lparr>pub_ID = ''p2'', pub_Name = ''dev'', pub_Version = 1, pub_Status = ''enforced'',
     pub_Document = holds_prod\<lparr>doc_When := [prod_only\<lparr>cond_Values := [''dev'']\<rparr>],
       doc_Then := (doc_Then holds_prod)\<lparr>th_Approvers := [\<lparr>apr_Kind = ''identity'', apr_ID = ''peer''\<rparr>]\<rparr>\<rparr>\<rparr>"

definition named_twice :: gate_request where
  "named_twice = deploy_request\<lparr>gr_EscapedPath := ''/api/v1/compose'', gr_QueryProject := ''shop'', gr_QueryEnvironment := ''dev'',
     gr_Fields := no_fields\<lparr>gf_Project := ''shop'', gf_Environment := ''prod''\<rparr>\<rparr>"

definition roaming_key :: Principal where
  "roaming_key = agent_key\<lparr>p_Project := [], p_Environment := []\<rparr>"

lemma named_twice_scopes:
  "gateScope demo_gate named_twice [''compose''] (gr_Fields named_twice) roaming_key = Inr [(''shop'', ''dev''), (''shop'', ''prod''), ([], [])]"
  by code_simp

lemma named_twice_decided:
  "is_ok (gate_decision demo_gate roaming_key [hold_policy, hold_dev] [(''shop'', ''dev''), (''shop'', ''prod''), ([], [])] deploy_row)"
  "Restrictiveness (d_Decision (scope_decision demo_gate roaming_key [hold_policy, hold_dev] ''deploy'' ''write'' (''shop'', ''dev''))) = 4"
  "map_option m_PolicyID (d_Policy (scope_decision demo_gate roaming_key [hold_policy, hold_dev] ''deploy'' ''write'' (''shop'', ''dev''))) = Some ''p2''"
  "Restrictiveness (d_Decision (scope_decision demo_gate roaming_key [hold_policy, hold_dev] ''deploy'' ''write'' (''shop'', ''prod''))) = 4"
  "map_option m_PolicyID (d_Policy (scope_decision demo_gate roaming_key [hold_policy, hold_dev] ''deploy'' ''write'' (''shop'', ''prod''))) = Some ''p1''"
  "Restrictiveness (d_Decision (scope_decision demo_gate roaming_key [hold_policy, hold_dev] ''deploy'' ''write'' ([], []))) = 0"
  by code_simp+

section \<open>Policies\<close>

text \<open>
  C12. Matching a wildcard pattern always ends, and answers whether the value is the pattern
  with every star replaced by some text: the two-pointer walk with its single saved star is
  the textbook definition by cases.
\<close>

theorem MatchPattern_decides: "MatchPattern pat val = Some (glob pat val)"
  by (rule MatchPattern_glob)

text \<open>
  A policy that was accepted by validation matches a request exactly when each of its
  conditions holds read as sets: none of the listed values, one of them, or a value that the
  wildcard describes; so an empty subject meets only the negative operator.
\<close>

theorem valid_document_matches:
  assumes "Validate d = Inr u"
  shows "Matches d r \<longleftrightarrow> (\<forall>c \<in> set (doc_When d). condition_holds c r)"
  by (rule valid_Matches [OF assms])

theorem valid_document_matches_witness:
  "Matches holds_prod (candidate_request agent_key ''deploy'' ''write'' ([], False) (''shop'', ''prod''))
   \<and> \<not> Matches holds_prod (candidate_request agent_key ''deploy'' ''write'' ([], False) (''shop'', []))"
proof -
  note m = valid_document_matches [OF holds_prod_valid]
  show ?thesis
    unfolding m by (simp only: prod_conditions list.set ball_simps candidate_request_def Request.select_convs snd_conv) simp
qed

text \<open>
  C13. The decision on a request does not depend on the order in which the policies were
  published, and is the first that applies of: block, approval, incident exception, a monitor
  that would block, a monitor that would hold, allow.
\<close>

theorem Evaluate_order:
  assumes "set ps = set qs"
  shows "d_Decision (Evaluate r ps) = verdict r qs"
  using verdict_set [OF assms] by (simp only: Evaluate_verdict)

theorem Evaluate_order_witness:
  "d_Decision (Evaluate (candidate_request agent_key ''deploy'' ''write'' ([], False) (''shop'', ''prod'')) [hold_policy, hold_policy])
     = ''require_approval''"
proof -
  have "verdict (candidate_request agent_key ''deploy'' ''write'' ([], False) (''shop'', ''prod'')) [hold_policy] = ''require_approval''"
    by code_simp
  then show ?thesis using Evaluate_order [of "[hold_policy, hold_policy]" "[hold_policy]"] by simp
qed

text \<open>
  C14. An approval covers one request: two requests whose digests are taken over the same
  bytes have the same key and workspace, method up to case, path, query and body.
\<close>

theorem digest_identifies_request:
  assumes "request_bytes k m p q b = request_bytes k' m' p' q' b'"
    and "\<forall>s \<in> {k, m, p, q, b, k', m', p', q', b'}. len s < 256 ^ 8"
  shows "k = k' \<and> ToUpper m = ToUpper m' \<and> p = p' \<and> q = q' \<and> b = b'"
  by (rule request_bytes_inj [OF assms])

theorem digest_identifies_request_witness:
  "request_bytes ''k1'' ''POST'' ''/a'' ''bc'' [] \<noteq> request_bytes ''k1'' ''POST'' ''/ab'' ''c'' []"
proof
  assume e: "request_bytes ''k1'' ''POST'' ''/a'' ''bc'' [] = request_bytes ''k1'' ''POST'' ''/ab'' ''c'' []"
  have "\<forall>s \<in> {''k1'', ''POST'', ''/a'', ''bc'', [], ''k1'', ''POST'', ''/ab'', ''c'', []}. len s < 256 ^ 8"
    by simp
  from digest_identifies_request [OF e this] show False by simp
qed

section \<open>Principals\<close>

text \<open>
  C15. A machine key or a command-line login never exceeds the identity it belongs to: what it
  is allowed, the identity's own browser session is allowed as well.
\<close>

theorem delegation_never_exceeds:
  assumes "Allows p perm project env app"
  shows "Allows (session_of p) perm project env app"
  by (rule Allows_session [OF assms])

theorem delegation_never_exceeds_witness:
  "Allows (session_of agent_key) ''deployments:write'' ''shop'' ''prod'' ''web''"
proof -
  have "Allows agent_key ''deployments:write'' ''shop'' ''prod'' ''web''" by code_simp
  from delegation_never_exceeds [OF this] show ?thesis .
qed

text \<open>
  A machine key whose fields pass validation, without the admin permission, is allowed
  only what it was issued for: a permission it lists, in its project, environment and, when
  it names one, application; the host terminal is the one permission that has no scope.
\<close>

theorem key_confined_to_scope:
  assumes "validKeyFields name (p_Project p) (p_Environment p) (p_Application p) (p_Permissions p) = Inr u"
    and "''admin'' \<notin> set (p_Permissions p)" and "Allows p perm q e a"
  shows "perm \<in> set (p_Permissions p) \<and> (perm \<noteq> ''nodes:terminal'' \<longrightarrow>
    q = p_Project p \<and> e = p_Environment p \<and> (p_Application p \<noteq> [] \<longrightarrow> a = p_Application p))"
  by (rule key_confined [OF assms])

theorem key_confined_to_scope_witness:
  "Allows agent_key ''deployments:write'' ''shop'' ''prod'' ''web'' \<and> \<not> Allows agent_key ''deployments:write'' ''shop'' ''dev'' ''web''"
proof -
  have v: "validKeyFields ''ci'' (p_Project agent_key) (p_Environment agent_key) (p_Application agent_key) (p_Permissions agent_key) = Inr ()"
    and "''admin'' \<notin> set (p_Permissions agent_key)" and "Allows agent_key ''deployments:write'' ''shop'' ''prod'' ''web''"
    and "p_Environment agent_key = ''prod''"
    by code_simp+
  then show ?thesis using key_confined_to_scope [OF v, of "''deployments:write''" "''shop''" "''dev''" "''web''"] by auto
qed

text \<open>
  A credential limited to a project has no authority over the installation or its hosts,
  and manages applications, networks, repositories, databases and platforms of that project
  only.
\<close>

theorem scoped_credential_confined:
  assumes "p_Project p \<noteq> []"
  shows "\<not> IsAdmin p \<and> \<not> CanManageHostAccess p \<and> \<not> CanUseHostCredential p \<and> \<not> CanHostTerminal p node
    \<and> (CanManageApplication p q e n \<or> CanManageVirtualNetworks p q e \<or> CanBindGit p q e
        \<or> AllowsDatabase p q e w \<or> AllowsManagedPlatform p q e w \<longrightarrow> q = p_Project p)"
  using scoped_confined [OF assms] by blast

theorem scoped_credential_confined_witness:
  "AllowsDatabase agent_key ''shop'' ''prod'' True \<and> \<not> AllowsDatabase agent_key ''blog'' ''prod'' True
     \<and> \<not> IsAdmin agent_key \<and> \<not> CanHostTerminal agent_key ''node1''"
proof -
  have "p_Project agent_key \<noteq> []" "p_Project agent_key = ''shop''" "AllowsDatabase agent_key ''shop'' ''prod'' True" by code_simp+
  with scoped_credential_confined [OF this(1), of "''node1''" "''blog''" "''prod''"] show ?thesis by auto
qed

section \<open>Approvals\<close>

text \<open>
  C16. In every state that committed calls can reach, an approval was spent at most once, only
  after the very request was asked for and a human other than its identity approved it, and
  never after a denial.
\<close>

theorem approval_spent_once:
  assumes "approval_reachable s" and "as_log s = later @ Consumed i k d # earlier"
  shows "(\<exists>req decider. Requested i k d req \<in> set earlier \<and> Decided i decider True \<in> set earlier \<and> decider \<noteq> req)
    \<and> (\<forall>decider. Decided i decider False \<notin> set earlier) \<and> (\<forall>k d. Consumed i k d \<notin> set earlier)"
proof -
  have "log_ok (as_log s)" using reachable_ok [OF assms(1)] by (simp add: store_ok_def)
  then show ?thesis unfolding assms(2) by (rule log_consumed)
qed

theorem approval_spent_once_witness:
  "approval_reachable spent_store \<and> (\<forall>k d. Consumed ''ap1'' k d \<notin> set (as_log granted_store))
     \<and> (\<exists>decider. Decided ''ap1'' decider True \<in> set (as_log granted_store))"
proof -
  have "as_log spent_store = [] @ Consumed ''ap1'' ''k1'' (ar_Digest ask) # as_log granted_store" by (simp add: spent_store_def)
  from approval_spent_once [OF spent_reachable this] show ?thesis using spent_reachable by blast
qed

text \<open>
  In every reachable state ids are unique, a key has at most one pending approval of one
  request, and at most twenty that are open.
\<close>

theorem approvals_bounded:
  assumes "approval_reachable s"
  shows "distinct (map ap_ID (as_rows s)) \<and> one_pending (as_rows s) \<and> open_count (as_now s) key (as_rows s) \<le> 20"
  using reachable_ok [OF assms] by (simp add: store_ok_def)

theorem approvals_bounded_witness: "open_count (as_now asked_store) ''k1'' (as_rows asked_store) \<le> 20 \<and> as_rows asked_store \<noteq> []"
  using approvals_bounded [OF asked_reachable, of "''k1''"] by (simp add: asked_store_def)

text \<open>
  C17. The statements on the table of approvals refine the life of one approval: in every
  reachable state each committed call moves each id by at most one step of unused, waiting,
  granted or refused by somebody other than the requester, lapsed, spent and forgotten, and
  the key, the digest and the requester stay with it.
\<close>

theorem approvals_refine_life:
  assumes "approval_reachable s" and "approval_step s t"
  shows "life empty_store i = Unused \<and> (life t i = life s i \<or> life_step (life s i) (life t i))"
  using step_lives [OF assms(2) reachable_ok [OF assms(1)]] by (simp add: life_def row_life_def empty_store_def find_row_def was_asked_def)

theorem approvals_refine_life_witness:
  "life_step (life asked_store ''ap1'') (life granted_store ''ap1'')
     \<and> (\<exists>r who. life granted_store ''ap1'' = Live r (Granted (Some who)) \<and> who \<noteq> snd (snd r))"
proof -
  have l: "life granted_store ''ap1'' = Live (''k1'', ar_Digest ask, ''dev'') (Granted (Some ''boss''))"
    "life asked_store ''ap1'' = Live (''k1'', ar_Digest ask, ''dev'') Waiting"
    by (simp_all add: life_def row_life_def asked_store_def granted_store_def granted_def find_row_def)
  then show ?thesis using approvals_refine_life [OF asked_reachable granted_step, of "''ap1''"] by auto
qed

text \<open>
  The list of approvals shows a human who is no administrator exactly the approvals that
  this human may decide: the visibility clause of the query and the check on a decision agree.
\<close>

theorem visible_approvals_decidable:
  assumes "agentDecider p" and "\<not> IsAdmin p"
  shows "agentApprovalVisibility p memberships a \<longleftrightarrow> canDecideAgentApproval p (agentApproverTeams memberships [a]) a"
  by (rule visible_iff_decides [OF assms])

theorem visible_approvals_decidable_witness:
  "agentApprovalVisibility boss [] asked \<and> \<not> agentApprovalVisibility someone [] asked"
proof -
  have d: "agentDecider boss" "\<not> IsAdmin boss" "agentDecider someone" "\<not> IsAdmin someone" by code_simp+
  have "canDecideAgentApproval boss (agentApproverTeams [] [asked]) asked" "\<not> canDecideAgentApproval someone (agentApproverTeams [] [asked]) asked"
    using d(1) by (simp_all add: canDecideAgentApproval_def approver_decides_def boss_def someone_def)
  then show ?thesis using visible_approvals_decidable [OF d(1,2)] visible_approvals_decidable [OF d(3,4)] by blast
qed

section \<open>Operations and the gate\<close>

text \<open>
  A path within the limits resolves to an operation of the contract that fits it with the
  most literal segments, and to none only when none fits.
\<close>

theorem route_resolution:
  assumes "sum_list (map (\<lambda>part. length part + 1) actual) \<le> 4096" and "length actual \<le> 64"
  shows "case ResolveSegments catalog method actual of
      None \<Rightarrow> \<forall>op \<in> set catalog. \<not> fits method actual op
    | Some op \<Rightarrow> op \<in> set catalog \<and> fits method actual op
        \<and> (\<forall>o' \<in> set catalog. fits method actual o' \<longrightarrow> literal_count o' \<le> literal_count op)"
  by (rule resolved [OF assms])

theorem route_resolution_witness:
  "fits ''POST'' [''applications'', ''a1'', ''deploy''] deploy_operation"
proof -
  have "ResolveSegments [deploy_operation] ''POST'' [''applications'', ''a1'', ''deploy''] = Some deploy_operation" by code_simp
  then show ?thesis using route_resolution [of "[''applications'', ''a1'', ''deploy'']" "[deploy_operation]" "''POST''"] by simp
qed

text \<open>
  C18. What the gate promises: on a licensed installation a machine key's request passes only
  if, in every scope it names, no enforced policy blocks it, and if one holds it for approval
  then a human other than the asking identity approved this very request, no human denied it,
  and the approval had not been spent before.
\<close>

theorem gate_enforces_policies:
  assumes "gateAgentAccess e r p (as_rows s) = (Pass, effs, rows')" and "p_CredentialType p = ''machine''"
    and "gate_operation e r = (segments, operation, category)" and "operation \<noteq> ''getAgentApproval''"
    and "ge_load e = Inr (policies, True)" and "approval_reachable s"
  shows "\<exists>candidates. gateScope e r segments (gate_fields r) p = Inr candidates
    \<and> (\<forall>c \<in> set candidates. \<forall>ctx. ge_context e (p_ID p) (fst c) (snd c) = Inr ctx \<longrightarrow>
         verdict (candidate_request p operation category ctx c) policies \<noteq> ''block''
         \<and> (verdict (candidate_request p operation category ctx c) policies = ''require_approval'' \<longrightarrow>
              (\<exists>body req decider. gr_Body r = Some body
                \<and> Requested (gr_Approval r) (p_KeyID p) (gateDigest r p body) req \<in> set (as_log s)
                \<and> Decided (gr_Approval r) decider True \<in> set (as_log s) \<and> decider \<noteq> req
                \<and> (\<forall>d. Decided (gr_Approval r) d False \<notin> set (as_log s))
                \<and> (\<forall>k d. Consumed (gr_Approval r) k d \<notin> set (as_log s)))))"
proof (rule gate_Pass [OF assms(1-4)], goal_cases)
  case (1 ps licensed)
  then have ps: "ps = policies" and licensed using assms(5) by simp_all
  obtain cs where cs: "gateScope e r segments (gate_fields r) p = Inr cs" and each:
    "\<forall>c \<in> set cs. (ps \<noteq> [] \<longrightarrow> (\<exists>ctx. ge_context e (p_ID p) (fst c) (snd c) = Inr ctx))
         \<and> (\<forall>ctx. ge_context e (p_ID p) (fst c) (snd c) = Inr ctx \<longrightarrow>
             verdict (candidate_request p operation category ctx c) ps \<noteq> ''block''
             \<and> (verdict (candidate_request p operation category ctx c) ps = ''require_approval'' \<longrightarrow>
                  (\<exists>body. gr_Body r = Some body \<and> spent_on e r p body (as_rows s) rows')))"
    using 1(2) [OF \<open>licensed\<close>] by blast
  show ?case
    by (intro exI [of _ cs] conjI [OF cs] ballI allI impI) (use each ps spent_on_log [OF assms(6)] in meson)
qed

text \<open>The request of the demonstration passes with the granted approval.\<close>

theorem gate_enforces_policies_witness:
  "\<exists>effs rows. gateAgentAccess demo_gate deploy_request agent_key (as_rows granted_store) = (Pass, effs, rows)
     \<and> (\<exists>decider. decider \<noteq> ''dev'' \<and> Decided ''ap1'' decider True \<in> set (as_log granted_store))"
proof -
  obtain effs where run: "gateAgentAccess demo_gate deploy_request agent_key (as_rows granted_store) = (Pass, effs, as_rows spent_store)"
    using deploy_passes by (auto simp: granted_store_def)
  show ?thesis
    using gate_enforces_policies [OF run _ deploy_operation_resolved _ _ granted_reachable, of "[hold_policy]"] run
    by (auto simp: granted_store_def demo_gate_def agent_key_def)
qed

text \<open>
  When policies are published the gate acts on the scope that comes first among those of
  the most restrictive decision, scopes of the query before scopes of the body: its policy,
  its approvers and its project are those the approval is asked under.
\<close>

theorem gate_acts_on_first:
  assumes "gate_decision e p policies candidates row = Inr (d, row')" and "policies \<noteq> []" and "candidates \<noteq> []"
    and "R = (\<lambda>c. Restrictiveness (d_Decision (scope_decision e p policies (ev_Operation row) (ev_Category row) c)))"
  shows "\<exists>i < length candidates. d = scope_decision e p policies (ev_Operation row) (ev_Category row) (candidates ! i)
    \<and> ev_Project row' = fst (candidates ! i) \<and> ev_Environment row' = snd (candidates ! i)
    \<and> (\<forall>j < i. R (candidates ! j) < R (candidates ! i)) \<and> (\<forall>j < length candidates. R (candidates ! j) \<le> R (candidates ! i))"
proof -
  obtain k where run: "most_restrictive e p policies (-1, allow_all, row) candidates = Inr (k, d, row')"
    by (rule gate_decision_run [OF assms(1,2)])
  have "\<not> (\<forall>c \<in> set candidates. R c \<le> -1)"
    using Restrictiveness_cases(4) assms(3) unfolding assms(4) by (metis last_in_set linorder_not_le neg_less_0_iff_less order_less_le_trans zero_less_one)
  with most_restrictive_first [OF run assms(4)] show ?thesis by blast
qed

text \<open>
  The witness: the request needs an approval for production under one policy and for
  development under another; naming development in the query moves the approval to the
  approvers of development.
\<close>

theorem gate_acts_on_first_witness:
  "\<exists>d row. gate_decision demo_gate roaming_key [hold_policy, hold_dev] [(''shop'', ''dev''), (''shop'', ''prod''), ([], [])] deploy_row = Inr (d, row)
     \<and> map_option m_PolicyID (d_Policy d) = Some ''p2'' \<and> ev_Environment row = ''dev''
     \<and> map_option m_PolicyID (d_Policy (scope_decision demo_gate roaming_key [hold_policy, hold_dev] ''deploy'' ''write'' (''shop'', ''prod''))) = Some ''p1''"
proof -
  let ?cs = "[(''shop'', ''dev''), (''shop'', ''prod''), ([], [])]"
  have ids: "ev_Operation deploy_row = ''deploy''" "ev_Category deploy_row = ''write''" by (simp_all add: deploy_row_def observed_row_def)
  obtain d row where run: "gate_decision demo_gate roaming_key [hold_policy, hold_dev] ?cs deploy_row = Inr (d, row)"
    using named_twice_decided(1) by (force simp: is_ok_def split: sum.splits)
  let ?R = "\<lambda>c. Restrictiveness (d_Decision (scope_decision demo_gate roaming_key [hold_policy, hold_dev] ''deploy'' ''write'' c))"
  have ne: "[hold_policy, hold_dev] \<noteq> []" "?cs \<noteq> []" by simp_all
  obtain i where i: "i < length ?cs" "d = scope_decision demo_gate roaming_key [hold_policy, hold_dev] ''deploy'' ''write'' (?cs ! i)"
    "ev_Environment row = snd (?cs ! i)" "\<forall>j < i. ?R (?cs ! j) < ?R (?cs ! i)"
    using gate_acts_on_first [OF run ne refl] unfolding ids by blast
  have top: "?R (?cs ! 0) = 4" using named_twice_decided(2) by simp
  have "\<forall>j < length ?cs. ?R (?cs ! j) \<le> 4"
    by (simp only: list.size add_0 All_less_Suc2 One_nat_def add_Suc_right add_0_right nth_Cons_0 nth_Cons_Suc named_twice_decided(2,4,6)) simp
  then have "?R (?cs ! i) \<le> ?R (?cs ! 0)" unfolding top using i(1) by blast
  then have "i = 0" using i(4) by (meson leD neq0_conv)
  then show ?thesis using run i(2,3) named_twice_decided(3,5) by (intro exI [of _ d] exI [of _ row]) simp
qed

end
