(* ===== verification/Go_Prefix.thy ===== *)
theory Go_Prefix
  imports Actions_Target
begin

text \<open>
  What the access policy and the serverless gateway use of the standard library: prefixes of
  either family (net/netip), host and port (net), base64, and the lower case that the code then
  matches against ASCII patterns.
\<close>

text \<open>A shorter way to evaluate the trimming of a text that starts and ends with a printable character.\<close>

lemma TrimSpace_code [code]:
  "TrimSpace s = (if s \<noteq> [] \<and> visible (hd s) \<and> visible (last s) then s else TrimRightSpace (TrimLeftSpace s))"
  by (auto simp: TrimSpace_visible) (simp_all add: TrimSpace_def)

section \<open>Prefixes\<close>

type_synonym pfx = "addr \<times> nat"

fun zone :: "addr \<Rightarrow> string" where
  "zone (V4 w) = []"
| "zone (V6 gs z) = z"

fun width :: "addr \<Rightarrow> nat" where
  "width (V4 w) = 32"
| "width (V6 gs z) = 128"

fun number :: "addr \<Rightarrow> int" where
  "number (V4 w) = w"
| "number (V6 gs z) = foldl (\<lambda>n g. n * 65536 + g) 0 gs"

fun with_number :: "addr \<Rightarrow> int \<Rightarrow> addr" where
  "with_number (V4 w) n = V4 n"
| "with_number (V6 gs z) n = V6 (map (\<lambda>i. n div 2 ^ (16 * i) mod 65536) [7, 6, 5, 4, 3, 2, 1, 0]) z"

definition ParsePrefix :: "string \<Rightarrow> pfx option" where
  "ParsePrefix s =
     (case LastCut s (CHR ''/'') of
        None \<Rightarrow> None
      | Some (a, b) \<Rightarrow>
          (case ParseAddr a of
             None \<Rightarrow> None
           | Some ip \<Rightarrow>
               if zone ip \<noteq> [] then None
               else if b = [] \<or> 1 < length b \<and> \<not> (49 \<le> code (hd b) \<and> code (hd b) \<le> 57) then None
               else
                 (case read_digits 0 b of
                    None \<Rightarrow> None
                  | Some n \<Rightarrow> if n \<le> int (width ip) then Some (ip, nat n) else None)))"

definition network_of :: "addr \<Rightarrow> nat \<Rightarrow> int" where
  "network_of a bits = number a div 2 ^ (width a - bits)"

definition MaskedPrefix :: "pfx \<Rightarrow> pfx" where
  "MaskedPrefix p = (with_number (fst p) (network_of (fst p) (snd p) * 2 ^ (width (fst p) - snd p)), snd p)"

definition PrefixContains :: "pfx \<Rightarrow> addr \<Rightarrow> bool" where
  "PrefixContains p a \<longleftrightarrow> zone a = [] \<and> width (fst p) = width a \<and> network_of (fst p) (snd p) = network_of a (snd p)"

definition Overlaps :: "pfx \<Rightarrow> pfx \<Rightarrow> bool" where
  "Overlaps p q \<longleftrightarrow> p = q \<or> width (fst p) = width (fst q)
     \<and> (let bits = min (snd p) (snd q) in bits = 0 \<or> network_of (fst p) bits = network_of (fst q) bits)"

text \<open>An IPv4 address mapped into IPv6 is printed with its IPv4 part.\<close>

definition AddrString :: "addr \<Rightarrow> string" where
  "AddrString a =
     (case (a, Unmap a) of
        (V6 _ z, V4 w) \<Rightarrow> ''::ffff:'' @ addr4_string w @ (if z = [] then [] else CHR ''%'' # z)
      | _ \<Rightarrow> addr_string a)"

definition PrefixString :: "pfx \<Rightarrow> string" where
  "PrefixString p = AddrString (fst p) @ CHR ''/'' # Itoa (int (snd p))"

definition IsLoopback :: "addr \<Rightarrow> bool" where
  "IsLoopback a =
     (case Unmap a of
        V4 w \<Rightarrow> w div 2 ^ 24 = 127
      | V6 gs _ \<Rightarrow> gs = [0, 0, 0, 0, 0, 0, 0, 1])"

section \<open>Host and port\<close>

text \<open>\<open>net.SplitHostPort\<close>, \<open>None\<close> for its errors.\<close>

definition SplitHostPort :: "string \<Rightarrow> (string \<times> string) option" where
  "SplitHostPort hp =
     (case LastCut hp (CHR '':'') of
        None \<Rightarrow> None
      | Some (h, port) \<Rightarrow>
          if HasPrefix hp ''['' then
            (case Cut (tl hp) (CHR '']'') of
               (inner, rest, found) \<Rightarrow>
                 if \<not> found \<or> rest \<noteq> CHR '':'' # port \<or> CHR ''['' \<in> set inner
                    \<or> CHR ''['' \<in> set port \<or> CHR '']'' \<in> set port
                 then None else Some (inner, port))
          else if CHR '':'' \<in> set h \<or> CHR ''['' \<in> set hp \<or> CHR '']'' \<in> set hp then None
          else Some (h, port))"

definition JoinHostPort :: "string \<Rightarrow> string \<Rightarrow> string" where
  "JoinHostPort host port =
     (if CHR '':'' \<in> set host then CHR ''['' # host @ '']:'' @ port else host @ CHR '':'' # port)"

section \<open>Base64\<close>

definition b64_value :: "char \<Rightarrow> int option" where
  "b64_value c =
     (if is_upper c then Some (int (code c) - 65)
      else if is_lower c then Some (int (code c) - 71)
      else if is_digit c then Some (int (code c) + 4)
      else if c = CHR ''+'' then Some 62
      else if c = CHR ''/'' then Some 63
      else None)"

fun b64_groups :: "string \<Rightarrow> int list option" where
  "b64_groups [] = Some []"
| "b64_groups (a # b # c # d # rest) =
     (case (b64_value a, b64_value b) of
        (Some x, Some y) \<Rightarrow>
          if c = CHR ''='' then (if d = CHR ''='' \<and> rest = [] then Some [x * 4 + y div 16] else None)
          else
            (case b64_value c of
               None \<Rightarrow> None
             | Some z \<Rightarrow>
                 if d = CHR ''='' then (if rest = [] then Some [x * 4 + y div 16, y mod 16 * 16 + z div 4] else None)
                 else
                   (case (b64_value d, b64_groups rest) of
                      (Some w, Some bs) \<Rightarrow> Some ((x * 4 + y div 16) # (y mod 16 * 16 + z div 4) # (z mod 4 * 64 + w) # bs)
                    | _ \<Rightarrow> None))
      | _ \<Rightarrow> None)"
| "b64_groups _ = None"

text \<open>\<open>base64.StdEncoding.DecodeString\<close> skips line ends.\<close>

definition b64_decode :: "string \<Rightarrow> int list option" where
  "b64_decode s = b64_groups (filter (\<lambda>c. c \<noteq> CR \<and> c \<noteq> LF) s)"

definition b64_char :: "int \<Rightarrow> char" where
  "b64_char n =
     (if n < 26 then char_of (nat (n + 65)) else if n < 52 then char_of (nat (n + 71))
      else if n < 62 then char_of (nat (n - 4)) else if n = 62 then CHR ''+'' else CHR ''/'')"

fun b64_encode :: "int list \<Rightarrow> string" where
  "b64_encode [] = []"
| "b64_encode [x] = [b64_char (x div 4), b64_char (x mod 4 * 16), CHR ''='', CHR ''='']"
| "b64_encode [x, y] = [b64_char (x div 4), b64_char (x mod 4 * 16 + y div 16), b64_char (y mod 16 * 4), CHR ''='']"
| "b64_encode (x # y # z # rest) =
     b64_char (x div 4) # b64_char (x mod 4 * 16 + y div 16) # b64_char (y mod 16 * 4 + z div 64) # b64_char (z mod 64) # b64_encode rest"

section \<open>Lower case\<close>

text \<open>
  \<open>strings.ToLower\<close> as far as the result is ASCII: two letters outside ASCII, the Kelvin sign
  and the dotted capital I, have an ASCII lower case. Other letters outside ASCII are left;
  every caller refuses them afterwards.
\<close>

fun ToLowerText :: "string \<Rightarrow> string" where
  "ToLowerText [] = []"
| "ToLowerText (c # s) =
     (if map code (take 3 (c # s)) = [226, 132, 170] then CHR ''k'' # ToLowerText (drop 2 s)
      else if map code (take 2 (c # s)) = [196, 176] then CHR ''i'' # ToLowerText (drop 1 s)
      else to_lower_char c # ToLowerText s)"

lemma prefix_examples:
  "map_option PrefixString (ParsePrefix ''2001:db8::/32'') = Some ''2001:db8::/32''"
  "map_option (\<lambda>p. PrefixString (MaskedPrefix p)) (ParsePrefix ''2001:db8:1:2::9/40'') = Some ''2001:db8::/40''"
  "map_option PrefixString (ParsePrefix ''::ffff:10.0.0.0/104'') = Some ''::ffff:10.0.0.0/104''"
  "ParsePrefix ''10.0.0.0/33'' = None" "ParsePrefix ''10.0.0.0/08'' = None"
  by code_simp+

lemma base64_example: "map_option b64_encode (b64_decode ''aGVsbG8='') = Some ''aGVsbG8=''"
  by code_simp

lemma host_port_examples:
  "SplitHostPort ''[::1]:80'' = Some (''::1'', ''80'')" "SplitHostPort ''a:b:1'' = None" "SplitHostPort ''host:51820'' = Some (''host'', ''51820'')"
  by code_simp+

end
