(* ===== verification/Serverless_Gateway.thy ===== *)
theory Serverless_Gateway
  imports Spec_Types Go_Prefix
begin

text \<open>
  The gateway in front of serverless services (internal/serverless/gateway.go): it routes a
  request by host, wakes a sleeping service, bounds the requests a service handles at once and
  puts idle services to sleep. Requests, the refresh loop and the sleep loop run concurrently;
  the model is a machine whose events are the pieces of code between two points at which a
  goroutine may block. Channels are flags and counters: the gate of an entry, the two
  transition slots, the 128 request slots and the single refresh.

  The runtime's answers (routes, validation, waking, sleeping) and the times are carried by the
  events. An entry is a pointer in the code, and requests keep theirs when the table is
  refreshed, so entries live in a heap that only grows.
\<close>

section \<open>Routes and entries\<close>

record IdleHTTPService =
  it_ApplicationID :: string
  it_Project :: string
  it_Environment :: string
  it_Service :: string
  it_Revision :: int
  it_Hosts :: "string list"

record Route =
  rt_Target :: IdleHTTPService
  rt_Backend :: string
  rt_Settings :: Serverless

record entry =
  en_route :: Route
  en_gate :: bool
  en_active :: int
  en_awake :: bool
  en_sleeping :: bool
  en_last :: int

definition key :: "Route \<Rightarrow> string" where
  "key r = it_ApplicationID (rt_Target r) @ ''/'' @ it_Service (rt_Target r)"

definition host :: "string \<Rightarrow> string" where
  "host raw0 =
     (let raw = ToLower raw0;
          h = (case SplitHostPort raw of Some (h, _) \<Rightarrow> h | None \<Rightarrow> raw) in
      if HasSuffix h ''.'' then butlast h else h)"

definition valid_route :: "Route \<Rightarrow> bool" where
  "valid_route r =
     (case Parse_url (rt_Backend r) of
        None \<Rightarrow> False
      | Some u \<Rightarrow> url_Scheme u = ''http'' \<and> \<not> url_HasUser u \<and> is_IP (fst (splitHostPort (url_Host u)))
          \<and> length (it_Hosts (rt_Target r)) \<le> 64
          \<and> 1 \<le> sl_MaxConcurrency (rt_Settings r) \<and> sl_MaxConcurrency (rt_Settings r) \<le> 64)"

text \<open>A client chain that may be passed on: at most eight addresses in 512 bytes.\<close>

definition validForwardedFor :: "string \<Rightarrow> bool" where
  "validForwardedFor chain =
     (if 512 < length chain \<or> chain = [] then False
      else let parts = Split (CHR '','') chain in
        length parts \<le> 8 \<and> list_all (\<lambda>part. is_IP (TrimSpace part)) parts)"

section \<open>The state of the gateway\<close>

text \<open>Where a request stands. Numbers are positions in the heap of entries.\<close>

datatype phase =
    Looking string int
  | Refreshing string int
  | Relooking string int
  | Validating nat
  | AtGate nat
  | AtTransition nat
  | Waking nat
  | Rechecking nat
  | Forwarding nat
  | Leaving nat

datatype caller = ByRequest nat | ByLoop

record gateway =
  gw_now :: int
  gw_heap :: "entry list"
  gw_routes :: "(string \<times> nat) list"
  gw_entries :: "(string \<times> nat) list"
  gw_refreshed :: int
  gw_refresh :: "caller option"
  gw_slots :: int
  gw_transitions :: int
  gw_requests :: "(nat \<times> phase) list"
  gw_visit :: "nat list"
  gw_sleeper :: "nat option"
  gw_answers :: "(nat \<times> int) list"

definition nanosecond :: int where "nanosecond = 1"
definition seconds :: int where "seconds = 1000000000 * nanosecond"

text \<open>\<open>New\<close>; the zero time of \<open>refreshed\<close> is any time long past.\<close>

definition New :: "int \<Rightarrow> gateway" where
  "New now = \<lparr>gw_now = now, gw_heap = [], gw_routes = [], gw_entries = [], gw_refreshed = now - 3600 * seconds,
     gw_refresh = None, gw_slots = 0, gw_transitions = 0, gw_requests = [], gw_visit = [], gw_sleeper = None, gw_answers = []\<rparr>"

section \<open>Refreshing the routing table\<close>

definition fresh_entry :: "int \<Rightarrow> Route \<Rightarrow> entry" where
  "fresh_entry now r = \<lparr>en_route = r, en_gate = False, en_active = 0, en_awake = False, en_sleeping = False, en_last = now\<rparr>"

text \<open>The entry of a route: the known one unless its revision or backend changed.\<close>

definition entry_for :: "gateway \<Rightarrow> entry list \<Rightarrow> Route \<Rightarrow> nat \<times> entry list" where
  "entry_for g heap r =
     (case map_of (gw_entries g) (key r) of
        Some v \<Rightarrow>
          if it_Revision (rt_Target (en_route (gw_heap g ! v))) \<noteq> it_Revision (rt_Target r)
             \<or> rt_Backend (en_route (gw_heap g ! v)) \<noteq> rt_Backend r
          then (length heap, heap @ [fresh_entry (gw_now g) r]) else (v, heap)
      | None \<Rightarrow> (length heap, heap @ [fresh_entry (gw_now g) r]))"

fun add_hosts :: "nat \<Rightarrow> string list \<Rightarrow> (string \<times> nat) list \<Rightarrow> (string \<times> nat) list option" where
  "add_hosts v [] hosts = Some hosts"
| "add_hosts v (h # hs) hosts =
     (case map_of hosts (host h) of
        Some prior \<Rightarrow> if prior \<noteq> v then None else add_hosts v hs ((host h, v) # hosts)
      | None \<Rightarrow> add_hosts v hs ((host h, v) # hosts))"

fun refresh_routes ::
  "gateway \<Rightarrow> Route list \<Rightarrow> entry list \<times> (string \<times> nat) list \<times> (string \<times> nat) list
   \<Rightarrow> (entry list \<times> (string \<times> nat) list \<times> (string \<times> nat) list) option" where
  "refresh_routes g [] t = Some t"
| "refresh_routes g (r # rs) (heap, entries, hosts) =
     (if \<not> valid_route r then None
      else case entry_for g heap r of (v, heap') \<Rightarrow>
        (case add_hosts v (it_Hosts (rt_Target r)) hosts of
           None \<Rightarrow> None
         | Some hosts' \<Rightarrow> refresh_routes g rs (heap', (key r, v) # entries, hosts')))"

text \<open>The part of \<open>Refresh\<close> after \<open>Routes\<close> returned; \<open>None\<close> is an error.\<close>

definition install_routes :: "Route list option \<Rightarrow> gateway \<Rightarrow> gateway option" where
  "install_routes outcome g =
     (case outcome of
        None \<Rightarrow> None
      | Some routes \<Rightarrow>
          if 512 < length routes then None
          else map_option (\<lambda>(heap, entries, hosts).
                 g\<lparr>gw_heap := heap, gw_entries := entries, gw_routes := hosts, gw_refreshed := gw_now g\<rparr>)
               (refresh_routes g routes (gw_heap g, [], [])))"

section \<open>Requests\<close>

definition set_phase :: "nat \<Rightarrow> phase \<Rightarrow> gateway \<Rightarrow> gateway" where
  "set_phase rid p g = g\<lparr>gw_requests := map (\<lambda>(r, q). if r = rid then (r, p) else (r, q)) (gw_requests g)\<rparr>"

text \<open>The handler returns: its slot is freed.\<close>

definition answer :: "nat \<Rightarrow> int \<Rightarrow> gateway \<Rightarrow> gateway" where
  "answer rid status g =
     g\<lparr>gw_requests := filter (\<lambda>(r, q). r \<noteq> rid) (gw_requests g), gw_slots := gw_slots g - 1,
       gw_answers := (rid, status) # gw_answers g\<rparr>"

definition on_entry :: "nat \<Rightarrow> (entry \<Rightarrow> entry) \<Rightarrow> gateway \<Rightarrow> gateway" where
  "on_entry e f g = g\<lparr>gw_heap := (gw_heap g)[e := f (gw_heap g ! e)]\<rparr>"

abbreviation take_gate :: "nat \<Rightarrow> gateway \<Rightarrow> gateway" where
  "take_gate e \<equiv> on_entry e (\<lambda>v. v\<lparr>en_gate := True\<rparr>)"

abbreviation free_gate :: "nat \<Rightarrow> gateway \<Rightarrow> gateway" where
  "free_gate e \<equiv> on_entry e (\<lambda>v. v\<lparr>en_gate := False\<rparr>)"

definition add_transition :: "int \<Rightarrow> gateway \<Rightarrow> gateway" where
  "add_transition d g = g\<lparr>gw_transitions := gw_transitions g + d\<rparr>"

definition lookup :: "gateway \<Rightarrow> string \<Rightarrow> nat option \<times> bool" where
  "lookup g h = (map_of (gw_routes g) (host h), gw_now g - gw_refreshed g < 30 * seconds)"

definition admit :: "nat \<Rightarrow> nat \<Rightarrow> int \<Rightarrow> gateway \<Rightarrow> gateway" where
  "admit rid e clen g = (if 4 * 1048576 < clen then answer rid 413 g else set_phase rid (Validating e) g)"

definition looked_up :: "nat \<Rightarrow> string \<Rightarrow> int \<Rightarrow> gateway \<Rightarrow> gateway" where
  "looked_up rid h clen g =
     (case lookup g h of
        (Some e, True) \<Rightarrow> admit rid e clen g
      | _ \<Rightarrow>
          if gw_refresh g \<noteq> None \<or> gw_now g - gw_refreshed g < seconds then set_phase rid (Relooking h clen) g
          else (set_phase rid (Refreshing h clen) g)\<lparr>gw_refresh := Some (ByRequest rid)\<rparr>)"

definition looked_again :: "nat \<Rightarrow> string \<Rightarrow> int \<Rightarrow> gateway \<Rightarrow> gateway" where
  "looked_again rid h clen g =
     (case lookup g h of
        (_, False) \<Rightarrow> answer rid 503 g
      | (None, _) \<Rightarrow> answer rid 404 g
      | (Some e, _) \<Rightarrow> admit rid e clen g)"

section \<open>Events\<close>

datatype event =
    Tick int
  | Arrive nat string int
  | Look nat
  | Validated nat bool
  | GateTaken nat
  | GateTimeout nat
  | TransitionTaken nat
  | TransitionTimeout nat
  | Woken nat bool
  | Rechecked nat bool
  | Forwarded nat int
  | Left nat int
  | LoopRefresh
  | RefreshDone "Route list option"
  | SleepRound
  | SleepNext
  | SleepDone bool

text \<open>The gate was taken: the concurrency check, then straight on or to a transition slot.\<close>

definition gate_taken :: "nat \<Rightarrow> nat \<Rightarrow> gateway \<Rightarrow> gateway" where
  "gate_taken rid e g =
     (let v = gw_heap g ! e in
      if sl_MaxConcurrency (rt_Settings (en_route v)) \<le> en_active v then answer rid 429 g
      else take_gate e (set_phase rid (if en_awake v then Rechecking e else AtTransition e) g))"

definition woken :: "nat \<Rightarrow> nat \<Rightarrow> bool \<Rightarrow> gateway \<Rightarrow> gateway" where
  "woken rid e ok g =
     (let h = add_transition (-1) g in
      if ok then on_entry e (\<lambda>v. v\<lparr>en_awake := True, en_sleeping := False\<rparr>) (set_phase rid (Rechecking e) h)
      else free_gate e (answer rid 503 h))"

definition rechecked :: "nat \<Rightarrow> nat \<Rightarrow> bool \<Rightarrow> gateway \<Rightarrow> gateway" where
  "rechecked rid e ok g =
     (if ok then on_entry e (\<lambda>v. v\<lparr>en_gate := False, en_active := en_active v + 1\<rparr>) (set_phase rid (Forwarding e) g)
      else free_gate e (answer rid 503 g))"

text \<open>The deferred function of the handler: it runs under the gate and returns the slot.\<close>

definition left :: "nat \<Rightarrow> nat \<Rightarrow> int \<Rightarrow> gateway \<Rightarrow> gateway" where
  "left rid e status g =
     on_entry e (\<lambda>v. v\<lparr>en_active := en_active v - 1, en_last := gw_now g\<rparr>) (answer rid status g)"

definition refresh_done :: "Route list option \<Rightarrow> caller \<Rightarrow> gateway \<Rightarrow> gateway" where
  "refresh_done outcome c g =
     (let idle = (\<lambda>g. g\<lparr>gw_refresh := None\<rparr>) in
      case (install_routes outcome g, c) of
        (None, ByLoop) \<Rightarrow> idle g
      | (Some g', ByLoop) \<Rightarrow> idle g'
      | (None, ByRequest rid) \<Rightarrow> idle (answer rid 503 g)
      | (Some g', ByRequest rid) \<Rightarrow>
          (case map_of (gw_requests g) rid of
             Some (Refreshing h clen) \<Rightarrow> idle (set_phase rid (Relooking h clen) g')
           | _ \<Rightarrow> idle g'))"

definition may_sleep :: "int \<Rightarrow> entry \<Rightarrow> bool" where
  "may_sleep now v =
     (\<not> en_sleeping v \<and> en_active v = 0 \<and> sl_MinReplicas (rt_Settings (en_route v)) = 0
      \<and> sl_IdleSeconds (rt_Settings (en_route v)) * seconds \<le> now - en_last v)"

text \<open>One entry of \<open>SleepIdle\<close>: skipped when its gate is taken.\<close>

definition sleep_next :: "nat \<Rightarrow> gateway \<Rightarrow> gateway" where
  "sleep_next e g =
     (let v = gw_heap g ! e in
      if \<not> en_gate v \<and> may_sleep (gw_now g) v then take_gate e (g\<lparr>gw_sleeper := Some e\<rparr>) else g)"

definition slept :: "nat \<Rightarrow> bool \<Rightarrow> gateway \<Rightarrow> gateway" where
  "slept e ok g =
     (on_entry e (\<lambda>v. if ok then v\<lparr>en_awake := False, en_sleeping := True, en_gate := False\<rparr> else v\<lparr>en_gate := False\<rparr>) g)
       \<lparr>gw_sleeper := None\<rparr>"

text \<open>What an event does, \<open>None\<close> when the code cannot take it in this state.\<close>

fun gstep :: "event \<Rightarrow> gateway \<Rightarrow> gateway option" where
  "gstep (Tick d) g = (if 0 \<le> d then Some (g\<lparr>gw_now := gw_now g + d\<rparr>) else None)"
| "gstep (Arrive rid h clen) g =
     (if rid \<in> fst ` set (gw_requests g) then None
      else if 128 \<le> gw_slots g then Some (g\<lparr>gw_answers := (rid, 503) # gw_answers g\<rparr>)
      else Some (g\<lparr>gw_slots := gw_slots g + 1, gw_requests := (rid, Looking h clen) # gw_requests g\<rparr>))"
| "gstep (Look rid) g =
     (case map_of (gw_requests g) rid of
        Some (Looking h clen) \<Rightarrow> Some (looked_up rid h clen g)
      | Some (Relooking h clen) \<Rightarrow> Some (looked_again rid h clen g)
      | _ \<Rightarrow> None)"
| "gstep (Validated rid ok) g =
     (case map_of (gw_requests g) rid of
        Some (Validating e) \<Rightarrow> Some (if ok then set_phase rid (AtGate e) g else answer rid 503 g)
      | _ \<Rightarrow> None)"
| "gstep (GateTaken rid) g =
     (case map_of (gw_requests g) rid of
        Some (AtGate e) \<Rightarrow> if en_gate (gw_heap g ! e) then None else Some (gate_taken rid e g)
      | _ \<Rightarrow> None)"
| "gstep (GateTimeout rid) g =
     (case map_of (gw_requests g) rid of Some (AtGate e) \<Rightarrow> Some (answer rid 504 g) | _ \<Rightarrow> None)"
| "gstep (TransitionTaken rid) g =
     (case map_of (gw_requests g) rid of
        Some (AtTransition e) \<Rightarrow>
          if 2 \<le> gw_transitions g then None else Some (add_transition 1 (set_phase rid (Waking e) g))
      | _ \<Rightarrow> None)"
| "gstep (TransitionTimeout rid) g =
     (case map_of (gw_requests g) rid of Some (AtTransition e) \<Rightarrow> Some (free_gate e (answer rid 504 g)) | _ \<Rightarrow> None)"
| "gstep (Woken rid ok) g =
     (case map_of (gw_requests g) rid of Some (Waking e) \<Rightarrow> Some (woken rid e ok g) | _ \<Rightarrow> None)"
| "gstep (Rechecked rid ok) g =
     (case map_of (gw_requests g) rid of Some (Rechecking e) \<Rightarrow> Some (rechecked rid e ok g) | _ \<Rightarrow> None)"
| "gstep (Forwarded rid status) g =
     (case map_of (gw_requests g) rid of Some (Forwarding e) \<Rightarrow> Some (set_phase rid (Leaving e) g) | _ \<Rightarrow> None)"
| "gstep (Left rid status) g =
     (case map_of (gw_requests g) rid of
        Some (Leaving e) \<Rightarrow> if en_gate (gw_heap g ! e) then None else Some (left rid e status g)
      | _ \<Rightarrow> None)"
| "gstep LoopRefresh g =
     Some (if gw_refresh g \<noteq> None \<or> gw_now g - gw_refreshed g < seconds then g else g\<lparr>gw_refresh := Some ByLoop\<rparr>)"
| "gstep (RefreshDone outcome) g =
     (case gw_refresh g of None \<Rightarrow> None | Some c \<Rightarrow> Some (refresh_done outcome c g))"
| "gstep SleepRound g =
     (if gw_sleeper g \<noteq> None \<or> gw_visit g \<noteq> [] then None else Some (g\<lparr>gw_visit := map snd (gw_entries g)\<rparr>))"
| "gstep SleepNext g =
     (case (gw_sleeper g, gw_visit g) of
        (None, e # es) \<Rightarrow> Some (sleep_next e (g\<lparr>gw_visit := es\<rparr>))
      | _ \<Rightarrow> None)"
| "gstep (SleepDone ok) g =
     (case gw_sleeper g of None \<Rightarrow> None | Some e \<Rightarrow> Some (slept e ok g))"

fun grun :: "event list \<Rightarrow> gateway \<Rightarrow> gateway option" where
  "grun [] g = Some g"
| "grun (ev # evs) g = (case gstep ev g of None \<Rightarrow> None | Some g' \<Rightarrow> grun evs g')"

inductive greachable :: "gateway \<Rightarrow> bool" where
  start: "greachable (New now)"
| step: "greachable g \<Longrightarrow> gstep ev g = Some g' \<Longrightarrow> greachable g'"

end
