(* ===== verification/Serverless_Facts.thy ===== *)
theory Serverless_Facts
  imports Serverless_Gateway
begin

text \<open>
  The invariant of the gateway: channels hold what the requests in each phase took, an entry's
  counter is the number of requests it is serving and never exceeds its limit, and a service
  is put to sleep only when its entry serves no request. Below it, the way out of every
  reachable state.
\<close>

section \<open>Counting requests by phase\<close>

definition cnt :: "(phase \<Rightarrow> bool) \<Rightarrow> gateway \<Rightarrow> int" where
  "cnt P g = int (length (filter (\<lambda>(r, q). P q) (gw_requests g)))"

definition forwards :: "nat \<Rightarrow> phase \<Rightarrow> bool" where
  "forwards e q \<longleftrightarrow> q = Forwarding e \<or> q = Leaving e"

definition holds :: "nat \<Rightarrow> phase \<Rightarrow> bool" where
  "holds e q \<longleftrightarrow> q = AtTransition e \<or> q = Waking e"

definition rechecks :: "nat \<Rightarrow> phase \<Rightarrow> bool" where
  "rechecks e q \<longleftrightarrow> q = Rechecking e"

definition wakes :: "phase \<Rightarrow> bool" where
  "wakes q \<longleftrightarrow> (\<exists>e. q = Waking e)"

fun entry_of :: "phase \<Rightarrow> nat option" where
  "entry_of (Looking h n) = None" | "entry_of (Refreshing h n) = None" | "entry_of (Relooking h n) = None"
| "entry_of (Validating e) = Some e" | "entry_of (AtGate e) = Some e" | "entry_of (AtTransition e) = Some e"
| "entry_of (Waking e) = Some e" | "entry_of (Rechecking e) = Some e" | "entry_of (Forwarding e) = Some e"
| "entry_of (Leaving e) = Some e"

lemma forwards_simps [simp]:
  "forwards e (Looking h n) = False" "forwards e (Refreshing h n) = False" "forwards e (Relooking h n) = False"
  "forwards e (Validating x) = False" "forwards e (AtGate x) = False" "forwards e (AtTransition x) = False"
  "forwards e (Waking x) = False" "forwards e (Rechecking x) = False"
  "forwards e (Forwarding x) = (x = e)" "forwards e (Leaving x) = (x = e)"
  by (simp_all add: forwards_def)

lemma holds_simps [simp]:
  "holds e (Looking h n) = False" "holds e (Refreshing h n) = False" "holds e (Relooking h n) = False"
  "holds e (Validating x) = False" "holds e (AtGate x) = False" "holds e (AtTransition x) = (x = e)"
  "holds e (Waking x) = (x = e)" "holds e (Rechecking x) = False" "holds e (Forwarding x) = False" "holds e (Leaving x) = False"
  by (simp_all add: holds_def)

lemma rechecks_simps [simp]:
  "rechecks e (Looking h n) = False" "rechecks e (Refreshing h n) = False" "rechecks e (Relooking h n) = False"
  "rechecks e (Validating x) = False" "rechecks e (AtGate x) = False" "rechecks e (AtTransition x) = False"
  "rechecks e (Waking x) = False" "rechecks e (Rechecking x) = (x = e)" "rechecks e (Forwarding x) = False" "rechecks e (Leaving x) = False"
  by (auto simp: rechecks_def)

lemma wakes_simps [simp]:
  "wakes (Looking h n) = False" "wakes (Refreshing h n) = False" "wakes (Relooking h n) = False"
  "wakes (Validating x) = False" "wakes (AtGate x) = False" "wakes (AtTransition x) = False"
  "wakes (Waking x) = True" "wakes (Rechecking x) = False" "wakes (Forwarding x) = False" "wakes (Leaving x) = False"
  by (simp_all add: wakes_def)

definition unique :: "gateway \<Rightarrow> bool" where
  "unique g \<longleftrightarrow> distinct (map fst (gw_requests g))"

lemma map_other: "rid \<notin> fst ` set xs \<Longrightarrow> map (\<lambda>(r, q). if r = rid then (r, p) else (r, q)) xs = xs"
  by (induction xs) force+

lemma filter_other: "rid \<notin> fst ` set xs \<Longrightarrow> filter (\<lambda>(r, q). r \<noteq> rid) xs = xs"
  by (induction xs) force+

lemma cnt_set_phase:
  assumes "unique g" and "map_of (gw_requests g) rid = Some q"
  shows "cnt P (set_phase rid p g) = cnt P g - of_bool (P q) + of_bool (P p)"
proof -
  have "int (length (filter (\<lambda>(r, q). P q) (map (\<lambda>(r, q). if r = rid then (r, p) else (r, q)) xs)))
      = int (length (filter (\<lambda>(r, q). P q) xs)) - of_bool (P q) + of_bool (P p)"
    if "distinct (map fst xs)" and "map_of xs rid = Some q" for xs :: "(nat \<times> phase) list"
    using that by (induction xs) (auto simp: map_other simp del: filter_map length_filter_map split: if_splits)
  then show ?thesis using assms by (simp add: cnt_def set_phase_def unique_def del: filter_map length_filter_map)
qed

lemma cnt_answer:
  assumes "unique g" and "map_of (gw_requests g) rid = Some q"
  shows "cnt P (answer rid status g) = cnt P g - of_bool (P q)"
proof -
  have "int (length (filter (\<lambda>(r, q). P q) (filter (\<lambda>(r, q). r \<noteq> rid) xs))) = int (length (filter (\<lambda>(r, q). P q) xs)) - of_bool (P q)"
    if "distinct (map fst xs)" and "map_of xs rid = Some q" for xs :: "(nat \<times> phase) list"
    using that by (induction xs) (auto simp: filter_other simp del: filter_filter split: if_splits)
  then show ?thesis using assms by (simp add: cnt_def answer_def unique_def del: filter_filter)
qed

lemma cnt_frame [simp]:
  "cnt P (on_entry e f g) = cnt P g" "cnt P (add_transition d g) = cnt P g"
  "cnt P (g\<lparr>gw_refresh := x\<rparr>) = cnt P g" "cnt P (g\<lparr>gw_now := t\<rparr>) = cnt P g" "cnt P (g\<lparr>gw_visit := es\<rparr>) = cnt P g"
  "cnt P (g\<lparr>gw_sleeper := s\<rparr>) = cnt P g" "cnt P (g\<lparr>gw_answers := ans\<rparr>) = cnt P g"
  by (simp_all add: cnt_def on_entry_def add_transition_def)

lemma cnt_pos: "(rid, q) \<in> set (gw_requests g) \<Longrightarrow> P q \<Longrightarrow> 0 < cnt P g"
  by (auto simp: cnt_def filter_empty_conv)

lemma cnt_nonneg: "0 \<le> cnt P g"
  by (simp add: cnt_def)

lemma requests_frame [simp]:
  "gw_requests (on_entry e f g) = gw_requests g" "gw_requests (add_transition d g) = gw_requests g"
  "gw_heap (set_phase rid p g) = gw_heap g" "gw_heap (answer rid st g) = gw_heap g" "gw_heap (add_transition d g) = gw_heap g"
  "gw_transitions (set_phase rid p g) = gw_transitions g" "gw_transitions (answer rid st g) = gw_transitions g"
  "gw_transitions (on_entry e f g) = gw_transitions g" "gw_transitions (add_transition d g) = gw_transitions g + d"
  "gw_slots (set_phase rid p g) = gw_slots g" "gw_slots (on_entry e f g) = gw_slots g" "gw_slots (add_transition d g) = gw_slots g"
  "gw_slots (answer rid st g) = gw_slots g - 1"
  "gw_sleeper (set_phase rid p g) = gw_sleeper g" "gw_sleeper (answer rid st g) = gw_sleeper g"
  "gw_sleeper (on_entry e f g) = gw_sleeper g" "gw_sleeper (add_transition d g) = gw_sleeper g"
  "gw_routes (set_phase rid p g) = gw_routes g" "gw_routes (answer rid st g) = gw_routes g"
  "gw_routes (on_entry e f g) = gw_routes g" "gw_routes (add_transition d g) = gw_routes g"
  "gw_entries (set_phase rid p g) = gw_entries g" "gw_entries (answer rid st g) = gw_entries g"
  "gw_entries (on_entry e f g) = gw_entries g" "gw_entries (add_transition d g) = gw_entries g"
  "gw_visit (set_phase rid p g) = gw_visit g" "gw_visit (answer rid st g) = gw_visit g"
  "gw_visit (on_entry e f g) = gw_visit g" "gw_visit (add_transition d g) = gw_visit g"
  "gw_refresh (set_phase rid p g) = gw_refresh g" "gw_refresh (answer rid st g) = gw_refresh g"
  "gw_refresh (on_entry e f g) = gw_refresh g" "gw_refresh (add_transition d g) = gw_refresh g"
  by (simp_all add: on_entry_def add_transition_def set_phase_def answer_def)

lemma heap_on_entry [simp]:
  "length (gw_heap (on_entry e f g)) = length (gw_heap g)"
  "e < length (gw_heap g) \<Longrightarrow> gw_heap (on_entry e f g) ! x = (if x = e then f (gw_heap g ! e) else gw_heap g ! x)"
  by (simp_all add: on_entry_def nth_list_update)

section \<open>The invariant\<close>

definition ids_ok :: "gateway \<Rightarrow> bool" where
  "ids_ok g \<longleftrightarrow> unique g \<and> gw_slots g = int (length (gw_requests g)) \<and> gw_slots g \<le> 128"

text \<open>Every pointer is a position of the heap, and a request that refreshes is the one refreshing.\<close>

definition refs_ok :: "gateway \<Rightarrow> bool" where
  "refs_ok g \<longleftrightarrow> (\<forall>r q e. map_of (gw_requests g) r = Some q \<and> entry_of q = Some e \<longrightarrow> e < length (gw_heap g))
     \<and> (\<forall>h e. map_of (gw_routes g) h = Some e \<longrightarrow> e < length (gw_heap g))
     \<and> snd ` set (gw_entries g) \<subseteq> {..<length (gw_heap g)} \<and> set (gw_visit g) \<subseteq> {..<length (gw_heap g)}
     \<and> (\<forall>e. gw_sleeper g = Some e \<longrightarrow> e < length (gw_heap g))
     \<and> (\<forall>r. gw_refresh g = Some (ByRequest r) \<longleftrightarrow> (\<exists>h n. map_of (gw_requests g) r = Some (Refreshing h n)))"

definition transitions_ok :: "gateway \<Rightarrow> bool" where
  "transitions_ok g \<longleftrightarrow> gw_transitions g = cnt wakes g \<and> gw_transitions g \<le> 2"

definition limit :: "entry \<Rightarrow> int" where
  "limit v = sl_MaxConcurrency (rt_Settings (en_route v))"

text \<open>
  An entry, with how many requests it forwards, how many hold its gate to wake it and to be
  checked again, and whether the sleep loop holds it.
\<close>

definition entry_inv :: "entry \<Rightarrow> int \<Rightarrow> int \<Rightarrow> int \<Rightarrow> bool \<Rightarrow> bool" where
  "entry_inv v f h w s \<longleftrightarrow>
     en_active v = f \<and> f \<le> limit v \<and> 1 \<le> limit v \<and> limit v \<le> 64 \<and> h + w + of_bool s = of_bool (en_gate v)
     \<and> (0 < h + w \<longrightarrow> f < limit v) \<and> (0 < w \<or> 0 < f \<longrightarrow> en_awake v) \<and> (s \<longrightarrow> f = 0) \<and> 0 \<le> f \<and> 0 \<le> h \<and> 0 \<le> w"

definition entry_ok :: "gateway \<Rightarrow> nat \<Rightarrow> bool" where
  "entry_ok g e \<longleftrightarrow>
     entry_inv (gw_heap g ! e) (cnt (forwards e) g) (cnt (holds e) g) (cnt (rechecks e) g) (gw_sleeper g = Some e)"

definition gateway_ok :: "gateway \<Rightarrow> bool" where
  "gateway_ok g \<longleftrightarrow> ids_ok g \<and> refs_ok g \<and> transitions_ok g \<and> (\<forall>e < length (gw_heap g). entry_ok g e)"

section \<open>Requests that come, move and go\<close>

lemma map_of_set_phase:
  "map_of (gw_requests (set_phase rid p g)) r
     = (if r = rid then map_option (\<lambda>_. p) (map_of (gw_requests g) rid) else map_of (gw_requests g) r)"
proof -
  have "map_of (map (\<lambda>(r, q). if r = rid then (r, p) else (r, q)) xs) r
      = (if r = rid then map_option (\<lambda>_. p) (map_of xs rid) else map_of xs r)" for xs :: "(nat \<times> phase) list"
    by (induction xs) auto
  then show ?thesis by (simp add: set_phase_def)
qed

lemma map_of_answer:
  "map_of (gw_requests (answer rid st g)) r = (if r = rid then None else map_of (gw_requests g) r)"
proof -
  have "map_of (filter (\<lambda>(r, q). r \<noteq> rid) xs) r = (if r = rid then None else map_of xs r)" for xs :: "(nat \<times> phase) list"
    by (induction xs) auto
  then show ?thesis by (simp add: answer_def)
qed

lemma unique_set_phase [simp]: "unique (set_phase rid p g) = unique g"
proof -
  have "map fst (map (\<lambda>(r, q). if r = rid then (r, p) else (r, q)) xs) = map fst xs" for xs :: "(nat \<times> phase) list"
    by (induction xs) auto
  from this [of "gw_requests g"] show ?thesis by (simp add: unique_def set_phase_def del: map_map)
qed

lemma ids_set_phase [simp]: "ids_ok (set_phase rid p g) = ids_ok g"
  by (simp add: ids_ok_def) (simp add: set_phase_def)

lemma ids_answer:
  assumes "ids_ok g" and "map_of (gw_requests g) rid = Some q"
  shows "ids_ok (answer rid st g)"
proof -
  have "length (filter (\<lambda>(r, q). r \<noteq> rid) xs) + 1 = length xs"
    if "distinct (map fst xs)" and "map_of xs rid = Some q" for xs :: "(nat \<times> phase) list"
    using that by (induction xs) (auto simp: filter_other split: if_splits)
  from this [of "gw_requests g"] assms show ?thesis
    by (auto simp: ids_ok_def answer_def unique_def distinct_map_filter)
qed

lemma ids_frame [simp]: "ids_ok (on_entry e f g) = ids_ok g" "ids_ok (add_transition d g) = ids_ok g"
  "ids_ok (g\<lparr>gw_refresh := x\<rparr>) = ids_ok g" "ids_ok (g\<lparr>gw_now := t\<rparr>) = ids_ok g" "ids_ok (g\<lparr>gw_visit := es\<rparr>) = ids_ok g"
  "ids_ok (g\<lparr>gw_sleeper := s\<rparr>) = ids_ok g" "ids_ok (g\<lparr>gw_answers := ans\<rparr>) = ids_ok g"
  by (simp_all add: ids_ok_def unique_def)


fun refreshing :: "phase \<Rightarrow> bool" where
  "refreshing (Refreshing h n) = True"
| "refreshing _ = False"

lemma refreshing_iff: "refreshing q \<longleftrightarrow> (\<exists>h n. q = Refreshing h n)"
  by (cases q) auto

lemma refs_set_phase:
  assumes "refs_ok g" and "map_of (gw_requests g) rid = Some q" and "\<And>e. entry_of p = Some e \<Longrightarrow> e < length (gw_heap g)"
    and "\<not> refreshing q" and "\<not> refreshing p"
  shows "refs_ok (set_phase rid p g)"
  using assms unfolding refs_ok_def by (auto simp: map_of_set_phase refreshing_iff)

lemma refs_move:
  assumes "refs_ok g" and "map_of (gw_requests g) rid = Some q" and "entry_of q = Some e" and "entry_of p = Some e"
  shows "refs_ok (set_phase rid p g)"
proof -
  have "\<not> refreshing q" using assms(3) by (cases q) simp_all
  moreover have "\<not> refreshing p" using assms(4) by (cases p) simp_all
  moreover have "e < length (gw_heap g)" using assms(1-3) by (auto simp: refs_ok_def)
  ultimately show ?thesis using refs_set_phase [OF assms(1,2), of p] assms(4) by simp
qed

lemma refs_answer:
  assumes "refs_ok g" and "map_of (gw_requests g) rid = Some q" and "\<not> refreshing q"
  shows "refs_ok (answer rid st g)"
  using assms unfolding refs_ok_def by (auto simp: map_of_answer refreshing_iff)

lemma refs_frame [simp]: "refs_ok (on_entry e f g) = refs_ok g" "refs_ok (add_transition d g) = refs_ok g"
  "refs_ok (g\<lparr>gw_now := t\<rparr>) = refs_ok g" "refs_ok (g\<lparr>gw_answers := ans\<rparr>) = refs_ok g"
  by (simp_all add: refs_ok_def)

lemma refs_entry: "refs_ok g \<Longrightarrow> map_of (gw_requests g) rid = Some q \<Longrightarrow> entry_of q = Some e \<Longrightarrow> e < length (gw_heap g)"
  by (auto simp: refs_ok_def)

section \<open>Every event keeps the invariant\<close>

lemma ok_parts:
  assumes "gateway_ok g"
  shows "unique g" "ids_ok g" "refs_ok g" "transitions_ok g" "\<And>e. e < length (gw_heap g) \<Longrightarrow> entry_ok g e"
  using assms by (auto simp: gateway_ok_def ids_ok_def)

lemma validated_ok:
  assumes ok: "gateway_ok g" and q: "map_of (gw_requests g) rid = Some (Validating e)"
  shows "gateway_ok (if b then set_phase rid (AtGate e) g else answer rid 503 g)"
  using refs_set_phase [OF ok_parts(3) [OF ok] q, of "AtGate e"] refs_answer [OF ok_parts(3) [OF ok] q]
    refs_entry [OF ok_parts(3) [OF ok] q] ids_answer [OF ok_parts(2) [OF ok] q] ok_parts [OF ok]
  by (auto simp: gateway_ok_def transitions_ok_def entry_ok_def cnt_set_phase [OF ok_parts(1) [OF ok] q]
      cnt_answer [OF ok_parts(1) [OF ok] q])

text \<open>A request that holds the gate holds it alone.\<close>

lemma holder_facts:
  assumes "gateway_ok g" and "map_of (gw_requests g) rid = Some q" and "e < length (gw_heap g)"
  shows "holds e q \<Longrightarrow> en_gate (gw_heap g ! e) \<and> cnt (holds e) g = 1 \<and> cnt (rechecks e) g = 0 \<and> gw_sleeper g \<noteq> Some e
      \<and> cnt (forwards e) g < limit (gw_heap g ! e)"
    and "rechecks e q \<Longrightarrow> en_gate (gw_heap g ! e) \<and> cnt (holds e) g = 0 \<and> cnt (rechecks e) g = 1 \<and> gw_sleeper g \<noteq> Some e
      \<and> cnt (forwards e) g < limit (gw_heap g ! e) \<and> en_awake (gw_heap g ! e)"
proof -
  have i: "entry_inv (gw_heap g ! e) (cnt (forwards e) g) (cnt (holds e) g) (cnt (rechecks e) g) (gw_sleeper g = Some e)"
    using ok_parts(5) [OF assms(1,3)] by (simp add: entry_ok_def)
  show "holds e q \<Longrightarrow> en_gate (gw_heap g ! e) \<and> cnt (holds e) g = 1 \<and> cnt (rechecks e) g = 0 \<and> gw_sleeper g \<noteq> Some e
      \<and> cnt (forwards e) g < limit (gw_heap g ! e)"
    using i cnt_pos [OF map_of_SomeD [OF assms(2)], of "holds e"] by (cases "en_gate (gw_heap g ! e)"; cases "gw_sleeper g = Some e") (auto simp: entry_inv_def)
  show "rechecks e q \<Longrightarrow> en_gate (gw_heap g ! e) \<and> cnt (holds e) g = 0 \<and> cnt (rechecks e) g = 1 \<and> gw_sleeper g \<noteq> Some e
      \<and> cnt (forwards e) g < limit (gw_heap g ! e) \<and> en_awake (gw_heap g ! e)"
    using i cnt_pos [OF map_of_SomeD [OF assms(2)], of "rechecks e"] by (cases "en_gate (gw_heap g ! e)"; cases "gw_sleeper g = Some e") (auto simp: entry_inv_def)
qed

text \<open>An event that touches one entry: the others keep their heap cell, their counts and their sleeper.\<close>

lemma entries_but:
  assumes "gateway_ok g" and "length (gw_heap g') = length (gw_heap g)"
    and "\<And>x. x \<noteq> e \<Longrightarrow> x < length (gw_heap g) \<Longrightarrow> gw_heap g' ! x = gw_heap g ! x \<and> cnt (forwards x) g' = cnt (forwards x) g
      \<and> cnt (holds x) g' = cnt (holds x) g \<and> cnt (rechecks x) g' = cnt (rechecks x) g
      \<and> (gw_sleeper g' = Some x) = (gw_sleeper g = Some x)"
    and "e < length (gw_heap g) \<Longrightarrow> entry_ok g' e"
  shows "\<forall>x < length (gw_heap g'). entry_ok g' x"
proof (intro allI impI)
  fix x assume x: "x < length (gw_heap g')"
  show "entry_ok g' x"
  proof (cases "x = e")
    case False
    then show ?thesis using assms(3) [OF False] ok_parts(5) [OF assms(1)] x assms(2) by (simp add: entry_ok_def)
  qed (use assms x in simp)
qed

lemma gate_taken_ok:
  assumes ok: "gateway_ok g" and q: "map_of (gw_requests g) rid = Some (AtGate e)" and free: "\<not> en_gate (gw_heap g ! e)"
  shows "gateway_ok (gate_taken rid e g)"
proof -
  have e: "e < length (gw_heap g)" using refs_entry [OF ok_parts(3) [OF ok] q] by simp
  note c = cnt_set_phase [OF ok_parts(1) [OF ok] q] cnt_answer [OF ok_parts(1) [OF ok] q]
  have "ids_ok (gate_taken rid e g)" "refs_ok (gate_taken rid e g)" "transitions_ok (gate_taken rid e g)"
    using ids_answer [OF ok_parts(2) [OF ok] q] refs_answer [OF ok_parts(3) [OF ok] q] refs_move [OF ok_parts(3) [OF ok] q, of e]
      ok_parts(2,4) [OF ok] by (auto simp: gate_taken_def Let_def transitions_ok_def c)
  moreover have "\<forall>x < length (gw_heap (gate_taken rid e g)). entry_ok (gate_taken rid e g) x"
    using ok_parts(5) [OF ok e] free
    by (intro entries_but [OF ok, where e = e]) (auto simp: gate_taken_def Let_def c e entry_ok_def entry_inv_def limit_def)
  ultimately show ?thesis by (simp add: gateway_ok_def)
qed

lemma transition_taken_ok:
  assumes ok: "gateway_ok g" and q: "map_of (gw_requests g) rid = Some (AtTransition e)" and room: "gw_transitions g < 2"
  shows "gateway_ok (add_transition 1 (set_phase rid (Waking e) g))"
proof -
  have e: "e < length (gw_heap g)" using refs_entry [OF ok_parts(3) [OF ok] q] by simp
  note c = cnt_set_phase [OF ok_parts(1) [OF ok] q]
  have "transitions_ok (add_transition 1 (set_phase rid (Waking e) g))"
    using ok_parts(4) [OF ok] room by (simp add: transitions_ok_def c)
  moreover have "\<forall>x < length (gw_heap g). entry_ok (add_transition 1 (set_phase rid (Waking e) g)) x"
    using ok_parts(5) [OF ok] by (simp add: entry_ok_def c)
  ultimately show ?thesis
    using ok_parts(2) [OF ok] refs_move [OF ok_parts(3) [OF ok] q, of e] by (simp add: gateway_ok_def)
qed

lemma transition_timeout_ok:
  assumes ok: "gateway_ok g" and q: "map_of (gw_requests g) rid = Some (AtTransition e)"
  shows "gateway_ok (free_gate e (answer rid 504 g))"
proof -
  have e: "e < length (gw_heap g)" using refs_entry [OF ok_parts(3) [OF ok] q] by simp
  note c = cnt_answer [OF ok_parts(1) [OF ok] q]
  note h = holder_facts(1) [OF ok q e, simplified]
  have "\<forall>x < length (gw_heap (free_gate e (answer rid 504 g))). entry_ok (free_gate e (answer rid 504 g)) x"
    using ok_parts(5) [OF ok e] h
    by (intro entries_but [OF ok, where e = e]) (auto simp: c e entry_ok_def entry_inv_def limit_def split: if_splits)
  moreover have "transitions_ok (free_gate e (answer rid 504 g))" using ok_parts(4) [OF ok] by (simp add: transitions_ok_def c)
  ultimately show ?thesis
    using ids_answer [OF ok_parts(2) [OF ok] q] refs_answer [OF ok_parts(3) [OF ok] q] by (simp add: gateway_ok_def)
qed

lemma woken_ok:
  assumes ok: "gateway_ok g" and q: "map_of (gw_requests g) rid = Some (Waking e)"
  shows "gateway_ok (woken rid e b g)"
proof -
  have e: "e < length (gw_heap g)" using refs_entry [OF ok_parts(3) [OF ok] q] by simp
  have u: "unique (add_transition (-1) g)" "map_of (gw_requests (add_transition (-1) g)) rid = Some (Waking e)"
    using ok_parts(1) [OF ok] q by (simp_all add: unique_def)
  note c = cnt_set_phase [OF u] cnt_answer [OF u]
  note h = holder_facts(1) [OF ok q e, simplified]
  have "ids_ok (woken rid e b g)" "refs_ok (woken rid e b g)" "transitions_ok (woken rid e b g)"
    using ids_answer [of "add_transition (-1) g", OF _ u(2)] refs_answer [of "add_transition (-1) g", OF _ u(2)]
      refs_move [of "add_transition (-1) g", OF _ u(2), of e] ok_parts(2-4) [OF ok]
    by (auto simp: woken_def Let_def transitions_ok_def c)
  moreover have "\<forall>x < length (gw_heap (woken rid e b g)). entry_ok (woken rid e b g) x"
    using ok_parts(5) [OF ok e] h
    by (intro entries_but [OF ok, where e = e]) (auto simp: woken_def Let_def c e entry_ok_def entry_inv_def limit_def split: if_splits)
  ultimately show ?thesis by (simp add: gateway_ok_def)
qed

lemma rechecked_ok:
  assumes ok: "gateway_ok g" and q: "map_of (gw_requests g) rid = Some (Rechecking e)"
  shows "gateway_ok (rechecked rid e b g)"
proof -
  have e: "e < length (gw_heap g)" using refs_entry [OF ok_parts(3) [OF ok] q] by simp
  note c = cnt_set_phase [OF ok_parts(1) [OF ok] q] cnt_answer [OF ok_parts(1) [OF ok] q]
  note h = holder_facts(2) [OF ok q e, simplified]
  have "ids_ok (rechecked rid e b g)" "refs_ok (rechecked rid e b g)" "transitions_ok (rechecked rid e b g)"
    using ids_answer [OF ok_parts(2) [OF ok] q] refs_answer [OF ok_parts(3) [OF ok] q] refs_move [OF ok_parts(3) [OF ok] q, of e]
      ok_parts(2,4) [OF ok] by (auto simp: rechecked_def transitions_ok_def c)
  moreover have "\<forall>x < length (gw_heap (rechecked rid e b g)). entry_ok (rechecked rid e b g) x"
    using ok_parts(5) [OF ok e] h
    by (intro entries_but [OF ok, where e = e]) (auto simp: rechecked_def c e entry_ok_def entry_inv_def limit_def split: if_splits)
  ultimately show ?thesis by (simp add: gateway_ok_def)
qed

lemma left_ok:
  assumes ok: "gateway_ok g" and q: "map_of (gw_requests g) rid = Some (Leaving e)" and free: "\<not> en_gate (gw_heap g ! e)"
  shows "gateway_ok (left rid e status g)"
proof -
  have e: "e < length (gw_heap g)" using refs_entry [OF ok_parts(3) [OF ok] q] by simp
  note c = cnt_answer [OF ok_parts(1) [OF ok] q]
  have h: "0 < cnt (forwards e) g" using cnt_pos [OF map_of_SomeD [OF q], of "forwards e"] by simp
  have "ids_ok (left rid e status g)" "refs_ok (left rid e status g)" "transitions_ok (left rid e status g)"
    using ids_answer [OF ok_parts(2) [OF ok] q] refs_answer [OF ok_parts(3) [OF ok] q]
      ok_parts(2,4) [OF ok] by (auto simp: left_def transitions_ok_def c)
  moreover have "\<forall>x < length (gw_heap (left rid e status g)). entry_ok (left rid e status g) x"
    using ok_parts(5) [OF ok e] h free
    by (intro entries_but [OF ok, where e = e]) (auto simp: left_def c e entry_ok_def entry_inv_def limit_def split: if_splits)
  ultimately show ?thesis by (simp add: gateway_ok_def)
qed

text \<open>Requests that hold no gate and are not forwarded move and go freely.\<close>

fun idle_phase :: "phase \<Rightarrow> bool" where
  "idle_phase (Looking h n) = True" | "idle_phase (Relooking h n) = True" | "idle_phase (Validating e) = True"
| "idle_phase (AtGate e) = True" | "idle_phase q = False"

lemma idle_counts: "idle_phase q \<Longrightarrow> \<not> forwards e q \<and> \<not> holds e q \<and> \<not> rechecks e q \<and> \<not> wakes q \<and> \<not> refreshing q"
  by (cases q) simp_all

lemma idle_answer_ok:
  assumes ok: "gateway_ok g" and q: "map_of (gw_requests g) rid = Some q" and idle: "idle_phase q"
  shows "gateway_ok (answer rid st g)"
  using ids_answer [OF ok_parts(2) [OF ok] q] refs_answer [OF ok_parts(3) [OF ok] q] idle_counts [OF idle] ok_parts(4,5) [OF ok]
  by (simp add: gateway_ok_def transitions_ok_def entry_ok_def cnt_answer [OF ok_parts(1) [OF ok] q])

lemma idle_move_ok:
  assumes ok: "gateway_ok g" and q: "map_of (gw_requests g) rid = Some q" and idle: "idle_phase q" "idle_phase p"
    and e: "\<And>e. entry_of p = Some e \<Longrightarrow> e < length (gw_heap g)"
  shows "gateway_ok (set_phase rid p g)"
  using refs_set_phase [OF ok_parts(3) [OF ok] q e] idle_counts [OF idle(1)] idle_counts [OF idle(2)] ok_parts(2,4,5) [OF ok]
  by (simp add: gateway_ok_def transitions_ok_def entry_ok_def cnt_set_phase [OF ok_parts(1) [OF ok] q])

lemma admit_ok:
  assumes ok: "gateway_ok g" and q: "map_of (gw_requests g) rid = Some q" and idle: "idle_phase q" and e: "e < length (gw_heap g)"
  shows "gateway_ok (admit rid e n g)"
  using idle_answer_ok [OF ok q idle] idle_move_ok [OF ok q idle, of "Validating e"] e by (simp add: admit_def)

lemma lookup_ref: "refs_ok g \<Longrightarrow> fst (lookup g h) = Some e \<Longrightarrow> e < length (gw_heap g)"
  by (auto simp: lookup_def refs_ok_def)

lemma refresh_request_ok:
  assumes ok: "gateway_ok g" and q: "map_of (gw_requests g) rid = Some q" and idle: "idle_phase q" and none: "gw_refresh g = None"
  shows "gateway_ok (set_phase rid (Refreshing h n) g\<lparr>gw_refresh := Some (ByRequest rid)\<rparr>)"
proof -
  have "refs_ok (set_phase rid (Refreshing h n) g\<lparr>gw_refresh := Some (ByRequest rid)\<rparr>)"
    using ok_parts(3) [OF ok] q none unfolding refs_ok_def by (auto simp: map_of_set_phase)
  then show ?thesis
    using idle_counts [OF idle] ok_parts(2,4,5) [OF ok]
    by (simp add: gateway_ok_def transitions_ok_def entry_ok_def cnt_set_phase [OF ok_parts(1) [OF ok] q])
qed

lemma looked_up_ok:
  assumes ok: "gateway_ok g" and q: "map_of (gw_requests g) rid = Some (Looking h n)"
  shows "gateway_ok (looked_up rid h n g)"
proof -
  have "gateway_ok (set_phase rid (Relooking h n) g)" using idle_move_ok [OF ok q, of "Relooking h n"] by simp
  moreover have "gateway_ok (set_phase rid (Refreshing h n) g\<lparr>gw_refresh := Some (ByRequest rid)\<rparr>)" if "gw_refresh g = None"
    using refresh_request_ok [OF ok q _ that] by simp
  moreover have "gateway_ok (admit rid e n g)" if "fst (lookup g h) = Some e" for e
    using admit_ok [OF ok q _ lookup_ref [OF ok_parts(3) [OF ok] that]] by simp
  ultimately show ?thesis by (auto simp: looked_up_def split: option.splits prod.splits bool.splits)
qed

lemma looked_again_ok:
  assumes ok: "gateway_ok g" and q: "map_of (gw_requests g) rid = Some (Relooking h n)"
  shows "gateway_ok (looked_again rid h n g)"
proof -
  have "gateway_ok (admit rid e n g)" if "fst (lookup g h) = Some e" for e
    using admit_ok [OF ok q _ lookup_ref [OF ok_parts(3) [OF ok] that]] by simp
  then show ?thesis
    using idle_answer_ok [OF ok q] by (auto simp: looked_again_def split: option.splits prod.splits bool.splits)
qed

lemma arrive_ok:
  assumes ok: "gateway_ok g" and new: "rid \<notin> fst ` set (gw_requests g)" and room: "gw_slots g < 128"
  shows "gateway_ok (g\<lparr>gw_slots := gw_slots g + 1, gw_requests := (rid, Looking h n) # gw_requests g\<rparr>)"
proof -
  let ?g = "g\<lparr>gw_slots := gw_slots g + 1, gw_requests := (rid, Looking h n) # gw_requests g\<rparr>"
  have none: "map_of (gw_requests g) rid = None" using new by (simp add: map_of_eq_None_iff)
  have c: "cnt P ?g = cnt P g + of_bool (P (Looking h n))" for P by (simp add: cnt_def)
  have "ids_ok ?g" using ok_parts(2) [OF ok] new room by (simp add: ids_ok_def unique_def)
  moreover have "refs_ok ?g" using ok_parts(3) [OF ok] none unfolding refs_ok_def by (auto split: if_splits)
  ultimately show ?thesis
    using ok_parts(4,5) [OF ok] by (simp add: gateway_ok_def transitions_ok_def entry_ok_def c)
qed

lemma forwarded_ok:
  assumes ok: "gateway_ok g" and q: "map_of (gw_requests g) rid = Some (Forwarding e)"
  shows "gateway_ok (set_phase rid (Leaving e) g)"
  using refs_move [OF ok_parts(3) [OF ok] q, of e] ok_parts(2,4,5) [OF ok]
  by (simp add: gateway_ok_def transitions_ok_def entry_ok_def cnt_set_phase [OF ok_parts(1) [OF ok] q])

section \<open>The sleep loop\<close>

lemma sleep_next_ok:
  assumes ok: "gateway_ok g" and e: "e < length (gw_heap g)" and s: "gw_sleeper g = None"
  shows "gateway_ok (sleep_next e g)"
proof (cases "\<not> en_gate (gw_heap g ! e) \<and> may_sleep (gw_now g) (gw_heap g ! e)")
  case True
  let ?g = "take_gate e (g\<lparr>gw_sleeper := Some e\<rparr>)"
  have g: "sleep_next e g = ?g" using True by (simp add: sleep_next_def Let_def)
  have "refs_ok ?g" using ok_parts(3) [OF ok] e by (simp add: refs_ok_def)
  moreover have "\<forall>x < length (gw_heap ?g). entry_ok ?g x"
    using ok_parts(5) [OF ok e] True s e
    by (intro entries_but [OF ok, where e = e]) (auto simp: entry_ok_def entry_inv_def limit_def may_sleep_def)
  moreover have "transitions_ok ?g" using ok_parts(4) [OF ok] by (simp add: transitions_ok_def)
  ultimately show ?thesis unfolding g using ok_parts(2) [OF ok] by (simp add: gateway_ok_def)
qed (use ok in \<open>auto simp: sleep_next_def Let_def\<close>)

lemma slept_ok:
  assumes ok: "gateway_ok g" and s: "gw_sleeper g = Some e"
  shows "gateway_ok (slept e b g)"
proof -
  have e: "e < length (gw_heap g)" using ok_parts(3) [OF ok] s by (auto simp: refs_ok_def)
  have "refs_ok (slept e b g)" using ok_parts(3) [OF ok] by (simp add: refs_ok_def slept_def)
  moreover have "\<forall>x < length (gw_heap (slept e b g)). entry_ok (slept e b g) x"
    using ok_parts(5) [OF ok e] s e
    by (intro entries_but [OF ok, where e = e]; cases "en_gate (gw_heap g ! e)") (auto simp: slept_def entry_ok_def entry_inv_def limit_def)
  moreover have "transitions_ok (slept e b g)" "ids_ok (slept e b g)"
    using ok_parts(2,4) [OF ok] by (simp_all add: transitions_ok_def slept_def)
  ultimately show ?thesis by (simp add: gateway_ok_def)
qed

section \<open>Refreshing\<close>

text \<open>A refresh only adds entries that nobody uses yet, and routes to entries of the heap.\<close>

definition grown :: "gateway \<Rightarrow> entry list \<Rightarrow> bool" where
  "grown g heap \<longleftrightarrow> (\<exists>new. heap = gw_heap g @ new
     \<and> (\<forall>v \<in> set new. en_active v = 0 \<and> \<not> en_gate v \<and> 1 \<le> limit v \<and> limit v \<le> 64))"

lemma valid_limit: "valid_route r \<Longrightarrow> 1 \<le> limit (fresh_entry now r) \<and> limit (fresh_entry now r) \<le> 64"
  by (auto simp: valid_route_def limit_def fresh_entry_def split: option.splits)

lemma entry_for_grown:
  assumes "grown g heap" and "snd ` set (gw_entries g) \<subseteq> {..<length (gw_heap g)}" and "valid_route r"
    and "entry_for g heap r = (v, heap')"
  shows "grown g heap' \<and> v < length heap' \<and> length heap \<le> length heap'"
proof (cases "v = length heap \<and> heap' = heap @ [fresh_entry (gw_now g) r]")
  case True
  obtain new where "heap = gw_heap g @ new" "\<forall>v \<in> set new. en_active v = 0 \<and> \<not> en_gate v \<and> 1 \<le> limit v \<and> limit v \<le> 64"
    using assms(1) by (auto simp: grown_def)
  then have "grown g (heap @ [fresh_entry (gw_now g) r])"
    unfolding grown_def using valid_limit [OF assms(3)]
    by (intro exI [of _ "new @ [fresh_entry (gw_now g) r]"]) (auto simp: fresh_entry_def)
  then show ?thesis using True by simp
next
  case False
  then have "heap' = heap" "map_of (gw_entries g) (key r) = Some v"
    using assms(4) by (auto simp: entry_for_def split: option.splits if_splits)
  moreover have "v < length (gw_heap g)" using calculation(2) assms(2) by (force dest: map_of_SomeD)
  ultimately show ?thesis using assms(1) by (auto simp: grown_def)
qed

lemma add_hosts_range:
  "add_hosts v hs hosts = Some hosts' \<Longrightarrow> map_of hosts' h = Some e \<Longrightarrow> e = v \<or> map_of hosts h = Some e"
  by (induction v hs hosts rule: add_hosts.induct) (auto split: option.splits if_splits)

lemma refresh_routes_grown:
  assumes "refresh_routes g rs (heap, entries, hosts) = Some (heap', entries', hosts')" and "grown g heap"
    and "snd ` set (gw_entries g) \<subseteq> {..<length (gw_heap g)}" and "snd ` set entries \<subseteq> {..<length heap}"
    and "\<And>h e. map_of hosts h = Some e \<Longrightarrow> e < length heap"
  shows "grown g heap' \<and> snd ` set entries' \<subseteq> {..<length heap'} \<and> (\<forall>h e. map_of hosts' h = Some e \<longrightarrow> e < length heap')"
  using assms
proof (induction rs arbitrary: heap entries hosts)
  case (Cons r rs)
  obtain v heap2 where v: "entry_for g heap r = (v, heap2)" by force
  obtain hosts2 where valid: "valid_route r" and hosts2: "add_hosts v (it_Hosts (rt_Target r)) hosts = Some hosts2"
    and rest: "refresh_routes g rs (heap2, (key r, v) # entries, hosts2) = Some (heap', entries', hosts')"
    using Cons.prems(1) by (auto simp: v split: if_splits option.splits)
  note gr = entry_for_grown [OF Cons.prems(2,3) valid v]
  have "e < length heap2" if "map_of hosts2 h = Some e" for h e
    using add_hosts_range [OF hosts2 that] Cons.prems(5) gr by fastforce
  moreover have "snd ` set ((key r, v) # entries) \<subseteq> {..<length heap2}" using Cons.prems(4) gr by auto
  ultimately show ?case using Cons.IH [OF rest _ Cons.prems(3)] gr by blast
qed auto

lemma cnt_unused:
  assumes "refs_ok g" and "ids_ok g" and "length (gw_heap g) \<le> e"
  shows "cnt (forwards e) g = 0" and "cnt (holds e) g = 0" and "cnt (rechecks e) g = 0"
proof -
  have "\<not> forwards e q \<and> \<not> holds e q \<and> \<not> rechecks e q" if "(r, q) \<in> set (gw_requests g)" for r q
  proof -
    have "map_of (gw_requests g) r = Some q" using that assms(2) by (simp add: ids_ok_def unique_def)
    then have "entry_of q \<noteq> Some e" using refs_entry [OF assms(1)] assms(3) by fastforce
    then show ?thesis by (cases q) auto
  qed
  then show "cnt (forwards e) g = 0" and "cnt (holds e) g = 0" and "cnt (rechecks e) g = 0"
    by (auto simp: cnt_def filter_empty_conv)
qed

lemma install_ok:
  assumes ok: "gateway_ok g" and "install_routes outcome g = Some g'"
  shows "gateway_ok g'" and "gw_requests g' = gw_requests g" and "gw_refresh g' = gw_refresh g"
proof -
  obtain routes heap entries hosts where r: "refresh_routes g routes (gw_heap g, [], []) = Some (heap, entries, hosts)"
    and g': "g' = g\<lparr>gw_heap := heap, gw_entries := entries, gw_routes := hosts, gw_refreshed := gw_now g\<rparr>"
    using assms(2) by (auto simp: install_routes_def split: option.splits if_splits)
  have "grown g (gw_heap g)" by (simp add: grown_def)
  then have gr: "grown g heap" "snd ` set entries \<subseteq> {..<length heap}" "\<And>h e. map_of hosts h = Some e \<Longrightarrow> e < length heap"
    using refresh_routes_grown [OF r] ok_parts(3) [OF ok] by (auto simp: refs_ok_def)
  obtain new where new: "heap = gw_heap g @ new" "\<forall>v \<in> set new. en_active v = 0 \<and> \<not> en_gate v \<and> 1 \<le> limit v \<and> limit v \<le> 64"
    using gr(1) by (auto simp: grown_def)
  have c: "cnt P g' = cnt P g" for P by (simp add: g' cnt_def)
  have "refs_ok g'"
    using ok_parts(3) [OF ok] gr(2,3) unfolding g' refs_ok_def by (auto simp: new(1) trans_less_add1 subset_iff)
  moreover have "entry_ok g' e" if "e < length (gw_heap g')" for e
  proof (cases "e < length (gw_heap g)")
    case True
    then show ?thesis using ok_parts(5) [OF ok True] unfolding entry_ok_def c by (simp add: g' new(1) nth_append)
  next
    case False
    then have "heap ! e \<in> set new" using that by (simp add: g' new(1) nth_append)
    moreover have "gw_sleeper g \<noteq> Some e" using False ok_parts(3) [OF ok] by (auto simp: refs_ok_def)
    ultimately show ?thesis
      using cnt_unused [OF ok_parts(3,2) [OF ok], of e] False new(2)
      unfolding entry_ok_def c by (fastforce simp: g' entry_inv_def)
  qed
  moreover have "transitions_ok g'" using ok_parts(4) [OF ok] unfolding transitions_ok_def c by (simp add: g')
  moreover have "ids_ok g'" using ok_parts(2) [OF ok] by (simp add: ids_ok_def unique_def g')
  ultimately show "gateway_ok g'" by (simp add: gateway_ok_def)
  show "gw_requests g' = gw_requests g" and "gw_refresh g' = gw_refresh g" by (simp_all add: g')
qed

text \<open>The refresh ends: the slot is free again, and a request that waited for it goes on.\<close>

lemma refresh_idle_ok:
  assumes ok: "gateway_ok g" and "\<And>r h n. map_of (gw_requests g) r \<noteq> Some (Refreshing h n)"
  shows "gateway_ok (g\<lparr>gw_refresh := None\<rparr>)"
proof -
  have "refs_ok (g\<lparr>gw_refresh := None\<rparr>)" using ok_parts(3) [OF ok] assms(2) by (simp add: refs_ok_def)
  then show ?thesis using ok_parts(2,4,5) [OF ok] by (simp add: gateway_ok_def transitions_ok_def entry_ok_def)
qed

lemma refresh_relook_ok:
  assumes ok: "gateway_ok g" and q: "map_of (gw_requests g) rid = Some (Refreshing h n)"
  shows "gateway_ok ((set_phase rid (Relooking h n) g)\<lparr>gw_refresh := None\<rparr>)"
    and "gateway_ok ((answer rid st g)\<lparr>gw_refresh := None\<rparr>)"
proof -
  have only: "r = rid" if "map_of (gw_requests g) r = Some (Refreshing h n)" for r h n
    using that q ok_parts(3) [OF ok] unfolding refs_ok_def by (metis option.inject caller.inject)
  have "refs_ok ((set_phase rid (Relooking h n) g)\<lparr>gw_refresh := None\<rparr>)" "refs_ok ((answer rid st g)\<lparr>gw_refresh := None\<rparr>)"
    using ok_parts(3) [OF ok] only unfolding refs_ok_def by (auto simp: map_of_set_phase map_of_answer)
  then show "gateway_ok ((set_phase rid (Relooking h n) g)\<lparr>gw_refresh := None\<rparr>)" and "gateway_ok ((answer rid st g)\<lparr>gw_refresh := None\<rparr>)"
    using ok_parts(4,5) [OF ok] ids_answer [OF ok_parts(2) [OF ok] q] ok_parts(2) [OF ok]
    by (simp_all add: gateway_ok_def transitions_ok_def entry_ok_def cnt_set_phase [OF ok_parts(1) [OF ok] q]
        cnt_answer [OF ok_parts(1) [OF ok] q])
qed

lemma refresher: "refs_ok g \<Longrightarrow> gw_refresh g = Some (ByRequest r) \<longleftrightarrow> (\<exists>h n. map_of (gw_requests g) r = Some (Refreshing h n))"
  by (simp add: refs_ok_def)

lemma refresh_done_ok:
  assumes ok: "gateway_ok g" and c: "gw_refresh g = Some c"
  shows "gateway_ok (refresh_done outcome c g)"
proof (cases c)
  case ByLoop
  then have none: "map_of (gw_requests g) r \<noteq> Some (Refreshing h n)" for r h n
    using c ok_parts(3) [OF ok] unfolding refs_ok_def by (metis option.inject caller.distinct(1))
  have "gateway_ok (g'\<lparr>gw_refresh := None\<rparr>)" if "install_routes outcome g = Some g'" for g'
    using refresh_idle_ok [OF install_ok(1) [OF ok that]] none install_ok(2) [OF ok that] by simp
  then show ?thesis
    using refresh_idle_ok [OF ok none] by (auto simp: refresh_done_def Let_def ByLoop split: option.splits)
next
  case (ByRequest rid)
  obtain h n where q: "map_of (gw_requests g) rid = Some (Refreshing h n)"
    using refresher [OF ok_parts(3) [OF ok], of rid] c ByRequest by blast
  have "gateway_ok ((set_phase rid (Relooking h n) g')\<lparr>gw_refresh := None\<rparr>)" if "install_routes outcome g = Some g'" for g'
    using refresh_relook_ok(1) [OF install_ok(1) [OF ok that]] q install_ok(2) [OF ok that] by simp
  then show ?thesis
    using refresh_relook_ok(2) [OF ok q] q by (auto simp: refresh_done_def Let_def ByRequest split: option.splits)
qed

section \<open>Every reachable gateway\<close>

lemma frame_ok:
  assumes "gateway_ok g"
  shows "gateway_ok (g\<lparr>gw_now := t\<rparr>)" and "gateway_ok (g\<lparr>gw_answers := ans\<rparr>)"
    and "set es \<subseteq> {..<length (gw_heap g)} \<Longrightarrow> gateway_ok (g\<lparr>gw_visit := es\<rparr>)"
    and "gw_refresh g = None \<Longrightarrow> gateway_ok (g\<lparr>gw_refresh := Some ByLoop\<rparr>)"
  using assms by (simp_all add: gateway_ok_def transitions_ok_def entry_ok_def) (simp_all add: refs_ok_def)

lemma gstep_ok:
  assumes "gateway_ok g" and "gstep ev g = Some g'"
  shows "gateway_ok g'"
proof -
  note ok = assms(1) and refs = ok_parts(3) [OF assms(1)]
  show ?thesis
    using assms(2)
  proof (cases ev)
    case (Arrive rid h n)
    then show ?thesis
      using assms(2) arrive_ok [OF ok] frame_ok(2) [OF ok] by (auto split: if_splits)
  next
    case (Look rid)
    then show ?thesis
      using assms(2) looked_up_ok [OF ok] looked_again_ok [OF ok] by (auto split: option.splits phase.splits)
  next
    case (Validated rid b)
    then show ?thesis
      using assms(2) validated_ok [OF ok] by (auto split: option.splits phase.splits)
  next
    case (GateTaken rid)
    then show ?thesis using assms(2) gate_taken_ok [OF ok] by (auto split: option.splits phase.splits if_splits)
  next
    case (GateTimeout rid)
    then show ?thesis using assms(2) idle_answer_ok [OF ok] by (auto split: option.splits phase.splits)
  next
    case (TransitionTaken rid)
    then show ?thesis using assms(2) transition_taken_ok [OF ok] by (auto split: option.splits phase.splits if_splits)
  next
    case (TransitionTimeout rid)
    then show ?thesis using assms(2) transition_timeout_ok [OF ok] by (auto split: option.splits phase.splits)
  next
    case (Woken rid b)
    then show ?thesis using assms(2) woken_ok [OF ok] by (auto split: option.splits phase.splits)
  next
    case (Rechecked rid b)
    then show ?thesis using assms(2) rechecked_ok [OF ok] by (auto split: option.splits phase.splits)
  next
    case (Forwarded rid st)
    then show ?thesis using assms(2) forwarded_ok [OF ok] by (auto split: option.splits phase.splits)
  next
    case (Left rid st)
    then show ?thesis using assms(2) left_ok [OF ok] by (auto split: option.splits phase.splits if_splits)
  next
    case (RefreshDone outcome)
    then show ?thesis using assms(2) refresh_done_ok [OF ok] by (auto split: option.splits)
  next
    case SleepNext
    have "gateway_ok (g\<lparr>gw_visit := es\<rparr>) \<and> e < length (gw_heap (g\<lparr>gw_visit := es\<rparr>))" if "gw_visit g = e # es" for e es
      using frame_ok(3) [OF ok, of es] refs that by (auto simp: refs_ok_def)
    then show ?thesis using SleepNext assms(2) sleep_next_ok by (auto split: option.splits list.splits)
  next
    case (SleepDone b)
    then show ?thesis using assms(2) slept_ok [OF ok] by (auto split: option.splits)
  next
    case SleepRound
    then show ?thesis using assms(2) frame_ok(3) [OF ok, of "map snd (gw_entries g)"] refs by (auto simp: refs_ok_def split: if_splits)
  qed (use assms(2) frame_ok [OF ok] ok in \<open>auto split: if_splits\<close>)
qed

lemma New_ok: "gateway_ok (New now)"
  by (simp add: gateway_ok_def ids_ok_def refs_ok_def transitions_ok_def unique_def cnt_def New_def)

lemma greachable_ok: "greachable g \<Longrightarrow> gateway_ok g"
  by (induction rule: greachable.induct) (rule New_ok, rule gstep_ok)

section \<open>Every request is answered\<close>

text \<open>
  The work left: how many blocks of the handler each request has still to run, plus the calls
  of the two loops that are under way. Progress is every event but the clock, a new request
  and the start of a refresh or of a sleep.
\<close>

fun rank :: "phase \<Rightarrow> nat" where
  "rank (Looking h n) = 10" | "rank (Refreshing h n) = 9" | "rank (Relooking h n) = 8" | "rank (Validating e) = 7"
| "rank (AtGate e) = 6" | "rank (AtTransition e) = 5" | "rank (Waking e) = 4" | "rank (Rechecking e) = 3"
| "rank (Forwarding e) = 2" | "rank (Leaving e) = 1"

definition ranks :: "gateway \<Rightarrow> nat" where
  "ranks g = sum_list (map (\<lambda>(r, q). rank q) (gw_requests g))"

definition work :: "gateway \<Rightarrow> nat" where
  "work g = ranks g + of_bool (gw_sleeper g \<noteq> None) + of_bool (gw_refresh g = Some ByLoop)"

fun progress :: "event \<Rightarrow> bool" where
  "progress (Tick d) = False" | "progress (Arrive rid h n) = False" | "progress LoopRefresh = False"
| "progress SleepRound = False" | "progress SleepNext = False" | "progress ev = True"

lemma ranks_set_phase:
  assumes "unique g" and "map_of (gw_requests g) rid = Some q"
  shows "ranks (set_phase rid p g) + rank q = ranks g + rank p"
proof -
  have "sum_list (map (\<lambda>(r, q). rank q) (map (\<lambda>(r, q). if r = rid then (r, p) else (r, q)) xs)) + rank q
      = sum_list (map (\<lambda>(r, q). rank q) xs) + rank p"
    if "distinct (map fst xs)" and "map_of xs rid = Some q" for xs :: "(nat \<times> phase) list"
    using that by (induction xs) (auto simp: map_other simp del: map_map split: if_splits)
  then show ?thesis using assms by (simp add: ranks_def set_phase_def unique_def del: map_map)
qed

lemma ranks_answer:
  assumes "unique g" and "map_of (gw_requests g) rid = Some q"
  shows "ranks (answer rid st g) + rank q = ranks g"
proof -
  have "sum_list (map (\<lambda>(r, q). rank q) (filter (\<lambda>(r, q). r \<noteq> rid) xs)) + rank q = sum_list (map (\<lambda>(r, q). rank q) xs)"
    if "distinct (map fst xs)" and "map_of xs rid = Some q" for xs :: "(nat \<times> phase) list"
    using that by (induction xs) (auto simp: filter_other split: if_splits)
  then show ?thesis using assms by (simp add: ranks_def answer_def unique_def)
qed

lemma ranks_frame [simp]:
  "ranks (on_entry e f g) = ranks g" "ranks (add_transition d g) = ranks g"
  "ranks (g\<lparr>gw_refresh := x\<rparr>) = ranks g" "ranks (g\<lparr>gw_sleeper := s\<rparr>) = ranks g"
  by (simp_all add: ranks_def on_entry_def add_transition_def)

lemma unique_frame [simp]: "unique (add_transition d g) = unique g"
  by (simp add: unique_def)

lemma rank_pos [simp]: "0 < rank q"
  by (cases q) simp_all

lemma work_set_phase: "unique g \<Longrightarrow> map_of (gw_requests g) rid = Some q \<Longrightarrow> work (set_phase rid p g) + rank q = work g + rank p"
  using ranks_set_phase [of g rid q p] by (simp add: work_def)

lemma work_answer: "unique g \<Longrightarrow> map_of (gw_requests g) rid = Some q \<Longrightarrow> work (answer rid st g) + rank q = work g"
  using ranks_answer [of g rid q st] by (simp add: work_def)

lemma work_frame [simp]: "work (on_entry e f g) = work g" "work (add_transition d g) = work g"
  by (simp_all add: work_def)

lemma work_refresh: "gw_refresh g \<noteq> Some ByLoop \<Longrightarrow> work (g\<lparr>gw_refresh := Some (ByRequest r)\<rparr>) = work g"
  "work (g\<lparr>gw_refresh := None\<rparr>) \<le> work g"
  by (simp_all add: work_def)

lemma answer_work:
  assumes "unique g" and "map_of (gw_requests g) rid = Some q"
  shows "work (answer rid st g) < work g"
  using work_answer [OF assms, of st] rank_pos [of q] by linarith

lemma move_work:
  assumes "unique g" and "map_of (gw_requests g) rid = Some q" and "rank p < rank q"
  shows "work (set_phase rid p g) < work g"
  using work_set_phase [OF assms(1,2), of p] assms(3) by linarith

lemma admit_work:
  assumes "unique g" and "map_of (gw_requests g) rid = Some q" and "7 < rank q"
  shows "work (admit rid e n g) < work g"
  using move_work [OF assms(1,2), of "Validating e"] answer_work [OF assms(1,2)] assms(3) by (simp add: admit_def)

lemma looked_work:
  assumes u: "unique g"
  shows "map_of (gw_requests g) rid = Some (Looking h n) \<Longrightarrow> work (looked_up rid h n g) < work g"
    and "map_of (gw_requests g) rid = Some (Relooking h n) \<Longrightarrow> work (looked_again rid h n g) < work g"
proof -
  assume q: "map_of (gw_requests g) rid = Some (Looking h n)"
  have "work (set_phase rid (Relooking h n) g) < work g" "work (set_phase rid (Refreshing h n) g) < work g"
    using move_work [OF u q] by simp_all
  moreover have "work (set_phase rid (Refreshing h n) g\<lparr>gw_refresh := Some (ByRequest rid)\<rparr>) = work (set_phase rid (Refreshing h n) g)"
    if "gw_refresh g = None" using work_refresh(1) [of "set_phase rid (Refreshing h n) g"] that by simp
  ultimately show "work (looked_up rid h n g) < work g"
    using admit_work [OF u q] by (auto simp: looked_up_def split: option.splits prod.splits bool.splits)
next
  assume q: "map_of (gw_requests g) rid = Some (Relooking h n)"
  show "work (looked_again rid h n g) < work g"
    using admit_work [OF u q] answer_work [OF u q] by (auto simp: looked_again_def split: option.splits prod.splits bool.splits)
qed

lemma install_work: "install_routes outcome g = Some g' \<Longrightarrow> gw_requests g' = gw_requests g \<and> gw_refresh g' = gw_refresh g \<and> work g' = work g"
  by (auto simp: install_routes_def work_def ranks_def split: option.splits if_splits)

lemma refresh_work:
  assumes ok: "gateway_ok g" and c: "gw_refresh g = Some c"
  shows "work (refresh_done outcome c g) < work g"
proof (cases c)
  case ByLoop
  have idle: "work (g'\<lparr>gw_refresh := None\<rparr>) < work g'" if "gw_refresh g' = Some ByLoop" for g'
    using that by (simp add: work_def)
  have "work (g'\<lparr>gw_refresh := None\<rparr>) < work g" if "install_routes outcome g = Some g'" for g'
    using idle [of g'] install_work [OF that] c ByLoop by simp
  then show ?thesis
    using c ByLoop idle [of g] by (auto simp: refresh_done_def Let_def split: option.splits)
next
  case (ByRequest rid)
  obtain h n where q: "map_of (gw_requests g) rid = Some (Refreshing h n)"
    using refresher [OF ok_parts(3) [OF ok], of rid] c ByRequest by blast
  have "work ((set_phase rid (Relooking h n) g')\<lparr>gw_refresh := None\<rparr>) < work g" if i: "install_routes outcome g = Some g'" for g'
  proof -
    have "unique g'" "map_of (gw_requests g') rid = Some (Refreshing h n)"
      using install_work [OF i] q ok_parts(1) [OF ok] by (simp_all add: unique_def)
    from move_work [OF this, of "Relooking h n"] show ?thesis
      using install_work [OF i] work_refresh(2) [of "set_phase rid (Relooking h n) g'"] by simp
  qed
  moreover have "work ((answer rid 503 g)\<lparr>gw_refresh := None\<rparr>) < work g"
    using answer_work [OF ok_parts(1) [OF ok] q] work_refresh(2) [of "answer rid 503 g"] le_less_trans by blast
  ultimately show ?thesis using q by (auto simp: refresh_done_def Let_def ByRequest split: option.splits)
qed

lemma progress_work:
  assumes ok: "gateway_ok g" and ev: "progress ev" and step: "gstep ev g = Some g'"
  shows "work g' < work g"
proof -
  note u = ok_parts(1) [OF ok]
  note move = move_work [OF u] and answered = answer_work [OF u]
  show ?thesis
    using step ev
  proof (cases ev)
    case (Woken rid b)
    have "unique (add_transition (-1) g)" using u by simp
    note w = move_work [OF this] answer_work [OF this]
    show ?thesis using step Woken w by (fastforce simp: woken_def Let_def split: option.splits phase.splits if_splits)
  next
    case (SleepDone b)
    then show ?thesis using step by (auto simp: slept_def work_def ranks_def on_entry_def split: option.splits)
  next
    case (RefreshDone outcome)
    then show ?thesis using step refresh_work [OF ok] by (auto split: option.splits)
  next
    case (Look rid)
    then show ?thesis using step looked_work [OF u] by (auto split: option.splits phase.splits)
  qed (use move answered in \<open>auto simp: gate_taken_def rechecked_def left_def Let_def split: option.splits phase.splits if_splits\<close>)
qed

text \<open>
  A request is never stuck. One that waits for a gate finds it free, or its holder can go on:
  the sleep loop, or another request.
\<close>

lemma held_gate_moves:
  assumes ok: "gateway_ok g" and e: "e < length (gw_heap g)" and gate: "en_gate (gw_heap g ! e)"
  shows "\<exists>ev. progress ev \<and> gstep ev g \<noteq> None"
proof (cases "gw_sleeper g = Some e")
  case True
  then show ?thesis by (intro exI [of _ "SleepDone True"]) simp
next
  case False
  have "cnt (holds e) g + cnt (rechecks e) g = 1"
    using ok_parts(5) [OF ok e] False gate by (simp add: entry_ok_def entry_inv_def)
  then have "cnt (holds e) g \<noteq> 0 \<or> cnt (rechecks e) g \<noteq> 0" by linarith
  then obtain r q where "(r, q) \<in> set (gw_requests g)" and q: "holds e q \<or> rechecks e q"
    by (auto simp: cnt_def filter_empty_conv)
  then have r: "map_of (gw_requests g) r = Some q" using ok_parts(1) [OF ok] by (simp add: unique_def)
  show ?thesis
    using q r
    by (auto simp: holds_def rechecks_def intro: exI [of _ "TransitionTimeout r"] exI [of _ "Woken r True"] exI [of _ "Rechecked r True"])
qed

lemma request_moves:
  assumes ok: "gateway_ok g" and some: "gw_requests g \<noteq> []"
  shows "\<exists>ev. progress ev \<and> gstep ev g \<noteq> None"
proof -
  obtain r q where "(r, q) \<in> set (gw_requests g)" using some by (cases "gw_requests g") auto
  then have r: "map_of (gw_requests g) r = Some q" using ok_parts(1) [OF ok] by (simp add: unique_def)
  show ?thesis
  proof (cases q)
    case (Looking h n)
    with r show ?thesis by (intro exI [of _ "Look r"]) simp
  next
    case (Relooking h n)
    with r show ?thesis by (intro exI [of _ "Look r"]) simp
  next
    case (Refreshing h n)
    with r refresher [OF ok_parts(3) [OF ok], of r] show ?thesis by (intro exI [of _ "RefreshDone None"]) auto
  next
    case (Validating e)
    with r show ?thesis by (intro exI [of _ "Validated r True"]) simp
  next
    case (AtGate e)
    with r show ?thesis by (intro exI [of _ "GateTimeout r"]) simp
  next
    case (AtTransition e)
    with r show ?thesis by (intro exI [of _ "TransitionTimeout r"]) simp
  next
    case (Waking e)
    with r show ?thesis by (intro exI [of _ "Woken r True"]) simp
  next
    case (Rechecking e)
    with r show ?thesis by (intro exI [of _ "Rechecked r True"]) simp
  next
    case (Forwarding e)
    with r show ?thesis by (intro exI [of _ "Forwarded r 200"]) simp
  next
    case (Leaving e)
    then have "e < length (gw_heap g)" using refs_entry [OF ok_parts(3) [OF ok] r] by simp
    then show ?thesis
      using held_gate_moves [OF ok] r Leaving by (cases "en_gate (gw_heap g ! e)") (auto intro: exI [of _ "Left r 200"])
  qed
qed

lemma grun_ok: "gateway_ok g \<Longrightarrow> grun evs g = Some g' \<Longrightarrow> gateway_ok g'"
  by (induction evs arbitrary: g) (auto split: option.splits dest: gstep_ok)

lemma grun_work:
  "gateway_ok g \<Longrightarrow> list_all progress evs \<Longrightarrow> grun evs g = Some g' \<Longrightarrow> length evs + work g' \<le> work g"
proof (induction evs arbitrary: g)
  case (Cons ev evs)
  obtain h where h: "gstep ev g = Some h" "grun evs h = Some g'" using Cons.prems(3) by (auto split: option.splits)
  have "length evs + work g' \<le> work h" using Cons.IH [OF gstep_ok [OF Cons.prems(1) h(1)] _ h(2)] Cons.prems(2) by simp
  then show ?case using progress_work [OF Cons.prems(1) _ h(1)] Cons.prems(2) by simp
qed simp

text \<open>A gateway without requests holds no gate but that of a sleep under way.\<close>

lemma quiet_gates:
  assumes ok: "gateway_ok g" and none: "gw_requests g = []" and e: "e < length (gw_heap g)"
  shows "en_active (gw_heap g ! e) = 0 \<and> en_gate (gw_heap g ! e) = (gw_sleeper g = Some e) \<and> gw_slots g = 0 \<and> gw_transitions g = 0"
proof -
  have c: "cnt P g = 0" for P by (simp add: cnt_def none)
  show ?thesis
    using ok_parts(2,4) [OF ok] ok_parts(5) [OF ok e] none
    by (auto simp: ids_ok_def transitions_ok_def entry_ok_def entry_inv_def c split: if_splits)
qed

end
