(* ===== verification/Serverless_Properties.thy ===== *)
theory Serverless_Properties
  imports Serverless_Facts
begin

text \<open>
  The properties of the serverless gateway, and a run of it: a long request is being forwarded
  when another part of its application is released.
\<close>

section \<open>A run\<close>

definition demo_target :: "int \<Rightarrow> IdleHTTPService" where
  "demo_target revision = \<lparr>it_ApplicationID = ''a1'', it_Project = ''shop'', it_Environment = ''prod'', it_Service = ''web'',
     it_Revision = revision, it_Hosts = [''shop.example.org'']\<rparr>"

definition demo_route :: "int \<Rightarrow> Route" where
  "demo_route revision = \<lparr>rt_Target = demo_target revision, rt_Backend = ''http://10.0.0.7:8080'',
     rt_Settings = \<lparr>sl_MinReplicas = 0, sl_IdleSeconds = 30, sl_StartupTimeoutSeconds = 60, sl_RequestTimeoutSeconds = 300, sl_MaxConcurrency = 1\<rparr>\<rparr>"

definition long_request :: "event list" where
  "long_request =
     [Arrive 1 ''Shop.example.org:443'' 10, Look 1, RefreshDone (Some [demo_route 1]), Look 1, Validated 1 True, GateTaken 1,
      TransitionTaken 1, Woken 1 True, Rechecked 1 True]"

definition release :: "event list" where
  "release = [Tick (5 * seconds), LoopRefresh, RefreshDone (Some [demo_route 2]), Tick (30 * seconds), SleepRound, SleepNext]"

definition demo_gateway :: gateway where
  "demo_gateway = \<lparr>gw_now = 35 * seconds,
     gw_heap = [(fresh_entry 0 (demo_route 1))\<lparr>en_awake := True, en_active := 1\<rparr>,
       (fresh_entry (5 * seconds) (demo_route 2))\<lparr>en_gate := True\<rparr>],
     gw_routes = [(''shop.example.org'', 1)], gw_entries = [(''a1/web'', 1)], gw_refreshed = 5 * seconds, gw_refresh = None,
     gw_slots = 1, gw_transitions = 0, gw_requests = [(1, Forwarding 0)], gw_visit = [], gw_sleeper = Some 1, gw_answers = []\<rparr>"

lemma demo_gateway_run: "grun (long_request @ release) (New 0) = Some demo_gateway"
  by code_simp

lemma greachable_run: "greachable g \<Longrightarrow> grun evs g = Some g' \<Longrightarrow> greachable g'"
  by (induction evs arbitrary: g) (auto split: option.splits intro: greachable.step)

lemma demo_reachable: "greachable demo_gateway"
  by (rule greachable_run [OF greachable.start demo_gateway_run(1)])

section \<open>Properties\<close>

text \<open>
  C19. In every reachable state of the gateway at most 128 requests are inside, at most two
  services are being woken, and each entry serves exactly the requests its counter says, never
  more than its configured limit, which is at most 64.
\<close>

theorem gateway_bounds:
  assumes "greachable g"
  shows "int (length (gw_requests g)) \<le> 128 \<and> cnt wakes g \<le> 2
    \<and> (\<forall>e < length (gw_heap g). let v = gw_heap g ! e in
         en_active v = cnt (forwards e) g \<and> cnt (forwards e) g \<le> sl_MaxConcurrency (rt_Settings (en_route v))
         \<and> sl_MaxConcurrency (rt_Settings (en_route v)) \<le> 64)"
  using greachable_ok [OF assms]
  by (auto simp: gateway_ok_def ids_ok_def transitions_ok_def entry_ok_def entry_inv_def limit_def Let_def)

theorem gateway_bounds_witness:
  "greachable demo_gateway \<and> cnt (forwards 0) demo_gateway = 1 \<and> cnt (forwards 0) demo_gateway \<le> sl_MaxConcurrency (rt_Settings (demo_route 1))"
proof -
  have "0 < length (gw_heap demo_gateway)" "gw_heap demo_gateway ! 0 = (fresh_entry 0 (demo_route 1))\<lparr>en_awake := True, en_active := 1\<rparr>"
    by (simp_all add: demo_gateway_def)
  with gateway_bounds [OF demo_reachable] show ?thesis
    using demo_reachable by (auto simp: Let_def fresh_entry_def)
qed

text \<open>
  C20. While an entry is put to sleep it serves no request and none is being woken or checked
  for it, and a request is forwarded only for an entry that is awake. The witness shows how far
  this reaches: a release of the application replaces the entry of a service, so a request that
  is still forwarded by the old entry does not keep the new one, and with it the service, awake.
\<close>

theorem gateway_sleep_safe:
  assumes "greachable g" and "map_of (gw_requests g) r = Some q"
  shows "(gw_sleeper g = Some e \<longrightarrow> \<not> forwards e q \<and> \<not> holds e q \<and> \<not> rechecks e q)
    \<and> (forwards e q \<longrightarrow> en_awake (gw_heap g ! e))"
proof (cases "forwards e q \<or> holds e q \<or> rechecks e q")
  case True
  then have "e < length (gw_heap g)"
    using refs_entry [OF ok_parts(3) [OF greachable_ok [OF assms(1)]] assms(2)]
    by (auto simp: forwards_def holds_def rechecks_def)
  then have "entry_ok g e" using ok_parts(5) [OF greachable_ok [OF assms(1)]] by simp
  moreover have "forwards e q \<Longrightarrow> 0 < cnt (forwards e) g"
    using cnt_pos [OF map_of_SomeD [OF assms(2)], of "forwards e"] .
  moreover have "holds e q \<Longrightarrow> gw_sleeper g \<noteq> Some e" "rechecks e q \<Longrightarrow> gw_sleeper g \<noteq> Some e"
    using holder_facts [OF greachable_ok [OF assms(1)] assms(2) \<open>e < length (gw_heap g)\<close>] by blast+
  ultimately show ?thesis by (auto simp: entry_ok_def entry_inv_def)
qed simp

theorem gateway_sleep_safe_witness:
  "\<not> forwards 1 (Forwarding 0) \<and> en_awake (gw_heap demo_gateway ! 0)
   \<and> gw_sleeper demo_gateway = Some 1 \<and> gw_requests demo_gateway = [(1, Forwarding 0)]
   \<and> key (en_route (gw_heap demo_gateway ! 0)) = key (en_route (gw_heap demo_gateway ! 1))"
proof -
  have q: "map_of (gw_requests demo_gateway) 1 = Some (Forwarding 0)" by (simp add: demo_gateway_def)
  have "key (en_route (gw_heap demo_gateway ! 0)) = key (en_route (gw_heap demo_gateway ! 1))"
    by (simp add: demo_gateway_def fresh_entry_def demo_route_def demo_target_def key_def)
  then show ?thesis
    using gateway_sleep_safe [OF demo_reachable q, of 1] gateway_sleep_safe [OF demo_reachable q, of 0]
    by (simp add: demo_gateway_def)
qed

text \<open>
  C21. No request waits for ever. From every reachable state a run of progress events, those
  other than the clock, new requests and the start of a refresh or a sleep, is no longer than
  the work left, whatever the runtime answers; and as long as a request is inside, a progress
  event is possible. So every run that cannot go on has answered every request.
\<close>

theorem gateway_answers_all:
  assumes "greachable g" and "list_all progress evs" and "grun evs g = Some g'"
  shows "length evs \<le> work g \<and> (gw_requests g' \<noteq> [] \<longrightarrow> (\<exists>ev. progress ev \<and> gstep ev g' \<noteq> None))"
  using grun_work [OF greachable_ok [OF assms(1)] assms(2,3)] request_moves [OF grun_ok [OF greachable_ok [OF assms(1)] assms(3)]]
  by auto

theorem gateway_answers_all_witness:
  "\<exists>g'. grun [Forwarded 1 200, SleepDone True, Left 1 200] demo_gateway = Some g' \<and> gw_requests g' = [] \<and> 3 \<le> work demo_gateway"
proof -
  have "\<exists>g'. grun [Forwarded 1 200, SleepDone True, Left 1 200] demo_gateway = Some g' \<and> gw_requests g' = []"
    by (simp add: demo_gateway_def set_phase_def slept_def left_def answer_def on_entry_def fresh_entry_def)
  then obtain g' where g': "grun [Forwarded 1 200, SleepDone True, Left 1 200] demo_gateway = Some g'" "gw_requests g' = []"
    by blast
  from gateway_answers_all [OF demo_reachable _ g'(1)] g' show ?thesis by simp
qed

end
