(* ===== verification/Go_Utf8.thy ===== *)
theory Go_Utf8
  imports Go_Strings
begin

text \<open>
  Package unicode/utf8: whether a byte string is valid UTF-8, and the runes a loop over it sees.
\<close>

text \<open>\<open>utf8.ValidString\<close>.\<close>

definition cont :: "char \<Rightarrow> bool" where
  "cont c \<longleftrightarrow> 128 \<le> code c \<and> code c \<le> 191"

definition second_byte :: "char \<Rightarrow> char \<Rightarrow> bool" where
  "second_byte c d \<longleftrightarrow> cont d
     \<and> (code c = 224 \<longrightarrow> 160 \<le> code d) \<and> (code c = 237 \<longrightarrow> code d \<le> 159)
     \<and> (code c = 240 \<longrightarrow> 144 \<le> code d) \<and> (code c = 244 \<longrightarrow> code d \<le> 143)"

fun ValidString :: "string \<Rightarrow> bool" where
  "ValidString [] = True"
| "ValidString (c # s) =
     (if code c < 128 then ValidString s
      else if 194 \<le> code c \<and> code c \<le> 223 then (case s of d # s' \<Rightarrow> cont d \<and> ValidString s' | _ \<Rightarrow> False)
      else if 224 \<le> code c \<and> code c \<le> 239 then
        (case s of d # e # s' \<Rightarrow> second_byte c d \<and> cont e \<and> ValidString s' | _ \<Rightarrow> False)
      else if 240 \<le> code c \<and> code c \<le> 244 then
        (case s of d # e # f # s' \<Rightarrow> second_byte c d \<and> cont e \<and> cont f \<and> ValidString s' | _ \<Rightarrow> False)
      else False)"

text \<open>The runes of a byte string; a byte that starts no valid encoding is U+FFFD.\<close>

definition first_rune :: "char \<Rightarrow> string \<Rightarrow> nat \<times> nat" where
  "first_rune c s =
     (if code c < 128 then (code c, 0)
      else if 194 \<le> code c \<and> code c \<le> 223 \<and> (case s of d # _ \<Rightarrow> cont d | _ \<Rightarrow> False) then
        ((code c - 192) * 64 + (code (s ! 0) - 128), 1)
      else if 224 \<le> code c \<and> code c \<le> 239 \<and> (case s of d # e # _ \<Rightarrow> second_byte c d \<and> cont e | _ \<Rightarrow> False) then
        (((code c - 224) * 64 + (code (s ! 0) - 128)) * 64 + (code (s ! 1) - 128), 2)
      else if 240 \<le> code c \<and> code c \<le> 244 \<and> (case s of d # e # f # _ \<Rightarrow> second_byte c d \<and> cont e \<and> cont f | _ \<Rightarrow> False) then
        ((((code c - 240) * 64 + (code (s ! 0) - 128)) * 64 + (code (s ! 1) - 128)) * 64 + (code (s ! 2) - 128), 3)
      else (65533, 0))"

fun runes :: "string \<Rightarrow> nat list" where
  "runes [] = []"
| "runes (c # s) = (case first_rune c s of (r, k) \<Rightarrow> r # runes (drop k s))"

end
