(* ===== verification/Spec_Dotenv.thy ===== *)
theory Spec_Dotenv
  imports Spec_Patterns Go_Utf8
begin

text \<open>
  Environment files (internal/spec/env_files.go): the names an application may refer to and
  the parser of their contents. A file is bytes; its text is UTF-8.
\<close>

section \<open>Names of environment files\<close>

text \<open>A decoded TOML value: what \<open>any\<close> holds, as far as the code looks at it.\<close>

datatype toml_value =
  TomlNil | TomlString string | TomlBool bool | TomlArray "toml_value list"
| TomlTable "(string \<times> toml_value) list" | TomlOther

definition file_names :: "toml_value \<Rightarrow> string list option result" where
  "file_names v =
     (case v of
        TomlNil \<Rightarrow> Inr None
      | TomlString s \<Rightarrow> Inr (Some [s])
      | TomlArray items \<Rightarrow>
          if list_all (\<lambda>i. case i of TomlString _ \<Rightarrow> True | _ \<Rightarrow> False) items
          then Inr (Some (map (\<lambda>i. case i of TomlString s \<Rightarrow> s | _ \<Rightarrow> []) items))
          else Inl (Err ''env_file: use a relative filename or an array of filenames'')
      | _ \<Rightarrow> Inl (Err ''env_file: use a relative filename or an array of filenames''))"

fun check_file_names :: "string list \<Rightarrow> string list \<Rightarrow> unit result" where
  "check_file_names seen [] = Inr ()"
| "check_file_names seen (name # names) =
     andE (checks
       [(name = [] \<or> 200 < len name \<or> PathIsAbs name \<or> PathClean name \<noteq> name \<or> name = ''.'' \<or> name = ''..''
          \<or> HasPrefix name ''../'' \<or> ContainsAny name ([CHR 0x5C, CHR '':'', NUL, CR, LF]) \<or> name \<in> set seen,
         ''env_file: use unique paths inside the configuration directory, without parent traversal'')])
     (check_file_names (name # seen) names)"

definition EnvironmentFilePaths :: "toml_value \<Rightarrow> string list result" where
  "EnvironmentFilePaths v =
     bindE (file_names v) (\<lambda>names.
       case names of
         None \<Rightarrow> Inr []
       | Some ns \<Rightarrow>
           if ns = [] \<or> 8 < len ns then Inl (Err ''env_file: provide 1-8 relative filenames'')
           else andE (check_file_names [] ns) (Inr ns))"

section \<open>The text of a file\<close>

definition MaxEnvironmentFileBytes :: int where "MaxEnvironmentFileBytes = 131072"

text \<open>Both replacements of line ends, in one pass.\<close>

fun newlines :: "string \<Rightarrow> string" where
  "newlines [] = []"
| "newlines (c # s) =
     (if c = CR then LF # (case s of d # s' \<Rightarrow> if d = LF then newlines s' else newlines s | [] \<Rightarrow> [])
      else c # newlines s)"

definition byte_order_mark :: string where
  "byte_order_mark = map char_of [239::nat, 187, 191]"

definition dotenv_lines :: "string \<Rightarrow> string list" where
  "dotenv_lines data =
     Split LF (newlines (if HasPrefix data byte_order_mark then drop 3 data else data))"

section \<open>One assignment\<close>

definition DQ :: char where "DQ = CHR 0x22"
definition SQ :: char where "SQ = CHR 0x27"
definition BS :: char where "BS = CHR 0x5C"

definition strip_export :: "string \<Rightarrow> string" where
  "strip_export line =
     (if HasPrefix line ''export '' \<or> HasPrefix line (''export'' @ [TAB]) then TrimSpace (drop 6 line) else line)"

definition assignment :: "string \<Rightarrow> (string \<times> string) option" where
  "assignment line =
     (case Cut line (CHR ''='') of
        (k, v, ok) \<Rightarrow>
          let key = TrimSpace k in
          if \<not> ok \<or> \<not> envPattern key \<or> 128 < len key then None else Some (key, TrimSpace v))"

text \<open>The inner loop: where the closing quote is, or where the search stopped.\<close>

function quote_end :: "char \<Rightarrow> string \<Rightarrow> nat \<Rightarrow> nat option \<times> nat" where
  "quote_end q src pos =
     (if pos < length src then
        if q = DQ \<and> src ! pos = BS then quote_end q src (pos + 2)
        else if src ! pos = q then (Some pos, pos)
        else quote_end q src (pos + 1)
      else (None, pos))"
  by pat_completeness auto
termination
  by (relation "measure (\<lambda>(q, src, pos). length src - pos)") auto

declare quote_end.simps [simp del]

text \<open>The quoted value and the lines after it; \<open>None\<close> when the quote is never closed.\<close>

fun quoted_value :: "char \<Rightarrow> string \<Rightarrow> nat \<Rightarrow> string list \<Rightarrow> (string \<times> nat \<times> string list) option" where
  "quoted_value q src pos lines =
     (case quote_end q src pos of
        (Some e, _) \<Rightarrow> Some (src, e, lines)
      | (None, pos') \<Rightarrow> (case lines of [] \<Rightarrow> None | l # ls \<Rightarrow> quoted_value q (src @ LF # l) pos' ls))"

declare quoted_value.simps [simp del]

text \<open>The escapes of a double-quoted value.\<close>

fun unescape_value :: "string \<Rightarrow> string" where
  "unescape_value [] = []"
| "unescape_value (c # s) =
     (if c = BS then
        (case s of
           [] \<Rightarrow> [c]
         | d # s' \<Rightarrow>
             if d = CHR ''n'' then LF # unescape_value s'
             else if d = CHR ''r'' then CR # unescape_value s'
             else if d = CHR ''t'' then TAB # unescape_value s'
             else if d = DQ \<or> d = BS then d # unescape_value s'
             else c # unescape_value s)
      else c # unescape_value s)"

text \<open>An unquoted value ends before a comment, and loses spaces and tabs at its end.\<close>

fun drop_comment :: "char \<Rightarrow> string \<Rightarrow> string" where
  "drop_comment before [] = []"
| "drop_comment before (c # s) =
     (if c = CHR ''#'' \<and> (before = CHR '' '' \<or> before = TAB) then [] else c # drop_comment c s)"

definition plain_value :: "string \<Rightarrow> string" where
  "plain_value v = rev (dropWhile (\<lambda>c. c = CHR '' '' \<or> c = TAB) (rev (drop_comment (CHR '' '') v)))"

definition dotenv_value :: "string \<Rightarrow> string list \<Rightarrow> (string \<times> string list) result" where
  "dotenv_value value lines =
     (if HasPrefix value [DQ] \<or> HasPrefix value [SQ] then
        (let q = hd value in
         case quoted_value q (tl value) 0 lines of
           None \<Rightarrow> Inl (Err ''env_file: unclosed quoted value'')
         | Some (src, e, rest) \<Rightarrow>
             let tail = TrimSpace (drop (e + 1) src); v = take e src in
             if tail \<noteq> [] \<and> \<not> HasPrefix tail ''#'' then Inl (Err ''env_file: unexpected text after a quoted value'')
             else Inr (if q = DQ then unescape_value v else v, rest))
      else Inr (plain_value value, lines))"

definition value_limit :: "string \<Rightarrow> string \<Rightarrow> unit result" where
  "value_limit key value =
     checks [(65536 < len value \<or> (4096 < len value \<and> \<not> sensitiveEnv key value),
       ''env_file: plain values must be at most 4096 bytes and secrets at most 64 KiB'')]"

section \<open>The file\<close>

lemma quoted_lines: "quoted_value q src pos lines = Some (s, e, rest) \<Longrightarrow> length rest \<le> length lines"
proof (induction q src pos lines rule: quoted_value.induct)
  case (1 q src pos lines)
  show ?case
  proof (cases "fst (quote_end q src pos)")
    case None
    then obtain pos' where n: "quote_end q src pos = (None, pos')" by (metis prod.collapse)
    then obtain l ls where l: "lines = l # ls" using 1(2) by (cases lines) (simp_all add: quoted_value.simps [of q src pos])
    have "quoted_value q (src @ LF # l) pos' ls = Some (s, e, rest)" using 1(2) by (simp add: quoted_value.simps [of q src pos] n l)
    from 1(1) [OF n [symmetric] refl l this] show ?thesis by (simp add: l)
  next
    case (Some a)
    then show ?thesis using 1(2) by (auto simp: quoted_value.simps [of q src pos] split: prod.splits)
  qed
qed

lemma dotenv_value_lines: "dotenv_value value lines = Inr (v, rest) \<Longrightarrow> length rest \<le> length lines"
  by (auto simp: dotenv_value_def Let_def split: if_splits option.splits prod.splits dest: quoted_lines)

function dotenv_loop :: "string list \<Rightarrow> string gomap \<Rightarrow> string gomap result" where
  "dotenv_loop [] values = Inr values"
| "dotenv_loop (raw # lines) values =
     (let line = TrimSpace raw in
      if line = [] \<or> HasPrefix line ''#'' then dotenv_loop lines values
      else
        (case assignment (strip_export line) of
           None \<Rightarrow> Inl (Err ''env_file: invalid assignment; use NAME=value'')
         | Some (key, value) \<Rightarrow>
             if gm_has values key then Inl (Err ''env_file: duplicate variable'')
             else
               (case dotenv_value value lines of
                  Inl err \<Rightarrow> Inl err
                | Inr (v, rest) \<Rightarrow>
                    andE (value_limit key v)
                    (let values' = gm_set key v values in
                     if 128 < length values' then Inl (Err ''env_file: at most 128 variables per file'')
                     else dotenv_loop rest values'))))"
  by pat_completeness auto
termination
  by (relation "measure (\<lambda>(lines, values). length lines)") (auto dest: dotenv_value_lines)

definition ParseDotenv :: "string \<Rightarrow> string gomap result" where
  "ParseDotenv data =
     (if MaxEnvironmentFileBytes < len data \<or> \<not> ValidString data \<or> NUL \<in> set data
      then Inl (Err ''env_file: use UTF-8 text without NUL, at most 128 KiB'')
      else dotenv_loop (dotenv_lines data) [])"

end
