(* ===== verification/Spec_Import.thy ===== *)
theory Spec_Import
  imports Spec_Dotenv Spec_Normalize
begin

text \<open>
  The import of environment files into an application document (internal/spec/env_files.go,
  and \<open>Parse\<close> of spec.go). The TOML library is a parameter: \<open>read_doc\<close> decodes a document
  into tables, \<open>write_doc\<close> encodes one, \<open>read_app\<close> is the strict decoder of \<open>Parse\<close>. The
  function \<open>bind\<close> that names a secret may draw a fresh name at each call, so it is a function
  of the number of the call.
\<close>

type_synonym document = "toml_value gomap"

record toml_library =
  read_doc :: "string \<Rightarrow> document option"
  write_doc :: "document \<Rightarrow> string option"
  read_app :: "string \<Rightarrow> Application option"

type_synonym secret_namer = "nat \<Rightarrow> string \<Rightarrow> string \<Rightarrow> string"

section \<open>Parse\<close>

text \<open>The typed decoder leaves an explicit empty table of services as a nil map; the document tells.\<close>

definition keep_empty_services :: "toml_library \<Rightarrow> string \<Rightarrow> Application \<Rightarrow> Application result" where
  "keep_empty_services lib data app =
     (if app_Services app = None then
        (case read_doc lib data of
           None \<Rightarrow> Inl (Err ''invalid TOML service table'')
         | Some doc \<Rightarrow>
             Inr (if gm_get doc ''services'' = Some (TomlTable []) then app\<lparr>app_Services := Some []\<rparr> else app))
      else Inr app)"

definition Parse :: "'q externals \<Rightarrow> toml_library \<Rightarrow> string \<Rightarrow> Application result" where
  "Parse ex lib data =
     andE (checks [(MaxBytes < len data, ''application TOML exceeds 262144 bytes'')])
     (case read_app lib data of
        None \<Rightarrow> Inl (Err ''invalid TOML syntax or field type'')
      | Some app \<Rightarrow> bindE (keep_empty_services lib data app) (Normalize ex))"

section \<open>Which files a document names\<close>

text \<open>The closure \<open>read\<close>: the names of one table, without \<open>env_file\<close>.\<close>

definition read_file_refs :: "document \<Rightarrow> string \<Rightarrow> string list gomap \<Rightarrow> (document \<times> string list gomap) result" where
  "read_file_refs table service refs =
     (case gm_get table ''env_file'' of
        None \<Rightarrow> Inr (table, refs)
      | Some value \<Rightarrow>
          bindE (EnvironmentFilePaths value) (\<lambda>names.
          Inr (gm_del ''env_file'' table, gm_set service names refs)))"

fun read_services :: "document \<Rightarrow> string list gomap \<Rightarrow> (document \<times> string list gomap) result" where
  "read_services [] refs = Inr ([], refs)"
| "read_services ((name, value) # services) refs =
     (case value of
        TomlTable table \<Rightarrow>
          bindE (read_file_refs table name refs) (\<lambda>(table', refs').
          bindE (read_services services refs') (\<lambda>(rest, refs'').
          Inr ((name, TomlTable table') # rest, refs'')))
      | _ \<Rightarrow>
          bindE (read_services services refs) (\<lambda>(rest, refs'). Inr ((name, value) # rest, refs')))"

definition environmentDocument :: "toml_library \<Rightarrow> string \<Rightarrow> (document \<times> string list gomap) result" where
  "environmentDocument lib data =
     andE (checks [(MaxBytes < len data, ''application TOML exceeds 256 KiB'')])
     (case read_doc lib data of
        None \<Rightarrow> Inl (Err ''invalid TOML syntax or field type'')
      | Some doc \<Rightarrow>
          bindE (read_file_refs doc [] []) (\<lambda>(doc', refs).
          case gm_get doc' ''services'' of
            Some (TomlTable services) \<Rightarrow>
              bindE (read_services services refs) (\<lambda>(services', refs').
              Inr (gm_set ''services'' (TomlTable services') doc', refs'))
          | _ \<Rightarrow> Inr (doc', refs)))"

definition EnvironmentFileNames :: "toml_library \<Rightarrow> string \<Rightarrow> string list result" where
  "EnvironmentFileNames lib data =
     bindE (environmentDocument lib data) (\<lambda>(_, refs).
     let names = sort (remdups (concat (map snd refs))) in
     andE (checks [(8 < len names, ''env_file: at most 8 files per application import'')]) (Inr names))"

section \<open>Reading the files\<close>

fun parse_files :: "string gomap \<Rightarrow> string list \<Rightarrow> int \<Rightarrow> string gomap gomap \<Rightarrow> string gomap gomap result" where
  "parse_files files [] used parsed = Inr parsed"
| "parse_files files (name # names) used parsed =
     (case gm_get files name of
        None \<Rightarrow> Inl (Err ''env_file: upload it or place it beside your configuration for the CLI'')
      | Some body \<Rightarrow>
          andE (checks [(MaxEnvironmentFileBytes < used + len body, ''env_file: combined files exceed 128 KiB'')])
          (bindE (ParseDotenv body) (\<lambda>values.
          parse_files files names (used + len body) (gm_set name values parsed))))"

definition merge_files :: "string gomap gomap \<Rightarrow> string list \<Rightarrow> string gomap" where
  "merge_files parsed names =
     fold (\<lambda>name merged. gm_set_all (case gm_get parsed name of Some values \<Rightarrow> values | None \<Rightarrow> []) merged) names []"

section \<open>One table\<close>

text \<open>What the loop over the variables changes: the two tables, the secrets, the calls of \<open>bind\<close>.\<close>

record import_state =
  is_Env :: document
  is_Refs :: document
  is_Secrets :: "string gomap"
  is_Calls :: nat

definition import_variable :: "secret_namer option \<Rightarrow> import_state \<Rightarrow> string \<times> string \<Rightarrow> import_state result" where
  "import_variable bind st kv =
     (case kv of (key, value) \<Rightarrow>
       if gm_has (is_Env st) key \<or> gm_has (is_Refs st) key then Inr st
       else if sensitiveEnv key value then
         (if value = [] then Inl (Err ''env_file: sensitive variables need a nonempty value or an explicit secret reference'')
          else
            (case bind of
               None \<Rightarrow> Inl (Err ''env_file: secret storage is required for sensitive values'')
             | Some b \<Rightarrow>
                 let ref = b (is_Calls st) key value in
                 Inr (st\<lparr>is_Refs := gm_set key (TomlTable [(''ref'', TomlString ref)]) (is_Refs st),
                         is_Secrets := gm_set ref value (is_Secrets st), is_Calls := is_Calls st + 1\<rparr>)))
       else Inr (st\<lparr>is_Env := gm_set key (TomlString value) (is_Env st)\<rparr>))"

definition sub_table :: "string \<Rightarrow> document \<Rightarrow> document result" where
  "sub_table field table =
     (case gm_get table field of
        None \<Rightarrow> Inr []
      | Some (TomlTable t) \<Rightarrow> Inr t
      | Some _ \<Rightarrow> Inl (Err (field @ '': expected a table'')))"

definition import_table :: "secret_namer option \<Rightarrow> string gomap \<Rightarrow> document \<Rightarrow> string gomap \<Rightarrow> nat
    \<Rightarrow> (document \<times> string gomap \<times> nat) result" where
  "import_table bind merged table secrets calls =
     bindE (sub_table ''env'' table) (\<lambda>env.
     bindE (sub_table ''secrets'' table) (\<lambda>refs.
     bindE (foldE (import_variable bind) \<lparr>is_Env = env, is_Refs = refs, is_Secrets = secrets, is_Calls = calls\<rparr> merged) (\<lambda>st.
     Inr (gm_set ''secrets'' (TomlTable (is_Refs st)) (gm_set ''env'' (TomlTable (is_Env st)) table),
          is_Secrets st, is_Calls st))))"

section \<open>The document\<close>

text \<open>\<open>document["services"].(map[string]any)[service].(map[string]any)\<close>; a failed assertion panics.\<close>

definition service_table :: "document \<Rightarrow> string \<Rightarrow> document result" where
  "service_table doc service =
     (case gm_get doc ''services'' of
        Some (TomlTable services) \<Rightarrow>
          (case gm_get services service of Some (TomlTable t) \<Rightarrow> Inr t | _ \<Rightarrow> Inl (Err ''panic''))
      | _ \<Rightarrow> Inl (Err ''panic''))"

definition set_service_table :: "string \<Rightarrow> document \<Rightarrow> document \<Rightarrow> document" where
  "set_service_table service table doc =
     (case gm_get doc ''services'' of
        Some (TomlTable services) \<Rightarrow> gm_set ''services'' (TomlTable (gm_set service (TomlTable table) services)) doc
      | _ \<Rightarrow> doc)"

definition inject_table :: "document \<Rightarrow> document result" where
  "inject_table doc =
     andE (checks
       [(gm_get doc ''inject_env'' \<notin> {None, Some (TomlBool True)},
         ''env_file: application files enable shared injection; remove inject_env = false or remove env_file'')])
     (Inr (gm_set ''inject_env'' (TomlBool True) doc))"

definition import_refs :: "secret_namer option \<Rightarrow> string gomap gomap \<Rightarrow> document \<times> string gomap \<times> nat \<Rightarrow> string \<times> string list
    \<Rightarrow> (document \<times> string gomap \<times> nat) result" where
  "import_refs bind parsed st ref =
     (case (st, ref) of ((doc, secrets, calls), (service, names)) \<Rightarrow>
       bindE (if service = [] then inject_table doc else service_table doc service) (\<lambda>table.
       bindE (import_table bind (merge_files parsed names) table secrets calls) (\<lambda>(table', secrets', calls').
       Inr (if service = [] then table' else set_service_table service table' doc, secrets', calls'))))"

text \<open>\<open>EnvironmentImport\<close>: the specification and the secrets.\<close>

definition ImportEnvironmentFiles :: "'q externals \<Rightarrow> toml_library \<Rightarrow> string \<Rightarrow> string gomap \<Rightarrow> secret_namer option
    \<Rightarrow> (Application \<times> string gomap) result" where
  "ImportEnvironmentFiles ex lib data files bind =
     bindE (environmentDocument lib data) (\<lambda>(doc, refs).
     bindE (EnvironmentFileNames lib data) (\<lambda>names.
     andE (checks [(8 < len files, ''env_file: at most 8 files'')])
     (bindE (parse_files files names 0 []) (\<lambda>parsed.
     andE (checks [(\<exists>name \<in> set (gm_keys files). \<not> gm_has parsed name, ''env_file: an uploaded file is not referenced by the configuration'')])
     (bindE (foldE (import_refs bind parsed) (doc, [], 0) refs) (\<lambda>(doc', secrets, _).
     case write_doc lib doc' of
       None \<Rightarrow> Inl (Err ''env_file: could not encode imported configuration'')
     | Some encoded \<Rightarrow> bindE (Parse ex lib encoded) (\<lambda>app. Inr (app, secrets))))))))"

end
