(* ===== verification/Spec_Import_Facts.thy ===== *)
theory Spec_Import_Facts
  imports Spec_Import
begin

text \<open>
  What the import of environment files does to each table of a document: the variables its
  author wrote stay, a plain variable of a file becomes a value, a sensitive one a reference
  whose secret is handed to the caller.
\<close>

section \<open>Tables\<close>

definition table_entry :: "string \<Rightarrow> document \<Rightarrow> string \<Rightarrow> toml_value option" where
  "table_entry field table k = (case gm_get table field of Some (TomlTable t) \<Rightarrow> gm_get t k | _ \<Rightarrow> None)"

definition table_of :: "document \<Rightarrow> string \<Rightarrow> document" where
  "table_of doc service =
     (if service = [] then doc else case service_table doc service of Inr t \<Rightarrow> t | Inl _ \<Rightarrow> [])"

text \<open>The variables that the files give to a table; the last file that has one wins.\<close>

definition file_vars :: "string gomap gomap \<Rightarrow> string list gomap \<Rightarrow> string \<Rightarrow> string gomap" where
  "file_vars parsed refs service =
     (case gm_get refs service of Some names \<Rightarrow> merge_files parsed names | None \<Rightarrow> [])"

text \<open>What a table holds for one variable after the import.\<close>

definition holds_variable :: "string gomap \<Rightarrow> string \<Rightarrow> string \<Rightarrow> toml_value option \<Rightarrow> toml_value option \<Rightarrow> bool" where
  "holds_variable secrets k v env ref \<longleftrightarrow>
     (if sensitiveEnv k v
      then env = None \<and> v \<noteq> [] \<and> (\<exists>r. ref = Some (TomlTable [(''ref'', TomlString r)]) \<and> gm_get secrets r = Some v)
      else env = Some (TomlString v) \<and> ref = None)"

definition imports_variable :: "string gomap \<Rightarrow> string gomap \<Rightarrow> document \<Rightarrow> document \<Rightarrow> string \<Rightarrow> bool" where
  "imports_variable secrets vars t t' k \<longleftrightarrow>
     (let env = table_entry ''env'' t k; ref = table_entry ''secrets'' t k; env' = table_entry ''env'' t' k; ref' = table_entry ''secrets'' t' k in
      if env \<noteq> None \<or> ref \<noteq> None then env' = env \<and> ref' = ref
      else (case gm_get vars k of None \<Rightarrow> env' = None \<and> ref' = None | Some v \<Rightarrow> holds_variable secrets k v env' ref'))"

section \<open>Names drawn so far\<close>

definition fresh_names :: "secret_namer option \<Rightarrow> bool" where
  "fresh_names bind \<longleftrightarrow> (\<forall>b n m k v k' v'. bind = Some b \<longrightarrow> b n k v = b m k' v' \<longrightarrow> n = m)"

text \<open>Every secret was stored under a name drawn by one of the calls so far.\<close>

definition drawn :: "secret_namer option \<Rightarrow> string gomap \<Rightarrow> nat \<Rightarrow> bool" where
  "drawn bind secrets calls \<longleftrightarrow>
     (\<forall>r v. gm_get secrets r = Some v \<longrightarrow> (\<exists>b n k w. bind = Some b \<and> n < calls \<and> r = b n k w))"

abbreviation secrets_kept :: "string gomap \<Rightarrow> string gomap \<Rightarrow> bool" where
  "secrets_kept secrets secrets' \<equiv> \<forall>r v. gm_get secrets r = Some v \<longrightarrow> gm_get secrets' r = Some v"

lemma drawn_Nil: "drawn bind [] 0"
  by (simp add: drawn_def)

lemma not_drawn: "fresh_names bind \<Longrightarrow> drawn bind secrets calls \<Longrightarrow> bind = Some b \<Longrightarrow> gm_get secrets (b calls k v) = None"
  by (cases "gm_get secrets (b calls k v)") (auto simp: drawn_def fresh_names_def, blast)

section \<open>The loop over the variables\<close>

lemma import_variable_frame:
  assumes "import_variable bind st (k, v) = Inr st'" and "fresh_names bind" and "drawn bind (is_Secrets st) (is_Calls st)"
  shows "drawn bind (is_Secrets st') (is_Calls st')" and "secrets_kept (is_Secrets st) (is_Secrets st')"
    and "k' \<noteq> k \<Longrightarrow> gm_get (is_Env st') k' = gm_get (is_Env st) k' \<and> gm_get (is_Refs st') k' = gm_get (is_Refs st) k'"
proof -
  have "drawn bind (is_Secrets st') (is_Calls st') \<and> secrets_kept (is_Secrets st) (is_Secrets st')
      \<and> (k' \<noteq> k \<longrightarrow> gm_get (is_Env st') k' = gm_get (is_Env st) k' \<and> gm_get (is_Refs st') k' = gm_get (is_Refs st) k')"
  proof (cases "gm_has (is_Env st) k \<or> gm_has (is_Refs st) k \<or> \<not> sensitiveEnv k v")
    case True
    then show ?thesis using assms(1,3) by (auto simp: import_variable_def split: if_splits)
  next
    case False
    then obtain b where b: "bind = Some b"
      "st' = st\<lparr>is_Refs := gm_set k (TomlTable [(''ref'', TomlString (b (is_Calls st) k v))]) (is_Refs st),
                is_Secrets := gm_set (b (is_Calls st) k v) v (is_Secrets st), is_Calls := is_Calls st + 1\<rparr>"
      using assms(1) by (auto simp: import_variable_def Let_def split: if_splits option.splits)
    have new: "gm_get (is_Secrets st) (b (is_Calls st) k v) = None" by (rule not_drawn [OF assms(2,3) b(1)])
    have "drawn bind (is_Secrets st') (is_Calls st')" using assms(3) unfolding drawn_def
      by (auto simp: b(2)) (use b(1) less_SucI in blast)+
    then show ?thesis using new by (auto simp: b(2))
  qed
  then show "drawn bind (is_Secrets st') (is_Calls st')" and "secrets_kept (is_Secrets st) (is_Secrets st')"
    and "k' \<noteq> k \<Longrightarrow> gm_get (is_Env st') k' = gm_get (is_Env st) k' \<and> gm_get (is_Refs st') k' = gm_get (is_Refs st) k'"
    by blast+
qed

lemma import_variable_written:
  assumes "import_variable bind st (k, v) = Inr st'" and "gm_get (is_Env st) k \<noteq> None \<or> gm_get (is_Refs st) k \<noteq> None"
  shows "st' = st"
  using assms by (auto simp: import_variable_def gm_has_def split: if_splits)

lemma import_variable_new:
  assumes "import_variable bind st (k, v) = Inr st'" and "gm_get (is_Env st) k = None" and "gm_get (is_Refs st) k = None"
  shows "holds_variable (is_Secrets st') k v (gm_get (is_Env st') k) (gm_get (is_Refs st') k)"
  using assms by (auto simp: import_variable_def gm_has_def holds_variable_def Let_def split: if_splits option.splits)

lemma holds_kept: "holds_variable secrets k v env ref \<Longrightarrow> secrets_kept secrets secrets' \<Longrightarrow> holds_variable secrets' k v env ref"
  by (auto simp: holds_variable_def split: if_splits)

text \<open>Each key once: what the loop leaves for a key is what the step of that key left.\<close>

lemma import_variables:
  assumes "foldE (import_variable bind) st vars = Inr st'" and "distinct (map fst vars)"
    and "fresh_names bind" and "drawn bind (is_Secrets st) (is_Calls st)"
  shows "drawn bind (is_Secrets st') (is_Calls st') \<and> secrets_kept (is_Secrets st) (is_Secrets st')
    \<and> (\<forall>k. if gm_get (is_Env st) k \<noteq> None \<or> gm_get (is_Refs st) k \<noteq> None \<or> gm_get vars k = None
         then gm_get (is_Env st') k = gm_get (is_Env st) k \<and> gm_get (is_Refs st') k = gm_get (is_Refs st) k
         else holds_variable (is_Secrets st') k (the (gm_get vars k)) (gm_get (is_Env st') k) (gm_get (is_Refs st') k))"
  using assms
proof (induction vars arbitrary: st)
  case (Cons kv vars)
  obtain k v where kv: "kv = (k, v)" by force
  from Cons.prems(1) obtain u where u: "import_variable bind st (k, v) = Inr u" "foldE (import_variable bind) u vars = Inr st'"
    by (auto simp: result_iff kv)
  note frame = import_variable_frame [OF u(1) Cons.prems(3,4)]
  have IH: "drawn bind (is_Secrets st') (is_Calls st')" "secrets_kept (is_Secrets u) (is_Secrets st')"
    "\<And>k. if gm_get (is_Env u) k \<noteq> None \<or> gm_get (is_Refs u) k \<noteq> None \<or> gm_get vars k = None
         then gm_get (is_Env st') k = gm_get (is_Env u) k \<and> gm_get (is_Refs st') k = gm_get (is_Refs u) k
         else holds_variable (is_Secrets st') k (the (gm_get vars k)) (gm_get (is_Env st') k) (gm_get (is_Refs st') k)"
    using Cons.IH [OF u(2) _ Cons.prems(3) frame(1)] Cons.prems(2) by simp_all
  have none: "gm_get vars k = None" using Cons.prems(2) by (simp add: kv map_of_eq_None_iff)
  have here: "gm_get (is_Env st') k = gm_get (is_Env u) k \<and> gm_get (is_Refs st') k = gm_get (is_Refs u) k"
    using IH(3) [of k] none by simp
  have "if gm_get (is_Env st) j \<noteq> None \<or> gm_get (is_Refs st) j \<noteq> None \<or> gm_get (kv # vars) j = None
         then gm_get (is_Env st') j = gm_get (is_Env st) j \<and> gm_get (is_Refs st') j = gm_get (is_Refs st) j
         else holds_variable (is_Secrets st') j (the (gm_get (kv # vars) j)) (gm_get (is_Env st') j) (gm_get (is_Refs st') j)" for j
  proof (cases "j = k")
    case False
    then show ?thesis using IH(3) [of j] frame(3) [OF False] by (simp add: kv)
  next
    case True
    show ?thesis
    proof (cases "gm_get (is_Env st) k \<noteq> None \<or> gm_get (is_Refs st) k \<noteq> None")
      case t: True
      then show ?thesis using import_variable_written [OF u(1) t] here by (simp add: kv True)
    next
      case False
      then have "holds_variable (is_Secrets u) k v (gm_get (is_Env u) k) (gm_get (is_Refs u) k)" using import_variable_new [OF u(1)] by simp
      from holds_kept [OF this IH(2)] show ?thesis using False here by (simp add: kv True)
    qed
  qed
  then show ?case using IH(1,2) frame(2) by blast
qed simp

section \<open>One table\<close>

lemma sub_table_entry: "sub_table field table = Inr t \<Longrightarrow> gm_get t k = table_entry field table k"
  by (auto simp: sub_table_def table_entry_def split: option.splits toml_value.splits)

lemma import_table_imports:
  assumes "import_table bind vars table secrets calls = Inr (table', secrets', calls')" and "distinct (map fst vars)"
    and "fresh_names bind" and "drawn bind secrets calls"
  shows "drawn bind secrets' calls' \<and> secrets_kept secrets secrets' \<and> (\<forall>k. imports_variable secrets' vars table table' k)
    \<and> (\<forall>f. f \<noteq> ''env'' \<longrightarrow> f \<noteq> ''secrets'' \<longrightarrow> gm_get table' f = gm_get table f)"
proof -
  obtain env refs st where t: "sub_table ''env'' table = Inr env" "sub_table ''secrets'' table = Inr refs"
    "foldE (import_variable bind) \<lparr>is_Env = env, is_Refs = refs, is_Secrets = secrets, is_Calls = calls\<rparr> vars = Inr st"
    "table' = gm_set ''secrets'' (TomlTable (is_Refs st)) (gm_set ''env'' (TomlTable (is_Env st)) table)"
    "secrets' = is_Secrets st" "calls' = is_Calls st"
    using assms(1) by (auto simp: import_table_def result_iff)
  have loop: "drawn bind (is_Secrets st) (is_Calls st)" "secrets_kept secrets (is_Secrets st)"
    "\<And>k. if gm_get env k \<noteq> None \<or> gm_get refs k \<noteq> None \<or> gm_get vars k = None
         then gm_get (is_Env st) k = gm_get env k \<and> gm_get (is_Refs st) k = gm_get refs k
         else holds_variable (is_Secrets st) k (the (gm_get vars k)) (gm_get (is_Env st) k) (gm_get (is_Refs st) k)"
    using import_variables [OF t(3) assms(2,3)] assms(4) by simp_all
  have entries: "table_entry ''env'' table' k = gm_get (is_Env st) k" "table_entry ''secrets'' table' k = gm_get (is_Refs st) k" for k
    by (simp_all add: table_entry_def t(4))
  have "imports_variable secrets' vars table table' k" for k
    using loop(3) [of k] by (auto simp: imports_variable_def Let_def entries t(5) sub_table_entry [OF t(1)] sub_table_entry [OF t(2)] split: option.splits)
  then show ?thesis using loop(1,2) t(4,5,6) by simp
qed

section \<open>The document\<close>

lemma table_entry_cong: "gm_get t field = gm_get t' field \<Longrightarrow> table_entry field t k = table_entry field t' k"
  by (simp add: table_entry_def)

lemma service_table_cong: "gm_get d ''services'' = gm_get d' ''services'' \<Longrightarrow> service_table d s = service_table d' s"
  by (simp add: service_table_def)

lemma service_table_set:
  assumes "service_table doc s = Inr t"
  shows "service_table (set_service_table s t' doc) s' = (if s' = s then Inr t' else service_table doc s')"
  using assms by (auto simp: service_table_def set_service_table_def split: option.splits toml_value.splits)

lemma other_set: "f \<noteq> ''services'' \<Longrightarrow> gm_get (set_service_table s t doc) f = gm_get doc f"
  by (auto simp: set_service_table_def split: option.splits toml_value.splits)

text \<open>A step imports the variables of its own table and leaves every other table.\<close>

lemma import_refs_step:
  assumes "import_refs bind parsed (doc, secrets, calls) (s, names) = Inr (doc', secrets', calls')"
    and "fresh_names bind" and "drawn bind secrets calls"
  shows "drawn bind secrets' calls' \<and> secrets_kept secrets secrets'
    \<and> (\<forall>k. imports_variable secrets' (merge_files parsed names) (table_of doc s) (table_of doc' s) k)
    \<and> (\<forall>s' k. s' \<noteq> s \<longrightarrow> table_entry ''env'' (table_of doc' s') k = table_entry ''env'' (table_of doc s') k
        \<and> table_entry ''secrets'' (table_of doc' s') k = table_entry ''secrets'' (table_of doc s') k)"
proof -
  have wf: "gm_wf (merge_files parsed names)"
    unfolding merge_files_def by (rule fold_invariant [where Q = "\<lambda>_. True" and P = gm_wf]) auto
  then have vars: "distinct (map fst (merge_files parsed names))" using gm_keys_distinct by (simp add: gm_keys_def)
  obtain t t' where t: "(if s = [] then inject_table doc else service_table doc s) = Inr t"
    "import_table bind (merge_files parsed names) t secrets calls = Inr (t', secrets', calls')"
    "doc' = (if s = [] then t' else set_service_table s t' doc)"
    using assms(1) by (auto simp: import_refs_def result_iff)
  have table: "drawn bind secrets' calls'" "secrets_kept secrets secrets'" "\<And>k. imports_variable secrets' (merge_files parsed names) t t' k"
    "\<And>f. f \<noteq> ''env'' \<Longrightarrow> f \<noteq> ''secrets'' \<Longrightarrow> gm_get t' f = gm_get t f"
    using import_table_imports [OF t(2) vars assms(2,3)] by simp_all
  show ?thesis
  proof (cases "s = []")
    case True
    then have inject: "gm_get t f = gm_get doc f" if "f \<noteq> ''inject_env''" for f
      using t(1) that by (auto simp: inject_table_def result_iff)
    have "table_of doc s' = table_of doc' s'" if "s' \<noteq> s" for s'
      using that True table(4) [of "''services''"] inject [of "''services''"] service_table_cong [of doc' doc s']
      by (simp add: table_of_def t(3))
    moreover have "imports_variable secrets' (merge_files parsed names) doc t' k" for k
      using table(3) [of k] inject by (simp add: imports_variable_def table_entry_def)
    ultimately show ?thesis using True table(1,2) by (simp add: table_of_def t(3))
  next
    case False
    then have st: "service_table doc s = Inr t" using t(1) by simp
    have own: "table_of doc s = t" "table_of doc' s = t'" using False st by (simp_all add: table_of_def t(3) service_table_set [OF st])
    have "table_entry f (table_of doc' s') k = table_entry f (table_of doc s') k" if "s' \<noteq> s" "f \<noteq> ''services''" for s' f k
    proof (cases "s' = []")
      case True
      then show ?thesis using False that(2) by (simp add: table_of_def t(3) table_entry_def other_set)
    next
      case s': False
      then show ?thesis using False that(1) by (simp add: table_of_def t(3) service_table_set [OF st])
    qed
    then show ?thesis using table(1-3) own by simp
  qed
qed

lemma imports_kept:
  "imports_variable secrets vars t t' k \<Longrightarrow> secrets_kept secrets secrets' \<Longrightarrow> imports_variable secrets' vars t t' k"
  by (auto simp: imports_variable_def Let_def split: if_splits option.splits intro: holds_kept)

lemma imports_none:
  assumes "table_entry ''env'' t' k = table_entry ''env'' t k" and "table_entry ''secrets'' t' k = table_entry ''secrets'' t k"
  shows "imports_variable secrets [] t t' k"
  using assms by (auto simp: imports_variable_def Let_def)

lemma imports_cong:
  assumes "imports_variable secrets vars t u k"
    and "table_entry ''env'' t' k = table_entry ''env'' t k" and "table_entry ''secrets'' t' k = table_entry ''secrets'' t k"
    and "table_entry ''env'' u' k = table_entry ''env'' u k" and "table_entry ''secrets'' u' k = table_entry ''secrets'' u k"
  shows "imports_variable secrets vars t' u' k"
  using assms by (simp add: imports_variable_def)

lemma import_all_refs:
  assumes "foldE (import_refs bind parsed) (doc, secrets, calls) refs = Inr (doc', secrets', calls')"
    and "distinct (map fst refs)" and "fresh_names bind" and "drawn bind secrets calls"
  shows "secrets_kept secrets secrets' \<and> (\<forall>s k. imports_variable secrets' (file_vars parsed refs s) (table_of doc s) (table_of doc' s) k)"
  using assms
proof (induction refs arbitrary: doc secrets calls)
  case Nil
  then show ?case by (simp add: file_vars_def imports_none)
next
  case (Cons ref refs)
  obtain s names where ref: "ref = (s, names)" by force
  from Cons.prems(1) obtain d x c where u: "import_refs bind parsed (doc, secrets, calls) (s, names) = Inr (d, x, c)"
    "foldE (import_refs bind parsed) (d, x, c) refs = Inr (doc', secrets', calls')"
    by (auto simp: result_iff ref)
  note step = import_refs_step [OF u(1) Cons.prems(3,4)]
  have IH: "secrets_kept x secrets'" "\<And>s k. imports_variable secrets' (file_vars parsed refs s) (table_of d s) (table_of doc' s) k"
    using Cons.IH [OF u(2) _ Cons.prems(3)] step Cons.prems(2) by simp_all
  have none: "gm_get refs s = None" using Cons.prems(2) by (simp add: ref map_of_eq_None_iff)
  have "imports_variable secrets' (file_vars parsed (ref # refs) s') (table_of doc s') (table_of doc' s') k" for s' k
  proof (cases "s' = s")
    case True
    have "imports_variable secrets' (merge_files parsed names) (table_of doc s) (table_of d s) k"
      using step IH(1) imports_kept by blast
    moreover have "table_entry ''env'' (table_of doc' s) k = table_entry ''env'' (table_of d s) k"
      "table_entry ''secrets'' (table_of doc' s) k = table_entry ''secrets'' (table_of d s) k"
      using IH(2) [of s k] none by (auto simp: file_vars_def imports_variable_def Let_def split: if_splits)
    ultimately show ?thesis by (simp add: ref True file_vars_def imports_cong)
  next
    case False
    then have "table_entry f (table_of doc s') k = table_entry f (table_of d s') k" if "f = ''env'' \<or> f = ''secrets''" for f
      using step that by auto
    then have "imports_variable secrets' (file_vars parsed refs s') (table_of doc s') (table_of doc' s') k"
      by (intro imports_cong [OF IH(2)]) simp_all
    then show ?thesis using False by (simp add: ref file_vars_def)
  qed
  then show ?case using IH(1) step by blast
qed

section \<open>The whole import\<close>

lemma read_services_refs: "read_services services refs = Inr (services', refs') \<Longrightarrow> gm_wf refs \<Longrightarrow> gm_wf refs'"
  by (induction services refs arbitrary: services' refs' rule: read_services.induct)
    (fastforce simp: result_iff read_file_refs_def split: toml_value.splits option.splits)+

lemma environmentDocument_refs:
  assumes "environmentDocument lib data = Inr (doc, refs)"
  shows "gm_wf refs"
proof -
  obtain d d' refs' where d: "read_file_refs d [] [] = Inr (d', refs')"
    "(case gm_get d' ''services'' of
            Some (TomlTable services) \<Rightarrow>
              bindE (read_services services refs') (\<lambda>(services', refs'). Inr (gm_set ''services'' (TomlTable services') d', refs'))
          | _ \<Rightarrow> Inr (d', refs')) = Inr (doc, refs)"
    using assms by (auto simp: environmentDocument_def result_iff split: option.splits)
  have "gm_wf refs'" using d(1) by (auto simp: read_file_refs_def result_iff gm_wf_Cons split: option.splits)
  then show ?thesis using d(2) by (auto simp: result_iff split: option.splits toml_value.splits dest!: read_services_refs)
qed

lemma ImportEnvironmentFiles_imports:
  assumes "ImportEnvironmentFiles ex lib data files bind = Inr (app, secrets)" and "fresh_names bind"
  shows "\<exists>doc refs names parsed doc' encoded.
    environmentDocument lib data = Inr (doc, refs) \<and> EnvironmentFileNames lib data = Inr names
    \<and> parse_files files names 0 [] = Inr parsed \<and> write_doc lib doc' = Some encoded \<and> Parse ex lib encoded = Inr app
    \<and> (\<forall>service k. imports_variable secrets (file_vars parsed refs service) (table_of doc service) (table_of doc' service) k)"
proof -
  obtain doc refs names parsed doc' c encoded where i: "environmentDocument lib data = Inr (doc, refs)"
    "EnvironmentFileNames lib data = Inr names" "parse_files files names 0 [] = Inr parsed"
    "foldE (import_refs bind parsed) (doc, [], 0) refs = Inr (doc', secrets, c)"
    "write_doc lib doc' = Some encoded" "Parse ex lib encoded = Inr app"
    using assms(1) by (auto simp: ImportEnvironmentFiles_def result_iff split: option.splits)
  have "distinct (map fst refs)" using gm_keys_distinct [OF environmentDocument_refs [OF i(1)]] by (simp add: gm_keys_def)
  from import_all_refs [OF i(4) this assms(2) drawn_Nil] i show ?thesis by blast
qed

end
