(* ===== verification/Spec_Dotenv_Facts.thy ===== *)
theory Spec_Dotenv_Facts
  imports Spec_Dotenv
begin

text \<open>
  A writer of environment files, and the round trip: what it writes, the parser reads back,
  for every map of variables that the limits of a file admit.
\<close>

section \<open>Writing a file\<close>

fun escape_value :: "string \<Rightarrow> string" where
  "escape_value [] = []"
| "escape_value (c # s) =
     (if c = LF then [BS, CHR ''n''] else if c = CR then [BS, CHR ''r''] else if c = TAB then [BS, CHR ''t'']
      else if c = DQ \<or> c = BS then [BS, c] else [c]) @ escape_value s"

definition dotenv_line :: "string \<times> string \<Rightarrow> string" where
  "dotenv_line kv = fst kv @ CHR ''='' # DQ # escape_value (snd kv) @ [DQ]"

definition dotenv_text :: "string gomap \<Rightarrow> string" where
  "dotenv_text m = Join LF (map dotenv_line m)"

text \<open>A variable that a file can hold.\<close>

definition writable :: "string \<times> string \<Rightarrow> bool" where
  "writable kv \<longleftrightarrow> envPattern (fst kv) \<and> len (fst kv) \<le> 128 \<and> ValidString (snd kv) \<and> NUL \<notin> set (snd kv)
     \<and> value_limit (fst kv) (snd kv) = Inr ()"

section \<open>Values\<close>

lemma special_codes: "code DQ = 34" "code SQ = 39" "code BS = 92" "code LF = 10" "code CR = 13" "code TAB = 9" "code NUL = 0"
  by (simp_all add: DQ_def SQ_def BS_def LF_def CR_def TAB_def NUL_def code_def)

lemma special_chars:
  "DQ \<noteq> BS" "DQ \<noteq> LF" "DQ \<noteq> CR" "DQ \<noteq> TAB" "BS \<noteq> LF" "BS \<noteq> CR" "BS \<noteq> TAB" "DQ \<noteq> NUL" "BS \<noteq> NUL" "LF \<noteq> CR" "LF \<noteq> TAB" "CR \<noteq> TAB"
  "DQ \<noteq> CHR ''n''" "DQ \<noteq> CHR ''r''" "DQ \<noteq> CHR ''t''" "BS \<noteq> CHR ''n''" "BS \<noteq> CHR ''r''" "BS \<noteq> CHR ''t''"
proof -
  have "code CHR ''n'' = 110" "code CHR ''r'' = 114" "code CHR ''t'' = 116" by (simp_all add: code_def)
  then show "DQ \<noteq> BS" "DQ \<noteq> LF" "DQ \<noteq> CR" "DQ \<noteq> TAB" "BS \<noteq> LF" "BS \<noteq> CR" "BS \<noteq> TAB" "DQ \<noteq> NUL" "BS \<noteq> NUL" "LF \<noteq> CR" "LF \<noteq> TAB" "CR \<noteq> TAB"
    "DQ \<noteq> CHR ''n''" "DQ \<noteq> CHR ''r''" "DQ \<noteq> CHR ''t''" "BS \<noteq> CHR ''n''" "BS \<noteq> CHR ''r''" "BS \<noteq> CHR ''t''"
    using special_codes by force+
qed

lemma unescape_escape: "unescape_value (escape_value v) = v"
  by (induction v) (auto simp: special_chars special_chars [symmetric])

lemma quote_end_escape:
  "quote_end DQ (pre @ escape_value v @ DQ # post) (length pre)
     = (Some (length pre + length (escape_value v)), length pre + length (escape_value v))"
proof (induction v arbitrary: pre)
  case Nil
  then show ?case using special_chars(1) by (subst quote_end.simps) (simp add: nth_append)
next
  case (Cons c v)
  consider (two) d where "escape_value (c # v) = [BS, d] @ escape_value v" | (one) "escape_value (c # v) = [c] @ escape_value v" "c \<noteq> BS" "c \<noteq> DQ"
  proof (cases "c = LF \<or> c = CR \<or> c = TAB \<or> c = DQ \<or> c = BS")
    case True
    then show thesis using that(1) special_chars by auto
  next
    case False
    then show thesis using that(2) by simp
  qed
  then show ?case
  proof cases
    case (two d)
    have "quote_end DQ (pre @ escape_value (c # v) @ DQ # post) (length pre)
        = quote_end DQ ((pre @ [BS, d]) @ escape_value v @ DQ # post) (length (pre @ [BS, d]))"
      unfolding two by (subst quote_end.simps) (simp add: nth_append)
    then show ?thesis unfolding Cons.IH two by simp
  next
    case one
    have "quote_end DQ (pre @ escape_value (c # v) @ DQ # post) (length pre)
        = quote_end DQ ((pre @ [c]) @ escape_value v @ DQ # post) (length (pre @ [c]))"
      unfolding one(1) using one(2,3) by (subst quote_end.simps) (simp add: nth_append)
    then show ?thesis unfolding Cons.IH one(1) by simp
  qed
qed

lemma TrimSpace_Nil: "TrimSpace [] = []"
  by (simp add: TrimSpace_def TrimLeftSpace.simps TrimRightSpace.simps)

lemma written_value: "dotenv_value (DQ # escape_value v @ [DQ]) lines = Inr (v, lines)"
proof -
  have "quote_end DQ (escape_value v @ [DQ]) 0 = (Some (length (escape_value v)), length (escape_value v))"
    using quote_end_escape [of "[]" v "[]"] by simp
  then have "quoted_value DQ (escape_value v @ [DQ]) 0 lines = Some (escape_value v @ [DQ], length (escape_value v), lines)"
    by (simp add: quoted_value.simps)
  then show ?thesis by (simp add: dotenv_value_def Let_def TrimSpace_Nil unescape_escape)
qed

section \<open>Lines\<close>

lemma key_chars: "envPattern k \<Longrightarrow> c \<in> set k \<Longrightarrow> visible c \<and> c \<noteq> CHR ''='' \<and> c \<noteq> CHR ''#'' \<and> c \<noteq> DQ \<and> c \<noteq> SQ"
proof -
  have "is_alnum c \<or> c = CHR ''_'' \<Longrightarrow> visible c \<and> c \<noteq> CHR ''='' \<and> c \<noteq> CHR ''#'' \<and> c \<noteq> DQ \<and> c \<noteq> SQ" for c
    by (auto simp: is_alnum_def is_alpha_def is_lower_def is_upper_def is_digit_def visible_def DQ_def SQ_def code_def)
  moreover assume "envPattern k" "c \<in> set k"
  ultimately show ?thesis by (auto simp: envPattern_def list_all_iff is_alnum_def split: list.splits)
qed

lemma key_not_Nil: "envPattern k \<Longrightarrow> k \<noteq> []"
  by (auto simp: envPattern_def)

lemma DQ_visible: "visible DQ"
  by (simp add: visible_def special_codes)

lemma trim_key: "envPattern k \<Longrightarrow> TrimSpace k = k"
  using key_chars key_not_Nil by (intro TrimSpace_visible) (auto intro: hd_in_set last_in_set)

lemma trim_line:
  assumes "envPattern k"
  shows "TrimSpace (dotenv_line (k, v)) = dotenv_line (k, v)"
  using key_not_Nil [OF assms] key_chars [OF assms hd_in_set] DQ_visible
  by (intro TrimSpace_visible) (auto simp: dotenv_line_def hd_append)

lemma written_assignment:
  assumes "envPattern k" and "len k \<le> 128"
  shows "assignment (dotenv_line (k, v)) = Some (k, DQ # escape_value v @ [DQ])"
proof -
  have "CHR ''='' \<notin> set k" using key_chars [OF assms(1)] by blast
  then have "Cut (dotenv_line (k, v)) (CHR ''='') = (k, DQ # escape_value v @ [DQ], True)"
    by (auto simp: Cut_def dotenv_line_def takeWhile_append dropWhile_append)
  moreover have "TrimSpace (DQ # escape_value v @ [DQ]) = DQ # escape_value v @ [DQ]"
    using DQ_visible by (intro TrimSpace_visible) simp_all
  ultimately show ?thesis using assms trim_key [OF assms(1)] by (simp add: assignment_def)
qed

lemma no_export: "envPattern k \<Longrightarrow> strip_export (dotenv_line (k, v)) = dotenv_line (k, v)"
proof -
  assume k: "envPattern k"
  have "\<not> HasPrefix (dotenv_line (k, v)) (''export'' @ [c])" if "\<not> visible c" for c
  proof
    assume "HasPrefix (dotenv_line (k, v)) (''export'' @ [c])"
    then obtain t where t: "dotenv_line (k, v) = (''export'' @ [c]) @ t" by (auto simp: prefix_def)
    have line: "dotenv_line (k, v) ! i = (''export'' @ [c]) ! i" if "i < 7" for i
      using that unfolding t by (subst nth_append) simp
    have sep: "dotenv_line (k, v) ! length k = CHR ''=''" by (simp add: dotenv_line_def nth_append)
    show False
    proof (cases "6 < length k")
      case True
      then have "c = k ! 6" using line [of 6] by (simp add: dotenv_line_def nth_append)
      then show False using key_chars [OF k, of c] True that by auto
    next
      case False
      then have "CHR ''='' \<in> set (''export'' @ [c])" using line [of "length k"] sep nth_mem [of "length k" "''export'' @ [c]"] by simp
      then show False using that by (auto simp: visible_def code_def)
    qed
  qed
  moreover have "\<not> visible (CHR '' '')" "\<not> visible TAB" by (simp_all add: visible_def special_codes) (simp add: code_def)
  ultimately show ?thesis by (simp add: strip_export_def)
qed

lemma not_comment: "envPattern k \<Longrightarrow> \<not> HasPrefix (dotenv_line (k, v)) ''#''"
  using key_chars [of k "CHR ''#''"] key_not_Nil [of k] by (cases k) (auto simp: dotenv_line_def)

lemma length_gm_set: "\<not> gm_has m k \<Longrightarrow> length (gm_set k v m) = Suc (length m)"
  by (induction k v m rule: gm_set.induct) (auto simp: gm_has_def)

lemma has_gm_set: "gm_has (gm_set k v m) k' \<longleftrightarrow> k' = k \<or> gm_has m k'"
  by (simp add: gm_has_def)

lemma written_lines:
  assumes "list_all writable kvs" and "distinct (map fst kvs)" and "\<forall>k \<in> set (map fst kvs). \<not> gm_has values k"
    and "length values + length kvs \<le> 128"
  shows "dotenv_loop (map dotenv_line kvs) values = Inr (fold (\<lambda>(k, v). gm_set k v) kvs values)"
  using assms
proof (induction kvs arbitrary: "values")
  case (Cons kv kvs)
  obtain k v where kv: "kv = (k, v)" by force
  have k: "envPattern k" "len k \<le> 128" "value_limit k v = Inr ()" "\<not> gm_has values k"
    using Cons.prems(1,3) by (simp_all add: kv writable_def)
  have rest: "dotenv_loop (map dotenv_line kvs) (gm_set k v values) = Inr (fold (\<lambda>(k, v). gm_set k v) kvs (gm_set k v values))"
    using Cons.prems k(4) by (intro Cons.IH) (auto simp: kv has_gm_set length_gm_set)
  have "dotenv_line (k, v) \<noteq> []" by (simp add: dotenv_line_def)
  then show ?case
    using trim_line [OF k(1)] not_comment [OF k(1)] no_export [OF k(1)] written_assignment [OF k(1,2)] k(3,4) rest
      written_value Cons.prems(4)
    by (simp add: kv Let_def length_gm_set)
qed simp

section \<open>Files\<close>

lemma ValidString_Cons:
  assumes "ValidString (c # s)"
  obtains (one) "code c < 128" "ValidString s"
  | (two) d t where "s = d # t" "194 \<le> code c" "code c \<le> 223" "cont d" "ValidString t"
  | (three) d f t where "s = d # f # t" "224 \<le> code c" "code c \<le> 239" "second_byte c d" "cont f" "ValidString t"
  | (four) d f h t where "s = d # f # h # t" "240 \<le> code c" "code c \<le> 244" "second_byte c d" "cont f" "cont h" "ValidString t"
proof -
  consider "code c < 128" | "128 \<le> code c" "194 \<le> code c \<and> code c \<le> 223"
    | "128 \<le> code c" "\<not> (194 \<le> code c \<and> code c \<le> 223)" "224 \<le> code c \<and> code c \<le> 239"
    | "128 \<le> code c" "\<not> (194 \<le> code c \<and> code c \<le> 223)" "\<not> (224 \<le> code c \<and> code c \<le> 239)" by linarith
  then show thesis
  proof cases
    case 1
    then show thesis using assms by (intro one) simp_all
  next
    case 2
    then show thesis using assms two by (cases s) simp_all
  next
    case 3
    then show thesis using assms three by (auto split: list.splits)
  next
    case 4
    then show thesis using assms four by (auto split: list.splits if_splits)
  qed
qed

lemma ValidString_append: "ValidString a \<Longrightarrow> ValidString b \<Longrightarrow> ValidString (a @ b)"
proof (induction "length a" arbitrary: a rule: less_induct)
  case less
  show ?case
  proof (cases a)
    case (Cons c s)
    have IH: "ValidString t \<Longrightarrow> length t < length a \<Longrightarrow> ValidString (t @ b)" for t using less by blast
    from less(2) [unfolded Cons] show ?thesis by (cases rule: ValidString_Cons) (simp_all add: Cons IH)
  qed (use less in simp)
qed

lemma ValidString_ascii: "\<forall>c \<in> set s. code c < 128 \<Longrightarrow> ValidString s"
  by (induction s) auto

lemma escape_high: "128 \<le> code c \<Longrightarrow> escape_value (c # s) = c # escape_value s"
proof -
  assume "128 \<le> code c"
  then have "c \<noteq> LF" "c \<noteq> CR" "c \<noteq> TAB" "c \<noteq> DQ" "c \<noteq> BS" using special_codes by force+
  then show ?thesis by simp
qed

lemma escape_low: "code c < 128 \<Longrightarrow> \<exists>p. escape_value (c # s) = p @ escape_value s \<and> ValidString p"
proof -
  assume "code c < 128"
  then have "ValidString (if c = LF then [BS, CHR ''n''] else if c = CR then [BS, CHR ''r''] else if c = TAB then [BS, CHR ''t'']
      else if c = DQ \<or> c = BS then [BS, c] else [c])"
    using special_codes(3) by (intro ValidString_ascii) (simp add: code_def)
  then show ?thesis unfolding escape_value.simps by blast
qed

lemma ValidString_escape: "ValidString v \<Longrightarrow> ValidString (escape_value v)"
proof (induction "length v" arbitrary: v rule: less_induct)
  case less
  show ?case
  proof (cases v)
    case (Cons c s)
    have IH: "ValidString t \<Longrightarrow> length t < length v \<Longrightarrow> ValidString (escape_value t)" for t using less by blast
    have high: "cont d \<Longrightarrow> 128 \<le> code d" "second_byte e d \<Longrightarrow> 128 \<le> code d" for d e by (simp_all add: cont_def second_byte_def)
    from less(2) [unfolded Cons] show ?thesis
    proof (cases rule: ValidString_Cons)
      case one
      then obtain p where "escape_value (c # s) = p @ escape_value s" "ValidString p" using escape_low by blast
      then show ?thesis using one IH [of s] by (simp only: Cons) (simp add: ValidString_append del: escape_value.simps)
    qed (simp_all add: Cons escape_high high IH del: escape_value.simps)
  qed simp
qed

lemma escape_chars: "c \<in> set (escape_value v) \<Longrightarrow> c \<noteq> LF \<and> c \<noteq> CR \<and> (c \<in> set v \<or> c = BS \<or> c = CHR ''n'' \<or> c = CHR ''r'' \<or> c = CHR ''t'')"
proof (induction v)
  case (Cons d v)
  have "CHR ''n'' \<noteq> LF" "CHR ''n'' \<noteq> CR" "CHR ''r'' \<noteq> LF" "CHR ''r'' \<noteq> CR" "CHR ''t'' \<noteq> LF" "CHR ''t'' \<noteq> CR"
    by (simp_all add: LF_def CR_def code_eq_iff [symmetric] code_def del: code_eq_iff)
  then show ?case using Cons special_chars by (auto split: if_splits)
qed simp

lemma line_chars:
  assumes "writable kv" and "c \<in> set (dotenv_line kv)"
  shows "c \<noteq> LF \<and> c \<noteq> CR \<and> c \<noteq> NUL"
proof -
  have n: "\<not> visible LF" "\<not> visible CR" "\<not> visible NUL" by (simp_all add: visible_def special_codes)
  have letters: "CHR ''n'' \<noteq> NUL" "CHR ''r'' \<noteq> NUL" "CHR ''t'' \<noteq> NUL" "visible CHR ''=''" "visible DQ"
    using DQ_visible by (simp_all add: NUL_def visible_def code_eq_iff [symmetric] code_def del: code_eq_iff)
  consider "c \<in> set (fst kv)" | "c = CHR ''='' \<or> c = DQ" | "c \<in> set (escape_value (snd kv))"
    using assms(2) by (auto simp: dotenv_line_def)
  then show ?thesis
  proof cases
    case 1
    then have "visible c" using key_chars assms(1) by (auto simp: writable_def)
    then show ?thesis using n by metis
  next
    case 2
    then have "visible c" using letters by blast
    then show ?thesis using n by metis
  next
    case 3
    then show ?thesis using escape_chars [OF 3] assms(1) letters special_chars by (auto simp: writable_def)
  qed
qed

lemma line_valid: "writable kv \<Longrightarrow> ValidString (dotenv_line kv)"
proof -
  assume w: "writable kv"
  have eq: "visible (CHR ''='')" by (simp add: visible_def code_def)
  have low: "visible c \<Longrightarrow> code c < 128" for c by (simp add: visible_def)
  have k: "ValidString (fst kv)" using w key_chars low by (intro ValidString_ascii) (auto simp: writable_def)
  have e: "ValidString (escape_value (snd kv))" using w by (simp add: writable_def ValidString_escape)
  have "ValidString [CHR ''='', DQ]" "ValidString [DQ]" using low eq DQ_visible by (intro ValidString_ascii; simp)+
  from ValidString_append [OF k ValidString_append [OF this(1) ValidString_append [OF e this(2)]]]
  show ?thesis by (simp add: dotenv_line_def)
qed

lemma newlines_none: "CR \<notin> set s \<Longrightarrow> newlines s = s"
  by (induction s rule: newlines.induct) auto

lemma text_facts:
  assumes "list_all writable m"
  shows "ValidString (dotenv_text m)" and "CR \<notin> set (dotenv_text m)" and "NUL \<notin> set (dotenv_text m)"
    and "dotenv_text m \<noteq> [] \<Longrightarrow> code (hd (dotenv_text m)) < 128"
proof -
  have j: "ValidString (Join LF ws) \<and> CR \<notin> set (Join LF ws) \<and> NUL \<notin> set (Join LF ws)"
    if "\<forall>w \<in> set ws. ValidString w \<and> CR \<notin> set w \<and> NUL \<notin> set w" for ws
    using that
  proof (induction LF ws rule: Join.induct)
    case (3 w v vs)
    have LF: "ValidString [LF]" "LF \<noteq> CR" "LF \<noteq> NUL"
      by (rule ValidString_ascii, simp add: special_codes) (use special_codes in force)+
    have j: "ValidString (Join LF (v # vs))" "CR \<notin> set (Join LF (v # vs))" "NUL \<notin> set (Join LF (v # vs))" using 3 by simp_all
    have "ValidString (w @ [LF] @ Join LF (v # vs))" using 3(2) j(1) LF(1) by (intro ValidString_append) simp_all
    then show ?case using 3(2) j(2,3) LF(2,3) by simp
  qed simp_all
  have "\<forall>w \<in> set (map dotenv_line m). ValidString w \<and> CR \<notin> set w \<and> NUL \<notin> set w"
  proof
    fix w assume "w \<in> set (map dotenv_line m)"
    then obtain kv where "w = dotenv_line kv" "writable kv" using assms by (auto simp: list_all_iff)
    then show "ValidString w \<and> CR \<notin> set w \<and> NUL \<notin> set w" using line_valid line_chars by blast
  qed
  from j [OF this] show "ValidString (dotenv_text m)" and "CR \<notin> set (dotenv_text m)" and "NUL \<notin> set (dotenv_text m)"
    by (simp_all add: dotenv_text_def)
  assume "dotenv_text m \<noteq> []"
  then obtain kv m' where m: "m = kv # m'" by (cases m) (simp_all add: dotenv_text_def)
  have k: "envPattern (fst kv)" using assms by (simp add: m writable_def)
  have "hd (dotenv_text m) = hd (fst kv)" using key_not_Nil [OF k] by (cases m') (simp_all add: dotenv_text_def m dotenv_line_def)
  then show "code (hd (dotenv_text m)) < 128" using key_chars [OF k hd_in_set] key_not_Nil [OF k] by (auto simp: visible_def)
qed

lemma gm_set_last: "\<forall>k' \<in> fst ` set m. k' < k \<Longrightarrow> gm_set k v m = m @ [(k, v)]"
  by (induction k v m rule: gm_set.induct) auto

lemma fold_gm_set_sorted: "gm_wf (m @ kvs) \<Longrightarrow> fold (\<lambda>(k, v). gm_set k v) kvs m = m @ kvs"
proof (induction kvs arbitrary: m)
  case (Cons kv kvs)
  have "gm_wf ((m @ [kv]) @ kvs)" using Cons.prems by simp
  from Cons.IH [OF this] Cons.prems show ?case
    by (cases kv) (auto simp: gm_wf_def sorted_wrt_append gm_set_last)
qed simp

lemma gm_of_list_wf: "gm_wf m \<Longrightarrow> gm_of_list m = m"
  using fold_gm_set_sorted [of "[]" m] by (simp add: gm_of_list_def)

text \<open>What is written is read back.\<close>

lemma ParseDotenv_text:
  assumes wf: "gm_wf m" and w: "list_all writable m" and n: "length m \<le> 128" and size: "len (dotenv_text m) \<le> MaxEnvironmentFileBytes"
  shows "ParseDotenv (dotenv_text m) = Inr m"
proof -
  have "\<not> HasPrefix (dotenv_text m) byte_order_mark"
    using text_facts(4) [OF w] by (auto simp: prefix_def byte_order_mark_def code_def)
  then have lines: "dotenv_lines (dotenv_text m) = Split LF (dotenv_text m)"
    using newlines_none [OF text_facts(2) [OF w]] by (simp add: dotenv_lines_def)
  have loop: "dotenv_loop (map dotenv_line m) [] = Inr (gm_of_list m)"
    using written_lines [OF w, of "[]"] gm_keys_distinct [OF wf] n by (simp add: gm_of_list_def gm_keys_def gm_has_def)
  have "dotenv_loop (dotenv_lines (dotenv_text m)) [] = Inr (gm_of_list m)"
  proof (cases "m = []")
    case True
    then show ?thesis unfolding lines by (simp add: dotenv_text_def gm_of_list_def TrimSpace_Nil)
  next
    case False
    have "\<forall>l \<in> set (map dotenv_line m). LF \<notin> set l" using w line_chars by (auto simp: list_all_iff)
    then show ?thesis using loop False unfolding lines by (simp add: dotenv_text_def Split_Join)
  qed
  then show ?thesis using text_facts [OF w] size gm_of_list_wf [OF wf] by (simp add: ParseDotenv_def)
qed

end
