(* ===== verification/Import_Properties.thy ===== *)
theory Import_Properties
  imports Spec_Import_Facts Spec_Dotenv_Facts Spec_Demo
begin

text \<open>
  The properties of environment files and of their import into an application.
\<close>

lemma writable_plain:
  assumes "envPattern k" and "len k \<le> 128" and "len v \<le> 4096" and "list_all (\<lambda>c. 0 < code c \<and> code c < 128) v"
  shows "writable (k, v)"
proof -
  have "NUL \<notin> set v" using assms(4) special_codes(7) by (force simp: list_all_iff)
  then show ?thesis using assms ValidString_ascii [of v] by (auto simp: writable_def value_limit_def list_all_iff)
qed

text \<open>
  C22. Every map of variables that a file can hold is read back from the file that the writer
  makes of it: ParseDotenv inverts quoting with the escapes of line ends, tabs, quotes and
  backslashes, for values of any bytes that are UTF-8 without NUL, within the limits on the
  file (128 KiB, 128 variables) and on each value.
\<close>

theorem ParseDotenv_roundtrip:
  assumes "gm_wf m" and "list_all writable m" and "length m \<le> 128" and "len (dotenv_text m) \<le> MaxEnvironmentFileBytes"
  shows "ParseDotenv (dotenv_text m) = Inr m"
  by (rule ParseDotenv_text [OF assms])

theorem ParseDotenv_roundtrip_witness:
  "ParseDotenv (dotenv_text [(''CERT'', ''a'' @ LF # DQ # BS # ''n'' @ [TAB]), (''MODE'', '' x # y'')])
     = Inr [(''CERT'', ''a'' @ LF # DQ # BS # ''n'' @ [TAB]), (''MODE'', '' x # y'')]"
proof -
  let ?a = "(''CERT'', ''a'' @ LF # DQ # BS # ''n'' @ [TAB])" and ?b = "(''MODE'', '' x # y'')"
  have "gm_wf [?a, ?b]" by (simp add: gm_wf_def)
  moreover have "list_all writable [?a, ?b]"
    by (simp, intro conjI; rule writable_plain; code_simp)
  moreover have "len (dotenv_text [?a, ?b]) \<le> MaxEnvironmentFileBytes" by code_simp
  ultimately show ?thesis by (intro ParseDotenv_roundtrip) simp_all
qed

section \<open>The import\<close>

text \<open>A library of TOML that knows one document: a service with a variable of its own and a file.\<close>

definition demo_service :: document where
  "demo_service = [(''env'', TomlTable [(''MODE'', TomlString ''dev'')])]"

definition demo_doc :: document where
  "demo_doc = [(''services'', TomlTable [(''web'', TomlTable demo_service)])]"

definition demo_imported :: document where
  "demo_imported = [(''services'', TomlTable [(''web'', TomlTable
     [(''env'', TomlTable [(''MODE'', TomlString ''dev''), (''REGION'', TomlString ''eu'')]),
      (''secrets'', TomlTable [(''TOKEN'', TomlTable [(''ref'', TomlString ''a'')])])])])]"

definition demo_lib :: toml_library where
  "demo_lib = \<lparr>read_doc = \<lambda>_. Some [(''services'', TomlTable [(''web'', TomlTable
                   (demo_service @ [(''env_file'', TomlString ''.env'')]))])],
     write_doc = \<lambda>d. if d = demo_imported then Some ''doc'' else None, read_app = \<lambda>_. Some demo_app\<rparr>"

definition demo_vars :: "string gomap" where
  "demo_vars = [(''MODE'', ''prod''), (''REGION'', ''eu''), (''TOKEN'', ''pw'')]"

definition demo_namer :: secret_namer where
  "demo_namer n k v = replicate (Suc n) CHR ''a''"

lemma demo_fresh: "fresh_names (Some demo_namer)"
proof -
  have "demo_namer n k v = demo_namer m k' v' \<Longrightarrow> n = m" for n m k v k' v'
    using arg_cong [of "demo_namer n k v" "demo_namer m k' v'" length] by (simp add: demo_namer_def del: replicate_Suc)
  then show ?thesis by (auto simp: fresh_names_def)
qed

lemma demo_parsed: "ParseDotenv (dotenv_text demo_vars) = Inr demo_vars"
proof (rule ParseDotenv_text)
  show "gm_wf demo_vars" by (simp add: demo_vars_def gm_wf_def)
  show "list_all writable demo_vars" by (simp add: demo_vars_def, intro conjI; rule writable_plain; code_simp)
  show "len (dotenv_text demo_vars) \<le> MaxEnvironmentFileBytes" by code_simp
qed (simp add: demo_vars_def)

lemma demo_import:
  "\<exists>app. ImportEnvironmentFiles demo_ex demo_lib ''data'' [(''.env'', dotenv_text demo_vars)] (Some demo_namer) = Inr (app, [(''a'', ''pw'')])"
proof -
  obtain app where app: "Normalize demo_ex demo_app = Inr app" using demo_run by blast
  have doc: "environmentDocument demo_lib ''data'' = Inr (demo_doc, [(''web'', [''.env''])])" by code_simp
  then have names: "EnvironmentFileNames demo_lib ''data'' = Inr [''.env'']" by (simp add: EnvironmentFileNames_def Let_def)
  have size: "0 + len (dotenv_text demo_vars) \<le> MaxEnvironmentFileBytes" by code_simp
  have parsed: "parse_files [(''.env'', dotenv_text demo_vars)] [''.env''] 0 [] = Inr [(''.env'', demo_vars)]"
    using size by (simp add: demo_parsed)
  have run: "foldE (import_refs (Some demo_namer) [(''.env'', demo_vars)]) (demo_doc, [], 0) [(''web'', [''.env''])]
      = Inr (demo_imported, [(''a'', ''pw'')], 1)" by code_simp
  have "keep_empty_services demo_lib ''doc'' demo_app = Inr demo_app" by (simp add: keep_empty_services_def demo_app_def)
  then have "Parse demo_ex demo_lib ''doc'' = Inr app" by (simp add: Parse_def MaxBytes_def demo_lib_def app)
  moreover have "write_doc demo_lib demo_imported = Some ''doc''" by (simp add: demo_lib_def)
  moreover have "checks [(8 < len [(''.env'', dotenv_text demo_vars)], m)] = Inr ()" for m by simp
  ultimately show ?thesis
    by (simp add: ImportEnvironmentFiles_def doc names parsed run gm_has_def del: parse_files.simps foldE.simps)
qed

text \<open>
  C23. The import of environment files leaves every variable that the author of the document
  wrote for the application or a service, adds the variables of the named files (the last file
  wins), and never writes a sensitive value into the specification: it becomes a reference
  whose secret is returned to the caller. The specification is what Parse makes of that
  document.
\<close>

theorem ImportEnvironmentFiles_hides_secrets:
  assumes "ImportEnvironmentFiles ex lib data files bind = Inr (app, secrets)" and "fresh_names bind"
  shows "\<exists>doc refs names parsed doc' encoded.
    environmentDocument lib data = Inr (doc, refs) \<and> EnvironmentFileNames lib data = Inr names
    \<and> parse_files files names 0 [] = Inr parsed \<and> write_doc lib doc' = Some encoded \<and> Parse ex lib encoded = Inr app
    \<and> (\<forall>service k. imports_variable secrets (file_vars parsed refs service) (table_of doc service) (table_of doc' service) k)"
  by (rule ImportEnvironmentFiles_imports [OF assms])

theorem ImportEnvironmentFiles_hides_secrets_witness:
  "\<exists>app doc refs names parsed doc' encoded.
    ImportEnvironmentFiles demo_ex demo_lib ''data'' [(''.env'', dotenv_text demo_vars)] (Some demo_namer) = Inr (app, [(''a'', ''pw'')])
    \<and> environmentDocument demo_lib ''data'' = Inr (doc, refs) \<and> EnvironmentFileNames demo_lib ''data'' = Inr names
    \<and> parse_files [(''.env'', dotenv_text demo_vars)] names 0 [] = Inr parsed
    \<and> write_doc demo_lib doc' = Some encoded \<and> Parse demo_ex demo_lib encoded = Inr app
    \<and> (\<forall>service k. imports_variable [(''a'', ''pw'')] (file_vars parsed refs service) (table_of doc service) (table_of doc' service) k)"
proof -
  obtain app where app: "ImportEnvironmentFiles demo_ex demo_lib ''data'' [(''.env'', dotenv_text demo_vars)] (Some demo_namer) = Inr (app, [(''a'', ''pw'')])"
    using demo_import by blast
  from ImportEnvironmentFiles_hides_secrets [OF app demo_fresh] app show ?thesis by blast
qed

end
