(* ===== verification/Access_Policy.thy ===== *)
theory Access_Policy
  imports Go_Prefix Spec_Patterns "HOL-Library.List_Lexorder"
begin

text \<open>
  The policy of the networks that may reach the management surface (internal/access): its
  validation and canonical form, the connectors it may carry, and the decision on one client.
\<close>

section \<open>Types\<close>

record VPN =
  vpn_Address :: string
  vpn_PeerPublicKey :: string
  vpn_PeerEndpoint :: string
  vpn_AllowedIPs :: "string list"
  vpn_Keepalive :: int

record VPNServer =
  vs_ListenPort :: int
  vs_Network :: string
  vs_Endpoint :: string

record Tailscale =
  ts_Hostname :: string
  ts_Tags :: "string list"
  ts_LoginServer :: string

record OpenVPN =
  ov_Routes :: "string list"

record IPsec =
  ip_RemoteAddress :: string
  ip_LocalID :: string
  ip_RemoteID :: string
  ip_RemoteNetworks :: "string list"

record Policy =
  pol_Enabled :: bool
  pol_ClientIPSource :: string
  pol_TrustedProxyCIDRs :: "string list"
  pol_ClientIPHeader :: string
  pol_AllowCIDRs :: "string list"
  pol_Firewall :: bool
  pol_VPN :: "VPN option"
  pol_VPNOnly :: bool
  pol_VPNServer :: "VPNServer option"
  pol_Tailscale :: "Tailscale option"
  pol_OpenVPN :: "OpenVPN option"
  pol_IPsec :: "IPsec option"

definition ClientIPHeaders :: "string list" where
  "ClientIPHeaders = [''X-Forwarded-For'', ''X-Real-IP'', ''CF-Connecting-IP'']"

section \<open>Lists of networks\<close>

fun prefix_list :: "string \<Rightarrow> string list \<Rightarrow> pfx list result" where
  "prefix_list field [] = Inr []"
| "prefix_list field (raw # raws) =
     (case ParsePrefix (TrimSpace raw) of
        None \<Rightarrow> Inl (Err (field @ '' must contain canonical CIDRs''))
      | Some p \<Rightarrow>
          if p \<noteq> MaskedPrefix p then Inl (Err (field @ '' must contain canonical CIDRs''))
          else bindE (prefix_list field raws) (\<lambda>ps. Inr (p # ps)))"

definition prefixes :: "string list \<Rightarrow> string \<Rightarrow> pfx list result" where
  "prefixes values field =
     andE (checks [(256 < len values, field @ '' has more than 256 entries'')]) (prefix_list field values)"

definition canonical :: "pfx list \<Rightarrow> string list" where
  "canonical ps = remdups_adj (sort (map PrefixString ps))"

definition reservedTunnelNetworks :: "pfx list" where
  "reservedTunnelNetworks = [(V4 (10 * 2 ^ 24 + 42 * 2 ^ 16), 16), (V4 (10 * 2 ^ 24 + 43 * 2 ^ 16), 16)]"

definition reserved_overlap :: "pfx \<Rightarrow> bool" where
  "reserved_overlap p = list_ex (Overlaps p) reservedTunnelNetworks"

text \<open>The loop over the networks of a tunnel, in the VPN and in \<open>tunnelNetworks\<close>.\<close>

definition tunnel_checks :: "string \<Rightarrow> pfx list \<Rightarrow> unit result" where
  "tunnel_checks field ps =
     forE (\<lambda>p. checks [(snd p = 0, field @ '' cannot route all traffic through the tunnel''),
       (reserved_overlap p, field @ '' cannot overlap the cluster networks'')]) ps"

definition tunnelNetworks :: "string list \<Rightarrow> string \<Rightarrow> string list result" where
  "tunnelNetworks values field =
     andE (checks [(values = [] \<or> 64 < len values, field @ '' needs between 1 and 64 networks'')])
     (bindE (prefixes values field) (\<lambda>ps.
      andE (tunnel_checks field ps) (Inr (map PrefixString ps))))"

section \<open>Connectors\<close>

text \<open>\<open>^[A-Za-z0-9](?:[A-Za-z0-9-]{0,61}[A-Za-z0-9])?$\<close>\<close>

definition hostLabel :: "string \<Rightarrow> bool" where
  "hostLabel s \<longleftrightarrow> s \<noteq> [] \<and> length s \<le> 63 \<and> list_all (\<lambda>c. is_alnum c \<or> c = CHR ''-'') s \<and> is_alnum (hd s) \<and> is_alnum (last s)"

definition validHost :: "string \<Rightarrow> bool" where
  "validHost host =
     (ParseAddr host \<noteq> None
      \<or> host \<noteq> [] \<and> len host \<le> 253
        \<and> list_all hostLabel (Split (CHR ''.'') (if HasSuffix host ''.'' then butlast host else host)))"

definition endpoint :: "string \<Rightarrow> (string \<times> string) option" where
  "endpoint raw =
     (case SplitHostPort (TrimSpace raw) of
        None \<Rightarrow> None
      | Some (host, port) \<Rightarrow>
          (case Atoi port of
             None \<Rightarrow> None
           | Some n \<Rightarrow> if n < 1 \<or> 65535 < n \<or> \<not> validHost host then None else Some (host, port)))"

definition VPN_Normalize :: "VPN \<Rightarrow> VPN result" where
  "VPN_Normalize v =
     (case ParsePrefix (TrimSpace (vpn_Address v)) of
        None \<Rightarrow> Inl (Err ''vpn.address must be the server's tunnel address with a prefix'')
      | Some address \<Rightarrow>
          if snd address = 0 then Inl (Err ''vpn.address must be the server's tunnel address with a prefix'')
          else
            (case b64_decode (TrimSpace (vpn_PeerPublicKey v)) of
               None \<Rightarrow> Inl (Err ''vpn.peer_public_key must be a WireGuard public key'')
             | Some key \<Rightarrow>
                 if len key \<noteq> 32 then Inl (Err ''vpn.peer_public_key must be a WireGuard public key'')
                 else
                   (case endpoint (vpn_PeerEndpoint v) of
                      None \<Rightarrow> Inl (Err ''vpn.peer_endpoint must be host:port'')
                    | Some (host, port) \<Rightarrow>
                        andE (checks [(vpn_AllowedIPs v = [] \<or> 64 < len (vpn_AllowedIPs v), ''vpn.allowed_ips needs between 1 and 64 networks'')])
                        (bindE (prefixes (vpn_AllowedIPs v) ''vpn.allowed_ips'') (\<lambda>allowed.
                         andE (tunnel_checks ''vpn.allowed_ips'' allowed)
                         (let keepalive = or_default (vpn_Keepalive v) 25 in
                          andE (checks [(keepalive < 0 \<or> 3600 < keepalive, ''vpn.keepalive must be between 1 and 3600 seconds'')])
                          (Inr \<lparr>vpn_Address = PrefixString address, vpn_PeerPublicKey = b64_encode key,
                            vpn_PeerEndpoint = JoinHostPort host port, vpn_AllowedIPs = canonical allowed, vpn_Keepalive = keepalive\<rparr>)))))))"

definition VPNServer_Normalize :: "VPNServer \<Rightarrow> VPN option \<Rightarrow> VPNServer result" where
  "VPNServer_Normalize v client =
     (case ParsePrefix (TrimSpace (vs_Network v)) of
        None \<Rightarrow> Inl (Err ''vpn_server.network must be an IPv4 network from /16 to /29'')
      | Some network \<Rightarrow>
          andE (checks
            [(network \<noteq> MaskedPrefix network \<or> \<not> Is4 (fst network) \<or> snd network < 16 \<or> 29 < snd network,
              ''vpn_server.network must be an IPv4 network from /16 to /29''),
             (reserved_overlap network, ''vpn_server.network cannot overlap the cluster networks''),
             (case client of
                None \<Rightarrow> False
              | Some c \<Rightarrow> list_ex (\<lambda>raw. case ParsePrefix raw of None \<Rightarrow> False | Some other \<Rightarrow> Overlaps other network)
                  (vpn_Address c # vpn_AllowedIPs c),
              ''vpn_server.network cannot overlap the WireGuard connector's networks'')])
          (let listen = or_default (vs_ListenPort v) 51820 in
           andE (checks [(listen < 1 \<or> 65535 < listen, ''vpn_server.listen_port must be 1-65535'')])
           (case endpoint (vs_Endpoint v) of
              None \<Rightarrow> Inl (Err ''vpn_server.endpoint must be this server's public host:port'')
            | Some (host, port) \<Rightarrow>
                Inr \<lparr>vs_ListenPort = listen, vs_Network = PrefixString network, vs_Endpoint = JoinHostPort host port\<rparr>)))"

text \<open>\<open>^tag:[a-z0-9][a-z0-9-]{0,62}$\<close> and \<open>^[A-Za-z0-9@._:=,-]{1,128}$\<close>\<close>

definition tailscaleTag :: "string \<Rightarrow> bool" where
  "tailscaleTag s \<longleftrightarrow> HasPrefix s ''tag:'' \<and>
     (let t = drop 4 s in t \<noteq> [] \<and> length t \<le> 63 \<and> list_all is_name_char t \<and> hd t \<noteq> CHR ''-'')"

definition ikeID :: "string \<Rightarrow> bool" where
  "ikeID s \<longleftrightarrow> s \<noteq> [] \<and> length s \<le> 128 \<and> list_all (\<lambda>c. is_alnum c \<or> c \<in> set ''@._:=,-'') s"

definition Tailscale_Normalize :: "Tailscale \<Rightarrow> Tailscale result" where
  "Tailscale_Normalize t =
     (let lower = ToLowerText (TrimSpace (ts_Hostname t)); name = (if lower = [] then ''hakopod'' else lower) in
      andE (checks
        [(\<not> runtimeName name, ''tailscale.hostname must be a DNS label''),
         (16 < len (ts_Tags t), ''tailscale.tags has more than 16 entries''),
         (\<not> list_all tailscaleTag (ts_Tags t), ''tailscale.tags must look like tag:hakopod''),
         (ts_LoginServer t \<noteq> [] \<and> (\<not> HasPrefix (ts_LoginServer t) ''https://'' \<or> 256 < len (ts_LoginServer t)
            \<or> ContainsAny (ts_LoginServer t) [CHR '' '', TAB, LF, CHR 0x27, CHR 0x22]),
          ''tailscale.login_server must be an https URL'')])
      (Inr (t\<lparr>ts_Hostname := name\<rparr>)))"

definition OpenVPN_Normalize :: "OpenVPN \<Rightarrow> OpenVPN result" where
  "OpenVPN_Normalize v = bindE (tunnelNetworks (ov_Routes v) ''openvpn.routes'') (\<lambda>routes. Inr (v\<lparr>ov_Routes := routes\<rparr>))"

definition IPsec_Normalize :: "IPsec \<Rightarrow> IPsec result" where
  "IPsec_Normalize i =
     (let remote = TrimSpace (ip_RemoteAddress i) in
      andE (checks
        [(ParseAddr remote = None \<and> \<not> validHost remote, ''ipsec.remote_address must be an address or host name''),
         (\<not> ikeID (ip_LocalID i) \<or> \<not> ikeID (ip_RemoteID i), ''ipsec.local_id and ipsec.remote_id must be IKE identities'')])
      (bindE (tunnelNetworks (ip_RemoteNetworks i) ''ipsec.remote_networks'') (\<lambda>networks.
       Inr (i\<lparr>ip_RemoteAddress := remote, ip_RemoteNetworks := networks\<rparr>))))"

text \<open>A connector that is set is normalised in place.\<close>

fun connectorE :: "('a \<Rightarrow> 'a result) \<Rightarrow> 'a option \<Rightarrow> 'a option result" where
  "connectorE f None = Inr None"
| "connectorE f (Some x) = bindE (f x) (\<lambda>y. Inr (Some y))"

section \<open>The policy\<close>

definition source_checks :: "Policy \<Rightarrow> pfx list \<Rightarrow> unit result" where
  "source_checks p trusted =
     (if pol_ClientIPSource p = ''connection'' then
        checks [(trusted \<noteq> [] \<or> pol_ClientIPHeader p \<noteq> [], ''trusted proxies apply only to the trusted_proxy client IP source'')]
      else if pol_ClientIPSource p = ''trusted_proxy'' then
        checks [(trusted = [] \<or> pol_ClientIPHeader p \<notin> set ClientIPHeaders,
          ''trusted_proxy needs trusted_proxy_cidrs and one of X-Forwarded-For, X-Real-IP or CF-Connecting-IP'')]
      else Inl (Err ''client_ip_source must be connection or trusted_proxy''))"

definition client_connectors :: "Policy \<Rightarrow> nat" where
  "client_connectors p =
     length (filter (\<lambda>b. b) [pol_VPN p \<noteq> None, pol_Tailscale p \<noteq> None, pol_OpenVPN p \<noteq> None, pol_IPsec p \<noteq> None])"

definition tunnels :: "Policy \<Rightarrow> string list" where
  "tunnels p = (case pol_VPN p of None \<Rightarrow> [] | Some v \<Rightarrow> vpn_AllowedIPs v)
     @ (case pol_VPNServer p of None \<Rightarrow> [] | Some v \<Rightarrow> [vs_Network v])"

text \<open>\<open>netip.MustParsePrefix\<close> of a tunnel that was just printed; a text that does not parse would panic.\<close>

definition inside_tunnel :: "string list \<Rightarrow> pfx \<Rightarrow> bool" where
  "inside_tunnel raws allowed =
     list_ex (\<lambda>raw. case ParsePrefix raw of None \<Rightarrow> False | Some t \<Rightarrow> snd t \<le> snd allowed \<and> PrefixContains t (fst allowed)) raws"

definition vpn_only_checks :: "Policy \<Rightarrow> pfx list \<Rightarrow> unit result" where
  "vpn_only_checks p allow =
     (if pol_VPNOnly p then
        checks
          [(\<not> pol_Enabled p \<or> pol_VPN p = None \<and> pol_VPNServer p = None,
            ''vpn_only needs an enabled policy and a WireGuard connector or server''),
           (list_ex (\<lambda>raw. ParsePrefix raw = None) (tunnels p), ''panic''),
           (\<not> list_all (inside_tunnel (tunnels p)) allow, ''with vpn_only, every allowed network must be inside a VPN network'')]
      else Inr ())"

definition Policy_Normalize :: "Policy \<Rightarrow> Policy result" where
  "Policy_Normalize p0 =
     (let p1 = (if pol_ClientIPSource p0 = [] then p0\<lparr>pol_ClientIPSource := ''connection''\<rparr> else p0) in
      bindE (prefixes (pol_AllowCIDRs p1) ''allow_cidrs'') (\<lambda>allow.
      bindE (prefixes (pol_TrustedProxyCIDRs p1) ''trusted_proxy_cidrs'') (\<lambda>trusted.
      andE (checks
        [(list_ex (\<lambda>q. snd q = 0) allow, ''allow_cidrs cannot contain 0.0.0.0/0 or ::/0; turn the policy off instead''),
         (pol_Firewall p1 \<and> \<not> pol_Enabled p1, ''the host firewall applies only to an enabled policy''),
         (pol_Enabled p1 \<and> allow = [], ''an enabled policy needs at least one allowed CIDR'')])
      (andE (source_checks p1 trusted)
      (let p2 = p1\<lparr>pol_AllowCIDRs := canonical allow, pol_TrustedProxyCIDRs := canonical trusted\<rparr> in
       bindE (connectorE VPN_Normalize (pol_VPN p2)) (\<lambda>vpn.
       andE (checks [(1 < client_connectors p2, ''choose one client connector: WireGuard, Tailscale, OpenVPN or IPsec'')])
       (bindE (connectorE Tailscale_Normalize (pol_Tailscale p2)) (\<lambda>tailscale.
       bindE (connectorE OpenVPN_Normalize (pol_OpenVPN p2)) (\<lambda>openvpn.
       bindE (connectorE IPsec_Normalize (pol_IPsec p2)) (\<lambda>ipsec.
       bindE (connectorE (\<lambda>s. VPNServer_Normalize s vpn) (pol_VPNServer p2)) (\<lambda>server.
       let p3 = p2\<lparr>pol_VPN := vpn, pol_VPNServer := server, pol_Tailscale := tailscale, pol_OpenVPN := openvpn, pol_IPsec := ipsec\<rparr> in
       andE (vpn_only_checks p3 allow) (Inr p3))))))))))))"

section \<open>The client of a request\<close>

definition contains_addr :: "string list \<Rightarrow> addr \<Rightarrow> bool" where
  "contains_addr cidrs a = list_ex (\<lambda>raw. case ParsePrefix raw of None \<Rightarrow> False | Some p \<Rightarrow> PrefixContains p a) cidrs"

text \<open>The hops from the right; an empty list, which \<open>strings.Split\<close> never gives, is unusable.\<close>

fun last_hop :: "string list \<Rightarrow> string list \<Rightarrow> addr option" where
  "last_hop trusted [] = None"
| "last_hop trusted (hop # rest) =
     (case ParseAddr (TrimSpace hop) of
        None \<Rightarrow> None
      | Some a0 \<Rightarrow>
          let a = Unmap a0 in
          if rest = [] \<or> \<not> contains_addr trusted a then Some a else last_hop trusted rest)"

text \<open>The answer is \<open>None\<close> where the code returns \<open>ok = false\<close>.\<close>

definition ClientIP :: "Policy \<Rightarrow> addr \<Rightarrow> (string \<Rightarrow> string) \<Rightarrow> addr option" where
  "ClientIP p peer0 header =
     (let peer = Unmap peer0 in
      if pol_ClientIPSource p \<noteq> ''trusted_proxy'' \<or> \<not> contains_addr (pol_TrustedProxyCIDRs p) peer then Some peer
      else
        (let v = TrimSpace (header (pol_ClientIPHeader p)) in
         if v = [] then Some peer
         else if pol_ClientIPHeader p \<noteq> ''X-Forwarded-For'' then map_option Unmap (ParseAddr v)
         else last_hop (pol_TrustedProxyCIDRs p) (rev (Split (CHR '','') v))))"

definition Policy_Allows :: "Policy \<Rightarrow> addr option \<Rightarrow> addr list \<Rightarrow> bool" where
  "Policy_Allows p client0 local =
     (case map_option Unmap client0 of
        None \<Rightarrow> \<not> pol_Enabled p
      | Some client \<Rightarrow>
          \<not> pol_Enabled p \<or> IsLoopback client \<or> client \<in> set local \<or> contains_addr (pol_AllowCIDRs p) client)"

section \<open>OpenVPN profiles\<close>

definition openVPNDirectives :: "string list" where
  "openVPNDirectives =
     [''client'', ''dev'', ''dev-type'', ''proto'', ''remote'', ''port'', ''rport'', ''resolv-retry'', ''nobind'', ''persist-key'',
      ''persist-tun'', ''remote-cert-tls'', ''verify-x509-name'', ''cipher'', ''data-ciphers'', ''data-ciphers-fallback'', ''auth'',
      ''tls-version-min'', ''tls-cipher'', ''tls-ciphersuites'', ''key-direction'', ''verb'', ''mute'', ''tun-mtu'', ''mssfix'',
      ''keepalive'', ''ping'', ''ping-restart'', ''connect-retry'', ''connect-retry-max'', ''server-poll-timeout'', ''remote-random'',
      ''explicit-exit-notify'', ''reneg-sec'', ''auth-nocache'']"

definition openVPNBlocks :: "string list" where
  "openVPNBlocks = [''ca'', ''cert'', ''key'', ''tls-auth'', ''tls-crypt'', ''tls-crypt-v2'']"

fun drop_cr :: "string \<Rightarrow> string" where
  "drop_cr [] = []"
| "drop_cr (c # s) = (if c = CR \<and> HasPrefix s [LF] then drop_cr s else c # drop_cr s)"

text \<open>\<open>strings.Fields(line)[0]\<close> of a trimmed line that is not empty.\<close>

fun first_field :: "string \<Rightarrow> string" where
  "first_field [] = []"
| "first_field (c # s) = (if leading_space (c # s) \<noteq> 0 then [] else c # first_field s)"

definition trim_angles :: "string \<Rightarrow> string" where
  "trim_angles s =
     (let angle = (\<lambda>c. c = CHR ''<'' \<or> c = CHR ''>'') in rev (dropWhile angle (rev (dropWhile angle s))))"

fun profile_lines :: "string \<Rightarrow> bool \<Rightarrow> string list \<Rightarrow> unit result" where
  "profile_lines block remote [] =
     checks [(block \<noteq> [], ''the OpenVPN profile has an unterminated block''), (\<not> remote, ''the OpenVPN profile needs a remote'')]"
| "profile_lines block remote (raw # lines) =
     (let line = TrimSpace raw in
      if block \<noteq> [] then profile_lines (if line = ''</'' @ block @ ''>'' then [] else block) remote lines
      else if line = [] \<or> HasPrefix line ''#'' \<or> HasPrefix line '';'' then profile_lines block remote lines
      else if HasPrefix line ''<'' \<and> HasSuffix line ''>'' then
        (let name = trim_angles line in
         if name \<notin> set openVPNBlocks then Inl (Err ''the OpenVPN profile has an unsupported inline block'')
         else profile_lines name remote lines)
      else
        (let name = ToLowerText (first_field line) in
         if name \<in> set openVPNBlocks then Inl (Err ''the OpenVPN profile must include it inline, not as a file'')
         else if name \<notin> set openVPNDirectives then Inl (Err ''the OpenVPN profile directive is not allowed'')
         else profile_lines block (remote \<or> name = ''remote'') lines))"

definition ValidateOpenVPNProfile :: "string \<Rightarrow> unit result" where
  "ValidateOpenVPNProfile profile =
     andE (checks [(profile = [] \<or> 65536 < len profile, ''the OpenVPN profile must be between 1 byte and 64 KiB'')])
     (profile_lines [] False (Split LF (drop_cr profile)))"

end
