(* ===== verification/Access_Gate.thy ===== *)
theory Access_Gate
  imports Access_Policy
begin

text \<open>
  The gate of the management surface (internal/api/installation_access.go): which peer a
  request comes from, and whether its network may reach the installation. A header is the list
  of its lines, as in \<open>http.Header\<close>; \<open>Get\<close> reads the first line.
\<close>

record access_request =
  rq_Method :: string
  rq_Path :: string
  rq_RemoteAddr :: string
  rq_Header :: "string \<Rightarrow> string list"

definition Get :: "access_request \<Rightarrow> string \<Rightarrow> string" where
  "Get r name = (case rq_Header r name of [] \<Rightarrow> [] | v # _ \<Rightarrow> v)"

section \<open>Exempt requests\<close>

definition hex_id :: "string \<Rightarrow> bool" where
  "hex_id s \<longleftrightarrow> length s = 32 \<and> list_all is_hex_lower s"

text \<open>\<open>accessExemptWebhook\<close>, read over the segments of the path.\<close>

definition accessExemptWebhook :: "string \<Rightarrow> bool" where
  "accessExemptWebhook path =
     (case Split (CHR ''/'') path of
        [e, a, v, w, x] \<Rightarrow> e = [] \<and> [a, v, w] = [''api'', ''v1'', ''webhooks''] \<and> (x = ''github'' \<or> x = ''gitlab'')
      | [e, a, v, w, x, y] \<Rightarrow> e = [] \<and> [a, v, w] = [''api'', ''v1'', ''webhooks''] \<and> (x = ''git'' \<or> x = ''github-app'') \<and> y \<noteq> []
      | [e, a, v, w, x, y, g, z] \<Rightarrow>
          e = [] \<and> [a, v, w] = [''api'', ''v1'', ''webhooks''] \<and> x = ''nodes'' \<and> hex_id y \<and> g = ''git'' \<and> hex_id z
      | _ \<Rightarrow> False)"

definition exempt :: "access_request \<Rightarrow> bool" where
  "exempt r \<longleftrightarrow> rq_Path r \<in> {''/healthz'', ''/readyz'', ''/internal/access/check''}
     \<or> rq_Method r = ''POST'' \<and> accessExemptWebhook (rq_Path r)"

section \<open>The peer\<close>

definition accessPeer :: "access_request \<Rightarrow> (addr \<times> (string \<Rightarrow> string) \<times> bool) option" where
  "accessPeer r =
     (case SplitHostPort (rq_RemoteAddr r) of
        None \<Rightarrow> None
      | Some (host, _) \<Rightarrow>
          (case map_option Unmap (ParseAddr host) of
             None \<Rightarrow> None
           | Some peer \<Rightarrow>
               if \<not> IsLoopback peer then Some (peer, Get r, False)
               else
                 (let named = Get r ''X-Hakopod-Peer-IP'' in
                  if named = [] then Some (peer, \<lambda>_. [], False)
                  else
                    (case ParseAddr named of
                       None \<Rightarrow> None
                     | Some a \<Rightarrow> Some (Unmap a, \<lambda>name. Get r (''X-Hakopod-Peer-'' @ name), True)))))"

definition clientAddress :: "access_request \<Rightarrow> Policy \<Rightarrow> addr option" where
  "clientAddress r p = (case accessPeer r of None \<Rightarrow> None | Some (peer, header, _) \<Rightarrow> ClientIP p peer header)"

section \<open>The gate\<close>

text \<open>
  What the server has at hand: whether it has a store and runs as the managed cloud, the
  policy it can read, and the addresses of its interfaces.
\<close>

record access_server =
  sv_Store :: bool
  sv_ManagedCloud :: bool
  sv_Policy :: "Policy option"
  sv_Local :: "addr list"

datatype access_verdict = Admitted | Unavailable | NotAllowed | NotFound

definition admits :: "access_server \<Rightarrow> access_request \<Rightarrow> access_verdict" where
  "admits s r =
     (if \<not> sv_Store s \<or> sv_ManagedCloud s then Admitted
      else
        (case sv_Policy s of
           None \<Rightarrow> Unavailable
         | Some p \<Rightarrow>
             (case clientAddress r p of
                None \<Rightarrow> NotAllowed
              | Some client \<Rightarrow> if Policy_Allows p (Some client) (sv_Local s) then Admitted else NotAllowed)))"

definition accessGate :: "access_server \<Rightarrow> access_request \<Rightarrow> access_verdict" where
  "accessGate s r = (if exempt r then Admitted else admits s r)"

definition isLoopback_host :: "string \<Rightarrow> bool" where
  "isLoopback_host host = (case ParseAddr host of None \<Rightarrow> False | Some a \<Rightarrow> IsLoopback (Unmap a))"

definition accessCheck :: "access_server \<Rightarrow> access_request \<Rightarrow> access_verdict" where
  "accessCheck s r =
     (case SplitHostPort (rq_RemoteAddr r) of
        None \<Rightarrow> NotFound
      | Some (host, _) \<Rightarrow> if \<not> isLoopback_host host then NotFound else admits s r)"

text \<open>The addresses of the interfaces.\<close>

definition localAddresses :: "string list \<Rightarrow> addr list" where
  "localAddresses addresses =
     concat (map (\<lambda>a. case ParsePrefix a of None \<Rightarrow> [] | Some p \<Rightarrow> [Unmap (fst p)]) addresses)"

section \<open>The cached policy\<close>

text \<open>
  \<open>accessPolicy\<close>: times in nanoseconds, \<open>None\<close> for the zero time. \<open>load\<close> is what the store
  answers now. A failed read forgets the cache; it never answers an old policy.
\<close>

record access_state =
  st_At :: "int option"
  st_Policy :: "Policy option"
  st_Local :: "addr list"

definition accessPolicy :: "int \<Rightarrow> Policy option \<Rightarrow> addr list \<Rightarrow> access_state \<Rightarrow> (Policy \<times> addr list) option \<times> access_state" where
  "accessPolicy now load local st =
     (if (case st_At st of Some t \<Rightarrow> now - t < 5000000000 | None \<Rightarrow> False)
      then (map_option (\<lambda>p. (p, st_Local st)) (st_Policy st), st)
      else
        (case load of
           None \<Rightarrow> (None, st\<lparr>st_At := None\<rparr>)
         | Some p \<Rightarrow> (Some (p, local), \<lparr>st_At = Some now, st_Policy = Some p, st_Local = local\<rparr>)))"

definition forgetAccessPolicy :: "access_state \<Rightarrow> access_state" where
  "forgetAccessPolicy st = st\<lparr>st_At := None\<rparr>"

end
