(* ===== verification/Access_Roundtrip.thy ===== *)
theory Access_Roundtrip
  imports Go_Prefix
begin

text \<open>
  Printing an address or a prefix and parsing the text gives it back, in both families and
  for every place of the ellipsis: what the policy stores means what was validated.
\<close>

section \<open>IPv4\<close>

lemma Itoa_digits: "0 \<le> n \<Longrightarrow> \<forall>c \<in> set (Itoa n). is_digit c"
  by (simp add: Itoa_def show_digits_are_digits)

lemma byte_text:
  assumes "0 \<le> n" "n \<le> 255"
  shows "ipv4_field (Itoa n) = Some n" and "Itoa n \<noteq> []" and "length (Itoa n) \<le> 3"
proof -
  have read: "read_digits 0 (Itoa n) = Some n" using assms by (simp add: Itoa_def read_show_digits)
  have shape: "show_digits n = (if n < 10 then [char_of (nat (48 + n))]
      else if n < 100 then [char_of (nat (48 + n div 10)), char_of (nat (48 + n mod 10))]
      else [char_of (nat (48 + n div 100)), char_of (nat (48 + n div 10 mod 10)), char_of (nat (48 + n mod 10))])"
  proof -
    have q: "n div 10 div 10 = n div 100" by (simp add: zdiv_zmult2_eq [symmetric])
    have "n div 100 < 10" "n div 10 < 10 \<longleftrightarrow> n < 100" using assms by auto
    then show ?thesis using q by (simp add: show_digits.simps [of n] show_digits.simps [of "n div 10"] show_digits.simps [of "n div 100"])
  qed
  have nonzero: "char_of (nat (48 + d)) \<noteq> CHR ''0''" if "0 < d" "d < 10" for d :: int
  proof -
    have "code (char_of (nat (48 + d))) \<noteq> code (CHR ''0'')" using digit_char(2) [of d] that by (simp add: code_def)
    then show ?thesis by force
  qed
  have "0 < n div 10" "n div 10 < 10" if "10 \<le> n" "n < 100" using that by simp_all
  moreover have "0 < n div 100" "n div 100 < 10" if "100 \<le> n" using that assms by simp_all
  ultimately have "\<not> (1 < length (Itoa n) \<and> hd (Itoa n) = CHR ''0'')"
    using assms shape nonzero by (auto simp: Itoa_def)
  moreover show "length (Itoa n) \<le> 3" "Itoa n \<noteq> []" using assms shape by (simp_all add: Itoa_def)
  ultimately show "ipv4_field (Itoa n) = Some n" using read assms by (auto simp: ipv4_field_def)
qed

definition bytes_of :: "int \<Rightarrow> int list" where
  "bytes_of w = map (\<lambda>n. w div 2 ^ n mod 256) [24, 16, 8, 0]"

lemma addr4_bytes: "addr4_string w = Join (CHR ''.'') (map Itoa (bytes_of w))"
  by (simp add: addr4_string_def bytes_of_def comp_def)

lemma digit_not_special: "is_digit c \<Longrightarrow> c \<noteq> CHR ''.'' \<and> c \<noteq> CHR '':'' \<and> c \<noteq> CHR ''%''"
  by (auto simp: is_digit_def code_def)

lemma parse_addr4:
  assumes "0 \<le> w" "w < 2 ^ 32"
  shows "parse_ipv4 (addr4_string w) = Some w"
proof -
  have byte: "0 \<le> b \<and> b \<le> 255" if "b \<in> set (bytes_of w)" for b using that by (auto simp: bytes_of_def)
  have "\<forall>f \<in> set (map Itoa (bytes_of w)). CHR ''.'' \<notin> set f"
    using byte Itoa_digits digit_not_special by fastforce
  then have "Split (CHR ''.'') (addr4_string w) = map Itoa (bytes_of w)"
    unfolding addr4_bytes by (intro Split_Join) (simp_all add: bytes_of_def)
  then have f: "map ipv4_field (Split (CHR ''.'') (addr4_string w)) = map Some (bytes_of w)"
    using byte byte_text(1) by simp
  have eq: "((w div 2 ^ 24 mod 256 * 256 + w div 2 ^ 16 mod 256) * 256 + w div 2 ^ 8 mod 256) * 256 + w div 2 ^ 0 mod 256 = w"
  proof -
    have x: "w div 2 ^ 8 div 256 = w div 2 ^ 16" "w div 2 ^ 16 div 256 = w div 2 ^ 24"
      by (simp_all add: zdiv_zmult2_eq [symmetric])
    have top: "w div 2 ^ 24 mod 256 = w div 2 ^ 24" using assms by (intro mod_pos_pos_trivial) (simp_all add: pos_imp_zdiv_nonneg_iff)
    have a: "w div 2 ^ 24 * 256 + w div 2 ^ 16 mod 256 = w div 2 ^ 16" by (rule div_mult_mod_eq [of "w div 2 ^ 16" 256, unfolded x(2)])
    have b: "w div 2 ^ 16 * 256 + w div 2 ^ 8 mod 256 = w div 2 ^ 8" by (rule div_mult_mod_eq [of "w div 2 ^ 8" 256, unfolded x(1)])
    have c: "w div 2 ^ 8 * 256 + w div 2 ^ 0 mod 256 = w" using div_mult_mod_eq [of w 256] by simp
    show ?thesis by (simp only: top a b c)
  qed
  show ?thesis unfolding parse_ipv4_def f bytes_of_def by (simp only: list.map list.case option.case eq)
qed

lemma addr4_chars: "0 \<le> w \<Longrightarrow> c \<in> set (addr4_string w) \<Longrightarrow> is_digit c \<or> c = CHR ''.''"
proof -
  have join: "set (Join d ws) \<subseteq> insert d (\<Union> (set ` set ws))" for d and ws :: "string list"
    by (induction d ws rule: Join.induct) auto
  assume "0 \<le> w" "c \<in> set (addr4_string w)"
  then have "c = CHR ''.'' \<or> (\<exists>b \<in> set (bytes_of w). c \<in> set (Itoa b))"
    using join [of "CHR ''.''" "map Itoa (bytes_of w)"] unfolding addr4_bytes by auto
  moreover have "0 \<le> b" if "b \<in> set (bytes_of w)" for b using that by (auto simp: bytes_of_def)
  ultimately show ?thesis using Itoa_digits by blast
qed

lemma addr4_shape:
  assumes "0 \<le> w"
  obtains d rest where "addr4_string w = d @ CHR ''.'' # rest" "d \<noteq> []" "length d \<le> 3" "\<forall>c \<in> set d. is_digit c"
proof
  let ?b = "w div 2 ^ 24 mod 256"
  show "addr4_string w = Itoa ?b @ CHR ''.'' # Join (CHR ''.'') (map Itoa (tl (bytes_of w)))"
    by (simp add: addr4_bytes bytes_of_def)
  show "Itoa ?b \<noteq> []" "length (Itoa ?b) \<le> 3" using byte_text(2,3) [of ?b] by simp_all
  show "\<forall>c \<in> set (Itoa ?b). is_digit c" by (rule Itoa_digits) simp
qed

section \<open>Hexadecimal groups\<close>

definition hex_char :: "int \<Rightarrow> char" where
  "hex_char d = (if nat d < 10 then char_of (48 + nat d) else char_of (87 + nat d))"

lemma hex_text_step:
  "hex_text (Suc k) n = (if n < 16 then [hex_char (n mod 16)] else hex_text k (n div 16) @ [hex_char (n mod 16)])"
  by (simp add: hex_char_def Let_def)

lemma hex_char_value:
  assumes "0 \<le> d" "d < 16"
  shows "hex_value (hex_char d) = Some (nat d)"
proof (cases "nat d < 10")
  case True
  then have "code (hex_char d) = 48 + nat d" by (simp add: hex_char_def code_char_of)
  then show ?thesis using True by (simp add: hex_value_def is_digit_def)
next
  case False
  then have "code (hex_char d) = 87 + nat d" using assms by (simp add: hex_char_def code_char_of)
  then show ?thesis using False assms by (simp add: hex_value_def is_digit_def)
qed

definition is_hex :: "char \<Rightarrow> bool" where
  "is_hex c \<longleftrightarrow> hex_value c \<noteq> None"

definition hex_num :: "int \<Rightarrow> string \<Rightarrow> int" where
  "hex_num n s = foldl (\<lambda>n c. 16 * n + int (the (hex_value c))) n s"

lemma hex_run_num:
  "\<forall>c \<in> set xs. is_hex c \<Longrightarrow> ys = [] \<or> \<not> is_hex (hd ys) \<Longrightarrow> hex_run n (xs @ ys) = (hex_num n xs, length xs, ys)"
proof (induction xs arbitrary: n)
  case Nil
  then show ?case by (cases ys) (auto simp: hex_num_def is_hex_def)
next
  case (Cons c xs)
  then obtain d where "hex_value c = Some d" by (auto simp: is_hex_def)
  then show ?case using Cons by (simp add: hex_num_def)
qed

lemma hex_text_facts:
  "0 \<le> n \<Longrightarrow> n < 16 ^ Suc k \<Longrightarrow>
    hex_num 0 (hex_text (Suc k) n) = n \<and> (\<forall>c \<in> set (hex_text (Suc k) n). is_hex c)
    \<and> hex_text (Suc k) n \<noteq> [] \<and> length (hex_text (Suc k) n) \<le> Suc k"
proof (induction k arbitrary: n)
  case 0
  then show ?case by (simp add: hex_text_step hex_num_def is_hex_def hex_char_value del: hex_text.simps)
next
  case (Suc k)
  have v: "hex_value (hex_char (n mod 16)) = Some (nat (n mod 16))" by (rule hex_char_value) simp_all
  show ?case
  proof (cases "n < 16")
    case True
    then show ?thesis using Suc.prems v by (simp add: hex_text_step [of "Suc k"] hex_num_def is_hex_def del: hex_text.simps)
  next
    case False
    have "n div 16 < 16 ^ Suc k" using Suc.prems by simp
    then have IH: "hex_num 0 (hex_text (Suc k) (n div 16)) = n div 16 \<and> (\<forall>c \<in> set (hex_text (Suc k) (n div 16)). is_hex c)
      \<and> hex_text (Suc k) (n div 16) \<noteq> [] \<and> length (hex_text (Suc k) (n div 16)) \<le> Suc k"
      using Suc.IH [of "n div 16"] Suc.prems by simp
    have "hex_num 0 (hex_text (Suc k) (n div 16) @ [hex_char (n mod 16)]) = n"
      using IH v by (simp add: hex_num_def)
    then show ?thesis using False IH v unfolding hex_text_step [of "Suc k"] by (simp add: is_hex_def del: hex_text.simps)
  qed
qed

text \<open>The text of one group: it is read back, and starts and ends within four digits.\<close>

definition group_ok :: "int \<Rightarrow> bool" where
  "group_ok g \<longleftrightarrow> 0 \<le> g \<and> g < 65536"

abbreviation group_text :: "int \<Rightarrow> string" where
  "group_text g \<equiv> hex_text 4 g"

lemma group_facts:
  assumes "group_ok g"
  shows "\<forall>c \<in> set (group_text g). is_hex c" "group_text g \<noteq> []" "length (group_text g) \<le> 4"
    and "ys = [] \<or> \<not> is_hex (hd ys) \<Longrightarrow> hex_run 0 (group_text g @ ys) = (g, length (group_text g), ys)"
proof -
  have f: "hex_num 0 (group_text g) = g \<and> (\<forall>c \<in> set (group_text g). is_hex c) \<and> group_text g \<noteq> [] \<and> length (group_text g) \<le> 4"
    using hex_text_facts [of g 3] assms by (simp add: group_ok_def numeral_eq_Suc del: hex_text.simps)
  then show "\<forall>c \<in> set (group_text g). is_hex c" "group_text g \<noteq> []" "length (group_text g) \<le> 4" by blast+
  show "ys = [] \<or> \<not> is_hex (hd ys) \<Longrightarrow> hex_run 0 (group_text g @ ys) = (g, length (group_text g), ys)"
    using hex_run_num [of "group_text g" ys 0] f by simp
qed

lemma colon_not_hex: "\<not> is_hex (CHR '':'')" "\<not> is_hex (CHR ''.'')" "\<not> is_hex (CHR ''%'')"
  by (simp_all add: is_hex_def hex_value_def is_digit_def code_def)

section \<open>IPv6\<close>

lemma groups_text_Cons: "groups_text (g # gs) = group_text g @ (if gs = [] then [] else CHR '':'' # groups_text gs)"
  by (cases gs) (simp_all add: groups_text_def del: hex_text.simps)

lemma groups_text_hd: "group_ok g \<Longrightarrow> groups_text (g # gs) \<noteq> [] \<and> is_hex (hd (groups_text (g # gs)))"
  using group_facts(1,2) [of g] by (cases "group_text g") (auto simp: groups_text_Cons simp del: hex_text.simps)

text \<open>One group, then the rest of the text.\<close>

lemma ipv6_group:
  assumes "group_ok g" and "ys = [] \<or> hd ys = CHR '':''"
  shows "ipv6_groups (Suc room) out ell (group_text g @ ys) =
     (case ys of
        [] \<Rightarrow> Some (out @ [g], ell)
      | c # t \<Rightarrow>
          if t = [] then None
          else if hd t = CHR '':'' then
            (if ell \<noteq> None then None
             else if tl t = [] then Some (out @ [g], Some (length (out @ [g])))
             else ipv6_groups room (out @ [g]) (Some (length (out @ [g]))) (tl t))
          else ipv6_groups room (out @ [g]) ell t)"
proof -
  have "ys = [] \<or> \<not> is_hex (hd ys)" using assms(2) colon_not_hex(1) by auto
  from group_facts(4) [OF assms(1) this] have run: "hex_run 0 (group_text g @ ys) = (g, length (group_text g), ys)" .
  have "\<not> HasPrefix ys ''.''" using assms(2) by (cases ys) auto
  then show ?thesis
    using run group_facts(2,3) [OF assms(1)] assms(2) by (cases ys) (simp_all add: Let_def del: hex_text.simps)
qed

lemma ipv6_plain:
  "list_all group_ok (g # gs) \<Longrightarrow> length (g # gs) \<le> room \<Longrightarrow> ipv6_groups room out ell (groups_text (g # gs)) = Some (out @ g # gs, ell)"
proof (induction gs arbitrary: g room out)
  case Nil
  then obtain r where "room = Suc r" by (cases room) auto
  then show ?case using Nil ipv6_group [of g "[]" r out ell] by (simp add: groups_text_Cons del: hex_text.simps ipv6_groups.simps)
next
  case (Cons h gs)
  then obtain r where r: "room = Suc r" by (cases room) auto
  have h: "groups_text (h # gs) \<noteq> []" "hd (groups_text (h # gs)) \<noteq> CHR '':''"
    using groups_text_hd [of h gs] Cons.prems colon_not_hex(1) by auto
  have "ipv6_groups r (out @ [g]) ell (groups_text (h # gs)) = Some ((out @ [g]) @ h # gs, ell)"
    using Cons.prems r by (intro Cons.IH) simp_all
  then show ?case
    using ipv6_group [of g "CHR '':'' # groups_text (h # gs)" r out ell] Cons.prems h
    by (simp add: groups_text_Cons [of g] r del: hex_text.simps ipv6_groups.simps)
qed

lemma ipv6_ellipsis:
  "list_all group_ok (g # gs) \<Longrightarrow> list_all group_ok post \<Longrightarrow> length (g # gs) + length post \<le> room \<Longrightarrow>
    ipv6_groups room out None (groups_text (g # gs) @ ''::'' @ groups_text post)
      = Some (out @ (g # gs) @ post, Some (length (out @ g # gs)))"
proof (induction gs arbitrary: g room out)
  case Nil
  then obtain r where r: "room = Suc r" by (cases room) auto
  show ?case
  proof (cases post)
    case Nil: Nil
    then show ?thesis using Nil.prems ipv6_group [of g "''::''" r out None] r
      by (simp add: groups_text_def del: hex_text.simps ipv6_groups.simps)
  next
    case (Cons p ps)
    have "groups_text post \<noteq> []" using groups_text_hd [of p ps] Nil.prems Cons by auto
    then show ?thesis
      using Nil.prems ipv6_group [of g "''::'' @ groups_text post" r out None] ipv6_plain [of p ps r "out @ [g]" "Some (length (out @ [g]))"] r Cons
      by (simp add: groups_text_Cons [of g] del: hex_text.simps ipv6_groups.simps)
  qed
next
  case (Cons h gs)
  then obtain r where r: "room = Suc r" by (cases room) auto
  have h: "groups_text (h # gs) \<noteq> []" "hd (groups_text (h # gs)) \<noteq> CHR '':''"
    using groups_text_hd [of h gs] Cons.prems colon_not_hex(1) by auto
  have IH: "ipv6_groups r (out @ [g]) None (groups_text (h # gs) @ ''::'' @ groups_text post)
      = Some ((out @ [g]) @ (h # gs) @ post, Some (length ((out @ [g]) @ h # gs)))"
    using Cons.prems r by (intro Cons.IH) simp_all
  show ?case
    using ipv6_group [of g "CHR '':'' # groups_text (h # gs) @ ''::'' @ groups_text post" r out None] Cons.prems h IH
    by (simp add: groups_text_Cons [of g] r hd_append del: hex_text.simps ipv6_groups.simps)
qed

section \<open>The ellipsis\<close>

lemma zero_run_take: "take (zero_run gs) gs = replicate (zero_run gs) 0 \<and> zero_run gs \<le> length gs"
  by (induction gs) auto

lemma best_run_zeros:
  assumes "best_run gs = (i, n)"
  shows "i + n \<le> length gs" and "gs = take i gs @ replicate n 0 @ drop (i + n) gs"
proof -
  have "i + n \<le> length gs \<and> take n (drop i gs) = replicate n 0"
  proof -
    let ?Q = "\<lambda>(i, n). i + n \<le> length gs \<and> take n (drop i gs) = replicate n (0::int)"
    have runs: "?Q r" if "r \<in> set (zero_runs gs)" for r
      using that zero_run_take [of "drop (fst r) gs"] by (auto simp: zero_runs_def)
    have "?Q (best_run gs)" unfolding best_run_def
      by (rule fold_invariant [where Q = ?Q]) (use runs in \<open>auto split: if_splits\<close>)
    then show ?thesis using assms by simp
  qed
  then show "i + n \<le> length gs" "gs = take i gs @ replicate n 0 @ drop (i + n) gs"
    by (metis append_take_drop_id drop_drop add.commute)+
qed

section \<open>Addresses\<close>

text \<open>The addresses that Go holds, without a zone.\<close>

fun addr_ok :: "addr \<Rightarrow> bool" where
  "addr_ok (V4 w) \<longleftrightarrow> 0 \<le> w \<and> w < 2 ^ 32"
| "addr_ok (V6 gs z) \<longleftrightarrow> length gs = 8 \<and> list_all group_ok gs \<and> z = []"

lemma groups_chars: "list_all group_ok gs \<Longrightarrow> c \<in> set (groups_text gs) \<Longrightarrow> is_hex c \<or> c = CHR '':''"
proof (induction gs)
  case (Cons g gs)
  then show ?case using group_facts(1) [of g] by (auto simp: groups_text_Cons simp del: hex_text.simps split: if_splits)
qed (simp add: groups_text_def)

lemma no_percent: "CHR ''%'' \<notin> set s \<Longrightarrow> Cut s (CHR ''%'') = (s, [], False)"
proof -
  assume "CHR ''%'' \<notin> set s"
  then have "\<forall>d \<in> set s. d \<noteq> CHR ''%''" by blast
  then have cut: "takeWhile (\<lambda>d. d \<noteq> CHR ''%'') s = s" "dropWhile (\<lambda>d. d \<noteq> CHR ''%'') s = []" by simp_all
  show ?thesis using \<open>CHR ''%'' \<notin> set s\<close> by (simp add: Cut_def cut)
qed

text \<open>What \<open>parse_ipv6\<close> makes of the groups and the place of the ellipsis.\<close>

lemma parse_ipv6_start:
  assumes "CHR ''%'' \<notin> set s" and "\<not> HasPrefix s ''::''" and "ipv6_groups 8 [] None s = Some (out, ell)"
  shows "parse_ipv6 s = (if length out < 8
      then (case ell of None \<Rightarrow> None | Some e \<Rightarrow> Some (V6 (take e out @ replicate (8 - length out) 0 @ drop e out) []))
      else if ell \<noteq> None then None else Some (V6 out []))"
  using assms by (simp add: parse_ipv6_def no_percent del: ipv6_groups.simps)

lemma parse_ipv6_colons:
  assumes "CHR ''%'' \<notin> set s" and "s \<noteq> []" and "ipv6_groups 8 [] (Some 0) s = Some (out, ell)"
  shows "parse_ipv6 (''::'' @ s) = (if length out < 8
      then (case ell of None \<Rightarrow> None | Some e \<Rightarrow> Some (V6 (take e out @ replicate (8 - length out) 0 @ drop e out) []))
      else if ell \<noteq> None then None else Some (V6 out []))"
  using assms by (simp add: parse_ipv6_def no_percent del: ipv6_groups.simps)

lemma hex_start: "s \<noteq> [] \<Longrightarrow> is_hex (hd s) \<Longrightarrow> \<not> HasPrefix (s @ t) ''::''"
  using colon_not_hex(1) by (cases s) auto

lemma parse_groups:
  assumes "length gs = 8" and "list_all group_ok gs"
  shows "parse_ipv6 (addr_string (V6 gs [])) = Some (V6 gs [])"
proof -
  obtain i n where b: "best_run gs = (i, n)" by force
  note z = best_run_zeros [OF b]
  let ?pre = "take i gs" and ?post = "drop (i + n) gs"
  have ok: "list_all group_ok ?pre" "list_all group_ok ?post" using assms(2) by (auto simp: list_all_iff dest: in_set_takeD in_set_dropD)
  have pc: "CHR ''%'' \<notin> set (groups_text xs)" if "list_all group_ok xs" for xs
    using groups_chars [OF that] colon_not_hex(3) by auto
  show ?thesis
  proof (cases "n < 2")
    case True
    obtain g gs' where g: "gs = g # gs'" using assms(1) by (cases gs) auto
    have "ipv6_groups 8 [] None (groups_text gs) = Some (gs, None)"
      using ipv6_plain [of g gs' 8 "[]" None] assms by (simp add: g del: hex_text.simps ipv6_groups.simps)
    moreover have "\<not> HasPrefix (groups_text gs) ''::''"
      using hex_start [of "groups_text gs" "[]"] groups_text_hd [of g gs'] assms(2) by (simp add: g)
    ultimately show ?thesis using True parse_ipv6_start [OF pc [OF assms(2)]] assms(1) by (simp add: addr_string_def b)
  next
    case False
    have s: "addr_string (V6 gs []) = groups_text ?pre @ ''::'' @ groups_text ?post" using False by (simp add: addr_string_def b)
    have pc': "CHR ''%'' \<notin> set (groups_text ?pre @ ''::'' @ groups_text ?post)" using pc [OF ok(1)] pc [OF ok(2)] by simp
    have len: "length ?pre = i" "length ?post = 8 - (i + n)" "i + n \<le> 8" using z(1) assms(1) by simp_all
    show ?thesis
    proof (cases ?pre)
      case Nil
      then have i: "i = 0" using assms(1) by auto
      show ?thesis
      proof (cases ?post)
        case Nil: Nil
        then have "gs = replicate n 0" "n = 8" using z(2) i len by simp_all
        moreover have "addr_string (V6 gs []) = ''::''" using s i Nil by (simp add: groups_text_def)
        ultimately show ?thesis by (simp add: parse_ipv6_def Cut_def)
      next
        case (Cons p ps)
        have "ipv6_groups 8 [] (Some 0) (groups_text ?post) = Some (?post, Some 0)"
          using ipv6_plain [of p ps 8 "[]" "Some 0"] ok(2) len by (simp add: Cons del: hex_text.simps ipv6_groups.simps)
        moreover have "groups_text ?post \<noteq> []" using groups_text_hd [of p ps] ok(2) by (simp add: Cons)
        moreover have "length ?post < 8" "8 - length ?post = n" using len i False by simp_all
        ultimately have "parse_ipv6 (''::'' @ groups_text ?post) = Some (V6 (replicate n 0 @ ?post) [])"
          using parse_ipv6_colons [OF pc [OF ok(2)]] by simp
        then show ?thesis using z(2) unfolding s by (simp add: i groups_text_def)
      qed
    next
      case (Cons p ps)
      have "ipv6_groups 8 [] None (groups_text ?pre @ ''::'' @ groups_text ?post) = Some (?pre @ ?post, Some i)"
        using ipv6_ellipsis [of p ps ?post 8 "[]"] ok len Cons by (simp del: hex_text.simps ipv6_groups.simps)
      moreover have "\<not> HasPrefix (groups_text ?pre @ ''::'' @ groups_text ?post) ''::''"
        using hex_start [of "groups_text ?pre"] groups_text_hd [of p ps] ok(1) by (simp add: Cons)
      moreover have "length (?pre @ ?post) < 8" "8 - length (?pre @ ?post) = n" using len False by simp_all
      ultimately have "parse_ipv6 (groups_text ?pre @ ''::'' @ groups_text ?post) = Some (V6 (?pre @ replicate n 0 @ ?post) [])"
        using parse_ipv6_start [OF pc'] len by simp
      then show ?thesis using z(2) unfolding s by simp
    qed
  qed
qed

lemma parse_mapped:
  assumes "0 \<le> w" "w < 2 ^ 32"
  shows "parse_ipv6 (''::ffff:'' @ addr4_string w) = Some (V6 [0, 0, 0, 0, 0, 65535, w div 65536, w mod 65536] [])"
proof -
  obtain d rest where d: "addr4_string w = d @ CHR ''.'' # rest" "d \<noteq> []" "length d \<le> 3" "\<forall>c \<in> set d. is_digit c"
    using addr4_shape [OF assms(1)] by blast
  have hex: "\<forall>c \<in> set d. is_hex c" using d(4) by (simp add: is_hex_def hex_value_def)
  have run: "hex_run 0 (addr4_string w) = (hex_num 0 d, length d, CHR ''.'' # rest)"
    using hex_run_num [of d "CHR ''.'' # rest" 0] hex colon_not_hex(2) by (simp add: d(1))
  have four: "ipv6_groups 7 [65535] (Some 0) (addr4_string w) = Some ([65535, w div 65536, w mod 65536], Some 0)"
    using parse_addr4 [OF assms] d(2,3) by (simp add: numeral_eq_Suc run)
  have "hd (addr4_string w) \<noteq> CHR '':''" "addr4_string w \<noteq> []"
    using d(2,4) digit_not_special by (cases d; auto simp: d(1))+
  moreover have f: "''ffff'' = group_text 65535" by code_simp
  ultimately have "ipv6_groups 8 [] (Some 0) (''ffff:'' @ addr4_string w) = Some ([65535, w div 65536, w mod 65536], Some 0)"
    using ipv6_group [of 65535 "CHR '':'' # addr4_string w" 7 "[]" "Some 0"] four
    by (simp add: group_ok_def f [symmetric] del: hex_text.simps ipv6_groups.simps)
  moreover have "CHR ''%'' \<notin> set (''ffff:'' @ addr4_string w)"
    using addr4_chars [OF assms(1), of "CHR ''%''"] digit_not_special by auto
  ultimately show ?thesis using parse_ipv6_colons [of "''ffff:'' @ addr4_string w"] by (simp add: numeral_eq_Suc)
qed

lemma Unmap_V4:
  assumes "Unmap (V6 gs z) = V4 w" and "list_all group_ok gs"
  shows "gs = [0, 0, 0, 0, 0, 65535, w div 65536, w mod 65536] \<and> 0 \<le> w \<and> w < 2 ^ 32"
  using assms by (auto simp: Unmap_def group_ok_def split: list.splits if_splits)

text \<open>Which parser a text reaches: by its first dot, colon or percent sign.\<close>

lemma ParseAddr_dot: "\<forall>c \<in> set d. is_digit c \<Longrightarrow> ParseAddr (d @ CHR ''.'' # rest) = map_option V4 (parse_ipv4 (d @ CHR ''.'' # rest))"
proof -
  assume "\<forall>c \<in> set d. is_digit c"
  then have "find (\<lambda>c. c \<in> {CHR ''.'', CHR '':'', CHR ''%''}) (d @ CHR ''.'' # rest) = Some (CHR ''.'')"
    using digit_not_special by (induction d) auto
  then show ?thesis by (simp add: ParseAddr_def)
qed

lemma ParseAddr_colon: "\<forall>c \<in> set d. is_hex c \<Longrightarrow> ParseAddr (d @ CHR '':'' # rest) = parse_ipv6 (d @ CHR '':'' # rest)"
proof -
  assume "\<forall>c \<in> set d. is_hex c"
  then have "find (\<lambda>c. c \<in> {CHR ''.'', CHR '':'', CHR ''%''}) (d @ CHR '':'' # rest) = Some (CHR '':'')"
    using colon_not_hex by (induction d) auto
  then show ?thesis by (simp add: ParseAddr_def)
qed

lemma groups_colon:
  assumes "length gs = 8" and "list_all group_ok gs"
  obtains d rest where "addr_string (V6 gs []) = d @ CHR '':'' # rest" "\<forall>c \<in> set d. is_hex c"
proof -
  have two: "\<exists>d rest. groups_text (g # h # gs') = d @ CHR '':'' # rest \<and> (\<forall>c \<in> set d. is_hex c)" if "group_ok g" for g h gs'
    using group_facts(1) [OF that] groups_text_Cons [of g "h # gs'"] by fastforce
  have one: "\<exists>d rest. groups_text xs @ ''::'' @ t = d @ CHR '':'' # rest \<and> (\<forall>c \<in> set d. is_hex c)" if "list_all group_ok xs" for xs t
  proof (cases xs)
    case Nil
    then show ?thesis by (intro exI [of _ "[]"] exI [of _ "CHR '':'' # t"]) (simp add: groups_text_def)
  next
    case (Cons g ys)
    then show ?thesis
    proof (cases ys)
      case Nil: Nil
      then show ?thesis using group_facts(1) [of g] that Cons
        by (intro exI [of _ "group_text g"] exI [of _ "CHR '':'' # t"]) (simp add: groups_text_def del: hex_text.simps)
    next
      case (Cons h zs)
      then obtain d rest where "groups_text xs = d @ CHR '':'' # rest" "\<forall>c \<in> set d. is_hex c"
        using two [of g h zs] \<open>xs = g # ys\<close> \<open>list_all group_ok xs\<close> by auto
      then show ?thesis by (intro exI [of _ d] exI [of _ "rest @ ''::'' @ t"]) simp
    qed
  qed
  obtain i n where b: "best_run gs = (i, n)" by force
  obtain g h gs' where g: "gs = g # h # gs'" using assms(1) by (cases gs; cases "tl gs") auto
  have "\<exists>d rest. addr_string (V6 gs []) = d @ CHR '':'' # rest \<and> (\<forall>c \<in> set d. is_hex c)"
  proof (cases "n < 2")
    case True
    then have "addr_string (V6 gs []) = groups_text gs" by (simp add: addr_string_def b)
    then show ?thesis using two [of g h gs'] assms(2) by (simp add: g)
  next
    case False
    then show ?thesis using one [of "take i gs" "groups_text (drop (i + n) gs)"] assms(2)
      by (simp add: addr_string_def b list_all_iff) (meson in_set_takeD)
  qed
  then show thesis using that by blast
qed

lemma ParseAddr_AddrString: "addr_ok a \<Longrightarrow> ParseAddr (AddrString a) = Some a"
proof (cases a)
  case (V4 w)
  assume "addr_ok a"
  then have w: "0 \<le> w" "w < 2 ^ 32" by (simp_all add: V4)
  obtain d rest where d: "addr4_string w = d @ CHR ''.'' # rest" "\<forall>c \<in> set d. is_digit c" by (rule addr4_shape [OF w(1)])
  have "ParseAddr (addr4_string w) = map_option V4 (parse_ipv4 (addr4_string w))" unfolding d(1) by (rule ParseAddr_dot [OF d(2)])
  then show ?thesis using parse_addr4 [OF w] by (simp add: AddrString_def V4 addr_string_def)
next
  case (V6 gs z)
  assume ok: "addr_ok a"
  show ?thesis
  proof (cases "Unmap a")
    case (V4 w)
    then have gs: "gs = [0, 0, 0, 0, 0, 65535, w div 65536, w mod 65536]" "0 \<le> w" "w < 2 ^ 32"
      using Unmap_V4 [of gs z w] ok V6 by auto
    have "ParseAddr (''::ffff:'' @ addr4_string w) = parse_ipv6 (''::ffff:'' @ addr4_string w)"
      using ParseAddr_colon [of "[]" "'':ffff:'' @ addr4_string w"] by simp
    then show ?thesis using V4 ok gs parse_mapped [OF gs(2,3)] by (simp add: AddrString_def V6)
  next
    case (V6 gs' z')
    then have s: "AddrString a = addr_string (V6 gs [])" using ok \<open>a = V6 gs z\<close> by (simp add: AddrString_def)
    have gs: "length gs = 8" "list_all group_ok gs" "z = []" using ok \<open>a = V6 gs z\<close> by simp_all
    obtain d rest where d: "addr_string (V6 gs []) = d @ CHR '':'' # rest" "\<forall>c \<in> set d. is_hex c" using groups_colon [OF gs(1,2)] by blast
    have "ParseAddr (addr_string (V6 gs [])) = parse_ipv6 (addr_string (V6 gs []))" unfolding d(1) by (rule ParseAddr_colon [OF d(2)])
    then show ?thesis using parse_groups [OF gs(1,2)] s gs(3) \<open>a = V6 gs z\<close> by simp
  qed
qed

section \<open>Prefixes\<close>

definition pfx_ok :: "pfx \<Rightarrow> bool" where
  "pfx_ok p \<longleftrightarrow> addr_ok (fst p) \<and> snd p \<le> width (fst p)"

lemma LastCut_append: "c \<notin> set b \<Longrightarrow> LastCut (a @ c # b) c = Some (a, b)"
proof -
  assume c: "c \<notin> set b"
  then have "takeWhile (\<lambda>d. d \<noteq> c) (rev b @ c # rev a) = rev b" "dropWhile (\<lambda>d. d \<noteq> c) (rev b @ c # rev a) = c # rev a"
    by (auto simp: takeWhile_append dropWhile_append)
  then show ?thesis by (simp add: LastCut_def)
qed

lemma bits_text:
  assumes "n \<le> 128"
  shows "Itoa (int n) \<noteq> []" and "CHR ''/'' \<notin> set (Itoa (int n))" and "read_digits 0 (Itoa (int n)) = Some (int n)"
    and "1 < length (Itoa (int n)) \<Longrightarrow> 49 \<le> code (hd (Itoa (int n))) \<and> code (hd (Itoa (int n))) \<le> 57"
proof -
  show "Itoa (int n) \<noteq> []" by (simp add: Itoa_def)
  show "CHR ''/'' \<notin> set (Itoa (int n))" using Itoa_digits [of "int n"] by (auto simp: is_digit_def code_def)
  show "read_digits 0 (Itoa (int n)) = Some (int n)" by (simp add: Itoa_def read_show_digits)
  assume long: "1 < length (Itoa (int n))"
  have "ipv4_field (Itoa (int n)) = Some (int n)" using byte_text(1) [of "int n"] assms by simp
  then have "hd (Itoa (int n)) \<noteq> CHR ''0''" using long by (auto simp: ipv4_field_def split: if_splits)
  moreover have "is_digit (hd (Itoa (int n)))" using Itoa_digits [of "int n"] hd_in_set [OF \<open>Itoa (int n) \<noteq> []\<close>] by simp
  moreover have "code (CHR ''0'') = 48" by (simp add: code_def)
  ultimately show "49 \<le> code (hd (Itoa (int n))) \<and> code (hd (Itoa (int n))) \<le> 57"
    using code_eq_iff [of "hd (Itoa (int n))" "CHR ''0''"] by (simp add: is_digit_def del: code_eq_iff)
qed

lemma width_le: "width a \<le> 128"
  by (cases a) simp_all

lemma addr_ok_zone: "addr_ok a \<Longrightarrow> zone a = []"
  by (cases a) simp_all

lemma ParsePrefix_PrefixString:
  assumes "pfx_ok p"
  shows "ParsePrefix (PrefixString p) = Some p"
proof -
  have b: "snd p \<le> width (fst p)" "snd p \<le> 128" using assms width_le [of "fst p"] by (auto simp: pfx_ok_def)
  note t = bits_text [OF b(2)]
  have "LastCut (PrefixString p) (CHR ''/'') = Some (AddrString (fst p), Itoa (int (snd p)))"
    unfolding PrefixString_def by (rule LastCut_append [OF t(2)])
  then show ?thesis
    using assms b ParseAddr_AddrString [of "fst p"] addr_ok_zone [of "fst p"] t(1,3,4) by (auto simp: ParsePrefix_def pfx_ok_def)
qed

end
