(* ===== verification/Access_Properties.thy ===== *)
theory Access_Properties
  imports Access_Gate Access_Roundtrip
begin

text \<open>
  What a stored access policy means: its networks are the ones that were validated, a client is
  inside them exactly when its bits say so, networks nest, and the hop that names the client
  is the last one no trusted proxy wrote.
\<close>

section \<open>Prefixes that were validated\<close>

lemma read_digits_nonneg: "read_digits n s = Some m \<Longrightarrow> 0 \<le> n \<Longrightarrow> 0 \<le> m"
  by (induction n s rule: read_digits.induct) (auto simp: is_digit_def split: if_splits)

lemma parse_ipv4_nonneg: "parse_ipv4 s = Some w \<Longrightarrow> 0 \<le> w"
proof -
  assume "parse_ipv4 s = Some w"
  then obtain a b c d where fs: "map ipv4_field (Split (CHR ''.'') s) = [Some a, Some b, Some c, Some d]"
    and w: "w = ((a * 256 + b) * 256 + c) * 256 + d"
    by (auto simp: parse_ipv4_def split: list.splits option.splits)
  have "0 \<le> n" if "ipv4_field f = Some n" for f n
    using that read_digits_nonneg [of 0 f] by (auto simp: ipv4_field_def split: if_splits option.splits)
  with fs have "0 \<le> a" "0 \<le> b" "0 \<le> c" "0 \<le> d" by (auto simp: map_eq_Cons_conv)
  with w show ?thesis by simp
qed

lemma ParseAddr_V4: "ParseAddr s = Some (V4 w) \<Longrightarrow> 0 \<le> w \<and> w < 2 ^ 32"
  by (auto simp: ParseAddr_def parse_ipv6_def Let_def split: option.splits if_splits prod.splits
      dest: parse_ipv4_nonneg parse_ipv4_bound)

lemma masked_ok:
  assumes "ParsePrefix s = Some p" and "p = MaskedPrefix p"
  shows "pfx_ok p"
proof -
  obtain a ip where ip: "ParseAddr a = Some ip" "zone ip = []" "fst p = ip" "snd p \<le> width ip"
    using assms(1) by (auto simp: ParsePrefix_def split: option.splits if_splits)
  have "addr_ok ip"
  proof (cases ip)
    case (V4 w)
    then show ?thesis using ParseAddr_V4 [of a w] ip(1) by simp
  next
    case (V6 gs z)
    have "ip = with_number ip (network_of ip (snd p) * 2 ^ (width ip - snd p))"
      using arg_cong [OF assms(2), of fst] ip(3) by (simp add: MaskedPrefix_def)
    moreover have "addr_ok (with_number ip n)" for n using ip(2) by (simp add: V6 group_ok_def)
    ultimately show ?thesis by metis
  qed
  then show ?thesis using ip(3,4) by (simp add: pfx_ok_def)
qed

lemma prefix_list_ok: "prefix_list field raws = Inr ps \<Longrightarrow> \<forall>p \<in> set ps. pfx_ok p \<and> p = MaskedPrefix p"
  by (induction raws arbitrary: ps) (auto simp: result_iff split: option.splits if_splits dest: masked_ok)

lemma prefixes_ok: "prefixes values field = Inr ps \<Longrightarrow> \<forall>p \<in> set ps. pfx_ok p \<and> p = MaskedPrefix p"
  by (auto simp: prefixes_def result_iff dest: prefix_list_ok)

lemma set_canonical [simp]: "set (canonical ps) = PrefixString ` set ps"
  by (simp add: canonical_def)

lemma contains_canonical:
  assumes "\<forall>p \<in> set ps. pfx_ok p"
  shows "contains_addr (canonical ps) a \<longleftrightarrow> (\<exists>p \<in> set ps. PrefixContains p a)"
  using assms by (auto simp: contains_addr_def list_ex_iff ParsePrefix_PrefixString)

section \<open>Networks nest\<close>

lemma network_of_wider:
  assumes "network_of a n = network_of b n" and "width a = width b" and "m \<le> n" and "n \<le> width a"
  shows "network_of a m = network_of b m"
proof -
  have "network_of x m = network_of x n div 2 ^ (n - m)" if "width x = width a" for x
  proof -
    have "width x - m = (width x - n) + (n - m)" using assms(3,4) that by simp
    then show ?thesis by (simp add: network_of_def zdiv_zmult2_eq power_add)
  qed
  then show ?thesis using assms(1,2) by simp
qed

lemma PrefixContains_trans:
  assumes "snd t \<le> snd p" and "PrefixContains t (fst p)" and "PrefixContains p a" and "snd p \<le> width (fst p)"
  shows "PrefixContains t a"
  using assms network_of_wider [of "fst p" "snd p" a "snd t"] by (simp add: PrefixContains_def)

section \<open>The stored policy\<close>

lemma Policy_Normalize_run:
  assumes "Policy_Normalize p = Inr q"
  shows "\<exists>allow trusted. prefixes (pol_AllowCIDRs p) ''allow_cidrs'' = Inr allow
    \<and> prefixes (pol_TrustedProxyCIDRs p) ''trusted_proxy_cidrs'' = Inr trusted
    \<and> pol_AllowCIDRs q = canonical allow \<and> pol_TrustedProxyCIDRs q = canonical trusted
    \<and> pol_Enabled q = pol_Enabled p \<and> pol_VPNOnly q = pol_VPNOnly p \<and> pol_Firewall q = pol_Firewall p
    \<and> pol_ClientIPHeader q = pol_ClientIPHeader p \<and> (\<forall>r \<in> set allow. snd r \<noteq> 0) \<and> (pol_Firewall q \<longrightarrow> pol_Enabled q)
    \<and> (pol_Enabled q \<longrightarrow> allow \<noteq> []) \<and> source_checks q trusted = Inr () \<and> vpn_only_checks q allow = Inr ()"
proof -
  obtain p1 where p1: "p1 = (if pol_ClientIPSource p = [] then p\<lparr>pol_ClientIPSource := ''connection''\<rparr> else p)" by blast
  then have same: "pol_AllowCIDRs p1 = pol_AllowCIDRs p" "pol_TrustedProxyCIDRs p1 = pol_TrustedProxyCIDRs p" "pol_Enabled p1 = pol_Enabled p"
    "pol_VPNOnly p1 = pol_VPNOnly p" "pol_Firewall p1 = pol_Firewall p" "pol_ClientIPHeader p1 = pol_ClientIPHeader p" by simp_all
  obtain allow trusted vpn tailscale openvpn ipsec server where
    r: "prefixes (pol_AllowCIDRs p1) ''allow_cidrs'' = Inr allow" "prefixes (pol_TrustedProxyCIDRs p1) ''trusted_proxy_cidrs'' = Inr trusted"
      "\<not> list_ex (\<lambda>q. snd q = 0) allow" "pol_Firewall p1 \<longrightarrow> pol_Enabled p1" "pol_Enabled p1 \<longrightarrow> allow \<noteq> []"
      "source_checks p1 trusted = Inr ()"
    and q: "q = p1\<lparr>pol_AllowCIDRs := canonical allow, pol_TrustedProxyCIDRs := canonical trusted,
        pol_VPN := vpn, pol_VPNServer := server, pol_Tailscale := tailscale, pol_OpenVPN := openvpn, pol_IPsec := ipsec\<rparr>"
      "vpn_only_checks q allow = Inr ()"
    using assms unfolding Policy_Normalize_def Let_def p1 [symmetric] by (auto simp: result_iff)
  have "source_checks q trusted = source_checks p1 trusted" by (simp add: q(1) source_checks_def)
  then show ?thesis using r q(2) unfolding same
    by (intro exI [of _ allow] exI [of _ trusted]) (auto simp: q(1) same list_ex_iff)
qed

text \<open>With vpn_only, whom the policy lets in is inside a tunnel.\<close>

lemma vpn_only_inside:
  assumes "Policy_Normalize p = Inr q" and "pol_VPNOnly q" and "contains_addr (pol_AllowCIDRs q) a"
  shows "\<exists>raw \<in> set (tunnels q). \<exists>t. ParsePrefix raw = Some t \<and> PrefixContains t a"
proof -
  obtain allow where allow: "prefixes (pol_AllowCIDRs p) ''allow_cidrs'' = Inr allow" "pol_AllowCIDRs q = canonical allow"
    "vpn_only_checks q allow = Inr ()"
    using Policy_Normalize_run [OF assms(1)] by blast
  have ok: "\<forall>p \<in> set allow. pfx_ok p" using prefixes_ok [OF allow(1)] by blast
  then obtain n where n: "n \<in> set allow" "PrefixContains n a" using assms(3) contains_canonical by (auto simp: allow(2))
  have "inside_tunnel (tunnels q) n" using allow(3) assms(2) n(1) by (auto simp: vpn_only_checks_def list_all_iff split: if_splits)
  then obtain raw t where t: "raw \<in> set (tunnels q)" "ParsePrefix raw = Some t" "snd t \<le> snd n" "PrefixContains t (fst n)"
    by (auto simp: inside_tunnel_def list_ex_iff split: option.splits)
  have "PrefixContains t a" by (rule PrefixContains_trans [OF t(3,4) n(2)]) (use ok n(1) in \<open>simp add: pfx_ok_def\<close>)
  then show ?thesis using t(1,2) by blast
qed

lemma gate_vpn_only:
  assumes "Policy_Normalize p = Inr q" and "pol_VPNOnly q" and "sv_Policy s = Some q" and "sv_Store s" and "\<not> sv_ManagedCloud s"
    and "\<not> exempt r" and "accessGate s r = Admitted"
  shows "\<exists>client. clientAddress r q = Some client
    \<and> (IsLoopback (Unmap client) \<or> Unmap client \<in> set (sv_Local s)
       \<or> (\<exists>raw \<in> set (tunnels q). \<exists>t. ParsePrefix raw = Some t \<and> PrefixContains t (Unmap client)))"
proof -
  have "pol_Enabled q"
    using Policy_Normalize_run [OF assms(1)] assms(2) by (auto simp: vpn_only_checks_def split: if_splits)
  then show ?thesis
    using assms(3-7) vpn_only_inside [OF assms(1,2)] by (auto simp: accessGate_def admits_def Policy_Allows_def split: option.splits if_splits)
qed

section \<open>The hop that names the client\<close>









section \<open>Properties\<close>

definition demo_vpn :: VPN where
  "demo_vpn = \<lparr>vpn_Address = ''10.99.0.2/32'', vpn_PeerPublicKey = ''xTIBA5rboUvnH4htodjb6e697QjLERt1NAB4mZqp8Dg='',
     vpn_PeerEndpoint = ''vpn.example.com:51820'', vpn_AllowedIPs = [''10.99.0.0/24''], vpn_Keepalive = 0\<rparr>"

definition demo_policy :: Policy where
  "demo_policy = \<lparr>pol_Enabled = True, pol_ClientIPSource = ''trusted_proxy'', pol_TrustedProxyCIDRs = [''192.0.2.0/24''],
     pol_ClientIPHeader = ''X-Forwarded-For'', pol_AllowCIDRs = [''10.99.0.0/25''], pol_Firewall = False, pol_VPN = Some demo_vpn,
     pol_VPNOnly = True, pol_VPNServer = None, pol_Tailscale = None, pol_OpenVPN = None, pol_IPsec = None\<rparr>"

definition demo_stored :: Policy where
  "demo_stored = demo_policy\<lparr>pol_VPN := Some (demo_vpn\<lparr>vpn_Keepalive := 25\<rparr>)\<rparr>"

definition demo_server :: access_server where
  "demo_server = \<lparr>sv_Store = True, sv_ManagedCloud = False, sv_Policy = Some demo_stored, sv_Local = []\<rparr>"

definition demo_request :: "string \<Rightarrow> access_request" where
  "demo_request forwarded = \<lparr>rq_Method = ''GET'', rq_Path = ''/api/v1/projects'', rq_RemoteAddr = ''192.0.2.10:4000'',
     rq_Header = (\<lambda>n. if n = ''X-Forwarded-For'' then [forwarded] else [])\<rparr>"

lemma demo_normalized: "Policy_Normalize demo_policy = Inr demo_stored"
  by code_simp

lemma demo_admitted: "accessGate demo_server (demo_request ''10.99.0.7'') = Admitted"
  by code_simp

section \<open>Properties\<close>

text \<open>
  C24. With vpn_only in a stored policy, a request that is not exempt passes the gate only if
  the client that the policy determines is loopback, an address of the host, or inside a
  network of the WireGuard connector or server: validation, the printed form of the networks
  and the check of a request fit together in both address families.
\<close>

theorem vpn_only_confines:
  assumes "Policy_Normalize p = Inr q" and "pol_VPNOnly q" and "sv_Policy s = Some q" and "sv_Store s" and "\<not> sv_ManagedCloud s"
    and "\<not> exempt r" and "accessGate s r = Admitted"
  shows "\<exists>client. clientAddress r q = Some client
    \<and> (IsLoopback (Unmap client) \<or> Unmap client \<in> set (sv_Local s)
       \<or> (\<exists>raw \<in> set (tunnels q). \<exists>t. ParsePrefix raw = Some t \<and> PrefixContains t (Unmap client)))"
  by (rule gate_vpn_only [OF assms])

theorem vpn_only_confines_witness:
  "\<exists>client. clientAddress (demo_request ''10.99.0.7'') demo_stored = Some client
    \<and> (\<exists>raw \<in> set (tunnels demo_stored). \<exists>t. ParsePrefix raw = Some t \<and> PrefixContains t (Unmap client))"
proof -
  have r: "pol_VPNOnly demo_stored" "sv_Policy demo_server = Some demo_stored" "sv_Store demo_server" "\<not> sv_ManagedCloud demo_server"
    "\<not> exempt (demo_request ''10.99.0.7'')" "sv_Local demo_server = []"
    "clientAddress (demo_request ''10.99.0.7'') demo_stored = Some (V4 174260231)" "\<not> IsLoopback (Unmap (V4 174260231))"
    by code_simp+
  from vpn_only_confines [OF demo_normalized r(1-5) demo_admitted] r(6-8) show ?thesis by simp
qed



end
