(* ===== verification/Log_Query.thy ===== *)
theory Log_Query
  imports Go_Prefix Go_Utf8
begin

text \<open>
  Log queries (internal/logquery/query.go): the tokens of a query, the recursive descent parser
  that compiles it to a predicate on log entries, and the evaluation of one comparison.
  Floating point and time parsing and the case folding of runes outside ASCII are parameters.
  A parser is a function of the tokens that are left; the position of the code is their number.
\<close>

section \<open>Entries\<close>

text \<open>A decoded JSON value; numbers keep their text (\<open>json.Number\<close>).\<close>

datatype json =
  JNull | JBool bool | JNumber string | JString string | JArray "json list" | JObject "(string \<times> json) list"

record Entry =
  en_Timestamp :: int
  en_Pod :: string
  en_Container :: string
  en_Service :: string
  en_Message :: string
  en_Severity :: string
  en_Fields :: "json gomap"
  en_MetadataOmitted :: bool

text \<open>
  A parsed number: finite ones by their place in the order of the 64-bit floats. Times are
  nanoseconds; a time is printed by \<open>show_time\<close>.
\<close>

datatype float64 = NaN | Infinite | Finite int

record lq_library =
  parse_float :: "string \<Rightarrow> float64 \<times> bool"
  parse_time :: "string \<Rightarrow> int option"
  show_time :: "int \<Rightarrow> string"
  same_fold :: "nat \<Rightarrow> nat \<Rightarrow> bool"

text \<open>\<open>fmt.Sprint\<close>.\<close>

fun join_text :: "string list \<Rightarrow> string" where
  "join_text [] = []"
| "join_text [w] = w"
| "join_text (w # ws) = w @ CHR '' '' # join_text ws"

fun Sprint :: "json \<Rightarrow> string" where
  "Sprint JNull = ''<nil>''"
| "Sprint (JBool b) = (if b then ''true'' else ''false'')"
| "Sprint (JNumber n) = n"
| "Sprint (JString s) = s"
| "Sprint (JArray vs) = CHR ''['' # join_text (map Sprint vs) @ '']''"
| "Sprint (JObject kvs) = ''map['' @ join_text (map (\<lambda>kv. fst kv @ CHR '':'' # Sprint (snd kv)) kvs) @ '']''"

fun path_value :: "json \<Rightarrow> string list \<Rightarrow> json" where
  "path_value v [] = v"
| "path_value (JObject m) (part # parts) = (case map_of m part of None \<Rightarrow> path_value JNull parts | Some w \<Rightarrow> path_value w parts)"
| "path_value v (part # parts) = JNull"

text \<open>\<open>nil\<close> is \<open>JNull\<close>; an absent key reads as \<open>nil\<close>.\<close>

definition fieldValue :: "lq_library \<Rightarrow> Entry \<Rightarrow> string \<Rightarrow> json" where
  "fieldValue lib e field =
     (if field = ''message'' then JString (en_Message e)
      else if field = ''severity'' then JString (en_Severity e)
      else if field = ''pod'' then JString (en_Pod e)
      else if field = ''container'' then JString (en_Container e)
      else if field = ''service'' then JString (en_Service e)
      else if field = ''timestamp'' then JString (show_time lib (en_Timestamp e))
      else path_value (JObject (en_Fields e)) (Split (CHR ''.'') (if HasPrefix field ''json.'' then drop 5 field else field)))"

section \<open>Letters outside ASCII that fold into it\<close>

text \<open>
  \<open>strings.ToUpper\<close> and \<open>strings.EqualFold\<close> against an ASCII word: the long s, the dotless i
  and the Kelvin sign are the letters outside ASCII that these take to ASCII ones.
\<close>

fun ToUpperText :: "string \<Rightarrow> string" where
  "ToUpperText [] = []"
| "ToUpperText (c # s) =
     (if map code (take 2 (c # s)) = [197, 191] then CHR ''S'' # ToUpperText (drop 1 s)
      else if map code (take 2 (c # s)) = [196, 177] then CHR ''I'' # ToUpperText (drop 1 s)
      else to_upper_char c # ToUpperText s)"

fun fold_text :: "string \<Rightarrow> string" where
  "fold_text [] = []"
| "fold_text (c # s) =
     (if map code (take 2 (c # s)) = [197, 191] then CHR ''s'' # fold_text (drop 1 s)
      else if map code (take 3 (c # s)) = [226, 132, 170] then CHR ''k'' # fold_text (drop 2 s)
      else to_lower_char c # fold_text s)"

definition EqualFold :: "string \<Rightarrow> string \<Rightarrow> bool" where
  "EqualFold s t = (fold_text s = fold_text t)"

section \<open>Tokens\<close>

record token =
  tk_value :: string
  tk_quoted :: bool

text \<open>\<open>unicode.IsSpace(rune(b))\<close> of a byte: the Latin-1 spaces.\<close>

definition space_byte :: "char \<Rightarrow> bool" where
  "space_byte c \<longleftrightarrow> code c \<in> {9, 10, 11, 12, 13, 32, 133, 160}"

definition symbol_byte :: "char \<Rightarrow> bool" where
  "symbol_byte c = (c \<in> set ''()=<>!,'')"

text \<open>The text up to the closing quote, a doubled quote standing for one, and what follows.\<close>

fun scan_quoted :: "char \<Rightarrow> string \<Rightarrow> (string \<times> string) option" where
  "scan_quoted q [] = None"
| "scan_quoted q (c # s) =
     (if c = q then
        (case s of
           d # t \<Rightarrow> if d = q then map_option (\<lambda>(v, rest). (q # v, rest)) (scan_quoted q t) else Some ([], s)
         | [] \<Rightarrow> Some ([], []))
      else map_option (\<lambda>(v, rest). (c # v, rest)) (scan_quoted q s))"

definition symbol_length :: "char \<Rightarrow> string \<Rightarrow> nat" where
  "symbol_length c s =
     (case s of
        d # _ \<Rightarrow> if c \<in> set ''<>!'' \<and> d = CHR ''='' \<or> c = CHR ''<'' \<and> d = CHR ''>'' then 2 else 1
      | [] \<Rightarrow> 1)"

definition word_byte :: "char \<Rightarrow> bool" where
  "word_byte c \<longleftrightarrow> \<not> space_byte c \<and> \<not> symbol_byte c \<and> c \<noteq> CHR 0x22 \<and> c \<noteq> CHR 0x27"

lemma scan_quoted_length: "scan_quoted q s = Some (v, rest) \<Longrightarrow> length rest < length s"
proof (induction q s arbitrary: v rest rule: scan_quoted.induct)
  case (2 q c s)
  then show ?case by (fastforce split: if_splits list.splits)
qed simp

function tokenize :: "nat \<Rightarrow> string \<Rightarrow> token list result" where
  "tokenize n [] = Inr []"
| "tokenize n (c # s) =
     (if space_byte c then tokenize n s
      else if 128 \<le> n then Inl (Err ''query exceeds 128 tokens'')
      else if c = CHR 0x27 \<or> c = CHR 0x22 then
        (case scan_quoted c s of
           None \<Rightarrow> Inl (Err ''unterminated quoted value'')
         | Some (v, rest) \<Rightarrow> bindE (tokenize (Suc n) rest) (\<lambda>ts. Inr (\<lparr>tk_value = v, tk_quoted = True\<rparr> # ts)))
      else if symbol_byte c then
        (let k = symbol_length c s in
         bindE (tokenize (Suc n) (drop (k - 1) s)) (\<lambda>ts. Inr (\<lparr>tk_value = take k (c # s), tk_quoted = False\<rparr> # ts)))
      else
        (let word = takeWhile word_byte (c # s) in
         if word = [] then Inl (Err ''invalid query token'')
         else bindE (tokenize (Suc n) (drop (length word - 1) s)) (\<lambda>ts. Inr (\<lparr>tk_value = word, tk_quoted = False\<rparr> # ts))))"
  by pat_completeness auto
termination
  by (relation "measure (\<lambda>(n, s). length s)") (auto dest: scan_quoted_length)

section \<open>Comparing a field\<close>

definition ranks :: "(string \<times> int) list" where
  "ranks = [(''DEFAULT'', 0), (''TRACE'', 50), (''DEBUG'', 100), (''INFO'', 200), (''NOTICE'', 300), (''WARNING'', 400), (''WARN'', 400),
     (''ERROR'', 500), (''CRITICAL'', 600), (''FATAL'', 600), (''ALERT'', 700), (''EMERGENCY'', 800)]"

definition int_cmp :: "'a::linorder \<Rightarrow> 'a \<Rightarrow> int" where
  "int_cmp x y = (if x < y then - 1 else if y < x then 1 else 0)"

definition cmp_holds :: "string \<Rightarrow> int \<Rightarrow> bool" where
  "cmp_holds op cmp =
     (if op = ''='' then cmp = 0
      else if op = ''!='' \<or> op = ''<>'' then cmp \<noteq> 0
      else if op = ''>'' then 0 < cmp
      else if op = ''>='' then 0 \<le> cmp
      else if op = ''<'' then cmp < 0
      else if op = ''<='' then cmp \<le> 0
      else False)"

text \<open>\<open>None\<close> where the code answers false before it looks at the operator.\<close>

definition float_cmp :: "lq_library \<Rightarrow> string \<Rightarrow> string \<Rightarrow> int option" where
  "float_cmp lib a b =
     (case parse_float lib b of
        (Finite y, True) \<Rightarrow> (case parse_float lib a of (Finite x, True) \<Rightarrow> Some (int_cmp x y) | _ \<Rightarrow> None)
      | (Finite y, False) \<Rightarrow> Some (int_cmp a b)
      | _ \<Rightarrow> None)"

definition compare_field :: "lq_library \<Rightarrow> json \<Rightarrow> token \<Rightarrow> string \<Rightarrow> string \<Rightarrow> bool" where
  "compare_field lib v expected op field =
     (let a = Sprint v; b = tk_value expected in
      if op = ''CONTAINS'' then Contains a b
      else
        (case (if field = ''severity'' then
                 (case (map_of ranks (ToUpperText a), map_of ranks (ToUpperText b)) of (Some x, Some y) \<Rightarrow> Some (x - y) | _ \<Rightarrow> None)
               else if field = ''timestamp'' then
                 (case (parse_time lib a, parse_time lib b) of (Some x, Some y) \<Rightarrow> Some (int_cmp x y) | _ \<Rightarrow> None)
               else if tk_quoted expected then Some (int_cmp a b)
               else float_cmp lib a b) of
           None \<Rightarrow> False
         | Some cmp \<Rightarrow> cmp_holds op cmp))"

section \<open>Patterns of LIKE\<close>

text \<open>The pattern against the whole text: \<open>%\<close> any runes, \<open>_\<close> one, any other itself.\<close>

fun like :: "(nat \<Rightarrow> nat \<Rightarrow> bool) \<Rightarrow> nat list \<Rightarrow> nat list \<Rightarrow> bool" where
  "like eq [] [] = True"
| "like eq [] (x # xs) = False"
| "like eq (p # ps) xs =
     (if p = 37 then like eq ps xs \<or> (case xs of [] \<Rightarrow> False | x # ys \<Rightarrow> like eq (p # ps) ys)
      else (case xs of [] \<Rightarrow> False | x # ys \<Rightarrow> (p = 95 \<or> eq p x) \<and> like eq ps ys))"

definition like_match :: "lq_library \<Rightarrow> bool \<Rightarrow> string \<Rightarrow> string \<Rightarrow> bool" where
  "like_match lib ignore_case pattern text = like (if ignore_case then same_fold lib else (=)) (runes pattern) (runes text)"

section \<open>The parser\<close>

type_synonym predicate = "Entry \<Rightarrow> bool"
type_synonym 'a parser = "token list \<Rightarrow> ('a \<times> token list) result"

definition is_word :: "string \<Rightarrow> token \<Rightarrow> bool" where
  "is_word s t \<longleftrightarrow> \<not> tk_quoted t \<and> EqualFold (tk_value t) s"

definition take_word :: "string \<Rightarrow> token list \<Rightarrow> token list option" where
  "take_word s ts = (case ts of [] \<Rightarrow> None | t # rest \<Rightarrow> if is_word s t then Some rest else None)"

text \<open>The loops of \<open>or\<close> and \<open>and\<close>; every round takes a word, so the number of tokens bounds them.\<close>

fun operator_loop :: "nat \<Rightarrow> string \<Rightarrow> (bool \<Rightarrow> bool \<Rightarrow> bool) \<Rightarrow> predicate parser \<Rightarrow> predicate \<Rightarrow> predicate parser" where
  "operator_loop 0 w f operand p ts = Inl (Err ''fuel'')"
| "operator_loop (Suc n) w f operand p ts =
     (case take_word w ts of
        None \<Rightarrow> Inr (p, ts)
      | Some rest \<Rightarrow> bindE (operand rest) (\<lambda>(q, rest'). operator_loop n w f operand (\<lambda>e. f (p e) (q e)) rest'))"

definition operators :: "string \<Rightarrow> (bool \<Rightarrow> bool \<Rightarrow> bool) \<Rightarrow> predicate parser \<Rightarrow> predicate parser" where
  "operators w f operand ts = bindE (operand ts) (\<lambda>(p, rest). operator_loop (Suc (length rest)) w f operand p rest)"

definition fieldPattern :: "string \<Rightarrow> bool" where
  "fieldPattern s \<longleftrightarrow> HasPrefix s ''json.'' \<and>
     (case drop 5 s of
        [] \<Rightarrow> False
      | c # t \<Rightarrow> (is_alpha c \<or> c = CHR ''_'') \<and> length t \<le> 127 \<and> list_all (\<lambda>d. is_alnum d \<or> d \<in> set ''_.-'') t)"

definition plain_fields :: "string list" where
  "plain_fields = [''message'', ''severity'', ''pod'', ''service'', ''container'', ''timestamp'']"

definition field_of :: "token \<Rightarrow> string option" where
  "field_of t =
     (let lower = ToLowerText (tk_value t) in
      if tk_quoted t \<or> \<not> (lower \<in> set plain_fields \<or> fieldPattern (tk_value t)) then None
      else Some (if HasPrefix lower ''json.'' then tk_value t else lower))"

definition value_token :: "token \<Rightarrow> bool" where
  "value_token t \<longleftrightarrow> tk_quoted t
     \<or> \<not> (ContainsAny (tk_value t) ''()=<>!,'' \<or> EqualFold (tk_value t) ''AND'' \<or> EqualFold (tk_value t) ''OR'')"

definition take_value :: "token parser" where
  "take_value ts =
     (case ts of
        [] \<Rightarrow> Inl (Err ''expected a comparison value'')
      | t # rest \<Rightarrow> if value_token t then Inr (t, rest) else Inl (Err ''quote the comparison value''))"

text \<open>The list of IN: \<open>n\<close> values more may follow the ones read.\<close>

fun value_list :: "nat \<Rightarrow> token list parser" where
  "value_list n ts =
     bindE (take_value ts) (\<lambda>(v, rest).
     if n = 0 then Inl (Err ''IN supports at most 32 values'')
     else
       (case take_word '')'' rest of
          Some rest' \<Rightarrow> Inr ([v], rest')
        | None \<Rightarrow>
            (case take_word '','' rest of
               None \<Rightarrow> Inl (Err ''expected comma in IN list'')
             | Some rest' \<Rightarrow> bindE (value_list (n - 1) rest') (\<lambda>(vs, rest''). Inr (v # vs, rest'')))))"

declare value_list.simps [simp del]

definition null_test :: "lq_library \<Rightarrow> string \<Rightarrow> bool \<Rightarrow> predicate" where
  "null_test lib field negate e = ((fieldValue lib e field = JNull) \<noteq> negate)"

definition in_test :: "lq_library \<Rightarrow> string \<Rightarrow> bool \<Rightarrow> token list \<Rightarrow> predicate" where
  "in_test lib field negate vs e =
     (let v = fieldValue lib e field in
      if v = JNull then False else list_ex (\<lambda>t. compare_field lib v t ''='' field) vs \<noteq> negate)"

definition operators_known :: "string list" where
  "operators_known = [''='', ''!='', ''<>'', ''>'', ''>='', ''<'', ''<='', ''LIKE'', ''ILIKE'', ''CONTAINS'']"

definition text_operators :: "string list" where
  "text_operators = [''LIKE'', ''ILIKE'', ''CONTAINS'']"

definition operator_of :: "bool \<Rightarrow> token \<Rightarrow> string option" where
  "operator_of negate t =
     (let op = ToUpperText (tk_value t) in
      if tk_quoted t \<or> op \<notin> set operators_known \<or> negate \<and> op \<notin> set text_operators then None else Some op)"

definition compare_test :: "lq_library \<Rightarrow> string \<Rightarrow> bool \<Rightarrow> string \<Rightarrow> token \<Rightarrow> predicate" where
  "compare_test lib field negate op v e =
     (let x = fieldValue lib e field in
      if x = JNull then False
      else if op = ''LIKE'' \<or> op = ''ILIKE'' then like_match lib (op = ''ILIKE'') (tk_value v) (Sprint x) \<noteq> negate
      else compare_field lib x v op field \<noteq> negate)"

text \<open>What follows a field: IS, IN or an operator.\<close>

definition take_negation :: "token list \<Rightarrow> bool \<times> token list" where
  "take_negation ts = (case take_word ''NOT'' ts of Some rest \<Rightarrow> (True, rest) | None \<Rightarrow> (False, ts))"

definition comparison :: "lq_library \<Rightarrow> string \<Rightarrow> predicate parser" where
  "comparison lib field ts =
     (case take_word ''IS'' ts of
        Some rest \<Rightarrow>
          (case take_negation rest of
             (negate, rest') \<Rightarrow>
               (case take_word ''NULL'' rest' of
                  None \<Rightarrow> Inl (Err ''IS supports NULL or NOT NULL'')
                | Some rest'' \<Rightarrow> Inr (null_test lib field negate, rest'')))
      | None \<Rightarrow>
          (case take_negation ts of
             (negate, rest) \<Rightarrow>
               (case take_word ''IN'' rest of
                  Some rest' \<Rightarrow>
                    (case take_word ''('' rest' of
                       None \<Rightarrow> Inl (Err ''IN requires a parenthesized value list'')
                     | Some rest'' \<Rightarrow> bindE (value_list 32 rest'') (\<lambda>(vs, rest3). Inr (in_test lib field negate vs, rest3)))
                | None \<Rightarrow>
                    (case rest of
                       [] \<Rightarrow> Inl (Err ''expected comparison operator'')
                     | t # rest' \<Rightarrow>
                         (case operator_of negate t of
                            None \<Rightarrow> Inl (Err ''unsupported comparison operator'')
                          | Some op \<Rightarrow> bindE (take_value rest') (\<lambda>(v, rest''). Inr (compare_test lib field negate op v, rest'')))))))"

text \<open>The first argument is how many levels of nesting are left.\<close>

primrec atom :: "nat \<Rightarrow> lq_library \<Rightarrow> predicate parser" where
  "atom 0 lib = (\<lambda>ts. Inl (Err ''query nesting exceeds 12 levels''))"
| "atom (Suc d) lib = (\<lambda>ts.
     case take_word ''NOT'' ts of
       Some rest \<Rightarrow> bindE (atom d lib rest) (\<lambda>(p, rest'). Inr (\<lambda>e. \<not> p e, rest'))
     | None \<Rightarrow>
         (case take_word ''('' ts of
            Some rest \<Rightarrow>
              bindE (operators ''OR'' (\<or>) (operators ''AND'' (\<and>) (atom d lib)) rest) (\<lambda>(p, rest').
              case take_word '')'' rest' of
                None \<Rightarrow> Inl (Err ''expected closing parenthesis'')
              | Some rest'' \<Rightarrow> Inr (p, rest''))
          | None \<Rightarrow>
              (case ts of
                 [] \<Rightarrow> Inl (Err ''expected a field comparison'')
               | t # rest \<Rightarrow>
                   (case field_of t of
                      None \<Rightarrow> Inl (Err ''unknown field'')
                    | Some field \<Rightarrow> comparison lib field rest))))"

definition parse_and :: "lq_library \<Rightarrow> nat \<Rightarrow> predicate parser" where
  "parse_and lib d = operators ''AND'' (\<and>) (atom d lib)"

definition parse_or :: "lq_library \<Rightarrow> nat \<Rightarrow> predicate parser" where
  "parse_or lib d = operators ''OR'' (\<or>) (parse_and lib d)"

definition Compile :: "lq_library \<Rightarrow> string \<Rightarrow> predicate result" where
  "Compile lib input =
     andE (checks [(4096 < len input, ''query exceeds 4096 characters'')])
     (bindE (tokenize 0 input) (\<lambda>ts.
      if ts = [] then Inr (\<lambda>_. True)
      else
        bindE (parse_or lib 12 (case take_word ''WHERE'' ts of Some rest \<Rightarrow> rest | None \<Rightarrow> ts)) (\<lambda>(p, rest).
        if rest \<noteq> [] then Inl (Err ''unexpected token'') else Inr p)))"

end
