(* ===== verification/Log_Query_Properties.thy ===== *)
theory Log_Query_Properties
  imports Log_Query
begin

text \<open>
  The grammar of log queries, with the meaning of each phrase, and the proof that the compiler
  accepts exactly its sentences and gives them that meaning: OR binds weaker than AND, both
  group to the left, NOT and parentheses nest to the given depth.
\<close>

section \<open>Words\<close>

lemma fold_upper:
  assumes "fold_text s = w" and "list_all is_lower w" and "CHR ''k'' \<notin> set w"
  shows "ToUpperText s = ToUpper w"
  using assms
proof (induction s arbitrary: w rule: fold_text.induct)
  case (2 c s)
  have to: "to_upper_char (to_lower_char d) = to_upper_char d" for d
    by (auto simp: to_upper_char_def to_lower_char_def is_lower_def is_upper_def code_char_of)
  consider (long) "map code (take 2 (c # s)) = [197, 191]" | (kelvin) "map code (take 3 (c # s)) = [226, 132, 170]"
    | (plain) "map code (take 2 (c # s)) \<noteq> [197, 191]" "map code (take 3 (c # s)) \<noteq> [226, 132, 170]" by blast
  then show ?case
  proof cases
    case long
    then have "w = CHR ''s'' # fold_text (drop 1 s)" using 2(4) by simp
    moreover have "to_upper_char (CHR ''s'') = CHR ''S''" by code_simp
    ultimately show ?thesis using 2 long by (simp add: ToUpper_def)
  next
    case kelvin
    then have "w = CHR ''k'' # fold_text (drop 2 s)" using 2(4) by auto
    then show ?thesis using 2(6) by simp
  next
    case plain
    then have w: "w = to_lower_char c # fold_text s" using 2(4) by auto
    then have "is_lower (to_lower_char c)" using 2(5) by simp
    then have "code c \<noteq> 196" by (auto simp: to_lower_char_def is_lower_def is_upper_def split: if_splits)
    then have "ToUpperText (c # s) = to_upper_char c # ToUpperText s" using plain(1) by auto
    then show ?thesis using 2 plain w to [of c] by (simp add: ToUpper_def)
  qed
qed (simp add: ToUpper_def)

lemma fold_head:
  assumes "fold_text s = d # w" and "d \<notin> {CHR ''s'', CHR ''k''}"
  shows "\<exists>c t. s = c # t \<and> to_lower_char c = d \<and> fold_text t = w"
  using assms by (cases s) (auto split: if_splits)

text \<open>The words that a parser looks for in one place exclude each other.\<close>

lemma word_exclusive: "is_word v t \<Longrightarrow> is_word w t \<Longrightarrow> fold_text v = fold_text w"
  by (simp add: is_word_def EqualFold_def)

lemma folded_words:
  "fold_text ''OR'' = ''or''" "fold_text ''AND'' = ''and''" "fold_text ''NOT'' = ''not''" "fold_text ''IS'' = ''is''"
  "fold_text ''IN'' = ''in''" "fold_text ''NULL'' = ''null''" "fold_text ''('' = ''(''" "fold_text '')'' = '')''" "fold_text '','' = '',''"
  "fold_text ''WHERE'' = ''where''"
  by code_simp+

lemma word_upper:
  assumes "is_word v t" and "fold_text v = w" and "list_all is_lower w" and "CHR ''k'' \<notin> set w"
  shows "ToUpperText (tk_value t) = ToUpper w"
  using assms by (intro fold_upper) (simp_all add: is_word_def EqualFold_def)

lemma word_no_operator:
  assumes "is_word v t" and "v \<in> {''IS'', ''NOT'', ''IN''}"
  shows "operator_of negate t = None"
proof -
  obtain w where w: "fold_text v = w" "w \<in> {''is'', ''not'', ''in''}" using assms(2) folded_words by auto
  have "list_all is_lower w" "CHR ''k'' \<notin> set w" using w(2) by (auto simp: is_lower_def code_def)
  then have "ToUpperText (tk_value t) = ToUpper w" using word_upper [OF assms(1) w(1)] by blast
  moreover have "ToUpper ''is'' \<notin> set operators_known" "ToUpper ''not'' \<notin> set operators_known" "ToUpper ''in'' \<notin> set operators_known"
    by code_simp+
  then have "ToUpper w \<notin> set operators_known" using w(2) by blast
  ultimately show ?thesis by (simp add: operator_of_def Let_def)
qed

lemma word_no_field:
  assumes "is_word v t" and "v \<in> {''NOT'', ''('', ''WHERE''}"
  shows "field_of t = None"
proof -
  obtain d w where w: "fold_text v = d # w" "d \<in> {CHR ''n'', CHR ''('', CHR ''w''}" using assms(2) folded_words by auto
  then have "fold_text (tk_value t) = d # w" using assms(1) by (simp add: is_word_def EqualFold_def)
  with w(2) obtain c s where c: "tk_value t = c # s" "to_lower_char c = d"
    using fold_head [of "tk_value t" d w] by auto
  have "code (to_lower_char c) = (if is_upper c then code c + 32 else code c)"
    by (simp add: to_lower_char_def is_upper_def code_char_of)
  moreover have "code (CHR ''n'') = 110" "code (CHR ''('') = 40" "code (CHR ''w'') = 119" by (simp_all add: code_def)
  ultimately have k: "code c \<in> {110, 78, 40, 119, 87}"
    using w(2) c(2) by (auto simp: is_upper_def split: if_splits)
  then have "code c \<noteq> 226" "code c \<noteq> 196" by auto
  then have "ToLowerText (c # s) = d # ToLowerText s" using c(2) by auto
  then have "ToLowerText (tk_value t) \<notin> set plain_fields" using w(2) by (auto simp: c plain_fields_def)
  moreover have "\<not> fieldPattern (tk_value t)"
  proof -
    have "code (CHR ''j'') = 106" by (simp add: code_def)
    then have "c \<noteq> CHR ''j''" using k by auto
    then show ?thesis by (simp add: fieldPattern_def c(1))
  qed
  ultimately show ?thesis by (simp add: field_of_def Let_def)
qed

declare fold_text.simps [simp del]

section \<open>The grammar\<close>

text \<open>One or more phrases with a word between them, grouped to the left.\<close>

inductive chain :: "(token list \<Rightarrow> predicate \<Rightarrow> bool) \<Rightarrow> string \<Rightarrow> (bool \<Rightarrow> bool \<Rightarrow> bool) \<Rightarrow> token list \<Rightarrow> predicate \<Rightarrow> bool"
  for G w f where
  one: "G ts p \<Longrightarrow> chain G w f ts p"
| again: "chain G w f ts p \<Longrightarrow> is_word w t \<Longrightarrow> G us q \<Longrightarrow> chain G w f (ts @ t # us) (\<lambda>e. f (p e) (q e))"

inductive value_tokens :: "token list \<Rightarrow> token list \<Rightarrow> bool" where
  last: "value_token v \<Longrightarrow> is_word '')'' c \<Longrightarrow> value_tokens [v, c] [v]"
| comma: "value_token v \<Longrightarrow> is_word '','' c \<Longrightarrow> value_tokens ts vs \<Longrightarrow> value_tokens (v # c # ts) (v # vs)"

inductive negated :: "token list \<Rightarrow> bool \<Rightarrow> bool" where
  plain: "negated [] False"
| negation: "is_word ''NOT'' t \<Longrightarrow> negated [t] True"

inductive condition :: "lq_library \<Rightarrow> string \<Rightarrow> token list \<Rightarrow> predicate \<Rightarrow> bool" for lib field where
  null: "is_word ''IS'' a \<Longrightarrow> negated n negate \<Longrightarrow> is_word ''NULL'' b \<Longrightarrow> condition lib field (a # n @ [b]) (null_test lib field negate)"
| member: "negated n negate \<Longrightarrow> is_word ''IN'' a \<Longrightarrow> is_word ''('' b \<Longrightarrow> value_tokens ts vs \<Longrightarrow> length vs \<le> 32 \<Longrightarrow>
    condition lib field (n @ a # b # ts) (in_test lib field negate vs)"
| operator: "negated n negate \<Longrightarrow> operator_of negate t = Some op \<Longrightarrow> value_token v \<Longrightarrow>
    condition lib field (n @ [t, v]) (compare_test lib field negate op v)"

text \<open>A phrase with at most so many levels of NOT and parentheses, counting itself.\<close>

primrec phrase :: "nat \<Rightarrow> lq_library \<Rightarrow> token list \<Rightarrow> predicate \<Rightarrow> bool" where
  "phrase 0 lib = (\<lambda>ts p. False)"
| "phrase (Suc d) lib = (\<lambda>ts p.
     (\<exists>t us q. ts = t # us \<and> is_word ''NOT'' t \<and> phrase d lib us q \<and> p = (\<lambda>e. \<not> q e))
   \<or> (\<exists>a us b. ts = a # us @ [b] \<and> is_word ''('' a \<and> is_word '')'' b
        \<and> chain (chain (phrase d lib) ''AND'' (\<and>)) ''OR'' (\<or>) us p)
   \<or> (\<exists>t us field. ts = t # us \<and> field_of t = Some field \<and> condition lib field us p))"

definition sentence :: "lq_library \<Rightarrow> token list \<Rightarrow> predicate \<Rightarrow> bool" where
  "sentence lib = chain (chain (phrase 12 lib) ''AND'' (\<and>)) ''OR'' (\<or>)"

section \<open>What the parser reads\<close>

text \<open>A parser reads a phrase of \<open>G\<close> from the front of the tokens.\<close>

definition reads :: "'a parser \<Rightarrow> (token list \<Rightarrow> 'a \<Rightarrow> bool) \<Rightarrow> bool" where
  "reads P G \<longleftrightarrow> (\<forall>ts x rest. P ts = Inr (x, rest) \<longrightarrow> (\<exists>us. ts = us @ rest \<and> G us x))"

lemma readsD: "reads P G \<Longrightarrow> P ts = Inr (x, rest) \<Longrightarrow> \<exists>us. ts = us @ rest \<and> G us x"
  by (simp add: reads_def)

lemma take_word_Some: "take_word w ts = Some rest \<longleftrightarrow> (\<exists>t. ts = t # rest \<and> is_word w t)"
  by (auto simp: take_word_def split: list.splits if_splits)

lemma operator_loop_reads:
  assumes "reads operand G"
  shows "operator_loop n w f operand p ts = Inr (r, rest) \<Longrightarrow> chain G w f used p \<Longrightarrow> \<exists>us. ts = us @ rest \<and> chain G w f (used @ us) r"
proof (induction n arbitrary: p ts used)
  case (Suc n)
  show ?case
  proof (cases "take_word w ts")
    case None
    then show ?thesis using Suc.prems by auto
  next
    case (Some ts')
    then obtain t where t: "ts = t # ts'" "is_word w t" by (auto simp: take_word_Some)
    from Suc.prems(1) Some obtain q ts'' where q: "operand ts' = Inr (q, ts'')"
      "operator_loop n w f operand (\<lambda>e. f (p e) (q e)) ts'' = Inr (r, rest)" by (auto simp: result_iff)
    obtain vs where vs: "ts' = vs @ ts''" "G vs q" using readsD [OF assms q(1)] by blast
    have "chain G w f (used @ t # vs) (\<lambda>e. f (p e) (q e))" by (rule chain.again [where p = p and q = q, OF Suc.prems(2) t(2) vs(2)])
    from Suc.IH [OF q(2) this] obtain us where "ts'' = us @ rest" "chain G w f ((used @ t # vs) @ us) r" by blast
    then show ?thesis using t(1) vs(1) by (intro exI [of _ "t # vs @ us"]) simp
  qed
qed simp

lemma operators_reads: "reads operand G \<Longrightarrow> reads (operators w f operand) (chain G w f)"
proof -
  assume r: "reads operand G"
  have "\<exists>us. ts = us @ rest \<and> chain G w f us x" if "operators w f operand ts = Inr (x, rest)" for ts x rest
  proof -
    obtain p ts' where p: "operand ts = Inr (p, ts')" "operator_loop (Suc (length ts')) w f operand p ts' = Inr (x, rest)"
      using \<open>operators w f operand ts = Inr (x, rest)\<close> unfolding operators_def by (auto simp only: result_iff split: prod.splits)
    obtain us where us: "ts = us @ ts'" "G us p" using readsD [OF r p(1)] by blast
    have "chain G w f us p" using us(2) by (rule chain.one)
    from operator_loop_reads [OF r p(2) this] us(1) show ?thesis by auto
  qed
  then show ?thesis by (simp add: reads_def)
qed

lemma value_list_reads:
  "value_list n ts = Inr (vs, rest) \<Longrightarrow> \<exists>us. ts = us @ rest \<and> value_tokens us vs \<and> length vs \<le> n"
proof (induction n ts arbitrary: vs rest rule: value_list.induct)
  case (1 n ts)
  from 1(2) obtain v ts' where v: "take_value ts = Inr (v, ts')" "n \<noteq> 0" by (auto simp: value_list.simps [of n] result_iff split: if_splits)
  then have t: "ts = v # ts'" "value_token v" by (auto simp: take_value_def split: list.splits if_splits)
  show ?case
  proof (cases "take_word '')'' ts'")
    case (Some r)
    then have "vs = [v]" "rest = r" using 1(2) v by (simp_all add: value_list.simps [of n])
    moreover obtain c where "ts' = c # r" "is_word '')'' c" using Some by (auto simp: take_word_Some)
    ultimately show ?thesis using t v(2) by (intro exI [of _ "[v, c]"]) (auto intro: value_tokens.last)
  next
    case None
    then obtain r ws where r: "take_word '','' ts' = Some r" "value_list (n - 1) r = Inr (ws, rest)" "vs = v # ws"
      using 1(2) v by (auto simp: value_list.simps [of n] result_iff split: option.splits)
    obtain c where c: "ts' = c # r" "is_word '','' c" using r(1) by (auto simp: take_word_Some)
    obtain us where us: "r = us @ rest" "value_tokens us ws" "length ws \<le> n - 1"
      using 1(1) [OF v(1) refl v(2) None r(1,2)] by blast
    have "value_tokens (v # c # us) vs" unfolding r(3) by (rule value_tokens.comma [OF t(2) c(2) us(2)])
    then show ?thesis using t(1) c(1) us(1,3) v(2) r(3) by (intro exI [of _ "v # c # us"]) auto
  qed
qed

lemma take_negation_reads: "take_negation ts = (negate, rest) \<Longrightarrow> \<exists>n. ts = n @ rest \<and> negated n negate"
proof -
  assume r: "take_negation ts = (negate, rest)"
  show ?thesis
  proof (cases "take_word ''NOT'' ts")
    case None
    then show ?thesis using r by (intro exI [of _ "[]"]) (auto simp: take_negation_def intro: negated.intros)
  next
    case (Some us)
    then obtain t where "ts = t # us" "is_word ''NOT'' t" by (auto simp: take_word_Some)
    then show ?thesis using r Some by (intro exI [of _ "[t]"]) (auto simp: take_negation_def intro: negated.intros)
  qed
qed

lemma comparison_reads: "reads (comparison lib field) (condition lib field)"
proof -
  have "\<exists>us. ts = us @ rest \<and> condition lib field us p" if run: "comparison lib field ts = Inr (p, rest)" for ts p rest
  proof (cases "take_word ''IS'' ts")
    case (Some ts1)
    then obtain a where a: "ts = a # ts1" "is_word ''IS'' a" by (auto simp: take_word_Some)
    obtain negate ts2 where n: "take_negation ts1 = (negate, ts2)" by force
    have "take_word ''NULL'' ts2 = Some rest" "p = null_test lib field negate"
      using run Some n by (auto simp: comparison_def split: option.splits)
    then obtain b where b: "ts2 = b # rest" "is_word ''NULL'' b" "p = null_test lib field negate" by (auto simp: take_word_Some)
    obtain m where m: "ts1 = m @ ts2" "negated m negate" using take_negation_reads [OF n] by blast
    show ?thesis using condition.null [OF a(2) m(2) b(2)] a(1) b(1,3) m(1) by (intro exI [of _ "a # m @ [b]"]) simp
  next
    case None
    obtain negate ts2 where n: "take_negation ts = (negate, ts2)" by force
    obtain m where m: "ts = m @ ts2" "negated m negate" using take_negation_reads [OF n] by blast
    show ?thesis
    proof (cases "take_word ''IN'' ts2")
      case (Some ts3)
      then obtain a where a: "ts2 = a # ts3" "is_word ''IN'' a" by (auto simp: take_word_Some)
      obtain ts4 vs where r: "take_word ''('' ts3 = Some ts4" "value_list 32 ts4 = Inr (vs, rest)" "p = in_test lib field negate vs"
        using run None Some n by (auto simp: comparison_def result_iff split: option.splits)
      obtain b where b: "ts3 = b # ts4" "is_word ''('' b" using r(1) by (auto simp: take_word_Some)
      obtain us where us: "ts4 = us @ rest" "value_tokens us vs" "length vs \<le> 32" using value_list_reads [OF r(2)] by blast
      show ?thesis using condition.member [OF m(2) a(2) b(2) us(2,3)] m(1) a(1) b(1) us(1) r(3)
        by (intro exI [of _ "m @ a # b # us"]) simp
    next
      case no_in: None
      obtain t ts3 op v where r: "ts2 = t # ts3" "operator_of negate t = Some op" "take_value ts3 = Inr (v, rest)" "p = compare_test lib field negate op v"
        using run None no_in n by (auto simp: comparison_def result_iff split: option.splits list.splits)
      then have "ts3 = v # rest" "value_token v" by (auto simp: take_value_def split: list.splits if_splits)
      then show ?thesis using condition.operator [OF m(2) r(2)] m(1) r(1,4) by (intro exI [of _ "m @ [t, v]"]) simp
    qed
  qed
  then show ?thesis by (simp add: reads_def)
qed

lemma atom_reads: "reads (atom d lib) (phrase d lib)"
proof (induction d)
  case 0
  then show ?case by (simp add: reads_def)
next
  case (Suc d)
  note ops = operators_reads [OF operators_reads [OF Suc], of "''OR''" "(\<or>)" "''AND''" "(\<and>)"]
  have "\<exists>us. ts = us @ rest \<and> phrase (Suc d) lib us p" if run: "atom (Suc d) lib ts = Inr (p, rest)" for ts p rest
  proof (cases "take_word ''NOT'' ts")
    case (Some ts1)
    then obtain t where t: "ts = t # ts1" "is_word ''NOT'' t" by (auto simp: take_word_Some)
    obtain q where q: "atom d lib ts1 = Inr (q, rest)" "p = (\<lambda>e. \<not> q e)" using run Some by (auto simp: result_iff)
    obtain us where "ts1 = us @ rest" "phrase d lib us q" using readsD [OF Suc q(1)] by blast
    then show ?thesis using t q(2) by (intro exI [of _ "t # us"]) auto
  next
    case None
    show ?thesis
    proof (cases "take_word ''('' ts")
      case (Some ts1)
      then obtain a where a: "ts = a # ts1" "is_word ''('' a" by (auto simp: take_word_Some)
      obtain ts2 where r: "operators ''OR'' (\<or>) (operators ''AND'' (\<and>) (atom d lib)) ts1 = Inr (p, ts2)" "take_word '')'' ts2 = Some rest"
        using run None Some by (auto simp: result_iff split: option.splits)
      obtain us where us: "ts1 = us @ ts2" "chain (chain (phrase d lib) ''AND'' (\<and>)) ''OR'' (\<or>) us p" using readsD [OF ops r(1)] by blast
      obtain b where b: "ts2 = b # rest" "is_word '')'' b" using r(2) by (auto simp: take_word_Some)
      show ?thesis using a b us by (intro exI [of _ "a # us @ [b]"]) auto
    next
      case no_paren: None
      obtain t ts1 field where r: "ts = t # ts1" "field_of t = Some field" "comparison lib field ts1 = Inr (p, rest)"
        using run None no_paren by (auto split: list.splits option.splits)
      obtain us where "ts1 = us @ rest" "condition lib field us p" using readsD [OF comparison_reads r(3)] by blast
      then show ?thesis using r(1,2) by (intro exI [of _ "t # us"]) auto
    qed
  qed
  then show ?case by (simp add: reads_def)
qed

lemma parse_or_reads: "reads (parse_or lib 12) (sentence lib)"
  unfolding parse_or_def parse_and_def sentence_def by (intro operators_reads atom_reads)

section \<open>What the parser accepts\<close>

text \<open>
  A parser accepts the phrases of \<open>G\<close> before any tokens that satisfy \<open>R\<close>: it reads exactly
  the phrase.
\<close>

definition accepts :: "'a parser \<Rightarrow> (token list \<Rightarrow> 'a \<Rightarrow> bool) \<Rightarrow> (token list \<Rightarrow> bool) \<Rightarrow> bool" where
  "accepts P G R \<longleftrightarrow> (\<forall>us x rest. G us x \<longrightarrow> R rest \<longrightarrow> P (us @ rest) = Inr (x, rest))"

lemma acceptsD: "accepts P G R \<Longrightarrow> G us x \<Longrightarrow> R rest \<Longrightarrow> P (us @ rest) = Inr (x, rest)"
  by (simp add: accepts_def)

lemma accepts_weaken: "accepts P G R \<Longrightarrow> (\<And>ts. Q ts \<Longrightarrow> R ts) \<Longrightarrow> accepts P G Q"
  by (simp add: accepts_def)

lemma take_word_Cons [simp]: "is_word w t \<Longrightarrow> take_word w (t # ts) = Some ts"
  by (simp add: take_word_def)

lemma take_word_other: "is_word v t \<Longrightarrow> fold_text v \<noteq> fold_text w \<Longrightarrow> take_word w (t # ts) = None"
  using word_exclusive [of v t w] by (auto simp: take_word_def)

text \<open>The loop reaches the end of a chain with rounds to spare.\<close>

lemma operators_run:
  assumes "chain G w f ts p" and "accepts operand G R" and "\<And>t us. is_word w t \<Longrightarrow> R (t # us)"
  shows "R rest \<Longrightarrow> \<exists>n > length rest. operators w f operand (ts @ rest) = operator_loop n w f operand p rest"
  using assms(1)
proof (induction arbitrary: rest rule: chain.induct)
  note read = assms(2) [unfolded accepts_def, rule_format]
  case (one ts p)
  show ?case
    by (rule exI [of _ "Suc (length rest)"]) (simp add: operators_def read [OF one(1,2)] del: operator_loop.simps)
next
  note read = assms(2) [unfolded accepts_def, rule_format]
  case (again ts p t us q)
  have "R (t # us @ rest)" by (rule assms(3) [OF again(2)])
  from again(4) [OF this] obtain n where n: "length (t # us @ rest) < n"
    "operators w f operand (ts @ t # us @ rest) = operator_loop n w f operand p (t # us @ rest)" by blast
  then obtain m where m: "n = Suc m" "length rest < m" by (cases n) auto
  have "operator_loop n w f operand p (t # us @ rest) = operator_loop m w f operand (\<lambda>e. f (p e) (q e)) rest"
    by (simp add: m(1) again(2) read [OF again(3,5)])
  then show ?case using n(2) m(2) by auto
qed

lemma operators_accepts:
  assumes "accepts operand G R" and "\<And>t us. is_word w t \<Longrightarrow> R (t # us)"
  shows "accepts (operators w f operand) (chain G w f) (\<lambda>ts. R ts \<and> take_word w ts = None)"
proof -
  have "operators w f operand (us @ rest) = Inr (p, rest)" if c: "chain G w f us p" and r: "R rest" and e: "take_word w rest = None" for us p rest
  proof -
    obtain n where "length rest < n" "operators w f operand (us @ rest) = operator_loop n w f operand p rest"
      using operators_run [OF c assms r] by blast
    then show ?thesis using e by (cases n) auto
  qed
  then show ?thesis by (simp add: accepts_def)
qed

lemma value_list_accepts: "value_tokens ts vs \<Longrightarrow> length vs \<le> n \<Longrightarrow> value_list n (ts @ rest) = Inr (vs, rest)"
proof (induction arbitrary: n rule: value_tokens.induct)
  case (last v c)
  then show ?case by (simp add: value_list.simps [of n] take_value_def)
next
  case (comma v c ts vs)
  have "take_word '')'' (c # ts @ rest) = None" using comma(2) by (rule take_word_other) (simp add: folded_words)
  then show ?case using comma by (simp add: value_list.simps [of n] take_value_def)
qed

lemma negated_accepts:
  assumes "negated n negate" and "rest \<noteq> [] \<Longrightarrow> \<not> is_word ''NOT'' (hd rest)"
  shows "take_negation (n @ rest) = (negate, rest)"
  using assms by (cases rule: negated.cases) (auto simp: take_negation_def take_word_def split: list.splits)

lemma negated_other:
  assumes "negated n negate" and "is_word v t \<or> operator_of m t \<noteq> None" and "v \<in> {''NULL'', ''IN''}"
  shows "take_negation (n @ t # rest) = (negate, t # rest)" and "v = ''IN'' \<Longrightarrow> take_word ''IS'' (n @ t # rest) = None"
proof -
  have no: "\<not> is_word ''NOT'' t" "v = ''IN'' \<Longrightarrow> \<not> is_word ''IS'' t"
    using assms(2,3) word_exclusive [of v t "''NOT''"] word_exclusive [of v t "''IS''"]
      word_no_operator [of "''NOT''" t m] word_no_operator [of "''IS''" t m] by (auto simp: folded_words)
  then show "take_negation (n @ t # rest) = (negate, t # rest)" by (intro negated_accepts [OF assms(1)]) simp
  assume "v = ''IN''"
  with assms(1) no(2) show "take_word ''IS'' (n @ t # rest) = None"
  proof (cases rule: negated.cases)
    case (negation u)
    then show ?thesis using take_word_other [of "''NOT''" u "''IS''"] by (simp add: folded_words)
  qed (simp add: take_word_def)
qed

lemma comparison_accepts: "accepts (comparison lib field) (condition lib field) (\<lambda>_. True)"
proof -
  have "comparison lib field (us @ rest) = Inr (p, rest)" if "condition lib field us p" for us p rest
    using that
  proof (cases rule: condition.cases)
    case (null a n negate b)
    then show ?thesis using negated_other(1) [OF null(4) disjI1 [OF null(5)]] by (simp add: comparison_def)
  next
    case (member n negate a b ts vs)
    note n = negated_other [where v = "''IN''" and t = a and rest = "b # ts @ rest" and n = n and negate = negate and m = False]
    have "take_word ''IS'' (n @ a # b # ts @ rest) = None" "take_negation (n @ a # b # ts @ rest) = (negate, a # b # ts @ rest)"
      using n member by simp_all
    then show ?thesis using member value_list_accepts [OF member(6,7), of rest] by (simp add: comparison_def)
  next
    case (operator n negate t op v)
    note n = negated_other [where v = "''IN''" and t = t and rest = "v # rest" and n = n and negate = negate and m = negate]
    have "take_word ''IS'' (n @ t # v # rest) = None" "take_negation (n @ t # v # rest) = (negate, t # v # rest)"
      using n operator by simp_all
    moreover have "take_word ''IN'' (t # v # rest) = None"
      using word_no_operator [of "''IN''" t negate] operator by (auto simp: take_word_def)
    ultimately show ?thesis using operator by (simp add: comparison_def take_value_def)
  qed
  then show ?thesis by (simp add: accepts_def)
qed

text \<open>What may follow a chain of AND, and then of OR.\<close>

abbreviation free :: "token list \<Rightarrow> bool" where
  "free ts \<equiv> take_word ''AND'' ts = None \<and> take_word ''OR'' ts = None"

lemma or_accepts:
  assumes "accepts operand G (\<lambda>_. True)"
  shows "accepts (operators ''OR'' (\<or>) (operators ''AND'' (\<and>) operand)) (chain (chain G ''AND'' (\<and>)) ''OR'' (\<or>)) free"
proof -
  have "accepts (operators ''AND'' (\<and>) operand) (chain G ''AND'' (\<and>)) (\<lambda>ts. True \<and> take_word ''AND'' ts = None)"
    by (rule operators_accepts [OF assms]) simp
  then have inner: "accepts (operators ''AND'' (\<and>) operand) (chain G ''AND'' (\<and>)) (\<lambda>ts. take_word ''AND'' ts = None)" by simp
  show ?thesis
    by (rule accepts_weaken [OF operators_accepts [OF inner]]) (use take_word_other [of "''OR''" _ "''AND''"] in \<open>auto simp: folded_words\<close>)
qed

lemma field_not_word: "field_of t = Some field \<Longrightarrow> take_word ''NOT'' (t # ts) = None \<and> take_word ''('' (t # ts) = None \<and> take_word ''WHERE'' (t # ts) = None"
  using word_no_field [of _ t] by (auto simp: take_word_def)

lemma atom_accepts: "accepts (atom d lib) (phrase d lib) (\<lambda>_. True)"
proof (induction d)
  case 0
  then show ?case by (simp add: accepts_def)
next
  case (Suc d)
  have "atom (Suc d) lib (us @ rest) = Inr (p, rest)" if "phrase (Suc d) lib us p" for us p rest
  proof -
    consider (negation) t vs q where "us = t # vs" "is_word ''NOT'' t" "phrase d lib vs q" "p = (\<lambda>e. \<not> q e)"
      | (paren) a vs b where "us = a # vs @ [b]" "is_word ''('' a" "is_word '')'' b" "chain (chain (phrase d lib) ''AND'' (\<and>)) ''OR'' (\<or>) vs p"
      | (cond) t vs field where "us = t # vs" "field_of t = Some field" "condition lib field vs p"
      using \<open>phrase (Suc d) lib us p\<close> by auto
    then show ?thesis
    proof cases
      case negation
      then show ?thesis using Suc [unfolded accepts_def, rule_format, OF negation(3), of rest] by simp
    next
      case paren
      have "take_word ''NOT'' (a # vs @ b # rest) = None" using paren(2) by (rule take_word_other) (simp add: folded_words)
      moreover have "free (b # rest)" using take_word_other [OF paren(3)] by (simp add: folded_words)
      then have "operators ''OR'' (\<or>) (operators ''AND'' (\<and>) (atom d lib)) (vs @ b # rest) = Inr (p, b # rest)"
        by (rule or_accepts [OF Suc, unfolded accepts_def, rule_format, OF paren(4)])
      ultimately show ?thesis using paren(1-3) by simp
    next
      case cond
      then show ?thesis using field_not_word [OF cond(2)] comparison_accepts [unfolded accepts_def, rule_format, OF cond(3), of rest] by simp
    qed
  qed
  then show ?case by (simp add: accepts_def)
qed

section \<open>The compiler\<close>

definition query_tokens :: "token list \<Rightarrow> token list" where
  "query_tokens ts = (case take_word ''WHERE'' ts of Some rest \<Rightarrow> rest | None \<Rightarrow> ts)"

lemma parse_or_sentence: "parse_or lib 12 ts = Inr (p, []) \<longleftrightarrow> sentence lib ts p"
proof
  assume "parse_or lib 12 ts = Inr (p, [])"
  from readsD [OF parse_or_reads this] show "sentence lib ts p" by simp
next
  assume "sentence lib ts p"
  then show "parse_or lib 12 ts = Inr (p, [])"
    using acceptsD [OF or_accepts [OF atom_accepts], of 12 lib ts p "[]"]
    by (simp add: parse_or_def parse_and_def sentence_def take_word_def)
qed

lemma Compile_sentence:
  "Compile lib input = Inr p \<longleftrightarrow> len input \<le> 4096 \<and>
     (\<exists>ts. tokenize 0 input = Inr ts \<and> (if ts = [] then p = (\<lambda>_. True) else sentence lib (query_tokens ts) p))"
  by (auto simp: Compile_def result_iff query_tokens_def [symmetric] parse_or_sentence [symmetric] split: if_splits)

section \<open>Properties\<close>

text \<open>
  C26. Compile accepts a query exactly when it has at most 4096 bytes, splits into at most 128
  tokens and these are a sentence of the grammar, and the predicate it returns is the meaning
  the grammar gives the sentence: AND binds tighter than OR, both group to the left, NOT and
  parentheses nest to at most 12 levels, an empty query matches every entry. The parser always
  ends: its loops take a token in each round.
\<close>

theorem Compile_accepts_grammar:
  "Compile lib input = Inr p \<longleftrightarrow> len input \<le> 4096 \<and>
     (\<exists>ts. tokenize 0 input = Inr ts \<and> (if ts = [] then p = (\<lambda>_. True) else sentence lib (query_tokens ts) p))"
  by (rule Compile_sentence)

end
