(* ===== verification/Log_Entry.thy ===== *)
theory Log_Entry
  imports Log_Query
begin

text \<open>
  From a log line to an entry (internal/logquery/query.go): the time stamp, the bounded walk
  over structured metadata, the severity, and the memory an entry is charged for. The JSON
  decoder is a parameter: its tokens up to the first error, whether it reached the end of the
  text, and the object it decodes.
\<close>

section \<open>Structured metadata\<close>

datatype json_step = Delim char | Scalar

record json_decoder =
  json_steps :: "string \<Rightarrow> json_step list \<times> bool"
  json_object :: "string \<Rightarrow> json gomap option"

definition maxMetadataDepth :: int where "maxMetadataDepth = 8"
definition maxMetadataTokens :: int where "maxMetadataTokens = 128"
definition maxMetadataBytes :: int where "maxMetadataBytes = 65536"

text \<open>The loop over the tokens; the answer is whether the object is allowed and whether it is too large.\<close>

fun metadata_walk :: "int \<Rightarrow> int \<Rightarrow> json_step list \<Rightarrow> bool \<Rightarrow> bool \<times> bool" where
  "metadata_walk depth tokens [] eof = (if eof then (0 < tokens \<and> depth = 0, False) else (False, False))"
| "metadata_walk depth tokens (step # steps) eof =
     (if maxMetadataTokens < tokens + 1 then (False, True)
      else
        (case step of
           Scalar \<Rightarrow> metadata_walk depth (tokens + 1) steps eof
         | Delim d \<Rightarrow>
             if d = CHR ''{'' \<or> d = CHR ''['' then
               (if maxMetadataDepth < depth + 1 then (False, True) else metadata_walk (depth + 1) (tokens + 1) steps eof)
             else if depth - 1 = 0 then (steps = [] \<and> eof, False)
             else metadata_walk (depth - 1) (tokens + 1) steps eof))"

definition metadataAllowed :: "json_decoder \<Rightarrow> string \<Rightarrow> bool \<times> bool" where
  "metadataAllowed dec input0 =
     (let input = TrimSpace input0 in
      if \<not> HasPrefix input ''{'' then (False, False)
      else if maxMetadataBytes < len input then (False, True)
      else (case json_steps dec input of (steps, eof) \<Rightarrow> metadata_walk 0 0 steps eof))"

fun metadataBytes :: "json \<Rightarrow> int" where
  "metadataBytes (JObject kvs) = 256 + sum_list (map (\<lambda>kv. 256 + len (fst kv) + metadataBytes (snd kv)) kvs)"
| "metadataBytes (JArray vs) = 64 + 32 * len vs + sum_list (map metadataBytes vs)"
| "metadataBytes (JString s) = 32 + len s"
| "metadataBytes (JNumber n) = 32 + len n"
| "metadataBytes v = 32"

definition RetainedBytes :: "Entry \<Rightarrow> int" where
  "RetainedBytes e = 256 + len (en_Message e) + len (en_Pod e) + len (en_Service e) + len (en_Container e)
     + len (en_Severity e) + metadataBytes (JObject (en_Fields e))"

section \<open>Severity\<close>

definition severityOf :: "string \<Rightarrow> string" where
  "severityOf level0 =
     (let level = ToUpperText level0 in
      if map_of ranks level = None then [] else if level = ''WARN'' then ''WARNING'' else level)"

text \<open>\<open>\s\<close> of a regular expression.\<close>

definition regex_space :: "char \<Rightarrow> bool" where
  "regex_space c \<longleftrightarrow> code c \<in> {9, 10, 12, 13, 32}"

text \<open>\<open>jsonLevel\<close>: a level key, a colon and a word in quotes, at the start of a text.\<close>

definition level_here :: "string \<Rightarrow> string option" where
  "level_here s =
     (case find (\<lambda>k. HasPrefix s (CHR 0x22 # k @ [CHR 0x22])) [''severity'', ''level'', ''levelname''] of
        None \<Rightarrow> None
      | Some k \<Rightarrow>
          (let rest = dropWhile regex_space (drop (length k + 2) s) in
           if \<not> HasPrefix rest '':'' then None
           else
             (let quoted = dropWhile regex_space (tl rest); word = takeWhile is_alpha (tl quoted) in
              if HasPrefix quoted [CHR 0x22] \<and> word \<noteq> [] \<and> HasPrefix (drop (length word) (tl quoted)) [CHR 0x22]
              then Some word else None)))"

fun jsonLevel :: "string \<Rightarrow> string option" where
  "jsonLevel [] = None"
| "jsonLevel (c # s) = (case level_here (c # s) of Some w \<Rightarrow> Some w | None \<Rightarrow> jsonLevel s)"

definition level_words :: "string list" where
  "level_words = [''TRACE'', ''DEBUG'', ''INFO'', ''NOTICE'', ''WARN'', ''WARNING'', ''ERROR'', ''CRITICAL'', ''FATAL'']"

definition level_end :: "string \<Rightarrow> bool" where
  "level_end s \<longleftrightarrow> s = [] \<or> regex_space (hd s) \<or> hd s = CHR '':'' \<or> hd s = CHR ''|''"

definition leadingLevel :: "string \<Rightarrow> string option" where
  "leadingLevel s =
     (let body = (if HasPrefix s ''['' then tl s else s) in
      find (\<lambda>w. HasPrefix body w \<and>
          (let rest = drop (length w) body in level_end (if HasPrefix rest '']'' then tl rest else rest)))
        level_words)"

section \<open>A line\<close>

text \<open>\<open>time.Time{}\<close>.\<close>

definition zero_time :: int where "zero_time = - 62135596800 * 1000000000"

definition level_keys :: "string list" where
  "level_keys = [''severity'', ''level'', ''log.level'', ''levelname'']"

fun first_level :: "json gomap \<Rightarrow> string list \<Rightarrow> string option" where
  "first_level obj [] = None"
| "first_level obj (k # ks) =
     (case gm_get obj k of
        Some (JString raw) \<Rightarrow> if severityOf raw \<noteq> [] then Some (severityOf raw) else first_level obj ks
      | _ \<Rightarrow> first_level obj ks)"

definition ParseEntry :: "lq_library \<Rightarrow> json_decoder \<Rightarrow> string \<Rightarrow> string \<Rightarrow> string \<Rightarrow> string \<Rightarrow> Entry" where
  "ParseEntry lib dec line service pod container =
     (let (stamp, message) =
        (case Cut line (CHR '' '') of
           (stamp, rest, ok) \<Rightarrow>
             (case (ok, parse_time lib stamp) of (True, Some t) \<Rightarrow> (t, rest) | _ \<Rightarrow> (zero_time, line)));
          (allowed, limited) = metadataAllowed dec message;
          e = \<lparr>en_Timestamp = stamp, en_Pod = pod, en_Container = container, en_Service = service, en_Message = message,
               en_Severity = ''DEFAULT'', en_Fields = [], en_MetadataOmitted = limited\<rparr> in
      if \<not> allowed then
        (if limited \<or> HasPrefix (TrimSpace message) ''{'' then
           (case jsonLevel message of
              Some w \<Rightarrow> if severityOf w \<noteq> [] then e\<lparr>en_Severity := severityOf w\<rparr> else e
            | None \<Rightarrow> e)
         else
           (case leadingLevel (dropWhile (\<lambda>c. c = CHR '' '' \<or> c = TAB) message) of
              Some w \<Rightarrow> e\<lparr>en_Severity := severityOf w\<rparr>
            | None \<Rightarrow> e))
      else
        (case json_object dec message of
           None \<Rightarrow> e
         | Some obj \<Rightarrow>
             (case first_level obj level_keys of
                Some level \<Rightarrow> e\<lparr>en_Fields := obj, en_Severity := level\<rparr>
              | None \<Rightarrow> e\<lparr>en_Fields := obj\<rparr>)))"

section \<open>Facts\<close>

lemma metadataBytes_pos: "0 < metadataBytes v"
proof (induction v rule: metadataBytes.induct)
  case (1 kvs)
  then have "0 \<le> sum_list (map (\<lambda>kv. 256 + len (fst kv) + metadataBytes (snd kv)) kvs)"
    by (intro sum_list_nonneg) (fastforce simp: len_length intro: order.strict_implies_order add_nonneg_nonneg)
  then show ?case by simp
next
  case (2 vs)
  then have "0 \<le> sum_list (map metadataBytes vs)" by (intro sum_list_nonneg) (auto intro: order.strict_implies_order)
  then show ?case by (simp add: len_length)
qed (simp_all add: len_length)

text \<open>Every entry has a severity that a query can rank.\<close>

lemma severityOf_ranked: "severityOf w \<noteq> [] \<Longrightarrow> map_of ranks (severityOf w) \<noteq> None"
proof -
  have w: "map_of ranks ''WARNING'' \<noteq> None" by code_simp
  assume "severityOf w \<noteq> []"
  then show ?thesis using w unfolding severityOf_def Let_def by (cases "ToUpperText w = ''WARN''") (auto split: if_splits)
qed

lemma leadingLevel_ranked: "leadingLevel s = Some w \<Longrightarrow> severityOf w \<noteq> []"
proof -
  have all: "list_all (\<lambda>w. severityOf w \<noteq> []) level_words" by code_simp
  have "find P xs = Some w \<Longrightarrow> w \<in> set xs" for P and xs :: "string list"
    by (induction xs) (auto split: if_splits)
  moreover assume "leadingLevel s = Some w"
  ultimately have "w \<in> set level_words" unfolding leadingLevel_def Let_def by blast
  then show ?thesis using all by (simp add: list_all_iff)
qed

lemma first_level_ranked: "first_level obj ks = Some w \<Longrightarrow> map_of ranks w \<noteq> None"
  by (induction ks) (auto split: option.splits json.splits if_splits dest: severityOf_ranked)

lemma ParseEntry_ranked: "map_of ranks (en_Severity (ParseEntry lib dec line service pod container)) \<noteq> None"
proof -
  have "map_of ranks ''DEFAULT'' \<noteq> None" by code_simp
  then show ?thesis
    using severityOf_ranked leadingLevel_ranked first_level_ranked
    unfolding ParseEntry_def Let_def by (auto split: prod.splits option.splits simp del: map_of_eq_None_iff)
qed

end
