(* ===== verification/Advisory_Match.thy ===== *)
theory Advisory_Match
  imports Prelude Go_Text Go_Prefix "HOL-Library.Product_Lexorder"
begin

text \<open>
  Security advisories (internal/advisory/types.go and match.go): versions and image references,
  the match of an advisory against the evidence on a running service, the order of findings
  and the merge of two lists of them. \<open>strings.ToLower\<close> reads the case tables of Unicode, so
  it is the parameter \<open>lower\<close>. Times are numbers and are not read by the match.
\<close>

section \<open>Advisories, evidence and findings\<close>

text \<open>The string types of the code keep every string; these are their constants.\<close>

abbreviation Critical :: string where "Critical \<equiv> ''critical''"
abbreviation High :: string where "High \<equiv> ''high''"
abbreviation Moderate :: string where "Moderate \<equiv> ''moderate''"
abbreviation Low :: string where "Low \<equiv> ''low''"

abbreviation ActionUpdate :: string where "ActionUpdate \<equiv> ''update''"
abbreviation ActionManual :: string where "ActionManual \<equiv> ''manual''"

abbreviation SourceHakopod :: string where "SourceHakopod \<equiv> ''hakopod''"
abbreviation SourceOSV :: string where "SourceOSV \<equiv> ''osv''"

abbreviation KindImage :: string where "KindImage \<equiv> ''image''"
abbreviation KindSource :: string where "KindSource \<equiv> ''source''"

abbreviation Confirmed :: string where "Confirmed \<equiv> ''confirmed''"
abbreviation Possible :: string where "Possible \<equiv> ''possible''"

abbreviation FixReresolve :: string where "FixReresolve \<equiv> ''reresolve''"
abbreviation FixRebuild :: string where "FixRebuild \<equiv> ''rebuild''"
abbreviation FixManual :: string where "FixManual \<equiv> ''manual''"

record VersionRange =
  vr_Introduced :: string
  vr_Fixed :: string
  vr_LastAffected :: string

record ImageTarget =
  it_Repository :: string
  it_AffectedDigests :: "string list"
  it_AffectedTags :: "string list"
  it_FixedDigests :: "string list"

record RuntimeTarget =
  rt_Runtime :: string
  rt_Ranges :: "VersionRange list"

record AdvisoryTarget =
  at_Image :: "ImageTarget option"
  at_Runtime :: "RuntimeTarget option"

record Advisory =
  av_ID :: string
  av_Revision :: int
  av_Source :: string
  av_Title :: string
  av_Message :: string
  av_Severity :: string
  av_URL :: string
  av_PublishedAt :: int
  av_Action :: string
  av_Aliases :: "string list"
  av_Targets :: "AdvisoryTarget list"

record ServiceEvidence =
  se_Service :: string
  se_Kind :: string
  se_Image :: string
  se_Digest :: string
  se_Mutable :: bool
  se_Runtimes :: "string gomap"
  se_Unknown :: bool
  se_BaseImage :: string
  se_BasePinned :: bool
  se_Reason :: string

record Inventory =
  iv_ApplicationID :: string
  iv_DeploymentID :: string
  iv_Revision :: int
  iv_Services :: "ServiceEvidence list"
  iv_Incomplete :: "string list"
  iv_CheckedAt :: int

record Finding =
  fd_AdvisoryID :: string
  fd_AdvisoryRevision :: int
  fd_Source :: string
  fd_Severity :: string
  fd_Title :: string
  fd_URL :: string
  fd_Service :: string
  fd_Confidence :: string
  fd_Evidence :: string
  fd_Fix :: string
  fd_FixReason :: string
  fd_AutoEligible :: bool
  fd_FixedDigests :: "string list"
  fd_Aliases :: "string list"

section \<open>Versions\<close>

definition NormalizeVersion :: "string \<Rightarrow> string \<Rightarrow> string" where
  "NormalizeVersion runtime raw =
     (let v = TrimSpace raw;
          v = TrimPrefix (TrimPrefix v ''jdk-'') ''v'';
          v = takeWhile (\<lambda>c. c \<notin> set ''+-'') v;
          v = TrimChars ''.'' v in
      if v = [] \<or> TrimChars ''0123456789.'' v \<noteq> [] \<or> Contains v ''..'' then [] else v)"

text \<open>
  \<open>n, _ := strconv.Atoi(seg)\<close> on digits: no digits give zero, and a number past 64 bits the
  largest integer.
\<close>

definition segment_number :: "string \<Rightarrow> int" where
  "segment_number digits =
     (case read_digits 0 digits of None \<Rightarrow> 0 | Some n \<Rightarrow> min n (2 ^ 63 - 1))"

fun part_loop :: "string list \<Rightarrow> int list" where
  "part_loop [] = []"
| "part_loop (seg # segs) =
     (let digits = takeWhile is_digit seg in
      segment_number digits # (if length digits < length seg then [] else part_loop segs))"

definition versionParts :: "string \<Rightarrow> int list" where
  "versionParts v = part_loop (Split (CHR ''.'') (TrimPrefix (TrimSpace v) ''v''))"

fun compare_parts :: "int list \<Rightarrow> int list \<Rightarrow> int" where
  "compare_parts [] [] = 0"
| "compare_parts as bs =
     (let x = (case as of [] \<Rightarrow> 0 | a # _ \<Rightarrow> a);
          y = (case bs of [] \<Rightarrow> 0 | b # _ \<Rightarrow> b) in
      if x \<noteq> y then (if x < y then -1 else 1) else compare_parts (tl as) (tl bs))"

definition CompareVersions :: "string \<Rightarrow> string \<Rightarrow> int" where
  "CompareVersions a b = compare_parts (versionParts a) (versionParts b)"

fun inRanges :: "string \<Rightarrow> VersionRange list \<Rightarrow> bool" where
  "inRanges v [] = False"
| "inRanges v (r # rs) =
     (if CompareVersions v (vr_Introduced r) < 0 then inRanges v rs
      else if vr_Fixed r \<noteq> [] \<and> CompareVersions v (vr_Fixed r) < 0
        \<or> vr_LastAffected r \<noteq> [] \<and> CompareVersions v (vr_LastAffected r) \<le> 0
        \<or> vr_Fixed r = [] \<and> vr_LastAffected r = [] then True
      else inRanges v rs)"

section \<open>Image references\<close>

definition splitImage :: "string \<Rightarrow> string \<times> string \<times> string" where
  "splitImage img =
     (let (name, digest, _) = Cut (TrimSpace img) (CHR ''@'');
          colon = LastIndexByte name (CHR '':'') in
      if colon > LastIndexByte name (CHR ''/'')
      then (take (nat colon) name, drop (nat colon + 1) name, digest)
      else (name, [], digest))"

definition NormalizeRepository :: "(string \<Rightarrow> string) \<Rightarrow> string \<Rightarrow> string" where
  "NormalizeRepository lower img =
     (let (name, _, _) = splitImage img in
      if name = [] then []
      else let (first, rest, hasSlash) = Cut name (CHR ''/'') in
        if hasSlash \<and> (ContainsAny first ''.:'' \<or> first = ''localhost'') then
          (let first = lower first;
               first = (if first = ''index.docker.io'' \<or> first = ''registry-1.docker.io''
                        then ''docker.io'' else first);
               rest = (if first = ''docker.io'' \<and> \<not> Contains rest ''/''
                       then ''library/'' @ rest else rest) in
           first @ ''/'' @ rest)
        else if \<not> hasSlash then ''docker.io/library/'' @ name
        else ''docker.io/'' @ name)"

definition ImageTag :: "string \<Rightarrow> string" where
  "ImageTag img =
     (let (_, tag, digest) = splitImage img in
      if tag = [] \<and> digest = [] then ''latest'' else tag)"

section \<open>The match\<close>

text \<open>The closure \<open>add\<close> of \<open>Match\<close>: the finding so far, the confidence and its evidence.\<close>

definition new_finding :: "Advisory \<Rightarrow> ServiceEvidence \<Rightarrow> string \<Rightarrow> string \<Rightarrow> Finding" where
  "new_finding adv svc conf evidence =
     \<lparr>fd_AdvisoryID = av_ID adv, fd_AdvisoryRevision = av_Revision adv, fd_Source = av_Source adv,
      fd_Severity = av_Severity adv, fd_Title = av_Title adv, fd_URL = av_URL adv,
      fd_Service = se_Service svc, fd_Confidence = conf, fd_Evidence = evidence,
      fd_Fix = [], fd_FixReason = [], fd_AutoEligible = False, fd_FixedDigests = [],
      fd_Aliases = av_Aliases adv\<rparr>"

definition add_evidence :: "Finding \<Rightarrow> string \<Rightarrow> string \<Rightarrow> Finding" where
  "add_evidence f conf evidence =
     (let f = (if conf = Confirmed then f\<lparr>fd_Confidence := Confirmed\<rparr> else f) in
      if evidence \<in> set (SplitOn '', '' (fd_Evidence f)) then f
      else f\<lparr>fd_Evidence := fd_Evidence f @ '', '' @ evidence\<rparr>)"

definition add_finding ::
  "Advisory \<Rightarrow> ServiceEvidence \<Rightarrow> string \<Rightarrow> string \<Rightarrow> ImageTarget option \<Rightarrow> Finding option \<Rightarrow> Finding option" where
  "add_finding adv svc conf evidence img f =
     (let g = (case f of None \<Rightarrow> new_finding adv svc conf evidence
                 | Some h \<Rightarrow> add_evidence h conf evidence) in
      Some (case img of None \<Rightarrow> g
        | Some t \<Rightarrow>
            if conf = Confirmed \<and> av_Source adv = SourceHakopod \<and> av_Action adv = ActionUpdate
               \<and> se_Kind svc = KindImage \<and> se_Mutable svc \<and> it_FixedDigests t \<noteq> []
            then g\<lparr>fd_AutoEligible := True, fd_FixedDigests := it_FixedDigests t\<rparr> else g))"

text \<open>What \<open>matchImage\<close> adds, if it adds anything: the confidence and the evidence.\<close>

definition matchImage :: "(string \<Rightarrow> string) \<Rightarrow> ImageTarget \<Rightarrow> ServiceEvidence \<Rightarrow> (string \<times> string) option" where
  "matchImage lower t svc =
     (let img = (if se_Kind svc = KindSource then se_BaseImage svc else se_Image svc);
          repo = NormalizeRepository lower img in
      if img = [] \<or> repo \<noteq> NormalizeRepository lower (it_Repository t) then None
      else
        let digest = (if se_Kind svc = KindSource
                      then (case Cut img (CHR ''@'') of (_, d, ok) \<Rightarrow> if ok then d else [])
                      else se_Digest svc) in
        if digest \<noteq> [] \<and> digest \<in> set (it_FixedDigests t) then None
        else if digest \<noteq> [] \<and> digest \<in> set (it_AffectedDigests t)
        then Some (Confirmed, repo @ ''@'' @ digest)
        else
          let tag = ImageTag img in
          if tag \<noteq> [] \<and> tag \<in> set (it_AffectedTags t) then Some (Possible, repo @ '':'' @ tag)
          else None)"

definition runtime_version :: "ServiceEvidence \<Rightarrow> string \<Rightarrow> string" where
  "runtime_version svc runtime =
     NormalizeVersion runtime (case gm_get (se_Runtimes svc) runtime of None \<Rightarrow> [] | Some raw \<Rightarrow> raw)"

definition match_target ::
  "(string \<Rightarrow> string) \<Rightarrow> Advisory \<Rightarrow> ServiceEvidence \<Rightarrow> AdvisoryTarget \<Rightarrow> Finding option \<Rightarrow> Finding option" where
  "match_target lower adv svc t f =
     (case at_Image t of
        Some i \<Rightarrow>
          (case matchImage lower i svc of None \<Rightarrow> f
           | Some (conf, evidence) \<Rightarrow> add_finding adv svc conf evidence (Some i) f)
      | None \<Rightarrow>
          (case at_Runtime t of
             Some r \<Rightarrow>
               (let v = runtime_version svc (rt_Runtime r) in
                if v \<noteq> [] \<and> inRanges v (rt_Ranges r)
                then add_finding adv svc Confirmed (rt_Runtime r @ '' '' @ v) None f else f)
           | None \<Rightarrow> f))"

definition fixFor :: "Advisory \<Rightarrow> ServiceEvidence \<Rightarrow> string \<times> string" where
  "fixFor adv svc =
     (if av_Action adv = ActionManual then (FixManual, av_Message adv)
      else if se_Kind svc = KindSource \<and> se_BasePinned svc
      then (FixManual, ''Base img is pinned by Hakopod; update Hakopod, then rebuild.'')
      else if se_Kind svc = KindSource then (FixRebuild, [])
      else if \<not> se_Mutable svc
      then (FixManual, ''Image is pinned by digest; change the pinned digest.'')
      else (FixReresolve, []))"

definition match_one :: "(string \<Rightarrow> string) \<Rightarrow> Advisory \<Rightarrow> ServiceEvidence \<Rightarrow> Finding option" where
  "match_one lower adv svc =
     (case fold (match_target lower adv svc) (av_Targets adv) None of
        None \<Rightarrow> None
      | Some f \<Rightarrow> Some (f\<lparr>fd_Fix := fst (fixFor adv svc), fd_FixReason := snd (fixFor adv svc)\<rparr>))"

section \<open>The order of findings\<close>

definition severity_rank :: "string \<Rightarrow> nat" where
  "severity_rank s =
     (if s = Critical then 0 else if s = High then 1 else if s = Moderate then 2
      else if s = Low then 3 else 4)"

definition finding_less :: "Finding \<Rightarrow> Finding \<Rightarrow> bool" where
  "finding_less a b =
     (if severity_rank (fd_Severity a) \<noteq> severity_rank (fd_Severity b)
      then severity_rank (fd_Severity a) < severity_rank (fd_Severity b)
      else if fd_AdvisoryID a \<noteq> fd_AdvisoryID b then fd_AdvisoryID a < fd_AdvisoryID b
      else fd_Service a < fd_Service b)"

text \<open>\<open>sort.SliceStable\<close>: an element goes behind those it is not less than.\<close>

fun stable_insert :: "('a \<Rightarrow> 'a \<Rightarrow> bool) \<Rightarrow> 'a \<Rightarrow> 'a list \<Rightarrow> 'a list" where
  "stable_insert before x [] = [x]"
| "stable_insert before x (y # ys) = (if before y x then y # stable_insert before x ys else x # y # ys)"

definition SliceStable :: "('a \<Rightarrow> 'a \<Rightarrow> bool) \<Rightarrow> 'a list \<Rightarrow> 'a list" where
  "SliceStable before xs = foldr (stable_insert before) xs []"

definition sortFindings :: "Finding list \<Rightarrow> Finding list" where
  "sortFindings fs = SliceStable finding_less fs"

definition Match_all :: "(string \<Rightarrow> string) \<Rightarrow> Advisory list \<Rightarrow> Inventory \<Rightarrow> Finding list" where
  "Match_all lower advisories inventory =
     sortFindings
       (concat (map (\<lambda>adv. List.map_filter (match_one lower adv) (iv_Services inventory)) advisories))"

section \<open>The merge of two sources\<close>

definition finding_key :: "(string \<Rightarrow> string) \<Rightarrow> Finding \<Rightarrow> string \<Rightarrow> string" where
  "finding_key lower f i = fd_Service f @ [NUL] @ lower i"

definition finding_ids :: "Finding \<Rightarrow> string list" where
  "finding_ids f = fd_AdvisoryID f # fd_Aliases f"

definition note_finding :: "(string \<Rightarrow> string) \<Rightarrow> Finding \<Rightarrow> string gomap \<Rightarrow> string gomap" where
  "note_finding lower f seen =
     fold (\<lambda>i seen. let key = finding_key lower f i in
             if gm_get seen key \<noteq> Some Confirmed then gm_set key (fd_Confidence f) seen else seen)
       (finding_ids f) seen"

definition is_duplicate :: "(string \<Rightarrow> string) \<Rightarrow> string gomap \<Rightarrow> Finding \<Rightarrow> bool" where
  "is_duplicate lower seen f =
     list_ex (\<lambda>i. case gm_get seen (finding_key lower f i) of None \<Rightarrow> False
                | Some c \<Rightarrow> c = Confirmed \<or> fd_Confidence f \<noteq> Confirmed)
       (finding_ids f)"

definition Merge :: "(string \<Rightarrow> string) \<Rightarrow> Finding list \<Rightarrow> Finding list \<Rightarrow> Finding list" where
  "Merge lower primary secondary =
     (let seen = fold (note_finding lower) primary [] in
      sortFindings (primary @ filter (\<lambda>f. \<not> is_duplicate lower seen f) secondary))"

end
