(* ===== verification/Advisory_Facts.thy ===== *)
theory Advisory_Facts
  imports Advisory_Match
begin

text \<open>
  Facts about advisories: the order of findings is a stable sort by severity, id and service;
  versions are compared as sequences of numbers that end in zeros; what a finding says of the
  targets it was made from; and what the merge of two sources keeps.
\<close>

section \<open>The order of findings\<close>

definition finding_rank :: "Finding \<Rightarrow> nat \<times> string \<times> string" where
  "finding_rank f = (severity_rank (fd_Severity f), fd_AdvisoryID f, fd_Service f)"

lemma finding_less_rank: "finding_less a b \<longleftrightarrow> finding_rank a < finding_rank b"
  by (auto simp: finding_less_def finding_rank_def less_prod_def)

lemma stable_insert_insort:
  assumes "\<And>a b. before a b \<longleftrightarrow> k a < k b"
  shows "stable_insert before x xs = insort_key k x xs"
  using assms by (induction xs) (auto simp: not_less)

lemma SliceStable_sort_key:
  assumes "\<And>a b. before a b \<longleftrightarrow> k a < k b"
  shows "SliceStable before xs = sort_key k xs"
  by (induction xs) (auto simp: SliceStable_def stable_insert_insort [OF assms])

lemma sortFindings_sort_key: "sortFindings = sort_key finding_rank"
  by (rule ext) (simp add: sortFindings_def SliceStable_sort_key [OF finding_less_rank])

lemma set_sortFindings [simp]: "set (sortFindings fs) = set fs"
  by (simp add: sortFindings_sort_key)

lemma length_sortFindings [simp]: "length (sortFindings fs) = length fs"
  by (simp add: sortFindings_sort_key)

lemma sortFindings_ordered: "sorted_wrt (\<lambda>a b. \<not> finding_less b a) (sortFindings fs)"
proof -
  have "sorted (map finding_rank (sort_key finding_rank fs))" by simp
  then show ?thesis
    by (simp add: sortFindings_sort_key finding_less_rank sorted_wrt_map not_less)
qed

section \<open>Versions as sequences of numbers\<close>

definition part_at :: "int list \<Rightarrow> nat \<Rightarrow> int" where
  "part_at ps i = (if i < length ps then ps ! i else 0)"

text \<open>The first difference decides.\<close>

definition version_less :: "int list \<Rightarrow> int list \<Rightarrow> bool" where
  "version_less as bs \<longleftrightarrow>
     (\<exists>i. part_at as i < part_at bs i \<and> (\<forall>j < i. part_at as j = part_at bs j))"

lemma part_at_simps [simp]:
  "part_at [] i = 0" "part_at (a # as) 0 = a" "part_at (a # as) (Suc i) = part_at as i"
  by (simp_all add: part_at_def)

lemma part_at_hd: "part_at as 0 = (case as of [] \<Rightarrow> 0 | a # _ \<Rightarrow> a)"
  by (cases as) simp_all

lemma part_at_tl: "part_at (tl as) i = part_at as (Suc i)"
  by (cases as) simp_all

lemma version_less_step:
  "version_less as bs \<longleftrightarrow>
     part_at as 0 < part_at bs 0 \<or> part_at as 0 = part_at bs 0 \<and> version_less (tl as) (tl bs)"
  (is "?l \<longleftrightarrow> ?r")
proof
  assume ?l
  then obtain i where i: "part_at as i < part_at bs i" "\<forall>j < i. part_at as j = part_at bs j"
    by (auto simp: version_less_def)
  show ?r
  proof (cases i)
    case 0
    with i show ?thesis by simp
  next
    case (Suc k)
    with i show ?thesis
      by (auto simp: version_less_def part_at_tl intro!: exI [of _ k])
  qed
next
  assume ?r
  then show ?l
  proof
    assume "part_at as 0 < part_at bs 0"
    then show ?l by (auto simp: version_less_def intro!: exI [of _ 0])
  next
    assume h: "part_at as 0 = part_at bs 0 \<and> version_less (tl as) (tl bs)"
    then obtain i where "part_at as (Suc i) < part_at bs (Suc i)"
        "\<forall>j < i. part_at as (Suc j) = part_at bs (Suc j)"
      by (auto simp: version_less_def part_at_tl)
    with h show ?l
      by (auto simp: version_less_def less_Suc_eq_0_disj intro!: exI [of _ "Suc i"])
  qed
qed

lemma version_less_Nil [simp]: "\<not> version_less [] []"
  by (simp add: version_less_def)

lemma compare_parts_less:
  "(compare_parts as bs = -1 \<longleftrightarrow> version_less as bs) \<and> (compare_parts as bs = 1 \<longleftrightarrow> version_less bs as)
     \<and> compare_parts as bs \<in> {-1, 0, 1}"
  by (induction as bs rule: compare_parts.induct)
    (simp, ((subst version_less_step, subst (2) version_less_step, auto simp: Let_def part_at_hd)[1])+)

lemma version_less_irrefl [simp]: "\<not> version_less as as"
  by (simp add: version_less_def)

lemma version_less_trans:
  assumes "version_less as bs" "version_less bs cs"
  shows "version_less as cs"
proof -
  obtain i j where i: "part_at as i < part_at bs i" "\<forall>k < i. part_at as k = part_at bs k"
    and j: "part_at bs j < part_at cs j" "\<forall>k < j. part_at bs k = part_at cs k"
    using assms by (auto simp: version_less_def)
  have "part_at as (min i j) < part_at cs (min i j)"
    using i j by (cases i j rule: linorder_cases) auto
  moreover have "\<forall>k < min i j. part_at as k = part_at cs k" using i j by auto
  ultimately show ?thesis by (auto simp: version_less_def)
qed

lemma version_less_total:
  "version_less as bs \<or> version_less bs as \<or> (\<forall>i. part_at as i = part_at bs i)"
proof (cases "\<exists>n. part_at as n \<noteq> part_at bs n")
  case True
  obtain n where n: "n = (LEAST n. part_at as n \<noteq> part_at bs n)" by blast
  from True have "part_at as n \<noteq> part_at bs n" unfolding n by (rule LeastI_ex)
  moreover have eq: "\<forall>k < n. part_at as k = part_at bs k"
    unfolding n using not_less_Least by blast
  ultimately consider "part_at as n < part_at bs n" | "part_at bs n < part_at as n" by linarith
  then show ?thesis using eq by cases (auto simp: version_less_def)
qed simp

lemma version_less_cong:
  assumes "\<forall>i. part_at as i = part_at bs i"
  shows "version_less as cs = version_less bs cs" "version_less cs as = version_less cs bs"
  using assms by (simp_all add: version_less_def)

section \<open>Versions as they are written\<close>

definition dotted :: "int list \<Rightarrow> string" where
  "dotted ns = Join (CHR ''.'') (map Itoa ns)"

definition version_numbers :: "int list \<Rightarrow> bool" where
  "version_numbers ns \<longleftrightarrow> ns \<noteq> [] \<and> (\<forall>n \<in> set ns. 0 \<le> n \<and> n < 2 ^ 63)"

lemma Itoa_all_digits: "0 \<le> n \<Longrightarrow> Itoa n \<noteq> [] \<and> (\<forall>c \<in> set (Itoa n). is_digit c)"
  using show_digits_are_digits by (simp add: Itoa_def)

lemma segment_number_Itoa: "0 \<le> n \<Longrightarrow> n < 2 ^ 63 \<Longrightarrow> segment_number (Itoa n) = n"
  by (simp add: segment_number_def Itoa_def read_show_digits)

lemma digit_not_dot: "is_digit c \<Longrightarrow> c \<noteq> CHR ''.''"
  by (auto simp: is_digit_def code_def)

lemma Split_dotted: "version_numbers ns \<Longrightarrow> Split (CHR ''.'') (dotted ns) = map Itoa ns"
  unfolding dotted_def version_numbers_def
  by (rule Split_Join) (auto dest: Itoa_all_digits digit_not_dot)

lemma part_loop_Itoa: "\<forall>n \<in> set ns. 0 \<le> n \<and> n < 2 ^ 63 \<Longrightarrow> part_loop (map Itoa ns) = ns"
proof (induction ns)
  case (Cons n ns)
  then have digits: "takeWhile is_digit (Itoa n) = Itoa n"
    using Itoa_all_digits [of n] by (simp add: takeWhile_eq_all_conv)
  show ?case using Cons by (simp add: digits segment_number_Itoa)
qed simp

lemma set_Join: "set (Join c ws) \<subseteq> insert c (\<Union> (set ` set ws))"
  by (induction c ws rule: Join.induct) auto

lemma dotted_chars: "version_numbers ns \<Longrightarrow> c \<in> set (dotted ns) \<Longrightarrow> is_digit c \<or> c = CHR ''.''"
  using set_Join [of "CHR ''.''" "map Itoa ns"]
  by (auto simp: dotted_def version_numbers_def dest: Itoa_all_digits)

lemma Join_ends:
  "ws \<noteq> [] \<Longrightarrow> \<forall>w \<in> set ws. w \<noteq> [] \<Longrightarrow>
     Join c ws \<noteq> [] \<and> hd (Join c ws) = hd (hd ws) \<and> last (Join c ws) = last (last ws)"
  by (induction c ws rule: Join.induct) auto

lemma dotted_ends:
  assumes "version_numbers ns"
  shows "dotted ns \<noteq> []" "is_digit (hd (dotted ns))" "is_digit (last (dotted ns))"
proof -
  have ne: "map Itoa ns \<noteq> []" "\<forall>w \<in> set (map Itoa ns). w \<noteq> []"
    and "\<forall>w \<in> set (map Itoa ns). \<forall>c \<in> set w. is_digit c"
    using assms Itoa_all_digits by (auto simp: version_numbers_def)
  then have "is_digit (hd (hd (map Itoa ns)))" "is_digit (last (last (map Itoa ns)))"
    by (metis hd_in_set last_in_set)+
  with Join_ends [OF ne, of "CHR ''.''"]
  show "dotted ns \<noteq> []" "is_digit (hd (dotted ns))" "is_digit (last (dotted ns))"
    by (simp_all add: dotted_def)
qed

lemma digit_visible: "is_digit c \<Longrightarrow> visible c"
  by (simp add: is_digit_def visible_def)

lemma TrimSpace_dotted: "version_numbers ns \<Longrightarrow> TrimSpace (dotted ns) = dotted ns"
  using dotted_ends by (simp add: TrimSpace_visible digit_visible)

lemma digit_letters: "is_digit c \<Longrightarrow> c \<noteq> CHR ''v'' \<and> c \<noteq> CHR ''j'' \<and> c \<notin> set ''+-''"
  by (auto simp: is_digit_def code_def)

lemma TrimPrefix_dotted:
  assumes "version_numbers ns"
  shows "TrimPrefix (dotted ns) ''v'' = dotted ns" "TrimPrefix (dotted ns) ''jdk-'' = dotted ns"
  using dotted_ends(1,2) [OF assms] digit_letters
  by (cases "dotted ns"; auto simp: TrimPrefix_def)+

lemma versionParts_dotted: "version_numbers ns \<Longrightarrow> versionParts (dotted ns) = ns"
  by (simp add: versionParts_def TrimSpace_dotted TrimPrefix_dotted Split_dotted part_loop_Itoa version_numbers_def)

lemma TrimChars_ends:
  assumes "s \<noteq> []" "hd s \<notin> set cutset" "last s \<notin> set cutset"
  shows "TrimChars cutset s = s"
proof -
  have "dropWhile (\<lambda>c. c \<in> set cutset) s = s" using assms by (cases s) auto
  moreover have "dropWhile (\<lambda>c. c \<in> set cutset) (rev s) = rev s"
    using assms by (cases s rule: rev_cases) auto
  ultimately show ?thesis by (simp add: TrimChars_def)
qed

lemma NormalizeVersion_dotted:
  assumes ns: "version_numbers ns"
  shows "NormalizeVersion runtime (dotted ns) = dotted ns"
proof -
  have plus: "takeWhile (\<lambda>c. c \<notin> set ''+-'') (dotted ns) = dotted ns"
    using dotted_chars [OF ns] digit_letters by (auto simp: takeWhile_eq_all_conv)
  have trim: "TrimChars ''.'' (dotted ns) = dotted ns"
    using dotted_ends [OF ns] digit_not_dot by (intro TrimChars_ends) auto
  have digits: "set (dotted ns) \<subseteq> set ''0123456789.''"
  proof
    fix c assume "c \<in> set (dotted ns)"
    then have "is_digit c \<or> c = CHR ''.''" using dotted_chars [OF ns] by blast
    then have "48 \<le> code c \<and> code c \<le> 57 \<or> code c = 46"
      by (auto simp: is_digit_def code_def)
    then have "code c = 46 \<or> code c = 48 \<or> code c = 49 \<or> code c = 50 \<or> code c = 51 \<or> code c = 52
        \<or> code c = 53 \<or> code c = 54 \<or> code c = 55 \<or> code c = 56 \<or> code c = 57"
      by presburger
    then have "char_of (code c) \<in> set ''0123456789.''" by (elim disjE; simp only:; code_simp)
    then show "c \<in> set ''0123456789.''" by simp
  qed
  have dots: "\<not> Contains (dotted ns) ''..''"
  proof
    assume "Contains (dotted ns) ''..''"
    then obtain p q where "dotted ns = p @ CHR ''.'' # CHR ''.'' # q"
      by (auto simp: sublist_def)
    then have "[] \<in> set (Split (CHR ''.'') (dotted ns))" by (simp add: Split_append)
    then show False using ns Itoa_all_digits by (force simp: Split_dotted version_numbers_def)
  qed
  have all: "TrimChars ''0123456789.'' (dotted ns) = []"
    using digits by (simp only: TrimChars_Nil_iff)
  show ?thesis
    using dots dotted_ends(1) [OF ns]
    by (simp add: NormalizeVersion_def TrimSpace_dotted [OF ns] TrimPrefix_dotted [OF ns] plus trim all
      del: set_simps)
qed

section \<open>What a finding says\<close>

text \<open>
  A target hits a service with a confidence, an evidence and, for an image, the target whose
  fixed digests an automatic update may use.
\<close>

definition target_hit ::
  "(string \<Rightarrow> string) \<Rightarrow> ServiceEvidence \<Rightarrow> AdvisoryTarget \<Rightarrow> (string \<times> string \<times> ImageTarget option) option" where
  "target_hit lower svc t =
     (case at_Image t of
        Some i \<Rightarrow> map_option (\<lambda>(conf, evidence). (conf, evidence, Some i)) (matchImage lower i svc)
      | None \<Rightarrow>
          (case at_Runtime t of
             Some r \<Rightarrow>
               (let v = runtime_version svc (rt_Runtime r) in
                if v \<noteq> [] \<and> inRanges v (rt_Ranges r) then Some (Confirmed, rt_Runtime r @ '' '' @ v, None)
                else None)
           | None \<Rightarrow> None))"

lemma match_target_hit:
  "match_target lower adv svc t f =
     (case target_hit lower svc t of None \<Rightarrow> f
      | Some (conf, evidence, i) \<Rightarrow> add_finding adv svc conf evidence i f)"
  by (simp add: match_target_def target_hit_def Let_def split: option.splits)

definition hits :: "(string \<Rightarrow> string) \<Rightarrow> ServiceEvidence \<Rightarrow> AdvisoryTarget \<Rightarrow> bool" where
  "hits lower svc t \<longleftrightarrow> target_hit lower svc t \<noteq> None"

definition confirms :: "(string \<Rightarrow> string) \<Rightarrow> ServiceEvidence \<Rightarrow> AdvisoryTarget \<Rightarrow> bool" where
  "confirms lower svc t \<longleftrightarrow> (\<exists>evidence i. target_hit lower svc t = Some (Confirmed, evidence, i))"

text \<open>The image targets that let the signed feed update a service by itself.\<close>

definition updates :: "(string \<Rightarrow> string) \<Rightarrow> Advisory \<Rightarrow> ServiceEvidence \<Rightarrow> AdvisoryTarget \<Rightarrow> bool" where
  "updates lower adv svc t \<longleftrightarrow>
     (\<exists>i. at_Image t = Some i
        \<and> av_Source adv = SourceHakopod \<and> av_Action adv = ActionUpdate
        \<and> se_Kind svc = KindImage \<and> se_Mutable svc \<and> it_FixedDigests i \<noteq> []
        \<and> se_Image svc \<noteq> [] \<and> NormalizeRepository lower (se_Image svc) = NormalizeRepository lower (it_Repository i)
        \<and> se_Digest svc \<noteq> [] \<and> se_Digest svc \<in> set (it_AffectedDigests i)
        \<and> se_Digest svc \<notin> set (it_FixedDigests i))"

lemma updates_hit:
  "updates lower adv svc t \<longleftrightarrow>
     (\<exists>evidence i. target_hit lower svc t = Some (Confirmed, evidence, Some i)
        \<and> av_Source adv = SourceHakopod \<and> av_Action adv = ActionUpdate
        \<and> se_Kind svc = KindImage \<and> se_Mutable svc \<and> it_FixedDigests i \<noteq> [])"
  by (auto simp: updates_def target_hit_def matchImage_def Let_def split: option.splits if_splits)

lemma target_hit_image: "target_hit lower svc t = Some (conf, evidence, Some i) \<Longrightarrow> at_Image t = Some i"
  by (auto simp: target_hit_def Let_def split: option.splits if_splits)

lemma no_hit:
  "\<not> hits lower svc t \<Longrightarrow> \<not> confirms lower svc t \<and> \<not> updates lower adv svc t"
  by (simp add: hits_def confirms_def updates_hit)

text \<open>The finding made from the targets seen so far.\<close>

definition finding_of ::
  "(string \<Rightarrow> string) \<Rightarrow> Advisory \<Rightarrow> ServiceEvidence \<Rightarrow> AdvisoryTarget list \<Rightarrow> Finding option \<Rightarrow> bool" where
  "finding_of lower adv svc ts f \<longleftrightarrow>
     (case f of None \<Rightarrow> \<forall>t \<in> set ts. \<not> hits lower svc t
      | Some g \<Rightarrow> (\<exists>t \<in> set ts. hits lower svc t)
          \<and> fd_AdvisoryID g = av_ID adv \<and> fd_AdvisoryRevision g = av_Revision adv
          \<and> fd_Source g = av_Source adv \<and> fd_Severity g = av_Severity adv
          \<and> fd_Service g = se_Service svc \<and> fd_Aliases g = av_Aliases adv
          \<and> (fd_Confidence g = Confirmed \<longleftrightarrow> (\<exists>t \<in> set ts. confirms lower svc t))
          \<and> (fd_AutoEligible g \<longleftrightarrow> (\<exists>t \<in> set ts. updates lower adv svc t))
          \<and> (if fd_AutoEligible g
              then \<exists>t \<in> set ts. \<exists>i. updates lower adv svc t \<and> at_Image t = Some i \<and> fd_FixedDigests g = it_FixedDigests i
              else fd_FixedDigests g = []))"

lemma add_finding_fields:
  "add_finding adv svc conf evidence i f = Some g \<Longrightarrow>
     fd_AdvisoryID g = (case f of None \<Rightarrow> av_ID adv | Some h \<Rightarrow> fd_AdvisoryID h)
     \<and> fd_AdvisoryRevision g = (case f of None \<Rightarrow> av_Revision adv | Some h \<Rightarrow> fd_AdvisoryRevision h)
     \<and> fd_Source g = (case f of None \<Rightarrow> av_Source adv | Some h \<Rightarrow> fd_Source h)
     \<and> fd_Severity g = (case f of None \<Rightarrow> av_Severity adv | Some h \<Rightarrow> fd_Severity h)
     \<and> fd_Service g = (case f of None \<Rightarrow> se_Service svc | Some h \<Rightarrow> fd_Service h)
     \<and> fd_Aliases g = (case f of None \<Rightarrow> av_Aliases adv | Some h \<Rightarrow> fd_Aliases h)"
  by (auto simp: add_finding_def Let_def new_finding_def add_evidence_def split: option.splits)

lemma add_finding_confidence:
  "add_finding adv svc conf evidence i f = Some g \<Longrightarrow>
     fd_Confidence g = Confirmed \<longleftrightarrow> conf = Confirmed \<or> (\<exists>h. f = Some h \<and> fd_Confidence h = Confirmed)"
  by (auto simp: add_finding_def Let_def new_finding_def add_evidence_def split: option.splits if_splits)

lemma add_finding_auto:
  assumes "add_finding adv svc conf evidence i f = Some g"
  defines "auto \<equiv> conf = Confirmed \<and> av_Source adv = SourceHakopod \<and> av_Action adv = ActionUpdate
      \<and> se_Kind svc = KindImage \<and> se_Mutable svc \<and> (\<exists>t. i = Some t \<and> it_FixedDigests t \<noteq> [])"
  shows "fd_AutoEligible g \<longleftrightarrow> auto \<or> (\<exists>h. f = Some h \<and> fd_AutoEligible h)"
    and "fd_FixedDigests g =
      (if auto then it_FixedDigests (the i) else case f of None \<Rightarrow> [] | Some h \<Rightarrow> fd_FixedDigests h)"
  using assms(1) unfolding auto_def
  by (auto simp: add_finding_def Let_def new_finding_def add_evidence_def split: option.splits if_splits)

lemma finding_of_step:
  assumes f: "finding_of lower adv svc ts f"
  shows "finding_of lower adv svc (ts @ [t]) (match_target lower adv svc t f)"
proof (cases "target_hit lower svc t")
  case None
  then have no: "\<not> hits lower svc t" "\<not> confirms lower svc t" "\<not> updates lower adv svc t"
    by (simp_all add: hits_def confirms_def updates_hit)
  from None have "match_target lower adv svc t f = f" by (simp add: match_target_hit)
  with f no show ?thesis by (cases f) (auto simp: finding_of_def split: if_splits)
next
  case (Some h)
  obtain conf evidence i where h: "target_hit lower svc t = Some (conf, evidence, i)"
    using Some by (cases h) auto
  obtain g where g: "add_finding adv svc conf evidence i f = Some g"
    by (auto simp: add_finding_def Let_def)
  have hit: "hits lower svc t" "confirms lower svc t \<longleftrightarrow> conf = Confirmed"
    using h by (auto simp: hits_def confirms_def)
  have upd: "updates lower adv svc t \<longleftrightarrow> conf = Confirmed \<and> av_Source adv = SourceHakopod
      \<and> av_Action adv = ActionUpdate \<and> se_Kind svc = KindImage \<and> se_Mutable svc
      \<and> (\<exists>t. i = Some t \<and> it_FixedDigests t \<noteq> [])"
    using h by (auto simp: updates_hit)
  have img: "updates lower adv svc t \<Longrightarrow> at_Image t = Some (the i)"
    using h by (auto simp: updates_hit dest: target_hit_image)
  note fields = add_finding_fields [OF g] add_finding_confidence [OF g]
    add_finding_auto [OF g, folded upd]
  have "match_target lower adv svc t f = Some g" using h g by (simp add: match_target_hit)
  then show ?thesis
    using f hit img fields by (cases f) (auto simp: finding_of_def split: if_splits dest: no_hit [of lower svc _ adv])
qed

lemma finding_of_fold:
  "finding_of lower adv svc ts f \<Longrightarrow>
     finding_of lower adv svc (ts @ us) (fold (match_target lower adv svc) us f)"
proof (induction us arbitrary: ts f)
  case (Cons u us)
  from Cons.IH [OF finding_of_step [OF Cons.prems, of u]] show ?case by simp
qed simp

lemma match_one_finding_of: "finding_of lower adv svc (av_Targets adv) (match_one lower adv svc)"
proof -
  have "finding_of lower adv svc ([] @ av_Targets adv)
      (fold (match_target lower adv svc) (av_Targets adv) None)"
    by (rule finding_of_fold) (simp add: finding_of_def)
  then show ?thesis
    by (cases "fold (match_target lower adv svc) (av_Targets adv) None")
      (auto simp: match_one_def finding_of_def split: if_splits)
qed

lemma set_map_filter: "set (List.map_filter f xs) = {y. \<exists>x \<in> set xs. f x = Some y}"
  by (force simp: List.map_filter_def)

lemma set_Match:
  "f \<in> set (Match_all lower advisories inventory) \<longleftrightarrow>
     (\<exists>adv \<in> set advisories. \<exists>svc \<in> set (iv_Services inventory). match_one lower adv svc = Some f)"
  by (auto simp: Match_all_def set_map_filter)

section \<open>The merge\<close>

text \<open>Two findings are about one issue when they share the service and an identifier.\<close>

definition same_issue :: "(string \<Rightarrow> string) \<Rightarrow> Finding \<Rightarrow> Finding \<Rightarrow> bool" where
  "same_issue lower p f \<longleftrightarrow>
     fd_Service p = fd_Service f
     \<and> (\<exists>i \<in> set (finding_ids f). \<exists>j \<in> set (finding_ids p). lower i = lower j)"

lemma finding_key_eq:
  assumes "NUL \<notin> set (fd_Service p)" "NUL \<notin> set (fd_Service f)"
  shows "finding_key lower p i = finding_key lower f j \<longleftrightarrow> fd_Service p = fd_Service f \<and> lower i = lower j"
proof
  assume "finding_key lower p i = finding_key lower f j"
  then have eq: "fd_Service p @ NUL # lower i = fd_Service f @ NUL # lower j"
    by (simp add: finding_key_def)
  then have "takeWhile (\<lambda>c. c \<noteq> NUL) (fd_Service p @ NUL # lower i)
      = takeWhile (\<lambda>c. c \<noteq> NUL) (fd_Service f @ NUL # lower j)" by simp
  moreover have "takeWhile (\<lambda>c. c \<noteq> NUL) (fd_Service p @ NUL # lower i) = fd_Service p"
    using assms by (subst takeWhile_append2) auto
  moreover have "takeWhile (\<lambda>c. c \<noteq> NUL) (fd_Service f @ NUL # lower j) = fd_Service f"
    using assms by (subst takeWhile_append2) auto
  ultimately show "fd_Service p = fd_Service f \<and> lower i = lower j" using eq by simp
qed (simp add: finding_key_def)

lemma note_finding_get:
  "gm_get (note_finding lower f seen) key =
     (if key \<in> finding_key lower f ` set (finding_ids f) \<and> gm_get seen key \<noteq> Some Confirmed
      then Some (fd_Confidence f) else gm_get seen key)"
proof -
  have "gm_get (fold (\<lambda>i seen. let key = finding_key lower f i in
             if gm_get seen key \<noteq> Some Confirmed then gm_set key (fd_Confidence f) seen else seen) is seen) key =
     (if key \<in> finding_key lower f ` set is \<and> gm_get seen key \<noteq> Some Confirmed
      then Some (fd_Confidence f) else gm_get seen key)" for "is"
    by (induction "is" arbitrary: seen) (auto simp: Let_def)
  then show ?thesis by (simp add: note_finding_def)
qed

lemma seen_findings:
  "(gm_get (fold (note_finding lower) ps seen) key \<noteq> None \<longleftrightarrow>
      gm_get seen key \<noteq> None \<or> (\<exists>p \<in> set ps. key \<in> finding_key lower p ` set (finding_ids p)))
   \<and> (gm_get (fold (note_finding lower) ps seen) key = Some Confirmed \<longleftrightarrow>
      gm_get seen key = Some Confirmed
        \<or> (\<exists>p \<in> set ps. key \<in> finding_key lower p ` set (finding_ids p) \<and> fd_Confidence p = Confirmed))"
proof (induction ps arbitrary: seen)
  case (Cons p ps)
  from Cons.IH [of "note_finding lower p seen"] show ?case
    by (auto simp: note_finding_get)
qed simp

lemma bex_or: "(\<exists>p \<in> A. Q p \<and> c p) \<or> (\<exists>p \<in> A. Q p) \<and> d \<longleftrightarrow> (\<exists>p \<in> A. Q p \<and> (c p \<or> d))"
  by blast

lemma is_duplicate_iff:
  assumes "NUL \<notin> set (fd_Service f)" "\<forall>p \<in> set ps. NUL \<notin> set (fd_Service p)"
  shows "is_duplicate lower (fold (note_finding lower) ps []) f \<longleftrightarrow>
     (\<exists>p \<in> set ps. same_issue lower p f \<and> (fd_Confidence p = Confirmed \<or> fd_Confidence f \<noteq> Confirmed))"
proof -
  let ?seen = "fold (note_finding lower) ps []"
  have some: "gm_get ?seen (finding_key lower f i) \<noteq> None \<longleftrightarrow>
      (\<exists>p \<in> set ps. finding_key lower f i \<in> finding_key lower p ` set (finding_ids p))"
    and conf: "gm_get ?seen (finding_key lower f i) = Some Confirmed \<longleftrightarrow>
      (\<exists>p \<in> set ps. finding_key lower f i \<in> finding_key lower p ` set (finding_ids p) \<and> fd_Confidence p = Confirmed)"
    for i using seen_findings [of lower ps "[]" "finding_key lower f i"] by simp_all
  have key: "finding_key lower f i \<in> finding_key lower p ` set (finding_ids p) \<longleftrightarrow>
      fd_Service p = fd_Service f \<and> (\<exists>j \<in> set (finding_ids p). lower i = lower j)"
    if "p \<in> set ps" for p i
    using that assms finding_key_eq [of f p lower i] by (auto simp: image_iff)
  have some': "gm_get ?seen (finding_key lower f i) \<noteq> None \<longleftrightarrow>
      (\<exists>p \<in> set ps. fd_Service p = fd_Service f \<and> (\<exists>j \<in> set (finding_ids p). lower i = lower j))"
    and conf': "gm_get ?seen (finding_key lower f i) = Some Confirmed \<longleftrightarrow>
      (\<exists>p \<in> set ps. (fd_Service p = fd_Service f \<and> (\<exists>j \<in> set (finding_ids p). lower i = lower j))
         \<and> fd_Confidence p = Confirmed)"
    for i unfolding some conf using key by (simp_all cong: bex_cong)
  have "is_duplicate lower ?seen f \<longleftrightarrow> (\<exists>i \<in> set (finding_ids f).
      gm_get ?seen (finding_key lower f i) = Some Confirmed
      \<or> gm_get ?seen (finding_key lower f i) \<noteq> None \<and> fd_Confidence f \<noteq> Confirmed)"
    by (auto simp: is_duplicate_def list_ex_iff split: option.splits)
  also have "\<dots> \<longleftrightarrow> (\<exists>i \<in> set (finding_ids f). \<exists>p \<in> set ps.
      (fd_Service p = fd_Service f \<and> (\<exists>j \<in> set (finding_ids p). lower i = lower j))
      \<and> (fd_Confidence p = Confirmed \<or> fd_Confidence f \<noteq> Confirmed))"
    unfolding some' conf' bex_or ..
  also have "\<dots> \<longleftrightarrow> (\<exists>p \<in> set ps. same_issue lower p f \<and> (fd_Confidence p = Confirmed \<or> fd_Confidence f \<noteq> Confirmed))"
    unfolding same_issue_def by blast
  finally show ?thesis .
qed

end
