(* ===== verification/Dns_Provider.thy ===== *)
theory Dns_Provider
  imports Spec_Patterns Go_Text
begin

text \<open>
  DNS providers (internal/dnsprovider/model.go and cloudflare.go, and the writing of records in
  internal/api/dns_records.go). The provider is reached over HTTP: the state is the list of
  requests sent so far and the answer to the last of them is the value of a function of that
  list, the parameter \<open>reply\<close>, so every behaviour of the other side is covered. Decoding the
  answer is part of the reply; zone and record ids stand for their escaped form in the path.
  \<open>lower\<close> is \<open>strings.ToLower\<close>.
\<close>

section \<open>The stored provider\<close>

record DNSProvider =
  dp_ID :: string
  dp_Name :: string
  dp_Kind :: string
  dp_Project :: string
  dp_Environment :: string
  dp_ZoneFilter :: "string list"
  dp_Revision :: int
  dp_Enabled :: bool
  dp_CreatedAt :: int
  dp_UpdatedAt :: int
  dp_EncryptedCredentials :: "int list"

abbreviation KindCloudflare :: string where "KindCloudflare \<equiv> ''cloudflare''"

definition maxZoneFilter :: int where "maxZoneFilter = 32"

text \<open>\<open>ErrInput\<close> wraps a message; \<open>errors.Is\<close> looks for the wrapped error.\<close>

definition dns_input :: "string \<Rightarrow> error" where
  "dns_input message = Err (''invalid DNS provider: '' @ message)"

definition DNSUnavailable :: error where
  "DNSUnavailable = Err ''the DNS provider is unavailable; check provider access, permissions and configuration''"

definition DNSExists :: error where
  "DNSExists = Err ''a DNS record already exists at that name and type''"

fun is_dns_input :: "error \<Rightarrow> bool" where
  "is_dns_input (Err m) = HasPrefix m ''invalid DNS provider: ''"

definition control :: string where "control = [NUL, CR, LF]"

definition DNSProvider_Validate :: "'q externals \<Rightarrow> DNSProvider \<Rightarrow> unit result" where
  "DNSProvider_Validate ex p =
     in_field ''invalid DNS provider''
       (let name = TrimSpace (dp_Name p) in
        checks
          [(name \<noteq> dp_Name p \<or> name = [] \<or> 80 < len name \<or> ContainsAny name control, ''name''),
           (dp_Kind p \<noteq> KindCloudflare, ''kind''),
           ((dp_Project p = []) \<noteq> (dp_Environment p = []), ''scope''),
           (63 < len (dp_Project p) \<or> 63 < len (dp_Environment p), ''bounds''),
           (dp_Revision p < 0, ''revision''),
           (dp_ZoneFilter p = [] \<or> maxZoneFilter < len (dp_ZoneFilter p), ''zones''),
           (\<not> list_all (ValidHostname ex) (dp_ZoneFilter p) \<or> first_dup [] (dp_ZoneFilter p), ''zone'')])"

definition DNSProvider_Allows :: "DNSProvider \<Rightarrow> string \<Rightarrow> string \<Rightarrow> bool" where
  "DNSProvider_Allows p project environment =
     (if \<not> dp_Enabled p then False
      else dp_Project p = [] \<or> dp_Project p = project \<and> dp_Environment p = environment)"

definition validDNSName :: "'q externals \<Rightarrow> string \<Rightarrow> bool" where
  "validDNSName ex name =
     ValidHostname ex (Join (CHR ''.'') (map (\<lambda>l. TrimPrefix l ''_'') (Split (CHR ''.'') name)))"

definition in_zone :: "string \<Rightarrow> string \<Rightarrow> bool" where
  "in_zone host zone = (host = zone \<or> HasSuffix host (CHR ''.'' # zone))"

definition AllowsHostname :: "'q externals \<Rightarrow> DNSProvider \<Rightarrow> string \<Rightarrow> bool" where
  "AllowsHostname ex p host =
     (if \<not> validDNSName ex host then False else list_ex (in_zone host) (dp_ZoneFilter p))"

definition CredentialsTransferable :: "DNSProvider \<Rightarrow> DNSProvider \<Rightarrow> bool" where
  "CredentialsTransferable p successor =
     (dp_Name p = dp_Name successor \<and> dp_Kind p = dp_Kind successor \<and> dp_ZoneFilter p = dp_ZoneFilter successor)"

definition DNSToken_Validate :: "string \<Rightarrow> unit result" where
  "DNSToken_Validate token =
     (if token = [] \<or> 8192 < len token \<or> ContainsAny token control
      then Inl (dns_input ''provide a Cloudflare API token'') else Inr ())"

section \<open>Requests, answers and the state of a conversation\<close>

record DNSZone =
  dz_ID :: string
  dz_Name :: string

record DNSRecord =
  dr_Type :: string
  dr_Name :: string
  dr_Value :: string
  dr_TTL :: int
  dr_Proxied :: bool

record wireRecord =
  wr_ID :: string
  wr_Type :: string
  wr_Name :: string
  wr_Content :: string
  wr_TTL :: int
  wr_Proxied :: bool

datatype dns_request =
    GetZones string
  | GetRecords string string string
  | PostRecord string wireRecord
  | PutRecord string string wireRecord

datatype dns_payload = Zones "DNSZone list" | Wires "wireRecord list" | Undecodable

datatype dns_answer = NoAnswer | Answer int bool "int list" dns_payload

type_synonym dns_replies = "dns_request list \<Rightarrow> dns_answer"
type_synonym 'a dns_call = "dns_request list \<Rightarrow> 'a result \<times> dns_request list"

definition dns_return :: "'a result \<Rightarrow> 'a dns_call" where
  "dns_return r h = (r, h)"

definition dns_bind :: "'a dns_call \<Rightarrow> ('a \<Rightarrow> 'b dns_call) \<Rightarrow> 'b dns_call" where
  "dns_bind m f h = (case m h of (Inl e, h') \<Rightarrow> (Inl e, h') | (Inr x, h') \<Rightarrow> f x h')"

section \<open>The Cloudflare client\<close>

definition maxZoneLookups :: nat where "maxZoneLookups = 8"
definition maxRecordPage :: int where "maxRecordPage = 100"
definition maxValueBytes :: int where "maxValueBytes = 2048"
definition minTTL :: int where "minTTL = 60"
definition maxTTL :: int where "maxTTL = 86400"
definition autoTTL :: int where "autoTTL = 1"

definition dns_conflict :: "int list \<Rightarrow> bool" where
  "dns_conflict codes = list_ex (\<lambda>c. c = 81053 \<or> c = 81057 \<or> c = 81058) codes"

text \<open>\<open>transport.request\<close> and \<open>cloudflare.call\<close>: one request, its answer judged.\<close>

definition dns_call :: "dns_replies \<Rightarrow> dns_request \<Rightarrow> dns_payload dns_call" where
  "dns_call reply req h =
     (let h' = h @ [req] in
      (case reply h' of
         NoAnswer \<Rightarrow> Inl DNSUnavailable
       | Answer status success codes payload \<Rightarrow>
           if 500 \<le> status then Inl DNSUnavailable
           else if \<not> success then Inl (if dns_conflict codes then DNSExists else DNSUnavailable)
           else Inr payload, h'))"

definition call_zones :: "dns_replies \<Rightarrow> string \<Rightarrow> DNSZone list dns_call" where
  "call_zones reply name =
     dns_bind (dns_call reply (GetZones name))
       (\<lambda>payload. dns_return (case payload of Zones zs \<Rightarrow> Inr zs | _ \<Rightarrow> Inl DNSUnavailable))"

definition call_records :: "dns_replies \<Rightarrow> string \<Rightarrow> string \<Rightarrow> string \<Rightarrow> wireRecord list dns_call" where
  "call_records reply zone name kind =
     dns_bind (dns_call reply (GetRecords zone name kind))
       (\<lambda>payload. dns_return (case payload of Wires ws \<Rightarrow> Inr ws | _ \<Rightarrow> Inl DNSUnavailable))"

definition call_write :: "dns_replies \<Rightarrow> dns_request \<Rightarrow> unit dns_call" where
  "call_write reply req = dns_bind (dns_call reply req) (\<lambda>_. dns_return (Inr ()))"

text \<open>The suffixes of two labels or more, longest first, at most \<open>n\<close>.\<close>

fun zone_suffixes :: "nat \<Rightarrow> string list \<Rightarrow> string list" where
  "zone_suffixes (Suc n) (l # m # ls) = Join (CHR ''.'') (l # m # ls) # zone_suffixes n (m # ls)"
| "zone_suffixes _ _ = []"

definition zoneCandidates :: "string \<Rightarrow> string list" where
  "zoneCandidates hostname = zone_suffixes maxZoneLookups (Split (CHR ''.'') hostname)"

fun find_zone :: "dns_replies \<Rightarrow> string list \<Rightarrow> DNSZone dns_call" where
  "find_zone reply [] = dns_return (Inl (dns_input ''no DNS zone at this provider matches this hostname''))"
| "find_zone reply (name # names) =
     dns_bind (call_zones reply name)
       (\<lambda>zones.
          let found = filter (\<lambda>z. dz_ID z \<noteq> [] \<and> dz_Name z = name) zones in
          if 1 < length found
          then dns_return (Inl (dns_input ''more than one DNS zone matches this hostname equally well''))
          else if length found = 1 then dns_return (Inr (hd found))
          else find_zone reply names)"

definition cloudflare_Zone :: "'q externals \<Rightarrow> dns_replies \<Rightarrow> DNSProvider \<Rightarrow> string \<Rightarrow> DNSZone dns_call" where
  "cloudflare_Zone ex reply p hostname =
     (if \<not> AllowsHostname ex p hostname
      then dns_return (Inl (dns_input ''the hostname is outside this provider's permitted zones''))
      else find_zone reply (zoneCandidates hostname))"

definition validZone :: "'q externals \<Rightarrow> DNSZone \<Rightarrow> bool" where
  "validZone ex z \<longleftrightarrow>
     dz_ID z \<noteq> [] \<and> len (dz_ID z) \<le> 64 \<and> \<not> ContainsAny (dz_ID z) (control @ ''/?#'') \<and> validDNSName ex (dz_Name z)"

definition validKind :: "string \<Rightarrow> bool" where
  "validKind kind \<longleftrightarrow> kind = ''TXT'' \<or> kind = ''CNAME''"

definition DNSRecord_validate :: "'q externals \<Rightarrow> DNSRecord \<Rightarrow> unit result" where
  "DNSRecord_validate ex r =
     in_field ''invalid DNS provider''
       (checks
          [(\<not> validKind (dr_Type r), ''only TXT and CNAME records are supported''),
           (\<not> validDNSName ex (dr_Name r), ''the record name must be a lowercase DNS name''),
           (dr_Value r = [] \<or> maxValueBytes < len (dr_Value r) \<or> ContainsAny (dr_Value r) control,
            ''the record value exceeds bounds or contains control characters''),
           (dr_TTL r \<noteq> autoTTL \<and> (dr_TTL r < minTTL \<or> maxTTL < dr_TTL r),
            ''the record TTL is outside the supported range''),
           (dr_Proxied r, ''proxied records are not supported'')])"

definition cloudflare_list ::
  "'q externals \<Rightarrow> dns_replies \<Rightarrow> DNSProvider \<Rightarrow> DNSZone \<Rightarrow> string \<Rightarrow> string \<Rightarrow> wireRecord list dns_call" where
  "cloudflare_list ex reply p z name kind =
     (if \<not> validZone ex z \<or> \<not> validKind kind \<or> \<not> validDNSName ex name
      then dns_return (Inl (dns_input ''read records by zone, lowercase name and record type''))
      else if \<not> AllowsHostname ex p name \<or> \<not> AllowsHostname ex p (dz_Name z)
      then dns_return (Inl (dns_input ''the hostname is outside this provider's permitted zones''))
      else dns_bind (call_records reply (dz_ID z) name kind)
        (\<lambda>records. dns_return (if maxRecordPage < len records then Inl DNSUnavailable else Inr records)))"

definition record_of_wire :: "wireRecord \<Rightarrow> DNSRecord" where
  "record_of_wire w =
     \<lparr>dr_Type = wr_Type w, dr_Name = wr_Name w, dr_Value = wr_Content w, dr_TTL = wr_TTL w, dr_Proxied = wr_Proxied w\<rparr>"

definition wire_of_record :: "DNSRecord \<Rightarrow> wireRecord" where
  "wire_of_record r =
     \<lparr>wr_ID = [], wr_Type = dr_Type r, wr_Name = dr_Name r, wr_Content = dr_Value r, wr_TTL = dr_TTL r, wr_Proxied = False\<rparr>"

definition cloudflare_Records ::
  "'q externals \<Rightarrow> dns_replies \<Rightarrow> DNSProvider \<Rightarrow> DNSZone \<Rightarrow> string \<Rightarrow> string \<Rightarrow> DNSRecord list dns_call" where
  "cloudflare_Records ex reply p z name kind =
     dns_bind (cloudflare_list ex reply p z name kind)
       (\<lambda>records. dns_return (Inr (map record_of_wire records)))"

definition cloudflare_Create :: "'q externals \<Rightarrow> dns_replies \<Rightarrow> DNSProvider \<Rightarrow> DNSZone \<Rightarrow> DNSRecord \<Rightarrow> unit dns_call" where
  "cloudflare_Create ex reply p z r =
     dns_bind (dns_return (DNSRecord_validate ex r))
       (\<lambda>_. dns_bind (cloudflare_list ex reply p z (dr_Name r) (dr_Type r))
          (\<lambda>existing.
             if existing \<noteq> [] then dns_return (Inl DNSExists)
             else call_write reply (PostRecord (dz_ID z) (wire_of_record r))))"

definition cloudflare_Replace ::
  "'q externals \<Rightarrow> dns_replies \<Rightarrow> DNSProvider \<Rightarrow> DNSZone \<Rightarrow> DNSRecord \<Rightarrow> DNSRecord \<Rightarrow> unit dns_call" where
  "cloudflare_Replace ex reply p z existing r =
     dns_bind (dns_return (DNSRecord_validate ex existing))
       (\<lambda>_. dns_bind (dns_return (DNSRecord_validate ex r))
         (\<lambda>_. if dr_Name existing \<noteq> dr_Name r \<or> dr_Type existing \<noteq> dr_Type r
              then dns_return (Inl (dns_input ''a replacement keeps the same record name and type''))
              else dns_bind (cloudflare_list ex reply p z (dr_Name r) (dr_Type r))
                (\<lambda>records.
                   case find (\<lambda>w. wr_Content w = dr_Value existing \<and> wr_ID w \<noteq> []) records of
                     Some w \<Rightarrow> call_write reply (PutRecord (dz_ID z) (wr_ID w) (wire_of_record r))
                   | None \<Rightarrow> dns_return (Inl (dns_input ''the record being replaced is no longer present; read it again'')))))"

text \<open>The interface \<open>Client\<close> and its one implementation.\<close>

record dns_client =
  cl_Zone :: "string \<Rightarrow> DNSZone dns_call"
  cl_Records :: "DNSZone \<Rightarrow> string \<Rightarrow> string \<Rightarrow> DNSRecord list dns_call"
  cl_Create :: "DNSZone \<Rightarrow> DNSRecord \<Rightarrow> unit dns_call"
  cl_Replace :: "DNSZone \<Rightarrow> DNSRecord \<Rightarrow> DNSRecord \<Rightarrow> unit dns_call"

definition cloudflare :: "'q externals \<Rightarrow> dns_replies \<Rightarrow> DNSProvider \<Rightarrow> dns_client" where
  "cloudflare ex reply p =
     \<lparr>cl_Zone = cloudflare_Zone ex reply p, cl_Records = cloudflare_Records ex reply p,
      cl_Create = cloudflare_Create ex reply p, cl_Replace = cloudflare_Replace ex reply p\<rparr>"

definition NewCloudflare :: "'q externals \<Rightarrow> dns_replies \<Rightarrow> DNSProvider \<Rightarrow> string \<Rightarrow> dns_client result" where
  "NewCloudflare ex reply p token =
     andE (DNSProvider_Validate ex p)
       (if dp_Kind p \<noteq> KindCloudflare \<or> \<not> dp_Enabled p then Inl (dns_input ''the provider is disabled'')
        else andE (DNSToken_Validate token) (Inr (cloudflare ex reply p)))"

section \<open>Writing the records of an application's domains\<close>

definition dnsRecordTTL :: int where "dnsRecordTTL = 60"

abbreviation dnsRecordCreated :: string where "dnsRecordCreated \<equiv> ''created''"
abbreviation dnsRecordExists :: string where "dnsRecordExists \<equiv> ''exists''"
abbreviation dnsRecordConflict :: string where "dnsRecordConflict \<equiv> ''conflict''"
abbreviation dnsRecordFailed :: string where "dnsRecordFailed \<equiv> ''failed''"
abbreviation dnsRecordSkipped :: string where "dnsRecordSkipped \<equiv> ''skipped''"

definition dnsRecordRank :: "string \<Rightarrow> nat" where
  "dnsRecordRank s =
     (if s = dnsRecordSkipped then 0 else if s = dnsRecordExists then 1 else if s = dnsRecordCreated then 2
      else if s = dnsRecordConflict then 3 else if s = dnsRecordFailed then 4 else 0)"

record dnsRecordResult =
  rr_Hostname :: string
  rr_Status :: string
  rr_Message :: string
  rr_Records :: "(string \<times> string \<times> string) list"

text \<open>The records of one domain: the ownership record and, with a target, the routing record.\<close>

definition desiredDNSRecords :: "string \<Rightarrow> string \<Rightarrow> string \<Rightarrow> DNSRecord list" where
  "desiredDNSRecords hostname token target =
     \<lparr>dr_Type = ''TXT'', dr_Name = ''_hakopod.'' @ hostname, dr_Value = token, dr_TTL = dnsRecordTTL, dr_Proxied = False\<rparr>
     # (if target \<noteq> [] then
          [\<lparr>dr_Type = ''CNAME'', dr_Name = hostname, dr_Value = target, dr_TTL = dnsRecordTTL, dr_Proxied = False\<rparr>]
        else [])"

definition dnsRecordViews :: "DNSRecord list \<Rightarrow> (string \<times> string \<times> string) list" where
  "dnsRecordViews records = map (\<lambda>r. (dr_Type r, dr_Name r, dr_Value r)) records"

definition dnsRecordMessages :: "string \<Rightarrow> string" where
  "dnsRecordMessages s =
     (if s = dnsRecordCreated then ''The records were created at the provider.''
      else if s = dnsRecordExists then ''The records were already present at the provider, unchanged.''
      else if s = dnsRecordConflict then ''A different record already occupies this name.'' else [])"

definition dnsFailureMessage :: "error \<Rightarrow> string" where
  "dnsFailureMessage e =
     (if is_dns_input e then ''This provider has no zone that can hold this hostname, or the hostname is outside the provider's permitted zones.''
      else ''The DNS provider did not accept this change.'')"

type_synonym dns_outcome = "string \<times> string"

definition dns_failed :: "error \<Rightarrow> dns_outcome" where
  "dns_failed e = (dnsRecordFailed, dnsFailureMessage e)"

definition dns_done :: "string \<Rightarrow> dns_outcome" where
  "dns_done status = (status, dnsRecordMessages status)"

definition applyDNSRecord ::
  "dns_client \<Rightarrow> DNSZone \<Rightarrow> DNSRecord \<Rightarrow> bool \<Rightarrow> dns_request list \<Rightarrow> dns_outcome \<times> dns_request list" where
  "applyDNSRecord client zone r replace h =
     (case cl_Records client zone (dr_Name r) (dr_Type r) h of
        (Inl e, h1) \<Rightarrow> (dns_failed e, h1)
      | (Inr existing, h1) \<Rightarrow>
          if list_ex (\<lambda>item. dr_Value item = dr_Value r) existing then (dns_done dnsRecordExists, h1)
          else if existing \<noteq> [] then
            (if \<not> replace then (dns_done dnsRecordConflict, h1)
             else (case cl_Replace client zone (hd existing) r h1 of
                     (Inl e, h2) \<Rightarrow> (dns_failed e, h2)
                   | (Inr _, h2) \<Rightarrow> (dns_done dnsRecordCreated, h2)))
          else (case cl_Create client zone r h1 of
                  (Inl e, h2) \<Rightarrow> (if e = DNSExists then dns_done dnsRecordExists else dns_failed e, h2)
                | (Inr _, h2) \<Rightarrow> (dns_done dnsRecordCreated, h2)))"

fun apply_records ::
  "dns_client \<Rightarrow> DNSZone \<Rightarrow> bool \<Rightarrow> DNSRecord list \<Rightarrow> dns_outcome \<Rightarrow> dns_request list \<Rightarrow> dns_outcome \<times> dns_request list" where
  "apply_records client zone replace [] worst h = (worst, h)"
| "apply_records client zone replace (r # rs) worst h =
     (case applyDNSRecord client zone r replace h of
        (outcome, h1) \<Rightarrow>
          apply_records client zone replace rs
            (if dnsRecordRank (fst worst) < dnsRecordRank (fst outcome) then outcome else worst) h1)"

definition createDNSRecordSet ::
  "dns_client \<Rightarrow> string \<Rightarrow> DNSRecord list \<Rightarrow> bool \<Rightarrow> dns_request list \<Rightarrow> dns_outcome \<times> dns_request list" where
  "createDNSRecordSet client hostname records replace h =
     (case cl_Zone client hostname h of
        (Inl e, h1) \<Rightarrow> (dns_failed e, h1)
      | (Inr zone, h1) \<Rightarrow> apply_records client zone replace records (dns_done dnsRecordExists) h1)"

text \<open>\<open>expired\<close> is \<open>ctx.Err() != nil\<close> after the requests sent so far.\<close>

definition one_hostname ::
  "(string \<Rightarrow> string) \<Rightarrow> (dns_request list \<Rightarrow> bool) \<Rightarrow> dns_client \<Rightarrow> DNSRecord list gomap \<Rightarrow> bool \<Rightarrow> string
     \<Rightarrow> dns_request list \<Rightarrow> dnsRecordResult \<times> dns_request list" where
  "one_hostname lower expired client desired replace raw h =
     (let hostname = lower (TrimSpace raw) in
      case gm_get desired hostname of
        None \<Rightarrow>
          (\<lparr>rr_Hostname = hostname, rr_Status = dnsRecordSkipped,
            rr_Message = ''This hostname is not awaiting or holding verification for this application.'', rr_Records = []\<rparr>, h)
      | Some records \<Rightarrow>
          if expired h then
            (\<lparr>rr_Hostname = hostname, rr_Status = dnsRecordSkipped,
              rr_Message = ''The request ran out of time before this hostname.'', rr_Records = dnsRecordViews records\<rparr>, h)
          else
            (case createDNSRecordSet client hostname records replace h of
               ((status, message), h1) \<Rightarrow>
                 (\<lparr>rr_Hostname = hostname, rr_Status = status, rr_Message = message, rr_Records = dnsRecordViews records\<rparr>, h1)))"

fun each_hostname ::
  "(string \<Rightarrow> string) \<Rightarrow> (dns_request list \<Rightarrow> bool) \<Rightarrow> dns_client \<Rightarrow> DNSRecord list gomap \<Rightarrow> bool \<Rightarrow> string list
     \<Rightarrow> dns_request list \<Rightarrow> dnsRecordResult list \<times> dns_request list" where
  "each_hostname lower expired client desired replace [] h = ([], h)"
| "each_hostname lower expired client desired replace (raw # raws) h =
     (case one_hostname lower expired client desired replace raw h of
        (r, h1) \<Rightarrow> (case each_hostname lower expired client desired replace raws h1 of (rs, h2) \<Rightarrow> (r # rs, h2)))"

definition createDNSRecords ::
  "(string \<Rightarrow> string) \<Rightarrow> (dns_request list \<Rightarrow> bool) \<Rightarrow> dns_client \<Rightarrow> DNSProvider \<Rightarrow> string \<Rightarrow> string
     \<Rightarrow> DNSRecord list gomap \<Rightarrow> string list \<Rightarrow> bool \<Rightarrow> dnsRecordResult list dns_call" where
  "createDNSRecords lower expired client p project environment desired hostnames replace h =
     (if \<not> DNSProvider_Allows p project environment then (Inl (Err ''forbidden''), h)
      else (case each_hostname lower expired client desired replace hostnames h of (rs, h1) \<Rightarrow> (Inr rs, h1)))"

end
