(* ===== verification/Dns_Facts.thy ===== *)
theory Dns_Facts
  imports Dns_Provider
begin

text \<open>
  What is sent to a DNS provider. A condition on requests is checked against the history at the
  moment each request is sent. The locale \<open>record_writer\<close> is the contract of the interface
  \<open>Client\<close> on which the writing of records rests; the Cloudflare client is its interpretation.
\<close>

section \<open>Conditions on the requests of a conversation\<close>

fun sends :: "(dns_request list \<Rightarrow> dns_request \<Rightarrow> bool) \<Rightarrow> dns_request list \<Rightarrow> dns_request list \<Rightarrow> bool" where
  "sends P h [] = True"
| "sends P h (q # qs) = (P h q \<and> sends P (h @ [q]) qs)"

lemma sends_append: "sends P h (qs @ rs) \<longleftrightarrow> sends P h qs \<and> sends P (h @ qs) rs"
  by (induction P h qs rule: sends.induct) auto

lemma sends_mono: "sends P h qs \<Longrightarrow> (\<And>h q. P h q \<Longrightarrow> Q h q) \<Longrightarrow> sends Q h qs"
  by (induction P h qs rule: sends.induct) auto

text \<open>A call leaves the history as it was, followed by requests that all meet the condition.\<close>

definition keeps :: "(dns_request list \<Rightarrow> dns_request \<Rightarrow> bool) \<Rightarrow> dns_request list \<Rightarrow> dns_request list \<Rightarrow> bool" where
  "keeps P h h' \<longleftrightarrow> (\<exists>qs. h' = h @ qs \<and> sends P h qs)"

lemma keeps_refl [simp, intro]: "keeps P h h"
  by (simp add: keeps_def)

lemma keeps_trans: "keeps P h h' \<Longrightarrow> keeps P h' h'' \<Longrightarrow> keeps P h h''"
  by (auto simp: keeps_def sends_append)

lemma keeps_mono: "keeps P h h' \<Longrightarrow> (\<And>h q. P h q \<Longrightarrow> Q h q) \<Longrightarrow> keeps Q h h'"
  unfolding keeps_def using sends_mono by blast

lemma keeps_one: "P h q \<Longrightarrow> keeps P h (h @ [q])"
  by (auto simp: keeps_def)

lemma keeps_bind:
  assumes "dns_bind m f h = (r, h')"
    and "\<And>x k. m h = (x, k) \<Longrightarrow> keeps P h k"
    and "\<And>x k s k'. m h = (Inr x, k) \<Longrightarrow> f x k = (s, k') \<Longrightarrow> keeps P k k'"
  shows "keeps P h h'"
  using assms by (auto simp: dns_bind_def split: prod.splits sum.splits intro: keeps_trans)

lemma dns_return_eq [simp]: "dns_return r h = (s, h') \<longleftrightarrow> s = r \<and> h' = h"
  by (auto simp: dns_return_def)

lemma dns_bind_return [simp]:
  "dns_bind (dns_return (Inr x)) f = f x" "dns_bind (dns_return (Inl e)) f = dns_return (Inl e)"
  by (auto simp: dns_bind_def dns_return_def)

lemma dns_call_keeps: "dns_call reply q h = (r, h') \<Longrightarrow> P h q \<Longrightarrow> keeps P h h'"
  by (auto simp: dns_call_def Let_def intro: keeps_one)

section \<open>The contract of a client\<close>

text \<open>Requests of a reader that may also create the records \<open>rs\<close> or, with \<open>replace\<close>, put them.\<close>

definition writes ::
  "(dns_request list \<Rightarrow> dns_request \<Rightarrow> bool) \<Rightarrow> (DNSRecord \<Rightarrow> dns_request list \<Rightarrow> dns_request \<Rightarrow> bool)
     \<Rightarrow> (DNSRecord \<Rightarrow> dns_request list \<Rightarrow> dns_request \<Rightarrow> bool) \<Rightarrow> bool \<Rightarrow> DNSRecord set
     \<Rightarrow> dns_request list \<Rightarrow> dns_request \<Rightarrow> bool" where
  "writes reading posting putting replace rs h q \<longleftrightarrow>
     reading h q \<or> (\<exists>r \<in> rs. posting r h q \<or> replace \<and> putting r h q)"

definition wanted :: "DNSRecord list gomap \<Rightarrow> DNSRecord set" where
  "wanted desired = {r. \<exists>host rs. gm_get desired host = Some rs \<and> r \<in> set rs}"

text \<open>
  \<open>reading\<close> holds of requests that change nothing, \<open>posting r\<close> and \<open>putting r\<close> of those that
  create the record \<open>r\<close> or replace another by it.
\<close>

locale record_writer =
  fixes client :: dns_client
    and reading :: "dns_request list \<Rightarrow> dns_request \<Rightarrow> bool"
    and posting :: "DNSRecord \<Rightarrow> dns_request list \<Rightarrow> dns_request \<Rightarrow> bool"
    and putting :: "DNSRecord \<Rightarrow> dns_request list \<Rightarrow> dns_request \<Rightarrow> bool"
  assumes zone_reads: "cl_Zone client n h = (x, h') \<Longrightarrow> keeps reading h h'"
    and records_read: "cl_Records client z n k h = (y, h') \<Longrightarrow> keeps reading h h'"
    and create_posts: "cl_Create client z r h = (u, h') \<Longrightarrow> keeps (\<lambda>h q. reading h q \<or> posting r h q) h h'"
    and replace_puts: "cl_Replace client z old r h = (u, h') \<Longrightarrow> keeps (\<lambda>h q. reading h q \<or> putting r h q) h h'"
begin

lemma apply_writes:
  assumes "applyDNSRecord client zone r replace h = (out, h')"
  shows "keeps (writes reading posting putting replace {r}) h h'"
proof -
  obtain y h1 where y: "cl_Records client zone (dr_Name r) (dr_Type r) h = (y, h1)" by (rule prod.exhaust)
  have first: "keeps (writes reading posting putting replace {r}) h h1"
    using records_read [OF y] by (rule keeps_mono) (simp add: writes_def)
  have post: "keeps (writes reading posting putting replace {r}) k k'" if "cl_Create client zone r k = (u, k')" for u k k'
    using create_posts [OF that] by (rule keeps_mono) (auto simp: writes_def)
  have put: "keeps (writes reading posting putting replace {r}) k k'"
    if "cl_Replace client zone old r k = (u, k')" "replace" for u old k k'
    using replace_puts [OF that(1)] by (rule keeps_mono) (use that(2) in \<open>auto simp: writes_def\<close>)
  show ?thesis
    using assms first post put unfolding applyDNSRecord_def y
    by (auto split: sum.splits prod.splits if_splits intro: keeps_trans)
qed

lemma apply_all_writes:
  "apply_records client zone replace rs worst h = (out, h') \<Longrightarrow> keeps (writes reading posting putting replace (set rs)) h h'"
proof (induction rs arbitrary: worst h)
  case (Cons r rs)
  obtain o1 h1 where o1: "applyDNSRecord client zone r replace h = (o1, h1)" by (rule prod.exhaust)
  have "keeps (writes reading posting putting replace (set (r # rs))) h h1"
    using apply_writes [OF o1] by (rule keeps_mono) (auto simp: writes_def)
  moreover have "keeps (writes reading posting putting replace (set (r # rs))) h1 h'"
  proof (rule keeps_mono)
    show "keeps (writes reading posting putting replace (set rs)) h1 h'" using Cons.IH Cons.prems o1 by simp
  qed (auto simp: writes_def)
  ultimately show ?case by (rule keeps_trans)
qed simp

lemma set_writes:
  assumes "createDNSRecordSet client hostname rs replace h = (out, h')"
  shows "keeps (writes reading posting putting replace (set rs)) h h'"
proof -
  obtain x h1 where x: "cl_Zone client hostname h = (x, h1)" by (rule prod.exhaust)
  have "keeps (writes reading posting putting replace (set rs)) h h1"
    using zone_reads [OF x] by (rule keeps_mono) (simp add: writes_def)
  with assms x show ?thesis
    by (auto simp: createDNSRecordSet_def split: sum.splits intro: keeps_trans apply_all_writes)
qed

lemma hostname_writes:
  assumes "one_hostname lower expired client desired replace raw h = (out, h')"
  shows "keeps (writes reading posting putting replace (wanted desired)) h h'"
proof (cases "gm_get desired (lower (TrimSpace raw))")
  case None
  with assms show ?thesis by (simp add: one_hostname_def)
next
  case (Some rs)
  obtain o1 m1 h1 where o1: "createDNSRecordSet client (lower (TrimSpace raw)) rs replace h = ((o1, m1), h1)"
    by (metis prod.exhaust)
  have "keeps (writes reading posting putting replace (wanted desired)) h h1"
    using set_writes [OF o1] by (rule keeps_mono) (use Some in \<open>auto simp: writes_def wanted_def\<close>)
  with assms Some o1 show ?thesis by (auto simp: one_hostname_def Let_def split: if_splits)
qed

lemma each_writes:
  "each_hostname lower expired client desired replace raws h = (out, h') \<Longrightarrow>
     keeps (writes reading posting putting replace (wanted desired)) h h'"
proof (induction raws arbitrary: h out h')
  case (Cons raw raws)
  obtain o1 h1 where o1: "one_hostname lower expired client desired replace raw h = (o1, h1)"
    by (rule prod.exhaust)
  obtain o2 h2 where o2: "each_hostname lower expired client desired replace raws h1 = (o2, h2)"
    by (rule prod.exhaust)
  show ?case
    using hostname_writes [OF o1] Cons.IH [OF o2] Cons.prems o1 o2 by (auto intro: keeps_trans)
qed simp

lemma create_writes:
  assumes "createDNSRecords lower expired client p project environment desired hostnames replace h = (res, h')"
  shows "keeps (\<lambda>k q. DNSProvider_Allows p project environment \<and> writes reading posting putting replace (wanted desired) k q) h h'"
proof (cases "DNSProvider_Allows p project environment")
  case True
  obtain o1 h1 where o1: "each_hostname lower expired client desired replace hostnames h = (o1, h1)"
    by (rule prod.exhaust)
  from each_writes [OF o1] assms True o1 show ?thesis
    by (auto simp: createDNSRecords_def)
next
  case False
  with assms show ?thesis by (simp add: createDNSRecords_def)
qed

end

section \<open>The Cloudflare client\<close>

fun dns_read :: "dns_request list \<Rightarrow> dns_request \<Rightarrow> bool" where
  "dns_read h (GetZones name) = True"
| "dns_read h (GetRecords zone name kind) = True"
| "dns_read h (PostRecord zone w) = False"
| "dns_read h (PutRecord zone i w) = False"

text \<open>The records that the provider answered to the last request of a history.\<close>

definition answered :: "dns_replies \<Rightarrow> dns_request list \<Rightarrow> wireRecord list \<Rightarrow> bool" where
  "answered reply h ws \<longleftrightarrow> (\<exists>status codes. reply h = Answer status True codes (Wires ws) \<and> status < 500)"

definition just_read :: "dns_replies \<Rightarrow> string \<Rightarrow> DNSRecord \<Rightarrow> dns_request list \<Rightarrow> wireRecord list \<Rightarrow> bool" where
  "just_read reply zone r h ws \<longleftrightarrow>
     h \<noteq> [] \<and> last h = GetRecords zone (dr_Name r) (dr_Type r) \<and> answered reply h ws"

definition grantable :: "'q externals \<Rightarrow> DNSProvider \<Rightarrow> DNSRecord \<Rightarrow> bool" where
  "grantable ex p r \<longleftrightarrow> AllowsHostname ex p (dr_Name r) \<and> validKind (dr_Type r) \<and> \<not> dr_Proxied r"

definition posts :: "'q externals \<Rightarrow> dns_replies \<Rightarrow> DNSProvider \<Rightarrow> DNSRecord \<Rightarrow> dns_request list \<Rightarrow> dns_request \<Rightarrow> bool" where
  "posts ex reply p r h q \<longleftrightarrow>
     (\<exists>zone. q = PostRecord zone (wire_of_record r) \<and> grantable ex p r \<and> just_read reply zone r h [])"

definition puts :: "'q externals \<Rightarrow> dns_replies \<Rightarrow> DNSProvider \<Rightarrow> DNSRecord \<Rightarrow> dns_request list \<Rightarrow> dns_request \<Rightarrow> bool" where
  "puts ex reply p r h q \<longleftrightarrow>
     (\<exists>zone i ws. q = PutRecord zone i (wire_of_record r) \<and> grantable ex p r \<and> just_read reply zone r h ws
        \<and> i \<noteq> [] \<and> i \<in> wr_ID ` set ws)"

lemma find_zone_reads: "find_zone reply names h = (x, h') \<Longrightarrow> keeps dns_read h h'"
proof (induction names arbitrary: h x h')
  case (Cons name names)
  have call: "call_zones reply name h = (y, k) \<Longrightarrow> keeps dns_read h k" for y k
    unfolding call_zones_def by (erule keeps_bind) (auto elim: dns_call_keeps)
  show ?case
    using Cons.prems unfolding find_zone.simps
    by (rule keeps_bind) (auto simp: Let_def split: if_splits intro: call Cons.IH)
qed simp

lemma zone_call_reads: "cloudflare_Zone ex reply p n h = (x, h') \<Longrightarrow> keeps dns_read h h'"
  by (auto simp: cloudflare_Zone_def split: if_splits intro: find_zone_reads)

text \<open>A list that succeeds has sent one request, the last of the history, inside the zone filter.\<close>

lemma dns_call_ok:
  "dns_call reply q h = (Inr payload, h') \<longleftrightarrow>
     h' = h @ [q] \<and> (\<exists>status codes. reply h' = Answer status True codes payload \<and> status < 500)"
  by (auto simp: dns_call_def Let_def split: dns_answer.splits if_splits)

lemma call_records_ok:
  "call_records reply zone name kind h = (Inr ws, h') \<Longrightarrow>
     h' = h @ [GetRecords zone name kind] \<and> answered reply h' ws"
  unfolding call_records_def dns_bind_def
  by (auto simp: answered_def dns_call_ok split: prod.splits sum.splits dns_payload.splits)

lemma call_records_reads: "call_records reply zone name kind h = (y, h') \<Longrightarrow> keeps dns_read h h'"
  unfolding call_records_def by (erule keeps_bind) (auto elim: dns_call_keeps)

lemma list_reads: "cloudflare_list ex reply p z name kind h = (y, h') \<Longrightarrow> keeps dns_read h h'"
  unfolding cloudflare_list_def
  by (auto split: if_splits elim!: keeps_bind intro: call_records_reads)

lemma list_ok:
  assumes "cloudflare_list ex reply p z name kind h = (Inr ws, h')"
  shows "h' = h @ [GetRecords (dz_ID z) name kind] \<and> answered reply h' ws
    \<and> AllowsHostname ex p name \<and> AllowsHostname ex p (dz_Name z) \<and> validKind kind"
  using assms unfolding cloudflare_list_def dns_bind_def
  by (auto split: if_splits prod.splits sum.splits dest: call_records_ok)

lemma Records_reads: "cloudflare_Records ex reply p z name kind h = (y, h') \<Longrightarrow> keeps dns_read h h'"
  unfolding cloudflare_Records_def by (erule keeps_bind) (auto intro: list_reads)

lemma record_valid:
  "DNSRecord_validate ex r = Inr () \<Longrightarrow> validKind (dr_Type r) \<and> \<not> dr_Proxied r"
  by (simp add: DNSRecord_validate_def result_iff)

lemma call_write_keeps: "call_write reply q h = (u, h') \<Longrightarrow> P h q \<Longrightarrow> keeps P h h'"
  unfolding call_write_def by (erule keeps_bind) (auto elim: dns_call_keeps)

lemma just_read_list:
  "cloudflare_list ex reply p z (dr_Name r) (dr_Type r) h = (Inr ws, h') \<Longrightarrow> just_read reply (dz_ID z) r h' ws"
  by (drule list_ok) (auto simp: just_read_def)

lemma Create_posts:
  assumes "cloudflare_Create ex reply p z r h = (u, h')"
  shows "keeps (\<lambda>h q. dns_read h q \<or> posts ex reply p r h q) h h'"
proof (cases "DNSRecord_validate ex r")
  case (Inl e)
  with assms show ?thesis by (simp add: cloudflare_Create_def)
next
  case (Inr x)
  with assms have "dns_bind (cloudflare_list ex reply p z (dr_Name r) (dr_Type r))
          (\<lambda>existing. if existing \<noteq> [] then dns_return (Inl DNSExists)
             else call_write reply (PostRecord (dz_ID z) (wire_of_record r))) h = (u, h')"
    by (simp add: cloudflare_Create_def)
  then show ?thesis
  proof (rule keeps_bind)
    fix y k
    assume "cloudflare_list ex reply p z (dr_Name r) (dr_Type r) h = (y, k)"
    from list_reads [OF this] show "keeps (\<lambda>h q. dns_read h q \<or> posts ex reply p r h q) h k"
      by (rule keeps_mono) simp
  next
    fix ws k s k'
    assume l: "cloudflare_list ex reply p z (dr_Name r) (dr_Type r) h = (Inr ws, k)"
      and w: "(if ws \<noteq> [] then dns_return (Inl DNSExists)
          else call_write reply (PostRecord (dz_ID z) (wire_of_record r))) k = (s, k')"
    have "posts ex reply p r k (PostRecord (dz_ID z) (wire_of_record r))" if "ws = []"
      using that list_ok [OF l] just_read_list [OF l] record_valid [of ex r] Inr
      by (auto simp: posts_def grantable_def)
    then show "keeps (\<lambda>h q. dns_read h q \<or> posts ex reply p r h q) k k'"
      using w by (auto split: if_splits elim!: call_write_keeps)
  qed
qed

lemma Replace_puts:
  assumes "cloudflare_Replace ex reply p z old r h = (u, h')"
  shows "keeps (\<lambda>h q. dns_read h q \<or> puts ex reply p r h q) h h'"
proof (cases "DNSRecord_validate ex old = Inr () \<and> DNSRecord_validate ex r = Inr ()
    \<and> dr_Name old = dr_Name r \<and> dr_Type old = dr_Type r")
  case False
  then have "h' = h"
    using assms by (cases "DNSRecord_validate ex old"; cases "DNSRecord_validate ex r")
      (auto simp: cloudflare_Replace_def)
  then show ?thesis by simp
next
  case True
  with assms have "dns_bind (cloudflare_list ex reply p z (dr_Name r) (dr_Type r))
      (\<lambda>records. case find (\<lambda>w. wr_Content w = dr_Value old \<and> wr_ID w \<noteq> []) records of
           Some w \<Rightarrow> call_write reply (PutRecord (dz_ID z) (wr_ID w) (wire_of_record r))
         | None \<Rightarrow> dns_return (Inl (dns_input ''the record being replaced is no longer present; read it again''))) h
      = (u, h')"
    by (simp add: cloudflare_Replace_def)
  then show ?thesis
  proof (rule keeps_bind)
    fix y k
    assume "cloudflare_list ex reply p z (dr_Name r) (dr_Type r) h = (y, k)"
    from list_reads [OF this] show "keeps (\<lambda>h q. dns_read h q \<or> puts ex reply p r h q) h k"
      by (rule keeps_mono) simp
  next
    fix ws k s k'
    assume l: "cloudflare_list ex reply p z (dr_Name r) (dr_Type r) h = (Inr ws, k)"
      and w: "(case find (\<lambda>w. wr_Content w = dr_Value old \<and> wr_ID w \<noteq> []) ws of
           Some w \<Rightarrow> call_write reply (PutRecord (dz_ID z) (wr_ID w) (wire_of_record r))
         | None \<Rightarrow> dns_return (Inl (dns_input ''the record being replaced is no longer present; read it again'')))
          k = (s, k')"
    have "puts ex reply p r k (PutRecord (dz_ID z) (wr_ID v) (wire_of_record r))"
      if "find (\<lambda>w. wr_Content w = dr_Value old \<and> wr_ID w \<noteq> []) ws = Some v" for v
      using that list_ok [OF l] just_read_list [OF l] record_valid [of ex r] True
      by (auto simp: puts_def grantable_def find_Some_iff)
    then show "keeps (\<lambda>h q. dns_read h q \<or> puts ex reply p r h q) k k'"
      using w by (auto split: option.splits elim!: call_write_keeps)
  qed
qed

interpretation cf: record_writer "cloudflare ex reply p" dns_read "posts ex reply p" "puts ex reply p"
  for ex :: "'q externals" and reply p
  by unfold_locales
    (auto simp: cloudflare_def intro: zone_call_reads Records_reads Create_posts Replace_puts)

section \<open>Zones and labels\<close>

text \<open>A name lies in a zone exactly when the labels of the zone are the last labels of the name.\<close>

lemma Join_append:
  "us \<noteq> [] \<Longrightarrow> vs \<noteq> [] \<Longrightarrow> Join c (us @ vs) = Join c us @ c # Join c vs"
proof (induction c us rule: Join.induct)
  case (2 c w)
  then show ?case by (cases vs) simp_all
qed simp_all

lemma in_zone_labels: "in_zone host zone \<longleftrightarrow> suffix (Split (CHR ''.'') zone) (Split (CHR ''.'') host)"
proof
  assume "in_zone host zone"
  then show "suffix (Split (CHR ''.'') zone) (Split (CHR ''.'') host)"
    by (auto simp: in_zone_def suffix_def Split_append)
next
  assume "suffix (Split (CHR ''.'') zone) (Split (CHR ''.'') host)"
  then obtain ws where ws: "Split (CHR ''.'') host = ws @ Split (CHR ''.'') zone" by (auto simp: suffix_def)
  have "host = Join (CHR ''.'') (ws @ Split (CHR ''.'') zone)" by (metis ws Join_Split)
  then show "in_zone host zone"
    by (cases "ws = []") (auto simp: in_zone_def suffix_def Join_append)
qed

end
