(* ===== verification/Dns_Store.thy ===== *)
theory Dns_Store
  imports Dns_Provider Agent_Approvals
begin

text \<open>
  The table of DNS providers (internal/store/dns_providers.go and migration 045): saving and
  deleting a provider as functions of its rows, the reads, and the life of the table as a step
  relation that also remembers which sealed credentials were supplied for which provider.
  \<open>lower\<close> is the \<open>lower\<close> of PostgreSQL in the unique index; the audit rows are left out.
\<close>

definition maxDNSProviders :: int where "maxDNSProviders = 64"

definition zero_provider :: DNSProvider where
  "zero_provider =
     \<lparr>dp_ID = [], dp_Name = [], dp_Kind = [], dp_Project = [], dp_Environment = [], dp_ZoneFilter = [],
      dp_Revision = 0, dp_Enabled = False, dp_CreatedAt = 0, dp_UpdatedAt = 0, dp_EncryptedCredentials = []\<rparr>"

definition find_provider :: "string \<Rightarrow> DNSProvider list \<Rightarrow> DNSProvider option" where
  "find_provider i rows = find (\<lambda>p. dp_ID p = i) rows"

definition same_scope :: "DNSProvider \<Rightarrow> DNSProvider \<Rightarrow> bool" where
  "same_scope a b = (dp_Project a = dp_Project b \<and> dp_Environment a = dp_Environment b)"

text \<open>The constraints of the table; \<open>length\<close> counts characters, \<open>octet_length\<close> of bytea bytes.\<close>

definition row_allowed :: "DNSProvider \<Rightarrow> bool" where
  "row_allowed p \<longleftrightarrow>
     1 \<le> RuneCount (dp_Name p) \<and> RuneCount (dp_Name p) \<le> 80 \<and> dp_Kind p = KindCloudflare \<and> 0 < dp_Revision p
     \<and> 28 \<le> len (dp_EncryptedCredentials p) \<and> len (dp_EncryptedCredentials p) \<le> 8192
     \<and> 1 \<le> len (dp_ZoneFilter p) \<and> len (dp_ZoneFilter p) \<le> 32
     \<and> 1 \<le> RuneCount (Join (CHR '','') (dp_ZoneFilter p)) \<and> RuneCount (Join (CHR '','') (dp_ZoneFilter p)) \<le> 2048
     \<and> (dp_Project p = []) = (dp_Environment p = [])"

definition name_taken :: "(string \<Rightarrow> string) \<Rightarrow> DNSProvider \<Rightarrow> DNSProvider list \<Rightarrow> bool" where
  "name_taken lower p rows =
     list_ex (\<lambda>q. dp_ID q \<noteq> dp_ID p \<and> same_scope q p \<and> lower (dp_Name q) = lower (dp_Name p)) rows"

text \<open>\<open>INSERT ... ON CONFLICT(id) DO UPDATE\<close>: creation time and place of an old row stay.\<close>

definition upsert :: "int \<Rightarrow> DNSProvider \<Rightarrow> DNSProvider list \<Rightarrow> DNSProvider list" where
  "upsert now p rows =
     (if find_provider (dp_ID p) rows = None
      then rows @ [p\<lparr>dp_CreatedAt := now, dp_UpdatedAt := now\<rparr>]
      else map (\<lambda>q. if dp_ID q = dp_ID p
                    then p\<lparr>dp_CreatedAt := dp_CreatedAt q, dp_UpdatedAt := now\<rparr> else q) rows)"

definition outside_scope :: "Principal \<Rightarrow> DNSProvider \<Rightarrow> bool" where
  "outside_scope who p =
     (\<not> IsAdmin who \<and> (dp_Project p \<noteq> p_Project who \<or> dp_Environment p \<noteq> p_Environment who))"

definition PutDNSProvider ::
  "'q externals \<Rightarrow> (string \<Rightarrow> string) \<Rightarrow> int \<Rightarrow> string \<Rightarrow> Principal \<Rightarrow> DNSProvider \<Rightarrow> int
     \<Rightarrow> DNSProvider list \<Rightarrow> unit result \<times> DNSProvider list" where
  "PutDNSProvider ex lower now fresh who provider expected rows =
     (if \<not> CanManageDNSProviders who then (Inl ErrForbidden, rows)
      else if outside_scope who provider then (Inl ErrForbidden, rows)
      else case DNSProvider_Validate ex provider of
        Inl e \<Rightarrow> (Inl e, rows)
      | Inr _ \<Rightarrow>
          let p = (if dp_ID provider = [] then provider\<lparr>dp_ID := fresh\<rparr> else provider);
              old = (case find_provider (dp_ID p) rows of None \<Rightarrow> zero_provider | Some q \<Rightarrow> q) in
          if 8192 < len (dp_EncryptedCredentials p) then (Inl (dns_input ''encrypted credentials exceed bounds''), rows)
          else if dp_Revision old \<noteq> expected \<or> expected < 0 then (Inl ErrConflict, rows)
          else if 0 < dp_Revision old \<and> outside_scope who old then (Inl ErrForbidden, rows)
          else if dp_EncryptedCredentials p = [] \<and> (dp_Revision old = 0 \<or> \<not> CredentialsTransferable old p)
          then (Inl (dns_input ''provide a provider token''), rows)
          else
            let p = (if dp_EncryptedCredentials p = []
                     then p\<lparr>dp_EncryptedCredentials := dp_EncryptedCredentials old\<rparr> else p) in
            if expected = 0 \<and> maxDNSProviders \<le> len (filter (\<lambda>q. same_scope q p) rows)
            then (Inl (dns_input ''at most 64 DNS providers per scope''), rows)
            else
              let p = p\<lparr>dp_Revision := expected + 1\<rparr> in
              if \<not> row_allowed p \<or> name_taken lower p rows then (Inl (Err ''constraint''), rows)
              else (Inr (), upsert now p rows))"

text \<open>\<open>referenced\<close> is the answer of \<open>dnsProviderReferenced\<close>.\<close>

definition DeleteDNSProvider ::
  "bool \<Rightarrow> Principal \<Rightarrow> string \<Rightarrow> int \<Rightarrow> DNSProvider list \<Rightarrow> unit result \<times> DNSProvider list" where
  "DeleteDNSProvider referenced who i expected rows =
     (if \<not> CanManageDNSProviders who then (Inl ErrForbidden, rows)
      else case find_provider i rows of
        None \<Rightarrow> (Inl ErrConflict, rows)
      | Some old \<Rightarrow>
          if outside_scope who old then (Inl ErrForbidden, rows)
          else if referenced then (Inl ErrConflict, rows)
          else if dp_Revision old \<noteq> expected then (Inl ErrConflict, rows)
          else (Inr (), filter (\<lambda>q. dp_ID q \<noteq> i) rows))"

text \<open>
  The reads: ordered by scope and name, at most 64 rows, without credentials. \<open>text_order\<close>
  sorts by the collation of the database, a parameter.
\<close>

definition scrubbed :: "DNSProvider \<Rightarrow> DNSProvider" where
  "scrubbed p = p\<lparr>dp_EncryptedCredentials := []\<rparr>"

definition DNSProviders ::
  "(DNSProvider list \<Rightarrow> DNSProvider list) \<Rightarrow> Principal \<Rightarrow> DNSProvider list \<Rightarrow> DNSProvider list result" where
  "DNSProviders text_order p rows =
     (if \<not> CanManageDNSProviders p then Inl ErrForbidden
      else
        let visible_rows =
          (if IsAdmin p then rows
           else filter (\<lambda>q. dp_Project q = [] \<or> dp_Project q = p_Project p \<and> dp_Environment q = p_Environment p) rows) in
        Inr (map scrubbed (take (nat maxDNSProviders) (text_order visible_rows))))"

definition DNSProvidersForApplication ::
  "(DNSProvider list \<Rightarrow> DNSProvider list) \<Rightarrow> string \<Rightarrow> string \<Rightarrow> DNSProvider list \<Rightarrow> DNSProvider list" where
  "DNSProvidersForApplication text_order project environment rows =
     map (\<lambda>q. (scrubbed q)\<lparr>dp_ZoneFilter := []\<rparr>)
       (take (nat maxDNSProviders)
         (text_order (filter (\<lambda>q. dp_Enabled q \<and> (dp_Project q = [] \<or> dp_Project q = project \<and> dp_Environment q = environment)) rows)))"

text \<open>\<open>dnsProviderByName\<close>; \<open>same\<close> is \<open>strings.EqualFold\<close>.\<close>

definition dnsProviderByName ::
  "(DNSProvider list \<Rightarrow> DNSProvider list) \<Rightarrow> (string \<Rightarrow> string \<Rightarrow> bool) \<Rightarrow> Principal \<Rightarrow> string \<Rightarrow> string \<Rightarrow> string
     \<Rightarrow> DNSProvider list \<Rightarrow> DNSProvider result" where
  "dnsProviderByName text_order same p name project environment rows =
     bindE (DNSProviders text_order p rows)
       (\<lambda>items. case find (\<lambda>q. same (dp_Name q) name \<and> dp_Project q = project \<and> dp_Environment q = environment) items of
          Some q \<Rightarrow> Inr q | None \<Rightarrow> Inl ErrNoRows)"

section \<open>The life of the table\<close>

text \<open>
  A sealed credential as it was supplied: the bytes with the name, the kind and the zones of the
  provider it was supplied for.
\<close>

type_synonym dns_supply = "int list \<times> string \<times> string \<times> string list"

definition supplied :: "DNSProvider \<Rightarrow> dns_supply" where
  "supplied p = (dp_EncryptedCredentials p, dp_Name p, dp_Kind p, dp_ZoneFilter p)"

record dns_table =
  dt_rows :: "DNSProvider list"
  dt_supplies :: "dns_supply list"

inductive dns_step :: "'q externals \<Rightarrow> (string \<Rightarrow> string) \<Rightarrow> dns_table \<Rightarrow> dns_table \<Rightarrow> bool"
  for ex :: "'q externals" and lower :: "string \<Rightarrow> string" where
  put: "PutDNSProvider ex lower now fresh who provider expected (dt_rows t) = (r, rows) \<Longrightarrow>
     dns_step ex lower t \<lparr>dt_rows = rows, dt_supplies =
       (if r = Inr () \<and> dp_EncryptedCredentials provider \<noteq> [] then supplied provider # dt_supplies t else dt_supplies t)\<rparr>"
| delete: "DeleteDNSProvider referenced who i expected (dt_rows t) = (r, rows) \<Longrightarrow>
     dns_step ex lower t (t\<lparr>dt_rows := rows\<rparr>)"

inductive dns_reachable :: "'q externals \<Rightarrow> (string \<Rightarrow> string) \<Rightarrow> dns_table \<Rightarrow> bool"
  for ex :: "'q externals" and lower :: "string \<Rightarrow> string" where
  empty: "dns_reachable ex lower \<lparr>dt_rows = [], dt_supplies = []\<rparr>"
| step: "dns_reachable ex lower t \<Longrightarrow> dns_step ex lower t u \<Longrightarrow> dns_reachable ex lower u"

section \<open>Invariants\<close>

definition table_ok :: "dns_table \<Rightarrow> bool" where
  "table_ok t \<longleftrightarrow>
     distinct (map dp_ID (dt_rows t))
     \<and> (\<forall>p \<in> set (dt_rows t). row_allowed p \<and> supplied p \<in> set (dt_supplies t))"

lemma find_provider_Some: "find_provider i rows = Some p \<Longrightarrow> p \<in> set rows \<and> dp_ID p = i"
  by (auto simp: find_provider_def find_Some_iff)

lemma find_provider_None: "find_provider i rows = None \<longleftrightarrow> i \<notin> dp_ID ` set rows"
  by (auto simp: find_provider_def find_None_iff)

lemma set_upsert: "q \<in> set (upsert now p rows) \<Longrightarrow>
    q \<in> set rows \<or> (\<exists>created. q = p\<lparr>dp_CreatedAt := created, dp_UpdatedAt := now\<rparr>)"
  by (auto simp: upsert_def split: if_splits)

lemma ids_upsert:
  "map dp_ID (upsert now p rows) =
     (if find_provider (dp_ID p) rows = None then map dp_ID rows @ [dp_ID p] else map dp_ID rows)"
  by (auto simp: upsert_def)

lemma distinct_upsert: "distinct (map dp_ID rows) \<Longrightarrow> distinct (map dp_ID (upsert now p rows))"
  by (auto simp: ids_upsert find_provider_None simp del: map_map)

lemma supplied_times [simp]: "supplied (p\<lparr>dp_CreatedAt := c, dp_UpdatedAt := n\<rparr>) = supplied p"
  by (simp add: supplied_def)

lemma row_allowed_times [simp]: "row_allowed (p\<lparr>dp_CreatedAt := c, dp_UpdatedAt := n\<rparr>) = row_allowed p"
  by (simp add: row_allowed_def)

text \<open>What a successful save stores.\<close>

lemma PutDNSProvider_ok:
  assumes "PutDNSProvider ex lower now fresh who provider expected rows = (Inr (), rows')"
  obtains p where "rows' = upsert now p rows" "row_allowed p" "\<not> name_taken lower p rows"
    "dp_Name p = dp_Name provider" "dp_Kind p = dp_Kind provider" "dp_ZoneFilter p = dp_ZoneFilter provider"
    "dp_Project p = dp_Project provider" "dp_Environment p = dp_Environment provider"
    "dp_Revision p = expected + 1" "DNSProvider_Validate ex provider = Inr ()"
    "dp_EncryptedCredentials provider \<noteq> [] \<and> dp_EncryptedCredentials p = dp_EncryptedCredentials provider
     \<or> (\<exists>old \<in> set rows. dp_ID old = dp_ID p \<and> supplied p = supplied old)"
proof -
  let ?p = "if dp_ID provider = [] then provider\<lparr>dp_ID := fresh\<rparr> else provider"
  let ?old = "case find_provider (dp_ID ?p) rows of None \<Rightarrow> zero_provider | Some q \<Rightarrow> q"
  let ?q = "if dp_EncryptedCredentials ?p = [] then ?p\<lparr>dp_EncryptedCredentials := dp_EncryptedCredentials ?old\<rparr> else ?p"
  let ?s = "?q\<lparr>dp_Revision := expected + 1\<rparr>"
  have val: "DNSProvider_Validate ex provider = Inr ()"
    using assms by (cases "DNSProvider_Validate ex provider") (auto simp: PutDNSProvider_def split: if_splits)
  have ok: "rows' = upsert now ?s rows" "row_allowed ?s" "\<not> name_taken lower ?s rows"
    and cred: "dp_EncryptedCredentials ?p = [] \<Longrightarrow> dp_Revision ?old \<noteq> 0 \<and> CredentialsTransferable ?old ?p"
    using assms val by (auto simp: PutDNSProvider_def Let_def split: if_splits)
  have "dp_EncryptedCredentials provider \<noteq> [] \<and> dp_EncryptedCredentials ?s = dp_EncryptedCredentials provider
     \<or> (\<exists>old \<in> set rows. dp_ID old = dp_ID ?s \<and> supplied ?s = supplied old)"
  proof (cases "dp_EncryptedCredentials provider = []")
    case True
    with cred have tr: "dp_Revision ?old \<noteq> 0" "CredentialsTransferable ?old ?p" by auto
    then obtain old where "find_provider (dp_ID ?p) rows = Some old"
      by (cases "find_provider (dp_ID ?p) rows") (auto simp: zero_provider_def)
    with tr True show ?thesis
      by (auto simp: supplied_def CredentialsTransferable_def dest!: find_provider_Some intro!: bexI [of _ old])
  qed auto
  with ok val show ?thesis by (intro that [of ?s]) auto
qed

lemma PutDNSProvider_error:
  "PutDNSProvider ex lower now fresh who provider expected rows = (Inl e, rows') \<Longrightarrow> rows' = rows"
  by (auto simp: PutDNSProvider_def Let_def split: if_splits sum.splits)

lemma DeleteDNSProvider_rows:
  "DeleteDNSProvider referenced who i expected rows = (r, rows') \<Longrightarrow> \<exists>P. rows' = filter P rows"
  by (auto simp: DeleteDNSProvider_def split: if_splits option.splits intro: exI [of _ "\<lambda>_. True"])

lemma distinct_map_filter: "distinct (map f xs) \<Longrightarrow> distinct (map f (filter P xs))"
  by (induction xs) auto

lemma table_ok_step: "dns_step ex lower t u \<Longrightarrow> table_ok t \<Longrightarrow> table_ok u"
proof (induction rule: dns_step.induct)
  case (put now fresh who provider expected t r rows)
  show ?case
  proof (cases r)
    case (Inl e)
    with put show ?thesis by (auto simp: table_ok_def dest: PutDNSProvider_error)
  next
    case (Inr x)
    with put.hyps have "PutDNSProvider ex lower now fresh who provider expected (dt_rows t) = (Inr (), rows)"
      by simp
    then obtain p where p: "rows = upsert now p (dt_rows t)" "row_allowed p"
        "dp_Name p = dp_Name provider" "dp_Kind p = dp_Kind provider" "dp_ZoneFilter p = dp_ZoneFilter provider"
        "dp_EncryptedCredentials provider \<noteq> [] \<and> dp_EncryptedCredentials p = dp_EncryptedCredentials provider
         \<or> (\<exists>old \<in> set (dt_rows t). dp_ID old = dp_ID p \<and> supplied p = supplied old)"
      by (rule PutDNSProvider_ok)
    have "supplied p \<in> set (if r = Inr () \<and> dp_EncryptedCredentials provider \<noteq> []
        then supplied provider # dt_supplies t else dt_supplies t)"
      using p(3-6) put.prems Inr by (auto simp: table_ok_def supplied_def)
    with p(1,2) put.prems show ?thesis
      by (auto simp: table_ok_def distinct_upsert dest!: set_upsert)
  qed
next
  case (delete referenced who i expected t r rows)
  then show ?case
    by (auto simp: table_ok_def dest!: DeleteDNSProvider_rows intro: distinct_map_filter)
qed

lemma table_ok_reachable: "dns_reachable ex lower t \<Longrightarrow> table_ok t"
proof (induction rule: dns_reachable.induct)
  case empty
  show ?case by (simp add: table_ok_def)
next
  case (step t u)
  then show ?case by (blast intro: table_ok_step)
qed

end
