(* ===== verification/Dns_Properties.thy ===== *)
theory Dns_Properties
  imports Dns_Facts Dns_Store Spec_Demo
begin

text \<open>
  The properties of DNS providers: what is ever sent to a provider, and what the table of
  providers keeps.
\<close>

section \<open>A provider, an application and an answering service\<close>

definition demo_provider :: DNSProvider where
  "demo_provider =
     \<lparr>dp_ID = ''p1'', dp_Name = ''edge'', dp_Kind = ''cloudflare'', dp_Project = [], dp_Environment = [],
      dp_ZoneFilter = [''example.com''], dp_Revision = 1, dp_Enabled = True, dp_CreatedAt = 0,
      dp_UpdatedAt = 0, dp_EncryptedCredentials = replicate 28 0\<rparr>"

definition demo_desired :: "DNSRecord list gomap" where
  "demo_desired = [(''www.example.com'', desiredDNSRecords ''www.example.com'' ''t0ken'' [])]"

definition demo_replies :: dns_replies where
  "demo_replies h =
     (case last h of
        GetZones name \<Rightarrow>
          Answer 200 True [] (Zones (if name = ''example.com'' then [\<lparr>dz_ID = ''z1'', dz_Name = ''example.com''\<rparr>] else []))
      | GetRecords zone name kind \<Rightarrow> Answer 200 True [] (Wires [])
      | _ \<Rightarrow> Answer 200 True [] Undecodable)"

definition demo_requests :: "dns_request list" where
  "demo_requests =
     (let r = hd (desiredDNSRecords ''www.example.com'' ''t0ken'' []);
          read = GetRecords ''z1'' ''_hakopod.www.example.com'' ''TXT'' in
      [GetZones ''www.example.com'', GetZones ''example.com'', read, read, PostRecord ''z1'' (wire_of_record r)])"

section \<open>What is sent\<close>

text \<open>
  C29. Whatever a provider answers, every request that writing the records of an application
  sends is a read, or creates a record the application wants, right after the provider answered
  that none stands at its name and type, or, only when replacing was asked for, replaces a record
  the provider has just listed at that name and type. Records are written only by an enabled
  provider whose scope covers the application and only at names whose last labels are those of a
  permitted zone.
\<close>
theorem dns_writes_confined:
  assumes "NewCloudflare ex reply p token = Inr client"
    and "createDNSRecords lower expired client p project environment desired hostnames replace h = (res, h')"
  shows "\<exists>new. h' = h @ new \<and> sends (\<lambda>k q. dns_read k q
      \<or> dp_Enabled p \<and> (dp_Project p = [] \<or> dp_Project p = project \<and> dp_Environment p = environment)
        \<and> (\<exists>host rs r zone. gm_get desired host = Some rs \<and> r \<in> set rs
             \<and> (\<exists>z \<in> set (dp_ZoneFilter p). suffix (Split (CHR ''.'') z) (Split (CHR ''.'') (dr_Name r)))
             \<and> (q = PostRecord zone (wire_of_record r) \<and> just_read reply zone r k []
                \<or> replace \<and> (\<exists>i ws. q = PutRecord zone i (wire_of_record r) \<and> just_read reply zone r k ws
                    \<and> i \<in> wr_ID ` set ws)))) h new"
proof -
  have client: "client = cloudflare ex reply p"
    using assms(1) by (auto simp: NewCloudflare_def result_iff split: if_splits)
  have labels: "\<exists>z \<in> set (dp_ZoneFilter p). suffix (Split (CHR ''.'') z) (Split (CHR ''.'') (dr_Name r))"
    if "grantable ex p r" for r
    using that by (auto simp: grantable_def AllowsHostname_def list_ex_iff in_zone_labels split: if_splits)
  obtain new where new: "h' = h @ new" and ok: "sends (\<lambda>k q. DNSProvider_Allows p project environment
      \<and> writes dns_read (posts ex reply p) (puts ex reply p) replace (wanted desired) k q) h new"
    using cf.create_writes [OF assms(2) [unfolded client]] by (auto simp: keeps_def)
  from new show ?thesis
  proof (intro exI conjI)
    show "sends (\<lambda>k q. dns_read k q
      \<or> dp_Enabled p \<and> (dp_Project p = [] \<or> dp_Project p = project \<and> dp_Environment p = environment)
        \<and> (\<exists>host rs r zone. gm_get desired host = Some rs \<and> r \<in> set rs
             \<and> (\<exists>z \<in> set (dp_ZoneFilter p). suffix (Split (CHR ''.'') z) (Split (CHR ''.'') (dr_Name r)))
             \<and> (q = PostRecord zone (wire_of_record r) \<and> just_read reply zone r k []
                \<or> replace \<and> (\<exists>i ws. q = PutRecord zone i (wire_of_record r) \<and> just_read reply zone r k ws
                    \<and> i \<in> wr_ID ` set ws)))) h new"
      using ok
    proof (rule sends_mono)
      fix k q
      assume a: "DNSProvider_Allows p project environment \<and> writes dns_read (posts ex reply p) (puts ex reply p) replace (wanted desired) k q"
      then have scope: "dp_Enabled p \<and> (dp_Project p = [] \<or> dp_Project p = project \<and> dp_Environment p = environment)"
        by (simp add: DNSProvider_Allows_def split: if_splits)
      from a consider "dns_read k q" | r where "r \<in> wanted desired" "posts ex reply p r k q"
        | r where "r \<in> wanted desired" "replace" "puts ex reply p r k q"
        by (auto simp: writes_def)
      then show "dns_read k q
          \<or> dp_Enabled p \<and> (dp_Project p = [] \<or> dp_Project p = project \<and> dp_Environment p = environment)
            \<and> (\<exists>host rs r zone. gm_get desired host = Some rs \<and> r \<in> set rs
                 \<and> (\<exists>z \<in> set (dp_ZoneFilter p). suffix (Split (CHR ''.'') z) (Split (CHR ''.'') (dr_Name r)))
                 \<and> (q = PostRecord zone (wire_of_record r) \<and> just_read reply zone r k []
                    \<or> replace \<and> (\<exists>i ws. q = PutRecord zone i (wire_of_record r) \<and> just_read reply zone r k ws
                        \<and> i \<in> wr_ID ` set ws)))"
      proof cases
        case 2
        then show ?thesis using scope labels unfolding posts_def wanted_def by blast
      next
        case 3
        then show ?thesis using scope labels unfolding puts_def wanted_def by blast
      qed blast
    qed
  qed
qed

lemma demo_client: "NewCloudflare demo_ex demo_replies demo_provider ''t'' = Inr (cloudflare demo_ex demo_replies demo_provider)"
proof -
  have "DNSProvider_Validate demo_ex demo_provider = Inr ()" by code_simp
  moreover have "DNSToken_Validate ''t'' = Inr ()" by code_simp
  ultimately show ?thesis by (simp add: NewCloudflare_def demo_provider_def)
qed

lemma dns_writes_confined_witness:
  "\<exists>res. createDNSRecords ToLower (\<lambda>_. False) (cloudflare demo_ex demo_replies demo_provider) demo_provider ''p'' ''e''
      demo_desired [''www.example.com''] False [] = (res, demo_requests)
    \<and> (\<exists>r. just_read demo_replies ''z1'' r (butlast demo_requests) [])"
proof -
  have run: "createDNSRecords ToLower (\<lambda>_. False) (cloudflare demo_ex demo_replies demo_provider) demo_provider ''p'' ''e''
      demo_desired [''www.example.com''] False [] = (Inr
        [\<lparr>rr_Hostname = ''www.example.com'', rr_Status = ''created'', rr_Message = dnsRecordMessages ''created'',
          rr_Records = [(''TXT'', ''_hakopod.www.example.com'', ''t0ken'')]\<rparr>], demo_requests)"
    by code_simp
  from dns_writes_confined [OF demo_client run]
  show ?thesis
    unfolding run by (auto simp: demo_requests_def Let_def)
qed

section \<open>What the table keeps\<close>





text \<open>
  An installation may hold 64 providers in every scope, but the list of an administrator ends
  after 64 rows of all scopes together, and the handlers find a provider only in that list: what
  comes after it can no longer be changed or deleted through them.
\<close>

lemma dns_provider_out_of_reach:
  assumes "IsAdmin who" and "CanManageDNSProviders who"
    and "\<forall>q \<in> set (take 64 (text_order rows)).
      \<not> (same (dp_Name q) name \<and> dp_Project q = project \<and> dp_Environment q = environment)"
  shows "dnsProviderByName text_order same who name project environment rows = Inl ErrNoRows"
proof -
  have "find (\<lambda>q. same (dp_Name q) name \<and> dp_Project q = project \<and> dp_Environment q = environment)
      (map scrubbed (take 64 (text_order rows))) = None"
    using assms(3) by (auto simp: find_None_iff scrubbed_def)
  then show ?thesis
    using assms(1,2) by (simp add: dnsProviderByName_def DNSProviders_def maxDNSProviders_def)
qed

end
