(* ===== verification/Database_Spec.thy ===== *)
theory Database_Spec
  imports Spec_Resources Go_Text
begin

text \<open>
  Managed databases (internal/database): the desired configuration and its validation, with the
  parts for placement, pooling, PostgreSQL, ClickHouse, Oracle, Vitess and MyDuck, and the
  numbers of supporting processes. Quantities and names of Kubernetes objects are read by its
  library, the parameter \<open>ex\<close> of the application specification; an error carries a short reason.
\<close>

definition MaxMembers :: int where "MaxMembers = 48"

section \<open>Configuration\<close>

record Placement =
  pl_Spread :: string
  pl_NodeNames :: "string list"

record DBTLSConfig =
  tls_Mode :: string

record Pooling =
  po_Mode :: string
  po_Instances :: int
  po_MaxClientConnections :: int
  po_DefaultPoolSize :: int
  po_ReadOnly :: bool

record PostgresConfig =
  pg_Database :: string
  pg_Username :: string

record ClickHouseConfig =
  ch_AccessProfile :: string

record OracleConfig =
  or_Edition :: string
  or_Image :: string
  or_RegistryCredential :: string
  or_LicenseConfirmed :: bool

record VitessTable =
  vt_Name :: string
  vt_ShardingColumn :: string

record VitessConfig =
  vi_Tables :: "VitessTable list"
  vi_BackupDestinationID :: string
  vi_BackupDestinationRevision :: int

record DBSpec =
  db_SchemaVersion :: int
  db_Name :: string
  db_Engine :: string
  db_Version :: string
  db_Mode :: string
  db_Replicas :: int
  db_Shards :: int
  db_CPU :: string
  db_Memory :: string
  db_StorageGiB :: int
  db_Placement :: Placement
  db_TLS :: "DBTLSConfig option"
  db_Pooling :: "Pooling option"
  db_Postgres :: "PostgresConfig option"
  db_ClickHouse :: "ClickHouseConfig option"
  db_Oracle :: "OracleConfig option"
  db_Vitess :: "VitessConfig option"

section \<open>Derived facts\<close>

definition Members :: "DBSpec \<Rightarrow> int" where
  "Members s = db_Shards s * (1 + db_Replicas s)"

definition TLSRequired :: "DBSpec \<Rightarrow> bool" where
  "TLSRequired s = (case db_TLS s of None \<Rightarrow> False | Some t \<Rightarrow> tls_Mode t = ''required'')"

definition WithSecureDefaults :: "DBSpec \<Rightarrow> DBSpec" where
  "WithSecureDefaults s =
     (if db_TLS s = None then s\<lparr>db_TLS := Some \<lparr>tls_Mode = ''required''\<rparr>\<rparr> else s)"

definition KeeperInstances :: "DBSpec \<Rightarrow> int" where
  "KeeperInstances s = (if db_Engine s = ''clickhouse'' \<and> db_Mode s = ''cluster'' then 3 else 0)"

definition RouterInstances :: "DBSpec \<Rightarrow> int" where
  "RouterInstances s =
     (if db_Engine s \<noteq> ''mysql'' then 0 else if db_Mode s = ''standalone'' then 1 else 2)"

definition VitessGateways :: "DBSpec \<Rightarrow> int" where
  "VitessGateways s =
     (if db_Engine s \<noteq> ''vitess'' then 0 else if db_Mode s = ''standalone'' then 1 else 2)"

definition VitessOrchestrators :: "DBSpec \<Rightarrow> int" where
  "VitessOrchestrators s = (if db_Engine s \<noteq> ''vitess'' then 0 else db_Shards s)"

definition VitessTopologyMembers :: "DBSpec \<Rightarrow> int" where
  "VitessTopologyMembers s = (if db_Engine s \<noteq> ''vitess'' then 0 else 3)"

definition OracleBrokerInstances :: "DBSpec \<Rightarrow> int" where
  "OracleBrokerInstances s =
     (case db_Oracle s of
        Some o' \<Rightarrow> if db_Engine s = ''oracle'' \<and> or_Edition o' = ''enterprise'' \<and> db_Mode s = ''cluster'' then 1 else 0
      | None \<Rightarrow> 0)"

definition PoolerRoutes :: "DBSpec \<Rightarrow> int" where
  "PoolerRoutes s = (case db_Pooling s of None \<Rightarrow> 0 | Some p \<Rightarrow> if po_ReadOnly p then 2 else 1)"

definition PoolerInstances :: "DBSpec \<Rightarrow> int" where
  "PoolerInstances s = (case db_Pooling s of None \<Rightarrow> 0 | Some p \<Rightarrow> po_Instances p * PoolerRoutes s)"

definition PlacementDomains :: "DBSpec \<Rightarrow> int" where
  "PlacementDomains s =
     (case db_Pooling s of
        None \<Rightarrow> max (max (Members s) (KeeperInstances s)) (VitessTopologyMembers s)
      | Some p \<Rightarrow> max (Members s) (po_Instances p))"

definition CredentialUsername :: "DBSpec \<Rightarrow> string" where
  "CredentialUsername s =
     (case db_Postgres s of Some p \<Rightarrow> if db_Engine s = ''postgresql'' then pg_Username p else ''app'' | None \<Rightarrow> ''app'')"

definition LogicalDatabase :: "DBSpec \<Rightarrow> string" where
  "LogicalDatabase s =
     (case db_Postgres s of Some p \<Rightarrow> if db_Engine s = ''postgresql'' then pg_Database p else ''app'' | None \<Rightarrow> ''app'')"

definition ClickHouseTenantAdmin :: "DBSpec \<Rightarrow> bool" where
  "ClickHouseTenantAdmin s =
     (case db_ClickHouse s of None \<Rightarrow> False
      | Some c \<Rightarrow> db_Engine s = ''clickhouse'' \<and> ch_AccessProfile c = ''tenant_admin'')"

section \<open>Placement\<close>

definition canonical_placement :: "Placement \<Rightarrow> Placement" where
  "canonical_placement p = p\<lparr>pl_NodeNames := sort (pl_NodeNames p)\<rparr>"

definition Placement_Equal :: "Placement \<Rightarrow> Placement \<Rightarrow> bool" where
  "Placement_Equal p q =
     (pl_Spread p = pl_Spread q
      \<and> pl_NodeNames (canonical_placement p) = pl_NodeNames (canonical_placement q))"

definition Placement_Validate :: "'q externals \<Rightarrow> Placement \<Rightarrow> string \<Rightarrow> int \<Rightarrow> unit result" where
  "Placement_Validate ex p mode members =
     checks
       [(pl_Spread p \<noteq> [] \<and> pl_Spread p \<noteq> ''nodes'' \<and> pl_Spread p \<noteq> ''zones'', ''placement.spread''),
        (mode = ''standalone'' \<and> pl_Spread p \<noteq> [], ''placement spreading requires cluster mode''),
        (MaxMembers < len (pl_NodeNames p), ''placement may select at most 48 nodes''),
        (\<not> list_all (ex_dns_subdomain ex) (pl_NodeNames p) \<or> first_dup [] (pl_NodeNames p), ''placement.node_names''),
        (pl_Spread p \<noteq> [] \<and> pl_NodeNames p \<noteq> [] \<and> len (pl_NodeNames p) < members,
         ''placement spreading requires one node per member'')]"

definition DBSpec_Equal :: "DBSpec \<Rightarrow> DBSpec \<Rightarrow> bool" where
  "DBSpec_Equal s t =
     (s\<lparr>db_Placement := canonical_placement (db_Placement s)\<rparr> = t\<lparr>db_Placement := canonical_placement (db_Placement t)\<rparr>)"

definition clickHouseSameCapacity :: "DBSpec \<Rightarrow> DBSpec \<Rightarrow> bool" where
  "clickHouseSameCapacity s t = DBSpec_Equal (s\<lparr>db_ClickHouse := None\<rparr>) (t\<lparr>db_ClickHouse := None\<rparr>)"

section \<open>PostgreSQL, pooling, ClickHouse, MyDuck\<close>

text \<open>\<open>^[a-z][a-z0-9_]{0,62}$\<close>\<close>

definition postgresIdentifier :: "string \<Rightarrow> bool" where
  "postgresIdentifier s =
     (case s of [] \<Rightarrow> False
      | c # cs \<Rightarrow> is_lower c \<and> length cs \<le> 62 \<and> list_all (\<lambda>d. is_lower d \<or> is_digit d \<or> d = CHR ''_'') cs)"

definition postgres_name :: "string \<Rightarrow> bool" where
  "postgres_name name =
     (\<not> (\<not> postgresIdentifier name \<or> HasPrefix name ''pg_'' \<or> name = ''postgres'' \<or> name = ''template0'' \<or> name = ''template1''))"

definition validatePostgres :: "DBSpec \<Rightarrow> unit result" where
  "validatePostgres s =
     (case db_Postgres s of
        None \<Rightarrow> Inr ()
      | Some p \<Rightarrow>
          checks
            [(db_Engine s \<noteq> ''postgresql'', ''postgres configuration belongs only to PostgreSQL databases''),
             (\<not> list_all postgres_name [pg_Database p, pg_Username p], ''PostgreSQL database and username'')])"

definition ValidatePooling :: "DBSpec \<Rightarrow> unit result" where
  "ValidatePooling s =
     (case db_Pooling s of
        None \<Rightarrow> Inr ()
      | Some p \<Rightarrow>
          checks
            [(db_Engine s \<noteq> ''postgresql'' \<or> \<not> TLSRequired s, ''pooling requires PostgreSQL with required TLS''),
             (po_Mode p \<noteq> ''session'' \<and> po_Mode p \<noteq> ''transaction'', ''pooling.mode''),
             (po_Instances p < 1 \<or> 3 < po_Instances p, ''pooling.instances''),
             (po_MaxClientConnections p < 20 \<or> 2000 < po_MaxClientConnections p, ''pooling.max_client_connections''),
             (po_DefaultPoolSize p < 1 \<or> 20 < po_DefaultPoolSize p, ''pooling.default_pool_size''),
             (po_ReadOnly p \<and> db_Replicas s = 0, ''read-only pooling requires a PostgreSQL replica'')])"

definition validateClickHouseAccess :: "DBSpec \<Rightarrow> ClickHouseConfig \<Rightarrow> unit result" where
  "validateClickHouseAccess s c =
     (if db_Engine s \<noteq> ''clickhouse'' then Inl (Err ''clickhouse configuration requires engine clickhouse'')
      else if ch_AccessProfile c = ''application'' then Inr ()
      else if ch_AccessProfile c = ''tenant_admin'' then
        (if db_Mode s \<noteq> ''standalone'' then Inl (Err ''ClickHouse tenant_admin requires standalone mode'') else Inr ())
      else Inl (Err ''clickhouse.access_profile''))"

definition MyDuckVersion :: string where "MyDuckVersion = ''0.3.1-dev.20260919.3''"

definition ValidateMyDuck :: "DBSpec \<Rightarrow> unit result" where
  "ValidateMyDuck s =
     checks
       [(db_Version s \<noteq> MyDuckVersion \<or> db_Mode s \<noteq> ''standalone'' \<or> db_Shards s \<noteq> 1 \<or> db_Replicas s \<noteq> 0 \<or> \<not> TLSRequired s,
         ''DuckDB (MyDuck) shape''),
        (db_Pooling s \<noteq> None, ''DuckDB (MyDuck) does not support managed connection pooling'')]"

section \<open>Oracle\<close>

definition lower_alnum :: "char \<Rightarrow> bool" where
  "lower_alnum c = (is_lower c \<or> is_digit c)"

text \<open>\<open>^[a-z0-9]+(?:(?:[._]|__|-+)[a-z0-9]+)*$\<close>: runs of letters and digits, one separator between two.\<close>

definition image_separator :: "string \<Rightarrow> bool" where
  "image_separator sep = (sep = ''.'' \<or> sep = ''_'' \<or> sep = ''__'' \<or> sep \<noteq> [] \<and> list_all (\<lambda>c. c = CHR ''-'') sep)"

function oracleImagePart :: "string \<Rightarrow> bool" where
  "oracleImagePart s =
     (let run = takeWhile lower_alnum s; rest = dropWhile lower_alnum s in
      if run = [] then False else if rest = [] then True
      else image_separator (takeWhile (\<lambda>c. \<not> lower_alnum c) rest)
           \<and> oracleImagePart (dropWhile (\<lambda>c. \<not> lower_alnum c) rest))"
  by pat_completeness auto
termination
proof (relation "measure length", goal_cases)
  case (2 s run rest)
  have "length s = length run + length rest"
    unfolding 2(1,2) by (metis length_append takeWhile_dropWhile_id)
  moreover have "length (dropWhile (\<lambda>c. \<not> lower_alnum c) rest) \<le> length rest" by (rule length_dropWhile_le)
  moreover have "0 < length run" using 2(3) by simp
  ultimately show ?case unfolding in_measure by linarith
qed simp

declare oracleImagePart.simps [simp del]

definition oracleImageTag :: "string \<Rightarrow> bool" where
  "oracleImageTag s =
     (case s of [] \<Rightarrow> False
      | c # cs \<Rightarrow> (is_alnum c \<or> c = CHR ''_'') \<and> length cs \<le> 127
          \<and> list_all (\<lambda>d. is_alnum d \<or> d \<in> set ''_.-'') cs)"

definition sha256_text :: "string \<Rightarrow> bool" where
  "sha256_text s = (length s = 64 \<and> list_all is_hex_lower s)"

definition oracle_registry :: "'q externals \<Rightarrow> string \<Rightarrow> bool" where
  "oracle_registry ex first =
     (let (host, port, colon) = Cut first (CHR '':'') in
      (colon \<longrightarrow> (case Atoi port of None \<Rightarrow> False | Some n \<Rightarrow> 1 \<le> n \<and> n \<le> 65535))
      \<and> ex_dns_subdomain ex host
      \<and> (CHR ''.'' \<in> set first \<or> CHR '':'' \<in> set first \<or> host = ''localhost''))"

definition validateOracleImage :: "'q externals \<Rightarrow> string \<Rightarrow> bool" where
  "validateOracleImage ex img =
     (if 512 < len img \<or> length (filter (\<lambda>c. c = CHR ''@'') img) \<noteq> 1
         \<or> ContainsAny img ([CHR '' '', TAB, CR, LF, NUL, char_of (92::nat)] @ ''?#'') \<or> Contains img ''://''
      then False
      else
        let (name, digest, _) = Cut img (CHR ''@'') in
        if \<not> HasPrefix digest ''sha256:'' \<or> \<not> sha256_text (drop 7 digest) then False
        else
          let last = LastIndexByte name (CHR '':''); tagged = last > LastIndexByte name (CHR ''/'') in
          if tagged \<and> \<not> oracleImageTag (drop (nat last + 1) name) then False
          else
            let parts = Split (CHR ''/'') (if tagged then take (nat last) name else name) in
            2 \<le> length parts \<and> oracle_registry ex (hd parts) \<and> list_all oracleImagePart (tl parts))"

definition OracleConfig_Validate :: "'q externals \<Rightarrow> OracleConfig \<Rightarrow> string \<Rightarrow> string \<Rightarrow> unit result" where
  "OracleConfig_Validate ex c version mode =
     (if mode \<noteq> ''standalone'' \<and> mode \<noteq> ''cluster'' then Inl (Err ''Oracle deployment mode'')
      else if or_Edition c = ''free'' then
        checks
          [(version \<noteq> ''23.26'' \<or> mode \<noteq> ''standalone'', ''Oracle Database Free requires version 23.26 and standalone mode''),
           (or_Image c \<noteq> [] \<or> or_RegistryCredential c \<noteq> [] \<or> or_LicenseConfirmed c, ''Oracle Database Free uses the pinned image'')]
      else if or_Edition c = ''enterprise'' then
        checks
          [(version \<noteq> ''19'' \<and> version \<noteq> ''23.26'', ''Oracle Enterprise image version''),
           (\<not> or_LicenseConfirmed c, ''confirm the Oracle license''),
           (\<not> validateOracleImage ex (or_Image c), ''Oracle Enterprise image''),
           (or_RegistryCredential c \<noteq> [] \<and> (\<not> namePattern (or_RegistryCredential c) \<or> 40 < len (or_RegistryCredential c)),
            ''Oracle registry credentials'')]
      else Inl (Err ''Oracle edition''))"

definition OracleFreeQuotaGiB :: "int \<Rightarrow> int" where
  "OracleFreeQuotaGiB storage = max 0 (min 10 (storage - 8))"

section \<open>Vitess\<close>

definition VitessVersion :: string where "VitessVersion = ''23''"
definition VitessMaxTables :: int where "VitessMaxTables = 128"

definition vitessIdentifier :: "string \<Rightarrow> bool" where
  "vitessIdentifier s =
     (case s of [] \<Rightarrow> False
      | c # cs \<Rightarrow> (is_alpha c \<or> c = CHR ''_'') \<and> length cs \<le> 63
          \<and> list_all (\<lambda>d. is_alnum d \<or> d = CHR ''_'') cs)"

text \<open>A quantity between two bounds; a bound the library cannot read would panic.\<close>

definition at_least :: "'q externals \<Rightarrow> string \<Rightarrow> 'q \<Rightarrow> string \<Rightarrow> unit result" where
  "at_least ex msg q lo = bindE (MustParse ex lo) (\<lambda>l. if ex_cmp ex q l < 0 then Inl (Err msg) else Inr ())"

definition at_most :: "'q externals \<Rightarrow> string \<Rightarrow> 'q \<Rightarrow> string \<Rightarrow> unit result" where
  "at_most ex msg q hi = bindE (MustParse ex hi) (\<lambda>h. if 0 < ex_cmp ex q h then Inl (Err msg) else Inr ())"

definition quantity_between :: "'q externals \<Rightarrow> string \<Rightarrow> string \<Rightarrow> string \<Rightarrow> string \<Rightarrow> 'q result" where
  "quantity_between ex msg lo hi v =
     (case ex_parse ex v of
        None \<Rightarrow> Inl (Err msg)
      | Some q \<Rightarrow> andE (at_least ex msg q lo) (andE (at_most ex msg q hi) (Inr q)))"

definition vitess_tables :: "DBSpec \<Rightarrow> unit result" where
  "vitess_tables s =
     (case db_Vitess s of
        None \<Rightarrow> (if 1 < db_Shards s then Inl (Err ''sharded Vitess requires a routing schema'') else Inr ())
      | Some v \<Rightarrow>
          checks
            [(VitessMaxTables < len (vi_Tables v) \<or> 1 < db_Shards s \<and> vi_Tables v = [], ''sharded Vitess requires 1-128 tables''),
             (db_Shards s = 1 \<and> vi_Tables v \<noteq> [], ''single-shard Vitess does not use sharding columns''),
             (\<not> list_all (\<lambda>t. vitessIdentifier (vt_Name t) \<and> vitessIdentifier (vt_ShardingColumn t)) (vi_Tables v)
                \<or> first_dup [] (map vt_Name (vi_Tables v)), ''Vitess table names'')])"

definition validateVitessShape :: "'q externals \<Rightarrow> DBSpec \<Rightarrow> unit result" where
  "validateVitessShape ex s =
     andE (checks
       [(db_Engine s \<noteq> ''vitess'' \<or> db_Version s \<noteq> VitessVersion \<or> \<not> TLSRequired s, ''Vitess requires version 23 and required TLS''),
        (db_Mode s = ''standalone'' \<and> (db_Shards s \<noteq> 1 \<or> db_Replicas s \<noteq> 0), ''standalone Vitess''),
        (db_Mode s = ''cluster'' \<and> (db_Shards s \<notin> set [1, 2, 4, 8] \<or> db_Replicas s < 1 \<or> 5 < db_Replicas s
           \<or> MaxMembers < Members s), ''Vitess clusters''),
        (db_Mode s \<noteq> ''standalone'' \<and> db_Mode s \<noteq> ''cluster'', ''Vitess mode'')])
     (bindE (quantity_between ex ''Vitess cpu'' ''500m'' ''16'' (db_CPU s)) (\<lambda>_.
      bindE (quantity_between ex ''Vitess memory'' ''1Gi'' ''64Gi'' (db_Memory s)) (\<lambda>_.
      andE (checks [(db_StorageGiB s < 1 \<or> 1024 < db_StorageGiB s, ''Vitess storage'')])
        (vitess_tables s))))"

definition ValidateVitess :: "'q externals \<Rightarrow> DBSpec \<Rightarrow> unit result" where
  "ValidateVitess ex s =
     (case db_Vitess s of
        None \<Rightarrow> Inl (Err ''Vitess backup destination'')
      | Some v \<Rightarrow>
          if \<not> hexID (vi_BackupDestinationID v) \<or> vi_BackupDestinationRevision v < 1
          then Inl (Err ''Vitess backup destination'') else validateVitessShape ex s)"

text \<open>\<open>fmt.Sprintf("%02x", n)\<close> for a byte, and the key ranges of the shards.\<close>

definition hex_digit_char :: "int \<Rightarrow> char" where
  "hex_digit_char d = (if d < 10 then char_of (nat (48 + d)) else char_of (nat (87 + d)))"

definition hex2 :: "int \<Rightarrow> string" where
  "hex2 n = [hex_digit_char (n div 16), hex_digit_char (n mod 16)]"

definition shard_name :: "int \<Rightarrow> int \<Rightarrow> string" where
  "shard_name shards i =
     (if i \<noteq> 0 then hex2 (256 * i div shards) else []) @ ''-''
     @ (if i + 1 \<noteq> shards then hex2 (256 * (i + 1) div shards) else [])"

definition VitessShardNames :: "DBSpec \<Rightarrow> string list" where
  "VitessShardNames s =
     (if db_Engine s \<noteq> ''vitess'' \<or> db_Shards s \<notin> set [1, 2, 4, 8] then []
      else if db_Shards s = 1 then [''-'']
      else map (shard_name (db_Shards s)) [0..db_Shards s - 1])"

section \<open>Validate\<close>

definition engine_checks :: "'q externals \<Rightarrow> DBSpec \<Rightarrow> unit result" where
  "engine_checks ex s =
     (let cluster = (db_Mode s = ''cluster''); odd_voters = (db_Replicas s \<noteq> 2 \<and> db_Replicas s \<noteq> 4 \<and> db_Replicas s \<noteq> 6) in
      if db_Engine s = ''postgresql'' then
        checks
          [(db_Version s \<noteq> ''17'' \<and> db_Version s \<noteq> ''18'', ''PostgreSQL version''),
           (db_Shards s \<noteq> 1, ''PostgreSQL uses one primary, not shards''),
           (cluster \<and> (db_Replicas s < 1 \<or> 6 < db_Replicas s), ''PostgreSQL clusters require 1-6 replicas'')]
      else if db_Engine s = ''redis'' then
        checks
          [(db_Version s \<noteq> ''8'', ''Redis version''),
           (cluster \<and> (db_Shards s < 3 \<or> 16 < db_Shards s \<or> db_Replicas s < 1 \<or> 2 < db_Replicas s), ''Redis clusters'')]
      else if db_Engine s = ''mysql'' then
        checks
          [(db_Version s \<noteq> ''8.4'' \<or> db_Shards s \<noteq> 1 \<or> \<not> TLSRequired s, ''MySQL shape''),
           (cluster \<and> odd_voters, ''MySQL clusters'')]
      else if db_Engine s = ''mongodb'' then
        checks
          [(db_Version s \<noteq> ''8.0'' \<or> db_Shards s \<noteq> 1 \<or> \<not> TLSRequired s, ''MongoDB shape''),
           (cluster \<and> odd_voters, ''MongoDB clusters'')]
      else if db_Engine s = ''clickhouse'' then
        checks
          [(db_Version s \<noteq> ''26.3'' \<or> \<not> TLSRequired s, ''ClickHouse shape''),
           (cluster \<and> (db_Shards s < 1 \<or> 8 < db_Shards s \<or> db_Replicas s < 1 \<or> 5 < db_Replicas s), ''ClickHouse clusters'')]
      else if db_Engine s = ''vitess'' then ValidateVitess ex s
      else if db_Engine s = ''oracle'' then
        (case db_Oracle s of
           None \<Rightarrow> Inl (Err ''Oracle shape'')
         | Some o' \<Rightarrow>
             if db_Shards s \<noteq> 1 \<or> \<not> TLSRequired s then Inl (Err ''Oracle shape'')
             else andE (OracleConfig_Validate ex o' (db_Version s) (db_Mode s))
               (checks [(cluster \<and> (db_Replicas s < 1 \<or> 5 < db_Replicas s), ''Oracle Data Guard'')]))
      else if db_Engine s = ''duckdb'' then ValidateMyDuck s
      else Inl (Err ''engine''))"

definition resource_checks :: "'q externals \<Rightarrow> DBSpec \<Rightarrow> unit result" where
  "resource_checks ex s =
     bindE (quantity_between ex ''cpu'' ''100m'' ''16'' (db_CPU s)) (\<lambda>cpu.
     bindE (quantity_between ex ''memory'' ''128Mi'' ''64Gi'' (db_Memory s)) (\<lambda>memory.
     andE (if db_Engine s = ''mysql'' \<or> db_Engine s = ''mongodb''
           then andE (at_least ex ''engine minimum'' cpu ''500m'') (at_least ex ''engine minimum'' memory ''1Gi'')
           else Inr ())
     (andE (if db_Engine s = ''duckdb'' then at_least ex ''engine minimum'' memory ''512Mi'' else Inr ())
     (andE (if db_Engine s = ''clickhouse''
            then andE (at_least ex ''engine minimum'' cpu ''500m'') (at_least ex ''engine minimum'' memory ''2Gi'')
            else Inr ())
     (andE (if db_Engine s = ''oracle''
            then andE (at_least ex ''engine minimum'' cpu ''1'') (andE (at_least ex ''engine minimum'' memory ''4Gi'')
              (checks [(db_StorageGiB s < 10, ''engine minimum'')]))
            else Inr ())
       (checks [(db_StorageGiB s < 1 \<or> 1024 < db_StorageGiB s, ''storage_gib'')]))))))"

definition DBSpec_Validate :: "'q externals \<Rightarrow> DBSpec \<Rightarrow> unit result" where
  "DBSpec_Validate ex s =
     andE (validatePostgres s)
     (andE (checks
        [(db_SchemaVersion s \<noteq> 1, ''schema_version''),
         (\<not> namePattern (db_Name s), ''name''),
         (db_Mode s \<noteq> ''standalone'' \<and> db_Mode s \<noteq> ''cluster'', ''mode''),
         (db_TLS s \<noteq> None \<and> \<not> TLSRequired s, ''tls.mode'')])
     (andE (case db_ClickHouse s of None \<Rightarrow> Inr () | Some c \<Rightarrow> validateClickHouseAccess s c)
     (andE (checks
        [(db_Engine s \<noteq> ''oracle'' \<and> db_Oracle s \<noteq> None, ''oracle configuration belongs only to Oracle databases''),
         (db_Engine s \<noteq> ''vitess'' \<and> db_Vitess s \<noteq> None, ''vitess configuration belongs only to Vitess databases'')])
     (andE (Placement_Validate ex (db_Placement s) (db_Mode s) (PlacementDomains s))
     (andE (engine_checks ex s)
     (andE (checks
        [(db_Mode s = ''standalone'' \<and> (db_Replicas s \<noteq> 0 \<or> db_Shards s \<noteq> 1), ''standalone databases''),
         (MaxMembers < Members s, ''members'')])
     (andE (ValidatePooling s) (resource_checks ex s))))))))"

end
