(* ===== verification/Database_Plan.thy ===== *)
theory Database_Plan
  imports Database_Spec
begin

text \<open>
  Managed databases: what the controller has observed, and the plan of a capacity change
  (internal/database/model.go, allocation.go). A time is an \<open>int\<close>, nanoseconds since Go's zero
  time; the observation keeps the fields that the plans read.
\<close>

type_synonym time = int

definition sec :: int where "sec = 1000000000"
definition minute :: int where "minute = 60 * sec"
definition hour :: int where "hour = 60 * minute"

definition ObservationMaxAge :: int where "ObservationMaxAge = 30 * sec"
definition ReviewLifetime :: int where "ReviewLifetime = 10 * minute"
definition BackupMaxAge :: int where "BackupMaxAge = hour"

section \<open>Observation and resource\<close>

record TLSObservation =
  to_Verified :: bool
  to_PlaintextRejected :: bool
  to_Fingerprint :: string

record Member =
  me_Name :: string
  me_UID :: string
  me_Ready :: bool

record Endpoint =
  ep_Purpose :: string
  ep_Host :: string
  ep_Port :: int

record Observation =
  ob_TLS :: "TLSObservation option"
  ob_ObservedAt :: time
  ob_Revision :: int
  ob_Status :: string
  ob_Members :: "Member list"
  ob_Endpoints :: "Endpoint list"
  ob_Primary :: string
  ob_SlotsAssigned :: int
  ob_SlotsHealthy :: bool
  ob_TopologyFingerprint :: string

record Recovery =
  rc_RestoredAt :: "time option"
  rc_InspectedAt :: "time option"

record Resource =
  rs_Recovery :: "Recovery option"
  rs_ID :: string
  rs_Project :: string
  rs_Environment :: string
  rs_Revision :: int
  rs_Spec :: DBSpec
  rs_Status :: string
  rs_Observation :: Observation

definition Fresh :: "Observation \<Rightarrow> time \<Rightarrow> int \<Rightarrow> bool" where
  "Fresh o' now revision =
     (ob_ObservedAt o' \<noteq> 0 \<and> \<not> now < ob_ObservedAt o' \<and> now - ob_ObservedAt o' \<le> ObservationMaxAge
      \<and> ob_Revision o' = revision)"

section \<open>Plan of a capacity change\<close>

record BackupEvidence =
  be_ArtifactID :: string
  be_DatabaseID :: string
  be_Revision :: int
  be_CapturedAt :: time
  be_VerifiedAt :: time
  be_SHA256 :: string

record ResizePlan =
  rp_Current :: DBSpec
  rp_Proposed :: DBSpec
  rp_ExpectedRevision :: int
  rp_TopologyFingerprint :: string
  rp_Backup :: "BackupEvidence option"
  rp_BlockedReasons :: "string list"
  rp_Warnings :: "string list"
  rp_ExpiresAt :: time
  rp_Strategy :: string
  rp_ExpectedInterruption :: string
  rp_PreviousPrimary :: string

definition resize_strategy :: "DBSpec \<Rightarrow> string" where
  "resize_strategy s =
     (if db_Engine s = ''mysql'' \<or> db_Engine s = ''mongodb'' then ''controller-managed replica replacement''
      else if db_Engine s = ''redis'' then ''online resharding and replica reconciliation''
      else ''controller-managed rolling change'')"

definition resize_interruption :: "DBSpec \<Rightarrow> string" where
  "resize_interruption s =
     (if db_Engine s = ''mysql'' \<or> db_Engine s = ''mongodb''
      then ''Availability can change while replicas catch up. A controller-elected primary change can close connections.''
      else if db_Engine s = ''redis''
      then ''Resharding can increase latency or interrupt requests. Cluster-aware clients must refresh routing and retry safely.''
      else ''Availability can change during member replacement. Connections can close when a primary member changes; applications must reconnect.'')"

definition same_capacity :: "DBSpec \<Rightarrow> DBSpec \<Rightarrow> bool" where
  "same_capacity s t = (db_CPU s = db_CPU t \<and> db_Memory s = db_Memory t \<and> db_StorageGiB s = db_StorageGiB t)"

text \<open>What a capacity change may not touch, in the order of the code's checks.\<close>

definition resize_immutable :: "DBSpec \<Rightarrow> DBSpec \<Rightarrow> unit result" where
  "resize_immutable s n =
     checks
       [(db_Name s \<noteq> db_Name n \<or> db_Engine s \<noteq> db_Engine n \<or> db_Version s \<noteq> db_Version n \<or> db_Mode s \<noteq> db_Mode n,
         ''name, engine, version and mode are immutable''),
        (\<not> Placement_Equal (db_Placement s) (db_Placement n), ''placement is immutable''),
        (db_TLS s \<noteq> db_TLS n, ''TLS policy is immutable''),
        (db_Pooling s \<noteq> db_Pooling n, ''pooling configuration is immutable''),
        (CredentialUsername s \<noteq> CredentialUsername n \<or> LogicalDatabase s \<noteq> LogicalDatabase n,
         ''database name and login are immutable''),
        (db_Oracle s \<noteq> db_Oracle n, ''Oracle edition, image and entitlement are immutable''),
        (db_Engine s = ''oracle'' \<and> \<not> DBSpec_Equal s n, ''Oracle capacity is fixed at creation''),
        (db_Engine s = ''duckdb'' \<and> \<not> DBSpec_Equal s n, ''MyDuck capacity is fixed at creation''),
        (db_Engine s = ''mysql'' \<and> \<not> same_capacity s n, ''MySQL member resources are immutable''),
        (db_Engine s = ''mongodb'' \<and> \<not> same_capacity s n, ''MongoDB member resources are fixed at creation''),
        (db_Engine s = ''clickhouse'' \<and> \<not> clickHouseSameCapacity s n, ''ClickHouse capacity is fixed at creation''),
        (ClickHouseTenantAdmin s \<and> \<not> ClickHouseTenantAdmin n, ''ClickHouse tenant administration cannot be disabled in place''),
        (db_Engine s = ''vitess'' \<and> \<not> DBSpec_Equal s n, ''Vitess capacity and routing schema are fixed at creation''),
        (db_StorageGiB n < db_StorageGiB s, ''database volumes cannot shrink'')]"

definition reshards :: "DBSpec \<Rightarrow> DBSpec \<Rightarrow> bool" where
  "reshards s n = (db_Engine s = ''redis'' \<and> db_Shards s \<noteq> db_Shards n)"

definition backup_missing :: "Resource \<Rightarrow> BackupEvidence option \<Rightarrow> time \<Rightarrow> bool" where
  "backup_missing d evidence now =
     (case evidence of
        None \<Rightarrow> True
      | Some e \<Rightarrow>
          be_DatabaseID e \<noteq> rs_ID d \<or> be_Revision e \<noteq> rs_Revision d \<or> be_CapturedAt e = 0 \<or> now < be_CapturedAt e
          \<or> BackupMaxAge < now - be_CapturedAt e \<or> be_VerifiedAt e < be_CapturedAt e \<or> now < be_VerifiedAt e
          \<or> \<not> sha256_text (be_SHA256 e))"

definition slots_unhealthy :: "Observation \<Rightarrow> bool" where
  "slots_unhealthy o' = (\<not> ob_SlotsHealthy o' \<or> ob_SlotsAssigned o' \<noteq> 16384 \<or> ob_TopologyFingerprint o' = [])"

definition resize_blocked :: "Resource \<Rightarrow> DBSpec \<Rightarrow> BackupEvidence option \<Rightarrow> time \<Rightarrow> string list" where
  "resize_blocked d n evidence now =
     (if rs_Status d \<noteq> ''ready'' \<or> ob_Status (rs_Observation d) \<noteq> ''ready'' \<or> \<not> Fresh (rs_Observation d) now (rs_Revision d)
      then [''A recent healthy observation is required.''] else [])
     @ (if reshards (rs_Spec d) n \<and> slots_unhealthy (rs_Observation d)
        then [''Every Redis slot must have exactly one healthy owner, with no migration in progress.''] else [])
     @ (if reshards (rs_Spec d) n \<and> backup_missing d evidence now
        then [''A verified backup of this database revision captured within the last hour is required.''] else [])"

definition resize_warnings :: "DBSpec \<Rightarrow> DBSpec \<Rightarrow> string list" where
  "resize_warnings s n =
     (if \<not> ClickHouseTenantAdmin s \<and> ClickHouseTenantAdmin n
      then [''The application login will manage SQL users and quotas on this dedicated ClickHouse instance. It may delegate SELECT on app.*. Data backups exclude tenant users, quotas and row policies; provision them again after restore.''] else [])
     @ (if reshards s n
        then [''Redis Cluster needs a cluster-aware client. Resharding moves live data and can temporarily increase latency.'',
              ''Redis backups preserve values and expiry consistently per shard, not in one transaction across shards.''] else [])"

text \<open>The plan that the code returns beside an error is dropped by its callers.\<close>

definition PlanResize ::
  "'q externals \<Rightarrow> Resource \<Rightarrow> DBSpec \<Rightarrow> BackupEvidence option \<Rightarrow> time \<Rightarrow> ResizePlan result" where
  "PlanResize ex d n evidence now =
     (let s = rs_Spec d in
      andE (DBSpec_Validate ex n) (andE (resize_immutable s n)
        (Inr \<lparr>rp_Current = s, rp_Proposed = n, rp_ExpectedRevision = rs_Revision d,
              rp_TopologyFingerprint = ob_TopologyFingerprint (rs_Observation d), rp_Backup = evidence,
              rp_BlockedReasons = resize_blocked d n evidence now, rp_Warnings = resize_warnings s n,
              rp_ExpiresAt = now + ReviewLifetime, rp_Strategy = resize_strategy s,
              rp_ExpectedInterruption = resize_interruption s, rp_PreviousPrimary = ob_Primary (rs_Observation d)\<rparr>)))"

section \<open>Reserved processor capacity\<close>

text \<open>\<open>cpuMilli\<close>: \<open>MustParse\<close>, then the library's \<open>MilliValue\<close>, the parameter \<open>milli\<close>.\<close>

definition cpuMilli :: "'q externals \<Rightarrow> ('q \<Rightarrow> int) \<Rightarrow> string \<Rightarrow> int result" where
  "cpuMilli ex milli v = bindE (MustParse ex v) (\<lambda>q. Inr (milli q))"

definition add_cpu :: "'q externals \<Rightarrow> ('q \<Rightarrow> int) \<Rightarrow> bool \<Rightarrow> (string \<times> int) list \<Rightarrow> int \<Rightarrow> int result" where
  "add_cpu ex milli on terms sofar =
     (if on then foldE (\<lambda>t (v, n). bindE (cpuMilli ex milli v) (\<lambda>m. Inr (t + m * n))) sofar terms else Inr sofar)"

definition PoolerCPU :: string where "PoolerCPU = ''250m''"
definition MySQLSidecarCPU :: string where "MySQLSidecarCPU = ''100m''"
definition MySQLRouterCPU :: string where "MySQLRouterCPU = ''100m''"
definition ClickHouseKeeperCPU :: string where "ClickHouseKeeperCPU = ''250m''"
definition OracleFreeOperatorCPU :: string where "OracleFreeOperatorCPU = ''100m''"
definition OracleBrokerCPU :: string where "OracleBrokerCPU = ''100m''"
definition VitessTabletCPU :: string where "VitessTabletCPU = ''100m''"
definition VitessGatewayCPU :: string where "VitessGatewayCPU = ''250m''"
definition VitessControlCPU :: string where "VitessControlCPU = ''500m''"
definition VitessTopologyCPU :: string where "VitessTopologyCPU = ''100m''"
definition VitessOperatorCPU :: string where "VitessOperatorCPU = ''100m''"
definition VitessBackupControllerCPU :: string where "VitessBackupControllerCPU = ''100m''"

definition oracle_free :: "DBSpec \<Rightarrow> bool" where
  "oracle_free s =
     (db_Engine s = ''oracle'' \<and> (case db_Oracle s of None \<Rightarrow> False | Some o' \<Rightarrow> or_Edition o' = ''free''))"

definition CPUReservationMilli :: "'q externals \<Rightarrow> ('q \<Rightarrow> int) \<Rightarrow> DBSpec \<Rightarrow> int result" where
  "CPUReservationMilli ex milli s =
     andE (DBSpec_Validate ex s)
     (bindE (add_cpu ex milli True [(db_CPU s, Members s + 1)] 0) (\<lambda>t.
      bindE (add_cpu ex milli (0 < PoolerInstances s) [(PoolerCPU, PoolerInstances s + PoolerRoutes s)] t) (\<lambda>t.
      bindE (add_cpu ex milli (db_Engine s = ''mysql'')
               [(MySQLSidecarCPU, Members s + 1), (MySQLRouterCPU, RouterInstances s + 1)] t) (\<lambda>t.
      bindE (Inr (if db_Engine s = ''mongodb'' then t + 100 * (Members s + 1) else t)) (\<lambda>t.
      bindE (add_cpu ex milli (0 < KeeperInstances s) [(ClickHouseKeeperCPU, KeeperInstances s + 1)] t) (\<lambda>t.
      bindE (add_cpu ex milli (db_Engine s = ''vitess'')
               [(VitessTabletCPU, Members s + 1), (VitessGatewayCPU, VitessGateways s + 1),
                (VitessControlCPU, VitessOrchestrators s + 2), (VitessTopologyCPU, VitessTopologyMembers s + 1),
                (VitessOperatorCPU, 2), (VitessBackupControllerCPU, 1),
                (db_CPU s, 2 * db_Shards s), (VitessTabletCPU, 2 * db_Shards s)] t) (\<lambda>t.
      bindE (add_cpu ex milli (oracle_free s) [(OracleFreeOperatorCPU, 2)] t) (\<lambda>t.
        add_cpu ex milli True [(OracleBrokerCPU, OracleBrokerInstances s)] t))))))))"

end
