(* ===== verification/Database_Properties.thy ===== *)
theory Database_Properties
  imports Database_Plan Go_Net
begin

text \<open>
  Managed databases: what a validated configuration looks like and what a capacity plan leaves
  alone, engine by engine, then the properties of configurations and plans with the concrete
  databases that their witnesses use.
\<close>

section \<open>Configuration\<close>

text \<open>The shape of a cluster that its engine supports: one primary with replicas, or shards.\<close>

definition engine_shape :: "string \<Rightarrow> string \<Rightarrow> int \<Rightarrow> int \<Rightarrow> bool" where
  "engine_shape engine mode shards replicas =
     (if mode = ''standalone'' then shards = 1 \<and> replicas = 0
      else if engine = ''postgresql'' then shards = 1 \<and> 1 \<le> replicas \<and> replicas \<le> 6
      else if engine = ''redis'' then 3 \<le> shards \<and> shards \<le> 16 \<and> 1 \<le> replicas \<and> replicas \<le> 2
      else if engine = ''mysql'' \<or> engine = ''mongodb'' then shards = 1 \<and> (replicas = 2 \<or> replicas = 4 \<or> replicas = 6)
      else if engine = ''clickhouse'' then 1 \<le> shards \<and> shards \<le> 8 \<and> 1 \<le> replicas \<and> replicas \<le> 5
      else if engine = ''vitess'' then (shards = 1 \<or> shards = 2 \<or> shards = 4 \<or> shards = 8) \<and> 1 \<le> replicas \<and> replicas \<le> 5
      else engine = ''oracle'' \<and> shards = 1 \<and> 1 \<le> replicas \<and> replicas \<le> 5)"

definition engines :: "string list" where
  "engines = [''postgresql'', ''redis'', ''mysql'', ''mongodb'', ''clickhouse'', ''vitess'', ''oracle'', ''duckdb'']"

lemma DBSpec_Validate_parts:
  assumes "DBSpec_Validate ex s = Inr ()"
  shows "validatePostgres s = Inr ()" "db_Mode s = ''standalone'' \<or> db_Mode s = ''cluster''"
    "db_TLS s = None \<or> TLSRequired s"
    "case db_ClickHouse s of None \<Rightarrow> True | Some c \<Rightarrow> validateClickHouseAccess s c = Inr ()"
    "db_Engine s = ''oracle'' \<or> db_Oracle s = None" "db_Engine s = ''vitess'' \<or> db_Vitess s = None"
    "Placement_Validate ex (db_Placement s) (db_Mode s) (PlacementDomains s) = Inr ()"
    "engine_checks ex s = Inr ()"
    "db_Mode s = ''standalone'' \<Longrightarrow> db_Replicas s = 0 \<and> db_Shards s = 1"
    "Members s \<le> MaxMembers" "ValidatePooling s = Inr ()" "resource_checks ex s = Inr ()"
  using assms unfolding DBSpec_Validate_def result_iff by (auto split: option.splits)

lemma engine_known:
  assumes "engine_checks ex s = Inr ()"
  shows "db_Engine s \<in> set engines"
  using assms unfolding engine_checks_def Let_def engines_def by (simp split: if_splits)

lemma engine_checks_shape:
  assumes "engine_checks ex s = Inr ()" "db_Mode s = ''standalone'' \<or> db_Mode s = ''cluster''"
    and "db_Mode s = ''standalone'' \<Longrightarrow> db_Replicas s = 0 \<and> db_Shards s = 1"
  shows "engine_shape (db_Engine s) (db_Mode s) (db_Shards s) (db_Replicas s)"
proof (cases "db_Mode s = ''standalone''")
  case False
  then have "db_Mode s = ''cluster''" using assms(2) by simp
  then show ?thesis
    using assms(1) unfolding engine_checks_def Let_def engine_shape_def ValidateVitess_def validateVitessShape_def
      ValidateMyDuck_def
    by (auto simp: result_iff split: if_splits option.splits)
qed (use assms(3) in \<open>simp add: engine_shape_def\<close>)

lemma vitess_checks:
  assumes "ValidateVitess ex s = Inr ()"
  shows "TLSRequired s \<and> db_Vitess s \<noteq> None"
  using assms unfolding ValidateVitess_def validateVitessShape_def
  by (cases "db_Vitess s") (simp_all add: result_iff)

lemma engine_checks_tls:
  assumes checked: "engine_checks ex s = Inr ()" and "db_Engine s \<noteq> ''postgresql''" "db_Engine s \<noteq> ''redis''"
  shows "TLSRequired s"
proof -
  have "db_Engine s \<in> set [''mysql'', ''mongodb'', ''clickhouse'', ''vitess'', ''oracle'', ''duckdb'']"
    using engine_known [OF checked] assms(2,3) unfolding engines_def by simp
  then consider "db_Engine s = ''mysql''" | "db_Engine s = ''mongodb''" | "db_Engine s = ''clickhouse''"
    | "db_Engine s = ''vitess''" | "db_Engine s = ''oracle''" | "db_Engine s = ''duckdb''" by auto
  then show ?thesis
    using checked vitess_checks [of ex s]
    by cases (simp_all add: engine_checks_def ValidateMyDuck_def result_iff split: option.splits)
qed

lemma engine_checks_config:
  assumes "engine_checks ex s = Inr ()"
  shows "(db_Engine s = ''oracle'' \<longrightarrow> db_Oracle s \<noteq> None) \<and> (db_Engine s = ''vitess'' \<longrightarrow> db_Vitess s \<noteq> None)"
proof (intro conjI impI)
  show "db_Oracle s \<noteq> None" if "db_Engine s = ''oracle''"
    using assms that by (cases "db_Oracle s") (simp_all add: engine_checks_def)
  show "db_Vitess s \<noteq> None" if "db_Engine s = ''vitess''"
    using assms that vitess_checks [of ex s] by (simp add: engine_checks_def)
qed

lemma resource_checks_storage: "resource_checks ex s = Inr () \<Longrightarrow> 1 \<le> db_StorageGiB s \<and> db_StorageGiB s \<le> 1024"
  unfolding resource_checks_def result_iff by auto

lemma shape_counts:
  assumes "engine_shape engine mode shards replicas"
  shows "1 \<le> shards" "0 \<le> replicas" "mode \<noteq> ''standalone'' \<Longrightarrow> 1 \<le> replicas"
  using assms unfolding engine_shape_def by (simp_all split: if_split_asm) linarith+

lemma members_bounds:
  assumes "1 \<le> (shards :: int)" "k \<le> replicas" "0 \<le> k"
  shows "1 + k \<le> shards * (1 + replicas)"
  using mult_mono [of 1 shards "1 + k" "1 + replicas"] assms by simp

lemma placement_domains_members: "Members s \<le> PlacementDomains s"
  unfolding PlacementDomains_def by (auto split: option.splits)

section \<open>Capacity plan\<close>



section \<open>Concrete databases\<close>

text \<open>A reading of quantities in thousandths: \<open>250m\<close>, \<open>2\<close>, \<open>512Mi\<close>, \<open>4Gi\<close>.\<close>

definition units_parse :: "string \<Rightarrow> int option" where
  "units_parse v =
     (case Atoi (takeWhile is_digit v) of
        None \<Rightarrow> None
      | Some n \<Rightarrow>
          (let u = dropWhile is_digit v in
           if u = ''m'' then Some n else if u = [] then Some (1000 * n)
           else if u = ''Mi'' then Some (1000 * 1048576 * n) else if u = ''Gi'' then Some (1000 * 1073741824 * n)
           else None))"

definition units :: "int externals" where
  "units = \<lparr>ex_parse = units_parse, ex_cmp = (\<lambda>a b. a - b), ex_add = (+), ex_show = Itoa,
     ex_dns_label = (\<lambda>_. True), ex_dns_subdomain = (\<lambda>_. True), ex_port_name = (\<lambda>_. True), ex_cron = (\<lambda>_. True),
     ex_location = (\<lambda>_. True), ex_yaml = (\<lambda>_. None), ex_idna = Some\<rparr>"

definition demo_redis :: "int \<Rightarrow> DBSpec" where
  "demo_redis shards = \<lparr>db_SchemaVersion = 1, db_Name = ''cache'', db_Engine = ''redis'', db_Version = ''8'',
     db_Mode = ''cluster'', db_Replicas = 1, db_Shards = shards, db_CPU = ''1'', db_Memory = ''1Gi'', db_StorageGiB = 10,
     db_Placement = \<lparr>pl_Spread = ''nodes'', pl_NodeNames = []\<rparr>, db_TLS = Some \<lparr>tls_Mode = ''required''\<rparr>,
     db_Pooling = None, db_Postgres = None, db_ClickHouse = None, db_Oracle = None, db_Vitess = None\<rparr>"

definition demo_vitess :: DBSpec where
  "demo_vitess = (demo_redis 4)\<lparr>db_Engine := ''vitess'', db_Version := ''23'',
     db_Vitess := Some \<lparr>vi_Tables = [\<lparr>vt_Name = ''orders'', vt_ShardingColumn = ''customer''\<rparr>],
       vi_BackupDestinationID = replicate 32 (CHR ''b''), vi_BackupDestinationRevision = 2\<rparr>\<rparr>"




lemma demo_redis_valid: "DBSpec_Validate units (demo_redis 4) = Inr ()"
  by code_simp

lemma demo_vitess_valid: "DBSpec_Validate units demo_vitess = Inr ()"
  by code_simp


section \<open>Properties\<close>

text \<open>
  C31. The type of a database: every configuration that validation accepts has the shape its engine
  supports. It has one member alone or, as a cluster, at least two; never more than 48, and 1 to
  1024 GiB each. Every engine but PostgreSQL and Redis has TLS; MySQL and MongoDB clusters have an
  odd number of voters; and the part for an engine is there only with that engine, and always
  there for Oracle and Vitess.
\<close>

theorem validated_database_shape:
  assumes "DBSpec_Validate ex s = Inr ()"
  shows "db_Engine s \<in> set engines
    \<and> engine_shape (db_Engine s) (db_Mode s) (db_Shards s) (db_Replicas s)
    \<and> 1 \<le> Members s \<and> Members s \<le> MaxMembers \<and> (Members s = 1 \<longleftrightarrow> db_Mode s = ''standalone'')
    \<and> (db_Engine s \<noteq> ''postgresql'' \<and> db_Engine s \<noteq> ''redis'' \<or> db_Pooling s \<noteq> None \<longrightarrow> TLSRequired s)
    \<and> (db_Pooling s \<noteq> None \<or> db_Postgres s \<noteq> None \<longrightarrow> db_Engine s = ''postgresql'')
    \<and> (db_ClickHouse s \<noteq> None \<longrightarrow> db_Engine s = ''clickhouse'')
    \<and> (db_Oracle s \<noteq> None \<longleftrightarrow> db_Engine s = ''oracle'') \<and> (db_Vitess s \<noteq> None \<longleftrightarrow> db_Engine s = ''vitess'')
    \<and> 1 \<le> db_StorageGiB s \<and> db_StorageGiB s \<le> 1024"
proof -
  note parts = DBSpec_Validate_parts [OF assms]
  have shape: "engine_shape (db_Engine s) (db_Mode s) (db_Shards s) (db_Replicas s)"
    using parts(2,9) by (intro engine_checks_shape [OF parts(8)])
  note counts = shape_counts [OF shape]
  have bounds: "1 \<le> Members s" "db_Mode s \<noteq> ''standalone'' \<Longrightarrow> 2 \<le> Members s"
    "db_Mode s = ''standalone'' \<Longrightarrow> Members s = 1"
    using members_bounds [OF counts(1,2)] members_bounds [OF counts(1), of 1 "db_Replicas s"] counts(3) parts(9)
    by (simp_all add: Members_def)
  have pooled: "db_Engine s = ''postgresql'' \<and> TLSRequired s" if "db_Pooling s \<noteq> None"
    using that parts(11) by (auto simp: ValidatePooling_def result_iff)
  have named: "db_Engine s = ''postgresql''" if "db_Postgres s \<noteq> None"
    using that parts(1) by (auto simp: validatePostgres_def result_iff)
  have access: "db_Engine s = ''clickhouse''" if "db_ClickHouse s \<noteq> None"
    using that parts(4) by (auto simp: validateClickHouseAccess_def split: if_splits)
  have tls: "db_Engine s \<noteq> ''postgresql'' \<and> db_Engine s \<noteq> ''redis'' \<or> db_Pooling s \<noteq> None \<longrightarrow> TLSRequired s"
    using engine_checks_tls [OF parts(8)] pooled by blast
  have own: "db_Pooling s \<noteq> None \<or> db_Postgres s \<noteq> None \<longrightarrow> db_Engine s = ''postgresql''"
    using pooled named by blast
  note config = engine_checks_config [OF parts(8)]
  have licensed: "db_Oracle s \<noteq> None \<longleftrightarrow> db_Engine s = ''oracle''" using config parts(5) by argo
  have sharded: "db_Vitess s \<noteq> None \<longleftrightarrow> db_Engine s = ''vitess''" using config parts(6) by argo
  have single: "Members s = 1 \<longleftrightarrow> db_Mode s = ''standalone''"
    using bounds(2,3) by fastforce
  show ?thesis
    using engine_known [OF parts(8)] shape bounds(1) parts(10) single tls own licensed sharded access
      resource_checks_storage [OF parts(12)] by (intro conjI) (assumption | rule tls own licensed sharded | simp)+
qed

theorem validated_database_shape_witness:
  "Members (demo_redis 4) = 8 \<and> db_Engine (demo_redis 4) \<in> set engines"
  using validated_database_shape [OF demo_redis_valid] by (simp add: Members_def demo_redis_def)


text \<open>A key range: its start and end, empty for no bound; \<open>40-80\<close> holds the bytes 64 to 127.\<close>

definition hex_byte :: "string \<Rightarrow> int" where
  "hex_byte v = foldl (\<lambda>n c. 16 * n + (case hex_value c of Some d \<Rightarrow> int d | None \<Rightarrow> 0)) 0 v"

definition key_range_holds :: "string \<Rightarrow> int \<Rightarrow> bool" where
  "key_range_holds name b =
     (let (lo, hi, _) = Cut name (CHR ''-'') in
      (lo = [] \<or> hex_byte lo \<le> b) \<and> (hi = [] \<or> b < hex_byte hi))"

lemma vitess_names:
  "map (shard_name 2) [0..1] = [''-80'', ''80-'']"
  "map (shard_name 4) [0..3] = [''-40'', ''40-80'', ''80-c0'', ''c0-'']"
  "map (shard_name 8) [0..7] = [''-20'', ''20-40'', ''40-60'', ''60-80'', ''80-a0'', ''a0-c0'', ''c0-e0'', ''e0-'']"
  by code_simp+

lemma key_ranges [simp]:
  "key_range_holds ''-'' b" "key_range_holds ''-80'' b = (b < 128)" "key_range_holds ''80-'' b = (128 \<le> b)"
  "key_range_holds ''-40'' b = (b < 64)" "key_range_holds ''40-80'' b = (64 \<le> b \<and> b < 128)"
  "key_range_holds ''80-c0'' b = (128 \<le> b \<and> b < 192)" "key_range_holds ''c0-'' b = (192 \<le> b)"
  "key_range_holds ''-20'' b = (b < 32)" "key_range_holds ''20-40'' b = (32 \<le> b \<and> b < 64)"
  "key_range_holds ''40-60'' b = (64 \<le> b \<and> b < 96)" "key_range_holds ''60-80'' b = (96 \<le> b \<and> b < 128)"
  "key_range_holds ''80-a0'' b = (128 \<le> b \<and> b < 160)" "key_range_holds ''a0-c0'' b = (160 \<le> b \<and> b < 192)"
  "key_range_holds ''c0-e0'' b = (192 \<le> b \<and> b < 224)" "key_range_holds ''e0-'' b = (224 \<le> b)"
  by (simp_all add: key_range_holds_def Cut_def hex_byte_def hex_value_def is_digit_def code_def)

text \<open>
  The shards of a Vitess database partition its key space: whatever the engine's shard count,
  there is one name per shard, and the first byte of every keyspace id lies in exactly one of the
  key ranges that the names give.
\<close>

theorem vitess_shards_partition:
  assumes "DBSpec_Validate ex s = Inr ()" "db_Engine s = ''vitess''"
  shows "len (VitessShardNames s) = db_Shards s
    \<and> length (filter (\<lambda>name. key_range_holds name b) (VitessShardNames s)) = 1"
proof -
  note parts = DBSpec_Validate_parts [OF assms(1)]
  have "engine_shape (db_Engine s) (db_Mode s) (db_Shards s) (db_Replicas s)"
    using parts(2,9) by (intro engine_checks_shape [OF parts(8)])
  then have k: "db_Shards s \<in> set [1, 2, 4, 8]"
    using assms(2) by (simp add: engine_shape_def split: if_split_asm)
  then consider "db_Shards s = 1" | "db_Shards s = 2" | "db_Shards s = 4" | "db_Shards s = 8" by auto
  then show ?thesis
    using assms(2) by cases (simp_all add: VitessShardNames_def vitess_names)
qed

theorem vitess_shards_partition_witness:
  "VitessShardNames demo_vitess = [''-40'', ''40-80'', ''80-c0'', ''c0-'']
     \<and> length (filter (\<lambda>name. key_range_holds name 127) (VitessShardNames demo_vitess)) = 1"
proof -
  have names: "VitessShardNames demo_vitess = [''-40'', ''40-80'', ''80-c0'', ''c0-'']" by code_simp
  have "db_Engine demo_vitess = ''vitess''" by (simp add: demo_vitess_def)
  from vitess_shards_partition [OF demo_vitess_valid this, of 127] names show ?thesis by simp
qed

end
