(* ===== verification/Database_Public.thy ===== *)
theory Database_Public
  imports Database_Plan Go_Net Spec_Json Go_Sha256 Go_Prefix
begin

text \<open>
  Public endpoints of managed databases (internal/database/public_endpoint.go): the routes of each
  engine, whether its endpoints are qualified, the client's part of a listener, the operator's
  allocations, one per published
  member, and the review of a publication, which binds the route, the allocation, the observed
  topology and the TLS identity. Addresses and CIDR notation are those of Go_Net; a
  review that comes with an error is dropped by every caller, so a plan is a result. The properties of
  allocations and reviews follow.
\<close>

definition MaxPublicEndpoints :: int where "MaxPublicEndpoints = 4"
definition MaxPublicEndpointNames :: int where "MaxPublicEndpointNames = MaxPublicEndpoints * MaxMembers"
definition PublicEndpointReviewLifetime :: int where "PublicEndpointReviewLifetime = 10 * minute"

definition mysqlPublicEndpointsQualified :: bool where "mysqlPublicEndpointsQualified = False"
definition clickhousePublicEndpointsQualified :: bool where "clickhousePublicEndpointsQualified = False"
definition oracleFreePublicEndpointsQualified :: bool where "oracleFreePublicEndpointsQualified = False"
definition mongodbPublicEndpointsQualified :: bool where "mongodbPublicEndpointsQualified = False"
definition redisPublicEndpointsQualified :: bool where "redisPublicEndpointsQualified = False"
definition vitessPublicEndpointsQualified :: bool where "vitessPublicEndpointsQualified = False"
definition myduckPublicEndpointsQualified :: bool where "myduckPublicEndpointsQualified = False"

section \<open>Routes\<close>

record PublicEndpointRoute =
  ro_Purpose :: string
  ro_Protocol :: string
  ro_Routing :: string
  ro_ReadOnly :: bool
  ro_Pooled :: bool
  ro_BackendService :: string
  ro_BackendPort :: int
  ro_BackendPortName :: string
  ro_BackendUser :: string
  ro_BackendDatabase :: string

definition Route_Equal :: "PublicEndpointRoute \<Rightarrow> PublicEndpointRoute \<Rightarrow> bool" where
  "Route_Equal r o' =
     (ro_Purpose r = ro_Purpose o' \<and> ro_Protocol r = ro_Protocol o' \<and> ro_Routing r = ro_Routing o'
      \<and> ro_ReadOnly r = ro_ReadOnly o' \<and> ro_Pooled r = ro_Pooled o')"

definition fingerprint_values :: "PublicEndpointRoute \<Rightarrow> json list" where
  "fingerprint_values r =
     [JStr (ro_Purpose r), JStr (ro_Protocol r), JStr (ro_Routing r), JBool (ro_ReadOnly r), JBool (ro_Pooled r),
      JStr (ro_BackendService r), JInt (ro_BackendPort r), JStr (ro_BackendPortName r)]
     @ (if ro_BackendUser r \<noteq> [] \<or> ro_BackendDatabase r \<noteq> []
        then [JStr (ro_BackendUser r), JStr (ro_BackendDatabase r)] else [])"

definition Route_Fingerprint :: "PublicEndpointRoute \<Rightarrow> string" where
  "Route_Fingerprint r = hex_bytes (Sum256 (json_text (JArr (fingerprint_values r))))"

definition PublicEndpointAvailability :: "DBSpec \<Rightarrow> unit result" where
  "PublicEndpointAvailability s =
     (let e = db_Engine s in
      checks
       [(e \<noteq> ''postgresql'' \<and> e \<noteq> ''mysql'' \<and> e \<noteq> ''clickhouse'' \<and> e \<noteq> ''oracle'' \<and> e \<noteq> ''mongodb'' \<and> e \<noteq> ''redis''
           \<and> e \<noteq> ''vitess'' \<and> e \<noteq> ''duckdb'', ''public endpoints are unavailable for this database engine''),
        (\<not> TLSRequired s, ''public endpoints require database TLS''),
        (e = ''mongodb'' \<and> \<not> mongodbPublicEndpointsQualified, ''MongoDB public endpoints are unavailable''),
        (e = ''redis'' \<and> \<not> redisPublicEndpointsQualified, ''Redis public endpoints are unavailable''),
        (e = ''vitess'' \<and> \<not> vitessPublicEndpointsQualified, ''Vitess public endpoints are unavailable''),
        (e = ''duckdb'' \<and> \<not> myduckPublicEndpointsQualified, ''DuckDB (MyDuck) public endpoints are unavailable''),
        (e = ''mysql'' \<and> \<not> mysqlPublicEndpointsQualified, ''MySQL public endpoints are unavailable''),
        (e = ''clickhouse'' \<and> \<not> clickhousePublicEndpointsQualified, ''ClickHouse public endpoints are unavailable''),
        (e = ''oracle'' \<and> (\<not> oracle_free s \<or> db_Mode s \<noteq> ''standalone''),
         ''Oracle Enterprise and Data Guard public endpoints are unavailable''),
        (e = ''oracle'' \<and> \<not> oracleFreePublicEndpointsQualified, ''Oracle Free public endpoints are unavailable'')])"

definition route :: "string \<Rightarrow> string \<Rightarrow> string \<Rightarrow> string \<Rightarrow> string \<Rightarrow> int \<Rightarrow> bool \<Rightarrow> bool \<Rightarrow> PublicEndpointRoute" where
  "route purpose protocol routing service portName port readOnly pooled =
     \<lparr>ro_Purpose = purpose, ro_Protocol = protocol, ro_Routing = routing, ro_ReadOnly = readOnly, ro_Pooled = pooled,
      ro_BackendService = service, ro_BackendPort = port, ro_BackendPortName = portName, ro_BackendUser = [],
      ro_BackendDatabase = []\<rparr>"

definition as_user :: "string \<Rightarrow> string \<Rightarrow> PublicEndpointRoute \<Rightarrow> PublicEndpointRoute" where
  "as_user user database r = r\<lparr>ro_BackendUser := user, ro_BackendDatabase := database\<rparr>"

definition PublicEndpointRoutes :: "DBSpec \<Rightarrow> PublicEndpointRoute list" where
  "PublicEndpointRoutes s =
     (let e = db_Engine s in
      if e = ''postgresql'' then
        [route ''read_write'' ''postgresql'' ''direct'' ''database-rw'' ''postgresql'' 5432 False False]
        @ (if 0 < db_Replicas s
           then [route ''read_only'' ''postgresql'' ''direct'' ''database-ro'' ''postgresql'' 5432 True False] else [])
        @ (case db_Pooling s of
             None \<Rightarrow> []
           | Some p \<Rightarrow>
               [route ''pooled_read_write'' ''postgresql'' ''pgbouncer'' ''database-pool-rw'' ''postgresql'' 5432 False True]
               @ (if po_ReadOnly p \<and> 0 < db_Replicas s
                  then [route ''pooled_read_only'' ''postgresql'' ''pgbouncer'' ''database-pool-ro'' ''postgresql'' 5432 True True]
                  else []))
      else if e = ''mysql'' then
        [route ''read_write'' ''mysql'' ''mysql_router'' ''database'' ''mysql-alternate'' 6446 False False]
        @ (if 0 < db_Replicas s
           then [route ''read_only'' ''mysql'' ''mysql_router'' ''database'' ''mysql-ro'' 6447 True False] else [])
      else if e = ''vitess'' then
        [as_user ''app'' ''app@primary'' (route ''read_write'' ''mysql'' ''vitess_gateway'' ''database'' ''mysql'' 3306 False False)]
      else if e = ''duckdb'' then
        [as_user ''root'' ''app'' (route ''mysql'' ''mysql'' ''direct'' ''database'' ''mysql'' 3306 False False),
         as_user ''postgres'' ''app'' (route ''postgresql'' ''postgresql'' ''direct'' ''database'' ''postgresql'' 5432 False False)]
      else if e = ''clickhouse'' then
        [route ''native'' ''clickhouse_native'' ''direct'' ''database'' ''tcp-secure'' 9440 False False,
         route ''https'' ''https'' ''direct'' ''database'' ''https'' 8443 False False]
      else if e = ''oracle'' then
        (if oracle_free s \<and> db_Mode s = ''standalone'' \<and> db_Replicas s = 0 \<and> db_Shards s = 1
         then [as_user ''APP'' ''FREEPDB1'' (route ''read_write'' ''oracle_tcps'' ''direct'' ''database'' ''tcps'' 2484 False False)]
         else [])
      else if e = ''mongodb'' then
        [route ''read_write'' ''mongodb'' ''replica_set_horizons'' ''database-svc'' ''mongodb'' 27017 False False]
      else if e = ''redis'' then
        (if db_Mode s = ''standalone''
         then [route ''read_write'' ''redis'' ''direct'' ''database'' ''redis-client'' 6379 False False]
         else [route ''cluster'' ''redis'' ''client_address_mapping'' ''database-leader'' ''redis'' 6379 False False])
      else [])"

definition PublicEndpointRouteFor :: "DBSpec \<Rightarrow> string \<Rightarrow> PublicEndpointRoute result" where
  "PublicEndpointRouteFor s purpose =
     (case find (\<lambda>r. ro_Purpose r = purpose) (PublicEndpointRoutes s) of
        None \<Rightarrow> Inl (Err ''the selected public route is unavailable for this database'')
      | Some r \<Rightarrow> Inr r)"

record PublicEndpointCapabilities =
  pc_Engine :: string
  pc_Available :: bool
  pc_UnavailableReason :: string
  pc_Routes :: "PublicEndpointRoute list"

definition PublicEndpointCapabilitiesFor :: "DBSpec \<Rightarrow> PublicEndpointCapabilities" where
  "PublicEndpointCapabilitiesFor s =
     (case PublicEndpointAvailability s of
        Inl (Err why) \<Rightarrow> \<lparr>pc_Engine = db_Engine s, pc_Available = False, pc_UnavailableReason = why, pc_Routes = PublicEndpointRoutes s\<rparr>
      | Inr _ \<Rightarrow> \<lparr>pc_Engine = db_Engine s, pc_Available = True, pc_UnavailableReason = [], pc_Routes = PublicEndpointRoutes s\<rparr>)"

section \<open>Names and the client's listener\<close>

definition PostgreSQLPublicEndpointPurposes :: "string list" where
  "PostgreSQLPublicEndpointPurposes = [''read_write'', ''read_only'', ''pooled_read_write'', ''pooled_read_only'']"

definition publicEndpointHostPattern :: "string \<Rightarrow> bool" where
  "publicEndpointHostPattern s =
     (let labels = Split (CHR ''.'') s in 2 \<le> length labels \<and> list_all runtimeName labels)"

definition NormalizePublicEndpointNames :: "string list \<Rightarrow> string list result" where
  "NormalizePublicEndpointNames names =
     (if MaxPublicEndpointNames < len names then Inl (Err ''database public certificate names exceed their bound'')
      else andE (forE (\<lambda>n. if 253 < len n \<or> \<not> publicEndpointHostPattern n
                     then Inl (Err ''database public certificate hostname is invalid'') else Inr ()) names)
        (Inr (remdups_adj (sort names))))"

record PublicEndpointSpec =
  es_Purpose :: string
  es_SourceCIDRs :: "string list"
  es_MaxConnections :: int

definition source_network :: "string list \<Rightarrow> string \<Rightarrow> string list result" where
  "source_network seen raw =
     (if TrimSpace raw \<noteq> raw \<or> ContainsAny raw [NUL, CR, LF] then Inl (Err ''source_cidrs must use IPv4 CIDR notation'')
      else case ParsePrefix4 raw of
          None \<Rightarrow> Inl (Err ''source_cidrs must use IPv4 CIDR notation'')
        | Some p \<Rightarrow>
            let v = prefix_string (Masked p) in
            if v \<in> set seen then Inl (Err ''source_cidrs must not contain duplicate networks'') else Inr (seen @ [v]))"

definition PublicEndpointSpec_Normalize :: "PublicEndpointSpec \<Rightarrow> PublicEndpointSpec result" where
  "PublicEndpointSpec_Normalize s =
     andE (checks
       [(es_Purpose s \<notin> set PostgreSQLPublicEndpointPurposes \<and> es_Purpose s \<noteq> ''native'' \<and> es_Purpose s \<noteq> ''https''
           \<and> es_Purpose s \<noteq> ''cluster'' \<and> es_Purpose s \<noteq> ''mysql'' \<and> es_Purpose s \<noteq> ''postgresql'', ''purpose''),
        (len (es_SourceCIDRs s) < 1 \<or> 16 < len (es_SourceCIDRs s), ''source_cidrs must contain 1-16 explicit IPv4 networks'')])
     (bindE (foldE source_network [] (es_SourceCIDRs s)) (\<lambda>canonical.
        if es_MaxConnections s < 1 \<or> 256 < es_MaxConnections s then Inl (Err ''max_connections must be between 1 and 256'')
        else Inr (s\<lparr>es_SourceCIDRs := sort canonical\<rparr>)))"

definition PublicEndpointSpec_Equal :: "PublicEndpointSpec \<Rightarrow> PublicEndpointSpec \<Rightarrow> bool" where
  "PublicEndpointSpec_Equal s t =
     (case (PublicEndpointSpec_Normalize s, PublicEndpointSpec_Normalize t) of (Inr a, Inr b) \<Rightarrow> a = b | _ \<Rightarrow> False)"

section \<open>Allocations\<close>

record PublicEndpointAllocation =
  al_ID :: string
  al_Host :: string
  al_Address :: string
  al_Port :: int

record PublicEndpointMemberAllocation =
  ma_MemberName :: string
  ma_MemberUID :: string
  ma_Allocation :: PublicEndpointAllocation

record PublicEndpoint =
  pe_ID :: string
  pe_Revision :: int
  pe_Allocation :: PublicEndpointAllocation
  pe_MemberAllocations :: "PublicEndpointMemberAllocation list"

definition has_space :: "string \<Rightarrow> bool" where
  "has_space s = list_ex (\<lambda>sp. Contains s sp) space_seqs"

text \<open>\<open>ParseAddr\<close> and the checks that the address is a plain IPv4 address.\<close>

definition endpoint_address :: "string \<Rightarrow> int option" where
  "endpoint_address s =
     (case ParseAddr s of
        Some (V4 w) \<Rightarrow> if w = 0 \<or> w div 2 ^ 28 = 14 then None else Some w
      | _ \<Rightarrow> None)"

definition allocation_listener :: "PublicEndpointAllocation \<Rightarrow> (int \<times> int) option" where
  "allocation_listener a =
     (if al_ID a = [] \<or> 64 < len (al_ID a) \<or> TrimSpace (al_ID a) \<noteq> al_ID a \<or> ContainsAny (al_ID a) [NUL, CR, LF]
         \<or> 253 < len (al_Host a) \<or> \<not> publicEndpointHostPattern (al_Host a) \<or> al_Port a < 1 \<or> 65535 < al_Port a
      then None
      else map_option (\<lambda>w. (w, al_Port a)) (endpoint_address (al_Address a)))"

definition member_identity_bad :: "PublicEndpointMemberAllocation option \<Rightarrow> PublicEndpointMemberAllocation \<Rightarrow> bool" where
  "member_identity_bad previous m =
     (\<not> runtimeName (ma_MemberName m) \<or> ma_MemberUID m = [] \<or> 128 < len (ma_MemberUID m)
      \<or> has_space (ma_MemberUID m) \<or> has_control (ma_MemberUID m)
      \<or> (case previous of None \<Rightarrow> False | Some p \<Rightarrow> ma_MemberName p \<ge> ma_MemberName m))"

text \<open>The loop: the previous member, and the ids, hosts and listeners taken so far.\<close>

fun allocation_loop ::
  "bool \<Rightarrow> PublicEndpointMemberAllocation option \<Rightarrow> string list \<Rightarrow> string list \<Rightarrow> (int \<times> int) list
     \<Rightarrow> PublicEndpointMemberAllocation list \<Rightarrow> unit result" where
  "allocation_loop named previous ids hosts listeners [] = Inr ()"
| "allocation_loop named previous ids hosts listeners (m # ms) =
     (if named \<and> member_identity_bad previous m
      then Inl (Err ''database public members must have unique ordered names and immutable identities'')
      else
        let a = ma_Allocation m in
        case allocation_listener a of
          None \<Rightarrow> Inl (Err ''the operator endpoint allocation is invalid'')
        | Some l \<Rightarrow>
            if al_ID a \<in> set ids \<or> al_Host a \<in> set hosts \<or> l \<in> set listeners
            then Inl (Err ''database public members must have distinct allocations, hosts and listeners'')
            else allocation_loop named (Some m) (al_ID a # ids) (al_Host a # hosts) (l # listeners) ms)"

definition PublicEndpointAllocations :: "PublicEndpoint \<Rightarrow> PublicEndpointMemberAllocation list result" where
  "PublicEndpointAllocations e =
     (let ms = pe_MemberAllocations e in
      if ms = [] then
        (let one = [\<lparr>ma_MemberName = [], ma_MemberUID = [], ma_Allocation = pe_Allocation e\<rparr>] in
         andE (allocation_loop False None [] [] [] one) (Inr one))
      else if MaxMembers < len ms \<or> ma_Allocation (hd ms) \<noteq> pe_Allocation e
      then Inl (Err ''database public member allocations exceed their bound or disagree with the primary allocation'')
      else andE (allocation_loop True None [] [] [] ms) (Inr ms))"

definition PublicEndpointAllocationNames :: "PublicEndpoint \<Rightarrow> string list result" where
  "PublicEndpointAllocationNames e =
     bindE (PublicEndpointAllocations e) (\<lambda>ms. NormalizePublicEndpointNames (map (\<lambda>m. al_Host (ma_Allocation m)) ms))"

section \<open>Review\<close>

record PublicEndpointReview =
  rv_DatabaseID :: string
  rv_Project :: string
  rv_Environment :: string
  rv_DatabaseRevision :: int
  rv_EndpointID :: string
  rv_EndpointRevision :: int
  rv_Spec :: PublicEndpointSpec
  rv_Route :: "PublicEndpointRoute option"
  rv_RouteFingerprint :: string
  rv_Allocation :: PublicEndpointAllocation
  rv_MemberAllocations :: "PublicEndpointMemberAllocation list"
  rv_TopologyFingerprint :: string
  rv_TLSFingerprint :: string
  rv_BlockedReasons :: "string list"
  rv_Warnings :: "string list"
  rv_ExpiresAt :: time

definition MatchesRoute :: "PublicEndpointReview \<Rightarrow> PublicEndpointReview \<Rightarrow> bool" where
  "MatchesRoute r current =
     (case rv_Route current of
        None \<Rightarrow> False
      | Some c \<Rightarrow>
          (case rv_Route r of
             None \<Rightarrow> rv_RouteFingerprint r = [] \<and> ro_Protocol c = ''postgresql'' \<and> es_Purpose (rv_Spec r) = ro_Purpose c
           | Some o' \<Rightarrow> Route_Equal o' c \<and> rv_RouteFingerprint r \<noteq> [] \<and> rv_RouteFingerprint r = rv_RouteFingerprint current))"

definition PublicEndpointRequiresMembers :: "DBSpec \<Rightarrow> bool" where
  "PublicEndpointRequiresMembers s = (db_Engine s = ''mongodb'' \<or> db_Engine s = ''redis'' \<and> db_Mode s = ''cluster'')"

definition recovering :: "Resource \<Rightarrow> bool" where
  "recovering d = (case rs_Recovery d of None \<Rightarrow> False | Some r \<Rightarrow> rc_RestoredAt r = None \<or> rc_InspectedAt r = None)"

definition tls_proved :: "Observation \<Rightarrow> bool" where
  "tls_proved o' =
     (case ob_TLS o' of None \<Rightarrow> False | Some t \<Rightarrow> to_Verified t \<and> to_PlaintextRejected t \<and> to_Fingerprint t \<noteq> [])"

definition endpoint_blocked :: "Resource \<Rightarrow> time \<Rightarrow> string list" where
  "endpoint_blocked d now =
     (let o' = rs_Observation d in
      (if rs_Status d \<noteq> ''ready'' \<or> recovering d then [''The database is not ready for public access.''] else [])
      @ (if ob_Status o' \<noteq> ''ready'' \<or> \<not> Fresh o' now (rs_Revision d)
         then [''A current healthy database observation is required.''] else [])
      @ (if ob_TopologyFingerprint o' = [] then [''A verified database topology fingerprint is required.''] else [])
      @ (if \<not> tls_proved o' then [''Verified native database TLS and plaintext refusal are required.''] else []))"

definition endpoint_warnings :: "Resource \<Rightarrow> PublicEndpointSpec \<Rightarrow> string list" where
  "endpoint_warnings d spec =
     (if db_Engine (rs_Spec d) = ''redis'' \<and> db_Mode (rs_Spec d) = ''cluster''
      then [''Public Redis Cluster access requires a client that maps every advertised private member address to its dedicated public TLS listener. A Redis URI alone does not configure this mapping.'']
      else [])
     @ (if ''0.0.0.0/0'' \<in> set (es_SourceCIDRs spec)
        then [''Every IPv4 address may connect to this port. Database credentials and the downloaded private CA remain required.'']
        else [])
     @ (if oracle_free (rs_Spec d)
        then [''Oracle Free restarts its single database member to load the reviewed TCPS identity. Existing database connections will end during the replacement.'']
        else [])
     @ [''Publishing or changing this endpoint closes existing connections before the reviewed route opens.'']"

definition single_endpoint :: "PublicEndpointAllocation \<Rightarrow> PublicEndpoint" where
  "single_endpoint a = \<lparr>pe_ID = [], pe_Revision = 0, pe_Allocation = a, pe_MemberAllocations = []\<rparr>"

definition planPublicEndpoint ::
  "Resource \<Rightarrow> PublicEndpointSpec \<Rightarrow> PublicEndpointAllocation \<Rightarrow> string \<Rightarrow> int \<Rightarrow> time \<Rightarrow> PublicEndpointReview result" where
  "planPublicEndpoint d spec allocation endpointID endpointRevision now =
     bindE (PublicEndpointSpec_Normalize spec) (\<lambda>spec.
     bindE (PublicEndpointRouteFor (rs_Spec d) (es_Purpose spec)) (\<lambda>r.
       if \<not> list_ex (\<lambda>e. ep_Purpose e = es_Purpose spec \<and> ep_Port e = ro_BackendPort r) (ob_Endpoints (rs_Observation d))
       then Inl (Err ''the selected route is unavailable for this database'')
       else bindE (PublicEndpointAllocations (single_endpoint allocation)) (\<lambda>_.
         Inr \<lparr>rv_DatabaseID = rs_ID d, rv_Project = rs_Project d, rv_Environment = rs_Environment d,
              rv_DatabaseRevision = rs_Revision d, rv_EndpointID = endpointID, rv_EndpointRevision = endpointRevision,
              rv_Spec = spec, rv_Route = Some r, rv_RouteFingerprint = Route_Fingerprint r, rv_Allocation = allocation,
              rv_MemberAllocations = [], rv_TopologyFingerprint = ob_TopologyFingerprint (rs_Observation d),
              rv_TLSFingerprint =
                (if tls_proved (rs_Observation d)
                 then (case ob_TLS (rs_Observation d) of None \<Rightarrow> [] | Some t \<Rightarrow> to_Fingerprint t) else []),
              rv_BlockedReasons = endpoint_blocked d now, rv_Warnings = endpoint_warnings d spec,
              rv_ExpiresAt = now + PublicEndpointReviewLifetime\<rparr>)))"

definition PlanPublicEndpoint ::
  "Resource \<Rightarrow> PublicEndpointSpec \<Rightarrow> PublicEndpointAllocation \<Rightarrow> string \<Rightarrow> int \<Rightarrow> time \<Rightarrow> PublicEndpointReview result" where
  "PlanPublicEndpoint d spec allocation endpointID endpointRevision now =
     andE (PublicEndpointAvailability (rs_Spec d)) (planPublicEndpoint d spec allocation endpointID endpointRevision now)"

definition member_ready :: "Member list \<Rightarrow> PublicEndpointMemberAllocation \<Rightarrow> bool" where
  "member_ready observed a =
     (case find (\<lambda>m. me_Name m = ma_MemberName a) observed of
        None \<Rightarrow> False | Some m \<Rightarrow> me_Ready m \<and> me_UID m = ma_MemberUID a)"

definition planPublicEndpointMembers ::
  "Resource \<Rightarrow> PublicEndpointSpec \<Rightarrow> PublicEndpoint \<Rightarrow> time \<Rightarrow> PublicEndpointReview result" where
  "planPublicEndpointMembers d spec e now =
     bindE (PublicEndpointAllocations e) (\<lambda>ms.
       let single = planPublicEndpoint d spec (pe_Allocation e) (pe_ID e) (pe_Revision e) now;
           observed = ob_Members (rs_Observation d) in
       if \<not> PublicEndpointRequiresMembers (rs_Spec d) then
         (if pe_MemberAllocations e \<noteq> [] then Inl (Err ''this database route requires one allocation'') else single)
       else andE (checks
         [(len (pe_MemberAllocations e) \<noteq> Members (rs_Spec d) \<or> len observed \<noteq> Members (rs_Spec d),
           ''every observed database member requires a public allocation''),
          (first_dup [] (map me_Name observed), ''database observation contains duplicate members''),
          (\<not> list_all (member_ready observed) ms, ''database public member identity changed or is not ready'')])
         (bindE single (\<lambda>plan. Inr (plan\<lparr>rv_MemberAllocations := pe_MemberAllocations e\<rparr>))))"

definition PlanPublicEndpointMembers ::
  "Resource \<Rightarrow> PublicEndpointSpec \<Rightarrow> PublicEndpoint \<Rightarrow> time \<Rightarrow> PublicEndpointReview result" where
  "PlanPublicEndpointMembers d spec e now =
     andE (PublicEndpointAvailability (rs_Spec d)) (planPublicEndpointMembers d spec e now)"

section \<open>Allocations\<close>

definition ids_of :: "PublicEndpointMemberAllocation list \<Rightarrow> string list" where
  "ids_of ms = map (\<lambda>m. al_ID (ma_Allocation m)) ms"

definition hosts_of :: "PublicEndpointMemberAllocation list \<Rightarrow> string list" where
  "hosts_of ms = map (\<lambda>m. al_Host (ma_Allocation m)) ms"

definition listeners_of :: "PublicEndpointMemberAllocation list \<Rightarrow> (int \<times> int) option list" where
  "listeners_of ms = map (\<lambda>m. allocation_listener (ma_Allocation m)) ms"

lemma allocation_loop_fresh:
  assumes "allocation_loop named previous ids hosts ls ms = Inr ()"
  shows "distinct (ids_of ms) \<and> set (ids_of ms) \<inter> set ids = {}"
    and "distinct (hosts_of ms) \<and> set (hosts_of ms) \<inter> set hosts = {}"
    and "distinct (listeners_of ms) \<and> None \<notin> set (listeners_of ms) \<and> set (listeners_of ms) \<inter> Some ` set ls = {}"
  using assms
  by (induction named previous ids hosts ls ms rule: allocation_loop.induct)
    (auto simp: ids_of_def hosts_of_def listeners_of_def Let_def split: option.splits if_splits)

lemma allocation_loop_ordered:
  assumes "allocation_loop True previous ids hosts ls ms = Inr ()"
  shows "sorted_wrt (<) (map ma_MemberName ms)
    \<and> (\<forall>p. previous = Some p \<longrightarrow> (\<forall>m \<in> set ms. ma_MemberName p < ma_MemberName m))"
  using assms
proof (induction ms arbitrary: previous ids hosts ls)
  case (Cons m ms)
  then obtain l where rest: "allocation_loop True (Some m) (al_ID (ma_Allocation m) # ids)
      (al_Host (ma_Allocation m) # hosts) (l # ls) ms = Inr ()" and named: "\<not> member_identity_bad previous m"
    by (auto simp: Let_def split: option.splits if_splits)
  have step: "\<forall>p. previous = Some p \<longrightarrow> ma_MemberName p < ma_MemberName m"
    using named by (auto simp: member_identity_bad_def not_le)
  from Cons.IH [OF rest] step show ?case by (auto intro: less_trans)
qed simp

text \<open>A listener is a plain public-form address and a port; nothing is bound to a multicast or unspecified one.\<close>

lemma allocation_listener_bound:
  assumes "allocation_listener a = Some (w, port)"
  shows "w \<noteq> 0 \<and> port = al_Port a \<and> 1 \<le> port \<and> port \<le> 65535 \<and> publicEndpointHostPattern (al_Host a)"
  using assms by (auto simp: allocation_listener_def endpoint_address_def split: if_splits option.splits addr.splits)

lemma allocations_cases:
  assumes "PublicEndpointAllocations e = Inr ms"
  obtains named where "allocation_loop named None [] [] [] ms = Inr ()" "ms \<noteq> []"
    "named \<longleftrightarrow> pe_MemberAllocations e \<noteq> []" "named \<Longrightarrow> ms = pe_MemberAllocations e" "len ms \<le> MaxMembers"
    "ma_Allocation (hd ms) = pe_Allocation e"
proof (cases "pe_MemberAllocations e = []")
  case True
  show thesis
  proof (rule that)
    show "allocation_loop False None [] [] [] ms = Inr ()" "ms \<noteq> []" "len ms \<le> MaxMembers"
      "ma_Allocation (hd ms) = pe_Allocation e"
      using assms True unfolding PublicEndpointAllocations_def Let_def MaxMembers_def
      by (auto simp: result_iff simp del: allocation_loop.simps)
  qed (use True in simp_all)
next
  case False
  show thesis
  proof (rule that)
    show "allocation_loop True None [] [] [] ms = Inr ()" "ms \<noteq> []" "len ms \<le> MaxMembers" "ms = pe_MemberAllocations e"
      "ma_Allocation (hd ms) = pe_Allocation e"
      using assms False unfolding PublicEndpointAllocations_def Let_def
      by (auto simp: result_iff simp del: allocation_loop.simps)
  qed (use False in simp_all)
qed

section \<open>The client's listener\<close>

definition canonical_network :: "string \<Rightarrow> bool" where
  "canonical_network v = (\<exists>p. v = prefix_string (Masked p))"

lemma source_network_ok:
  assumes "source_network seen raw = Inr out"
  shows "\<exists>v. out = seen @ [v] \<and> v \<notin> set seen \<and> canonical_network v"
  using assms unfolding source_network_def canonical_network_def
  by (auto simp: Let_def split: if_splits option.splits)

lemma source_networks_ok:
  assumes "foldE source_network seen raws = Inr out" "distinct seen" "\<forall>v \<in> set seen. canonical_network v"
  shows "distinct out \<and> (\<forall>v \<in> set out. canonical_network v) \<and> length out = length seen + length raws"
  using assms
proof (induction raws arbitrary: seen)
  case (Cons raw raws)
  then obtain mid where mid: "source_network seen raw = Inr mid" "foldE source_network mid raws = Inr out"
    by (auto simp: result_iff)
  from source_network_ok [OF mid(1)] obtain v where "mid = seen @ [v]" "v \<notin> set seen" "canonical_network v" by blast
  with Cons.IH [OF mid(2)] Cons.prems(2,3) show ?case by auto
qed simp

lemma Spec_Normalize_ok:
  assumes "PublicEndpointSpec_Normalize s = Inr t"
  shows "es_Purpose t = es_Purpose s \<and> es_MaxConnections t = es_MaxConnections s
    \<and> 1 \<le> es_MaxConnections t \<and> es_MaxConnections t \<le> 256
    \<and> sorted (es_SourceCIDRs t) \<and> distinct (es_SourceCIDRs t) \<and> (\<forall>v \<in> set (es_SourceCIDRs t). canonical_network v)
    \<and> 1 \<le> len (es_SourceCIDRs t) \<and> len (es_SourceCIDRs t) \<le> 16"
proof -
  from assms obtain out where out: "foldE source_network [] (es_SourceCIDRs s) = Inr out"
    and t: "t = s\<lparr>es_SourceCIDRs := sort out\<rparr>"
    and bounds: "1 \<le> len (es_SourceCIDRs s)" "len (es_SourceCIDRs s) \<le> 16" "1 \<le> es_MaxConnections s" "es_MaxConnections s \<le> 256"
    unfolding PublicEndpointSpec_Normalize_def by (auto simp: result_iff simp del: len.simps)
  from source_networks_ok [OF out] have "distinct out" "\<forall>v \<in> set out. canonical_network v"
    "length out = length (es_SourceCIDRs s)" by auto
  then show ?thesis using bounds unfolding t by (simp add: len_length)
qed

lemma RouteFor_ok:
  assumes "PublicEndpointRouteFor s purpose = Inr r"
  shows "r \<in> set (PublicEndpointRoutes s) \<and> ro_Purpose r = purpose"
  using assms unfolding PublicEndpointRouteFor_def by (auto simp: find_Some_iff split: option.splits)

section \<open>Reviews\<close>

lemma available_engine:
  assumes "PublicEndpointAvailability s = Inr ()"
  shows "db_Engine s = ''postgresql'' \<and> TLSRequired s"
  using assms unfolding PublicEndpointAvailability_def Let_def result_iff mysqlPublicEndpointsQualified_def
    clickhousePublicEndpointsQualified_def oracleFreePublicEndpointsQualified_def mongodbPublicEndpointsQualified_def
    redisPublicEndpointsQualified_def vitessPublicEndpointsQualified_def myduckPublicEndpointsQualified_def
  by (elim conjE) simp

lemma endpoint_blocked_Nil:
  "endpoint_blocked d now = [] \<longleftrightarrow>
     rs_Status d = ''ready'' \<and> \<not> recovering d \<and> ob_Status (rs_Observation d) = ''ready''
     \<and> Fresh (rs_Observation d) now (rs_Revision d) \<and> ob_TopologyFingerprint (rs_Observation d) \<noteq> []
     \<and> tls_proved (rs_Observation d)"
  unfolding endpoint_blocked_def Let_def by auto

lemma plan_single_ok:
  assumes "planPublicEndpoint d spec a eid erev now = Inr p"
  shows "PublicEndpointSpec_Normalize spec = Inr (rv_Spec p)"
    "\<exists>r. rv_Route p = Some r \<and> PublicEndpointRouteFor (rs_Spec d) (es_Purpose (rv_Spec p)) = Inr r
       \<and> rv_RouteFingerprint p = Route_Fingerprint r"
    "rv_BlockedReasons p = endpoint_blocked d now" "rv_Allocation p = a" "rv_MemberAllocations p = []"
    "rv_DatabaseRevision p = rs_Revision d" "rv_ExpiresAt p = now + PublicEndpointReviewLifetime"
  using assms unfolding planPublicEndpoint_def by (auto simp: result_iff split: if_splits)

lemma plan_postgres_single:
  assumes "PlanPublicEndpointMembers d spec e now = Inr p"
  shows "db_Engine (rs_Spec d) = ''postgresql'' \<and> TLSRequired (rs_Spec d)"
    and "planPublicEndpoint d spec (pe_Allocation e) (pe_ID e) (pe_Revision e) now = Inr p"
    and "\<exists>ms. PublicEndpointAllocations e = Inr ms"
proof -
  have open_: "PublicEndpointAvailability (rs_Spec d) = Inr ()" "planPublicEndpointMembers d spec e now = Inr p"
    using assms unfolding PlanPublicEndpointMembers_def result_iff by auto
  show engine: "db_Engine (rs_Spec d) = ''postgresql'' \<and> TLSRequired (rs_Spec d)" by (rule available_engine [OF open_(1)])
  show "planPublicEndpoint d spec (pe_Allocation e) (pe_ID e) (pe_Revision e) now = Inr p"
    "\<exists>ms. PublicEndpointAllocations e = Inr ms"
    using open_(2) engine unfolding planPublicEndpointMembers_def PublicEndpointRequiresMembers_def Let_def
    by (auto simp: result_iff split: if_splits)
qed

section \<open>A concrete endpoint\<close>

definition demo_postgres :: DBSpec where
  "demo_postgres = \<lparr>db_SchemaVersion = 1, db_Name = ''orders'', db_Engine = ''postgresql'', db_Version = ''18'',
     db_Mode = ''cluster'', db_Replicas = 2, db_Shards = 1, db_CPU = ''1'', db_Memory = ''1Gi'', db_StorageGiB = 10,
     db_Placement = \<lparr>pl_Spread = [], pl_NodeNames = []\<rparr>, db_TLS = Some \<lparr>tls_Mode = ''required''\<rparr>,
     db_Pooling = None, db_Postgres = None, db_ClickHouse = None, db_Oracle = None, db_Vitess = None\<rparr>"

definition demo_resource :: Resource where
  "demo_resource = \<lparr>rs_Recovery = None, rs_ID = ''d1'', rs_Project = ''shop'', rs_Environment = ''live'', rs_Revision = 3,
     rs_Spec = demo_postgres, rs_Status = ''ready'', rs_Observation =
       \<lparr>ob_TLS = Some \<lparr>to_Verified = True, to_PlaintextRejected = True, to_Fingerprint = ''leaf''\<rparr>,
        ob_ObservedAt = 100 * sec, ob_Revision = 3, ob_Status = ''ready'', ob_Members = [],
        ob_Endpoints = [\<lparr>ep_Purpose = ''read_write'', ep_Host = ''database-rw.hdb-d1.svc'', ep_Port = 5432\<rparr>],
        ob_Primary = ''database-1'', ob_SlotsAssigned = 0, ob_SlotsHealthy = False, ob_TopologyFingerprint = ''one''\<rparr>\<rparr>"

definition demo_endpoint :: PublicEndpoint where
  "demo_endpoint = \<lparr>pe_ID = ''e1'', pe_Revision = 1,
     pe_Allocation = \<lparr>al_ID = ''a1'', al_Host = ''db.example.org'', al_Address = ''203.0.113.9'', al_Port = 5432\<rparr>,
     pe_MemberAllocations = []\<rparr>"

definition demo_listener :: PublicEndpointSpec where
  "demo_listener = \<lparr>es_Purpose = ''read_write'', es_SourceCIDRs = [''198.51.100.7/24'', ''192.0.2.0/28''], es_MaxConnections = 20\<rparr>"

lemma demo_allocations:
  "is_ok (PublicEndpointAllocations demo_endpoint)"
  "is_ok (PublicEndpointAllocations (single_endpoint (pe_Allocation demo_endpoint)))"
  by code_simp+

lemma demo_listener_normal:
  "PublicEndpointSpec_Normalize demo_listener =
     Inr (demo_listener\<lparr>es_SourceCIDRs := [''192.0.2.0/28'', ''198.51.100.0/24'']\<rparr>)"
  by code_simp

lemma demo_open:
  "PublicEndpointAvailability demo_postgres = Inr ()" "\<not> PublicEndpointRequiresMembers demo_postgres"
  "PublicEndpointRouteFor demo_postgres ''read_write'' =
     Inr (route ''read_write'' ''postgresql'' ''direct'' ''database-rw'' ''postgresql'' 5432 False False)"
  "endpoint_blocked demo_resource (120 * sec) = []"
  by code_simp+

lemma demo_review:
  obtains p where "PlanPublicEndpointMembers demo_resource demo_listener demo_endpoint (120 * sec) = Inr p"
    "rv_BlockedReasons p = []"
proof -
  from demo_allocations obtain ms one where "PublicEndpointAllocations demo_endpoint = Inr ms"
    "PublicEndpointAllocations (single_endpoint (pe_Allocation demo_endpoint)) = Inr one" unfolding is_ok_iff by blast
  moreover have "rs_Spec demo_resource = demo_postgres" "pe_MemberAllocations demo_endpoint = []"
    "es_Purpose demo_listener = ''read_write''"
    "list_ex (\<lambda>e. ep_Purpose e = ''read_write'' \<and> ep_Port e = 5432) (ob_Endpoints (rs_Observation demo_resource))"
    by (simp_all add: demo_resource_def demo_endpoint_def demo_listener_def)
  ultimately have "\<exists>p. PlanPublicEndpointMembers demo_resource demo_listener demo_endpoint (120 * sec) = Inr p
      \<and> rv_BlockedReasons p = []"
    by (simp add: PlanPublicEndpointMembers_def planPublicEndpointMembers_def planPublicEndpoint_def demo_open
        demo_listener_normal Let_def route_def)
  then show thesis using that by blast
qed

section \<open>Properties\<close>

text \<open>
  C33. Published members never share a door: allocations that the code accepts number 1 to 48, begin
  with the endpoint's primary one, and have pairwise distinct ids, hostnames and listeners, each a
  real IPv4 address with a port; the members behind them are in strictly increasing name order.
\<close>

theorem endpoint_allocations_distinct:
  assumes "PublicEndpointAllocations e = Inr ms"
  shows "ms \<noteq> [] \<and> len ms \<le> MaxMembers \<and> ma_Allocation (hd ms) = pe_Allocation e
    \<and> distinct (ids_of ms) \<and> distinct (hosts_of ms) \<and> distinct (listeners_of ms) \<and> None \<notin> set (listeners_of ms)
    \<and> (pe_MemberAllocations e \<noteq> [] \<longrightarrow> sorted_wrt (<) (map ma_MemberName ms))"
proof -
  from allocations_cases [OF assms] obtain named where loop: "allocation_loop named None [] [] [] ms = Inr ()"
    and rest: "ms \<noteq> []" "named \<longleftrightarrow> pe_MemberAllocations e \<noteq> []" "len ms \<le> MaxMembers"
      "ma_Allocation (hd ms) = pe_Allocation e" by metis
  have "named \<longrightarrow> sorted_wrt (<) (map ma_MemberName ms)" using loop allocation_loop_ordered [of None "[]" "[]" "[]" ms] by (cases named) simp_all
  then show ?thesis using allocation_loop_fresh [OF loop] rest by blast
qed

theorem endpoint_allocations_distinct_witness:
  "\<exists>ms. PublicEndpointAllocations demo_endpoint = Inr ms \<and> distinct (listeners_of ms) \<and> None \<notin> set (listeners_of ms)"
proof (cases "PublicEndpointAllocations demo_endpoint")
  case (Inr ms)
  then show ?thesis using endpoint_allocations_distinct [OF Inr] by blast
qed (use demo_allocations(1) in \<open>simp add: is_ok_def\<close>)

text \<open>
  C34. Only a PostgreSQL database with required TLS can be reviewed for publication. Its review
  carries one of the database's routes under its fingerprint, one to sixteen distinct canonical IPv4
  networks in order and one to 256 connections; and when nothing blocks it, the database is ready and
  recovered, its observation is of this revision and at most thirty seconds old, and its native TLS
  is verified with plaintext refused.
\<close>

theorem public_endpoint_review_safe:
  assumes "PlanPublicEndpointMembers d spec e now = Inr p"
  shows "db_Engine (rs_Spec d) = ''postgresql'' \<and> TLSRequired (rs_Spec d)
    \<and> (\<exists>r \<in> set (PublicEndpointRoutes (rs_Spec d)). rv_Route p = Some r \<and> ro_Purpose r = es_Purpose (rv_Spec p)
        \<and> rv_RouteFingerprint p = Route_Fingerprint r)
    \<and> distinct (es_SourceCIDRs (rv_Spec p)) \<and> sorted (es_SourceCIDRs (rv_Spec p))
    \<and> (\<forall>v \<in> set (es_SourceCIDRs (rv_Spec p)). canonical_network v)
    \<and> 1 \<le> len (es_SourceCIDRs (rv_Spec p)) \<and> len (es_SourceCIDRs (rv_Spec p)) \<le> 16
    \<and> 1 \<le> es_MaxConnections (rv_Spec p) \<and> es_MaxConnections (rv_Spec p) \<le> 256
    \<and> (rv_BlockedReasons p = [] \<longrightarrow>
        rs_Status d = ''ready'' \<and> \<not> recovering d \<and> ob_Revision (rs_Observation d) = rs_Revision d
        \<and> ob_ObservedAt (rs_Observation d) \<le> now \<and> now - ob_ObservedAt (rs_Observation d) \<le> 30 * sec
        \<and> tls_proved (rs_Observation d))"
proof -
  note single = plan_postgres_single [OF assms]
  note plan = plan_single_ok [OF single(2)]
  from plan(2) obtain r where r: "rv_Route p = Some r" "PublicEndpointRouteFor (rs_Spec d) (es_Purpose (rv_Spec p)) = Inr r"
    "rv_RouteFingerprint p = Route_Fingerprint r" by blast
  show ?thesis
    using single(1) r(1,3) RouteFor_ok [OF r(2)] Spec_Normalize_ok [OF plan(1)] plan(3) endpoint_blocked_Nil [of d now]
    by (auto simp: Fresh_def ObservationMaxAge_def)
qed

theorem public_endpoint_review_safe_witness:
  "\<exists>p. PlanPublicEndpointMembers demo_resource demo_listener demo_endpoint (120 * sec) = Inr p
     \<and> rv_BlockedReasons p = [] \<and> tls_proved (rs_Observation demo_resource)"
proof -
  obtain p where p: "PlanPublicEndpointMembers demo_resource demo_listener demo_endpoint (120 * sec) = Inr p"
    "rv_BlockedReasons p = []" by (rule demo_review)
  with public_endpoint_review_safe [OF p(1)] show ?thesis by blast
qed

end
