(* ===== verification/Database_Access.thy ===== *)
theory Database_Access
  imports Database_Plan
begin

text \<open>
  Private access to a managed database (internal/database/private_access.go): the guide that tells a
  person where to run a client and which commands to type. The commands are read back with a small
  reader of POSIX shell words, and the properties say that no input escapes its word and that a
  guide carries commands only for a database that was just seen ready.
\<close>

section \<open>Input and guide\<close>

record PrivateAccessInput =
  pi_Location :: string
  pi_Endpoint :: string
  pi_SSHHost :: string
  pi_KubeContext :: string
  pi_LocalPort :: int

record PrivateAccessStep =
  ps_Title :: string
  ps_Instruction :: string
  ps_Command :: string

record PrivateAccessGuide =
  pg_SchemaVersion :: int
  pg_DatabaseID :: string
  pg_Revision :: int
  pg_ObservedAt :: time
  pg_Location :: string
  pg_Endpoint :: Endpoint
  pg_Steps :: "PrivateAccessStep list"
  pg_Warnings :: "string list"
  pg_Blockers :: "string list"

text \<open>\<open>^[a-zA-Z0-9][a-zA-Z0-9._:@/-]{0,252}$\<close>\<close>

definition privateAccessName :: "string \<Rightarrow> bool" where
  "privateAccessName s =
     (case s of [] \<Rightarrow> False
      | c # cs \<Rightarrow> is_alnum c \<and> length cs \<le> 252 \<and> list_all (\<lambda>d. is_alnum d \<or> d \<in> set ''._:@/-'') cs)"

text \<open>\<open>^(?:[a-zA-Z0-9_][a-zA-Z0-9_.-]*@)?[a-zA-Z0-9][a-zA-Z0-9.-]{0,252}$\<close>: neither part has an at sign.\<close>

definition ssh_user :: "string \<Rightarrow> bool" where
  "ssh_user s =
     (case s of [] \<Rightarrow> False
      | c # cs \<Rightarrow> (is_alnum c \<or> c = CHR ''_'') \<and> list_all (\<lambda>d. is_alnum d \<or> d \<in> set ''_.-'') cs)"

definition ssh_host :: "string \<Rightarrow> bool" where
  "ssh_host s =
     (case s of [] \<Rightarrow> False
      | c # cs \<Rightarrow> is_alnum c \<and> length cs \<le> 252 \<and> list_all (\<lambda>d. is_alnum d \<or> d \<in> set ''.-'') cs)"

definition privateAccessSSHHost :: "string \<Rightarrow> bool" where
  "privateAccessSSHHost s =
     (case Cut s (CHR ''@'') of (user, host, at) \<Rightarrow> if at then ssh_user user \<and> ssh_host host else ssh_host s)"

definition PrivateAccessInput_Validate :: "PrivateAccessInput \<Rightarrow> unit result" where
  "PrivateAccessInput_Validate i =
     checks
       [(pi_Location i \<noteq> ''local'' \<and> pi_Location i \<noteq> ''ssh'' \<and> pi_Location i \<noteq> ''kubernetes'',
         ''location must be local, ssh or kubernetes''),
        (pi_Endpoint i = [] \<or> 32 < len (pi_Endpoint i), ''select an observed database endpoint''),
        (pi_LocalPort i \<noteq> 0 \<and> (pi_LocalPort i < 1024 \<or> 65535 < pi_LocalPort i), ''local_port must be between 1024 and 65535''),
        (pi_SSHHost i \<noteq> [] \<and> \<not> privateAccessSSHHost (pi_SSHHost i),
         ''ssh_host must be a host or user@host without SSH options''),
        (pi_KubeContext i \<noteq> [] \<and> \<not> privateAccessName (pi_KubeContext i),
         ''kube_context must name an existing kubectl context without spaces'')]"

section \<open>Commands\<close>

text \<open>The code's \<open>q\<close>: a word in single quotes, a single quote inside it between double quotes.\<close>

definition quote_char :: "char \<Rightarrow> string" where
  "quote_char c = (if c = CHR 0x27 then [CHR 0x27, CHR 0x22, CHR 0x27, CHR 0x22, CHR 0x27] else [c])"

definition shell_quote :: "string \<Rightarrow> string" where
  "shell_quote s = [CHR 0x27] @ concat (map quote_char s) @ [CHR 0x27]"

definition forward_command :: "string \<Rightarrow> string \<Rightarrow> string \<Rightarrow> int \<Rightarrow> int \<Rightarrow> string" where
  "forward_command ctx namespace service port target =
     ''kubectl --context '' @ shell_quote ctx @ '' --namespace '' @ shell_quote namespace
     @ '' port-forward --address 127.0.0.1 '' @ shell_quote (''service/'' @ service) @ '' ''
     @ shell_quote (Itoa port @ '':'' @ Itoa target)"

definition tunnel_command :: "int \<Rightarrow> string \<Rightarrow> string" where
  "tunnel_command port host =
     ''ssh -N -o ExitOnForwardFailure=yes -L '' @ shell_quote (''127.0.0.1:'' @ Itoa port @ '':127.0.0.1:'' @ Itoa port)
     @ '' -- '' @ shell_quote host"

definition dquote :: string where "dquote = [CHR 0x22]"

definition user_variable :: string where
  "user_variable = dquote @ ''${DB_USER:?Set DB_USER}'' @ dquote"

definition name_variable :: string where
  "name_variable = dquote @ ''${DB_NAME:?Set DB_NAME}'' @ dquote"

text \<open>The client command of an engine, empty for an engine without one; the mysql client keeps the
  endpoint's own name when TLS runs through a forward.\<close>

definition psql_command :: "bool \<Rightarrow> bool \<Rightarrow> string \<Rightarrow> int \<Rightarrow> string" where
  "psql_command tls forwarded host port =
     (if tls then ''PGSSLMODE=verify-full PGSSLROOTCERT=database-ca.crt '' else ''PGSSLMODE=disable '')
     @ (if forwarded then ''PGHOSTADDR=127.0.0.1 '' else [])
     @ ''psql --host '' @ shell_quote host @ '' --port '' @ Itoa port @ '' --username '' @ user_variable
     @ '' --dbname '' @ name_variable @ '' --password''"

definition redis_command :: "bool \<Rightarrow> bool \<Rightarrow> string \<Rightarrow> int \<Rightarrow> string \<Rightarrow> string" where
  "redis_command tls cluster connect port host =
     ''redis-cli -h '' @ shell_quote connect @ '' -p '' @ Itoa port @ '' --user '' @ user_variable @ '' --askpass''
     @ (if tls then '' --tls --cacert database-ca.crt --sni '' @ shell_quote host else [])
     @ (if cluster then '' -c'' else []) @ '' PING''"

definition mysql_command :: "bool \<Rightarrow> string \<Rightarrow> int \<Rightarrow> string" where
  "mysql_command tls connect port =
     ''mysql --protocol=TCP --host '' @ shell_quote connect @ '' --port '' @ Itoa port @ '' --user '' @ user_variable
     @ '' --password'' @ (if tls then '' --ssl-mode=VERIFY_IDENTITY --ssl-ca=database-ca.crt'' else [])
     @ '' --database '' @ name_variable"

section \<open>The guide\<close>

definition plain_step :: "string \<Rightarrow> string \<Rightarrow> PrivateAccessStep" where
  "plain_step title instruction = \<lparr>ps_Title = title, ps_Instruction = instruction, ps_Command = []\<rparr>"

definition network_steps :: "Resource \<Rightarrow> PrivateAccessInput \<Rightarrow> string \<Rightarrow> int \<Rightarrow> int \<Rightarrow> PrivateAccessStep list" where
  "network_steps d i service port target =
     (if pi_Location i = ''kubernetes'' then
        [plain_step ''Use an allowed application'' ''Run the client inside the application container bound to this database. The binding supplies private network access. A pod in another namespace does not automatically receive access. Do not give the application a kubeconfig.'']
      else
        [\<lparr>ps_Title = ''Start the database forward on the SSH host'',
          ps_Instruction = ''Run this in an existing SSH session on the host with Kubernetes access. Keep it open. The listener accepts loopback traffic only.'',
          ps_Command = forward_command (pi_KubeContext i) (''hdb-'' @ rs_ID d) service port target\<rparr>]
        @ (if pi_Location i = ''local''
           then [\<lparr>ps_Title = ''Forward to your computer'',
                  ps_Instruction = ''Run this in a second terminal on your own computer. Keep both forwards running while the client is connected.'',
                  ps_Command = tunnel_command port (pi_SSHHost i)\<rparr>]
           else []))"

definition trust_steps :: "bool \<Rightarrow> PrivateAccessStep list" where
  "trust_steps tls =
     (if tls then [plain_step ''Install database trust'' ''Download the public CA from this database's Connections & security tab. Save it as database-ca.crt on the machine running the client, or use the CA path mounted in the bound application. Keep certificate and hostname verification enabled.''] else [])
     @ [plain_step ''Select your database login'' ''Set DB_USER and DB_NAME in the client shell to your database username and logical database. Retrieve the password through the authorized credentials flow; enter it at the client prompt.'']"

definition client_steps :: "DBSpec \<Rightarrow> PrivateAccessInput \<Rightarrow> Endpoint \<Rightarrow> int \<Rightarrow> PrivateAccessStep list \<times> string list" where
  "client_steps s i e port =
     (let tls = TLSRequired s; forwarded = (pi_Location i \<noteq> ''kubernetes''); host = ep_Host e;
          connect = (if forwarded then ''127.0.0.1'' else host); engine = db_Engine s;
          mysql = (engine = ''mysql'' \<or> engine = ''vitess''); mapped = (mysql \<and> tls \<and> forwarded);
          command =
            (if engine = ''postgresql'' \<or> engine = ''duckdb'' \<and> pi_Endpoint i = ''postgresql'' then psql_command tls forwarded host port
             else if engine = ''redis'' then redis_command tls (db_Mode s = ''cluster'') connect port host
             else if mysql then mysql_command tls (if mapped then host else connect) port
             else []) in
      ((if mapped then [plain_step ''Keep the certificate hostname'' (''On the client machine, map '' @ host @ '' to 127.0.0.1 in the hosts file while the tunnel is in use. Remove that mapping after closing the tunnel. The MySQL client must use this hostname to verify the certificate.'')] else [])
       @ (if command \<noteq> []
          then [\<lparr>ps_Title = ''Connect from the selected client location'',
                 ps_Instruction = ''Run this where your client is installed. The command prompts for a password and does not put it in shell history.'',
                 ps_Command = command\<rparr>]
          else [plain_step ''Configure the database client'' (''Connect to '' @ connect @ '' on port '' @ Itoa port @ ''. Use the endpoint hostname '' @ host @ '' for TLS verification. This engine requires its native driver configuration; use its documented CA or wallet setting and keep hostname verification enabled.'')]),
       if command \<noteq> [] then []
       else [''This guide provides the network path but does not generate or verify a native client command for this engine and endpoint.'']))"

definition stale_for_access :: "Resource \<Rightarrow> time \<Rightarrow> bool" where
  "stale_for_access d now =
     (let o' = rs_Observation d in
      rs_Status d \<noteq> ''ready'' \<or> ob_Status o' \<noteq> ''ready'' \<or> ob_Revision o' \<noteq> rs_Revision d
      \<or> 2 * minute < now - ob_ObservedAt o' \<or> now < ob_ObservedAt o')"

definition missing_inputs :: "PrivateAccessInput \<Rightarrow> string list" where
  "missing_inputs i =
     (if pi_Location i = ''kubernetes'' then []
      else (if pi_KubeContext i = [] then [''Enter the Kubernetes context available on the SSH host. The wizard does not grant cluster access.''] else [])
        @ (if pi_Location i = ''local'' \<and> pi_SSHHost i = [] then [''Enter the SSH host that can reach the Kubernetes API and has your authorized kubectl context.''] else []))"

definition member_aware :: "DBSpec \<Rightarrow> bool" where
  "member_aware s = (db_Engine s = ''mongodb'' \<or> db_Engine s = ''redis'' \<and> db_Mode s = ''cluster'')"

definition access_blockers :: "Resource \<Rightarrow> PrivateAccessInput \<Rightarrow> bool \<Rightarrow> string list" where
  "access_blockers d i managedCloud =
     (if pi_Location i \<noteq> ''kubernetes'' \<and> member_aware (rs_Spec d) then
        [''This cluster client discovers additional members. A single-port tunnel cannot carry that traffic. Run the client inside an allowed Kubernetes workload, or use the database's supported public endpoint.'']
      else if managedCloud \<and> pi_Location i \<noteq> ''kubernetes'' then
        [''Cloud workspaces do not receive SSH or Kubernetes credentials for shared hosts. Use a dedicated public database endpoint with your source IP allowed, or connect from a bound application.'']
      else missing_inputs i)"

text \<open>The service that the observed host names, from the namespace of the database.\<close>

definition endpoint_service :: "Resource \<Rightarrow> Endpoint \<Rightarrow> string result" where
  "endpoint_service d e =
     (let suffix = ''.hdb-'' @ rs_ID d @ ''.svc''; host = TrimSuffix (ep_Host e) ''.cluster.local'' in
      if \<not> HasSuffix host suffix \<or> ep_Port e < 1 \<or> 65535 < ep_Port e
      then Inl (Err ''the observed private endpoint cannot be mapped to this database service'')
      else
        let service = TrimSuffix host suffix in
        if CHR ''.'' \<in> set service \<or> \<not> privateAccessName service
        then Inl (Err ''this endpoint requires member-aware private networking'')
        else Inr service)"

definition access_guide :: "Resource \<Rightarrow> PrivateAccessInput \<Rightarrow> Endpoint \<Rightarrow> string \<Rightarrow> PrivateAccessGuide \<Rightarrow> PrivateAccessGuide" where
  "access_guide d i e service g =
     (let tls = TLSRequired (rs_Spec d); forwarded = (pi_Location i \<noteq> ''kubernetes'');
          port = (if forwarded then (if pi_LocalPort i = 0 then 15432 else pi_LocalPort i) else ep_Port e);
          (steps, unknown) = client_steps (rs_Spec d) i e port in
      g\<lparr>pg_Steps := network_steps d i service port (ep_Port e) @ trust_steps tls @ steps,
        pg_Warnings :=
          (if forwarded then [''Forwards select a database pod and close when that pod is replaced. Restart the forward after a rollout or failover.''] else [])
          @ (if tls then [] else [''This database endpoint is configured without TLS. An SSH tunnel encrypts only the SSH portion of the connection.''])
          @ unknown\<rparr>)"

definition PrivateAccess :: "Resource \<Rightarrow> PrivateAccessInput \<Rightarrow> bool \<Rightarrow> time \<Rightarrow> PrivateAccessGuide result" where
  "PrivateAccess d i managedCloud now =
     andE (PrivateAccessInput_Validate i)
     (case find (\<lambda>e. ep_Purpose e = pi_Endpoint i) (ob_Endpoints (rs_Observation d)) of
        None \<Rightarrow> Inl (Err ''this endpoint is not present in the database observation'')
      | Some e \<Rightarrow>
          if ep_Host e = [] then Inl (Err ''this endpoint is not present in the database observation'')
          else
            let g = \<lparr>pg_SchemaVersion = 1, pg_DatabaseID = rs_ID d, pg_Revision = rs_Revision d,
                     pg_ObservedAt = ob_ObservedAt (rs_Observation d), pg_Location = pi_Location i, pg_Endpoint = e,
                     pg_Steps = [], pg_Warnings = [], pg_Blockers = []\<rparr> in
            if stale_for_access d now
            then Inr (g\<lparr>pg_Blockers := [''Wait for a current, ready database observation before using these connection steps.'']\<rparr>)
            else bindE (endpoint_service d e) (\<lambda>service.
              let blocked = access_blockers d i managedCloud in
              if blocked \<noteq> [] then Inr (g\<lparr>pg_Blockers := blocked\<rparr>)
              else Inr (access_guide d i e service g)))"

section \<open>Shell words\<close>

text \<open>
  A reader of POSIX shell words without expansion: blanks separate, single quotes keep everything,
  double quotes keep what has no meaning in them, and any other character with a meaning to the
  shell is refused. The state is the quote that is open and the word that is being read.
\<close>

definition plain_word_char :: "char \<Rightarrow> bool" where
  "plain_word_char c = (is_alnum c \<or> c \<in> set ''-_./=:@,+'')"

fun sh_words :: "char option \<Rightarrow> string option \<Rightarrow> string \<Rightarrow> string list option" where
  "sh_words None None [] = Some []"
| "sh_words None (Some w) [] = Some [w]"
| "sh_words (Some quot) w [] = None"
| "sh_words None w (c # cs) =
     (if c = CHR '' ''
      then (case w of None \<Rightarrow> sh_words None None cs | Some v \<Rightarrow> map_option ((#) v) (sh_words None None cs))
      else if c = CHR 0x27 \<or> c = CHR 0x22 then sh_words (Some c) (Some (case w of None \<Rightarrow> [] | Some v \<Rightarrow> v)) cs
      else if plain_word_char c then sh_words None (Some ((case w of None \<Rightarrow> [] | Some v \<Rightarrow> v) @ [c])) cs
      else None)"
| "sh_words (Some quot) w (c # cs) =
     (if c = quot then sh_words None w cs
      else if quot = CHR 0x22 \<and> (c = CHR ''$'' \<or> c = CHR 0x60 \<or> c = CHR 0x5C) then None
      else sh_words (Some quot) (Some ((case w of None \<Rightarrow> [] | Some v \<Rightarrow> v) @ [c])) cs)"

abbreviation shell_words :: "string \<Rightarrow> string list option" where
  "shell_words s \<equiv> sh_words None None s"

lemma sh_quoted_body:
  "sh_words (Some (CHR 0x27)) (Some v) (concat (map quote_char s) @ CHR 0x27 # rest) = sh_words None (Some (v @ s)) rest"
  by (induction s arbitrary: v) (auto simp: quote_char_def)

lemma sh_quoted: "sh_words None None (shell_quote s @ rest) = sh_words None (Some s) rest"
  by (simp add: shell_quote_def sh_quoted_body)

lemma sh_quoted_end: "sh_words None None (shell_quote s) = Some [s]"
  using sh_quoted [of s "[]"] by simp

lemma sh_word_end: "sh_words None (Some v) (CHR '' '' # rest) = map_option ((#) v) (sh_words None None rest)"
  by simp

text \<open>
  C35. No input escapes its word: whatever the Kubernetes context, the id of the database, the
  service and the host contain, the shell reads the two generated forwards as exactly the program,
  its options and one word for each of them.
\<close>

theorem forward_commands_read_back:
  "shell_words (forward_command ctx namespace service port target) =
     Some [''kubectl'', ''--context'', ctx, ''--namespace'', namespace, ''port-forward'', ''--address'', ''127.0.0.1'',
           ''service/'' @ service, Itoa port @ '':'' @ Itoa target]
   \<and> shell_words (tunnel_command port host) =
     Some [''ssh'', ''-N'', ''-o'', ''ExitOnForwardFailure=yes'', ''-L'', ''127.0.0.1:'' @ Itoa port @ '':127.0.0.1:'' @ Itoa port,
           ''--'', host]"
  by (simp add: forward_command_def tunnel_command_def sh_quoted sh_quoted_end plain_word_char_def is_alnum_def
      is_alpha_def is_lower_def is_upper_def is_digit_def code_def)

section \<open>When a guide carries commands\<close>

definition has_command :: "PrivateAccessGuide \<Rightarrow> bool" where
  "has_command g = list_ex (\<lambda>st. ps_Command st \<noteq> []) (pg_Steps g)"

lemma found: "find P xs = Some x \<Longrightarrow> x \<in> set xs \<and> P x"
  by (induction xs) (auto split: if_splits)

lemma access_guide_endpoint: "pg_Endpoint (access_guide d i e service g) = pg_Endpoint g"
  by (simp add: access_guide_def Let_def split: prod.splits)

lemma PrivateAccess_cases:
  assumes "PrivateAccess d i managedCloud now = Inr g" "has_command g"
  obtains e service where "PrivateAccessInput_Validate i = Inr ()" "e \<in> set (ob_Endpoints (rs_Observation d))"
    "ep_Purpose e = pi_Endpoint i" "\<not> stale_for_access d now" "endpoint_service d e = Inr service"
    "access_blockers d i managedCloud = []" "pg_Endpoint g = e"
  using assms unfolding PrivateAccess_def
  by (auto simp: result_iff Let_def access_guide_endpoint has_command_def dest!: found split: option.splits if_splits)

text \<open>
  A guide carries a command only for a database that is ready, and observed ready at this
  revision within the last two minutes; for the observed endpoint the person asked for, whose service
  is in the namespace of that database. Outside Kubernetes it carries one only with a kubectl context,
  never in a managed cloud, and never for an engine whose clients discover further members.
\<close>

theorem access_commands_confined:
  assumes "PrivateAccess d i managedCloud now = Inr g" "has_command g"
  shows "rs_Status d = ''ready'' \<and> ob_Status (rs_Observation d) = ''ready''
    \<and> ob_Revision (rs_Observation d) = rs_Revision d
    \<and> ob_ObservedAt (rs_Observation d) \<le> now \<and> now - ob_ObservedAt (rs_Observation d) \<le> 2 * minute
    \<and> pg_Endpoint g \<in> set (ob_Endpoints (rs_Observation d)) \<and> ep_Purpose (pg_Endpoint g) = pi_Endpoint i
    \<and> HasSuffix (TrimSuffix (ep_Host (pg_Endpoint g)) ''.cluster.local'') (''.hdb-'' @ rs_ID d @ ''.svc'')
    \<and> (pi_Location i \<noteq> ''kubernetes'' \<longrightarrow>
        pi_KubeContext i \<noteq> [] \<and> \<not> managedCloud \<and> \<not> member_aware (rs_Spec d))"
proof -
  from PrivateAccess_cases [OF assms] obtain e service where e: "e \<in> set (ob_Endpoints (rs_Observation d))"
    "ep_Purpose e = pi_Endpoint i" "\<not> stale_for_access d now" "endpoint_service d e = Inr service"
    "access_blockers d i managedCloud = []" "pg_Endpoint g = e" by metis
  have "HasSuffix (TrimSuffix (ep_Host e) ''.cluster.local'') (''.hdb-'' @ rs_ID d @ ''.svc'')"
    using e(4) unfolding endpoint_service_def by (auto simp: Let_def split: if_splits)
  then show ?thesis
    using e unfolding stale_for_access_def access_blockers_def missing_inputs_def
    by (auto simp: Let_def split: if_splits)
qed

definition demo_reached :: Resource where
  "demo_reached = \<lparr>rs_Recovery = None, rs_ID = ''d1'', rs_Project = ''shop'', rs_Environment = ''live'', rs_Revision = 3,
     rs_Spec = \<lparr>db_SchemaVersion = 1, db_Name = ''orders'', db_Engine = ''postgresql'', db_Version = ''18'',
       db_Mode = ''standalone'', db_Replicas = 0, db_Shards = 1, db_CPU = ''1'', db_Memory = ''1Gi'', db_StorageGiB = 10,
       db_Placement = \<lparr>pl_Spread = [], pl_NodeNames = []\<rparr>, db_TLS = Some \<lparr>tls_Mode = ''required''\<rparr>,
       db_Pooling = None, db_Postgres = None, db_ClickHouse = None, db_Oracle = None, db_Vitess = None\<rparr>,
     rs_Status = ''ready'', rs_Observation =
       \<lparr>ob_TLS = None, ob_ObservedAt = 100 * sec, ob_Revision = 3, ob_Status = ''ready'', ob_Members = [],
        ob_Endpoints = [\<lparr>ep_Purpose = ''read_write'', ep_Host = ''database-rw.hdb-d1.svc'', ep_Port = 5432\<rparr>],
        ob_Primary = [], ob_SlotsAssigned = 0, ob_SlotsHealthy = False, ob_TopologyFingerprint = []\<rparr>\<rparr>"

definition demo_person :: PrivateAccessInput where
  "demo_person = \<lparr>pi_Location = ''local'', pi_Endpoint = ''read_write'', pi_SSHHost = ''ops@bastion'',
     pi_KubeContext = ''live'', pi_LocalPort = 0\<rparr>"

lemma demo_guide:
  "case PrivateAccess demo_reached demo_person False (150 * sec) of Inl _ \<Rightarrow> False | Inr g \<Rightarrow> has_command g"
  by code_simp

theorem access_commands_confined_witness:
  "\<exists>g. PrivateAccess demo_reached demo_person False (150 * sec) = Inr g \<and> has_command g
     \<and> pi_KubeContext demo_person \<noteq> []"
proof (cases "PrivateAccess demo_reached demo_person False (150 * sec)")
  case (Inr g)
  then have g: "has_command g" using demo_guide by simp
  from access_commands_confined [OF Inr g] have "pi_KubeContext demo_person \<noteq> []"
    by (simp add: demo_person_def)
  with Inr g show ?thesis by blast
qed (use demo_guide in simp)

end
