(* ===== verification/Database_Wire.thy ===== *)
theory Database_Wire
  imports Go_Strings "HOL-Library.Word"
begin

unbundle bit_operations_syntax

text \<open>
  The Redis connection that copies snapshots (internal/database/redis_wire.go): the encoding of a
  command, the bounded reader of replies, and the cluster slot of a key. A connection is the list of
  bytes that are still to come; its deadlines are left out.
\<close>

definition RedisCopyMaxValue :: int where "RedisCopyMaxValue = 64 * 1048576"
definition wire_budget :: int where "wire_budget = RedisCopyMaxValue + 2 * 1048576"

definition CRLF :: string where "CRLF = [CR, LF]"

section \<open>Commands\<close>

definition encode_arg :: "string \<Rightarrow> string" where
  "encode_arg a = ''$'' @ Itoa (len a) @ CRLF @ a @ CRLF"

definition encode_command :: "string list \<Rightarrow> string" where
  "encode_command args = ''*'' @ Itoa (len args) @ CRLF @ concat (map encode_arg args)"

text \<open>
  What the connection sends for an accepted command. The code finds a command over the byte limit while
  it writes, so bytes of it may have left before the error; the caller drops the connection then.
\<close>

definition redis_command_text :: "string list \<Rightarrow> string result" where
  "redis_command_text args =
     (if args = [] \<or> 32 < len args then Inl (Err ''Redis command exceeds its argument limit'')
      else if wire_budget < sum_list (map len args) then Inl (Err ''Redis command exceeds its byte limit'')
      else Inr (encode_command args))"

section \<open>Replies\<close>

datatype reply = RNil | RInt int | RText string | RBulk string | RArray "reply list"

text \<open>\<open>ReadSlice\<close> over a buffer of 4096 bytes: the bytes up to the first line feed and what follows.\<close>

definition read_line :: "string \<Rightarrow> (string \<times> string) option" where
  "read_line s =
     (let l = takeWhile (\<lambda>c. c \<noteq> LF) s in
      if LF \<in> set s \<and> length l < 4096 then Some (l @ [LF], drop (length l + 1) s) else None)"

fun read_many ::
  "(int \<Rightarrow> string \<Rightarrow> (reply \<times> int \<times> string) result) \<Rightarrow> nat \<Rightarrow> int \<Rightarrow> string \<Rightarrow> (reply list \<times> int \<times> string) result" where
  "read_many read 0 budget s = Inr ([], budget, s)"
| "read_many read (Suc n) budget s =
     bindE (read budget s) (\<lambda>(v, budget', s').
       bindE (read_many read n budget' s') (\<lambda>(vs, budget'', s''). Inr (v # vs, budget'', s'')))"

definition read_bulk :: "int \<Rightarrow> int \<Rightarrow> string \<Rightarrow> (reply \<times> int \<times> string) result" where
  "read_bulk n budget s =
     (if RedisCopyMaxValue < n \<or> budget < n + 2 then Inl (Err ''Redis value exceeds the 64 MiB recovery limit'')
      else if len s < n + 2 then Inl (Err ''Redis bulk reply transport failed'')
      else if take 2 (drop (nat n) s) \<noteq> CRLF then Inl (Err ''Redis bulk reply is truncated'')
      else Inr (RBulk (take (nat n) s), budget - (n + 2), drop (nat n + 2) s))"

text \<open>
  \<open>readRedisReply\<close>: the first argument is how many levels are left, five at depth 0; the result has the
  budget and the bytes that are left.
\<close>

fun read_reply :: "nat \<Rightarrow> int \<Rightarrow> string \<Rightarrow> (reply \<times> int \<times> string) result" where
  "read_reply 0 budget s = Inl (Err ''Redis reply exceeds its limit'')"
| "read_reply (Suc levels) budget s =
     (if budget \<le> 0 then Inl (Err ''Redis reply exceeds its limit'')
      else case read_line s of
        None \<Rightarrow> Inl (Err ''Redis reply transport failed'')
      | Some (line, rest) \<Rightarrow>
          if length line < 3 \<or> line ! (length line - 2) \<noteq> CR then Inl (Err ''Redis reply framing is invalid'')
          else
            let budget = budget - len line; v = butlast (butlast (tl line)); kind = hd line in
            if kind = CHR ''+'' then Inr (RText v, budget, rest)
            else if kind = CHR ''-'' then Inl (Err ''Redis rejected a recovery command'')
            else if kind = CHR '':'' then
              (case Atoi v of None \<Rightarrow> Inl (Err ''Redis integer reply is invalid'') | Some i \<Rightarrow> Inr (RInt i, budget, rest))
            else if kind = CHR ''$'' \<or> kind = CHR ''*'' then
              (case Atoi v of
                 None \<Rightarrow> Inl (Err ''Redis reply length is invalid'')
               | Some n \<Rightarrow>
                   if n < -1 then Inl (Err ''Redis reply length is invalid'')
                   else if n = -1 then Inr (RNil, budget, rest)
                   else if kind = CHR ''$'' then read_bulk n budget rest
                   else if 16384 < n \<or> budget < n * 8 then Inl (Err ''Redis array reply exceeds its limit'')
                   else bindE (read_many (read_reply levels) (nat n) (budget - n * 8) rest) (\<lambda>(vs, budget, rest).
                     Inr (RArray vs, budget, rest)))
            else Inl (Err ''Redis reply type is unsupported''))"

definition readRedisReply :: "string \<Rightarrow> (reply \<times> int \<times> string) result" where
  "readRedisReply s = read_reply 5 wire_budget s"

section \<open>Cluster slots\<close>

text \<open>CRC16 with the polynomial 0x1021, bit by bit on a 16-bit register.\<close>

definition crc_bit :: "16 word \<Rightarrow> 16 word" where
  "crc_bit crc = (if crc AND 0x8000 \<noteq> 0 then push_bit 1 crc XOR 0x1021 else push_bit 1 crc)"

definition crc_byte :: "16 word \<Rightarrow> char \<Rightarrow> 16 word" where
  "crc_byte crc b = (crc_bit ^^ 8) (crc XOR push_bit 8 (word_of_nat (code b)))"

definition crc16 :: "string \<Rightarrow> 16 word" where
  "crc16 key = foldl crc_byte 0 key"

definition hash_tag :: "string \<Rightarrow> string" where
  "hash_tag key =
     (if CHR ''{'' \<in> set key then
        (let after = drop 1 (dropWhile (\<lambda>c. c \<noteq> CHR ''{'') key); tag = takeWhile (\<lambda>c. c \<noteq> CHR ''}'') after in
         if CHR ''}'' \<in> set after \<and> tag \<noteq> [] then tag else key)
      else key)"

definition RedisKeySlot :: "string \<Rightarrow> int" where
  "RedisKeySlot key = uint (crc16 (hash_tag key)) mod 16384"

text \<open>The check value of this CRC, 0x31C3.\<close>

lemma redis_slot_123456789: "RedisKeySlot ''123456789'' = 12739"
  by code_simp

section \<open>Reading back a command\<close>

lemma show_digits_length: "0 \<le> n \<Longrightarrow> n < 10 ^ Suc k \<Longrightarrow> length (show_digits n) \<le> Suc k"
proof (induction k arbitrary: n)
  case 0
  then show ?case by (subst show_digits.simps) simp
next
  case (Suc k)
  show ?case
  proof (cases "n < 10")
    case False
    have "length (show_digits (n div 10)) \<le> Suc k" using Suc.prems by (intro Suc.IH) simp_all
    then show ?thesis using False by (subst show_digits.simps) simp
  qed (subst show_digits.simps, simp)
qed

lemma Itoa_facts:
  assumes "0 \<le> n" "n < 10 ^ 18"
  shows "Atoi (Itoa n) = Some n" "LF \<notin> set (Itoa n)" "length (Itoa n) \<le> 18" "Itoa n \<noteq> []"
proof -
  have digits: "\<forall>c \<in> set (Itoa n). is_digit c" and full: "Itoa n \<noteq> []"
    using assms(1) by (simp_all add: Itoa_def show_digits_are_digits show_digits_not_Nil)
  then have head: "is_digit (hd (Itoa n))" by simp
  then have sign: "\<not> prefix ''-'' (Itoa n)" "\<not> prefix ''+'' (Itoa n)"
    using full by (cases "Itoa n"; auto simp: is_digit_def code_def)+
  have "read_digits 0 (Itoa n) = Some n" using assms(1) by (simp add: Itoa_def read_show_digits)
  then show "Atoi (Itoa n) = Some n" using sign full assms by (simp add: Atoi_def)
  show "LF \<notin> set (Itoa n)" using digits by (auto simp: is_digit_def LF_def code_def)
  show "length (Itoa n) \<le> 18" using show_digits_length [of n 17] assms by (simp add: Itoa_def)
  show "Itoa n \<noteq> []" by (rule full)
qed

lemma read_line_append:
  assumes "LF \<notin> set l" "length l < 4096"
  shows "read_line (l @ LF # rest) = Some (l @ [LF], rest)"
proof -
  have "takeWhile (\<lambda>c. c \<noteq> LF) (l @ LF # rest) = l" using assms(1) by (simp add: takeWhile_append)
  then show ?thesis using assms(2) by (simp add: read_line_def)
qed

text \<open>A line that carries a length: its first byte, the number and the line end.\<close>

lemma read_header:
  assumes "0 \<le> n" "n < 10 ^ 18" "kind \<noteq> LF"
  shows "read_line (kind # Itoa n @ CRLF @ rest) = Some (kind # Itoa n @ CRLF, rest)"
proof -
  note n = Itoa_facts [OF assms(1,2)]
  have "read_line ((kind # Itoa n @ [CR]) @ LF # rest) = Some ((kind # Itoa n @ [CR]) @ [LF], rest)"
    using n(2,3) assms(3) by (intro read_line_append) (auto simp: CR_def LF_def)
  then show ?thesis by (simp add: CRLF_def)
qed

lemma CR_LF: "CR \<noteq> LF" "CHR ''$'' \<noteq> LF" "CHR ''*'' \<noteq> LF"
  by code_simp+

lemma header_parts:
  assumes "x \<noteq> []"
  shows "\<not> length (kind # x @ CRLF) < 3" "(kind # x @ CRLF) ! (length (kind # x @ CRLF) - 2) = CR"
    "butlast (butlast (tl (kind # x @ CRLF))) = x" "hd (kind # x @ CRLF) = kind"
proof -
  show "\<not> length (kind # x @ CRLF) < 3" using assms by (cases x) (simp_all add: CRLF_def)
  have "length (kind # x @ CRLF) - 2 = length (kind # x)" by (simp add: CRLF_def)
  then show "(kind # x @ CRLF) ! (length (kind # x @ CRLF) - 2) = CR"
    by (simp only: append_Cons [symmetric] nth_append) (simp add: CRLF_def)
  show "butlast (butlast (tl (kind # x @ CRLF))) = x" by (simp add: CRLF_def butlast_append)
qed simp

lemma read_bulk_arg:
  assumes "len a \<le> RedisCopyMaxValue" "len (encode_arg a) \<le> b"
  shows "read_reply (Suc k) b (encode_arg a @ rest) = Inr (RBulk a, b - len (encode_arg a), rest)"
proof -
  have small: "0 \<le> len a" "len a < 10 ^ 18" using assms(1) by (simp_all add: RedisCopyMaxValue_def)
  let ?line = "CHR ''$'' # Itoa (len a) @ CRLF"
  have line: "read_line (encode_arg a @ rest) = Some (?line, a @ CRLF @ rest)"
    using read_header [OF small CR_LF(2), of "a @ CRLF @ rest"] by (simp add: encode_arg_def)
  note parts = header_parts [OF Itoa_facts(4) [OF small], of "CHR ''$''"]
  have cost: "len (encode_arg a) = len ?line + (len a + 2)" by (simp add: encode_arg_def len_length CRLF_def)
  have bulk: "read_bulk (len a) (b - len ?line) (a @ CRLF @ rest) = Inr (RBulk a, b - len ?line - (len a + 2), rest)"
    using assms cost by (simp add: read_bulk_def len_length CRLF_def)
  have "0 < b" "len a \<noteq> -1" "\<not> len a < -1" using assms(2) small by (simp_all add: encode_arg_def CRLF_def len_length)
  then show ?thesis
    using line parts bulk cost Itoa_facts(1) [OF small] by (simp add: Let_def del: len.simps)
qed

lemma read_many_args:
  assumes "\<forall>a \<in> set args. len a \<le> RedisCopyMaxValue" "len (concat (map encode_arg args)) \<le> b"
  shows "read_many (read_reply (Suc k)) (length args) b (concat (map encode_arg args) @ rest)
    = Inr (map RBulk args, b - len (concat (map encode_arg args)), rest)"
  using assms
proof (induction args arbitrary: b)
  case (Cons a args)
  have room: "len (encode_arg a) \<le> b" "len (concat (map encode_arg args)) \<le> b - len (encode_arg a)"
    using Cons.prems(2) len_nonneg [of "concat (map encode_arg args)"]
    unfolding list.map concat.simps len_append by linarith+
  have "read_reply (Suc k) b (encode_arg a @ concat (map encode_arg args) @ rest)
      = Inr (RBulk a, b - len (encode_arg a), concat (map encode_arg args) @ rest)"
    using Cons.prems(1) room(1) by (intro read_bulk_arg) simp_all
  then show ?case
    using Cons.IH [OF _ room(2)] Cons.prems(1) by (simp add: len_append algebra_simps del: len.simps read_reply.simps)
qed simp

lemma read_command:
  assumes "args \<noteq> []" "len args \<le> 32" "\<forall>a \<in> set args. len a \<le> RedisCopyMaxValue"
    and room: "len (encode_command args) + 8 * len args \<le> b"
  shows "read_reply (Suc (Suc k)) b (encode_command args @ rest)
    = Inr (RArray (map RBulk args), b - len (encode_command args) - 8 * len args, rest)"
proof -
  have small: "0 \<le> len args" "len args < 10 ^ 18" using assms(2) len_nonneg [of args] by simp_all
  let ?line = "CHR ''*'' # Itoa (len args) @ CRLF" and ?body = "concat (map encode_arg args)"
  have line: "read_line (encode_command args @ rest) = Some (?line, ?body @ rest)"
    using read_header [OF small CR_LF(3), of "?body @ rest"] by (simp add: encode_command_def)
  note parts = header_parts [OF Itoa_facts(4) [OF small], of "CHR ''*''"]
  have cost: "len (encode_command args) = len ?line + len ?body" by (simp add: encode_command_def len_append len_length)
  have body: "read_many (read_reply (Suc k)) (length args) (b - len ?line - len args * 8) (?body @ rest)
      = Inr (map RBulk args, b - len ?line - len args * 8 - len ?body, rest)"
    using room cost by (intro read_many_args assms(3)) linarith
  have "0 < b" "\<not> len args < -1" "len args \<noteq> -1" "\<not> 16384 < len args" "\<not> b - len ?line < len args * 8"
    using room cost small assms(2) len_nonneg [of ?body] len_nonneg [of ?line] by (simp_all add: len_length)
  then show ?thesis
    using line parts body cost Itoa_facts(1) [OF small]
    by (subst read_reply.simps) (simp add: Let_def len_length algebra_simps del: len.simps read_reply.simps read_many.simps)
qed

section \<open>Bounds\<close>

text \<open>The memory of a reply as the budget counts it, and how deeply it nests.\<close>

fun weight :: "reply \<Rightarrow> int" where
  "weight RNil = 0"
| "weight (RInt i) = 0"
| "weight (RText x) = len x"
| "weight (RBulk x) = len x + 2"
| "weight (RArray vs) = 8 * len vs + sum_list (map weight vs)"

fun depth :: "reply \<Rightarrow> nat" where
  "depth (RArray vs) = Suc (foldr max (map depth vs) 0)"
| "depth _ = 0"

lemma read_line_length: "read_line s = Some (l, rest) \<Longrightarrow> s = l @ rest \<and> 1 \<le> length l \<and> length l \<le> 4096"
proof -
  assume r: "read_line s = Some (l, rest)"
  let ?l = "takeWhile (\<lambda>c. c \<noteq> LF) s"
  have lf: "LF \<in> set s" and l: "l = ?l @ [LF]" "rest = drop (length ?l + 1) s" "length ?l < 4096"
    using r by (auto simp: read_line_def Let_def split: if_splits)
  from lf obtain y ys where d: "dropWhile (\<lambda>c. c \<noteq> LF) s = y # ys" by (cases "dropWhile (\<lambda>c. c \<noteq> LF) s") auto
  then have "y = LF" using hd_dropWhile [of "\<lambda>c. c \<noteq> LF" s] by simp
  then have s: "s = ?l @ LF # ys" using d by (metis takeWhile_dropWhile_id)
  then have "drop (length ?l + 1) s = ys" by (metis append_Cons append_Nil append_assoc append_eq_conv_conj length_append_singleton Suc_eq_plus1)
  then show ?thesis using s l by simp
qed

definition spent :: "nat \<Rightarrow> int \<Rightarrow> int \<Rightarrow> reply \<Rightarrow> bool" where
  "spent d b b' v \<longleftrightarrow> weight v \<le> b - b' \<and> -4096 < b' \<and> depth v \<le> d"

lemma read_many_spent:
  assumes "read_many read n b s = Inr (vs, b', s')" "-4096 < b"
    and step: "\<And>b s v b' s'. read b s = Inr (v, b', s') \<Longrightarrow> spent d b b' v"
  shows "length vs = n \<and> sum_list (map weight vs) \<le> b - b' \<and> -4096 < b' \<and> foldr max (map depth vs) 0 \<le> d"
  using assms(1,2)
proof (induction n arbitrary: b s vs)
  case (Suc n)
  from Suc.prems(1) obtain v m t ws where first: "read b s = Inr (v, m, t)"
    and rest: "read_many read n m t = Inr (ws, b', s')" and vs: "vs = v # ws"
    by (auto simp: result_iff)
  have v: "weight v \<le> b - m" "-4096 < m" "depth v \<le> d" using step [OF first] by (auto simp: spent_def)
  from Suc.IH [OF rest v(2)] v show ?case unfolding vs by simp
qed simp

lemma read_reply_spent:
  assumes "read_reply k b s = Inr (v, b', s')"
  shows "spent k b b' v"
  using assms
proof (induction k arbitrary: b s v b' s')
  case (Suc k)
  from Suc.prems obtain l rest where b: "0 < b" and line: "read_line s = Some (l, rest)" and l3: "3 \<le> length l"
    by (auto simp: Let_def split: if_splits option.splits)
  let ?b = "b - len l" and ?v = "butlast (butlast (tl l))"
  have l: "1 \<le> len l" "len l \<le> 4096" "len ?v = len l - 3"
    using read_line_length [OF line] l3 by (simp_all add: len_length)
  then have low: "-4096 < ?b" using b by linarith
  note run = Suc.prems [unfolded read_reply.simps line, simplified, unfolded Let_def]
  consider (plain) "v = RNil \<or> (\<exists>i. v = RInt i) \<or> v = RText ?v" "b' = ?b"
    | (bulk) n where "read_bulk n ?b rest = Inr (v, b', s')" "0 \<le> n"
    | (arr) n vs where "read_many (read_reply k) (nat n) (?b - n * 8) rest = Inr (vs, b', s')" "v = RArray vs"
        "0 \<le> n" "n * 8 \<le> ?b"
    using run by (auto simp: result_iff not_less split: if_splits option.splits)
  then show ?case
  proof cases
    case plain
    then show ?thesis using l low by (auto simp: spent_def)
  next
    case bulk
    from bulk(1) have "v = RBulk (take (nat n) rest)" "b' = ?b - (n + 2)" "n + 2 \<le> ?b" "\<not> len rest < n + 2"
      by (auto simp: read_bulk_def split: if_splits)
    then show ?thesis using l bulk(2) by (auto simp: spent_def len_length)
  next
    case arr
    have low': "-4096 < ?b - n * 8" using arr(4) by linarith
    have each: "spent k c c' w" if "read_reply k c t = Inr (w, c', t')" for c t w c' t'
      using Suc.IH [OF that] .
    from read_many_spent [OF arr(1) low' each] have "length vs = nat n" "sum_list (map weight vs) \<le> ?b - n * 8 - b'"
      "-4096 < b'" "foldr max (map depth vs) 0 \<le> k" by auto
    then show ?thesis using arr(2,3) l by (auto simp: spent_def len_length)
  qed
qed simp

section \<open>Properties\<close>

text \<open>
  C36. Redis commands read back: what the connection writes for a command of one to 32 arguments, none
  above 64 MiB, is read back by the reply reader as the array of exactly these arguments, whatever
  bytes they hold, as long as the text and eight bytes per argument fit the budget; what follows
  on the connection is untouched.
\<close>

theorem redis_command_roundtrip:
  assumes "redis_command_text args = Inr sent" "\<forall>a \<in> set args. len a \<le> RedisCopyMaxValue"
    and "len sent + 8 * len args \<le> wire_budget"
  shows "readRedisReply (sent @ rest) = Inr (RArray (map RBulk args), wire_budget - len sent - 8 * len args, rest)"
proof -
  have args: "args \<noteq> []" "len args \<le> 32" "sent = encode_command args"
    using assms(1) unfolding redis_command_text_def by (auto simp del: len.simps split: if_splits)
  have "read_reply (Suc (Suc 3)) wire_budget (encode_command args @ rest)
      = Inr (RArray (map RBulk args), wire_budget - len (encode_command args) - 8 * len args, rest)"
    using args(1,2) assms(2,3) unfolding args(3) by (rule read_command)
  then show ?thesis unfolding readRedisReply_def args(3) by (simp add: eval_nat_numeral del: read_reply.simps)
qed

lemma demo_command: "redis_command_text [''SET'', [CR, LF], ''$-1''] = Inr (''*3'' @ CRLF @ ''$3'' @ CRLF @ ''SET'' @ CRLF
    @ ''$2'' @ CRLF @ CRLF @ CRLF @ ''$3'' @ CRLF @ ''$-1'' @ CRLF)"
  by code_simp

theorem redis_command_roundtrip_witness:
  "\<exists>b. readRedisReply (encode_command [''SET'', [CR, LF], ''$-1''] @ ''+OK'')
     = Inr (RArray [RBulk ''SET'', RBulk [CR, LF], RBulk ''$-1''], b, ''+OK'')"
proof -
  have sent: "redis_command_text [''SET'', [CR, LF], ''$-1''] = Inr (encode_command [''SET'', [CR, LF], ''$-1''])"
    by code_simp
  have "\<forall>a \<in> set [''SET'', [CR, LF], ''$-1'']. len a \<le> RedisCopyMaxValue"
    "len (encode_command [''SET'', [CR, LF], ''$-1'']) + 8 * len [''SET'', [CR, LF], ''$-1''] \<le> wire_budget"
    by code_simp+
  from redis_command_roundtrip [OF sent this, of "''+OK''"] show ?thesis by auto
qed

text \<open>
  C37. A reply is bounded whatever the server sends: reading ends, and a reply that is accepted nests
  at most five arrays and holds at most 66 MiB and a line, counting eight bytes for each element
  of an array; the budget it leaves is what it had less at least that much.
\<close>

theorem redis_reply_bounded:
  assumes "readRedisReply s = Inr (v, left, rest)"
  shows "depth v \<le> 5 \<and> weight v \<le> wire_budget - left \<and> weight v < wire_budget + 4096"
  using read_reply_spent [OF assms [unfolded readRedisReply_def]] by (simp add: spent_def)

theorem redis_reply_bounded_witness:
  "\<exists>left. readRedisReply (''*2'' @ CRLF @ ''*1'' @ CRLF @ '':7'' @ CRLF @ ''$1'' @ CRLF @ ''x'' @ CRLF) =
     Inr (RArray [RArray [RInt 7], RBulk ''x''], left, []) \<and> weight (RArray [RArray [RInt 7], RBulk ''x'']) \<le> wire_budget - left"
proof -
  have run: "readRedisReply (''*2'' @ CRLF @ ''*1'' @ CRLF @ '':7'' @ CRLF @ ''$1'' @ CRLF @ ''x'' @ CRLF) =
     Inr (RArray [RArray [RInt 7], RBulk ''x''], wire_budget - 43, [])" by code_simp
  from redis_reply_bounded [OF run] run show ?thesis by blast
qed

text \<open>
  Keys that share a hash tag share a slot: a slot lies in 0 to 16383, and the slot of a key is that
  of the bytes between its first opening brace and the next closing one, when there are any.
\<close>

theorem redis_slot_of_tag:
  assumes "CHR ''{'' \<notin> set pre" "CHR ''}'' \<notin> set tag" "tag \<noteq> []"
  shows "RedisKeySlot (pre @ CHR ''{'' # tag @ CHR ''}'' # post) = uint (crc16 tag) mod 16384
    \<and> 0 \<le> RedisKeySlot key \<and> RedisKeySlot key < 16384"
proof -
  let ?key = "pre @ CHR ''{'' # tag @ CHR ''}'' # post"
  have open_: "dropWhile (\<lambda>c. c \<noteq> CHR ''{'') ?key = CHR ''{'' # tag @ CHR ''}'' # post"
    using assms(1) by (subst dropWhile_append2) auto
  have close: "takeWhile (\<lambda>c. c \<noteq> CHR ''}'') (tag @ CHR ''}'' # post) = tag"
    using assms(2) by (subst takeWhile_append2) auto
  have "hash_tag ?key = tag" using assms(3) close open_ by (simp add: hash_tag_def Let_def)
  then show ?thesis by (simp add: RedisKeySlot_def)
qed

theorem redis_slot_of_tag_witness: "RedisKeySlot ''user:{42}:name'' = RedisKeySlot ''{42}''"
  using redis_slot_of_tag [of "''user:''" "''42''" "'':name''" "[]"] redis_slot_of_tag [of "[]" "''42''" "[]" "[]"] by simp

end
