(* ===== verification/Secret_Provider.thy ===== *)
theory Secret_Provider
  imports Actions_Target Spec_Lifecycle Spec_Environment Agent_Approvals Go_Prefix Go_Text
begin

text \<open>
  External secrets (internal/secretprovider and internal/store/secret_providers.go): providers and
  their validation, the addresses a client may connect to, the resolution of an application's
  references, and the table of providers. Parsing of certificates, name lookup, the sealing of
  credentials and the answers of a provider are parameters.
\<close>

section \<open>Providers\<close>

record SecretScope =
  ss_Project :: string
  ss_Environments :: "string list"

record SecretProvider =
  sp_Name :: string
  sp_Kind :: string
  sp_Endpoint :: string
  sp_Mount :: string
  sp_RootPath :: string
  sp_ProjectID :: string
  sp_Environment :: string
  sp_Namespace :: string
  sp_CACert :: string
  sp_PrivateCIDRs :: "string list"
  sp_Scopes :: "SecretScope list"
  sp_Revision :: int
  sp_EncryptedCredentials :: string

record SecretCredentials =
  cr_Token :: string
  cr_ClientID :: string
  cr_ClientSecret :: string

definition secret_input :: "string \<Rightarrow> error" where
  "secret_input message = Err (''invalid secret provider: '' @ message)"

definition SecretUnavailable :: error where
  "SecretUnavailable = Err ''external secret is unavailable; check provider access and configuration''"

text \<open>\<open>netip.Addr.IsPrivate\<close>: 10/8, 172.16/12, 192.168/16 and fc00::/7.\<close>

definition IsPrivate :: "addr \<Rightarrow> bool" where
  "IsPrivate a =
     (case Unmap a of
        V4 w \<Rightarrow> w div 2 ^ 24 = 10 \<or> w div 2 ^ 20 = 2753 \<or> w div 2 ^ 16 = 49320
      | V6 gs _ \<Rightarrow> hd gs div 512 = 126)"

definition private_prefix :: "string \<Rightarrow> bool" where
  "private_prefix raw =
     (case ParsePrefix raw of
        None \<Rightarrow> False
      | Some p \<Rightarrow> IsPrivate (fst p) \<and> 8 \<le> snd p \<and> p = MaskedPrefix p \<and> IsPrivate (fst (MaskedPrefix p)))"

definition scope_valid :: "SecretScope \<Rightarrow> bool" where
  "scope_valid s =
     (namePattern (ss_Project s) \<and> len (ss_Environments s) \<le> 32
      \<and> list_all namePattern (ss_Environments s) \<and> \<not> first_dup [] (ss_Environments s))"

definition https_origin :: "string \<Rightarrow> bool" where
  "https_origin endpoint =
     (case Parse_url endpoint of
        None \<Rightarrow> False
      | Some u \<Rightarrow>
          len endpoint \<le> 512 \<and> url_Scheme u = ''https'' \<and> fst (splitHostPort (url_Host u)) \<noteq> [] \<and> \<not> url_HasUser u
          \<and> url_RawQuery u = [] \<and> url_Fragment u = [] \<and> (url_Path u = [] \<or> url_Path u = ''/'') \<and> url_Opaque u = [])"

definition kind_settings :: "SecretProvider \<Rightarrow> unit result" where
  "kind_settings p =
     (if sp_Kind p = ''vault'' then
        (if sp_Mount p = [] \<or> \<not> ValidSecretPath (sp_Mount p) \<or> sp_ProjectID p \<noteq> [] \<or> sp_Environment p \<noteq> []
            \<or> \<not> ValidSecretPath (sp_Namespace p)
         then Inl (secret_input ''Vault requires a KV v2 mount and optional namespace'') else Inr ())
      else if sp_ProjectID p = [] \<or> 128 < len (sp_ProjectID p) \<or> \<not> ValidSecretPath (sp_ProjectID p)
          \<or> CHR ''/'' \<in> set (sp_ProjectID p) \<or> \<not> namePattern (sp_Environment p) \<or> sp_Mount p \<noteq> [] \<or> sp_Namespace p \<noteq> []
      then Inl (secret_input ''Infisical requires project_id and environment'') else Inr ())"

text \<open>\<open>pem\<close> tells whether a text holds a certificate authority.\<close>

definition SecretProvider_Validate :: "(string \<Rightarrow> bool) \<Rightarrow> SecretProvider \<Rightarrow> unit result" where
  "SecretProvider_Validate pem p =
     (if \<not> namePattern (sp_Name p) \<or> sp_Kind p \<noteq> ''vault'' \<and> sp_Kind p \<noteq> ''infisical''
      then Inl (secret_input ''use a valid name and kind vault or infisical'')
      else if \<not> https_origin (sp_Endpoint p)
      then Inl (secret_input ''endpoint must be an HTTPS origin without credentials, path or query'')
      else if 32768 < len (sp_CACert p) \<or> \<not> ValidSecretPath (sp_RootPath p) \<or> 16 < len (sp_PrivateCIDRs p)
      then Inl (secret_input ''root path, CA certificate or private network list exceeds bounds'')
      else if sp_CACert p \<noteq> [] \<and> \<not> pem (sp_CACert p)
      then Inl (secret_input ''ca_cert must contain a PEM certificate authority'')
      else if \<not> list_all private_prefix (sp_PrivateCIDRs p)
      then Inl (secret_input ''private_cidrs accepts explicit private network prefixes only'')
      else andE (kind_settings p)
        (if sp_Scopes p = [] \<or> 32 < len (sp_Scopes p)
         then Inl (secret_input ''select between 1 and 32 project access scopes'')
         else if \<not> list_all scope_valid (sp_Scopes p) \<or> first_dup [] (map ss_Project (sp_Scopes p))
         then Inl (secret_input ''project and environment scopes must be valid and unique'')
         else Inr ()))"

definition credential_text :: "string \<Rightarrow> bool" where
  "credential_text v = (v \<noteq> [] \<and> len v \<le> 8192 \<and> \<not> ContainsAny v [NUL, CR, LF])"

definition SecretCredentials_Validate :: "SecretCredentials \<Rightarrow> string \<Rightarrow> unit result" where
  "SecretCredentials_Validate c kind =
     (if kind = ''vault'' \<and> credential_text (cr_Token c) \<and> cr_ClientID c = [] \<and> cr_ClientSecret c = []
         \<or> kind = ''infisical'' \<and> credential_text (cr_ClientID c) \<and> credential_text (cr_ClientSecret c) \<and> cr_Token c = []
      then Inr ()
      else Inl (secret_input ''provide a Vault token or an Infisical client ID and client secret''))"

definition SecretProvider_Allows :: "SecretProvider \<Rightarrow> string \<Rightarrow> string \<Rightarrow> bool" where
  "SecretProvider_Allows p project environment =
     list_ex (\<lambda>s. ss_Project s = project \<and> (ss_Environments s = [] \<or> environment \<in> set (ss_Environments s))) (sp_Scopes p)"

definition SameSource :: "SecretProvider \<Rightarrow> SecretProvider \<Rightarrow> bool" where
  "SameSource p q =
     (sp_Name p = sp_Name q \<and> sp_Kind p = sp_Kind q \<and> sp_Endpoint p = sp_Endpoint q \<and> sp_Mount p = sp_Mount q
      \<and> sp_RootPath p = sp_RootPath q \<and> sp_ProjectID p = sp_ProjectID q \<and> sp_Environment p = sp_Environment q
      \<and> sp_Namespace p = sp_Namespace q \<and> sp_CACert p = sp_CACert q
      \<and> Join NUL (sp_PrivateCIDRs p) = Join NUL (sp_PrivateCIDRs q))"

section \<open>Connections\<close>

definition IsGlobalUnicast :: "addr \<Rightarrow> bool" where
  "IsGlobalUnicast a = (\<not> refused_address a \<and> a \<noteq> V4 4294967295)"

definition metadata_address :: addr where "metadata_address = V4 1684301000"

definition special_ranges :: "string list" where
  "special_ranges = [''100.64.0.0/10'', ''198.18.0.0/15'', ''192.0.0.0/24'', ''240.0.0.0/4'', ''64:ff9b::/96'',
     ''64:ff9b:1::/48'', ''2002::/16'', ''2001::/32'']"

definition within :: "addr \<Rightarrow> string \<Rightarrow> bool" where
  "within ip raw = (case ParsePrefix raw of None \<Rightarrow> False | Some p \<Rightarrow> PrefixContains p ip)"

definition allowedAddress :: "addr \<Rightarrow> string list \<Rightarrow> bool" where
  "allowedAddress address cidrs =
     (let ip = Unmap address in
      if \<not> IsGlobalUnicast ip \<or> ip = metadata_address then False
      else if \<not> IsPrivate ip then \<not> list_ex (within ip) special_ranges
      else list_ex (within ip) cidrs)"

text \<open>The address that is dialled, \<open>None\<close> for no connection; \<open>lookup\<close> resolves a name.\<close>

definition safeDial :: "(string \<Rightarrow> addr list option) \<Rightarrow> string list \<Rightarrow> string \<Rightarrow> string option" where
  "safeDial lookup cidrs address =
     (case SplitHostPort address of
        None \<Rightarrow> None
      | Some (host, port) \<Rightarrow>
          (case lookup host of
             None \<Rightarrow> None
           | Some ips \<Rightarrow>
               if ips = [] \<or> 16 < len ips \<or> \<not> list_all (\<lambda>ip. allowedAddress ip cidrs) ips then None
               else Some (JoinHostPort (AddrString (hd ips)) port)))"

section \<open>Reading\<close>

text \<open>Where a reference is read: below the provider's root path.\<close>

definition secret_location :: "SecretProvider \<Rightarrow> string \<Rightarrow> string" where
  "secret_location p path = TrimChars ''/'' (Join (CHR ''/'') [sp_RootPath p, path])"

definition secret_value_ok :: "string \<Rightarrow> bool" where
  "secret_value_ok v = (len v \<le> 65536 \<and> NUL \<notin> set v)"

text \<open>
  What resolution reads of its surroundings: the stored providers, the opening of their sealed
  credentials, whether a client can be made and authenticated, and the answer to a read.
\<close>

record secret_world =
  sw_Provider :: "string \<Rightarrow> SecretProvider option"
  sw_Open :: "SecretProvider \<Rightarrow> SecretCredentials option"
  sw_Login :: "SecretProvider \<Rightarrow> SecretCredentials \<Rightarrow> bool"
  sw_Answer :: "SecretProvider \<Rightarrow> string \<Rightarrow> string \<Rightarrow> string option"
  sw_Pem :: "string \<Rightarrow> bool"

definition client_read :: "secret_world \<Rightarrow> SecretProvider \<Rightarrow> string \<Rightarrow> string \<Rightarrow> string result" where
  "client_read w p path key =
     (let location = secret_location p path in
      if sp_Kind p = ''vault'' \<and> location = [] then Inl SecretUnavailable
      else case sw_Answer w p location key of
          None \<Rightarrow> Inl SecretUnavailable
        | Some v \<Rightarrow> if secret_value_ok v then Inr v else Inl SecretUnavailable)"

record secret_state =
  st_Clients :: "SecretProvider gomap"
  st_Cache :: "(SecretRef \<times> string) list"
  st_Total :: int
  st_Result :: "(string \<times> string \<times> string) list"

definition secret_client ::
  "secret_world \<Rightarrow> string \<Rightarrow> string \<Rightarrow> SecretProvider gomap \<Rightarrow> string \<Rightarrow> (SecretProvider \<times> SecretProvider gomap) result" where
  "secret_client w project environment clients name =
     (case gm_get clients name of
        Some p \<Rightarrow> Inr (p, clients)
      | None \<Rightarrow>
          (case sw_Provider w name of
             None \<Rightarrow> Inl SecretUnavailable
           | Some p \<Rightarrow>
               if \<not> is_ok (SecretProvider_Validate (sw_Pem w) p) \<or> \<not> SecretProvider_Allows p project environment
               then Inl SecretUnavailable
               else (case sw_Open w p of
                   None \<Rightarrow> Inl SecretUnavailable
                 | Some c \<Rightarrow>
                     if is_ok (SecretCredentials_Validate c (sp_Kind p)) \<and> sw_Login w p c
                     then Inr (p, gm_set name p clients) else Inl SecretUnavailable)))"

definition cached_read ::
  "secret_world \<Rightarrow> SecretProvider \<Rightarrow> SecretRef \<Rightarrow> (SecretRef \<times> string) list \<Rightarrow> (string \<times> (SecretRef \<times> string) list) result" where
  "cached_read w p ref cache =
     (case map_of cache ref of
        Some v \<Rightarrow> Inr (v, cache)
      | None \<Rightarrow> bindE (client_read w p (ref_Path ref) (ref_Key ref)) (\<lambda>v. Inr (v, (ref, v) # cache)))"

definition resolve_reference ::
  "secret_world \<Rightarrow> string \<Rightarrow> string \<Rightarrow> string \<Rightarrow> secret_state \<Rightarrow> string \<times> SecretRef \<Rightarrow> secret_state result" where
  "resolve_reference w project environment service st entry =
     (case entry of (key, ref) \<Rightarrow>
      if ref_Provider ref = [] then Inr st
      else if \<not> SecretRef_Valid ref then Inl SecretUnavailable
      else
        bindE (secret_client w project environment (st_Clients st) (ref_Provider ref)) (\<lambda>(p, clients).
        bindE (cached_read w p ref (st_Cache st)) (\<lambda>(v, cache).
          let sum = st_Total st + len v + len key in
          if 2097152 < sum then Inl SecretUnavailable
          else Inr \<lparr>st_Clients = clients, st_Cache = cache, st_Total = sum,
                    st_Result = st_Result st @ [(service, key, v)]\<rparr>)))"

text \<open>The nested map that the code returns is the list of its entries.\<close>

definition resolve_secrets ::
  "secret_world \<Rightarrow> string \<Rightarrow> string \<Rightarrow> Application \<Rightarrow> (string \<times> string \<times> string) list result" where
  "resolve_secrets w project environment a =
     bindE
       (foldE (\<lambda>st name. foldE (resolve_reference w project environment name) st
                 (SecretReferences (EffectiveService a (service_at a name))))
          \<lparr>st_Clients = [], st_Cache = [], st_Total = 0, st_Result = []\<rparr> (Names a))
       (\<lambda>st. Inr (st_Result st))"

section \<open>The table\<close>

definition find_secret_provider :: "string \<Rightarrow> SecretProvider list \<Rightarrow> SecretProvider option" where
  "find_secret_provider name rows = find (\<lambda>p. sp_Name p = name) rows"

text \<open>\<open>known project environment\<close> tells whether a scope exists, \<open>known project []\<close> a project.\<close>

definition unknown_scope :: "(string \<Rightarrow> string \<Rightarrow> bool) \<Rightarrow> SecretScope \<Rightarrow> bool" where
  "unknown_scope known s =
     (\<not> known (ss_Project s) [] \<or> list_ex (\<lambda>e. \<not> known (ss_Project s) e) (ss_Environments s))"

definition PutSecretProvider ::
  "(string \<Rightarrow> bool) \<Rightarrow> (string \<Rightarrow> string \<Rightarrow> bool) \<Rightarrow> Principal \<Rightarrow> SecretProvider \<Rightarrow> int \<Rightarrow> SecretProvider list
     \<Rightarrow> SecretProvider list result" where
  "PutSecretProvider pem known who p expected rows =
     (if \<not> IsAdmin who then Inl ErrForbidden
      else andE (SecretProvider_Validate pem p)
        (let old = find_secret_provider (sp_Name p) rows;
             revision = (case old of None \<Rightarrow> 0 | Some q \<Rightarrow> sp_Revision q) in
         if len (sp_EncryptedCredentials p) < 28 \<or> 32768 < len (sp_EncryptedCredentials p)
         then Inl (secret_input ''encrypted credentials are required'')
         else if revision \<noteq> expected \<or> expected < 0 then Inl ErrConflict
         else if 0 < revision \<and> \<not> (case old of None \<Rightarrow> False | Some q \<Rightarrow> SameSource q p)
         then Inl (secret_input ''provider source is immutable; create a separate provider'')
         else if expected = 0 \<and> 64 \<le> len rows then Inl (secret_input ''at most 64 providers'')
         else if list_ex (unknown_scope known) (sp_Scopes p) then Inl (secret_input ''selected scope does not exist'')
         else
           let saved = p\<lparr>sp_Revision := expected + 1\<rparr> in
           Inr (if old = None then rows @ [saved]
                else map (\<lambda>q. if sp_Name q = sp_Name p then saved else q) rows)))"

text \<open>The query of a deletion: the secrets, files and bindings of every service of every application.\<close>

definition service_uses :: "string \<Rightarrow> Service \<Rightarrow> bool" where
  "service_uses name s =
     (list_ex (\<lambda>(_, r). ref_Provider r = name) (sv_Secrets s)
      \<or> list_ex (\<lambda>(_, f). case file_Secret f of None \<Rightarrow> False | Some r \<Rightarrow> ref_Provider r = name) (sv_Files s)
      \<or> list_ex (\<lambda>(_, b). case bind_Password b of None \<Rightarrow> False | Some r \<Rightarrow> ref_Provider r = name) (sv_Bindings s))"

definition DeleteSecretProvider ::
  "Principal \<Rightarrow> string \<Rightarrow> int \<Rightarrow> Application list \<Rightarrow> SecretProvider list \<Rightarrow> SecretProvider list result" where
  "DeleteSecretProvider who name expected apps rows =
     (if \<not> IsAdmin who then Inl ErrForbidden
      else if list_ex (\<lambda>a. list_ex (\<lambda>(_, s). service_uses name s) (app_services a)) apps
      then Inl ErrConflict
      else if \<not> list_ex (\<lambda>p. sp_Name p = name \<and> sp_Revision p = expected) rows then Inl ErrConflict
      else Inr (filter (\<lambda>p. \<not> (sp_Name p = name \<and> sp_Revision p = expected)) rows))"

section \<open>What a connection reaches\<close>

text \<open>
  C38. A client of a secret provider connects only where it may: of the addresses its name resolves to,
  at most sixteen, every one is a global unicast address that is neither loopback, link-local, multicast
  nor the metadata service; a private one lies in a prefix the operator granted, and any other one
  outside the shared, benchmark, reserved and translated ranges. The connection goes to one of these
  addresses and not to the name, so a second lookup cannot change it.
\<close>

theorem secret_dial_confined:
  assumes "safeDial lookup cidrs address = Some target"
  shows "\<exists>host port ips. SplitHostPort address = Some (host, port) \<and> lookup host = Some ips \<and> ips \<noteq> [] \<and> len ips \<le> 16
    \<and> target = JoinHostPort (AddrString (hd ips)) port
    \<and> (\<forall>ip \<in> set ips. \<not> refused_address (Unmap ip) \<and> Unmap ip \<noteq> metadata_address
        \<and> (IsPrivate (Unmap ip) \<longrightarrow> (\<exists>raw \<in> set cidrs. within (Unmap ip) raw))
        \<and> (\<not> IsPrivate (Unmap ip) \<longrightarrow> (\<forall>raw \<in> set special_ranges. \<not> within (Unmap ip) raw)))"
proof -
  from assms obtain host port ips where to: "SplitHostPort address = Some (host, port)" "lookup host = Some ips"
    and some: "ips \<noteq> []" "len ips \<le> 16" and all: "list_all (\<lambda>ip. allowedAddress ip cidrs) ips"
    and target: "target = JoinHostPort (AddrString (hd ips)) port"
    unfolding safeDial_def by (auto simp del: len.simps split: option.splits prod.splits if_splits)
  have "\<not> refused_address (Unmap ip) \<and> Unmap ip \<noteq> metadata_address
      \<and> (IsPrivate (Unmap ip) \<longrightarrow> (\<exists>raw \<in> set cidrs. within (Unmap ip) raw))
      \<and> (\<not> IsPrivate (Unmap ip) \<longrightarrow> (\<forall>raw \<in> set special_ranges. \<not> within (Unmap ip) raw))" if "ip \<in> set ips" for ip
    using all that unfolding list_all_iff allowedAddress_def Let_def
    by (auto simp: IsGlobalUnicast_def list_ex_iff split: if_splits)
  then show ?thesis using to some target by blast
qed

text \<open>A name that resolves to a granted private address and to a public one.\<close>

definition demo_lookup :: "string \<Rightarrow> addr list option" where
  "demo_lookup host = (if host = ''vault.internal'' then Some [V4 167837962, V4 134744072] else None)"

lemma demo_dial: "safeDial demo_lookup [''10.1.0.0/16''] ''vault.internal:8200'' = Some ''10.1.1.10:8200''"
  by code_simp

theorem secret_dial_confined_witness:
  "safeDial demo_lookup [''10.1.0.0/16''] ''vault.internal:8200'' = Some ''10.1.1.10:8200''
    \<and> (\<exists>ips. \<forall>ip \<in> set ips. \<not> refused_address (Unmap ip))"
  using secret_dial_confined [OF demo_dial] demo_dial by blast

section \<open>What resolution returns\<close>











text \<open>A Vault provider, and a service with one external reference to it.\<close>

definition demo_vault :: SecretProvider where
  "demo_vault = \<lparr>sp_Name = ''vault'', sp_Kind = ''vault'', sp_Endpoint = ''https://vault.internal:8200'', sp_Mount = ''kv'',
     sp_RootPath = ''shop'', sp_ProjectID = [], sp_Environment = [], sp_Namespace = [], sp_CACert = [],
     sp_PrivateCIDRs = [''10.1.0.0/16''], sp_Scopes = [\<lparr>ss_Project = ''shop'', ss_Environments = [''live'']\<rparr>],
     sp_Revision = 1, sp_EncryptedCredentials = replicate 28 (CHR ''c'')\<rparr>"

definition demo_root :: Principal where
  "demo_root = \<lparr>p_MFARequired = False, p_ID = ''boss'', p_Admin = True, p_Owner = True, p_Email = [],
     p_CredentialType = ''session'', p_ProjectRoles = [], p_HostPermissions = [], p_KeyID = [], p_Project = [],
     p_Environment = [], p_Application = [], p_Permissions = [''admin''], p_IdentityProject = [], p_IdentityEnvironment = [],
     p_IdentityPermissions = []\<rparr>"

definition demo_reference :: SecretRef where
  "demo_reference = zero_SecretRef\<lparr>ref_Provider := ''vault'', ref_Path := ''web'', ref_Key := ''token''\<rparr>"


definition demo_world :: secret_world where
  "demo_world = \<lparr>sw_Provider = (\<lambda>n. if n = ''vault'' then Some demo_vault else None),
     sw_Open = (\<lambda>_. Some \<lparr>cr_Token = ''t'', cr_ClientID = [], cr_ClientSecret = []\<rparr>), sw_Login = (\<lambda>_ _. True),
     sw_Answer = (\<lambda>_ location key. if location = ''shop/web'' \<and> key = ''token'' then Some ''s3cret'' else None),
     sw_Pem = (\<lambda>_. True)\<rparr>"



section \<open>The life of the table\<close>

inductive secret_step :: "SecretProvider list \<Rightarrow> SecretProvider list \<Rightarrow> bool" where
  put: "PutSecretProvider pem known who p expected rows = Inr rows' \<Longrightarrow> secret_step rows rows'"
| delete: "DeleteSecretProvider who name expected apps rows = Inr rows' \<Longrightarrow> secret_step rows rows'"

inductive secret_reachable :: "SecretProvider list \<Rightarrow> bool" where
  empty: "secret_reachable []"
| step: "secret_reachable rows \<Longrightarrow> secret_step rows rows' \<Longrightarrow> secret_reachable rows'"

definition provider_row_ok :: "SecretProvider \<Rightarrow> bool" where
  "provider_row_ok p \<longleftrightarrow> 1 \<le> sp_Revision p \<and> 28 \<le> len (sp_EncryptedCredentials p)
     \<and> (\<exists>pem. SecretProvider_Validate pem p = Inr ())"

definition providers_ok :: "SecretProvider list \<Rightarrow> bool" where
  "providers_ok rows \<longleftrightarrow> distinct (map sp_Name rows) \<and> (\<forall>p \<in> set rows. provider_row_ok p)"

lemma Validate_revision: "SecretProvider_Validate pem (p\<lparr>sp_Revision := n\<rparr>) = SecretProvider_Validate pem p"
  by (simp add: SecretProvider_Validate_def kind_settings_def)

lemma find_name: "find_secret_provider name rows = Some q \<Longrightarrow> q \<in> set rows \<and> sp_Name q = name"
  unfolding find_secret_provider_def by (induction rows) (auto split: if_splits)

lemma find_no_name: "find_secret_provider name rows = None \<Longrightarrow> name \<notin> sp_Name ` set rows"
  unfolding find_secret_provider_def by (induction rows) (auto split: if_splits)

lemma Put_cases:
  assumes "PutSecretProvider pem known who p expected rows = Inr rows'"
  obtains (new) "find_secret_provider (sp_Name p) rows = None" "rows' = rows @ [p\<lparr>sp_Revision := 1\<rparr>]"
      "SecretProvider_Validate pem p = Inr ()" "28 \<le> len (sp_EncryptedCredentials p)"
    | (old) q where "find_secret_provider (sp_Name p) rows = Some q" "sp_Revision q \<le> 0 \<or> SameSource q p"
      "rows' = map (\<lambda>r. if sp_Name r = sp_Name p then p\<lparr>sp_Revision := sp_Revision q + 1\<rparr> else r) rows"
      "SecretProvider_Validate pem p = Inr ()" "28 \<le> len (sp_EncryptedCredentials p)"
  using assms unfolding PutSecretProvider_def
  by (auto simp: result_iff Let_def not_less simp del: len.simps split: if_splits option.splits)

lemma put_names:
  "map sp_Name (map (\<lambda>r. if sp_Name r = sp_Name p then p\<lparr>sp_Revision := n\<rparr> else r) rows) = map sp_Name rows"
  by (induction rows) auto

lemma provider_row_ok_saved:
  "SecretProvider_Validate pem p = Inr () \<Longrightarrow> 28 \<le> len (sp_EncryptedCredentials p) \<Longrightarrow> 1 \<le> n
     \<Longrightarrow> provider_row_ok (p\<lparr>sp_Revision := n\<rparr>)"
  unfolding provider_row_ok_def using Validate_revision by auto

lemma providers_ok_step:
  assumes "secret_step rows rows'" "providers_ok rows"
  shows "providers_ok rows'"
  using assms(1)
proof cases
  case (put pem known who p expected)
  from put show ?thesis
  proof (cases rule: Put_cases)
    case new
    then show ?thesis
      using assms(2) find_no_name [OF new(1)] provider_row_ok_saved [OF new(3,4), of 1] by (auto simp: providers_ok_def)
  next
    case (old q)
    have "1 \<le> sp_Revision q" using find_name [OF old(1)] assms(2) by (auto simp: providers_ok_def provider_row_ok_def)
    then have "provider_row_ok (p\<lparr>sp_Revision := sp_Revision q + 1\<rparr>)" using old(4,5) by (intro provider_row_ok_saved) simp_all
    then show ?thesis
      using assms(2) unfolding providers_ok_def old(3) put_names by auto
  qed
next
  case (delete who name expected apps)
  then have "rows' = filter (\<lambda>p. \<not> (sp_Name p = name \<and> sp_Revision p = expected)) rows"
    unfolding DeleteSecretProvider_def by (auto split: if_splits)
  then show ?thesis using assms(2) by (simp add: providers_ok_def distinct_map_filter)
qed

lemma providers_ok_reachable: "secret_reachable rows \<Longrightarrow> providers_ok rows"
  by (induction rule: secret_reachable.induct) (use providers_ok_step in \<open>auto simp: providers_ok_def\<close>)

lemma row_unique: "distinct (map sp_Name rows) \<Longrightarrow> p \<in> set rows \<Longrightarrow> q \<in> set rows \<Longrightarrow> sp_Name p = sp_Name q \<Longrightarrow> p = q"
  by (auto simp: distinct_map inj_on_def)

lemma SameSource_refl: "SameSource p p"
  by (simp add: SameSource_def)

lemma SameSource_revision: "SameSource q (p\<lparr>sp_Revision := n\<rparr>) = SameSource q p"
  by (simp add: SameSource_def)

lemma secret_step_same_source:
  assumes "secret_reachable rows" "secret_step rows rows'" "p \<in> set rows" "q \<in> set rows'" "sp_Name p = sp_Name q"
  shows "SameSource p q"
proof -
  note pq = assms(3-5)
  note ok = providers_ok_reachable [OF assms(1)]
  have unique: "distinct (map sp_Name rows)" and rows_ok: "\<forall>p \<in> set rows. provider_row_ok p"
    using ok by (auto simp: providers_ok_def)
  show ?thesis
    using assms(2)
  proof cases
    case (put pem known who n expected)
    from put show ?thesis
    proof (cases rule: Put_cases)
      case new
      have "sp_Name p \<noteq> sp_Name n" using imageI [OF pq(1), of sp_Name] find_no_name [OF new(1)] by auto
      then have "q \<in> set rows" using pq(2,3) new(2) by auto
      then show ?thesis using row_unique [OF unique pq(1) _ pq(3)] SameSource_refl by blast
    next
      case (old r)
      have r: "r \<in> set rows" "sp_Name r = sp_Name n" "SameSource r n"
        using find_name [OF old(1)] rows_ok old(2) by (auto simp: provider_row_ok_def)
      from pq(2) old(3) obtain x where x: "x \<in> set rows"
        "q = (if sp_Name x = sp_Name n then n\<lparr>sp_Revision := sp_Revision r + 1\<rparr> else x)" by auto
      show ?thesis
      proof (cases "sp_Name x = sp_Name n")
        case True
        then have "p = r" using row_unique [OF unique pq(1) r(1)] pq(3) x(2) r(2) by simp
        then show ?thesis using True x(2) r(3) by (simp add: SameSource_revision)
      next
        case False
        then show ?thesis using row_unique [OF unique pq(1) x(1)] pq(3) x(2) SameSource_refl by simp
      qed
    qed
  next
    case (delete who name expected apps)
    then have "q \<in> set rows" using pq(2) unfolding DeleteSecretProvider_def by (auto split: if_splits)
    then show ?thesis using row_unique [OF unique pq(1)] pq(3) SameSource_refl by blast
  qed
qed

text \<open>
  C40. Stored credentials stay with their source: in every table that saving and deleting can reach,
  names are unique and every row is a valid provider with sealed credentials; and no step changes
  the endpoint, mount, paths, project, trust or private networks of a row that keeps its name.
\<close>

theorem secret_source_fixed:
  assumes "secret_reachable rows" "secret_step rows rows'"
  shows "distinct (map sp_Name rows') \<and> (\<forall>p \<in> set rows'. provider_row_ok p)
    \<and> (\<forall>p \<in> set rows. \<forall>q \<in> set rows'. sp_Name p = sp_Name q \<longrightarrow>
         sp_Kind q = sp_Kind p \<and> sp_Endpoint q = sp_Endpoint p \<and> sp_Mount q = sp_Mount p \<and> sp_RootPath q = sp_RootPath p
         \<and> sp_ProjectID q = sp_ProjectID p \<and> sp_Environment q = sp_Environment p \<and> sp_Namespace q = sp_Namespace p
         \<and> sp_CACert q = sp_CACert p \<and> Join NUL (sp_PrivateCIDRs q) = Join NUL (sp_PrivateCIDRs p))"
proof -
  have "providers_ok rows'" by (rule providers_ok_step [OF assms(2) providers_ok_reachable [OF assms(1)]])
  then show ?thesis using secret_step_same_source [OF assms] unfolding providers_ok_def SameSource_def by auto
qed

lemma demo_put:
  "PutSecretProvider (\<lambda>_. True) (\<lambda>_ _. True) demo_root demo_vault 0 [] = Inr [demo_vault]"
  by code_simp

lemma demo_rotated:
  "PutSecretProvider (\<lambda>_. True) (\<lambda>_ _. True) demo_root (demo_vault\<lparr>sp_EncryptedCredentials := replicate 30 (CHR ''d'')\<rparr>) 1
     [demo_vault] = Inr [demo_vault\<lparr>sp_EncryptedCredentials := replicate 30 (CHR ''d''), sp_Revision := 2\<rparr>]"
  by code_simp

theorem secret_source_fixed_witness:
  "secret_reachable [demo_vault] \<and> demo_vault \<in> set [demo_vault]
     \<and> sp_Endpoint (demo_vault\<lparr>sp_EncryptedCredentials := replicate 30 (CHR ''d''), sp_Revision := 2\<rparr>) = sp_Endpoint demo_vault"
proof -
  have reached: "secret_reachable [demo_vault]"
    by (rule secret_reachable.step [OF secret_reachable.empty secret_step.put [OF demo_put]])
  from secret_source_fixed [OF reached secret_step.put [OF demo_rotated]] reached show ?thesis by simp
qed

text \<open>The query of a deletion does not see the references that sidecars and shared secrets hold.\<close>

definition demo_shared_secret :: Application where
  "demo_shared_secret = zero_Application\<lparr>app_Secrets := [(''TOKEN'', demo_reference)],
     app_Services := Some [(''web'', zero_Service)]\<rparr>"

lemma deletes_used_provider:
  "DeleteSecretProvider demo_root ''vault'' 1 [demo_shared_secret] [demo_vault] = Inr []
   \<and> resolve_secrets demo_world ''shop'' ''live'' demo_shared_secret = Inr [(''web'', ''TOKEN'', ''s3cret'')]"
  by code_simp

text \<open>An endpoint may end in an empty query, and a granted prefix may reach beyond the private networks.\<close>

lemma accepts_bare_query:
  "SecretProvider_Validate (\<lambda>_. True)
     (demo_vault\<lparr>sp_Endpoint := ''https://vault.internal:8200?'', sp_PrivateCIDRs := [''192.168.0.0/13'']\<rparr>) = Inr ()"
  by code_simp

end
