(* ===== verification/Spec2Isabelle.thy ===== *)
theory Spec2Isabelle
  imports Spec_Properties Spec_Plan_Properties Agent_Properties Serverless_Properties Import_Properties
    Access_Properties Log_Query_Properties Log_Entry Advisory_Properties Dns_Properties
    Database_Properties Database_Public Database_Access Database_Wire Secret_Provider
begin

text \<open>
  Hakopod deploys applications to Kubernetes: a control plane (internal/api, internal/store) keeps
  versioned specifications of applications and managed databases, admits requests of people and of
  machine keys, and drives a cluster (internal/cluster, internal/worker). This development models the
  parts of it that decide: what a specification means, what a change is, who may do what, and what
  is sent to the systems around it. The parts that build objects for an API server, run SQL or
  speak a wire protocol are outside, and so listed below.

  The program's parts and their theories

  Specifications (internal/spec; the registration targets of internal/actions). Spec_Types has a
  record for every struct of the format, with its zero value; Spec_Json its JSON encoding.
  Spec_Patterns, Spec_Resources, Spec_Workload, Spec_Modes, Spec_Lifecycle, Spec_Storage,
  Spec_Network, Spec_Environment, Spec_Bindings, Spec_Order and Actions_Target follow the files of the
  package; Spec_Normalize composes them as the function Normalize does, in its order. Spec_Frames,
  Spec_Facts, Spec_Groups, Spec_Later, Spec_Sound and Spec_Cross carry each field and each check through
  the later steps, so that Spec_Properties can say what an accepted application satisfies and what
  Normalize leaves alone. Order is compared with the locale dependency_graph, and storage groups with
  the locale peer_graph, each interpreted on the graph of an application.

  Changes of a specification (internal/spec). Spec_Diff is the review a person sees, Spec_Transfer the
  plans over two applications, Spec_Resize the move of a volume, Spec_Rebase the three-way merge of a
  draft; Spec_Parts, Spec_Plans, Spec_Resize_Facts and Spec_Plan_Properties show what each plan moves
  and keeps. Spec_Dotenv and Spec_Import read environment files into a document; Import_Properties has
  the round trip of the format and the safety of secrets.

  Machine access (internal/agentaccess, internal/operations, internal/store, internal/api). Agent_Policy
  evaluates policies, Store_Access has the predicates on a principal, Operation_Routes resolves a request, Agent_Approvals is the table of approvals and
  Agent_Gate the handler that joins them, with the digest that binds an approval to a request. Agent_Life is the abstract life of one approval, which the
  statements on the table refine; Agent_Properties holds the properties.

  The serverless gateway (internal/serverless). Serverless_Gateway is a step relation over events: the
  pieces of the request handler, the refresh loop and the sleep loop between which other goroutines may
  run. Serverless_Facts has its invariant and the measure of its way out; Serverless_Properties says
  that bounds hold, that no used service is put to sleep, and that every request is answered.

  The management surface (internal/access, internal/api/installation_access.go). Access_Policy and
  Access_Gate decide which client may reach it; Access_Roundtrip prints and parses addresses;
  Access_Properties shows that a VPN-only policy confines and that a client cannot name itself.

  Logs (internal/logquery). Log_Query is tokens, parser and evaluation; Log_Query_Properties equates the
  parser with a grammar; Log_Entry is the reading of a line.

  Advisories (internal/advisory). Advisory_Match matches advisories against what runs; its facts and
  properties say that a vulnerable version is reported and an automatic update confined.

  DNS (internal/dnsprovider, internal/store/dns_providers.go, internal/api/dns_records.go).
  Dns_Provider is the client and the writing of records as a function of the requests sent so far,
  Dns_Facts the locale record_writer with its interpretation for Cloudflare, Dns_Store the table of
  providers; Dns_Properties bounds what is ever sent and what a stored credential is used for.

  External secrets (internal/secretprovider, internal/store/secret_providers.go). Secret_Provider has the
  providers, the addresses a client may dial, the resolution of the references of an application and
  the table of providers as a step relation, with the properties of each.

  Managed databases (internal/database). Database_Spec is the configuration of eight engines and its
  validation, Database_Plan the observation and the plan of a capacity change, Database_Public the
  review of a public listener, Database_Access the guide to private access, Database_Wire the Redis
  protocol that copies snapshots; each holds its properties, and Database_Properties those of
  validation and plans.

  Machinery. Prelude has errors as values, the result monad and its collection result_iff, and Go's
  maps; the Go_ theories translate what the code uses of strings, strconv, unicode, net, net/netip,
  net/url, encoding/base64 and crypto/sha256.

  Conventions

  A struct is a record whose fields carry a short prefix; a pointer is an option; a slice is a list,
  nil and empty being one value unless the code tells them apart. A map with string keys is an
  association list with distinct keys in key order (gomap), so that nil and empty are one value and a
  range over it, whose order Go leaves open, is taken in key order; where the order could matter the
  code sorts the keys first. A function that returns (T, error) returns a result: Inl an error,
  Inr the value; what the code returns beside an error is modelled where a caller reads it. Messages
  of errors are shortened, and texts that only people read may be too; where a message is read by the
  code (an error wrapped or compared) it is kept. Go's int and int64 are int where a check bounds them
  first; machine words are used where the code relies on them (SHA-256). Strings are lists of bytes.
  Times are int, in the unit of the code that keeps them (microseconds in the tables, nanoseconds
  elsewhere).

  Loops and fuel

  A loop over a list is a fold or a recursive function on it. Order carries the recursion of its
  visit as fuel, the number of names plus one: order_exists_iff_acyclic shows that it never runs
  out. The wildcard match is a while-like recursion with a measure, and MatchPattern_decides shows that it
  always answers and what. The query parser has a depth, at most 13, that the code has too, and its
  operator loops take one token in each round, the fuel being the number of tokens;
  Compile_accepts_grammar shows that no accepted sentence needs more. The gateway has no fuel:
  gateway_answers_all is about every reachable state.

  What is not under src/ is a parameter: the Kubernetes library's quantities and name checks, the cron,
  time zone, YAML and IDNA parsers (the record externals, ex_*), the TOML decoder (toml_library), the
  parsers of floats and times of log queries (lq_library), the JSON decoder (json_decoder), the generator
  of names (secret_namer), the lower case of Unicode letters (lower), the surroundings of the gate (ge_*),
  the answers of a DNS provider (dns_replies), and name lookup, certificates and the answers of a secret
  provider (secret_world). Nothing is assumed of them beyond what a property says,
  and each witness instantiates them.

  Not modelled, and why. The cluster package, the worker, the node agent, the session guard and the
  probes call Kubernetes, the kernel or a database and mostly build the objects they send; the store is SQL
  except for the tables named above; the HTTP API decodes requests around the decisions modelled here;
  managed platforms, backups and archives stream to external programs; the command line prints. The
  template catalog and the Compose importer read YAML documents of another module. Their entries are in
  the manifest as not_modelled.
\<close>

end
